(* ===== verification/PJ_Prelude.thy ===== *)
theory PJ_Prelude
  imports Main "HOL-Library.Word" "HOL-Library.Sublist" "HOL-Library.Multiset"
    "HOL-Library.Code_Target_Nat"
begin

text \<open>
  Shared vocabulary of the development: results with panics, the operations of the Rust
  standard library on vectors and iterators that the sources use, and the generic facts on
  lists and results that the component theories rely on.
\<close>

named_theorems res_simps \<open>equations that evaluate results\<close>
named_theorems panic_defs \<open>operations that can panic\<close>

section \<open>Results\<close>

text \<open>
  \<open>Result<T, E>\<close> of the sources, with a third outcome for a panic (an \<open>expect\<close> that fails,
  an index out of bounds, an arithmetic overflow).
\<close>

datatype ('a, 'e) res = Ok (res_val: 'a) | Err (res_err: 'e) | Panic

type_synonym byte = "8 word"

text \<open>\<open>rbind m f\<close> is the \<open>?\<close> operator followed by the rest of the function body.\<close>

fun rbind :: "('a, 'e) res \<Rightarrow> ('a \<Rightarrow> ('b, 'e) res) \<Rightarrow> ('b, 'e) res" where
  "rbind (Ok a) f = f a"
| "rbind (Err e) f = Err e"
| "rbind Panic f = Panic"

fun rmap :: "('a \<Rightarrow> 'b) \<Rightarrow> ('a, 'e) res \<Rightarrow> ('b, 'e) res" where
  "rmap f (Ok a) = Ok (f a)"
| "rmap f (Err e) = Err e"
| "rmap f Panic = Panic"

fun map_err :: "('e \<Rightarrow> 'f) \<Rightarrow> ('a, 'e) res \<Rightarrow> ('a, 'f) res" where
  "map_err g (Ok a) = Ok a"
| "map_err g (Err e) = Err (g e)"
| "map_err g Panic = Panic"

fun ok_or :: "'e \<Rightarrow> 'a option \<Rightarrow> ('a, 'e) res" where
  "ok_or e None = Err e"
| "ok_or e (Some a) = Ok a"

text \<open>\<open>expect\<close>: the value, or a panic.\<close>

fun expect :: "'a option \<Rightarrow> ('a, 'e) res" where
  "expect None = Panic"
| "expect (Some a) = Ok a"

fun ok :: "('a, 'e) res \<Rightarrow> 'a option" where
  "ok (Ok a) = Some a"
| "ok (Err e) = None"
| "ok Panic = None"

definition ensure :: "bool \<Rightarrow> 'e \<Rightarrow> (unit, 'e) res" where
  "ensure c e = (if \<not> c then Err e else Ok ())"

definition is_ok :: "('a, 'e) res \<Rightarrow> bool" where
  "is_ok r = (case r of Ok _ \<Rightarrow> True | _ \<Rightarrow> False)"

lemma rbind_eq_Ok: "rbind m f = Ok b \<longleftrightarrow> (\<exists>a. m = Ok a \<and> f a = Ok b)"
  by (cases m) auto

lemma rbind_eq_Err: "rbind m f = Err e \<longleftrightarrow> m = Err e \<or> (\<exists>a. m = Ok a \<and> f a = Err e)"
  by (cases m) auto

lemma rbind_eq_Panic: "rbind m f = Panic \<longleftrightarrow> m = Panic \<or> (\<exists>a. m = Ok a \<and> f a = Panic)"
  by (cases m) auto

lemma rmap_eq_Ok: "rmap f m = Ok b \<longleftrightarrow> (\<exists>a. m = Ok a \<and> b = f a)"
  by (cases m) auto

lemma rmap_eq_Err [simp]: "rmap f m = Err e \<longleftrightarrow> m = Err e"
  by (cases m) auto

lemma map_err_eq_Ok [simp]: "map_err g m = Ok a \<longleftrightarrow> m = Ok a"
  by (cases m) auto

lemma map_err_eq_Err: "map_err g m = Err e \<longleftrightarrow> (\<exists>d. m = Err d \<and> e = g d)"
  by (cases m) auto

lemma map_err_eq_Panic [simp]: "map_err g m = Panic \<longleftrightarrow> m = Panic"
  by (cases m) auto

lemma ok_or_eq_Ok [simp]: "ok_or e x = Ok a \<longleftrightarrow> x = Some a"
  by (cases x) auto

lemma ok_or_eq_Err: "ok_or e x = Err d \<longleftrightarrow> x = None \<and> d = e"
  by (cases x) auto

lemma ok_or_not_Panic [simp]: "ok_or e x \<noteq> Panic"
  by (cases x) auto

lemma expect_eq_Ok [simp]: "expect x = Ok a \<longleftrightarrow> x = Some a"
  by (cases x) auto

lemma expect_not_Err [simp]: "expect x \<noteq> Err e"
  by (cases x) auto

lemma ok_eq_Some [simp]: "ok r = Some a \<longleftrightarrow> r = Ok a"
  by (cases r) auto

lemma ensure_eq_Ok [simp]: "ensure c e = Ok u \<longleftrightarrow> c"
  by (simp add: ensure_def)

lemma ensure_eq_Err: "ensure c e = Err d \<longleftrightarrow> \<not> c \<and> d = e"
  by (auto simp: ensure_def)

lemma ensure_not_Panic [simp]: "ensure c e \<noteq> Panic"
  by (simp add: ensure_def)

lemma is_ok_iff: "is_ok r \<longleftrightarrow> (\<exists>a. r = Ok a)"
  by (cases r) (auto simp: is_ok_def)

lemmas res_Ok_simps = rbind_eq_Ok rmap_eq_Ok
lemmas res_Err_simps = rbind_eq_Err map_err_eq_Err ok_or_eq_Err ensure_eq_Err

text \<open>\<open>try_fold\<close>: a left fold that stops at the first error.\<close>

fun try_fold :: "('b \<Rightarrow> 'a \<Rightarrow> ('b, 'e) res) \<Rightarrow> 'b \<Rightarrow> 'a list \<Rightarrow> ('b, 'e) res" where
  "try_fold f b [] = Ok b"
| "try_fold f b (x # xs) = rbind (f b x) (\<lambda>b'. try_fold f b' xs)"

text \<open>\<open>collect::<Result<Vec<_>, _>>\<close> of a mapped iterator.\<close>

fun try_map :: "('a \<Rightarrow> ('b, 'e) res) \<Rightarrow> 'a list \<Rightarrow> ('b list, 'e) res" where
  "try_map f [] = Ok []"
| "try_map f (x # xs) = rbind (f x) (\<lambda>y. rmap (\<lambda>ys. y # ys) (try_map f xs))"

lemma try_map_Ok: "try_map f xs = Ok ys \<longleftrightarrow> list_all2 (\<lambda>x y. f x = Ok y) xs ys"
  by (induction xs arbitrary: ys) (auto simp: res_Ok_simps list_all2_Cons1)

section \<open>Vectors\<close>

text \<open>
  \<open>slice::get\<close>, indexing, \<open>Iterator::position\<close>, \<open>Vec::swap_remove\<close> (the last element takes
  the place of the removed one) and \<open>Vec::insert\<close>. Indexing, \<open>swap_remove\<close> and \<open>insert\<close>
  panic out of bounds.
\<close>

definition slice_get :: "'a list \<Rightarrow> nat \<Rightarrow> 'a option" where
  "slice_get xs i = (if i < length xs then Some (xs ! i) else None)"

definition index :: "'a list \<Rightarrow> nat \<Rightarrow> ('a, 'e) res" where
  "index xs i = (if i < length xs then Ok (xs ! i) else Panic)"

fun position :: "('a \<Rightarrow> bool) \<Rightarrow> 'a list \<Rightarrow> nat option" where
  "position P [] = None"
| "position P (x # xs) = (if P x then Some 0 else map_option Suc (position P xs))"

definition swap_remove :: "nat \<Rightarrow> 'a list \<Rightarrow> ('a \<times> 'a list, 'e) res" where
  "swap_remove i xs =
     (if i < length xs then Ok (xs ! i, butlast (xs[i := last xs])) else Panic)"

definition vec_insert :: "nat \<Rightarrow> 'a \<Rightarrow> 'a list \<Rightarrow> ('a list, 'e) res" where
  "vec_insert i x xs = (if i \<le> length xs then Ok (take i xs @ x # drop i xs) else Panic)"

definition set_index :: "nat \<Rightarrow> 'a \<Rightarrow> 'a list \<Rightarrow> ('a list, 'e) res" where
  "set_index i x xs = (if i < length xs then Ok (xs[i := x]) else Panic)"

lemma slice_get_eq_Some: "slice_get xs i = Some x \<longleftrightarrow> i < length xs \<and> x = xs ! i"
  by (auto simp: slice_get_def)

lemma slice_get_eq_None: "slice_get xs i = None \<longleftrightarrow> length xs \<le> i"
  by (auto simp: slice_get_def)

lemma index_eq_Ok: "index xs i = Ok x \<longleftrightarrow> i < length xs \<and> x = xs ! i"
  by (auto simp: index_def)

lemma index_not_Err [simp]: "index xs i \<noteq> Err e"
  by (simp add: index_def)

lemma index_eq_Panic: "index xs i = Panic \<longleftrightarrow> length xs \<le> i"
  by (auto simp: index_def)

lemma set_index_eq_Ok: "set_index i x xs = Ok ys \<longleftrightarrow> i < length xs \<and> ys = xs[i := x]"
  by (auto simp: set_index_def)

lemma set_index_not_Err [simp]: "set_index i x xs \<noteq> Err e"
  by (simp add: set_index_def)

lemma position_SomeD:
  "position P xs = Some i \<Longrightarrow> i < length xs \<and> P (xs ! i) \<and> (\<forall>j<i. \<not> P (xs ! j))"
proof (induction xs arbitrary: i)
  case (Cons x xs)
  then show ?case by (auto split: if_splits simp: less_Suc_eq_0_disj)
qed simp

lemma position_eq_None: "position P xs = None \<longleftrightarrow> (\<forall>x\<in>set xs. \<not> P x)"
  by (induction xs) auto

lemma position_exists: "x \<in> set xs \<Longrightarrow> P x \<Longrightarrow> \<exists>i. position P xs = Some i"
  by (cases "position P xs") (auto simp: position_eq_None)

lemma position_bound: "position P xs = Some i \<Longrightarrow> i < length xs"
  by (simp add: position_SomeD)

lemma position_holds: "position P xs = Some i \<Longrightarrow> P (xs ! i)"
  by (simp add: position_SomeD)

lemma swap_remove_Ok:
  "swap_remove i xs = Ok (x, ys) \<Longrightarrow> i < length xs \<and> x = xs ! i \<and> mset xs = add_mset x (mset ys)"
proof -
  assume a: "swap_remove i xs = Ok (x, ys)"
  then have i: "i < length xs" and x: "x = xs ! i" and ys: "ys = butlast (xs[i := last xs])"
    by (auto simp: swap_remove_def split: if_splits)
  then have ne: "xs \<noteq> []" by auto
  show ?thesis
  proof (cases "i = length xs - 1")
    case True
    then have "xs[i := last xs] = xs" using ne by (simp add: last_conv_nth)
    moreover have "x = last xs" using True x ne by (simp add: last_conv_nth)
    moreover have "mset xs = mset (butlast xs @ [last xs])" using ne by simp
    ultimately show ?thesis using i x ys by simp
  next
    case False
    define zs where "zs = butlast xs"
    have xs: "xs = zs @ [last xs]" using ne by (simp add: zs_def)
    have iz: "i < length zs" using False i by (simp add: zs_def)
    have "ys = zs[i := last xs]"
      unfolding ys by (subst (1) xs) (simp add: list_update_append1 iz)
    moreover have "x = zs ! i" unfolding x by (subst xs) (simp add: nth_append iz)
    moreover have "mset xs = add_mset (last xs) (mset zs)" by (subst xs) simp
    ultimately show ?thesis using i x iz by (simp add: mset_update add_mset_commute nth_mem_mset)
  qed
qed

lemma swap_remove_total: "i < length xs \<Longrightarrow> \<exists>x ys. swap_remove i xs = Ok (x, ys)"
  by (simp add: swap_remove_def)

lemma swap_remove_not_Err [simp]: "swap_remove i xs \<noteq> Err e"
  by (simp add: swap_remove_def)

lemma vec_insert_eq_Ok:
  "vec_insert i x xs = Ok ys \<longleftrightarrow> i \<le> length xs \<and> ys = take i xs @ x # drop i xs"
  by (auto simp: vec_insert_def)

lemma vec_insert_not_Err [simp]: "vec_insert i x xs \<noteq> Err e"
  by (simp add: vec_insert_def)

lemma mset_take_drop_insert: "mset (take i xs @ x # drop i xs) = add_mset x (mset xs)"
  by (metis append_take_drop_id mset.simps(2) mset_append union_mset_add_mset_right)

lemma subseq_take_drop_insert: "subseq xs (take i xs @ x # drop i xs)"
proof -
  have "subseq (take i xs @ drop i xs) (take i xs @ x # drop i xs)"
    by (intro list_emb_append_mono list_emb_Cons subseq_order.refl)
  then show ?thesis by simp
qed

section \<open>Aligned lists\<close>

text \<open>
  The sender and the receiver both walk a proposal with a peekable iterator over the original
  list and advance it on a match. \<open>aligned M E xs ys\<close> says what such a walk establishes: every
  element of \<open>xs\<close> is matched, in order, by an element of \<open>ys\<close>, and every other element of
  \<open>ys\<close> satisfies \<open>E\<close>.
\<close>

inductive aligned :: "('a \<Rightarrow> 'b \<Rightarrow> bool) \<Rightarrow> ('b \<Rightarrow> bool) \<Rightarrow> 'a list \<Rightarrow> 'b list \<Rightarrow> bool"
  for M :: "'a \<Rightarrow> 'b \<Rightarrow> bool" and E :: "'b \<Rightarrow> bool" where
  aligned_Nil: "aligned M E [] []"
| aligned_Match: "M x y \<Longrightarrow> aligned M E xs ys \<Longrightarrow> aligned M E (x # xs) (y # ys)"
| aligned_Extra: "E y \<Longrightarrow> aligned M E xs ys \<Longrightarrow> aligned M E xs (y # ys)"

inductive_simps aligned_Nil_right: "aligned M E xs []"

lemma aligned_list_emb: "aligned M E xs ys \<Longrightarrow> list_emb M xs ys"
  by (induction rule: aligned.induct) auto

lemma aligned_mono:
  assumes "aligned M E xs ys" and "\<And>x y. M x y \<Longrightarrow> M' x y" and "\<And>y. E y \<Longrightarrow> E' y"
  shows "aligned M' E' xs ys"
  using assms(1) by induction (auto intro: aligned.intros assms)

lemma aligned_length: "aligned M E xs ys \<Longrightarrow> length xs \<le> length ys"
  by (induction rule: aligned.induct) auto

lemma aligned_all_extra: "aligned M (\<lambda>_. True) [] ys"
  by (induction ys) (auto intro: aligned.intros)

lemma list_emb_aligned: "list_emb M xs ys \<Longrightarrow> aligned M (\<lambda>_. True) xs ys"
  by (induction rule: list_emb.induct) (auto intro: aligned.intros aligned_all_extra)

end
