(* ===== verification/PJ_Bitcoin.thy ===== *)
theory PJ_Bitcoin
  imports PJ_Prelude
begin

text \<open>
  The types of the \<open>bitcoin\<close> crate that the sources read and write, and the interface of the
  crate's functions.

  Transactions and PSBTs are records with the crate's fields, so that every field access and
  every \<open>..Default::default()\<close> of the sources has its counterpart. \<open>Amount\<close> (satoshis),
  \<open>FeeRate\<close> (satoshis per kwu) and \<open>Weight\<close> are unsigned numbers, hashes are numbers, scripts
  and witness elements are byte lists, and the key-value maps of a PSBT are lists of entries.

  The crate itself is not part of the sources: hashing, sizes, fee computation, script
  classification and the arithmetic of \<open>Amount\<close> and \<open>Weight\<close> are the fields of the record
  \<open>btc\<close>, which every operation that calls the crate takes as an argument. \<open>amounts_ok\<close> and
  \<open>weights_ok\<close> name what the sources rely on: the arithmetic operators return the exact result
  or panic.
\<close>

type_synonym amount = nat
type_synonym fee_rate = nat
type_synonym weight = nat
type_synonym txid = nat
type_synonym script = "byte list"
type_synonym witness_stack = "byte list list"
type_synonym entries = "(byte list \<times> byte list) list"

record outpoint =
  op_txid :: txid
  vout :: nat

record txin =
  previous_output :: outpoint
  script_sig :: script
  sequence :: nat
  witness :: witness_stack

record txout =
  txo_value :: amount
  script_pubkey :: script

record transaction =
  tx_version :: int
  lock_time :: nat
  tx_input :: "txin list"
  tx_output :: "txout list"

record psbt_input =
  non_witness_utxo :: "transaction option"
  witness_utxo :: "txout option"
  partial_sigs :: entries
  sighash_type :: "nat option"
  redeem_script :: "script option"
  witness_script :: "script option"
  bip32_derivation :: entries
  final_script_sig :: "script option"
  final_script_witness :: "witness_stack option"
  preimages :: entries
  tap_key_sig :: "byte list option"
  tap_script_sigs :: entries
  tap_scripts :: entries
  tap_key_origins :: entries
  tap_internal_key :: "byte list option"
  tap_merkle_root :: "byte list option"
  in_proprietary :: entries
  in_unknown :: entries

record psbt_output =
  out_redeem_script :: "script option"
  out_witness_script :: "script option"
  out_bip32_derivation :: entries
  out_tap_internal_key :: "byte list option"
  out_tap_tree :: "byte list option"
  out_tap_key_origins :: entries
  out_proprietary :: entries
  out_unknown :: entries

record psbt =
  unsigned_tx :: transaction
  psbt_version :: nat
  xpub :: entries
  proprietary :: entries
  unknown :: entries
  inputs :: "psbt_input list"
  outputs :: "psbt_output list"

text \<open>The \<open>Default\<close> instances that the sources use: every option absent, every map empty.\<close>

definition default_txin :: txin where
  "default_txin = \<lparr>previous_output = \<lparr>op_txid = 0, vout = 2 ^ 32 - 1\<rparr>, script_sig = [],
     sequence = 2 ^ 32 - 1, witness = []\<rparr>"

definition default_psbt_input :: psbt_input where
  "default_psbt_input = \<lparr>non_witness_utxo = None, witness_utxo = None, partial_sigs = [],
     sighash_type = None, redeem_script = None, witness_script = None, bip32_derivation = [],
     final_script_sig = None, final_script_witness = None, preimages = [], tap_key_sig = None,
     tap_script_sigs = [], tap_scripts = [], tap_key_origins = [], tap_internal_key = None,
     tap_merkle_root = None, in_proprietary = [], in_unknown = []\<rparr>"

definition default_psbt_output :: psbt_output where
  "default_psbt_output = \<lparr>out_redeem_script = None, out_witness_script = None,
     out_bip32_derivation = [], out_tap_internal_key = None, out_tap_tree = None,
     out_tap_key_origins = [], out_proprietary = [], out_unknown = []\<rparr>"

datatype address_type = P2pkh | P2sh | P2wpkh | P2wsh | P2tr | P2a

text \<open>\<open>TapSighashType\<close>, the result of \<open>PsbtSighashType::taproot_hash_ty\<close>.\<close>

datatype tap_sighash =
  Sighash_Default | Sighash_All | Sighash_None | Sighash_Single
  | All_AnyoneCanPay | None_AnyoneCanPay | Single_AnyoneCanPay

text \<open>
  The crate's functions. A partial operator (\<open>+\<close>, \<open>-\<close>, \<open>*\<close>, \<open>/\<close>) returns \<open>None\<close> where it
  panics; a fallible function returns \<open>None\<close> or an error code where it fails.
\<close>

record btc =
  compute_txid :: "transaction \<Rightarrow> txid"
  compute_ntxid :: "transaction \<Rightarrow> txid"
  extract_tx_unchecked_fee_rate :: "psbt \<Rightarrow> transaction"
  tx_weight :: "transaction \<Rightarrow> weight"
  txout_weight :: "txout \<Rightarrow> weight"
  psbt_fee :: "psbt \<Rightarrow> nat + amount"
  amount_add :: "amount \<Rightarrow> amount \<Rightarrow> amount option"
  amount_sub :: "amount \<Rightarrow> amount \<Rightarrow> amount option"
  amount_checked_sub :: "amount \<Rightarrow> amount \<Rightarrow> amount option"
  max_money :: amount
  weight_add :: "weight \<Rightarrow> weight \<Rightarrow> weight option"
  weight_sub :: "weight \<Rightarrow> weight \<Rightarrow> weight option"
  fee_mul :: "fee_rate \<Rightarrow> weight \<Rightarrow> amount option"
  checked_mul_by_weight :: "fee_rate \<Rightarrow> weight \<Rightarrow> amount option"
  fee_div :: "amount \<Rightarrow> weight \<Rightarrow> fee_rate option"
  broadcast_min :: fee_rate
  address_from_script :: "script \<Rightarrow> nat + address_type option"
  script_is_p2pkh :: "script \<Rightarrow> bool"
  script_is_p2sh :: "script \<Rightarrow> bool"
  script_is_p2wpkh :: "script \<Rightarrow> bool"
  script_is_p2wsh :: "script \<Rightarrow> bool"
  script_is_p2tr :: "script \<Rightarrow> bool"
  script_is_witness_program :: "script \<Rightarrow> bool"
  script_redeem_script :: "script \<Rightarrow> script option"
  input_weight_prediction :: "nat \<Rightarrow> nat list \<Rightarrow> weight"
  p2pkh_compressed_max :: weight
  p2wpkh_max :: weight
  p2tr_key_default_sighash :: weight
  p2tr_key_non_default_sighash :: weight
  from_non_witness_data_size :: "nat \<Rightarrow> weight"
  taproot_hash_ty :: "nat \<Rightarrow> tap_sighash option"

text \<open>
  What the sources rely on of the arithmetic of \<open>Amount\<close> and \<open>Weight\<close>: a result is exact, a
  subtraction below zero panics, \<open>checked_sub\<close> returns \<open>None\<close> there, and zero is neutral.
\<close>

definition amounts_ok :: "btc \<Rightarrow> bool" where
  "amounts_ok L \<longleftrightarrow>
     (\<forall>a b c. amount_add L a b = Some c \<longrightarrow> c = a + b) \<and>
     (\<forall>a b. amount_sub L a b = (if b \<le> a then Some (a - b) else None)) \<and>
     (\<forall>a b. amount_checked_sub L a b = (if b \<le> a then Some (a - b) else None))"

definition weights_ok :: "btc \<Rightarrow> bool" where
  "weights_ok L \<longleftrightarrow>
     (\<forall>a b c. weight_add L a b = Some c \<longrightarrow> c = a + b) \<and>
     (\<forall>a b c. weight_sub L a b = Some c \<longrightarrow> b \<le> a \<longrightarrow> c = a - b)"

lemma amount_add_exact: "amounts_ok L \<Longrightarrow> amount_add L a b = Some c \<Longrightarrow> c = a + b"
  by (auto simp: amounts_ok_def)

lemma amount_sub_exact: "amounts_ok L \<Longrightarrow> amount_sub L a b = Some c \<longleftrightarrow> b \<le> a \<and> c = a - b"
  by (auto simp: amounts_ok_def)

lemma amount_sub_panics: "amounts_ok L \<Longrightarrow> amount_sub L a b = None \<longleftrightarrow> a < b"
  by (auto simp: amounts_ok_def)

lemma amount_checked_sub_exact:
  "amounts_ok L \<Longrightarrow> amount_checked_sub L a b = (if b \<le> a then Some (a - b) else None)"
  by (auto simp: amounts_ok_def)

lemma weight_add_exact: "weights_ok L \<Longrightarrow> weight_add L a b = Some c \<Longrightarrow> c = a + b"
  by (auto simp: weights_ok_def)

text \<open>Sums of values with the crate's operator, as the folds over outputs compute them.\<close>

definition amount_sum :: "btc \<Rightarrow> amount list \<Rightarrow> (amount, 'e) res" where
  "amount_sum L vs = try_fold (\<lambda>acc v. expect (amount_add L acc v)) 0 vs"

definition weight_sum :: "btc \<Rightarrow> weight list \<Rightarrow> (weight, 'e) res" where
  "weight_sum L ws = try_fold (\<lambda>acc w. expect (weight_add L acc w)) 0 ws"

lemma amount_fold_exact:
  "amounts_ok L \<Longrightarrow> try_fold (\<lambda>acc v. expect (amount_add L acc v)) a vs = (Ok s :: (amount, 'e) res) \<Longrightarrow>
     s = a + sum_list vs"
proof (induction vs arbitrary: a)
  case (Cons v vs)
  from Cons.prems(2) obtain b where b: "amount_add L a v = Some b"
    and rest: "try_fold (\<lambda>acc v. expect (amount_add L acc v)) b vs = (Ok s :: (amount, 'e) res)"
    by (cases "amount_add L a v") auto
  from Cons.IH [OF Cons.prems(1) rest] amount_add_exact [OF Cons.prems(1) b] show ?case by simp
qed simp

lemma amount_sum_exact: "amounts_ok L \<Longrightarrow> amount_sum L vs = Ok s \<Longrightarrow> s = sum_list vs"
  using amount_fold_exact [of L 0 vs s] by (simp add: amount_sum_def)

lemma amount_fold_not_Err: "try_fold (\<lambda>acc v. expect (amount_add L acc v)) a vs \<noteq> Err e"
  by (induction vs arbitrary: a) (auto simp: rbind_eq_Err)

lemma amount_sum_not_Err [simp]: "amount_sum L vs \<noteq> Err e"
  by (simp add: amount_sum_def amount_fold_not_Err)

lemma weight_fold_exact:
  "weights_ok L \<Longrightarrow> try_fold (\<lambda>acc v. expect (weight_add L acc v)) a vs = (Ok s :: (weight, 'e) res) \<Longrightarrow>
     s = a + sum_list vs"
proof (induction vs arbitrary: a)
  case (Cons v vs)
  from Cons.prems(2) obtain b where b: "weight_add L a v = Some b"
    and rest: "try_fold (\<lambda>acc v. expect (weight_add L acc v)) b vs = (Ok s :: (weight, 'e) res)"
    by (cases "weight_add L a v") auto
  from Cons.IH [OF Cons.prems(1) rest] weight_add_exact [OF Cons.prems(1) b] show ?case by simp
qed simp

lemma weight_sum_exact: "weights_ok L \<Longrightarrow> weight_sum L vs = Ok s \<Longrightarrow> s = sum_list vs"
  using weight_fold_exact [of L 0 vs s] by (simp add: weight_sum_def)

text \<open>Values of a transaction's outputs, used by every statement about balances.\<close>

definition out_values :: "transaction \<Rightarrow> amount list" where
  "out_values t = map txo_value (tx_output t)"

definition out_total :: "transaction \<Rightarrow> amount" where
  "out_total t = sum_list (out_values t)"

definition outpoints :: "transaction \<Rightarrow> outpoint list" where
  "outpoints t = map previous_output (tx_input t)"

text \<open>The value that a list of outputs pays to a script.\<close>

definition paid_by :: "script \<Rightarrow> txout list \<Rightarrow> amount" where
  "paid_by s outs = sum_list (map txo_value (filter (\<lambda>t. script_pubkey t = s) outs))"

definition paid_to :: "script \<Rightarrow> transaction \<Rightarrow> amount" where
  "paid_to s tx = paid_by s (tx_output tx)"

lemma paid_by_simps [simp]:
  "paid_by s [] = 0"
  "paid_by s (t # ts) = (if script_pubkey t = s then txo_value t else 0) + paid_by s ts"
  by (simp_all add: paid_by_def)

lemma paid_by_append [simp]: "paid_by s (xs @ ys) = paid_by s xs + paid_by s ys"
  by (simp add: paid_by_def)

lemma paid_by_take: "paid_by s (take n xs) \<le> paid_by s xs"
  by (metis append_take_drop_id le_add1 paid_by_append)

lemma paid_by_zip: "paid_by s (map fst (zip xs ys)) \<le> paid_by s xs"
  by (simp add: map_fst_zip_take paid_by_take)

lemma paid_by_update:
  assumes "i < length outs" and "script_pubkey t = script_pubkey (outs ! i)"
  shows "paid_by s (outs[i := t]) + (if script_pubkey t = s then txo_value (outs ! i) else 0) =
    paid_by s outs + (if script_pubkey t = s then txo_value t else 0)"
proof -
  have "outs = take i outs @ outs ! i # drop (Suc i) outs" using assms(1) by (rule id_take_nth_drop)
  then have "paid_by s outs = paid_by s (take i outs) + paid_by s (outs ! i # drop (Suc i) outs)"
    by (metis paid_by_append)
  moreover have "paid_by s (outs[i := t]) = paid_by s (take i outs) + paid_by s (t # drop (Suc i) outs)"
    by (simp add: upd_conv_take_nth_drop [OF assms(1)])
  ultimately show ?thesis using assms(2) by simp
qed

end
