(* ===== verification/PJ_Psbt.thy ===== *)
theory PJ_Psbt
  imports PJ_Bitcoin
begin

text \<open>
  \<open>payjoin/src/core/psbt/mod.rs\<close>: the checks on a PSBT and its inputs that both parties share.
  \<open>PsbtExt\<close> becomes functions on \<open>psbt\<close>, \<open>InternalInputPair\<close> the record \<open>internal_input_pair\<close>.
  The conversion of \<open>vout\<close> from \<open>u32\<close> to \<open>usize\<close> cannot fail on the supported targets (32 and
  64 bit), so it is the identity here.
\<close>

datatype inconsistent_psbt =
  UnequalInputCounts nat nat   \<comment> \<open>transaction inputs, PSBT inputs\<close>
| UnequalOutputCounts nat nat  \<comment> \<open>transaction outputs, PSBT outputs\<close>

datatype prev_txout_error =
  MissingUtxoInformation
| IndexOutOfBounds nat nat     \<comment> \<open>output count, index\<close>

datatype address_type_error =
  AT_PrevTxOut prev_txout_error
| AT_InvalidScript nat
| AT_UnknownAddressType
| AT_FeeRateOverflow

datatype input_weight_error =
  IW_AddressType address_type_error
| IW_NoRedeemScript
| IW_NotSupported

datatype internal_psbt_input_error =
  PI_PrevTxOut prev_txout_error
| PI_UnequalTxid
| PI_SegWitTxOutMismatch
| PI_AddressType address_type_error
| PI_InvalidScriptPubKey address_type
| PI_WeightError input_weight_error
| PI_ProvidedUnnecessaryWeight

record psbt_inputs_error =
  pie_index :: nat
  pie_error :: internal_psbt_input_error

record internal_input_pair =
  ip_txin :: txin
  ip_psbtin :: psbt_input

definition non_witness_input_weight :: "btc \<Rightarrow> weight" where
  "non_witness_input_weight L = from_non_witness_data_size L (32 + 4 + 4)"

definition nested_p2wpkh_max :: "btc \<Rightarrow> weight" where
  "nested_p2wpkh_max L = input_weight_prediction L 23 [72, 33]"

section \<open>\<open>PsbtExt\<close>\<close>

definition input_pairs :: "psbt \<Rightarrow> internal_input_pair list" where
  "input_pairs p = map (\<lambda>(t, i). \<lparr>ip_txin = t, ip_psbtin = i\<rparr>) (zip (tx_input (unsigned_tx p)) (inputs p))"

definition psbt_validate :: "psbt \<Rightarrow> (psbt, inconsistent_psbt) res" where
  "psbt_validate p =
     (let tx_ins = length (tx_input (unsigned_tx p));
          psbt_ins = length (inputs p);
          tx_outs = length (tx_output (unsigned_tx p));
          psbt_outs = length (outputs p)
      in if psbt_ins \<noteq> tx_ins then Err (UnequalInputCounts tx_ins psbt_ins)
         else if psbt_outs \<noteq> tx_outs then Err (UnequalOutputCounts tx_outs psbt_outs)
         else Ok p)"

section \<open>\<open>InternalInputPair\<close>\<close>

definition utxo_of :: "internal_input_pair \<Rightarrow> transaction \<Rightarrow> (txout, prev_txout_error) res" where
  "utxo_of p tx =
     ok_or (IndexOutOfBounds (length (tx_output tx)) (vout (previous_output (ip_txin p))))
       (slice_get (tx_output tx) (vout (previous_output (ip_txin p))))"

definition previous_txout :: "internal_input_pair \<Rightarrow> (txout, prev_txout_error) res" where
  "previous_txout p =
     (case (non_witness_utxo (ip_psbtin p), witness_utxo (ip_psbtin p)) of
        (None, None) \<Rightarrow> Err MissingUtxoInformation
      | (Some tx, _) \<Rightarrow> utxo_of p tx
      | (None, Some txout) \<Rightarrow> Ok txout)"

definition validate_utxo ::
  "btc \<Rightarrow> internal_input_pair \<Rightarrow> (unit, internal_psbt_input_error) res" where
  "validate_utxo L p =
     (case (non_witness_utxo (ip_psbtin p), witness_utxo (ip_psbtin p)) of
        (None, None) \<Rightarrow> Err (PI_PrevTxOut MissingUtxoInformation)
      | (Some tx, None) \<Rightarrow>
          if compute_txid L tx = op_txid (previous_output (ip_txin p))
          then rmap (\<lambda>_. ()) (map_err PI_PrevTxOut (utxo_of p tx))
          else Err PI_UnequalTxid
      | (None, Some _) \<Rightarrow> Ok ()
      | (Some tx, Some witness_txout) \<Rightarrow>
          if compute_txid L tx = op_txid (previous_output (ip_txin p))
          then rbind (map_err PI_PrevTxOut (utxo_of p tx)) (\<lambda>non_witness_txout.
                 if witness_txout = non_witness_txout then Ok () else Err PI_SegWitTxOutMismatch)
          else Err PI_UnequalTxid)"

definition address_type_of ::
  "btc \<Rightarrow> internal_input_pair \<Rightarrow> (address_type, address_type_error) res" where
  "address_type_of L p =
     rbind (map_err AT_PrevTxOut (previous_txout p)) (\<lambda>txo.
       case address_from_script L (script_pubkey txo) of
         Inl e \<Rightarrow> Err (AT_InvalidScript e)
       | Inr at \<Rightarrow> ok_or AT_UnknownAddressType at)"

text \<open>The witness lengths that a P2WSH or P2TR spend is predicted from.\<close>

definition nonempty_witness :: "witness_stack option \<Rightarrow> witness_stack option" where
  "nonempty_witness w = (case w of Some (e # es) \<Rightarrow> Some (e # es) | _ \<Rightarrow> None)"

definition predict_p2sh :: "btc \<Rightarrow> psbt_input \<Rightarrow> (weight, input_weight_error) res" where
  "predict_p2sh L i =
     (let redeem = (case final_script_sig i of
                      Some sig \<Rightarrow> script_redeem_script L sig
                    | None \<Rightarrow> redeem_script i)
      in case redeem of
           Some script \<Rightarrow>
             if script_is_witness_program L script \<and> script_is_p2wpkh L script
             then Ok (nested_p2wpkh_max L) else Err IW_NotSupported
         | None \<Rightarrow> Err IW_NoRedeemScript)"

definition predict_witness ::
  "btc \<Rightarrow> txin \<Rightarrow> psbt_input \<Rightarrow> (weight, input_weight_error) res" where
  "predict_witness L t i =
     (if witness t \<noteq> [] then Ok (input_weight_prediction L 0 (map length (witness t)))
      else case nonempty_witness (final_script_witness i) of
             Some w \<Rightarrow> Ok (input_weight_prediction L 0 (map length w))
           | None \<Rightarrow> Err IW_NotSupported)"

definition expected_input_weight ::
  "btc \<Rightarrow> internal_input_pair \<Rightarrow> (weight, input_weight_error) res" where
  "expected_input_weight L p =
     rbind (map_err IW_AddressType (address_type_of L p)) (\<lambda>ty.
     rbind (case ty of
              P2pkh \<Rightarrow> Ok (p2pkh_compressed_max L)
            | P2sh \<Rightarrow> predict_p2sh L (ip_psbtin p)
            | P2wpkh \<Rightarrow> Ok (p2wpkh_max L)
            | P2wsh \<Rightarrow> predict_witness L (ip_txin p) (ip_psbtin p)
            | P2tr \<Rightarrow> predict_witness L (ip_txin p) (ip_psbtin p)
            | P2a \<Rightarrow> Err (IW_AddressType AT_UnknownAddressType)) (\<lambda>iwp.
     expect (weight_add L iwp (non_witness_input_weight L))))"

fun validate_utxos_from ::
  "btc \<Rightarrow> nat \<Rightarrow> internal_input_pair list \<Rightarrow> (unit, psbt_inputs_error) res" where
  "validate_utxos_from L i [] = Ok ()"
| "validate_utxos_from L i (p # ps) =
     rbind (map_err (\<lambda>e. \<lparr>pie_index = i, pie_error = e\<rparr>) (validate_utxo L p))
       (\<lambda>_. validate_utxos_from L (Suc i) ps)"

definition validate_input_utxos :: "btc \<Rightarrow> psbt \<Rightarrow> (unit, psbt_inputs_error) res" where
  "validate_input_utxos L p = validate_utxos_from L 0 (input_pairs p)"

section \<open>Lemmas\<close>

lemma input_pairs_txin:
  "length (tx_input (unsigned_tx p)) = length (inputs p) \<Longrightarrow>
     map ip_txin (input_pairs p) = tx_input (unsigned_tx p)"
  by (simp add: input_pairs_def case_prod_unfold comp_def)

lemma input_pairs_psbtin:
  "length (tx_input (unsigned_tx p)) = length (inputs p) \<Longrightarrow> map ip_psbtin (input_pairs p) = inputs p"
  by (simp add: input_pairs_def case_prod_unfold comp_def)

lemma length_input_pairs:
  "length (input_pairs p) = min (length (tx_input (unsigned_tx p))) (length (inputs p))"
  by (simp add: input_pairs_def)

lemma input_pairs_nth:
  "i < length (input_pairs p) \<Longrightarrow>
     input_pairs p ! i = \<lparr>ip_txin = tx_input (unsigned_tx p) ! i, ip_psbtin = inputs p ! i\<rparr>"
  by (simp add: input_pairs_def)

definition well_formed :: "psbt \<Rightarrow> bool" where
  "well_formed p \<longleftrightarrow> length (tx_input (unsigned_tx p)) = length (inputs p) \<and>
                     length (tx_output (unsigned_tx p)) = length (outputs p)"

lemma psbt_validate_Ok: "psbt_validate p = Ok q \<longleftrightarrow> well_formed p \<and> q = p"
  by (auto simp: psbt_validate_def well_formed_def Let_def)

lemma utxo_of_not_Panic [simp]: "utxo_of p tx \<noteq> Panic"
  by (simp add: utxo_of_def)

lemma previous_txout_not_Panic [simp]: "previous_txout p \<noteq> Panic"
  by (simp add: previous_txout_def split: option.split)

lemma validate_utxo_not_Panic [simp]: "validate_utxo L p \<noteq> Panic"
  by (auto simp: validate_utxo_def rbind_eq_Panic split: option.split)
    (auto simp: utxo_of_def slice_get_def split: if_splits)

text \<open>An input that passes the check has a previous output, authenticated where it can be.\<close>

lemma validate_utxo_previous_txout:
  assumes "validate_utxo L p = Ok u"
  shows "\<exists>txo. previous_txout p = Ok txo \<and>
    (\<forall>tx. non_witness_utxo (ip_psbtin p) = Some tx \<longrightarrow>
       compute_txid L tx = op_txid (previous_output (ip_txin p)) \<and>
       vout (previous_output (ip_txin p)) < length (tx_output tx) \<and>
       txo = tx_output tx ! vout (previous_output (ip_txin p))) \<and>
    (\<forall>w. witness_utxo (ip_psbtin p) = Some w \<longrightarrow> txo = w)"
  using assms
  by (auto simp: validate_utxo_def previous_txout_def utxo_of_def slice_get_def res_Ok_simps
      split: option.splits if_splits)

lemma validate_utxos_from_Ok:
  "validate_utxos_from L i ps = Ok u \<longleftrightarrow> (\<forall>p\<in>set ps. validate_utxo L p = Ok ())"
  by (induction ps arbitrary: i) (auto simp: res_Ok_simps)

lemma validate_utxos_from_Err:
  "validate_utxos_from L i ps = Err e \<longleftrightarrow>
     (\<exists>k<length ps. pie_index e = i + k \<and> validate_utxo L (ps ! k) = Err (pie_error e) \<and>
        (\<forall>j<k. validate_utxo L (ps ! j) = Ok ()))"
proof (induction ps arbitrary: i)
  case Nil
  then show ?case by simp
next
  case (Cons p ps)
  show ?case
  proof (cases "validate_utxo L p")
    case (Ok u)
    then show ?thesis
      by (simp add: Cons.IH Ex_less_Suc2 All_less_Suc2)
  next
    case (Err d)
    have "validate_utxos_from L i (p # ps) = Err e \<longleftrightarrow> e = \<lparr>pie_index = i, pie_error = d\<rparr>"
      using Err by auto
    also have "\<dots> \<longleftrightarrow> pie_index e = i \<and> pie_error e = d" by (cases e) simp
    finally show ?thesis using Err by (auto simp: Ex_less_Suc2 All_less_Suc2)
  qed simp
qed

end
