(* ===== verification/PJ_Protocol.thy ===== *)
theory PJ_Protocol
  imports PJ_Prelude
begin

text \<open>
  The protocol's small vocabularies: \<open>output_substitution.rs\<close>, \<open>version.rs\<close> and
  \<open>error_codes.rs\<close> of \<open>payjoin/src/core\<close>. Strings are byte strings (UTF-8).
\<close>

datatype output_substitution = Enabled | Disabled

datatype version = One | Two

definition version_u8 :: "version \<Rightarrow> nat" where
  "version_u8 v = (case v of One \<Rightarrow> 1 | Two \<Rightarrow> 2)"

definition version_to_string :: "version \<Rightarrow> string" where
  "version_to_string v = (case v of One \<Rightarrow> ''1'' | Two \<Rightarrow> ''2'')"

definition version_deserialize :: "nat \<Rightarrow> version option" where
  "version_deserialize n = (if n = 1 then Some One else if n = 2 then Some Two else None)"

datatype error_code = Unavailable | NotEnoughMoney | VersionUnsupported | OriginalPsbtRejected

fun error_code_as_str :: "error_code \<Rightarrow> string" where
  "error_code_as_str Unavailable = ''unavailable''"
| "error_code_as_str NotEnoughMoney = ''not-enough-money''"
| "error_code_as_str VersionUnsupported = ''version-unsupported''"
| "error_code_as_str OriginalPsbtRejected = ''original-psbt-rejected''"

definition error_code_from_str :: "string \<Rightarrow> error_code option" where
  "error_code_from_str s =
     (if s = ''unavailable'' then Some Unavailable
      else if s = ''not-enough-money'' then Some NotEnoughMoney
      else if s = ''version-unsupported'' then Some VersionUnsupported
      else if s = ''original-psbt-rejected'' then Some OriginalPsbtRejected
      else None)"

lemma version_roundtrip [simp]: "version_deserialize (version_u8 v) = Some v"
  by (cases v) (simp_all add: version_deserialize_def version_u8_def)

lemma error_code_str_roundtrip [simp]: "error_code_from_str (error_code_as_str c) = Some c"
  by (cases c) (simp_all add: error_code_from_str_def)

end
