(* ===== verification/PJ_Send.thy ===== *)
theory PJ_Send
  imports PJ_Psbt PJ_Protocol
begin

text \<open>
  \<open>payjoin/src/core/send/mod.rs\<close>: the sender's context builder and its validation of the
  receiver's proposal. The peekable iterators of the checks are lists of the elements still to
  come; each loop returns what its iterator has left.
\<close>

section \<open>Data\<close>

record additional_fee_contribution =
  max_amount :: amount
  fee_vout :: nat

record psbt_context_builder =
  bd_psbt :: psbt
  bd_payee :: script
  bd_amount :: "amount option"
  bd_fee_contribution :: "(amount \<times> nat option) option"
  bd_clamp_fee_contribution :: bool
  bd_min_fee_rate :: fee_rate

record sender_context =
  original_psbt :: psbt
  output_substitution :: output_substitution
  fee_contribution :: "additional_fee_contribution option"
  min_fee_rate :: fee_rate
  payee :: script

datatype build_sender_error =
  InvalidOriginalInput psbt_inputs_error
| InconsistentOriginalPsbt inconsistent_psbt
| OriginalTxinNonAllSighashType
| BS_NoInputs
| PayeeValueNotEqual
| NoOutputs
| MultiplePayeeOutputs
| MissingPayeeOutput
| FeeOutputValueLowerThanFeeContribution
| AmbiguousChangeOutput
| ChangeIndexOutOfBounds
| ChangeIndexPointsAtPayee
| BS_InputWeight input_weight_error
| BS_AddressType address_type_error

datatype proposal_error =
  InvalidAddressType address_type_error
| NoInputs
| PrevTxOut prev_txout_error
| InputWeight input_weight_error
| VersionsDontMatch int int        \<comment> \<open>proposed, original\<close>
| LockTimesDontMatch nat nat
| SenderTxinSequenceChanged nat nat
| SenderTxinContainsFinalScriptSig
| SenderTxinContainsFinalScriptWitness
| SenderTxinNonAllSighashType
| TxInContainsKeyPaths
| ContainsPartialSigs
| ReceiverTxinNotFinalized
| ReceiverTxinMissingUtxoInfo
| MixedSequence
| MissingOrShuffledInputs
| TxOutContainsKeyPaths
| FeeContributionExceedsMaximum
| DisallowedOutputSubstitution
| OutputValueDecreased
| MissingOrShuffledOutputs
| AbsoluteFeeDecreased
| PayeeTookContributedFee
| FeeContributionPaysOutputSizeIncrease
| FeeRateBelowMinimum
| Psbt nat

section \<open>Fee contribution\<close>

definition check_fee_output_amount ::
  "txout \<Rightarrow> amount \<Rightarrow> bool \<Rightarrow> (amount, build_sender_error) res" where
  "check_fee_output_amount output fee clamp =
     (if txo_value output < fee
      then if clamp then Ok (txo_value output) else Err FeeOutputValueLowerThanFeeContribution
      else Ok fee)"

definition find_change_index ::
  "psbt \<Rightarrow> script \<Rightarrow> amount \<Rightarrow> bool \<Rightarrow> (additional_fee_contribution option, build_sender_error) res" where
  "find_change_index p pay fee clamp =
     (let outs = tx_output (unsigned_tx p) in
      if length outs = 0 then Err NoOutputs
      else if length outs = 1 \<and> \<not> clamp \<and> script_pubkey (outs ! 0) = pay
      then Err FeeOutputValueLowerThanFeeContribution
      else if length outs = 1 \<and> clamp \<and> script_pubkey (outs ! 0) = pay then Ok None
      else if length outs = 1 then Err MissingPayeeOutput
      else if length outs = 2
      then rbind (ok_or MultiplePayeeOutputs (position (\<lambda>o'. script_pubkey o' \<noteq> pay) outs)) (\<lambda>i.
             rbind (check_fee_output_amount (outs ! i) fee clamp) (\<lambda>m.
               Ok (Some \<lparr>max_amount = m, fee_vout = i\<rparr>)))
      else Err AmbiguousChangeOutput)"

definition check_change_index ::
  "psbt \<Rightarrow> script \<Rightarrow> amount \<Rightarrow> nat \<Rightarrow> bool \<Rightarrow> (additional_fee_contribution, build_sender_error) res" where
  "check_change_index p pay fee i clamp =
     rbind (ok_or ChangeIndexOutOfBounds (slice_get (tx_output (unsigned_tx p)) i)) (\<lambda>output.
       if script_pubkey output = pay then Err ChangeIndexPointsAtPayee
       else rbind (check_fee_output_amount output fee clamp) (\<lambda>m.
              Ok \<lparr>max_amount = m, fee_vout = i\<rparr>))"

definition determine_fee_contribution ::
  "psbt \<Rightarrow> script \<Rightarrow> (amount \<times> nat option) option \<Rightarrow> bool \<Rightarrow>
     (additional_fee_contribution option, build_sender_error) res" where
  "determine_fee_contribution p pay contribution clamp =
     (case contribution of
        Some (fee, None) \<Rightarrow> find_change_index p pay fee clamp
      | Some (fee, Some i) \<Rightarrow> rmap Some (check_change_index p pay fee i clamp)
      | None \<Rightarrow> Ok None)"

fun single_payee_loop ::
  "script \<Rightarrow> amount option \<Rightarrow> bool \<Rightarrow> txout list \<Rightarrow> (bool, build_sender_error) res" where
  "single_payee_loop pay amt found [] = Ok found"
| "single_payee_loop pay amt found (output # rest) =
     (if script_pubkey output = pay
      then if (case amt of Some a \<Rightarrow> txo_value output \<noteq> a | None \<Rightarrow> False)
           then Err PayeeValueNotEqual
           else if found then Err MultiplePayeeOutputs
           else single_payee_loop pay amt True rest
      else single_payee_loop pay amt found rest)"

definition check_single_payee ::
  "psbt \<Rightarrow> script \<Rightarrow> amount option \<Rightarrow> (unit, build_sender_error) res" where
  "check_single_payee p pay amt =
     rbind (single_payee_loop pay amt False (tx_output (unsigned_tx p))) (\<lambda>found.
       if found then Ok () else Err MissingPayeeOutput)"

section \<open>The context builder\<close>

definition commits_to_all_inputs_and_outputs :: "btc \<Rightarrow> nat \<Rightarrow> bool" where
  "commits_to_all_inputs_and_outputs L ty =
     (case taproot_hash_ty L ty of
        Some t \<Rightarrow> t = Sighash_Default \<or> t = Sighash_All
      | None \<Rightarrow> False)"

definition new_builder :: "psbt \<Rightarrow> script \<Rightarrow> amount option \<Rightarrow> psbt_context_builder" where
  "new_builder p pay amt = \<lparr>bd_psbt = p, bd_payee = pay, bd_amount = amt,
     bd_fee_contribution = None, bd_clamp_fee_contribution = False, bd_min_fee_rate = 0\<rparr>"

fun check_sighash_types :: "btc \<Rightarrow> psbt_input list \<Rightarrow> (unit, build_sender_error) res" where
  "check_sighash_types L [] = Ok ()"
| "check_sighash_types L (i # is) =
     (case sighash_type i of
        Some ty \<Rightarrow>
          rbind (ensure (commits_to_all_inputs_and_outputs L ty) OriginalTxinNonAllSighashType)
            (\<lambda>_. check_sighash_types L is)
      | None \<Rightarrow> check_sighash_types L is)"

definition build ::
  "btc \<Rightarrow> psbt_context_builder \<Rightarrow> output_substitution \<Rightarrow> (sender_context, build_sender_error) res" where
  "build L b os =
     rbind (map_err InconsistentOriginalPsbt (psbt_validate (bd_psbt b))) (\<lambda>p.
     rbind (map_err InvalidOriginalInput (validate_input_utxos L p)) (\<lambda>_.
     rbind (check_sighash_types L (inputs p)) (\<lambda>_.
     rbind (check_single_payee p (bd_payee b) (bd_amount b)) (\<lambda>_.
     rbind (determine_fee_contribution p (bd_payee b) (bd_fee_contribution b)
              (bd_clamp_fee_contribution b)) (\<lambda>contribution.
       Ok \<lparr>original_psbt = p, output_substitution = os, fee_contribution = contribution,
           min_fee_rate = bd_min_fee_rate b, payee = bd_payee b\<rparr>)))))"

definition build_with_additional_fee ::
  "btc \<Rightarrow> psbt_context_builder \<Rightarrow> amount \<Rightarrow> nat option \<Rightarrow> fee_rate \<Rightarrow> bool \<Rightarrow> output_substitution \<Rightarrow>
     (sender_context, build_sender_error) res" where
  "build_with_additional_fee L b max_fee_contribution change_index min_rate clamp os =
     build L (b\<lparr>bd_fee_contribution := Some (max_fee_contribution, change_index),
               bd_clamp_fee_contribution := clamp, bd_min_fee_rate := min_rate\<rparr>) os"

definition build_non_incentivizing ::
  "btc \<Rightarrow> psbt_context_builder \<Rightarrow> fee_rate \<Rightarrow> output_substitution \<Rightarrow>
     (sender_context, build_sender_error) res" where
  "build_non_incentivizing L b min_rate os =
     build L (b\<lparr>bd_fee_contribution := None, bd_clamp_fee_contribution := False,
               bd_min_fee_rate := min_rate\<rparr>) os"

text \<open>
  \<open>Iterator::all\<close> on an iterator that is kept: it consumes elements up to and including the
  first that fails. \<open>build_recommended\<close> calls it repeatedly on the same \<open>payout_scripts\<close>.
\<close>

fun iter_all :: "('a \<Rightarrow> bool) \<Rightarrow> 'a list \<Rightarrow> bool \<times> 'a list" where
  "iter_all P [] = (True, [])"
| "iter_all P (x # xs) = (if P x then iter_all P xs else (False, xs))"

fun find_fee_output :: "script list \<Rightarrow> nat \<Rightarrow> txout list \<Rightarrow> (nat \<times> amount) option" where
  "find_fee_output scripts i [] = None"
| "find_fee_output scripts i (txo # rest) =
     (let (all_differ, scripts') = iter_all (\<lambda>s. s \<noteq> script_pubkey txo) scripts
      in if all_differ then Some (i, txo_value txo) else find_fee_output scripts' (Suc i) rest)"

fun mixed_input_weight ::
  "btc \<Rightarrow> internal_input_pair \<Rightarrow> weight \<Rightarrow> internal_input_pair list \<Rightarrow>
     (weight, build_sender_error) res" where
  "mixed_input_weight L first w [] = Ok w"
| "mixed_input_weight L first w (p # ps) =
     rbind (map_err BS_AddressType (address_type_of L p)) (\<lambda>t.
     rbind (map_err BS_AddressType (address_type_of L first)) (\<lambda>t0.
       if t \<noteq> t0
       then expect (weight_add L (p2tr_key_non_default_sighash L) (non_witness_input_weight L))
       else mixed_input_weight L first w ps))"

definition build_recommended ::
  "btc \<Rightarrow> psbt_context_builder \<Rightarrow> fee_rate \<Rightarrow> output_substitution \<Rightarrow>
     (sender_context, build_sender_error) res" where
  "build_recommended L b min_rate os =
     (let outs = tx_output (unsigned_tx (bd_psbt b));
          (is_sweep, payout_scripts) =
            (if length outs = 1
             then iter_all (\<lambda>s. s = script_pubkey (outs ! 0)) [bd_payee b]
             else (False, [bd_payee b]))
      in if is_sweep then build_non_incentivizing L b min_rate os
         else case find_fee_output payout_scripts 0 outs of
           None \<Rightarrow> build_non_incentivizing L b min_rate os
         | Some (additional_fee_index, fee_available) \<Rightarrow>
             (case input_pairs (bd_psbt b) of
                [] \<Rightarrow> Err BS_NoInputs
              | first # rest \<Rightarrow>
                  rbind (map_err BS_InputWeight (expected_input_weight L first)) (\<lambda>w0.
                  rbind (mixed_input_weight L first w0 rest) (\<lambda>input_weight.
                  rbind (ok_or (BS_AddressType AT_FeeRateOverflow)
                           (checked_mul_by_weight L min_rate input_weight)) (\<lambda>recommended.
                    if fee_available < recommended
                    then build_with_additional_fee L b fee_available (Some additional_fee_index)
                           min_rate True os
                    else build_with_additional_fee L b recommended (Some additional_fee_index)
                           min_rate False os)))))"

end
