(* ===== verification/PJ_Send_Check.thy ===== *)
theory PJ_Send_Check
  imports PJ_Send
begin

text \<open>
  \<open>payjoin/src/core/send/mod.rs\<close>, \<open>impl PsbtContext\<close>: the sender's validation of a proposal
  (\<open>process_proposal\<close>), the restoration of the fields that BIP 78 strips, and the removal of
  the sender's private fields before the original PSBT is sent.
\<close>

section \<open>Checks\<close>

definition basic_checks :: "sender_context \<Rightarrow> psbt \<Rightarrow> (unit, proposal_error) res" where
  "basic_checks c proposal =
     (let tx = unsigned_tx proposal; otx = unsigned_tx (original_psbt c) in
      if tx_version tx \<noteq> tx_version otx then Err (VersionsDontMatch (tx_version tx) (tx_version otx))
      else if lock_time tx \<noteq> lock_time otx then Err (LockTimesDontMatch (lock_time tx) (lock_time otx))
      else Ok ())"

text \<open>The two arms of the \<open>match\<close> in \<open>check_inputs\<close>: our (sender) and theirs (receiver).\<close>

definition check_sender_input ::
  "btc \<Rightarrow> internal_input_pair \<Rightarrow> internal_input_pair \<Rightarrow> (unit, proposal_error) res" where
  "check_sender_input L original proposed =
     rbind (if sequence (ip_txin proposed) \<noteq> sequence (ip_txin original)
            then Err (SenderTxinSequenceChanged (sequence (ip_txin proposed)) (sequence (ip_txin original)))
            else Ok ()) (\<lambda>_.
     rbind (ensure (final_script_sig (ip_psbtin proposed) = None)
              SenderTxinContainsFinalScriptSig) (\<lambda>_.
     rbind (ensure (final_script_witness (ip_psbtin proposed) = None)
              SenderTxinContainsFinalScriptWitness) (\<lambda>_.
     case sighash_type (ip_psbtin proposed) of
       Some ty \<Rightarrow> ensure (commits_to_all_inputs_and_outputs L ty) SenderTxinNonAllSighashType
     | None \<Rightarrow> Ok ())))"

definition check_receiver_input ::
  "sender_context \<Rightarrow> bool \<Rightarrow> internal_input_pair \<Rightarrow> (unit, proposal_error) res" where
  "check_receiver_input c ensure_finalized proposed =
     (case input_pairs (original_psbt c) of
        [] \<Rightarrow> Err NoInputs
      | original # _ \<Rightarrow>
          rbind (if ensure_finalized
                 then ensure (final_script_sig (ip_psbtin proposed) \<noteq> None
                              \<or> final_script_witness (ip_psbtin proposed) \<noteq> None)
                        ReceiverTxinNotFinalized
                 else Ok ()) (\<lambda>_.
          rbind (ensure (witness_utxo (ip_psbtin proposed) \<noteq> None
                         \<or> non_witness_utxo (ip_psbtin proposed) \<noteq> None)
                   ReceiverTxinMissingUtxoInfo) (\<lambda>_.
          ensure (sequence (ip_txin proposed) = sequence (ip_txin original)) MixedSequence)))"

fun check_inputs_loop ::
  "btc \<Rightarrow> sender_context \<Rightarrow> bool \<Rightarrow> internal_input_pair list \<Rightarrow> internal_input_pair list \<Rightarrow>
     (internal_input_pair list, proposal_error) res" where
  "check_inputs_loop L c fin originals [] = Ok originals"
| "check_inputs_loop L c fin originals (proposed # rest) =
     rbind (ensure (bip32_derivation (ip_psbtin proposed) = []) TxInContainsKeyPaths) (\<lambda>_.
     rbind (ensure (partial_sigs (ip_psbtin proposed) = []) ContainsPartialSigs) (\<lambda>_.
     case originals of
       original # originals' \<Rightarrow>
         if previous_output (ip_txin proposed) = previous_output (ip_txin original)
         then rbind (check_sender_input L original proposed) (\<lambda>_.
                check_inputs_loop L c fin originals' rest)
         else rbind (check_receiver_input c fin proposed) (\<lambda>_.
                check_inputs_loop L c fin originals rest)
     | [] \<Rightarrow> rbind (check_receiver_input c fin proposed) (\<lambda>_.
               check_inputs_loop L c fin [] rest)))"

definition check_inputs ::
  "btc \<Rightarrow> sender_context \<Rightarrow> psbt \<Rightarrow> bool \<Rightarrow> (unit, proposal_error) res" where
  "check_inputs L c proposal ensure_receiver_input_finalized =
     rbind (check_inputs_loop L c ensure_receiver_input_finalized
              (input_pairs (original_psbt c)) (input_pairs proposal)) (\<lambda>left.
       ensure (left = []) MissingOrShuffledInputs)"

text \<open>
  The arms of the \<open>match\<close> in \<open>check_outputs\<close>, in order: the fee output, the payee's output, our
  other outputs, an additional output of the receiver.
\<close>

fun check_outputs_loop ::
  "btc \<Rightarrow> sender_context \<Rightarrow> (nat \<times> txout) list \<Rightarrow> amount \<Rightarrow> (txout \<times> psbt_output) list \<Rightarrow>
     ((nat \<times> txout) list \<times> amount, proposal_error) res" where
  "check_outputs_loop L c originals contributed [] = Ok (originals, contributed)"
| "check_outputs_loop L c originals contributed ((proposed, psbtout) # rest) =
     rbind (ensure (out_bip32_derivation psbtout = []) TxOutContainsKeyPaths) (\<lambda>_.
     case originals of
       [] \<Rightarrow> check_outputs_loop L c [] contributed rest
     | (i, original) # originals' \<Rightarrow>
         if (case fee_contribution c of
               Some fc \<Rightarrow> script_pubkey proposed = script_pubkey original \<and> i = fee_vout fc
             | None \<Rightarrow> False)
         then if txo_value proposed < txo_value original
              then rbind (expect (amount_sub L (txo_value original) (txo_value proposed)))
                     (\<lambda>contributed'.
                     rbind (ensure (case fee_contribution c of
                                      Some fc \<Rightarrow> contributed' \<le> max_amount fc | None \<Rightarrow> True)
                              FeeContributionExceedsMaximum) (\<lambda>_.
                       check_outputs_loop L c originals' contributed' rest))
              else check_outputs_loop L c originals' contributed rest
         else if script_pubkey original = payee c
         then rbind (ensure (output_substitution c = Enabled
                        \<or> (script_pubkey proposed = script_pubkey original
                            \<and> txo_value proposed \<ge> txo_value original))
                     DisallowedOutputSubstitution) (\<lambda>_.
                check_outputs_loop L c originals' contributed rest)
         else if script_pubkey proposed = script_pubkey original
         then rbind (ensure (txo_value proposed \<ge> txo_value original) OutputValueDecreased) (\<lambda>_.
                check_outputs_loop L c originals' contributed rest)
         else check_outputs_loop L c originals contributed rest)"

definition check_outputs ::
  "btc \<Rightarrow> sender_context \<Rightarrow> psbt \<Rightarrow> (amount, proposal_error) res" where
  "check_outputs L c proposal =
     rbind (check_outputs_loop L c (List.enumerate 0 (tx_output (unsigned_tx (original_psbt c)))) 0
              (zip (tx_output (unsigned_tx proposal)) (outputs proposal))) (\<lambda>(left, contributed).
     rbind (ensure (left = []) MissingOrShuffledOutputs) (\<lambda>_. Ok contributed))"

fun fee_of :: "nat + amount \<Rightarrow> (amount, proposal_error) res" where
  "fee_of (Inl e) = Err (Psbt e)"
| "fee_of (Inr a) = Ok a"

definition original_spks :: "sender_context \<Rightarrow> (script list, proposal_error) res" where
  "original_spks c =
     try_map (\<lambda>p. rmap script_pubkey (map_err PrevTxOut (previous_txout p)))
       (input_pairs (original_psbt c))"

definition additional_input_weight ::
  "btc \<Rightarrow> script list \<Rightarrow> psbt \<Rightarrow> (weight, proposal_error) res" where
  "additional_input_weight L spks proposal =
     try_fold (\<lambda>acc p.
       rbind (rmap script_pubkey (map_err PrevTxOut (previous_txout p))) (\<lambda>spk.
         if spk \<in> set spks then Ok acc
         else rbind (map_err InputWeight (expected_input_weight L p)) (\<lambda>w.
                expect (weight_add L acc w)))) 0 (input_pairs proposal)"

definition check_fees ::
  "btc \<Rightarrow> sender_context \<Rightarrow> psbt \<Rightarrow> amount \<Rightarrow> (unit, proposal_error) res" where
  "check_fees L c proposal contributed_fee =
     rbind (fee_of (psbt_fee L proposal)) (\<lambda>proposed_fee.
     rbind (fee_of (psbt_fee L (original_psbt c))) (\<lambda>original_fee.
     rbind (ensure (original_fee \<le> proposed_fee) AbsoluteFeeDecreased) (\<lambda>_.
     rbind (expect (amount_sub L proposed_fee original_fee)) (\<lambda>fee_increase.
     rbind (ensure (contributed_fee \<le> fee_increase) PayeeTookContributedFee) (\<lambda>_.
     rbind (expect (fee_div L original_fee
              (tx_weight L (extract_tx_unchecked_fee_rate L (original_psbt c))))) (\<lambda>original_fee_rate.
     rbind (original_spks c) (\<lambda>spks.
     rbind (additional_input_weight L spks proposal) (\<lambda>weight.
     rbind (expect (fee_mul L original_fee_rate weight)) (\<lambda>max_contribution.
     rbind (ensure (contributed_fee \<le> max_contribution) FeeContributionPaysOutputSizeIncrease) (\<lambda>_.
     if min_fee_rate c > 0
     then rbind (expect (fee_div L proposed_fee
                   (tx_weight L (extract_tx_unchecked_fee_rate L proposal)))) (\<lambda>proposed_rate.
            ensure (proposed_rate \<ge> min_fee_rate c) FeeRateBelowMinimum)
     else Ok ()))))))))))"

section \<open>Restoration\<close>

definition restore_input :: "psbt_input \<Rightarrow> psbt_input \<Rightarrow> psbt_input" where
  "restore_input original proposed = proposed\<lparr>
     non_witness_utxo := non_witness_utxo original,
     witness_utxo := witness_utxo original,
     bip32_derivation := bip32_derivation original,
     tap_internal_key := tap_internal_key original,
     tap_key_origins := tap_key_origins original,
     witness_script := witness_script original\<rparr>"

fun restore_utxos_loop ::
  "internal_input_pair list \<Rightarrow> txin list \<Rightarrow> psbt_input list \<Rightarrow> psbt_input list" where
  "restore_utxos_loop originals (t # ts) (i # is) =
     (case originals of
        original # originals' \<Rightarrow>
          if previous_output t = previous_output (ip_txin original)
          then restore_input (ip_psbtin original) i # restore_utxos_loop originals' ts is
          else i # restore_utxos_loop originals ts is
      | [] \<Rightarrow> i # restore_utxos_loop [] ts is)"
| "restore_utxos_loop originals [] is = is"
| "restore_utxos_loop originals (t # ts) [] = []"

definition restore_original_utxos :: "sender_context \<Rightarrow> psbt \<Rightarrow> psbt" where
  "restore_original_utxos c proposal =
     proposal\<lparr>inputs := restore_utxos_loop (input_pairs (original_psbt c))
                (tx_input (unsigned_tx proposal)) (inputs proposal)\<rparr>"

fun restore_outputs_loop ::
  "(txout \<times> psbt_output) list \<Rightarrow> txout list \<Rightarrow> psbt_output list \<Rightarrow> psbt_output list" where
  "restore_outputs_loop originals (t # ts) (i # is) =
     (case originals of
        (original_txout, original_psbtout) # originals' \<Rightarrow>
          if t = original_txout
          then original_psbtout # restore_outputs_loop originals' ts is
          else i # restore_outputs_loop originals ts is
      | [] \<Rightarrow> i # restore_outputs_loop [] ts is)"
| "restore_outputs_loop originals [] is = is"
| "restore_outputs_loop originals (t # ts) [] = []"

definition restore_original_outputs :: "sender_context \<Rightarrow> psbt \<Rightarrow> psbt" where
  "restore_original_outputs c proposal =
     proposal\<lparr>outputs := restore_outputs_loop
                (zip (tx_output (unsigned_tx (original_psbt c))) (outputs (original_psbt c)))
                (tx_output (unsigned_tx proposal)) (outputs proposal)\<rparr>"

definition process_proposal ::
  "btc \<Rightarrow> sender_context \<Rightarrow> psbt \<Rightarrow> (psbt, proposal_error) res" where
  "process_proposal L c proposal =
     rbind (basic_checks c proposal) (\<lambda>_.
     rbind (check_inputs L c proposal True) (\<lambda>_.
     rbind (check_outputs L c proposal) (\<lambda>contributed_fee.
     let proposal1 = restore_original_utxos c proposal;
         proposal2 = restore_original_outputs c proposal1
     in rbind (check_fees L c proposal2 contributed_fee) (\<lambda>_. Ok proposal2))))"

section \<open>Sanitising the original PSBT\<close>

definition clear_input :: "psbt_input \<Rightarrow> psbt_input" where
  "clear_input i = i\<lparr>bip32_derivation := [], tap_internal_key := None, tap_key_origins := [],
     tap_key_sig := None, tap_merkle_root := None, tap_script_sigs := [], in_proprietary := [],
     in_unknown := []\<rparr>"

definition clear_output :: "psbt_output \<Rightarrow> psbt_output" where
  "clear_output out = out\<lparr>out_bip32_derivation := [], out_tap_internal_key := None,
     out_tap_key_origins := [], out_proprietary := [], out_unknown := []\<rparr>"

definition clear_unneeded_fields :: "psbt \<Rightarrow> psbt" where
  "clear_unneeded_fields p = p\<lparr>xpub := [], proprietary := [], unknown := [],
     inputs := map clear_input (inputs p), outputs := map clear_output (outputs p)\<rparr>"

end
