(* ===== verification/PJ_Samples.thy ===== *)
theory PJ_Samples
  imports PJ_Psbt
begin

text \<open>
  A concrete instance of the \<open>bitcoin\<close> interface and a small payjoin on it. They show that the
  hypotheses of the development hold together, and the witnesses of its theorems evaluate the
  model on them. Fees, weights and identifiers are computed from the transaction; a subtraction
  below zero panics and additions are exact.
\<close>

definition sample_fee :: "psbt \<Rightarrow> nat + amount" where
  "sample_fee p =
     (let ins = sum_list (map (\<lambda>i. case witness_utxo i of Some t \<Rightarrow> txo_value t | None \<Rightarrow> 0) (inputs p));
          outs = sum_list (map txo_value (tx_output (unsigned_tx p)))
      in if outs \<le> ins then Inr (ins - outs) else Inl 0)"

definition sample_btc :: btc where
  "sample_btc = \<lparr>
     compute_txid = (\<lambda>t. length (tx_output t) + lock_time t),
     compute_ntxid = (\<lambda>t. length (tx_output t) + lock_time t),
     extract_tx_unchecked_fee_rate = unsigned_tx,
     tx_weight = (\<lambda>t. 10 * length (tx_input t) + 10 * length (tx_output t)),
     txout_weight = (\<lambda>t. length (script_pubkey t) + 8),
     psbt_fee = sample_fee,
     amount_add = (\<lambda>a b. Some (a + b)),
     amount_sub = (\<lambda>a b. if b \<le> a then Some (a - b) else None),
     amount_checked_sub = (\<lambda>a b. if b \<le> a then Some (a - b) else None),
     max_money = 2100000000000000,
     weight_add = (\<lambda>a b. Some (a + b)),
     weight_sub = (\<lambda>a b. if b \<le> a then Some (a - b) else None),
     fee_mul = (\<lambda>r w. Some (r * w div 10)),
     checked_mul_by_weight = (\<lambda>r w. Some (r * w div 10)),
     fee_div = (\<lambda>a w. if w = 0 then None else Some (a * 10 div w)),
     broadcast_min = 2,
     address_from_script = (\<lambda>s. if s = [] then Inl 0 else Inr (Some P2wpkh)),
     script_is_p2pkh = (\<lambda>_. False),
     script_is_p2sh = (\<lambda>_. False),
     script_is_p2wpkh = (\<lambda>s. s \<noteq> []),
     script_is_p2wsh = (\<lambda>_. False),
     script_is_p2tr = (\<lambda>_. False),
     script_is_witness_program = (\<lambda>s. s \<noteq> []),
     script_redeem_script = (\<lambda>s. Some s),
     input_weight_prediction = (\<lambda>n ls. 4 * n + sum_list ls),
     p2pkh_compressed_max = 20,
     p2wpkh_max = 10,
     p2tr_key_default_sighash = 8,
     p2tr_key_non_default_sighash = 9,
     from_non_witness_data_size = (\<lambda>n. n),
     taproot_hash_ty = (\<lambda>n. if n = 0 then Some Sighash_Default
        else if n = 1 then Some Sighash_All else None)\<rparr>"

lemma sample_amounts_ok: "amounts_ok sample_btc"
  by (simp add: amounts_ok_def sample_btc_def)

lemma sample_weights_ok: "weights_ok sample_btc"
  by (auto simp: weights_ok_def sample_btc_def)

section \<open>A payjoin\<close>

abbreviation sender_spk :: script where "sender_spk \<equiv> [1]"
abbreviation payee_spk :: script where "payee_spk \<equiv> [2]"
abbreviation change_spk :: script where "change_spk \<equiv> [3]"
abbreviation receiver_spk :: script where "receiver_spk \<equiv> [4]"

definition sample_txin :: "nat \<Rightarrow> txin" where
  "sample_txin n = \<lparr>previous_output = \<lparr>op_txid = n, vout = 0\<rparr>, script_sig = [], sequence = 0,
     witness = []\<rparr>"

definition sample_txout :: "amount \<Rightarrow> script \<Rightarrow> txout" where
  "sample_txout a s = \<lparr>txo_value = a, script_pubkey = s\<rparr>"

definition sample_input :: "amount \<Rightarrow> script \<Rightarrow> psbt_input" where
  "sample_input a s = default_psbt_input\<lparr>witness_utxo := Some (sample_txout a s)\<rparr>"

definition signed_input :: "amount \<Rightarrow> script \<Rightarrow> psbt_input" where
  "signed_input a s = (sample_input a s)\<lparr>final_script_witness := Some [[7]]\<rparr>"

definition sample_psbt :: "txin list \<Rightarrow> psbt_input list \<Rightarrow> txout list \<Rightarrow> psbt" where
  "sample_psbt ts is outs = \<lparr>unsigned_tx = \<lparr>tx_version = 2, lock_time = 0, tx_input = ts, tx_output = outs\<rparr>,
     psbt_version = 0, xpub = [], proprietary = [], unknown = [], inputs = is,
     outputs = map (\<lambda>_. default_psbt_output) outs\<rparr>"

text \<open>The original pays 50 to the payee and 45 to the change, with a fee of 5.\<close>

definition sample_original :: psbt where
  "sample_original = sample_psbt [sample_txin 1] [signed_input 100 sender_spk]
     [sample_txout 50 payee_spk, sample_txout 45 change_spk]"

text \<open>The proposal adds an input of 80 and takes 1 from the change for the fee.\<close>

definition sample_proposal :: psbt where
  "sample_proposal = sample_psbt [sample_txin 2, sample_txin 1]
     [signed_input 80 receiver_spk, default_psbt_input]
     [sample_txout 130 payee_spk, sample_txout 44 change_spk]"

text \<open>The proposal with the sender's fields put back.\<close>

definition sample_result :: psbt where
  "sample_result = sample_psbt [sample_txin 2, sample_txin 1]
     [signed_input 80 receiver_spk, sample_input 100 sender_spk]
     [sample_txout 130 payee_spk, sample_txout 44 change_spk]"

lemmas sample_defs = sample_btc_def sample_fee_def sample_txin_def sample_txout_def
  sample_input_def signed_input_def sample_psbt_def sample_original_def sample_proposal_def
  default_psbt_input_def default_psbt_output_def

end
