(* ===== verification/PJ_Send_Facts.thy ===== *)
theory PJ_Send_Facts
  imports PJ_Send_Check PJ_Samples
begin

text \<open>
  What the sender's checks establish: which outputs and inputs an accepted proposal must keep,
  what it may take, and what the context builder guarantees about the offered contribution.
\<close>

section \<open>Outputs\<close>

definition agreed_contribution :: "sender_context \<Rightarrow> amount" where
  "agreed_contribution c = (case fee_contribution c of Some fc \<Rightarrow> max_amount fc | None \<Rightarrow> 0)"

definition fee_index :: "sender_context \<Rightarrow> nat option" where
  "fee_index c = map_option fee_vout (fee_contribution c)"

definition protected_script :: "sender_context \<Rightarrow> script \<Rightarrow> bool" where
  "protected_script c s \<longleftrightarrow> s \<noteq> payee c \<or> output_substitution c = Disabled"

lemma enumerate_fst_distinct: "distinct (map fst (List.enumerate n xs))"
  by (simp add: map_fst_enumerate)

text \<open>The loop away from the fee output: nothing is taken.\<close>

lemma outputs_loop_no_fee:
  assumes "check_outputs_loop L c os k ps = Ok ([], k')"
    and "protected_script c s"
    and "\<And>i. fee_index c = Some i \<Longrightarrow> i \<notin> fst ` set os"
  shows "k' = k \<and> paid_by s (map snd os) \<le> paid_by s (map fst ps)"
  using assms
proof (induction L c os k ps rule: check_outputs_loop.induct)
  case (2 L c os k proposed psbtout rest)
  show ?case
  proof (cases os)
    case Nil
    with 2 show ?thesis by (fastforce simp: res_Ok_simps)
  next
    case (Cons o1 os')
    obtain i t where o1: "o1 = (i, t)" by force
    have nofee: "\<not> (case fee_contribution c of Some fc \<Rightarrow>
        script_pubkey proposed = script_pubkey t \<and> i = fee_vout fc | None \<Rightarrow> False)"
      using "2.prems"(3) Cons o1 by (auto simp: fee_index_def split: option.splits)
    from 2 Cons o1 nofee show ?thesis
      by (fastforce simp: res_Ok_simps protected_script_def split: if_splits)
  qed
qed simp

text \<open>
  One step of the loop as a case distinction: a short list of facts instead of the nested
  conditionals of the code.
\<close>

definition fee_match :: "sender_context \<Rightarrow> nat \<Rightarrow> txout \<Rightarrow> txout \<Rightarrow> bool" where
  "fee_match c i original proposed \<longleftrightarrow>
     fee_index c = Some i \<and> script_pubkey proposed = script_pubkey original"

lemma fee_match_case:
  "(case fee_contribution c of
      Some fc \<Rightarrow> script_pubkey proposed = script_pubkey original \<and> i = fee_vout fc
    | None \<Rightarrow> False) \<longleftrightarrow> fee_match c i original proposed"
  by (auto simp: fee_match_def fee_index_def split: option.split)

lemma fee_cap_case:
  "fee_match c i original proposed \<Longrightarrow>
     (case fee_contribution c of Some fc \<Rightarrow> k \<le> max_amount fc | None \<Rightarrow> True) \<longleftrightarrow>
     k \<le> agreed_contribution c"
  by (auto simp: fee_match_def fee_index_def agreed_contribution_def split: option.splits)

lemma check_outputs_step:
  assumes ok: "check_outputs_loop L c ((i, original) # os) k ((proposed, psbtout) # rest) = Ok r"
    and L: "amounts_ok L"
  obtains
    (fee) "fee_match c i original proposed" "txo_value proposed < txo_value original"
      "txo_value original - txo_value proposed \<le> agreed_contribution c"
      "check_outputs_loop L c os (txo_value original - txo_value proposed) rest = Ok r"
  | (fee_kept) "fee_match c i original proposed" "txo_value original \<le> txo_value proposed"
      "check_outputs_loop L c os k rest = Ok r"
  | (paid) "\<not> fee_match c i original proposed" "script_pubkey original = payee c"
      "output_substitution c = Enabled \<or> script_pubkey proposed = script_pubkey original \<and>
         txo_value original \<le> txo_value proposed"
      "check_outputs_loop L c os k rest = Ok r"
  | (kept) "\<not> fee_match c i original proposed" "script_pubkey original \<noteq> payee c"
      "script_pubkey proposed = script_pubkey original" "txo_value original \<le> txo_value proposed"
      "check_outputs_loop L c os k rest = Ok r"
  | (extra) "\<not> fee_match c i original proposed" "script_pubkey original \<noteq> payee c"
      "script_pubkey proposed \<noteq> script_pubkey original"
      "check_outputs_loop L c ((i, original) # os) k rest = Ok r"
proof (cases "fee_match c i original proposed")
  case True
  note m = True
  show ?thesis
  proof (cases "txo_value proposed < txo_value original")
    case True
    with ok m L have "txo_value original - txo_value proposed \<le> agreed_contribution c"
      "check_outputs_loop L c os (txo_value original - txo_value proposed) rest = Ok r"
      by (auto simp: res_Ok_simps fee_match_case fee_cap_case [OF m] amount_sub_exact)
    with m True show ?thesis by (rule fee)
  next
    case False
    with ok m show ?thesis by (intro fee_kept) (auto simp: res_Ok_simps fee_match_case)
  qed
next
  case False
  with ok show ?thesis
    by (auto simp: res_Ok_simps fee_match_case split: if_splits intro: paid kept extra)
qed

definition fee_pays :: "sender_context \<Rightarrow> (nat \<times> txout) list \<Rightarrow> script \<Rightarrow> bool" where
  "fee_pays c os s \<longleftrightarrow>
     (\<exists>i t. fee_index c = Some i \<and> (i, t) \<in> set os \<and> script_pubkey t = s)"

lemma outputs_loop_bound:
  assumes "amounts_ok L"
    and "check_outputs_loop L c os 0 ps = Ok ([], k)"
    and "protected_script c s" and "distinct (map fst os)"
  shows "k \<le> agreed_contribution c \<and>
    paid_by s (map snd os) \<le> paid_by s (map fst ps) + (if fee_pays c os s then k else 0)"
  using assms
proof (induction ps arbitrary: os)
  case Nil
  then show ?case by simp
next
  case (Cons q rest)
  obtain proposed psbtout where q: "q = (proposed, psbtout)" by force
  show ?case
  proof (cases os)
    case Nil
    with Cons.prems Cons.IH [of "[]"] show ?thesis
      by (auto simp: q res_Ok_simps fee_pays_def)
  next
    case (Cons o1 os')
    obtain i t where o1: "o1 = (i, t)" by force
    have dist: "i \<notin> fst ` set os'" "distinct (map fst os')"
      using Cons.prems(4) by (auto simp: Cons o1)
    from Cons.prems(2) have ok:
      "check_outputs_loop L c ((i, t) # os') 0 ((proposed, psbtout) # rest) = Ok ([], k)"
      by (simp add: Cons o1 q)
    have mono: "(if fee_pays c os' s then k else 0) \<le> (if fee_pays c os s then k else 0)"
      by (auto simp: fee_pays_def Cons)
    have step: ?thesis
      if tail: "check_outputs_loop L c os' 0 rest = Ok ([], k)"
        and head: "script_pubkey t = s \<Longrightarrow>
                     script_pubkey proposed = s \<and> txo_value t \<le> txo_value proposed"
    proof -
      from Cons.IH [OF Cons.prems(1) tail Cons.prems(3) dist(2)]
      have "k \<le> agreed_contribution c"
        and "paid_by s (map snd os') \<le> paid_by s (map fst rest) + (if fee_pays c os s then k else 0)"
        using mono by linarith+
      with head show ?thesis by (auto simp: Cons o1 q split: if_splits)
    qed
    from ok Cons.prems(1) show ?thesis
    proof (cases rule: check_outputs_step)
      case fee
      have noidx: "j \<notin> fst ` set os'" if "fee_index c = Some j" for j
        using fee(1) dist(1) that by (simp add: fee_match_def)
      from outputs_loop_no_fee [OF fee(4) Cons.prems(3) noidx]
      have k: "k = txo_value t - txo_value proposed"
        and rest: "paid_by s (map snd os') \<le> paid_by s (map fst rest)" by auto
      have "fee_pays c os s" if "script_pubkey t = s"
        using fee(1) that by (auto simp: fee_pays_def fee_match_def Cons o1)
      with k rest fee(1-3) show ?thesis
        by (auto simp: Cons o1 q fee_match_def)
    next
      case fee_kept
      then show ?thesis by (intro step) (auto simp: fee_match_def)
    next
      case paid
      with Cons.prems(3) show ?thesis by (intro step) (auto simp: protected_script_def)
    next
      case kept
      then show ?thesis by (intro step) auto
    next
      case extra
      from Cons.IH [OF Cons.prems(1) _ Cons.prems(3), of "(i, t) # os'"] extra(4) Cons.prems(4)
      have "k \<le> agreed_contribution c \<and> paid_by s (map snd ((i, t) # os')) \<le>
              paid_by s (map fst rest) + (if fee_pays c ((i, t) # os') s then k else 0)"
        by (simp add: Cons o1)
      then show ?thesis by (auto simp: Cons o1 q)
    qed
  qed
qed


definition fee_output_pays :: "sender_context \<Rightarrow> script \<Rightarrow> bool" where
  "fee_output_pays c s \<longleftrightarrow>
     (\<exists>i < length (tx_output (unsigned_tx (original_psbt c))). fee_index c = Some i \<and>
        script_pubkey (tx_output (unsigned_tx (original_psbt c)) ! i) = s)"

lemma fee_pays_enumerate:
  "fee_pays c (List.enumerate 0 (tx_output (unsigned_tx (original_psbt c)))) s \<longleftrightarrow> fee_output_pays c s"
  by (auto simp: fee_pays_def fee_output_pays_def in_set_enumerate_eq)

lemma check_outputs_bound:
  assumes "amounts_ok L" and "check_outputs L c p = Ok k" and "protected_script c s"
  shows "k \<le> agreed_contribution c \<and>
    paid_to s (unsigned_tx (original_psbt c)) \<le>
      paid_to s (unsigned_tx p) + (if fee_output_pays c s then k else 0)"
proof -
  let ?os = "List.enumerate 0 (tx_output (unsigned_tx (original_psbt c)))"
  let ?ps = "zip (tx_output (unsigned_tx p)) (outputs p)"
  from assms(2) have "check_outputs_loop L c ?os 0 ?ps = Ok ([], k)"
    by (auto simp: check_outputs_def res_Ok_simps)
  from outputs_loop_bound [OF assms(1) this assms(3) enumerate_fst_distinct]
    paid_by_zip [of s "tx_output (unsigned_tx p)" "outputs p"]
  show ?thesis by (simp add: paid_to_def fee_pays_enumerate)
qed

lemma check_outputs_not_negative:
  "check_outputs L c p = Ok k \<Longrightarrow> fee_contribution c = None \<Longrightarrow> amounts_ok L \<Longrightarrow> k = 0"
  using check_outputs_bound [of L c p k "payee c @ [0]"]
  by (simp add: agreed_contribution_def protected_script_def)

section \<open>The proposal as a whole\<close>

lemma process_proposal_Ok:
  "process_proposal L c p = Ok q \<longleftrightarrow>
     basic_checks c p = Ok () \<and> check_inputs L c p True = Ok () \<and>
     q = restore_original_outputs c (restore_original_utxos c p) \<and>
     (\<exists>k. check_outputs L c p = Ok k \<and> check_fees L c q k = Ok ())"
  by (auto simp: process_proposal_def res_Ok_simps Let_def)

lemma restore_unsigned_tx [simp]:
  "unsigned_tx (restore_original_utxos c p) = unsigned_tx p"
  "unsigned_tx (restore_original_outputs c p) = unsigned_tx p"
  by (simp_all add: restore_original_utxos_def restore_original_outputs_def)

lemma process_proposal_tx: "process_proposal L c p = Ok q \<Longrightarrow> unsigned_tx q = unsigned_tx p"
  by (auto simp: process_proposal_Ok)

lemma check_fees_increase:
  assumes "amounts_ok L" and "check_fees L c q k = Ok ()"
  obtains f0 f1 where "psbt_fee L (original_psbt c) = Inr f0" and "psbt_fee L q = Inr f1"
    and "f0 + k \<le> f1"
proof -
  from assms(2) obtain f0 f1 where f: "fee_of (psbt_fee L q) = Ok f1"
    "fee_of (psbt_fee L (original_psbt c)) = Ok f0" "f0 \<le> f1" "k \<le> f1 - f0"
    by (auto simp: check_fees_def res_Ok_simps amount_sub_exact [OF assms(1)])
  then have "psbt_fee L (original_psbt c) = Inr f0" "psbt_fee L q = Inr f1"
    by (cases "psbt_fee L q"; cases "psbt_fee L (original_psbt c)"; simp)+
  with f that show ?thesis by simp
qed

text \<open>C1: If the sender accepts a proposal, then for every script whose payments the receiver may
  not redirect (any script but the payee's, and the payee's too when output substitution is
  disabled), the final transaction pays it at least what the original paid it, up to an amount
  \<open>k\<close> taken from the sender's designated fee output only. That amount is within the contribution
  the sender agreed to, and all of it went to miner fees: the fee rose by at least \<open>k\<close>.\<close>

theorem accepted_proposal_never_underpays:
  assumes "amounts_ok L" and "process_proposal L c p = Ok q"
  shows "\<exists>k f0 f1. k \<le> agreed_contribution c \<and>
    psbt_fee L (original_psbt c) = Inr f0 \<and> psbt_fee L q = Inr f1 \<and> f0 + k \<le> f1 \<and>
    (\<forall>s. protected_script c s \<longrightarrow>
       paid_to s (unsigned_tx (original_psbt c)) \<le>
         paid_to s (unsigned_tx q) + (if fee_output_pays c s then k else 0))"
proof -
  from assms(2) obtain k where k: "check_outputs L c p = Ok k" and f: "check_fees L c q k = Ok ()"
    by (auto simp: process_proposal_Ok)
  from f obtain f0 f1 where "psbt_fee L (original_psbt c) = Inr f0" "psbt_fee L q = Inr f1"
    "f0 + k \<le> f1" by (rule check_fees_increase [OF assms(1)])
  moreover have "k \<le> agreed_contribution c"
    using check_outputs_bound [OF assms(1) k, of "payee c @ [0]"] by (simp add: protected_script_def)
  moreover from process_proposal_tx [OF assms(2)] check_outputs_bound [OF assms(1) k]
  have "\<forall>s. protected_script c s \<longrightarrow>
       paid_to s (unsigned_tx (original_psbt c)) \<le>
         paid_to s (unsigned_tx q) + (if fee_output_pays c s then k else 0)" by simp
  ultimately show ?thesis by blast
qed


definition sample_context :: sender_context where
  "sample_context = \<lparr>original_psbt = sample_original, output_substitution = Disabled,
     fee_contribution = Some \<lparr>max_amount = 2, fee_vout = 1\<rparr>, min_fee_rate = 0, payee = payee_spk\<rparr>"

lemma sample_accepted: "process_proposal sample_btc sample_context sample_proposal = Ok sample_result"
proof -
  have "basic_checks sample_context sample_proposal = Ok ()" by code_simp
  moreover have "check_inputs sample_btc sample_context sample_proposal True = Ok ()" by code_simp
  moreover have "check_outputs sample_btc sample_context sample_proposal = Ok 1" by code_simp
  moreover have "restore_original_outputs sample_context
      (restore_original_utxos sample_context sample_proposal) = sample_result" by code_simp
  moreover have "check_fees sample_btc sample_context sample_result 1 = Ok ()" by code_simp
  ultimately show ?thesis by (auto simp: process_proposal_Ok)
qed

lemma accepted_proposal_never_underpays_witness:
  "\<exists>q. process_proposal sample_btc sample_context sample_proposal = Ok q \<and>
     (\<exists>k f0 f1. k \<le> agreed_contribution sample_context \<and>
        psbt_fee sample_btc (original_psbt sample_context) = Inr f0 \<and>
        psbt_fee sample_btc q = Inr f1 \<and> f0 + k \<le> f1 \<and>
        (\<forall>s. protected_script sample_context s \<longrightarrow>
           paid_to s (unsigned_tx (original_psbt sample_context)) \<le>
             paid_to s (unsigned_tx q) + (if fee_output_pays sample_context s then k else 0)))"
  using sample_accepted accepted_proposal_never_underpays [OF sample_amounts_ok sample_accepted]
  by blast

section \<open>Inputs\<close>

text \<open>What each of the two arms of \<open>check_inputs\<close> establishes.\<close>

definition same_outpoint :: "internal_input_pair \<Rightarrow> internal_input_pair \<Rightarrow> bool" where
  "same_outpoint o' p \<longleftrightarrow> previous_output (ip_txin p) = previous_output (ip_txin o')"

definition stripped :: "internal_input_pair \<Rightarrow> bool" where
  "stripped p \<longleftrightarrow> bip32_derivation (ip_psbtin p) = [] \<and> partial_sigs (ip_psbtin p) = []"

definition kept_sender_input :: "btc \<Rightarrow> internal_input_pair \<Rightarrow> internal_input_pair \<Rightarrow> bool" where
  "kept_sender_input L o' p \<longleftrightarrow> same_outpoint o' p \<and> stripped p \<and>
     sequence (ip_txin p) = sequence (ip_txin o') \<and>
     final_script_sig (ip_psbtin p) = None \<and> final_script_witness (ip_psbtin p) = None \<and>
     (\<forall>ty. sighash_type (ip_psbtin p) = Some ty \<longrightarrow> commits_to_all_inputs_and_outputs L ty)"

definition signed_receiver_input :: "sender_context \<Rightarrow> bool \<Rightarrow> internal_input_pair \<Rightarrow> bool" where
  "signed_receiver_input c fin p \<longleftrightarrow> stripped p \<and>
     (fin \<longrightarrow> final_script_sig (ip_psbtin p) \<noteq> None \<or> final_script_witness (ip_psbtin p) \<noteq> None) \<and>
     (witness_utxo (ip_psbtin p) \<noteq> None \<or> non_witness_utxo (ip_psbtin p) \<noteq> None) \<and>
     input_pairs (original_psbt c) \<noteq> [] \<and>
     sequence (ip_txin p) = sequence (ip_txin (hd (input_pairs (original_psbt c))))"

lemma check_sender_input_Ok:
  "stripped p \<and> same_outpoint o' p \<and> check_sender_input L o' p = Ok u \<longleftrightarrow> kept_sender_input L o' p"
  by (auto simp: check_sender_input_def kept_sender_input_def res_Ok_simps split: option.split)

lemma check_receiver_input_Ok:
  "stripped p \<and> check_receiver_input c fin p = Ok u \<longleftrightarrow> signed_receiver_input c fin p"
  by (auto simp: check_receiver_input_def signed_receiver_input_def res_Ok_simps split: list.split)

text \<open>The checks of one proposed input, and the originals left after it.\<close>

lemma check_inputs_step:
  "check_inputs_loop L c fin os (p # ps) = Ok r \<longleftrightarrow>
     (\<exists>o' os'. os = o' # os' \<and> kept_sender_input L o' p \<and> check_inputs_loop L c fin os' ps = Ok r) \<or>
     (\<forall>o' os'. os = o' # os' \<longrightarrow> \<not> same_outpoint o' p) \<and> signed_receiver_input c fin p \<and>
       check_inputs_loop L c fin os ps = Ok r"
proof (cases os)
  case Nil
  then show ?thesis
    using check_receiver_input_Ok [of p c fin "()"] by (auto simp: res_Ok_simps stripped_def)
next
  case (Cons o' os')
  show ?thesis
  proof (cases "same_outpoint o' p")
    case True
    then show ?thesis using check_sender_input_Ok [of p o' L "()"]
      by (auto simp: Cons res_Ok_simps stripped_def same_outpoint_def)
  next
    case False
    then have "\<not> kept_sender_input L o' p" by (simp add: kept_sender_input_def)
    with False show ?thesis using check_receiver_input_Ok [of p c fin "()"]
      by (auto simp: Cons res_Ok_simps stripped_def same_outpoint_def)
  qed
qed

lemma check_inputs_aligned:
  "check_inputs_loop L c fin os ps = Ok [] \<Longrightarrow>
     aligned (kept_sender_input L) (signed_receiver_input c fin) os ps"
proof (induction ps arbitrary: os)
  case (Cons p ps)
  from Cons.prems Cons.IH show ?case
    unfolding check_inputs_step by (auto intro: aligned.intros)
qed (simp add: aligned.intros)

lemma aligned_outpoints:
  "aligned (kept_sender_input L) E os ps \<Longrightarrow>
     (\<lambda>p. previous_output (ip_txin p)) ` set os \<subseteq> (\<lambda>p. previous_output (ip_txin p)) ` set ps"
  by (induction rule: aligned.induct) (auto simp: kept_sender_input_def same_outpoint_def)

lemma aligned_check_inputs:
  assumes "aligned (kept_sender_input L) (signed_receiver_input c fin) os ps"
    and "distinct (map (\<lambda>p. previous_output (ip_txin p)) ps)"
  shows "check_inputs_loop L c fin os ps = Ok []"
  using assms
proof (induction rule: aligned.induct)
  case (aligned_Match o' p os ps)
  then have "check_inputs_loop L c fin os ps = Ok []" by simp
  with aligned_Match(1) show ?case unfolding check_inputs_step by blast
next
  case (aligned_Extra p os ps)
  have "\<not> same_outpoint o' p" if "os = o' # os'" for o' os'
    using aligned_outpoints [OF aligned_Extra(2)] aligned_Extra(4)
    by (auto simp: that same_outpoint_def image_iff)
  moreover have "check_inputs_loop L c fin os ps = Ok []" using aligned_Extra by simp
  ultimately show ?case unfolding check_inputs_step using aligned_Extra(1) by blast
qed simp

text \<open>C6: For a proposal that spends no outpoint twice, the input check accepts exactly the
  proposals that contain every sender input, in the original order, unchanged and unsigned,
  and whose other inputs are all finalized receiver inputs with their previous output and the
  sender's sequence number.\<close>

theorem check_inputs_accepts_iff:
  assumes "distinct (outpoints (unsigned_tx p))"
  shows "check_inputs L c p fin = Ok () \<longleftrightarrow>
    aligned (kept_sender_input L) (signed_receiver_input c fin)
      (input_pairs (original_psbt c)) (input_pairs p)"
proof -
  have "map (\<lambda>q. previous_output (ip_txin q)) (input_pairs p) =
      map fst (zip (outpoints (unsigned_tx p)) (inputs p))"
    by (simp add: input_pairs_def outpoints_def zip_map1 comp_def case_prod_unfold)
  with assms have "distinct (map (\<lambda>q. previous_output (ip_txin q)) (input_pairs p))"
    by (simp add: map_fst_zip_take)
  then show ?thesis
    using check_inputs_aligned aligned_check_inputs by (auto simp: check_inputs_def res_Ok_simps)
qed


lemma check_inputs_accepts_iff_witness:
  "check_inputs sample_btc sample_context sample_proposal True = Ok () \<and>
   aligned (kept_sender_input sample_btc) (signed_receiver_input sample_context True)
     (input_pairs (original_psbt sample_context)) (input_pairs sample_proposal)"
proof -
  have "distinct (outpoints (unsigned_tx sample_proposal))" by code_simp
  from check_inputs_accepts_iff [OF this, of sample_btc sample_context True] show ?thesis
    using sample_accepted by (auto simp: process_proposal_Ok)
qed

section \<open>Restored fields\<close>

text \<open>A sender input of the result: the original's previous output and key information, unsigned.\<close>

definition restored_input :: "btc \<Rightarrow> internal_input_pair \<Rightarrow> internal_input_pair \<Rightarrow> bool" where
  "restored_input L o' r \<longleftrightarrow> same_outpoint o' r \<and>
     sequence (ip_txin r) = sequence (ip_txin o') \<and>
     final_script_sig (ip_psbtin r) = None \<and> final_script_witness (ip_psbtin r) = None \<and>
     partial_sigs (ip_psbtin r) = [] \<and>
     (\<forall>ty. sighash_type (ip_psbtin r) = Some ty \<longrightarrow> commits_to_all_inputs_and_outputs L ty) \<and>
     non_witness_utxo (ip_psbtin r) = non_witness_utxo (ip_psbtin o') \<and>
     witness_utxo (ip_psbtin r) = witness_utxo (ip_psbtin o') \<and>
     witness_script (ip_psbtin r) = witness_script (ip_psbtin o') \<and>
     bip32_derivation (ip_psbtin r) = bip32_derivation (ip_psbtin o') \<and>
     tap_internal_key (ip_psbtin r) = tap_internal_key (ip_psbtin o') \<and>
     tap_key_origins (ip_psbtin r) = tap_key_origins (ip_psbtin o')"

abbreviation pairs :: "txin list \<Rightarrow> psbt_input list \<Rightarrow> internal_input_pair list" where
  "pairs ts is \<equiv> map (\<lambda>(t, i). \<lparr>ip_txin = t, ip_psbtin = i\<rparr>) (zip ts is)"

lemma kept_restored:
  "kept_sender_input L o' \<lparr>ip_txin = t, ip_psbtin = i\<rparr> \<Longrightarrow>
     restored_input L o' \<lparr>ip_txin = t, ip_psbtin = restore_input (ip_psbtin o') i\<rparr>"
  by (auto simp: kept_sender_input_def restored_input_def restore_input_def stripped_def
      same_outpoint_def)

lemma restore_aligned:
  assumes "check_inputs_loop L c fin os (pairs ts is) = Ok []" and "length ts = length is"
  shows "aligned (restored_input L) (\<lambda>r. signed_receiver_input c fin r \<and> r \<in> set (pairs ts is))
           os (pairs ts (restore_utxos_loop os ts is))"
  using assms
proof (induction ts arbitrary: os "is")
  case Nil
  then show ?case by (cases "is") (auto intro: aligned.intros)
next
  case (Cons t ts)
  then obtain i is' where i: "is = i # is'" and len: "length ts = length is'"
    by (cases "is") auto
  let ?p = "\<lparr>ip_txin = t, ip_psbtin = i\<rparr>"
  have IH: "aligned (restored_input L) (\<lambda>r. signed_receiver_input c fin r \<and> r \<in> set (pairs (t # ts) is))
      os' (pairs ts (restore_utxos_loop os' ts is'))"
    if "check_inputs_loop L c fin os' (pairs ts is') = Ok []" for os'
    using Cons.IH [OF that len] by (rule aligned_mono) (auto simp: i)
  from Cons.prems(1) consider
    (sender) o' os' where "os = o' # os'" "kept_sender_input L o' ?p"
      "check_inputs_loop L c fin os' (pairs ts is') = Ok []"
  | (receiver) "\<And>o' os'. os = o' # os' \<Longrightarrow> \<not> same_outpoint o' ?p" "signed_receiver_input c fin ?p"
      "check_inputs_loop L c fin os (pairs ts is') = Ok []"
    using check_inputs_step [of L c fin os ?p "pairs ts is'" "[]"] by (auto simp: i)
  then show ?case
  proof cases
    case sender
    then have "previous_output t = previous_output (ip_txin o')"
      by (simp add: kept_sender_input_def same_outpoint_def)
    with sender show ?thesis
      using IH [OF sender(3)] kept_restored [OF sender(2)] by (auto simp: i intro: aligned_Match)
  next
    case receiver
    have "restore_utxos_loop os (t # ts) (i # is') = i # restore_utxos_loop os ts is'"
      using receiver(1) by (cases os) (auto simp: same_outpoint_def)
    with receiver(2) IH [OF receiver(3)] show ?thesis by (auto simp: i intro: aligned_Extra)
  qed
qed

text \<open>C23: The PSBT that the sender signs contains every input of the original, in order, with the
  previous output, witness script and key information of the original put back and with no
  signature on it; every other input of it is one of the receiver's, finalized, exactly as in
  the proposal. The transaction itself is the proposal's.\<close>

theorem accepted_proposal_restores_inputs:
  assumes "process_proposal L c p = Ok q" and "well_formed p"
  shows "unsigned_tx q = unsigned_tx p \<and>
    aligned (restored_input L) (\<lambda>r. signed_receiver_input c True r \<and> r \<in> set (input_pairs p))
      (input_pairs (original_psbt c)) (input_pairs q)"
proof -
  from assms(1) have ok: "check_inputs_loop L c True (input_pairs (original_psbt c)) (input_pairs p) = Ok []"
    and q: "q = restore_original_outputs c (restore_original_utxos c p)"
    by (auto simp: process_proposal_Ok check_inputs_def res_Ok_simps)
  have "input_pairs q = pairs (tx_input (unsigned_tx p))
      (restore_utxos_loop (input_pairs (original_psbt c)) (tx_input (unsigned_tx p)) (inputs p))"
    by (simp add: q input_pairs_def restore_original_outputs_def restore_original_utxos_def)
  moreover have "input_pairs p = pairs (tx_input (unsigned_tx p)) (inputs p)"
    by (simp add: input_pairs_def)
  ultimately show ?thesis
    using restore_aligned [of L c True "input_pairs (original_psbt c)" "tx_input (unsigned_tx p)" "inputs p"]
      ok assms process_proposal_tx [OF assms(1)] by (simp add: well_formed_def)
qed

lemma accepted_proposal_restores_inputs_witness:
  "\<exists>q. process_proposal sample_btc sample_context sample_proposal = Ok q \<and>
     unsigned_tx q = unsigned_tx sample_proposal \<and>
     aligned (restored_input sample_btc)
       (\<lambda>r. signed_receiver_input sample_context True r \<and> r \<in> set (input_pairs sample_proposal))
       (input_pairs (original_psbt sample_context)) (input_pairs q)"
proof -
  have "well_formed sample_proposal" by code_simp
  from accepted_proposal_restores_inputs [OF sample_accepted this] show ?thesis
    using sample_accepted by blast
qed

section \<open>Sanitising\<close>

definition same_essentials :: "psbt_input \<Rightarrow> psbt_input \<Rightarrow> bool" where
  "same_essentials i j \<longleftrightarrow>
     non_witness_utxo j = non_witness_utxo i \<and> witness_utxo j = witness_utxo i \<and>
     partial_sigs j = partial_sigs i \<and> sighash_type j = sighash_type i \<and>
     redeem_script j = redeem_script i \<and> witness_script j = witness_script i \<and>
     final_script_sig j = final_script_sig i \<and> final_script_witness j = final_script_witness i"

lemma clear_idem: "clear_input (clear_input i) = clear_input i"
  "clear_output (clear_output out) = clear_output out"
  by (simp_all add: clear_input_def clear_output_def)

text \<open>Sanitising removes every key-path and proprietary field from the PSBT that goes out and
  nothing else: the transaction, the previous outputs, scripts and signatures of all inputs
  stay, and sanitising twice is sanitising once.\<close>

theorem clear_unneeded_fields_sanitises:
  "clear_unneeded_fields (clear_unneeded_fields p) = clear_unneeded_fields p \<and>
   unsigned_tx (clear_unneeded_fields p) = unsigned_tx p \<and>
   list_all2 same_essentials (inputs p) (inputs (clear_unneeded_fields p)) \<and>
   list_all (\<lambda>i. bip32_derivation i = [] \<and> tap_key_origins i = [] \<and> tap_internal_key i = None \<and>
      in_proprietary i = [] \<and> in_unknown i = []) (inputs (clear_unneeded_fields p)) \<and>
   list_all (\<lambda>out. out_bip32_derivation out = [] \<and> out_tap_key_origins out = [] \<and>
      out_proprietary out = [] \<and> out_unknown out = []) (outputs (clear_unneeded_fields p)) \<and>
   xpub (clear_unneeded_fields p) = [] \<and>
   (well_formed p \<longleftrightarrow> well_formed (clear_unneeded_fields p))"
  by (auto simp: clear_unneeded_fields_def clear_idem comp_def same_essentials_def clear_input_def
      clear_output_def list_all2_map2 list_all_iff well_formed_def intro: list_all2_refl)

end
