(* ===== verification/PJ_Send_Build.thy ===== *)
theory PJ_Send_Build
  imports PJ_Send PJ_Samples
begin

text \<open>
  What \<open>PsbtContextBuilder\<close> guarantees about the contexts it builds: a consistent original, one
  payee output of the requested amount, and a fee contribution that the sender can pay.
\<close>

section \<open>The context builder\<close>

lemma single_payee_loop_other:
  "script_pubkey out \<noteq> pay \<Longrightarrow> single_payee_loop pay amt found (out # outs) = single_payee_loop pay amt found outs"
  by simp

lemma single_payee_loop_payee:
  "script_pubkey out = pay \<Longrightarrow> single_payee_loop pay amt found (out # outs) = Ok r \<longleftrightarrow>
     (\<forall>a. amt = Some a \<longrightarrow> txo_value out = a) \<and> \<not> found \<and> single_payee_loop pay amt True outs = Ok r"
  by (simp split: option.split)

lemma single_payee_loop_found:
  "single_payee_loop pay amt True outs = Ok r \<longleftrightarrow> filter (\<lambda>out. script_pubkey out = pay) outs = [] \<and> r"
  by (induction outs) (auto split: option.split)

lemma single_payee_loop_Ok:
  "single_payee_loop pay amt False outs = Ok r \<longleftrightarrow>
     (case filter (\<lambda>out. script_pubkey out = pay) outs of
        [] \<Rightarrow> \<not> r
      | [out] \<Rightarrow> r \<and> (\<forall>a. amt = Some a \<longrightarrow> txo_value out = a)
      | _ \<Rightarrow> False)"
proof (induction outs)
  case (Cons out outs)
  show ?case
  proof (cases "script_pubkey out = pay")
    case True
    then show ?thesis
      by (simp only: single_payee_loop_payee [OF True] single_payee_loop_found)
        (auto split: list.split)
  next
    case False
    then show ?thesis by (simp only: single_payee_loop_other [OF False] Cons.IH) simp
  qed
qed simp

text \<open>\<open>check_single_payee\<close> accepts exactly the transactions with one output to the payee, of the
  requested amount when there is one.\<close>

lemma check_single_payee_Ok:
  "check_single_payee p pay amt = Ok u \<longleftrightarrow>
     (\<exists>out. filter (\<lambda>out. script_pubkey out = pay) (tx_output (unsigned_tx p)) = [out] \<and>
        (\<forall>a. amt = Some a \<longrightarrow> txo_value out = a))"
proof -
  let ?F = "filter (\<lambda>out. script_pubkey out = pay) (tx_output (unsigned_tx p))"
  have "check_single_payee p pay amt = Ok u \<longleftrightarrow>
      single_payee_loop pay amt False (tx_output (unsigned_tx p)) = Ok True"
    by (auto simp: check_single_payee_def rbind_eq_Ok split: if_splits)
  then show ?thesis
    by (cases ?F rule: remdups_adj.cases) (simp_all add: single_payee_loop_Ok)
qed

text \<open>The offered contribution: what \<open>determine_fee_contribution\<close> guarantees.\<close>

definition contribution_ok :: "psbt \<Rightarrow> script \<Rightarrow> additional_fee_contribution \<Rightarrow> bool" where
  "contribution_ok p pay fc \<longleftrightarrow>
     fee_vout fc < length (tx_output (unsigned_tx p)) \<and>
     script_pubkey (tx_output (unsigned_tx p) ! fee_vout fc) \<noteq> pay \<and>
     max_amount fc \<le> txo_value (tx_output (unsigned_tx p) ! fee_vout fc)"

lemma check_fee_output_amount_Ok:
  "check_fee_output_amount out fee clamp = Ok m \<Longrightarrow> m \<le> txo_value out \<and> m \<le> fee"
  by (auto simp: check_fee_output_amount_def split: if_splits)

lemma find_change_index_ok:
  "find_change_index p pay fee clamp = Ok (Some fc) \<Longrightarrow> contribution_ok p pay fc \<and> max_amount fc \<le> fee"
proof -
  let ?outs = "tx_output (unsigned_tx p)"
  assume "find_change_index p pay fee clamp = Ok (Some fc)"
  then obtain i m where "position (\<lambda>o'. script_pubkey o' \<noteq> pay) ?outs = Some i"
    and "check_fee_output_amount (?outs ! i) fee clamp = Ok m" and "fc = \<lparr>max_amount = m, fee_vout = i\<rparr>"
    unfolding find_change_index_def Let_def by (auto simp: rbind_eq_Ok split: if_split_asm)
  then show ?thesis
    using position_SomeD [of _ ?outs i] check_fee_output_amount_Ok
    by (auto simp: contribution_ok_def)
qed

lemma check_change_index_ok:
  "check_change_index p pay fee i clamp = Ok fc \<Longrightarrow>
     contribution_ok p pay fc \<and> max_amount fc \<le> fee \<and> fee_vout fc = i"
  by (auto simp: check_change_index_def res_Ok_simps contribution_ok_def slice_get_eq_Some
      dest!: check_fee_output_amount_Ok split: if_splits)

lemma determine_fee_contribution_ok:
  assumes "determine_fee_contribution p pay contribution clamp = Ok fc"
  shows "case fc of Some f \<Rightarrow> contribution_ok p pay f \<and>
           (\<exists>fee i. contribution = Some (fee, i) \<and> max_amount f \<le> fee) | None \<Rightarrow> True"
  using assms find_change_index_ok [of p pay _ clamp] check_change_index_ok [of p pay _ _ clamp]
  by (auto simp: determine_fee_contribution_def res_Ok_simps split: option.splits prod.splits)

definition valid_sender_context :: "btc \<Rightarrow> sender_context \<Rightarrow> bool" where
  "valid_sender_context L c \<longleftrightarrow>
     well_formed (original_psbt c) \<and>
     (\<forall>i\<in>set (input_pairs (original_psbt c)). validate_utxo L i = Ok ()) \<and>
     (\<exists>out. filter (\<lambda>out. script_pubkey out = payee c) (tx_output (unsigned_tx (original_psbt c))) = [out]) \<and>
     (\<forall>fc. fee_contribution c = Some fc \<longrightarrow> contribution_ok (original_psbt c) (payee c) fc)"

lemma check_sighash_types_Ok:
  "check_sighash_types L is = Ok u \<longleftrightarrow>
     (\<forall>i\<in>set is. \<forall>ty. sighash_type i = Some ty \<longrightarrow> commits_to_all_inputs_and_outputs L ty)"
  by (induction "is") (auto simp: res_Ok_simps split: option.split)

lemma build_valid:
  assumes "build L b os = Ok c"
  shows "valid_sender_context L c \<and> original_psbt c = bd_psbt b \<and> payee c = bd_payee b \<and>
    output_substitution c = os \<and> min_fee_rate c = bd_min_fee_rate b \<and>
    determine_fee_contribution (bd_psbt b) (bd_payee b) (bd_fee_contribution b)
      (bd_clamp_fee_contribution b) = Ok (fee_contribution c)"
proof -
  from assms obtain fc where f:
    "well_formed (bd_psbt b)" "validate_input_utxos L (bd_psbt b) = Ok ()"
    "check_single_payee (bd_psbt b) (bd_payee b) (bd_amount b) = Ok ()"
    "determine_fee_contribution (bd_psbt b) (bd_payee b) (bd_fee_contribution b)
      (bd_clamp_fee_contribution b) = Ok fc"
    and c: "c = \<lparr>original_psbt = bd_psbt b, output_substitution = os, fee_contribution = fc,
           min_fee_rate = bd_min_fee_rate b, payee = bd_payee b\<rparr>"
    by (auto simp: build_def res_Ok_simps psbt_validate_Ok)
  from f(2-4) show ?thesis
    using determine_fee_contribution_ok [OF f(4)] f(1)
    by (auto simp: c valid_sender_context_def validate_input_utxos_def validate_utxos_from_Ok
        check_single_payee_Ok)
qed

text \<open>
  The search of \<open>build_recommended\<close>. Its iterator over the single payee script is consumed by
  the first comparison that fails, so the output after the payee's passes without one. It is
  still an output that does not pay the payee when the payee is paid only once.
\<close>

lemma find_fee_output_empty: "find_fee_output [] i outs = (case outs of [] \<Rightarrow> None | t # _ \<Rightarrow> Some (i, txo_value t))"
  by (cases outs) simp_all

lemma find_fee_output_one:
  "find_fee_output [pay] 0 outs =
     (case outs of
        [] \<Rightarrow> None
      | t # ts \<Rightarrow> if script_pubkey t \<noteq> pay then Some (0, txo_value t)
                  else (case ts of [] \<Rightarrow> None | u # _ \<Rightarrow> Some (1, txo_value u)))"
  by (cases outs) (auto simp: find_fee_output_empty split: list.split)

lemma build_additional_fee_Ok:
  assumes "build_with_additional_fee L b m (Some i) r clamp os = Ok c"
  shows "valid_sender_context L c \<and> original_psbt c = bd_psbt b \<and> payee c = bd_payee b \<and>
    output_substitution c = os \<and> min_fee_rate c = r \<and>
    (\<exists>fc. fee_contribution c = Some fc \<and> check_change_index (bd_psbt b) (bd_payee b) m i clamp = Ok fc)"
  using build_valid [OF assms [unfolded build_with_additional_fee_def]]
  by (auto simp: determine_fee_contribution_def rmap_eq_Ok)

lemma build_non_incentivizing_Ok:
  assumes "build_non_incentivizing L b r os = Ok c"
  shows "valid_sender_context L c \<and> original_psbt c = bd_psbt b \<and> payee c = bd_payee b \<and>
    output_substitution c = os \<and> min_fee_rate c = r \<and> fee_contribution c = None"
  using build_valid [OF assms [unfolded build_non_incentivizing_def]]
  by (auto simp: determine_fee_contribution_def)

lemma recommended_branch:
  assumes "(case input_pairs (bd_psbt b) of
      [] \<Rightarrow> Err BS_NoInputs
    | first # rest \<Rightarrow>
        rbind (map_err BS_InputWeight (expected_input_weight L first)) (\<lambda>w0.
        rbind (mixed_input_weight L first w0 rest) (\<lambda>input_weight.
        rbind (ok_or (BS_AddressType AT_FeeRateOverflow)
                 (checked_mul_by_weight L r input_weight)) (\<lambda>recommended.
          if v < recommended
          then build_with_additional_fee L b v (Some i) r True os
          else build_with_additional_fee L b recommended (Some i) r False os)))) = Ok c"
  shows "\<exists>w a. checked_mul_by_weight L r w = Some a \<and>
    build_with_additional_fee L b (min v a) (Some i) r (v < a) os = Ok c"
proof -
  from assms obtain w a where "checked_mul_by_weight L r w = Some a"
    and "(if v < a then build_with_additional_fee L b v (Some i) r True os
          else build_with_additional_fee L b a (Some i) r False os) = Ok c"
    by (auto simp only: rbind_eq_Ok ok_or_eq_Ok map_err_eq_Ok split: list.splits)
  then have "build_with_additional_fee L b (min v a) (Some i) r (v < a) os = Ok c"
    by (auto simp: min_def split: if_splits)
  with \<open>checked_mul_by_weight L r w = Some a\<close> show ?thesis by blast
qed

text \<open>The two ways \<open>build_recommended\<close> ends.\<close>

lemma build_recommended_cases:
  assumes ok: "build_recommended L b r os = Ok c"
  obtains
    (plain) "build_non_incentivizing L b r os = Ok c" "length (tx_output (unsigned_tx (bd_psbt b))) \<le> 1"
  | (fee) i v w a where
      "find_fee_output [bd_payee b] 0 (tx_output (unsigned_tx (bd_psbt b))) = Some (i, v)"
      "checked_mul_by_weight L r w = Some a"
      "build_with_additional_fee L b (min v a) (Some i) r (v < a) os = Ok c"
proof -
  let ?outs = "tx_output (unsigned_tx (bd_psbt b))"
  show ?thesis
  proof (cases "length ?outs = 1 \<and> bd_payee b = script_pubkey (?outs ! 0)")
    case True
    with ok show ?thesis by (intro plain) (auto simp: build_recommended_def Let_def)
  next
    case False
    then have no_sweep: "(if length ?outs = 1
        then iter_all (\<lambda>s. s = script_pubkey (?outs ! 0)) [bd_payee b] else (False, [bd_payee b])) =
      (False, if length ?outs = 1 then [] else [bd_payee b])" by simp
    show ?thesis
    proof (cases "length ?outs = 1")
      case True
      then obtain t where t: "?outs = [t]" by (auto simp: length_Suc_conv)
      with False have "script_pubkey t \<noteq> bd_payee b" by auto
      then have "find_fee_output [bd_payee b] 0 ?outs = Some (0, txo_value t)"
        and "find_fee_output [] 0 ?outs = Some (0, txo_value t)" by (simp_all add: t)
      with ok no_sweep True show ?thesis
        by (auto simp: build_recommended_def dest!: recommended_branch intro: fee)
    next
      case many: False
      show ?thesis
      proof (cases "find_fee_output [bd_payee b] 0 ?outs")
        case None
        with many ok no_sweep show ?thesis
          by (intro plain) (auto simp: build_recommended_def find_fee_output_one split: list.splits if_split_asm)
      next
        case (Some iv)
        obtain i v where iv: "iv = (i, v)" by force
        from Some ok no_sweep many show ?thesis
          by (auto simp: build_recommended_def iv dest!: recommended_branch intro: fee)
      qed
    qed
  qed
qed



end
