(* ===== verification/PJ_Text.thy ===== *)
theory PJ_Text
  imports PJ_Prelude "HOL-Library.Char_ord"
begin

text \<open>
  The operations of the Rust standard library on strings and integers that the sources use.
  A \<open>str\<close> is its UTF-8 bytes, a list of characters below 256: every character that the sources
  search for or split at is ASCII, so the bytes of other characters never match it.
\<close>

section \<open>Searching and splitting\<close>

fun strip_prefix :: "string \<Rightarrow> string \<Rightarrow> string option" where
  "strip_prefix [] s = Some s"
| "strip_prefix (p # ps) [] = None"
| "strip_prefix (p # ps) (c # s) = (if p = c then strip_prefix ps s else None)"

definition starts_with :: "string \<Rightarrow> string \<Rightarrow> bool" where
  "starts_with p s \<longleftrightarrow> strip_prefix p s \<noteq> None"

text \<open>\<open>str::split(c)\<close>: always at least one part.\<close>

fun split_on :: "char \<Rightarrow> string \<Rightarrow> string list" where
  "split_on c [] = [[]]"
| "split_on c (x # xs) =
     (if x = c then [] # split_on c xs
      else (case split_on c xs of [] \<Rightarrow> [[x]] | p # ps \<Rightarrow> (x # p) # ps))"

fun join_with :: "string \<Rightarrow> string list \<Rightarrow> string" where
  "join_with sep [] = []"
| "join_with sep [p] = p"
| "join_with sep (p # q # ps) = p @ sep @ join_with sep (q # ps)"

definition before :: "char \<Rightarrow> string \<Rightarrow> string" where
  "before c s = takeWhile (\<lambda>x. x \<noteq> c) s"

definition after :: "char \<Rightarrow> string \<Rightarrow> string" where
  "after c s = tl (dropWhile (\<lambda>x. x \<noteq> c) s)"

definition split_once :: "char \<Rightarrow> string \<Rightarrow> (string \<times> string) option" where
  "split_once c s = (if c \<in> set s then Some (before c s, after c s) else None)"

fun find_str :: "string \<Rightarrow> string \<Rightarrow> nat option" where
  "find_str p [] = (if p = [] then Some 0 else None)"
| "find_str p (x # xs) = (if starts_with p (x # xs) then Some 0 else map_option Suc (find_str p xs))"

definition split_once_str :: "string \<Rightarrow> string \<Rightarrow> (string \<times> string) option" where
  "split_once_str p s = map_option (\<lambda>i. (take i s, drop (i + length p) s)) (find_str p s)"

text \<open>\<open>rfind(c)\<close> followed by \<open>[..=pos]\<close>: the string up to and including the last \<open>c\<close>.\<close>

definition upto_last :: "char \<Rightarrow> string \<Rightarrow> string option" where
  "upto_last c s = (if c \<in> set s then Some (rev (dropWhile (\<lambda>x. x \<noteq> c) (rev s))) else None)"

section \<open>Characters\<close>

definition is_digit :: "char \<Rightarrow> bool" where
  "is_digit c \<longleftrightarrow> 48 \<le> (of_char c :: nat) \<and> (of_char c :: nat) \<le> 57"

definition is_lower :: "char \<Rightarrow> bool" where
  "is_lower c \<longleftrightarrow> 97 \<le> (of_char c :: nat) \<and> (of_char c :: nat) \<le> 122"

definition is_upper :: "char \<Rightarrow> bool" where
  "is_upper c \<longleftrightarrow> 65 \<le> (of_char c :: nat) \<and> (of_char c :: nat) \<le> 90"

definition is_alphanumeric :: "char \<Rightarrow> bool" where
  "is_alphanumeric c \<longleftrightarrow> is_digit c \<or> is_lower c \<or> is_upper c"

definition to_lower :: "char \<Rightarrow> char" where
  "to_lower c = (if is_upper c then char_of (of_char c + 32 :: nat) else c)"

definition to_upper :: "char \<Rightarrow> char" where
  "to_upper c = (if is_lower c then char_of (of_char c - 32 :: nat) else c)"

section \<open>Integers\<close>

definition digit_value :: "nat \<Rightarrow> char \<Rightarrow> nat option" where
  "digit_value r c =
     (let n = of_char c :: nat;
          v = (if is_digit c then n - 48 else if is_lower c then n - 87
               else if is_upper c then n - 55 else r)
      in if v < r then Some v else None)"

fun parse_digits :: "nat \<Rightarrow> nat \<Rightarrow> nat \<Rightarrow> string \<Rightarrow> nat option" where
  "parse_digits r limit acc [] = Some acc"
| "parse_digits r limit acc (c # cs) =
     (case digit_value r c of
        None \<Rightarrow> None
      | Some d \<Rightarrow> if acc * r + d \<le> limit then parse_digits r limit (acc * r + d) cs else None)"

text \<open>\<open>from_str_radix\<close> of an unsigned type with the given maximum: an optional \<open>+\<close>, then digits.\<close>

definition parse_radix :: "nat \<Rightarrow> nat \<Rightarrow> string \<Rightarrow> nat option" where
  "parse_radix r limit s =
     (case s of
        [] \<Rightarrow> None
      | c # cs \<Rightarrow> if c = CHR ''+'' then (if cs = [] then None else parse_digits r limit 0 cs)
                  else parse_digits r limit 0 s)"

abbreviation parse_u8 :: "string \<Rightarrow> nat option" where "parse_u8 \<equiv> parse_radix 10 255"
abbreviation parse_u16 :: "string \<Rightarrow> nat option" where "parse_u16 \<equiv> parse_radix 10 65535"

definition digit_char :: "nat \<Rightarrow> char" where
  "digit_char d = (if d < 10 then char_of (d + 48) else char_of (d + 87))"

fun show_radix :: "nat \<Rightarrow> nat \<Rightarrow> string" where
  "show_radix r n =
     (if r < 2 then [] else if n < r then [digit_char n]
      else show_radix r (n div r) @ [digit_char (n mod r)])"

declare show_radix.simps [simp del]

abbreviation show_dec :: "nat \<Rightarrow> string" where "show_dec \<equiv> show_radix 10"
abbreviation show_hex :: "nat \<Rightarrow> string" where "show_hex \<equiv> show_radix 16"

section \<open>UTF-8\<close>

text \<open>\<open>str::from_utf8\<close>: the well-formed byte sequences of the Unicode standard (table 3-7).\<close>

definition in_range :: "nat \<Rightarrow> nat \<Rightarrow> char \<Rightarrow> bool" where
  "in_range lo hi c \<longleftrightarrow> lo \<le> (of_char c :: nat) \<and> (of_char c :: nat) \<le> hi"

definition utf8_two :: "char \<Rightarrow> char \<Rightarrow> bool" where
  "utf8_two a b \<longleftrightarrow> in_range 194 223 a \<and> in_range 128 191 b"

definition utf8_three :: "char \<Rightarrow> char \<Rightarrow> char \<Rightarrow> bool" where
  "utf8_three a b c \<longleftrightarrow> in_range 128 191 c \<and>
     (in_range 224 224 a \<and> in_range 160 191 b \<or> in_range 225 236 a \<and> in_range 128 191 b \<or>
      in_range 237 237 a \<and> in_range 128 159 b \<or> in_range 238 239 a \<and> in_range 128 191 b)"

definition utf8_four :: "char \<Rightarrow> char \<Rightarrow> char \<Rightarrow> char \<Rightarrow> bool" where
  "utf8_four a b c d \<longleftrightarrow> in_range 128 191 c \<and> in_range 128 191 d \<and>
     (in_range 240 240 a \<and> in_range 144 191 b \<or> in_range 241 243 a \<and> in_range 128 191 b \<or>
      in_range 244 244 a \<and> in_range 128 143 b)"

text \<open>The position of the first malformed sequence, if there is one.\<close>

fun utf8_error :: "nat \<Rightarrow> string \<Rightarrow> nat option" where
  "utf8_error pos [] = None"
| "utf8_error pos (a # s) =
     (if in_range 0 127 a then utf8_error (pos + 1) s
      else case s of
        [] \<Rightarrow> Some pos
      | b # s2 \<Rightarrow>
          if utf8_two a b then utf8_error (pos + 2) s2
          else (case s2 of
            [] \<Rightarrow> Some pos
          | c # s3 \<Rightarrow>
              if utf8_three a b c then utf8_error (pos + 3) s3
              else (case s3 of
                [] \<Rightarrow> Some pos
              | d # s4 \<Rightarrow> if utf8_four a b c d then utf8_error (pos + 4) s4 else Some pos)))"

definition from_utf8 :: "string \<Rightarrow> nat + string" where
  "from_utf8 s = (case utf8_error 0 s of Some pos \<Rightarrow> Inl pos | None \<Rightarrow> Inr s)"

section \<open>Lemmas\<close>

lemma strip_prefix_eq_Some: "strip_prefix p s = Some t \<longleftrightarrow> s = p @ t"
  by (induction p s rule: strip_prefix.induct) auto

lemma starts_with_iff: "starts_with p s \<longleftrightarrow> (\<exists>t. s = p @ t)"
  by (auto simp: starts_with_def strip_prefix_eq_Some)

lemma split_on_not_Nil [simp]: "split_on c s \<noteq> []"
  by (induction s) (auto split: list.split)

lemma split_on_none: "c \<notin> set s \<Longrightarrow> split_on c s = [s]"
  by (induction s) auto

lemma split_on_parts: "p \<in> set (split_on c s) \<Longrightarrow> c \<notin> set p"
  by (induction s arbitrary: p) (auto split: list.splits if_splits)

lemma split_on_append: "c \<notin> set p \<Longrightarrow> split_on c (p @ c # s) = p # split_on c s"
  by (induction p) auto

lemma join_split [simp]: "join_with [c] (split_on c s) = s"
proof (induction s)
  case (Cons x xs)
  show ?case
  proof (cases "split_on c xs")
    case Nil
    then show ?thesis by simp
  next
    case Cons': (Cons p ps)
    then show ?thesis using Cons by (cases ps) auto
  qed
qed simp

lemma split_join: "ps \<noteq> [] \<Longrightarrow> \<forall>p\<in>set ps. c \<notin> set p \<Longrightarrow> split_on c (join_with [c] ps) = ps"
proof (induction "[c]" ps rule: join_with.induct)
  case (3 p q ps)
  then show ?case using split_on_append [of c p "join_with [c] (q # ps)"] by simp
qed (auto simp: split_on_none)

lemma set_join: "set (join_with sep ps) \<subseteq> set sep \<union> (\<Union>p\<in>set ps. set p)"
  by (induction sep ps rule: join_with.induct) auto

lemma before_after: "c \<in> set s \<Longrightarrow> s = before c s @ c # after c s"
  unfolding before_def after_def
  by (metis (mono_tags, lifting) dropWhile_eq_Cons_conv dropWhile_eq_Nil_conv list.exhaust_sel
      takeWhile_dropWhile_id)

lemma before_append: "c \<notin> set p \<Longrightarrow> before c (p @ c # s) = p"
  by (induction p) (auto simp: before_def)

lemma after_append: "c \<notin> set p \<Longrightarrow> after c (p @ c # s) = s"
  by (induction p) (auto simp: after_def)

lemma before_none: "c \<notin> set s \<Longrightarrow> before c s = s"
  by (induction s) (auto simp: before_def)

lemma before_not_in: "c \<notin> set (before c s)"
  by (auto simp: before_def dest: set_takeWhileD)

lemma split_once_append: "c \<notin> set p \<Longrightarrow> split_once c (p @ c # s) = Some (p, s)"
  by (simp add: split_once_def before_append after_append)

lemma split_once_eq_Some: "split_once c s = Some (p, t) \<longleftrightarrow> s = p @ c # t \<and> c \<notin> set p"
proof
  assume "split_once c s = Some (p, t)"
  then show "s = p @ c # t \<and> c \<notin> set p"
    using before_after [of c s] before_not_in [of c s] by (auto simp: split_once_def split: if_splits)
next
  assume "s = p @ c # t \<and> c \<notin> set p"
  then show "split_once c s = Some (p, t)" by (simp add: split_once_append)
qed

lemma find_str_SomeD: "find_str p s = Some i \<Longrightarrow> \<exists>t. s = take i s @ p @ t"
  by (induction s arbitrary: i) (auto simp: starts_with_iff split: if_splits)

lemma of_char_digit: "d < 10 \<Longrightarrow> of_char (digit_char d) = (d + 48 :: nat)"
  by (simp add: digit_char_def)

lemma of_char_letter: "10 \<le> d \<Longrightarrow> d < 36 \<Longrightarrow> of_char (digit_char d) = (d + 87 :: nat)"
  by (simp add: digit_char_def)

lemma digit_value_char: "d < r \<Longrightarrow> r \<le> 36 \<Longrightarrow> digit_value r (digit_char d) = Some d"
  by (cases "d < 10") (auto simp: digit_value_def Let_def is_digit_def is_lower_def of_char_digit of_char_letter)

lemma parse_digits_le: "parse_digits r limit acc s = Some n \<Longrightarrow> acc \<le> limit \<Longrightarrow> n \<le> limit"
  by (induction s arbitrary: acc) (auto split: option.splits if_splits)

lemma parse_radix_le: "parse_radix r limit s = Some n \<Longrightarrow> n \<le> limit"
  by (auto simp: parse_radix_def split: list.splits if_splits dest: parse_digits_le)
    (auto split: option.splits if_splits dest: parse_digits_le)

lemma parse_digits_append:
  "parse_digits r limit acc (s @ t) = Option.bind (parse_digits r limit acc s) (\<lambda>a. parse_digits r limit a t)"
  by (induction s arbitrary: acc) (auto split: option.split)

lemma parse_digits_show:
  "2 \<le> r \<Longrightarrow> r \<le> 36 \<Longrightarrow> n \<le> limit \<Longrightarrow> parse_digits r limit 0 (show_radix r n) = Some n"
proof (induction r n rule: show_radix.induct)
  case (1 r n)
  show ?case
  proof (cases "n < r")
    case True
    with 1 show ?thesis by (simp add: show_radix.simps digit_value_char)
  next
    case False
    have "n div r \<le> limit" using "1.prems"(3) div_le_dividend le_trans by blast
    with False 1 have "parse_digits r limit 0 (show_radix r (n div r)) = Some (n div r)" by simp
    with False 1 show ?thesis
      by (subst show_radix.simps) (simp add: parse_digits_append digit_value_char mult.commute)
  qed
qed

lemma show_radix_not_Nil: "2 \<le> r \<Longrightarrow> show_radix r n \<noteq> []"
  by (subst show_radix.simps) simp

lemma show_radix_digits: "2 \<le> r \<Longrightarrow> r \<le> 36 \<Longrightarrow> c \<in> set (show_radix r n) \<Longrightarrow> \<exists>d<r. c = digit_char d"
proof (induction r n rule: show_radix.induct)
  case (1 r n)
  show ?case
  proof (cases "n < r")
    case True
    with "1.prems" show ?thesis by (auto simp: show_radix.simps [of r n])
  next
    case False
    from "1.prems" False have "c \<in> set (show_radix r (n div r)) \<or> c = digit_char (n mod r)"
      by (auto simp: show_radix.simps [of r n])
    moreover have "n mod r < r" using "1.prems" by simp
    ultimately show ?thesis using "1.IH" "1.prems" False by fastforce
  qed
qed

lemma digit_char_alphanumeric: "d < 36 \<Longrightarrow> is_alphanumeric (digit_char d)"
  by (cases "d < 10") (auto simp: is_alphanumeric_def is_digit_def is_lower_def of_char_digit of_char_letter)

lemma digit_char_is_digit: "d < 10 \<Longrightarrow> is_digit (digit_char d)"
  by (simp add: is_digit_def of_char_digit)

lemma show_radix_alphanumeric:
  "2 \<le> r \<Longrightarrow> r \<le> 36 \<Longrightarrow> c \<in> set (show_radix r n) \<Longrightarrow> is_alphanumeric c"
  using show_radix_digits [of r c n] digit_char_alphanumeric by fastforce

lemma show_dec_digits: "c \<in> set (show_dec n) \<Longrightarrow> is_digit c"
  using show_radix_digits [of 10 c n] digit_char_is_digit by auto

lemma plus_not_alphanumeric: "\<not> is_alphanumeric CHR ''+''"
  by (simp add: is_alphanumeric_def is_digit_def is_lower_def is_upper_def)

lemma parse_radix_show:
  assumes "2 \<le> r" "r \<le> 36" "n \<le> limit"
  shows "parse_radix r limit (show_radix r n) = Some n"
proof (cases "show_radix r n")
  case Nil
  then show ?thesis using show_radix_not_Nil [OF assms(1)] by simp
next
  case (Cons c cs)
  then have "c \<noteq> CHR ''+''"
    using show_radix_alphanumeric [OF assms(1,2), of c n] plus_not_alphanumeric by auto
  then show ?thesis using parse_digits_show [OF assms] by (simp add: Cons parse_radix_def)
qed

lemma is_digit_alphanumeric: "is_digit c \<Longrightarrow> is_alphanumeric c"
  by (simp add: is_alphanumeric_def)

lemma to_lower_idem [simp]: "to_lower (to_lower c) = to_lower c"
proof (cases "is_upper c")
  case True
  then have "of_char (char_of (of_char c + 32 :: nat) :: char) = (of_char c + 32 :: nat)"
    by (auto simp: is_upper_def)
  with True show ?thesis by (auto simp: to_lower_def is_upper_def)
qed (simp add: to_lower_def)

end
