(* ===== verification/PJ_Url.thy ===== *)
theory PJ_Url
  imports PJ_Text
begin

text \<open>
  \<open>payjoin/src/core/url.rs\<close>: the URL type of the library, its parser, and the operations that
  change a URL. \<open>raw\<close> is the serialised form that the source keeps beside the components.
  Percent decoding is a crate of its own and a parameter of \<open>query_pairs\<close>.
\<close>

datatype host = Domain string | Ipv4 "8 word list" | Ipv6 "16 word list"

record url =
  raw :: string
  scheme :: string
  url_host :: host
  port :: "16 word option"
  path :: string
  query :: "string option"
  fragment :: "string option"

datatype parse_error = EmptyHost | InvalidScheme | InvalidFormat | InvalidPort | InvalidHost

section \<open>Serialisation\<close>

fun host_str :: "host \<Rightarrow> string" where
  "host_str (Domain d) = d"
| "host_str (Ipv4 octets) = join_with ''.'' (map (\<lambda>o'. show_dec (unat o')) octets)"
| "host_str (Ipv6 segs) = ''['' @ join_with '':'' (map (\<lambda>g. show_hex (unat g)) segs) @ '']''"

definition render_port :: "16 word option \<Rightarrow> string" where
  "render_port p = (case p of Some n \<Rightarrow> '':'' @ show_dec (unat n) | None \<Rightarrow> [])"

definition render_query :: "string option \<Rightarrow> string" where
  "render_query q = (case q of Some s \<Rightarrow> ''?'' @ s | None \<Rightarrow> [])"

definition render_fragment :: "string option \<Rightarrow> string" where
  "render_fragment f = (case f of Some s \<Rightarrow> ''#'' @ s | None \<Rightarrow> [])"

definition render :: "url \<Rightarrow> string" where
  "render u = scheme u @ ''://'' @ host_str (url_host u) @ render_port (port u) @ path u
     @ render_query (query u) @ render_fragment (fragment u)"

definition rebuild_raw :: "url \<Rightarrow> url" where
  "rebuild_raw u = u\<lparr>raw := render u\<rparr>"

section \<open>Parser\<close>

definition scheme_char :: "char \<Rightarrow> bool" where
  "scheme_char c \<longleftrightarrow> is_alphanumeric c \<or> c = CHR ''+'' \<or> c = CHR ''-'' \<or> c = CHR ''.''"

fun scheme_loop :: "string \<Rightarrow> (string, parse_error) res" where
  "scheme_loop [] = Ok []"
| "scheme_loop (c # cs) =
     (if scheme_char c then rmap (\<lambda>s. c # s) (scheme_loop cs)
      else if c = CHR '':'' then Ok [] else Err InvalidScheme)"

definition parse_scheme :: "string \<Rightarrow> (string \<times> string, parse_error) res" where
  "parse_scheme input =
     rbind (scheme_loop input) (\<lambda>s.
       if s = [] then Err InvalidScheme else Ok (drop (length s) input, map to_lower s))"

definition parse_ipv6_groups :: "string \<Rightarrow> (16 word list, parse_error) res" where
  "parse_ipv6_groups s =
     (if s = [] then Ok []
      else try_map (\<lambda>p. ok_or InvalidHost (map_option of_nat (parse_radix 16 65535 p)))
             (split_on CHR '':'' s))"

definition parse_ipv6 :: "string \<Rightarrow> (host, parse_error) res" where
  "parse_ipv6 s =
     (case split_once_str ''::'' s of
        Some (left, right) \<Rightarrow>
          rbind (parse_ipv6_groups left) (\<lambda>left_parts.
          rbind (parse_ipv6_groups right) (\<lambda>right_parts.
            if length left_parts + length right_parts > 7 then Err InvalidHost
            else Ok (Ipv6 (left_parts @ replicate (8 - length left_parts - length right_parts) 0
                           @ right_parts))))
      | None \<Rightarrow>
          rbind (parse_ipv6_groups s) (\<lambda>parts.
            if length parts \<noteq> 8 then Err InvalidHost else Ok (Ipv6 parts)))"

definition try_parse_ipv4 :: "string \<Rightarrow> host option" where
  "try_parse_ipv4 s =
     (let parts = split_on CHR ''.'' s in
      if length parts \<noteq> 4 then None
      else map_option (\<lambda>os. Ipv4 (map of_nat os))
             (ok (try_map (\<lambda>p. ok_or () (parse_u8 p)) parts)))"

definition host_end :: "char \<Rightarrow> bool" where
  "host_end c \<longleftrightarrow> c = CHR '':'' \<or> c = CHR ''/'' \<or> c = CHR ''?'' \<or> c = CHR ''#''"

definition host_char :: "char \<Rightarrow> bool" where
  "host_char c \<longleftrightarrow> is_alphanumeric c \<or> c = CHR ''-'' \<or> c = CHR ''.''"

definition parse_host :: "string \<Rightarrow> (string \<times> host, parse_error) res" where
  "parse_host input =
     (if starts_with ''['' input
      then if CHR '']'' \<in> set input
           then rbind (parse_ipv6 (before CHR '']'' (tl input))) (\<lambda>h. Ok (after CHR '']'' input, h))
           else Err InvalidHost
      else (let host = takeWhile (\<lambda>c. \<not> host_end c) input;
                rest = dropWhile (\<lambda>c. \<not> host_end c) input
            in case try_parse_ipv4 host of
                 Some h \<Rightarrow> Ok (rest, h)
               | None \<Rightarrow> if host = [] then Err EmptyHost
                         else if \<not> list_all host_char host then Err InvalidHost
                         else Ok (rest, Domain host)))"

fun port_loop :: "string \<Rightarrow> (string, parse_error) res" where
  "port_loop [] = Ok []"
| "port_loop (c # cs) =
     (if is_digit c then rmap (\<lambda>s. c # s) (port_loop cs)
      else if c = CHR ''/'' \<or> c = CHR ''?'' \<or> c = CHR ''#'' then Ok []
      else Err InvalidPort)"

definition parse_port :: "string \<Rightarrow> (string \<times> 16 word option, parse_error) res" where
  "parse_port input =
     (case strip_prefix '':'' input of
        None \<Rightarrow> Ok (input, None)
      | Some rest \<Rightarrow>
          rbind (port_loop rest) (\<lambda>port_str.
            if port_str = [] then Ok (rest, None)
            else rbind (ok_or InvalidPort (parse_u16 port_str)) (\<lambda>n.
                   Ok (drop (length port_str) rest, Some (of_nat n)))))"

definition parse_path_query_fragment :: "string \<Rightarrow> string \<times> string option \<times> string option" where
  "parse_path_query_fragment input =
     (let (before_fragment, f) = (case split_once CHR ''#'' input of
            Some (a, b) \<Rightarrow> (a, Some b) | None \<Rightarrow> (input, None));
          (p, q) = (case split_once CHR ''?'' before_fragment of
            Some (a, b) \<Rightarrow> (a, Some b) | None \<Rightarrow> (before_fragment, None))
      in (p, q, f))"

definition parse_port_or :: "string \<Rightarrow> string \<times> 16 word option" where
  "parse_port_or rest = (case parse_port rest of Ok r \<Rightarrow> r | _ \<Rightarrow> (rest, None))"

definition parse :: "string \<Rightarrow> (url, parse_error) res" where
  "parse input =
     rbind (parse_scheme input) (\<lambda>(rest, sch).
     case strip_prefix ''://'' rest of
       None \<Rightarrow> Err InvalidFormat
     | Some rest \<Rightarrow>
         rbind (parse_host rest) (\<lambda>(rest, h).
           let (rest, prt) = parse_port_or rest;
               (p, q, f) = parse_path_query_fragment rest;
               p = (if p = [] then ''/'' else p)
           in Ok (rebuild_raw \<lparr>raw = [], scheme = sch, url_host = h, port = prt, path = p, query = q,
                               fragment = f\<rparr>)))"

section \<open>Operations\<close>

definition domain :: "url \<Rightarrow> string option" where
  "domain u = (case url_host u of Domain d \<Rightarrow> Some d | _ \<Rightarrow> None)"

definition set_port :: "16 word option \<Rightarrow> url \<Rightarrow> url" where
  "set_port p u = rebuild_raw (u\<lparr>port := p\<rparr>)"

definition set_fragment :: "string option \<Rightarrow> url \<Rightarrow> url" where
  "set_fragment f u = rebuild_raw (u\<lparr>fragment := f\<rparr>)"

definition clear_query :: "url \<Rightarrow> url" where
  "clear_query u = rebuild_raw (u\<lparr>query := None\<rparr>)"

definition append_pair :: "string \<Rightarrow> string \<Rightarrow> url \<Rightarrow> url" where
  "append_pair k v u =
     (let new_pair = k @ ''='' @ v in
      rebuild_raw (u\<lparr>query := Some (case query u of Some q \<Rightarrow> q @ ''&'' @ new_pair | None \<Rightarrow> new_pair)\<rparr>))"

text \<open>\<open>PathSegmentsMut::push\<close>; the handle rebuilds the serialised form when it is dropped.\<close>

definition push_segment :: "string \<Rightarrow> url \<Rightarrow> url" where
  "push_segment seg u =
     u\<lparr>path := (if path u \<noteq> [] \<and> last (path u) \<noteq> CHR ''/'' then path u @ ''/'' else path u) @ seg\<rparr>"

definition push_segments :: "string list \<Rightarrow> url \<Rightarrow> url" where
  "push_segments segs u = rebuild_raw (fold push_segment segs u)"

definition path_segments :: "url \<Rightarrow> string list" where
  "path_segments u =
     (if path u = [] \<or> path u = ''/'' then []
      else split_on CHR ''/'' (dropWhile (\<lambda>c. c = CHR ''/'') (path u)))"

definition query_pairs :: "(string \<Rightarrow> string option) \<Rightarrow> url \<Rightarrow> (string \<times> string) list" where
  "query_pairs decode u =
     (case query u of
        None \<Rightarrow> []
      | Some q \<Rightarrow>
          List.map_filter (\<lambda>pair.
            case split_once CHR ''='' pair of
              None \<Rightarrow> None
            | Some (k, v) \<Rightarrow>
                Option.bind (decode k) (\<lambda>key. Option.bind (decode v) (\<lambda>val. Some (key, val))))
            (filter (\<lambda>s. s \<noteq> []) (split_on CHR ''&'' q)))"

text \<open>The dot segments of a relative reference, resolved with a stack.\<close>

fun resolve_dots :: "string list \<Rightarrow> string list \<Rightarrow> string list" where
  "resolve_dots stack [] = stack"
| "resolve_dots stack (p # ps) =
     (if p = ''.'' then resolve_dots stack ps
      else if p = ''..'' then resolve_dots (butlast stack) ps
      else resolve_dots (stack @ [p]) ps)"

definition full_url_reference :: "string \<Rightarrow> bool" where
  "full_url_reference segment =
     (case find_str ''://'' segment of Some pos \<Rightarrow> CHR ''/'' \<notin> set (take pos segment) | None \<Rightarrow> False)"

definition merged_path :: "string \<Rightarrow> string \<Rightarrow> string" where
  "merged_path base segment =
     (let base_path = (case upto_last CHR ''/'' base of Some b \<Rightarrow> b | None \<Rightarrow> ''/'');
          p = join_with ''/'' (resolve_dots [] (split_on CHR ''/'' (base_path @ segment)))
      in if starts_with ''/'' p then p else ''/'' @ p)"

definition join :: "string \<Rightarrow> url \<Rightarrow> (url, parse_error) res" where
  "join segment u =
     (if full_url_reference segment then parse segment
      else Ok (rebuild_raw (u\<lparr>
             path := (if starts_with ''/'' segment then segment else merged_path (path u) segment),
             query := None, fragment := None\<rparr>)))"

end
