(* ===== verification/PJ_Url_Facts.thy ===== *)
theory PJ_Url_Facts
  imports PJ_Url
begin

text \<open>
  Every URL that the parser accepts is well formed, a well-formed URL is read back from its
  serialised form, and the operations on URLs keep it well formed.
\<close>

section \<open>Well-formed URLs\<close>

definition scheme_ok :: "string \<Rightarrow> bool" where
  "scheme_ok s \<longleftrightarrow> s \<noteq> [] \<and> list_all scheme_char s \<and> map to_lower s = s"

fun host_ok :: "host \<Rightarrow> bool" where
  "host_ok (Domain d) \<longleftrightarrow> d \<noteq> [] \<and> list_all host_char d \<and> try_parse_ipv4 d = None"
| "host_ok (Ipv4 octets) \<longleftrightarrow> length octets = 4"
| "host_ok (Ipv6 segs) \<longleftrightarrow> length segs = 8"

fun is_ipv6 :: "host \<Rightarrow> bool" where
  "is_ipv6 (Ipv6 segs) = True"
| "is_ipv6 h = False"

definition url_tail :: "url \<Rightarrow> string" where
  "url_tail u = path u @ render_query (query u) @ render_fragment (fragment u)"

text \<open>
  What follows the host. The path normally starts with a slash; the parser also lets a malformed
  port through as the start of the path, and any text after a bracketed IPv6 host.
\<close>

definition tail_ok :: "url \<Rightarrow> bool" where
  "tail_ok u \<longleftrightarrow>
     path u \<noteq> [] \<and> CHR ''?'' \<notin> set (path u) \<and> CHR ''#'' \<notin> set (path u) \<and>
     (\<forall>q. query u = Some q \<longrightarrow> CHR ''#'' \<notin> set q) \<and>
     (hd (path u) = CHR ''/'' \<or>
        port u = None \<and> (hd (path u) = CHR '':'' \<or> is_ipv6 (url_host u)) \<and>
        parse_port_or (url_tail u) = (url_tail u, None))"

definition url_ok :: "url \<Rightarrow> bool" where
  "url_ok u \<longleftrightarrow> raw u = render u \<and> scheme_ok (scheme u) \<and> host_ok (url_host u) \<and> tail_ok u"

section \<open>The parts of the parser\<close>

lemma scheme_loop_Ok:
  "scheme_loop s = Ok a \<Longrightarrow> list_all scheme_char a \<and> (\<exists>t. s = a @ t)"
  by (induction s arbitrary: a) (auto simp: res_Ok_simps split: if_splits)

lemma colon_not_scheme_char: "\<not> scheme_char CHR '':''"
  by (simp add: scheme_char_def is_alphanumeric_def is_digit_def is_lower_def is_upper_def)

lemma scheme_loop_append:
  "list_all scheme_char a \<Longrightarrow> scheme_loop (a @ CHR '':'' # t) = Ok a"
  by (induction a) (auto simp: colon_not_scheme_char)

lemma to_lower_scheme_char: "scheme_char c \<Longrightarrow> scheme_char (to_lower c)"
  by (auto simp: scheme_char_def is_alphanumeric_def to_lower_def is_upper_def is_lower_def is_digit_def)

lemma parse_scheme_ok: "parse_scheme s = Ok (t, sch) \<Longrightarrow> scheme_ok sch"
  by (auto simp: parse_scheme_def res_Ok_simps scheme_ok_def list_all_iff to_lower_scheme_char comp_def
      dest!: scheme_loop_Ok split: if_splits)

lemma parse_scheme_render: "scheme_ok s \<Longrightarrow> parse_scheme (s @ CHR '':'' # t) = Ok (CHR '':'' # t, s)"
  by (simp add: parse_scheme_def scheme_ok_def scheme_loop_append)

lemma try_map_ok_or:
  "try_map (\<lambda>p. ok_or e (f p)) xs = Ok ys \<longleftrightarrow> map f xs = map Some ys"
  by (simp add: try_map_Ok list_all2_conv_all_nth list_eq_iff_nth_eq) (metis length_map nth_map)

lemma try_map_ok_or_total:
  "map f xs = map Some ys \<Longrightarrow> try_map (\<lambda>p. ok_or e (f p)) xs = Ok ys"
  by (simp add: try_map_ok_or)

lemma unat_bound: "unat (w :: 'a::len word) < 2 ^ LENGTH('a)"
  by (rule unsigned_less)

lemma parse_u8_show: "parse_u8 (show_dec (unat (o' :: 8 word))) = Some (unat o')"
  using unat_bound [of o'] by (intro parse_radix_show) simp_all

lemma parse_u16_show: "parse_u16 (show_dec (unat (n :: 16 word))) = Some (unat n)"
  using unat_bound [of n] by (intro parse_radix_show) simp_all

lemma parse_hex_show: "parse_radix 16 65535 (show_hex (unat (n :: 16 word))) = Some (unat n)"
  using unat_bound [of n] by (intro parse_radix_show) simp_all

lemma not_alphanumeric:
  "\<not> is_alphanumeric CHR '':''" "\<not> is_alphanumeric CHR ''.''" "\<not> is_alphanumeric CHR '']''"
  "\<not> is_alphanumeric CHR ''[''" "\<not> is_alphanumeric CHR ''/''" "\<not> is_alphanumeric CHR ''?''"
  "\<not> is_alphanumeric CHR ''#''"
  by (simp_all add: is_alphanumeric_def is_digit_def is_lower_def is_upper_def)

lemma show_free: "\<not> is_alphanumeric c \<Longrightarrow> 2 \<le> r \<Longrightarrow> r \<le> 36 \<Longrightarrow> c \<notin> set (show_radix r n)"
  using show_radix_alphanumeric by blast

lemma ipv4_render:
  assumes "length octets = 4"
  shows "try_parse_ipv4 (host_str (Ipv4 octets)) = Some (Ipv4 octets)"
proof -
  let ?parts = "map (\<lambda>o'. show_dec (unat o')) octets"
  have ne: "?parts \<noteq> []" using assms by auto
  have split: "split_on CHR ''.'' (host_str (Ipv4 octets)) = ?parts"
    unfolding host_str.simps using ne by (intro split_join) (auto simp: show_free not_alphanumeric)
  have "try_map (\<lambda>p. ok_or () (parse_u8 p)) ?parts = Ok (map unat octets)"
    by (intro try_map_ok_or_total) (simp add: comp_def parse_u8_show)
  then show ?thesis
    using assms by (simp only: try_parse_ipv4_def Let_def split) (simp add: comp_def)
qed

lemma ipv4_len: "try_parse_ipv4 s = Some h \<Longrightarrow> \<exists>octets. h = Ipv4 octets \<and> length octets = 4"
  by (auto simp: try_parse_ipv4_def Let_def try_map_Ok dest!: list_all2_lengthD split: if_splits)

lemma find_str_skip: "x \<noteq> CHR '':'' \<Longrightarrow> find_str ''::'' (x # xs) = map_option Suc (find_str ''::'' xs)"
  by (auto simp: starts_with_iff)

lemma find_str_free: "CHR '':'' \<notin> set p \<Longrightarrow> find_str ''::'' p = None"
  by (induction p) (auto simp: find_str_skip simp del: find_str.simps(2))

lemma find_str_append_free:
  "CHR '':'' \<notin> set p \<Longrightarrow> find_str ''::'' (p @ s) = map_option (\<lambda>i. i + length p) (find_str ''::'' s)"
  by (induction p) (auto simp: find_str_skip option.map_comp comp_def option.map_ident simp del: find_str.simps(2))

lemma find_str_one_colon: "s \<noteq> [] \<Longrightarrow> hd s \<noteq> CHR '':'' \<Longrightarrow>
   find_str ''::'' (CHR '':'' # s) = map_option Suc (find_str ''::'' s)"
  by (cases s) (auto simp: starts_with_iff)

lemma join_hd: "p \<noteq> [] \<Longrightarrow> hd (join_with sep (p # ps)) = hd p \<and> join_with sep (p # ps) \<noteq> []"
  by (cases ps) auto

lemma find_str_join:
  "\<forall>p\<in>set ps. p \<noteq> [] \<and> CHR '':'' \<notin> set p \<Longrightarrow> find_str ''::'' (join_with '':'' ps) = None"
proof (induction "'':''" ps rule: join_with.induct)
  case (3 p q ps)
  let ?r = "join_with '':'' (q # ps)"
  have "hd ?r \<noteq> CHR '':''" "?r \<noteq> []"
    using 3(2) join_hd [of q "'':''" ps] by (auto simp: hd_in_set) (metis hd_in_set)
  then have "find_str ''::'' (CHR '':'' # ?r) = None" using 3 by (simp add: find_str_one_colon del: find_str.simps(2))
  then show ?case using 3(2) by (simp add: find_str_append_free del: find_str.simps(2))
qed (auto simp: find_str_free)

lemma ipv6_render:
  assumes "length segs = 8"
  shows "parse_ipv6 (join_with '':'' (map (\<lambda>g. show_hex (unat g)) segs)) = Ok (Ipv6 segs)"
proof -
  let ?parts = "map (\<lambda>g. show_hex (unat g)) segs"
  let ?s = "join_with '':'' ?parts"
  have ok: "\<forall>p\<in>set ?parts. p \<noteq> [] \<and> CHR '':'' \<notin> set p"
    by (auto simp: show_free not_alphanumeric show_radix_not_Nil)
  have ne: "?parts \<noteq> []" using assms by auto
  have "find_str ''::'' ?s = None" using find_str_join [OF ok] .
  then have once: "split_once_str ''::'' ?s = None" by (simp add: split_once_str_def)
  have "?s \<noteq> []" using ne ok join_hd [of "hd ?parts" "'':''" "tl ?parts"]
    by (metis hd_Cons_tl list.set_sel(1))
  moreover have "split_on CHR '':'' ?s = ?parts" using ok by (intro split_join [OF ne]) simp
  moreover have "try_map (\<lambda>p. ok_or InvalidHost (map_option of_nat (parse_radix 16 65535 p))) ?parts = Ok segs"
    by (intro try_map_ok_or_total) (simp add: comp_def parse_hex_show)
  ultimately have "parse_ipv6_groups ?s = Ok segs" by (simp add: parse_ipv6_groups_def)
  with once assms show ?thesis by (simp add: parse_ipv6_def)
qed

lemma ipv6_len: "parse_ipv6 s = Ok h \<Longrightarrow> \<exists>segs. h = Ipv6 segs \<and> length segs = 8"
  by (auto simp: parse_ipv6_def res_Ok_simps split: option.splits if_splits)


lemma host_char_not_end: "host_char c \<Longrightarrow> \<not> host_end c"
  using not_alphanumeric by (auto simp: host_char_def host_end_def)

lemma host_str_chars: "\<not> is_ipv6 h \<Longrightarrow> host_ok h \<Longrightarrow> list_all host_char (host_str h)"
proof (cases h)
  case (Ipv4 octets)
  assume "host_ok h"
  have "set (host_str h) \<subseteq> {CHR ''.''} \<union> (\<Union>o'\<in>set octets. set (show_dec (unat o')))"
    using set_join [of "''.''" "map (\<lambda>o'. show_dec (unat o')) octets"] by (simp add: Ipv4)
  moreover have "host_char c" if "c \<in> set (show_dec n)" for c n
    using show_dec_digits [OF that] by (simp add: host_char_def is_digit_alphanumeric)
  ultimately show ?thesis by (auto simp: list_all_iff host_char_def)
qed simp_all

definition ends_host :: "string \<Rightarrow> bool" where
  "ends_host s \<longleftrightarrow> s = [] \<or> host_end (hd s)"

lemma take_host:
  "list_all (\<lambda>c. \<not> host_end c) p \<Longrightarrow> ends_host s \<Longrightarrow>
     takeWhile (\<lambda>c. \<not> host_end c) (p @ s) = p \<and> dropWhile (\<lambda>c. \<not> host_end c) (p @ s) = s"
  by (induction p) (cases s, auto simp: ends_host_def)

lemma host_str_no_bracket:
  assumes "\<not> is_ipv6 h" "host_ok h"
  shows "\<not> starts_with ''['' (host_str h @ s) \<and> host_str h \<noteq> []"
proof -
  have "host_str h \<noteq> []"
  proof (cases h)
    case (Ipv4 octets)
    with assms obtain o1 os where "octets = o1 # os" by (cases octets) auto
    then show ?thesis
      using Ipv4 join_hd [of "show_dec (unat o1)" "''.''" "map (\<lambda>o'. show_dec (unat o')) os"]
      by (simp add: show_radix_not_Nil)
  qed (use assms in auto)
  moreover from this have "hd (host_str h) \<noteq> CHR ''[''"
    using host_str_chars [OF assms] not_alphanumeric(4)
    by (cases "host_str h") (auto simp: host_char_def)
  ultimately show ?thesis by (cases "host_str h") (auto simp: starts_with_iff)
qed

lemma parse_host_render:
  assumes "host_ok h" and "is_ipv6 h \<or> ends_host s"
  shows "parse_host (host_str h @ s) = Ok (s, h)"
proof (cases "is_ipv6 h")
  case True
  then obtain segs where h: "h = Ipv6 segs" by (cases h) auto
  let ?j = "join_with '':'' (map (\<lambda>g. show_hex (unat g)) segs)"
  have "set ?j \<subseteq> {CHR '':''} \<union> (\<Union>g\<in>set segs. set (show_hex (unat g)))"
    using set_join [of "'':''" "map (\<lambda>g. show_hex (unat g)) segs"] by simp
  then have "CHR '']'' \<notin> set ?j" by (auto simp: show_free not_alphanumeric)
  then have "before CHR '']'' (?j @ CHR '']'' # s) = ?j" "after CHR '']'' (''['' @ ?j @ CHR '']'' # s) = s"
    using before_append [of "CHR '']''" ?j s] after_append [of "CHR '']''" "''['' @ ?j" s] by simp_all
  then show ?thesis using assms(1) ipv6_render [of segs] by (simp add: h parse_host_def starts_with_iff)
next
  case False
  note chars = host_str_chars [OF False assms(1)]
  from chars have "list_all (\<lambda>c. \<not> host_end c) (host_str h)"
    by (auto simp: list_all_iff dest: host_char_not_end)
  with assms(2) False have tw: "takeWhile (\<lambda>c. \<not> host_end c) (host_str h @ s) = host_str h"
    "dropWhile (\<lambda>c. \<not> host_end c) (host_str h @ s) = s" using take_host by auto
  from host_str_no_bracket [OF False assms(1)] tw chars show ?thesis
    using assms(1) False ipv4_render
    by (cases h) (auto simp: parse_host_def Let_def simp del: host_str.simps(2))
qed

lemma parse_host_ok:
  assumes "parse_host s = Ok (t, h)"
  shows "host_ok h \<and> (is_ipv6 h \<or> ends_host t)"
proof (cases "starts_with ''['' s")
  case True
  with assms show ?thesis by (auto simp: parse_host_def res_Ok_simps dest!: ipv6_len split: if_splits)
next
  case False
  have t: "ends_host (dropWhile (\<lambda>c. \<not> host_end c) s)"
    using hd_dropWhile [of "\<lambda>c. \<not> host_end c" s] by (auto simp: ends_host_def)
  from False assms t show ?thesis
    by (auto simp: parse_host_def Let_def dest!: ipv4_len split: if_splits option.splits)
qed

lemma port_loop_digits: "port_loop s = Ok ds \<Longrightarrow> list_all is_digit ds \<and> (\<exists>t. s = ds @ t \<and>
    (t = [] \<or> hd t = CHR ''/'' \<or> hd t = CHR ''?'' \<or> hd t = CHR ''#''))"
  by (induction s arbitrary: ds) (auto simp: res_Ok_simps split: if_splits)

lemma slash_not_digit: "\<not> is_digit CHR ''/''"
  by (simp add: is_digit_def)

lemma port_loop_append: "list_all is_digit ds \<Longrightarrow> port_loop (ds @ CHR ''/'' # t) = Ok ds"
  by (induction ds) (auto simp: slash_not_digit)

lemma parse_port_render: "parse_port ('':'' @ show_dec (unat n) @ CHR ''/'' # t) = Ok (CHR ''/'' # t, Some n)"
proof -
  have "list_all is_digit (show_dec (unat n))" by (auto simp: list_all_iff dest: show_dec_digits)
  then show ?thesis
    by (simp add: parse_port_def port_loop_append show_radix_not_Nil parse_u16_show)
qed

lemma parse_port_no_colon: "s \<noteq> [] \<Longrightarrow> hd s \<noteq> CHR '':'' \<Longrightarrow> parse_port s = Ok (s, None)"
  by (cases s) (auto simp: parse_port_def)

text \<open>How the parser leaves the part after the host.\<close>

lemma parse_port_or_cases:
  assumes "parse_port_or s = (t, p)"
  obtains (ended) "t = [] \<or> hd t = CHR ''/'' \<or> hd t = CHR ''?'' \<or> hd t = CHR ''#''"
  | (plain) "p = None" "t = s"
proof (cases "strip_prefix '':'' s")
  case None
  with assms have "t = s \<and> p = None" by (simp add: parse_port_or_def parse_port_def)
  then show ?thesis using plain by simp
next
  case (Some rest)
  show ?thesis
  proof (cases "parse_port s")
    case (Ok r)
    with assms have r: "r = (t, p)" by (simp add: parse_port_or_def)
    from Ok obtain ds where ds: "port_loop rest = Ok ds" and "t = drop (length ds) rest"
      unfolding r by (auto simp: parse_port_def Some rbind_eq_Ok split: if_split_asm)
    with port_loop_digits [OF ds] have "t = [] \<or> hd t = CHR ''/'' \<or> hd t = CHR ''?'' \<or> hd t = CHR ''#''"
      by auto
    then show ?thesis by (rule ended)
  next
    case (Err e)
    with assms have "t = s \<and> p = None" by (simp add: parse_port_or_def)
    then show ?thesis using plain by simp
  next
    case Panic
    with assms have "t = s \<and> p = None" by (simp add: parse_port_or_def)
    then show ?thesis using plain by simp
  qed
qed

lemma split_off:
  assumes "(case split_once c s of Some (a, b) \<Rightarrow> (a, Some b) | None \<Rightarrow> (s, None)) = (a, r)"
  shows "s = a @ (case r of Some b \<Rightarrow> c # b | None \<Rightarrow> []) \<and> c \<notin> set a"
proof (cases "split_once c s")
  case None
  with assms show ?thesis by (auto simp: split_once_def split: if_splits)
next
  case (Some ab)
  with assms show ?thesis by (cases ab) (auto simp: split_once_eq_Some)
qed

lemma ppqf:
  assumes "parse_path_query_fragment s = (p, q, f)"
  shows "s = p @ render_query q @ render_fragment f" "CHR ''?'' \<notin> set p" "CHR ''#'' \<notin> set p"
    "\<forall>r. q = Some r \<longrightarrow> CHR ''#'' \<notin> set r"
proof -
  obtain bf where bf: "(case split_once CHR ''#'' s of Some (a, b) \<Rightarrow> (a, Some b) | None \<Rightarrow> (s, None)) = (bf, f)"
    and pq: "(case split_once CHR ''?'' bf of Some (a, b) \<Rightarrow> (a, Some b) | None \<Rightarrow> (bf, None)) = (p, q)"
    using assms by (fastforce simp: parse_path_query_fragment_def split: prod.splits)
  from split_off [OF bf] split_off [OF pq]
  have "s = (p @ render_query q) @ render_fragment f" "CHR ''#'' \<notin> set (p @ render_query q)" "CHR ''?'' \<notin> set p"
    by (auto simp: render_query_def render_fragment_def split: option.splits)
  then show "s = p @ render_query q @ render_fragment f" "CHR ''?'' \<notin> set p" "CHR ''#'' \<notin> set p"
    "\<forall>r. q = Some r \<longrightarrow> CHR ''#'' \<notin> set r"
    by (auto simp: render_query_def)
qed

lemma ppqf_render:
  assumes "CHR ''?'' \<notin> set p" "CHR ''#'' \<notin> set p" "\<forall>r. q = Some r \<longrightarrow> CHR ''#'' \<notin> set r"
  shows "parse_path_query_fragment (p @ render_query q @ render_fragment f) = (p, q, f)"
proof -
  let ?b = "p @ render_query q"
  have b: "CHR ''#'' \<notin> set ?b" using assms by (auto simp: render_query_def split: option.splits)
  have "split_once CHR ''#'' (?b @ render_fragment f) = map_option (\<lambda>r. (?b, r)) f"
    using b split_once_append [OF b] by (cases f) (auto simp: render_fragment_def split_once_def)
  moreover have "split_once CHR ''?'' ?b = map_option (\<lambda>r. (p, r)) q"
    using assms(1) split_once_append [OF assms(1)]
    by (cases q) (auto simp: render_query_def split_once_def)
  ultimately show ?thesis
    by (cases f; cases q) (auto simp: parse_path_query_fragment_def render_query_def render_fragment_def)
qed


section \<open>Parsing and serialising\<close>

lemma render_tail: "render u = scheme u @ ''://'' @ host_str (url_host u) @ render_port (port u) @ url_tail u"
  by (simp add: render_def url_tail_def)

lemma tail_ends_host: "tail_ok u \<Longrightarrow> is_ipv6 (url_host u) \<or> ends_host (render_port (port u) @ url_tail u)"
  by (cases "path u")
    (auto simp: tail_ok_def url_tail_def render_port_def ends_host_def host_end_def split: option.split)

lemma parse_port_or_tail:
  assumes "tail_ok u"
  shows "parse_port_or (render_port (port u) @ url_tail u) = (url_tail u, port u)"
proof (cases "hd (path u) = CHR ''/''")
  case True
  from assms have "path u \<noteq> []" by (simp add: tail_ok_def)
  with True obtain t where t: "url_tail u = CHR ''/'' # t"
    by (cases "path u") (auto simp: url_tail_def)
  show ?thesis
  proof (cases "port u")
    case None
    then show ?thesis by (simp add: t render_port_def parse_port_or_def parse_port_no_colon)
  next
    case (Some n)
    then show ?thesis using parse_port_render [of n t] by (simp add: t render_port_def parse_port_or_def)
  qed
next
  case False
  with assms show ?thesis by (auto simp: tail_ok_def render_port_def)
qed

lemma tail_ppqf: "tail_ok u \<Longrightarrow> parse_path_query_fragment (url_tail u) = (path u, query u, fragment u)"
  unfolding url_tail_def by (rule ppqf_render) (simp_all add: tail_ok_def)

lemma url_ok_reparses:
  assumes "url_ok u"
  shows "parse (raw u) = Ok u"
proof -
  from assms have raw: "raw u = render u" and sch: "scheme_ok (scheme u)" and h: "host_ok (url_host u)"
    and t: "tail_ok u" by (simp_all add: url_ok_def)
  have "parse_scheme (raw u) =
      Ok (''://'' @ host_str (url_host u) @ render_port (port u) @ url_tail u, scheme u)"
    using parse_scheme_render [OF sch] by (simp add: raw render_tail)
  moreover have "parse_host (host_str (url_host u) @ render_port (port u) @ url_tail u) =
      Ok (render_port (port u) @ url_tail u, url_host u)"
    by (rule parse_host_render [OF h tail_ends_host [OF t]])
  moreover have "path u \<noteq> []" using t by (simp add: tail_ok_def)
  ultimately show ?thesis
    using raw by (simp add: parse_def parse_port_or_tail [OF t] tail_ppqf [OF t] rebuild_raw_def
        render_def Let_def)
qed

text \<open>A tail that the parser produced.\<close>

lemma parsed_tail_ok:
  assumes port: "parse_port_or rest = (rest', prt)"
    and host: "is_ipv6 h \<or> ends_host rest"
    and parts: "parse_path_query_fragment rest' = (p, q, f)"
  shows "tail_ok \<lparr>raw = r, scheme = s, url_host = h, port = prt,
     path = (if p = [] then ''/'' else p), query = q, fragment = f\<rparr>" (is "tail_ok ?u")
proof -
  note split = ppqf [OF parts]
  have slash: ?thesis if "p = [] \<or> hd p = CHR ''/''"
    using that split by (auto simp: tail_ok_def)
  from port show ?thesis
  proof (cases rule: parse_port_or_cases)
    case ended
    then show ?thesis using split
      by (intro slash) (cases p; auto simp: render_query_def render_fragment_def split: option.splits)
  next
    case plain
    show ?thesis
    proof (cases "p = [] \<or> hd p = CHR ''/''")
      case False
      then have tail: "url_tail ?u = rest" using split(1) plain by (simp add: url_tail_def)
      from False split(1) plain(2) have "rest \<noteq> []" "hd rest = hd p" by auto
      moreover have "hd p \<noteq> CHR ''?''" "hd p \<noteq> CHR ''#''"
        using False split(2,3) by (metis list.set_sel(1))+
      ultimately have "hd p = CHR '':'' \<or> is_ipv6 h"
        using host False by (auto simp: ends_host_def host_end_def)
      moreover have "parse_port_or rest = (rest, None)" using port plain by simp
      ultimately show ?thesis using False split tail plain by (auto simp: tail_ok_def)
    qed (rule slash)
  qed
qed

lemma rebuild_url_ok:
  "scheme_ok (scheme u) \<Longrightarrow> host_ok (url_host u) \<Longrightarrow> tail_ok u \<Longrightarrow> url_ok (rebuild_raw u)"
  by (simp add: url_ok_def rebuild_raw_def render_def tail_ok_def url_tail_def)

lemma parse_url_ok:
  assumes "parse s = Ok u"
  shows "url_ok u"
proof -
  from assms obtain r1 sch where sch: "parse_scheme s = Ok (r1, sch)"
    by (auto simp: parse_def rbind_eq_Ok)
  with assms obtain r2 where r2: "strip_prefix ''://'' r1 = Some r2"
    by (auto simp: parse_def split: option.splits)
  with assms sch obtain rest h where h: "parse_host r2 = Ok (rest, h)"
    by (auto simp: parse_def rbind_eq_Ok)
  obtain rest' prt where port: "parse_port_or rest = (rest', prt)" by force
  obtain p q f where pqf: "parse_path_query_fragment rest' = (p, q, f)" using prod_cases3 by blast
  from assms have u: "u = rebuild_raw \<lparr>raw = [], scheme = sch, url_host = h, port = prt,
      path = (if p = [] then ''/'' else p), query = q, fragment = f\<rparr>"
    by (simp add: parse_def sch r2 h port pqf)
  show ?thesis unfolding u
    using parse_scheme_ok [OF sch] parse_host_ok [OF h] parsed_tail_ok [OF port _ pqf, of h]
    by (intro rebuild_url_ok) auto
qed

text \<open>Reading a URL back from its serialised form, as serde does with every persisted URL,
  gives the same URL, for every URL that the parser accepts: host, port, path, query and
  fragment, including the forms that the parser lets through with a malformed port.\<close>

theorem parsed_url_roundtrip:
  assumes "parse s = Ok u"
  shows "parse (raw u) = Ok u"
  by (rule url_ok_reparses [OF parse_url_ok [OF assms]])

lemma parsed_url_roundtrip_witness:
  "\<exists>u. parse ''HTTPS://[::1]:8080/pj?v=2#R'' = Ok u \<and> raw u = ''https://[0:0:0:0:0:0:0:1]:8080/pj?v=2#R'' \<and>
     parse (raw u) = Ok u"
proof -
  have "is_ok (parse ''HTTPS://[::1]:8080/pj?v=2#R'')" by code_simp
  then obtain u where u: "parse ''HTTPS://[::1]:8080/pj?v=2#R'' = Ok u" by (auto simp: is_ok_iff)
  have "rmap raw (parse ''HTTPS://[::1]:8080/pj?v=2#R'') = Ok ''https://[0:0:0:0:0:0:0:1]:8080/pj?v=2#R''"
    by code_simp
  with u parsed_url_roundtrip [OF u] show ?thesis by (auto simp: rmap_eq_Ok)
qed


section \<open>Operations\<close>

text \<open>The URLs that the library works with: well formed, and the path starts with a slash.\<close>

definition rooted :: "url \<Rightarrow> bool" where
  "rooted u \<longleftrightarrow> url_ok u \<and> hd (path u) = CHR ''/''"

lemma rooted_iff: "rooted u \<longleftrightarrow> raw u = render u \<and> scheme_ok (scheme u) \<and> host_ok (url_host u) \<and>
    path u \<noteq> [] \<and> hd (path u) = CHR ''/'' \<and> CHR ''?'' \<notin> set (path u) \<and> CHR ''#'' \<notin> set (path u) \<and>
    (\<forall>q. query u = Some q \<longrightarrow> CHR ''#'' \<notin> set q)"
  by (auto simp: rooted_def url_ok_def tail_ok_def)

lemma rooted_rebuild:
  "rooted u \<Longrightarrow> scheme v = scheme u \<Longrightarrow> url_host v = url_host u \<Longrightarrow> path v \<noteq> [] \<Longrightarrow> hd (path v) = CHR ''/'' \<Longrightarrow>
     CHR ''?'' \<notin> set (path v) \<Longrightarrow> CHR ''#'' \<notin> set (path v) \<Longrightarrow>
     (\<forall>q. query v = Some q \<longrightarrow> CHR ''#'' \<notin> set q) \<Longrightarrow> rooted (rebuild_raw v)"
  by (simp add: rooted_iff rebuild_raw_def render_def)

definition plain_segment :: "string \<Rightarrow> bool" where
  "plain_segment s \<longleftrightarrow> CHR ''?'' \<notin> set s \<and> CHR ''#'' \<notin> set s"

lemma push_segment_simps [simp]:
  "scheme (push_segment s u) = scheme u" "url_host (push_segment s u) = url_host u"
  "query (push_segment s u) = query u"
  by (simp_all add: push_segment_def)

lemma push_segments_path:
  "list_all plain_segment segs \<Longrightarrow> path u \<noteq> [] \<and> hd (path u) = CHR ''/'' \<and> plain_segment (path u) \<Longrightarrow>
     path (fold push_segment segs u) \<noteq> [] \<and> hd (path (fold push_segment segs u)) = CHR ''/'' \<and>
     plain_segment (path (fold push_segment segs u)) \<and> scheme (fold push_segment segs u) = scheme u \<and>
     url_host (fold push_segment segs u) = url_host u \<and> query (fold push_segment segs u) = query u"
  by (induction segs arbitrary: u) (auto simp: push_segment_def plain_segment_def)

lemma resolve_dots_subset: "set (resolve_dots st ps) \<subseteq> set st \<union> set ps"
  by (induction st ps rule: resolve_dots.induct) (auto dest: in_set_butlastD)

lemma resolve_dots_no_dots:
  "''.'' \<notin> set st \<Longrightarrow> ''..'' \<notin> set st \<Longrightarrow>
     ''.'' \<notin> set (resolve_dots st ps) \<and> ''..'' \<notin> set (resolve_dots st ps)"
  by (induction st ps rule: resolve_dots.induct) (auto dest: in_set_butlastD)

lemma set_split_on: "p \<in> set (split_on c s) \<Longrightarrow> set p \<subseteq> set s"
  by (induction s arbitrary: p) (fastforce split: list.splits if_splits)+

lemma upto_last_set: "upto_last c s = Some b \<Longrightarrow> set b \<subseteq> set s"
  using set_dropWhileD [of _ "\<lambda>x. x \<noteq> c" "rev s"] by (auto simp: upto_last_def split: if_splits)

lemma merged_path_ok:
  assumes "plain_segment base" "plain_segment seg"
  shows "merged_path base seg \<noteq> [] \<and> hd (merged_path base seg) = CHR ''/'' \<and>
    plain_segment (merged_path base seg)"
proof -
  define b where "b = (case upto_last CHR ''/'' base of Some b \<Rightarrow> b | None \<Rightarrow> ''/'')"
  define r where "r = resolve_dots [] (split_on CHR ''/'' (b @ seg))"
  have "set b \<subseteq> set base \<union> {CHR ''/''}"
    by (auto simp: b_def dest: upto_last_set split: option.splits)
  moreover have "set p \<subseteq> set (b @ seg)" if "p \<in> set r" for p
    using that resolve_dots_subset [of "[]"] set_split_on by (fastforce simp: r_def)
  ultimately have "set (join_with ''/'' r) \<subseteq> set base \<union> set seg \<union> {CHR ''/''}"
    using set_join [of "''/''" r] by fastforce
  then have "plain_segment (join_with ''/'' r)" using assms by (auto simp: plain_segment_def)
  moreover have "merged_path base seg = (let p = join_with ''/'' r in if starts_with ''/'' p then p else ''/'' @ p)"
    by (simp add: merged_path_def b_def r_def Let_def)
  ultimately show ?thesis by (auto simp: Let_def starts_with_iff plain_segment_def)
qed

lemma rooted_append_pair:
  assumes "rooted u" and "CHR ''#'' \<notin> set k" and "CHR ''#'' \<notin> set v"
  shows "rooted (append_pair k v u)"
  using assms unfolding append_pair_def Let_def
  by (intro rooted_rebuild [OF assms(1)]) (auto simp: rooted_iff split: option.splits)

text \<open>C25: The operations that the library applies to its endpoints (replacing the port or the
  fragment, clearing the query, appending query pairs and path segments, joining a path) keep
  a URL well formed: its serialised form is up to date, and parses back to that URL.\<close>

theorem url_operations_keep_roundtrip:
  assumes "rooted u"
  shows "rooted (set_port p u) \<and> rooted (set_fragment f u) \<and> rooted (clear_query u) \<and>
    (CHR ''#'' \<notin> set k \<and> CHR ''#'' \<notin> set v \<longrightarrow> rooted (append_pair k v u)) \<and>
    (list_all plain_segment segs \<longrightarrow> rooted (push_segments segs u)) \<and>
    (plain_segment seg \<and> \<not> full_url_reference seg \<longrightarrow> (\<exists>w. join seg u = Ok w \<and> rooted w)) \<and>
    parse (raw u) = Ok u"
proof (intro conjI impI)
  from assms have pathok: "path u \<noteq> [] \<and> hd (path u) = CHR ''/'' \<and> plain_segment (path u)"
    by (simp add: rooted_iff plain_segment_def)
  show "rooted (set_port p u)" "rooted (set_fragment f u)" "rooted (clear_query u)"
    using assms unfolding set_port_def set_fragment_def clear_query_def
    by (intro rooted_rebuild [OF assms]; simp add: rooted_iff)+
  show "rooted (append_pair k v u)" if "CHR ''#'' \<notin> set k \<and> CHR ''#'' \<notin> set v"
    using rooted_append_pair [OF assms] that by blast
  show "rooted (push_segments segs u)" if "list_all plain_segment segs"
    using push_segments_path [OF that pathok] assms unfolding push_segments_def
    by (intro rooted_rebuild [OF assms]) (simp_all add: rooted_iff plain_segment_def)
  show "\<exists>w. join seg u = Ok w \<and> rooted w" if "plain_segment seg \<and> \<not> full_url_reference seg"
    using that merged_path_ok [of "path u" seg] pathok unfolding join_def
    by (intro exI conjI) (simp, intro rooted_rebuild [OF assms], auto simp: starts_with_iff plain_segment_def)
  show "parse (raw u) = Ok u" using assms by (intro url_ok_reparses) (simp add: rooted_def)
qed

text \<open>A relative reference resolves to a path that starts with a slash and has no dot segment
  left in it, whatever the base path and the reference are.\<close>

theorem join_resolves_dot_segments:
  assumes "\<not> full_url_reference seg" and "\<not> starts_with ''/'' seg"
  shows "\<exists>v. join seg u = Ok v \<and> starts_with ''/'' (path v) \<and>
    ''.'' \<notin> set (split_on CHR ''/'' (path v)) \<and> ''..'' \<notin> set (split_on CHR ''/'' (path v)) \<and>
    query v = None \<and> fragment v = None"
proof -
  define b where "b = (case upto_last CHR ''/'' (path u) of Some b \<Rightarrow> b | None \<Rightarrow> ''/'')"
  define r where "r = resolve_dots [] (split_on CHR ''/'' (b @ seg))"
  define p where "p = join_with ''/'' r"
  have free: "\<forall>q\<in>set r. CHR ''/'' \<notin> set q"
    using resolve_dots_subset [of "[]"] split_on_parts unfolding r_def by fastforce
  have dots: "''.'' \<notin> set (split_on CHR ''/'' p)" "''..'' \<notin> set (split_on CHR ''/'' p)"
    using split_join [OF _ free] resolve_dots_no_dots [of "[]"]
    by (cases "r = []"; simp add: p_def r_def)+
  have path: "merged_path (path u) seg = (if starts_with ''/'' p then p else ''/'' @ p)"
    by (simp add: merged_path_def b_def r_def p_def Let_def)
  have "starts_with ''/'' (merged_path (path u) seg) \<and>
      ''.'' \<notin> set (split_on CHR ''/'' (merged_path (path u) seg)) \<and>
      ''..'' \<notin> set (split_on CHR ''/'' (merged_path (path u) seg))"
    using dots by (auto simp: path starts_with_iff)
  then show ?thesis using assms by (simp add: join_def rebuild_raw_def)
qed

lemma split_on_append2: "split_on c (s @ c # t) = split_on c s @ split_on c t"
  by (induction s) (auto split: list.splits)

text \<open>A pair appended to the query of a URL is read back as its last pair, decoded.\<close>

lemma query_pairs_append_pair:
  assumes "CHR ''='' \<notin> set k" and "CHR ''&'' \<notin> set k" and "CHR ''&'' \<notin> set v"
  shows "query_pairs decode (append_pair k v u) = query_pairs decode u @
    (case (decode k, decode v) of (Some k', Some v') \<Rightarrow> [(k', v')] | _ \<Rightarrow> [])"
proof -
  let ?pair = "k @ CHR ''='' # v"
  define dec where "dec pair = (case split_once CHR ''='' pair of
      None \<Rightarrow> None
    | Some (k, v) \<Rightarrow> Option.bind (decode k) (\<lambda>key. Option.bind (decode v) (\<lambda>val. Some (key, val))))"
    for pair
  define all where "all q = List.map_filter dec (filter (\<lambda>s. s \<noteq> []) (split_on CHR ''&'' q))" for q
  have query: "query_pairs decode w = (case query w of None \<Rightarrow> [] | Some q \<Rightarrow> all q)" for w
    by (cases "query w") (simp_all add: query_pairs_def all_def dec_def [abs_def])
  have "split_on CHR ''&'' ?pair = [?pair]" using assms by (intro split_on_none) simp
  moreover have "dec ?pair = (case (decode k, decode v) of (Some k', Some v') \<Rightarrow> Some (k', v') | _ \<Rightarrow> None)"
    by (simp add: dec_def split_once_append [OF assms(1)] split: option.split)
  ultimately have one: "all ?pair = (case (decode k, decode v) of (Some k', Some v') \<Rightarrow> [(k', v')] | _ \<Rightarrow> [])"
    by (simp add: all_def List.map_filter_def split: option.split)
  have more: "all (q @ CHR ''&'' # r) = all q @ all r" for q r
    by (simp add: all_def split_on_append2 List.map_filter_def)
  show ?thesis
    by (cases "query u") (simp_all add: query append_pair_def rebuild_raw_def one more Let_def)
qed


section \<open>Witnesses and divergences from the documentation\<close>

definition sample_url :: url where
  "sample_url = \<lparr>raw = ''https://a.io/pj?v=2#R'', scheme = ''https'', url_host = Domain ''a.io'',
     port = None, path = ''/pj'', query = Some ''v=2'', fragment = Some ''R''\<rparr>"

lemma sample_url_parsed: "parse ''https://a.io/pj?v=2#R'' = Ok sample_url"
  by code_simp

lemma sample_url_rooted: "rooted sample_url"
  using parse_url_ok [OF sample_url_parsed] by (simp add: rooted_def sample_url_def)

lemma url_operations_keep_roundtrip_witness:
  "rooted sample_url \<and> rooted (set_port (Some 80) sample_url) \<and>
   rooted (append_pair ''k'' ''w'' sample_url) \<and> rooted (push_segments [''x''] sample_url) \<and>
   (\<exists>w. join ''../y'' sample_url = Ok w \<and> rooted w)"
proof -
  have "list_all plain_segment [''x'']" "plain_segment ''../y''" "\<not> full_url_reference ''../y''"
    by code_simp+
  then show ?thesis
    using url_operations_keep_roundtrip [OF sample_url_rooted, of "Some 80" None "''k''" "''w''" "[''x'']" "''../y''"]
      sample_url_rooted by simp
qed

lemma join_resolves_dot_segments_witness:
  "\<exists>v. join ''../y/./z'' sample_url = Ok v \<and> starts_with ''/'' (path v) \<and>
     ''..'' \<notin> set (split_on CHR ''/'' (path v))"
proof -
  have "\<not> full_url_reference ''../y/./z''" "\<not> starts_with ''/'' ''../y/./z''" by code_simp+
  from join_resolves_dot_segments [OF this, of sample_url] show ?thesis by blast
qed

text \<open>
  A port that is not a number, or above 65535, is not an error: the parser falls back to no port
  and leaves the text in the path, so \<open>InvalidPort\<close> is never returned.
\<close>

lemma parse_ipv6_groups_err: "parse_ipv6_groups s = Err e \<Longrightarrow> e = InvalidHost"
proof -
  have "try_map (\<lambda>p. ok_or InvalidHost (f p)) ps = Err e \<Longrightarrow> e = InvalidHost" for f :: "string \<Rightarrow> 16 word option" and ps
    by (induction ps) (auto simp: res_Err_simps)
  then show "parse_ipv6_groups s = Err e \<Longrightarrow> e = InvalidHost"
    by (auto simp: parse_ipv6_groups_def split: if_splits)
qed

lemma parse_ipv6_err: "parse_ipv6 s = Err e \<Longrightarrow> e = InvalidHost"
  by (auto simp: parse_ipv6_def rbind_eq_Err dest: parse_ipv6_groups_err split: option.splits if_splits)

lemma parse_host_err: "parse_host s = Err e \<Longrightarrow> e = InvalidHost \<or> e = EmptyHost"
  by (auto simp: parse_host_def Let_def rbind_eq_Err dest: parse_ipv6_err split: option.splits if_splits)

lemma parse_scheme_err: "parse_scheme s = Err e \<Longrightarrow> e = InvalidScheme"
proof -
  have "scheme_loop s = Err e \<Longrightarrow> e = InvalidScheme" by (induction s) (auto split: if_splits)
  then show "parse_scheme s = Err e \<Longrightarrow> e = InvalidScheme"
    by (auto simp: parse_scheme_def rbind_eq_Err split: if_splits)
qed

lemma parse_never_invalid_port: "parse s \<noteq> Err InvalidPort"
  by (auto simp: parse_def rbind_eq_Err Let_def dest!: parse_scheme_err parse_host_err
      split: option.split prod.split)

lemma malformed_port_becomes_path:
  "rmap (\<lambda>u. (port u, path u)) (parse ''http://a:99999/x'') = Ok (None, '':99999/x'')"
  by code_simp

text \<open>A reference with a query keeps it inside the path, so the joined URL reads back differently.\<close>

lemma join_keeps_query_in_path:
  "rmap path (join ''y?k=w'' sample_url) = Ok ''/y?k=w'' \<and>
   rmap path (rbind (join ''y?k=w'' sample_url) (\<lambda>v. parse (raw v))) = Ok ''/y''"
  by code_simp

end
