(* ===== verification/PJ_Params.thy ===== *)
theory PJ_Params
  imports PJ_Url PJ_Bitcoin PJ_Protocol
begin

text \<open>
  \<open>payjoin/src/core/receive/optional_parameters.rs\<close>: the sender's parameters as the
  receiver reads them.

  Text formats of other crates are fields of the record \<open>text_api\<close>: percent decoding, the
  decimal form of an \<open>Amount\<close>, the base64 form of a PSBT, the two conversions of a fee rate
  through \<open>f32\<close> (reading \<open>minfeerate\<close> in sat/vB rounded up to sat/kwu, and writing it), the text
  of the errors of those crates, and JSON text.
\<close>

record text_api =
  percent_decode :: "string \<Rightarrow> string option"
  amount_from_sat_str :: "string \<Rightarrow> amount option"
  fee_rate_from_f32 :: "string \<Rightarrow> fee_rate option"
  fee_rate_to_f32 :: "fee_rate \<Rightarrow> string"
  psbt_from_str :: "string \<Rightarrow> nat + psbt"
  psbt_to_str :: "psbt \<Rightarrow> string"
  show_psbt_error :: "nat \<Rightarrow> string"
  show_utf8_error :: "nat \<Rightarrow> string"
  show_fee_rate :: "fee_rate \<Rightarrow> string"
  show_outpoint :: "outpoint \<Rightarrow> string"
  show_txid :: "txid \<Rightarrow> string"

section \<open>Parameters\<close>

record params =
  par_v :: version
  par_output_substitution :: output_substitution
  par_additional_fee_contribution :: "(amount \<times> nat) option"
  par_min_fee_rate :: fee_rate

datatype params_error = UnknownVersion "version list" | FeeRate | MalformedQuery

definition default_params :: "btc \<Rightarrow> params" where
  "default_params L = \<lparr>par_v = One, par_output_substitution = Enabled,
     par_additional_fee_contribution = None, par_min_fee_rate = broadcast_min L\<rparr>"

definition usize_max :: nat where
  "usize_max = 2 ^ 64 - 1"

definition handle_additional_fee_param :: "amount option \<Rightarrow> nat option \<Rightarrow> params \<Rightarrow> params" where
  "handle_additional_fee_param max_contribution output_index par =
     (case (max_contribution, output_index) of
        (Some a, Some i) \<Rightarrow> par\<lparr>par_additional_fee_contribution := Some (a, i)\<rparr>
      | _ \<Rightarrow> par)"

text \<open>The loop over the pairs carries the parameters and the two halves of the fee contribution.\<close>

fun query_pairs_loop ::
  "text_api \<Rightarrow> version list \<Rightarrow> params \<Rightarrow> nat option \<Rightarrow> amount option \<Rightarrow> (string \<times> string) list \<Rightarrow>
     (params \<times> nat option \<times> amount option, params_error) res" where
  "query_pairs_loop T supported par output_index max_contribution [] =
     Ok (par, output_index, max_contribution)"
| "query_pairs_loop T supported par output_index max_contribution ((key, v) # rest) =
     (if key = ''v''
      then if v = ''1'' then query_pairs_loop T supported (par\<lparr>par_v := One\<rparr>) output_index max_contribution rest
           else if v = ''2'' then query_pairs_loop T supported (par\<lparr>par_v := Two\<rparr>) output_index max_contribution rest
           else Err (UnknownVersion supported)
      else if key = ''additionalfeeoutputindex''
      then query_pairs_loop T supported par (parse_radix 10 usize_max v) max_contribution rest
      else if key = ''maxadditionalfeecontribution''
      then query_pairs_loop T supported par output_index (amount_from_sat_str T v) rest
      else if key = ''minfeerate''
      then (case fee_rate_from_f32 T v of
              Some r \<Rightarrow> query_pairs_loop T supported (par\<lparr>par_min_fee_rate := r\<rparr>) output_index max_contribution rest
            | None \<Rightarrow> Err FeeRate)
      else if key = ''disableoutputsubstitution''
      then query_pairs_loop T supported
             (par\<lparr>par_output_substitution := (if v = ''true'' then Disabled else Enabled)\<rparr>)
             output_index max_contribution rest
      else query_pairs_loop T supported par output_index max_contribution rest)"

definition from_query_pairs ::
  "btc \<Rightarrow> text_api \<Rightarrow> (string \<times> string) list \<Rightarrow> version list \<Rightarrow> (params, params_error) res" where
  "from_query_pairs L T ps supported =
     rmap (\<lambda>(par, output_index, max_contribution).
             handle_additional_fee_param max_contribution output_index par)
       (query_pairs_loop T supported (default_params L) None None ps)"

definition from_query_str ::
  "btc \<Rightarrow> text_api \<Rightarrow> string \<Rightarrow> version list \<Rightarrow> (params, params_error) res" where
  "from_query_str L T q supported =
     rbind (map_err (\<lambda>_. MalformedQuery) (parse (''http://localhost/?'' @ q))) (\<lambda>u.
       from_query_pairs L T (query_pairs (percent_decode T) u) supported)"

end
