(* ===== verification/PJ_Wire.thy ===== *)
theory PJ_Wire
  imports PJ_Url
begin

text \<open>
  What version 2 puts on the wire: \<open>time.rs\<close>, \<open>directory.rs\<close>, \<open>into_url.rs\<close>, \<open>hpke.rs\<close>,
  \<open>ohttp.rs\<close> and \<open>request.rs\<close> of \<open>payjoin/src\<close>.

  The cryptography and the encodings of other crates (\<open>hpke\<close>, \<open>secp256k1\<close>, \<open>bech32\<close>, \<open>ohttp\<close>,
  \<open>bhttp\<close>, \<open>http\<close>) are the fields of the record \<open>wire_api\<close>. Their values (keys, contexts, errors)
  are opaque numbers, their byte strings are strings. A function of a crate that draws from the
  operating system's generator takes the drawn number as its argument. \<open>hpke_laws\<close> states the
  documented behaviour that the message format relies on.
\<close>

section \<open>Interfaces of other crates\<close>

datatype op_mode_s = SenderBase | SenderAuth nat nat   \<comment> \<open>secret and public key of the sender\<close>
datatype op_mode_r = ReceiverBase | ReceiverAuth nat   \<comment> \<open>public key of the sender\<close>

datatype secp_error = SecpInvalidPublicKey | SecpOther nat

record bhttp_message =
  bh_status :: "nat option"
  bh_headers :: "(string \<times> string) list"
  bh_content :: string

record wire_api =
  sk_to_pk :: "nat \<Rightarrow> nat"
  kem_gen_keypair :: "nat \<Rightarrow> nat \<times> nat"
  setup_sender :: "op_mode_s \<Rightarrow> nat \<Rightarrow> string \<Rightarrow> nat \<Rightarrow> nat + nat \<times> nat"
  setup_receiver :: "op_mode_r \<Rightarrow> nat \<Rightarrow> nat \<Rightarrow> string \<Rightarrow> nat + nat"
  aead_seal :: "nat \<Rightarrow> string \<Rightarrow> nat + string"
  aead_open :: "nat \<Rightarrow> string \<Rightarrow> nat + string"
  pk_to_bytes :: "nat \<Rightarrow> string"
  pk_from_bytes :: "string \<Rightarrow> nat + nat"
  enc_to_bytes :: "nat \<Rightarrow> string"
  enc_from_bytes :: "string \<Rightarrow> nat + nat"
  secp_from_slice :: "string \<Rightarrow> secp_error + nat"
  secp_serialize :: "nat \<Rightarrow> string"
  secp_serialize_uncompressed :: "nat \<Rightarrow> string"
  ellswift_from_pubkey :: "nat \<Rightarrow> string"
  pubkey_from_ellswift :: "string \<Rightarrow> nat"
  sha256 :: "string \<Rightarrow> string"
  bech32_encode_upper :: "string \<Rightarrow> string \<Rightarrow> string option"
  bech32_decode :: "string \<Rightarrow> (string \<times> string) option"
  client_from_config :: "nat \<Rightarrow> nat + nat"
  ohttp_client_encapsulate :: "nat \<Rightarrow> string \<Rightarrow> nat + string \<times> nat"
  ohttp_client_decapsulate :: "nat \<Rightarrow> string \<Rightarrow> nat + string"
  bhttp_request_bytes :: "string \<Rightarrow> string \<Rightarrow> string \<Rightarrow> string \<Rightarrow> string option \<Rightarrow> string"
  bhttp_write_zero :: nat
  bhttp_invalid_status :: nat
  read_bhttp :: "string \<Rightarrow> nat + bhttp_message"
  http_header_error :: "(string \<times> string) list \<Rightarrow> nat option"
  config_decode :: "string \<Rightarrow> nat + nat"
  config_encode :: "nat \<Rightarrow> nat + string"
  lock_time_threshold :: nat

fun from_sum :: "('e \<Rightarrow> 'f) \<Rightarrow> 'e + 'a \<Rightarrow> ('a, 'f) res" where
  "from_sum f (Inl e) = Err (f e)"
| "from_sum f (Inr a) = Ok a"

fun expect_sum :: "'x + 'a \<Rightarrow> ('a, 'e) res" where
  "expect_sum (Inl x) = Panic"
| "expect_sum (Inr a) = Ok a"

lemma from_sum_eq_Ok [simp]: "from_sum f x = Ok a \<longleftrightarrow> x = Inr a"
  by (cases x) auto

lemma expect_sum_eq_Ok [simp]: "expect_sum x = Ok a \<longleftrightarrow> x = Inr a"
  by (cases x) auto

lemma from_sum_not_Panic [simp]: "from_sum f x \<noteq> Panic"
  by (cases x) auto

section \<open>\<open>time.rs\<close>\<close>

text \<open>
  A time is a Unix time in seconds that a lock time can hold. The clock gives nanoseconds since
  the epoch and the largest system time of the platform.
\<close>

type_synonym time = nat

record clock =
  now_ns :: nat
  max_ns :: nat

datatype parse_time_error = IncorrectLength nat | Convert nat

definition from_unix_seconds :: "wire_api \<Rightarrow> nat \<Rightarrow> (time, nat) res" where
  "from_unix_seconds W seconds = (if lock_time_threshold W \<le> seconds then Ok seconds else Err seconds)"

text \<open>\<open>as u32\<close> keeps the low 32 bits of the seconds.\<close>

definition time_from_system_time :: "wire_api \<Rightarrow> nat \<Rightarrow> (time, nat) res" where
  "time_from_system_time W ns = from_unix_seconds W (unat (of_nat (ns div 10 ^ 9) :: 32 word))"

definition time_from_now :: "wire_api \<Rightarrow> clock \<Rightarrow> nat \<Rightarrow> (time, nat) res" where
  "time_from_now W c duration_ns =
     time_from_system_time W
       (if now_ns c + duration_ns \<le> max_ns c then now_ns c + duration_ns else 0)"

definition time_now :: "wire_api \<Rightarrow> clock \<Rightarrow> (time, 'e) res" where
  "time_now W c = (case time_from_system_time W (now_ns c) of Ok t \<Rightarrow> Ok t | _ \<Rightarrow> Panic)"

definition elapsed :: "wire_api \<Rightarrow> clock \<Rightarrow> time \<Rightarrow> (bool, 'e) res" where
  "elapsed W c t = rmap (\<lambda>n. t \<le> n) (time_now W c)"

definition time_to_bytes :: "time \<Rightarrow> string" where
  "time_to_bytes t = map (\<lambda>k. char_of (t div 256 ^ k)) [0, 1, 2, 3]"

definition u32_from_le :: "string \<Rightarrow> nat" where
  "u32_from_le s = foldr (\<lambda>c n. of_char c + 256 * n) s 0"

definition time_from_bytes :: "wire_api \<Rightarrow> string \<Rightarrow> (time, parse_time_error) res" where
  "time_from_bytes W bytes =
     (if length bytes \<noteq> 4 then Err (IncorrectLength (length bytes))
      else map_err Convert (from_unix_seconds W (u32_from_le bytes)))"

section \<open>\<open>directory.rs\<close> and \<open>into_url.rs\<close>\<close>

definition encapsulated_message_bytes :: nat where
  "encapsulated_message_bytes = 8192"

type_synonym short_id = string

datatype short_id_error = DecodeBech32 | IncorrectIdLength nat

definition short_id_from_slice :: "string \<Rightarrow> (short_id, short_id_error) res" where
  "short_id_from_slice bytes =
     (if length bytes = 8 then Ok bytes else Err (IncorrectIdLength (length bytes)))"

definition short_id_to_string :: "wire_api \<Rightarrow> short_id \<Rightarrow> (string, 'e) res" where
  "short_id_to_string W i =
     rbind (expect (bech32_encode_upper W ''ID'' i)) (\<lambda>s. expect (strip_prefix ''ID1'' s))"

definition short_id_from_str :: "wire_api \<Rightarrow> string \<Rightarrow> (short_id, short_id_error) res" where
  "short_id_from_str W s =
     rbind (ok_or DecodeBech32 (bech32_decode W (''ID1'' @ s))) (\<lambda>(hrp, bytes).
       short_id_from_slice bytes)"

datatype into_url_error = BadScheme | ParseError parse_error

definition into_url :: "string \<Rightarrow> (url, into_url_error) res" where
  "into_url s = map_err ParseError (parse s)"

section \<open>\<open>hpke.rs\<close>\<close>

definition ellswift_encoding_size :: nat where "ellswift_encoding_size = 64"
definition public_key_size :: nat where "public_key_size = 33"
definition poly1305_tag_size :: nat where "poly1305_tag_size = 16"
definition padded_message_bytes :: nat where "padded_message_bytes = 7168"

definition padded_plaintext_a_length :: nat where
  "padded_plaintext_a_length =
     padded_message_bytes - (ellswift_encoding_size + public_key_size + poly1305_tag_size)"

definition padded_plaintext_b_length :: nat where
  "padded_plaintext_b_length = padded_message_bytes - (ellswift_encoding_size + poly1305_tag_size)"

lemmas padding_defs = padded_message_bytes_def ellswift_encoding_size_def public_key_size_def
  poly1305_tag_size_def padded_plaintext_a_length_def padded_plaintext_b_length_def

datatype hpke_error =
  InvalidPublicKey | Hpke nat | InvalidKeyLength | PayloadTooLarge nat nat | PayloadTooShort
| UnexpectedSecp256k1Error

fun hpke_error_from_secp :: "secp_error \<Rightarrow> hpke_error" where
  "hpke_error_from_secp SecpInvalidPublicKey = InvalidPublicKey"
| "hpke_error_from_secp (SecpOther _) = UnexpectedSecp256k1Error"

type_synonym hpke_secret_key = nat
type_synonym hpke_public_key = nat
type_synonym hpke_key_pair = "hpke_secret_key \<times> hpke_public_key"

definition key_pair_from_secret_key :: "wire_api \<Rightarrow> hpke_secret_key \<Rightarrow> hpke_key_pair" where
  "key_pair_from_secret_key W sk = (sk, sk_to_pk W sk)"

definition gen_keypair :: "wire_api \<Rightarrow> nat \<Rightarrow> hpke_key_pair" where
  "gen_keypair W r = kem_gen_keypair W r"

definition pubkey_from_compressed_bytes :: "wire_api \<Rightarrow> string \<Rightarrow> (hpke_public_key, hpke_error) res" where
  "pubkey_from_compressed_bytes W bytes =
     rbind (from_sum hpke_error_from_secp (secp_from_slice W bytes)) (\<lambda>k.
       expect_sum (pk_from_bytes W (secp_serialize_uncompressed W k)))"

definition compressed_bytes_from_pubkey :: "wire_api \<Rightarrow> hpke_public_key \<Rightarrow> (string, 'e) res" where
  "compressed_bytes_from_pubkey W pk =
     rmap (secp_serialize W) (expect_sum (secp_from_slice W (pk_to_bytes W pk)))"

definition to_compressed_bytes :: "wire_api \<Rightarrow> hpke_public_key \<Rightarrow> (string, 'e) res" where
  "to_compressed_bytes W pk =
     rmap (secp_serialize W) (expect_sum (secp_from_slice W (pk_to_bytes W pk)))"

definition from_compressed_bytes :: "wire_api \<Rightarrow> string \<Rightarrow> (hpke_public_key, hpke_error) res" where
  "from_compressed_bytes W bytes =
     rbind (from_sum hpke_error_from_secp (secp_from_slice W bytes)) (\<lambda>k.
       from_sum Hpke (pk_from_bytes W (secp_serialize_uncompressed W k)))"

text \<open>\<open>copy_from_slice\<close> panics when the lengths differ.\<close>

definition encapped_key_from_ellswift_bytes :: "wire_api \<Rightarrow> string \<Rightarrow> (nat, hpke_error) res" where
  "encapped_key_from_ellswift_bytes W encoded =
     (if length encoded \<noteq> ellswift_encoding_size then Panic
      else from_sum Hpke (enc_from_bytes W (secp_serialize_uncompressed W (pubkey_from_ellswift W encoded))))"

definition ellswift_bytes_from_encapped_key :: "wire_api \<Rightarrow> nat \<Rightarrow> (string, hpke_error) res" where
  "ellswift_bytes_from_encapped_key W enc =
     rmap (ellswift_from_pubkey W) (from_sum hpke_error_from_secp (secp_from_slice W (enc_to_bytes W enc)))"

definition nul :: char where "nul = CHR 0x00"

definition pad_plaintext :: "string \<Rightarrow> nat \<Rightarrow> (string, hpke_error) res" where
  "pad_plaintext msg padded_length =
     (if length msg > padded_length then Err (PayloadTooLarge (length msg) padded_length)
      else Ok (msg @ replicate (padded_length - length msg) nul))"

definition encrypt_message_a ::
  "wire_api \<Rightarrow> nat \<Rightarrow> string \<Rightarrow> hpke_public_key \<Rightarrow> hpke_public_key \<Rightarrow> (string, hpke_error) res" where
  "encrypt_message_a W r bdy reply_pk receiver_pk =
     rbind (from_sum Hpke (setup_sender W SenderBase receiver_pk ''PjV2MsgA'' r)) (\<lambda>(encapsulated_key, ctx).
     rbind (pad_plaintext bdy padded_plaintext_a_length) (\<lambda>padded.
     rbind (compressed_bytes_from_pubkey W reply_pk) (\<lambda>pk_bytes.
     rbind (from_sum Hpke (aead_seal W ctx (pk_bytes @ padded))) (\<lambda>ciphertext.
     rbind (ellswift_bytes_from_encapped_key W encapsulated_key) (\<lambda>enc_bytes.
       Ok (enc_bytes @ ciphertext))))))"

definition decrypt_message_a ::
  "wire_api \<Rightarrow> string \<Rightarrow> hpke_secret_key \<Rightarrow> (string \<times> hpke_public_key, hpke_error) res" where
  "decrypt_message_a W message_a receiver_sk =
     (if length message_a < ellswift_encoding_size then Err PayloadTooShort
      else rbind (encapped_key_from_ellswift_bytes W (take ellswift_encoding_size message_a)) (\<lambda>enc.
        rbind (from_sum Hpke (setup_receiver W ReceiverBase receiver_sk enc ''PjV2MsgA'')) (\<lambda>ctx.
        rbind (from_sum Hpke (aead_open W ctx (drop ellswift_encoding_size message_a))) (\<lambda>plaintext.
          if length plaintext < public_key_size then Err PayloadTooShort
          else rbind (pubkey_from_compressed_bytes W (take public_key_size plaintext)) (\<lambda>reply_pk.
            Ok (drop public_key_size plaintext, reply_pk))))))"

definition encrypt_message_b ::
  "wire_api \<Rightarrow> nat \<Rightarrow> string \<Rightarrow> hpke_key_pair \<Rightarrow> hpke_public_key \<Rightarrow> (string, hpke_error) res" where
  "encrypt_message_b W r plaintext receiver_keypair sender_pk =
     rbind (from_sum Hpke (setup_sender W (SenderAuth (fst receiver_keypair) (snd receiver_keypair))
              sender_pk ''PjV2MsgB'' r)) (\<lambda>(encapsulated_key, ctx).
     rbind (pad_plaintext plaintext padded_plaintext_b_length) (\<lambda>padded.
     rbind (from_sum Hpke (aead_seal W ctx padded)) (\<lambda>ciphertext.
     rbind (ellswift_bytes_from_encapped_key W encapsulated_key) (\<lambda>enc_bytes.
       Ok (enc_bytes @ ciphertext)))))"

definition decrypt_message_b ::
  "wire_api \<Rightarrow> string \<Rightarrow> hpke_public_key \<Rightarrow> hpke_secret_key \<Rightarrow> (string, hpke_error) res" where
  "decrypt_message_b W message_b receiver_pk sender_sk =
     (if length message_b < ellswift_encoding_size then Err PayloadTooShort
      else rbind (encapped_key_from_ellswift_bytes W (take ellswift_encoding_size message_b)) (\<lambda>enc.
        rbind (from_sum Hpke (setup_receiver W (ReceiverAuth receiver_pk) sender_sk enc ''PjV2MsgB'')) (\<lambda>ctx.
          from_sum Hpke (aead_open W ctx (drop ellswift_encoding_size message_b)))))"

section \<open>\<open>ohttp.rs\<close>\<close>

definition padded_bhttp_req_bytes :: nat where
  "padded_bhttp_req_bytes = encapsulated_message_bytes - (65 + poly1305_tag_size + 7)"

datatype ohttp_error = Http nat | Ohttp nat | Bhttp nat | ParseUrl parse_error

datatype directory_response_error =
  InvalidSize nat | OhttpDecapsulation ohttp_error | UnexpectedStatusCode nat

definition authority :: "url \<Rightarrow> string" where
  "authority u = host_str (url_host u) @ (case port u of Some p \<Rightarrow> '':'' @ show_dec (unat p) | None \<Rightarrow> [])"

text \<open>
  The request is written into a buffer of random bytes; a request that does not fit is an error
  of the writer. What is encapsulated is copied into the message as far as it fits.
\<close>

definition ohttp_encapsulate ::
  "wire_api \<Rightarrow> string \<Rightarrow> nat \<Rightarrow> string \<Rightarrow> string \<Rightarrow> string option \<Rightarrow> (string \<times> nat, ohttp_error) res" where
  "ohttp_encapsulate W random_bytes ohttp_keys request_method target_resource bdy =
     rbind (from_sum Ohttp (client_from_config W ohttp_keys)) (\<lambda>ctx.
     rbind (map_err ParseUrl (parse target_resource)) (\<lambda>u.
       let req = bhttp_request_bytes W request_method (scheme u) (authority u) (path u) bdy
       in if length req > padded_bhttp_req_bytes then Err (Bhttp (bhttp_write_zero W))
          else rbind (from_sum Ohttp (ohttp_client_encapsulate W ctx
                        (req @ drop (length req) random_bytes))) (\<lambda>(encapsulated, ohttp_ctx).
            let n = min (length encapsulated) encapsulated_message_bytes
            in Ok (take n encapsulated @ replicate (encapsulated_message_bytes - n) nul, ohttp_ctx))))"

definition ohttp_decapsulate :: "wire_api \<Rightarrow> nat \<Rightarrow> string \<Rightarrow> (nat \<times> string, ohttp_error) res" where
  "ohttp_decapsulate W res_ctx ohttp_body =
     rbind (from_sum Ohttp (ohttp_client_decapsulate W res_ctx ohttp_body)) (\<lambda>bhttp_body.
     rbind (from_sum Bhttp (read_bhttp W bhttp_body)) (\<lambda>m.
     rbind (ok_or (Bhttp (bhttp_invalid_status W)) (bh_status m)) (\<lambda>code.
       if code < 100 \<or> 999 < code then Err (Bhttp (bhttp_invalid_status W))
       else case http_header_error W (bh_headers m) of
              Some e \<Rightarrow> Err (Http e)
            | None \<Rightarrow> Ok (code, bh_content m))))"

definition process_ohttp_res ::
  "wire_api \<Rightarrow> string \<Rightarrow> nat \<Rightarrow> (nat \<times> string, directory_response_error) res" where
  "process_ohttp_res W response ctx =
     (if length response \<noteq> encapsulated_message_bytes then Err (InvalidSize (length response))
      else map_err OhttpDecapsulation (ohttp_decapsulate W ctx response))"

definition process_get_res ::
  "wire_api \<Rightarrow> string \<Rightarrow> nat \<Rightarrow> (string option, directory_response_error) res" where
  "process_get_res W response ctx =
     rbind (process_ohttp_res W response ctx) (\<lambda>(status, content).
       if status = 200 then Ok (Some content)
       else if status = 202 then Ok None
       else Err (UnexpectedStatusCode status))"

definition process_post_res :: "wire_api \<Rightarrow> string \<Rightarrow> nat \<Rightarrow> (unit, directory_response_error) res" where
  "process_post_res W response ctx =
     rbind (process_ohttp_res W response ctx) (\<lambda>(status, content).
       if status = 200 then Ok () else Err (UnexpectedStatusCode status))"

definition is_fatal_response :: "directory_response_error \<Rightarrow> bool" where
  "is_fatal_response e =
     (case e of
        OhttpDecapsulation _ \<Rightarrow> True
      | InvalidSize _ \<Rightarrow> False
      | UnexpectedStatusCode code \<Rightarrow> 400 \<le> code \<and> code < 500)"

text \<open>The compact form of the gateway's keys: the key identifier and the compressed public key.\<close>

datatype ohttp_keys_error = IncorrectKeysLength nat | InvalidKeysPublicKey | DecodeKeys nat | EncodeKeys nat

definition ohttp_keys_to_bytes :: "wire_api \<Rightarrow> nat \<Rightarrow> (string, ohttp_keys_error) res" where
  "ohttp_keys_to_bytes W keys =
     rbind (from_sum EncodeKeys (config_encode W keys)) (\<lambda>bytes.
     rbind (index bytes 0) (\<lambda>key_id.
       if length bytes < 68 then Panic
       else rbind (expect_sum (secp_from_slice W (take 65 (drop 3 bytes)))) (\<lambda>k.
         Ok (key_id # secp_serialize W k))))"

definition kem_id :: string where "kem_id = [CHR 0x00, CHR 0x16]"
definition symmetric_len :: string where "symmetric_len = [CHR 0x00, CHR 0x04]"
definition symmetric_kdf_aead :: string where "symmetric_kdf_aead = [CHR 0x00, CHR 0x01, CHR 0x00, CHR 0x03]"

definition ohttp_keys_from_bytes :: "wire_api \<Rightarrow> string \<Rightarrow> (nat, ohttp_keys_error) res" where
  "ohttp_keys_from_bytes W bytes =
     (if length bytes \<noteq> 34 then Err (IncorrectKeysLength (length bytes))
      else rbind (from_sum (\<lambda>_. InvalidKeysPublicKey) (secp_from_slice W (tl bytes))) (\<lambda>pubkey.
        from_sum DecodeKeys (config_decode W
          (hd bytes # kem_id @ secp_serialize_uncompressed W pubkey @ symmetric_len @ symmetric_kdf_aead))))"

definition short_id_from_pubkey :: "wire_api \<Rightarrow> hpke_public_key \<Rightarrow> (short_id, 'e) res" where
  "short_id_from_pubkey W pk = rmap (\<lambda>bytes. take 8 (sha256 W bytes)) (to_compressed_bytes W pk)"

section \<open>\<open>request.rs\<close>\<close>

record request =
  req_url :: string
  content_type :: string
  body :: string

definition new_v1 :: "url \<Rightarrow> string \<Rightarrow> request" where
  "new_v1 u b = \<lparr>req_url = raw u, content_type = ''text/plain'', body = b\<rparr>"

definition new_v2 :: "url \<Rightarrow> string \<Rightarrow> request" where
  "new_v2 u b = \<lparr>req_url = raw u, content_type = ''message/ohttp-req'', body = b\<rparr>"

section \<open>Errors of version 2\<close>

datatype session_error =
  SessionParseUrl into_url_error | SessionHpke hpke_error | DirectoryResponse directory_response_error

datatype create_request_error =
  RequestUrl into_url_error | RequestHpke hpke_error | RequestOhttp ohttp_error | RequestExpired time

end
