(* ===== verification/PJ_Errors.thy ===== *)
theory PJ_Errors
  imports PJ_Params PJ_Psbt PJ_Wire
begin

text \<open>
  \<open>payjoin/src/core/receive/error.rs\<close>: the errors of the receiver, their text, and the JSON
  replies that the receiver sends to the sender for them.

  A JSON value is a tree in the shape of \<open>serde_json::Value\<close>; the entries of an object are a
  list with one entry per key. JSON text is produced and read by the crate, so it is a parameter.
\<close>

datatype json =
  JNull
| JBool bool
| JU64 nat
| JOther_Number
| JString string
| JArray "json list"
| JObject "(string \<times> json) list"

type_synonym implementation_error = string

datatype payload_error =
  Utf8 nat
| ParsePsbt nat
| SenderParams params_error
| InconsistentPsbt inconsistent_psbt
| InvalidInputUtxo psbt_inputs_error
| MissingPayment
| OriginalPsbtNotBroadcastable
| InputOwned outpoint
| InputSeen outpoint
| PsbtBelowFeeRate fee_rate fee_rate   \<comment> \<open>original, receiver's minimum\<close>
| FeeTooHigh fee_rate fee_rate         \<comment> \<open>proposed, maximum\<close>

text \<open>\<open>v1::RequestError\<close> reaches this module as its text.\<close>

datatype protocol_error = OriginalPayloadError payload_error | V1 string | V2 session_error

datatype receive_error = Protocol protocol_error | Implementation implementation_error

section \<open>Text\<close>

fun show_inconsistent_psbt :: "inconsistent_psbt \<Rightarrow> string" where
  "show_inconsistent_psbt (UnequalInputCounts tx_ins psbt_ins) =
     ''The number of PSBT inputs ('' @ show_dec psbt_ins
     @ '') doesn't equal to the number of unsigned transaction inputs ('' @ show_dec tx_ins @ '')''"
| "show_inconsistent_psbt (UnequalOutputCounts tx_outs psbt_outs) =
     ''The number of PSBT outputs ('' @ show_dec psbt_outs
     @ '') doesn't equal to the number of unsigned transaction outputs ('' @ show_dec tx_outs @ '')''"

definition show_psbt_inputs_error :: "psbt_inputs_error \<Rightarrow> string" where
  "show_psbt_inputs_error e = ''invalid PSBT input #'' @ show_dec (pie_index e)"

fun show_params_error :: "params_error \<Rightarrow> string" where
  "show_params_error (UnknownVersion supported) = ''unknown version''"
| "show_params_error FeeRate = ''could not parse feerate''"
| "show_params_error MalformedQuery = ''malformed query parameter encoding''"

fun show_payload_error :: "text_api \<Rightarrow> payload_error \<Rightarrow> string" where
  "show_payload_error T (Utf8 e) = show_utf8_error T e"
| "show_payload_error T (ParsePsbt e) = show_psbt_error T e"
| "show_payload_error T (SenderParams e) = show_params_error e"
| "show_payload_error T (InconsistentPsbt e) = show_inconsistent_psbt e"
| "show_payload_error T (InvalidInputUtxo e) =
     ''Invalid original PSBT input UTXO: '' @ show_psbt_inputs_error e"
| "show_payload_error T MissingPayment = ''Missing payment.''"
| "show_payload_error T OriginalPsbtNotBroadcastable = ''Can't broadcast. PSBT rejected by mempool.''"
| "show_payload_error T (InputOwned _) = ''The receiver rejected the original PSBT.''"
| "show_payload_error T (InputSeen _) = ''The receiver rejected the original PSBT.''"
| "show_payload_error T (PsbtBelowFeeRate original minimum) =
     ''Original PSBT fee rate too low: '' @ show_fee_rate T original @ '' < ''
     @ show_fee_rate T minimum @ ''.''"
| "show_payload_error T (FeeTooHigh proposed maximum) =
     ''Effective receiver feerate exceeds maximum allowed feerate: '' @ show_fee_rate T proposed
     @ '' > '' @ show_fee_rate T maximum"

section \<open>JSON replies\<close>

record json_reply =
  jr_error_code :: error_code
  jr_message :: string
  jr_extra :: "(string \<times> json) list"

text \<open>\<open>serde_json::Map::insert\<close>: replaces the value of a key that is present.\<close>

fun map_insert :: "string \<Rightarrow> json \<Rightarrow> (string \<times> json) list \<Rightarrow> (string \<times> json) list" where
  "map_insert k v [] = [(k, v)]"
| "map_insert k v ((k', v') # m) = (if k = k' then (k, v) # m else (k', v') # map_insert k v m)"

definition json_reply_new :: "error_code \<Rightarrow> string \<Rightarrow> json_reply" where
  "json_reply_new c message = \<lparr>jr_error_code = c, jr_message = message, jr_extra = []\<rparr>"

definition with_extra :: "string \<Rightarrow> json \<Rightarrow> json_reply \<Rightarrow> json_reply" where
  "with_extra k v r = r\<lparr>jr_extra := map_insert k v (jr_extra r)\<rparr>"

definition to_json :: "json_reply \<Rightarrow> json" where
  "to_json r =
     JObject (fold (\<lambda>(k, v). map_insert k v) (jr_extra r)
       (map_insert ''message'' (JString (jr_message r))
         (map_insert ''errorCode'' (JString (error_code_as_str (jr_error_code r))) [])))"

definition status_code :: "json_reply \<Rightarrow> nat" where
  "status_code r =
     (case jr_error_code r of
        Unavailable \<Rightarrow> 500
      | NotEnoughMoney \<Rightarrow> 400
      | VersionUnsupported \<Rightarrow> 400
      | OriginalPsbtRejected \<Rightarrow> 400)"

text \<open>
  The version list is turned into JSON text first (\<open>to_string\<close>), and that text becomes the
  value of the \<open>supported\<close> entry, a JSON string.
\<close>

definition versions_json :: "version list \<Rightarrow> json" where
  "versions_json vs = JArray (map (\<lambda>v. JU64 (version_u8 v)) vs)"

fun payload_error_reply :: "text_api \<Rightarrow> (json \<Rightarrow> string) \<Rightarrow> payload_error \<Rightarrow> json_reply" where
  "payload_error_reply T to_str (FeeTooHigh proposed maximum) =
     json_reply_new NotEnoughMoney (show_payload_error T (FeeTooHigh proposed maximum))"
| "payload_error_reply T to_str (SenderParams (UnknownVersion supported)) =
     with_extra ''supported'' (JString (to_str (versions_json supported)))
       (json_reply_new VersionUnsupported ''This version of payjoin is not supported.'')"
| "payload_error_reply T to_str (SenderParams e) =
     json_reply_new OriginalPsbtRejected (show_params_error e)"
| "payload_error_reply T to_str e = json_reply_new OriginalPsbtRejected (show_payload_error T e)"

fun protocol_error_reply :: "text_api \<Rightarrow> (json \<Rightarrow> string) \<Rightarrow> protocol_error \<Rightarrow> json_reply" where
  "protocol_error_reply T to_str (OriginalPayloadError e) = payload_error_reply T to_str e"
| "protocol_error_reply T to_str (V1 e) = json_reply_new OriginalPsbtRejected e"
| "protocol_error_reply T to_str (V2 e) = json_reply_new Unavailable ''Receiver error''"

fun error_reply :: "text_api \<Rightarrow> (json \<Rightarrow> string) \<Rightarrow> receive_error \<Rightarrow> json_reply" where
  "error_reply T to_str (Protocol e) = protocol_error_reply T to_str e"
| "error_reply T to_str (Implementation e) = json_reply_new Unavailable ''Receiver error''"

end
