(* ===== verification/PJ_Send_Error.thy ===== *)
theory PJ_Send_Error
  imports PJ_Errors PJ_Send
begin

text \<open>
  \<open>payjoin/src/core/send/error.rs\<close>: how the sender reads the receiver's error reply. The
  accessors of \<open>serde_json::Value\<close> return nothing for a value of another kind.
\<close>

text \<open>The error of a version 2 response (\<open>send/v2/error.rs\<close>).\<close>

datatype decapsulation_error =
  DecapsulationHpke hpke_error
| DecapsulationResponse directory_response_error

datatype validation_error =
  Parse
| ContentTooLarge
| Proposal proposal_error
| V2Decapsulation decapsulation_error

record well_known_error =
  wk_code :: error_code
  wk_message :: string
  wk_supported_versions :: "nat list option"

datatype response_error =
  WellKnown well_known_error
| Validation validation_error
| Unrecognized string string   \<comment> \<open>error code, message\<close>

definition as_object_get :: "string \<Rightarrow> json \<Rightarrow> json option" where
  "as_object_get k v = (case v of JObject m \<Rightarrow> map_of m k | _ \<Rightarrow> None)"

fun as_str :: "json \<Rightarrow> string option" where
  "as_str (JString s) = Some s"
| "as_str _ = None"

fun as_array :: "json \<Rightarrow> json list option" where
  "as_array (JArray vs) = Some vs"
| "as_array _ = None"

fun as_u64 :: "json \<Rightarrow> nat option" where
  "as_u64 (JU64 n) = Some n"
| "as_u64 _ = None"

definition well_known_new :: "error_code \<Rightarrow> string \<Rightarrow> well_known_error" where
  "well_known_new c message = \<lparr>wk_code = c, wk_message = message, wk_supported_versions = None\<rparr>"

definition version_unsupported :: "string \<Rightarrow> nat list \<Rightarrow> well_known_error" where
  "version_unsupported message supported =
     \<lparr>wk_code = VersionUnsupported, wk_message = message, wk_supported_versions = Some supported\<rparr>"

definition from_json :: "json \<Rightarrow> response_error" where
  "from_json json =
     (let message = (case Option.bind (as_object_get ''message'' json) as_str of
                       Some m \<Rightarrow> m | None \<Rightarrow> []);
          error_code = Option.bind (as_object_get ''errorCode'' json) as_str
      in case error_code of
           Some code \<Rightarrow>
             (case error_code_from_str code of
                Some VersionUnsupported \<Rightarrow>
                  WellKnown (version_unsupported message
                    (case Option.bind (as_object_get ''supported'' json) as_array of
                       Some vs \<Rightarrow> List.map_filter as_u64 vs
                     | None \<Rightarrow> []))
              | Some c \<Rightarrow> WellKnown (well_known_new c message)
              | None \<Rightarrow> Unrecognized code message)
         | None \<Rightarrow> Validation Parse)"

text \<open>\<open>ResponseError::parse\<close>, with the JSON reader of the crate as a parameter.\<close>

definition response_error_parse :: "(string \<Rightarrow> json option) \<Rightarrow> string \<Rightarrow> response_error" where
  "response_error_parse from_str response =
     (case from_str response of Some json \<Rightarrow> from_json json | None \<Rightarrow> Validation Parse)"

definition show_versions :: "nat list \<Rightarrow> string" where
  "show_versions vs = ''['' @ join_with '', '' (map show_dec vs) @ '']''"

definition show_well_known :: "well_known_error \<Rightarrow> string" where
  "show_well_known e =
     (case wk_code e of
        Unavailable \<Rightarrow> ''The payjoin endpoint is not available for now.''
      | NotEnoughMoney \<Rightarrow>
          ''The receiver added some inputs but could not bump the fee of the payjoin proposal.''
      | VersionUnsupported \<Rightarrow>
          (case wk_supported_versions e of
             Some vs \<Rightarrow> ''This version of payjoin is not supported. Use version '' @ show_versions vs @ ''.''
           | None \<Rightarrow> ''This version of payjoin is not supported.'')
      | OriginalPsbtRejected \<Rightarrow> ''The receiver rejected the original PSBT.'')"

section \<open>A reply and its reading\<close>

lemma map_of_map_insert: "map_of (map_insert k v m) k' = (if k' = k then Some v else map_of m k')"
  by (induction m) auto

lemma to_json_object: "\<exists>m. to_json r = JObject m"
  by (simp add: to_json_def)

lemma fold_insert_lookup:
  "k \<notin> fst ` set xs \<Longrightarrow> map_of (fold (\<lambda>(k, v). map_insert k v) xs m) k = map_of m k"
  by (induction xs arbitrary: m) (auto simp: map_of_map_insert)

lemma payload_reply_extra: "fst ` set (jr_extra (payload_error_reply T to_str e)) \<subseteq> {''supported''}"
  by (cases "(T, to_str, e)" rule: payload_error_reply.cases) (auto simp: json_reply_new_def with_extra_def)

lemma error_reply_extra: "fst ` set (jr_extra (error_reply T to_str e)) \<subseteq> {''supported''}"
proof (cases e)
  case (Protocol p)
  then show ?thesis using payload_reply_extra by (cases p) (simp_all add: json_reply_new_def)
qed (simp add: json_reply_new_def)

text \<open>C28: The sender recognises every error reply of the receiver: it reads back the error code that
  the receiver sent and the message with it, for every receiver error there is.\<close>

theorem error_reply_is_recognised:
  "\<exists>supported. from_json (to_json (error_reply T to_str e)) =
     WellKnown \<lparr>wk_code = jr_error_code (error_reply T to_str e),
       wk_message = jr_message (error_reply T to_str e), wk_supported_versions = supported\<rparr>"
proof -
  have extra: "''errorCode'' \<notin> fst ` set (jr_extra (error_reply T to_str e))"
    "''message'' \<notin> fst ` set (jr_extra (error_reply T to_str e))"
    using error_reply_extra [of T to_str e] by auto
  define r where "r = error_reply T to_str e"
  have "as_object_get ''errorCode'' (to_json r) = Some (JString (error_code_as_str (jr_error_code r)))"
    "as_object_get ''message'' (to_json r) = Some (JString (jr_message r))"
    using extra
    by (simp_all add: r_def as_object_get_def to_json_def fold_insert_lookup map_of_map_insert)
  then show ?thesis
    unfolding r_def [symmetric]
    by (simp add: from_json_def Let_def well_known_new_def version_unsupported_def split: error_code.split)
qed

text \<open>
  The \<open>supported\<close> list does not survive: the receiver sends it as a JSON string and the sender
  only reads an array, so the sender always sees an empty list.
\<close>

lemma supported_versions_lost:
  "from_json (to_json (payload_error_reply T to_str (SenderParams (UnknownVersion vs)))) =
     WellKnown (version_unsupported ''This version of payjoin is not supported.'' [])"
  by (simp add: from_json_def to_json_def with_extra_def json_reply_new_def as_object_get_def Let_def
      error_code_from_str_def)


end
