(* ===== verification/PJ_Send_Request.thy ===== *)
theory PJ_Send_Request
  imports PJ_Send_Error PJ_Send_Check PJ_Url_Facts PJ_Samples
begin

text \<open>
  The requests of the sender: \<open>serialize_url\<close> of \<open>send/mod.rs\<close> and the version 1
  sender of \<open>send/v1.rs\<close>, from its builder to the reading of the response.
\<close>

section \<open>The request\<close>

definition serialize_url ::
  "text_api \<Rightarrow> url \<Rightarrow> output_substitution \<Rightarrow> additional_fee_contribution option \<Rightarrow> fee_rate \<Rightarrow> version \<Rightarrow> url"
where
  "serialize_url T endpoint os contribution min_rate v =
     (let u1 = append_pair ''v'' (version_to_string v) endpoint;
          u2 = (if os = Disabled then append_pair ''disableoutputsubstitution'' ''true'' u1 else u1);
          u3 = (case contribution of
                  Some fc \<Rightarrow>
                    append_pair ''maxadditionalfeecontribution'' (show_dec (max_amount fc))
                      (append_pair ''additionalfeeoutputindex'' (show_dec (fee_vout fc)) u2)
                | None \<Rightarrow> u2)
      in if min_rate > 0 then append_pair ''minfeerate'' (fee_rate_to_f32 T min_rate) u3 else u3)"

section \<open>The version 1 sender\<close>

record v1_sender_builder =
  v1b_endpoint :: url
  v1b_output_substitution :: output_substitution
  v1b_psbt_ctx_builder :: psbt_context_builder

record v1_sender =
  v1_endpoint :: url
  v1_psbt_ctx :: sender_context

text \<open>
  \<open>new\<close> takes the endpoint, the preference, the address and the amount from the parsed URI;
  \<open>from_parts\<close> enables substitution.
\<close>

definition v1_new :: "psbt \<Rightarrow> url \<Rightarrow> output_substitution \<Rightarrow> script \<Rightarrow> amount option \<Rightarrow> v1_sender_builder" where
  "v1_new p endpoint os address amt =
     \<lparr>v1b_endpoint = endpoint, v1b_output_substitution = os,
      v1b_psbt_ctx_builder = new_builder p address amt\<rparr>"

definition v1_from_parts :: "psbt \<Rightarrow> url \<Rightarrow> script \<Rightarrow> amount option \<Rightarrow> v1_sender_builder" where
  "v1_from_parts p endpoint address amt =
     \<lparr>v1b_endpoint = endpoint, v1b_output_substitution = Enabled,
      v1b_psbt_ctx_builder = new_builder p address amt\<rparr>"

definition v1_always_disable_output_substitution :: "v1_sender_builder \<Rightarrow> v1_sender_builder" where
  "v1_always_disable_output_substitution b = b\<lparr>v1b_output_substitution := Disabled\<rparr>"

definition v1_build_recommended ::
  "btc \<Rightarrow> v1_sender_builder \<Rightarrow> fee_rate \<Rightarrow> (v1_sender, build_sender_error) res" where
  "v1_build_recommended L b min_rate =
     rmap (\<lambda>c. \<lparr>v1_endpoint = v1b_endpoint b, v1_psbt_ctx = c\<rparr>)
       (build_recommended L (v1b_psbt_ctx_builder b) min_rate (v1b_output_substitution b))"

definition v1_build_with_additional_fee ::
  "btc \<Rightarrow> v1_sender_builder \<Rightarrow> amount \<Rightarrow> nat option \<Rightarrow> fee_rate \<Rightarrow> bool \<Rightarrow> (v1_sender, build_sender_error) res" where
  "v1_build_with_additional_fee L b max_fee change_index min_rate clamp =
     rmap (\<lambda>c. \<lparr>v1_endpoint = v1b_endpoint b, v1_psbt_ctx = c\<rparr>)
       (build_with_additional_fee L (v1b_psbt_ctx_builder b) max_fee change_index min_rate clamp
          (v1b_output_substitution b))"

definition v1_build_non_incentivizing ::
  "btc \<Rightarrow> v1_sender_builder \<Rightarrow> fee_rate \<Rightarrow> (v1_sender, build_sender_error) res" where
  "v1_build_non_incentivizing L b min_rate =
     rmap (\<lambda>c. \<lparr>v1_endpoint = v1b_endpoint b, v1_psbt_ctx = c\<rparr>)
       (build_non_incentivizing L (v1b_psbt_ctx_builder b) min_rate (v1b_output_substitution b))"

text \<open>The request and the context that validates the response.\<close>

definition create_v1_post_request :: "text_api \<Rightarrow> v1_sender \<Rightarrow> request \<times> sender_context" where
  "create_v1_post_request T s =
     (let c = v1_psbt_ctx s;
          u = serialize_url T (v1_endpoint s) (output_substitution c) (fee_contribution c)
                (min_fee_rate c) One;
          sanitized = clear_unneeded_fields (original_psbt c)
      in (new_v1 u (psbt_to_str T sanitized),
          \<lparr>original_psbt = original_psbt c, output_substitution = output_substitution c,
           fee_contribution = fee_contribution c, min_fee_rate = min_fee_rate c, payee = payee c\<rparr>))"

definition max_content_length :: nat where
  "max_content_length = 4000000 * 4 div 3"

definition v1_process_response ::
  "btc \<Rightarrow> text_api \<Rightarrow> (string \<Rightarrow> json option) \<Rightarrow> sender_context \<Rightarrow> string \<Rightarrow> (psbt, response_error) res" where
  "v1_process_response L T from_str c response =
     (if length response > max_content_length then Err (Validation ContentTooLarge)
      else case from_utf8 response of
        Inl _ \<Rightarrow> Err (Validation Parse)
      | Inr res_str \<Rightarrow>
          (case psbt_from_str T res_str of
             Inl _ \<Rightarrow> Err (response_error_parse from_str res_str)
           | Inr proposal \<Rightarrow>
               map_err (\<lambda>e. Validation (Proposal e)) (process_proposal L c proposal)))"

section \<open>What the receiver reads\<close>

definition recognised_keys :: "string set" where
  "recognised_keys = {''v'', ''additionalfeeoutputindex'', ''maxadditionalfeecontribution'',
     ''minfeerate'', ''disableoutputsubstitution''}"

text \<open>Percent decoding leaves text without a percent sign as it is.\<close>

definition decode_plain :: "text_api \<Rightarrow> bool" where
  "decode_plain T \<longleftrightarrow> (\<forall>s. CHR ''%'' \<notin> set s \<longrightarrow> percent_decode T s = Some s)"

text \<open>An \<open>Amount\<close> up to the supply reads back its decimal form.\<close>

definition amount_text :: "btc \<Rightarrow> text_api \<Rightarrow> bool" where
  "amount_text L T \<longleftrightarrow> (\<forall>a\<le>max_money L. amount_from_sat_str T (show_dec a) = Some a)"

lemma loop_unrecognised:
  "\<forall>(k, v)\<in>set ps. k \<notin> recognised_keys \<Longrightarrow>
     query_pairs_loop T supported par i a (ps @ qs) = query_pairs_loop T supported par i a qs"
  by (induction ps) (auto simp: recognised_keys_def)

lemma append_pair_plain:
  assumes "decode_plain T" and "CHR ''='' \<notin> set k" "CHR ''&'' \<notin> set k" "CHR ''&'' \<notin> set v"
    and "CHR ''%'' \<notin> set k" "CHR ''%'' \<notin> set v"
  shows "query_pairs (percent_decode T) (append_pair k v u) = query_pairs (percent_decode T) u @ [(k, v)]"
  using assms query_pairs_append_pair [OF assms(2-4), of "percent_decode T" u]
  by (simp add: decode_plain_def)

lemma show_dec_plain: "\<not> is_digit c \<Longrightarrow> c \<notin> set (show_dec n)"
  using show_dec_digits by blast

lemma separators_not_digits: "\<not> is_digit CHR ''&''" "\<not> is_digit CHR ''%''"
  by (simp_all add: is_digit_def)

lemmas plain_texts = show_dec_plain [OF separators_not_digits(1)] show_dec_plain [OF separators_not_digits(2)]

definition sent_pairs ::
  "text_api \<Rightarrow> output_substitution \<Rightarrow> additional_fee_contribution option \<Rightarrow> fee_rate \<Rightarrow> version \<Rightarrow>
     (string \<times> string) list" where
  "sent_pairs T os contribution min_rate v =
     [(''v'', version_to_string v)] @
     (if os = Disabled then [(''disableoutputsubstitution'', ''true'')] else []) @
     (case contribution of
        Some fc \<Rightarrow> [(''additionalfeeoutputindex'', show_dec (fee_vout fc)),
                    (''maxadditionalfeecontribution'', show_dec (max_amount fc))]
      | None \<Rightarrow> []) @
     (if min_rate > 0 then [(''minfeerate'', fee_rate_to_f32 T min_rate)] else [])"

lemma serialized_pairs:
  assumes "decode_plain T"
    and "CHR ''&'' \<notin> set (fee_rate_to_f32 T min_rate)" "CHR ''%'' \<notin> set (fee_rate_to_f32 T min_rate)"
  shows "query_pairs (percent_decode T) (serialize_url T endpoint os contribution min_rate v) =
    query_pairs (percent_decode T) endpoint @ sent_pairs T os contribution min_rate v"
proof -
  have "CHR ''&'' \<notin> set (version_to_string v)" "CHR ''%'' \<notin> set (version_to_string v)"
    by (cases v; simp add: version_to_string_def)+
  then show ?thesis
    using assms(2,3)
    by (simp add: serialize_url_def sent_pairs_def Let_def append_pair_plain [OF assms(1)] plain_texts
        split: option.split)
qed

lemma usize_text: "i \<le> usize_max \<Longrightarrow> parse_radix 10 usize_max (show_dec i) = Some i"
  by (rule parse_radix_show) simp_all

lemma sent_pairs_read:
  assumes "amount_text L T" and "\<forall>(k, v)\<in>set ps. k \<notin> recognised_keys"
    and "\<forall>fc. contribution = Some fc \<longrightarrow> fee_vout fc \<le> usize_max \<and> max_amount fc \<le> max_money L"
    and "fee_rate_from_f32 T (fee_rate_to_f32 T min_rate) = Some read_rate"
  shows "from_query_pairs L T (ps @ sent_pairs T os contribution min_rate v) supported =
    Ok \<lparr>par_v = v, par_output_substitution = os,
        par_additional_fee_contribution = map_option (\<lambda>fc. (max_amount fc, fee_vout fc)) contribution,
        par_min_fee_rate = (if min_rate > 0 then read_rate else broadcast_min L)\<rparr>"
  unfolding from_query_pairs_def loop_unrecognised [OF assms(2)]
  using assms(1,3,4)
  by (cases os; cases contribution; cases v)
    (auto simp: sent_pairs_def version_to_string_def usize_text amount_text_def default_params_def
      handle_additional_fee_param_def)

text \<open>C30: The receiver reads from a request's URL the parameters that the sender wrote into it: the
  version, whether outputs may be substituted, and the fee contribution with its output index.
  The minimum fee rate is the one that the printed number reads back as; without one the
  receiver falls back to the broadcast minimum.\<close>

theorem receiver_reads_sender_parameters:
  assumes "decode_plain T" and "amount_text L T"
    and "\<forall>(k, v)\<in>set (query_pairs (percent_decode T) endpoint). k \<notin> recognised_keys"
    and "\<forall>fc. contribution = Some fc \<longrightarrow> fee_vout fc \<le> usize_max \<and> max_amount fc \<le> max_money L"
    and "CHR ''&'' \<notin> set (fee_rate_to_f32 T min_rate)" "CHR ''%'' \<notin> set (fee_rate_to_f32 T min_rate)"
    and "fee_rate_from_f32 T (fee_rate_to_f32 T min_rate) = Some read_rate"
  shows "from_query_pairs L T
      (query_pairs (percent_decode T) (serialize_url T endpoint os contribution min_rate v)) supported =
    Ok \<lparr>par_v = v, par_output_substitution = os,
        par_additional_fee_contribution = map_option (\<lambda>fc. (max_amount fc, fee_vout fc)) contribution,
        par_min_fee_rate = (if min_rate > 0 then read_rate else broadcast_min L)\<rparr>"
  unfolding serialized_pairs [OF assms(1,5,6)] by (rule sent_pairs_read [OF assms(2,3,4,7)])

definition sample_text :: text_api where
  "sample_text = \<lparr>percent_decode = Some, amount_from_sat_str = parse_radix 10 (2 ^ 64 - 1),
     fee_rate_from_f32 = parse_radix 10 (2 ^ 64 - 1), fee_rate_to_f32 = show_dec,
     psbt_from_str = (\<lambda>s. if s = ''orig'' then Inr sample_original else Inl 0), psbt_to_str = (\<lambda>_. ''orig''),
     show_psbt_error = (\<lambda>_. []), show_utf8_error = (\<lambda>_. []), show_fee_rate = show_dec,
     show_outpoint = (\<lambda>_. []), show_txid = show_dec\<rparr>"

lemma receiver_reads_sender_parameters_witness:
  "from_query_pairs sample_btc sample_text
      (query_pairs (percent_decode sample_text) (serialize_url sample_text (clear_query sample_url) Disabled
         (Some \<lparr>max_amount = 182, fee_vout = 1\<rparr>) 500 One)) [One] =
    Ok \<lparr>par_v = One, par_output_substitution = Disabled,
        par_additional_fee_contribution = Some (182, 1), par_min_fee_rate = 500\<rparr>"
proof -
  have plain: "decode_plain sample_text" by (simp add: decode_plain_def sample_text_def)
  have amounts: "amount_text sample_btc sample_text"
    by (simp add: amount_text_def sample_text_def sample_btc_def parse_radix_show)
  have pairs: "query_pairs (percent_decode sample_text) (clear_query sample_url) = []" by code_simp
  have rate: "fee_rate_from_f32 sample_text (fee_rate_to_f32 sample_text 500) = Some 500"
    by (simp add: sample_text_def parse_radix_show)
  have chars: "CHR ''&'' \<notin> set (fee_rate_to_f32 sample_text 500)"
    "CHR ''%'' \<notin> set (fee_rate_to_f32 sample_text 500)"
    by (simp_all add: sample_text_def plain_texts)
  from receiver_reads_sender_parameters [OF plain amounts _ _ chars rate, of "clear_query sample_url"
      "Some \<lparr>max_amount = 182, fee_vout = 1\<rparr>" Disabled One "[One]"]
  show ?thesis by (simp add: pairs usize_max_def sample_btc_def)
qed

end
