(* ===== verification/PJ_Receive_Input.thy ===== *)
theory PJ_Receive_Input
  imports PJ_Errors PJ_Samples
begin

text \<open>
  \<open>payjoin/src/core/receive/mod.rs\<close>, \<open>InputPair\<close>: an input of the receiver with its checked
  previous output and its expected weight, and the constructors for each script type.
\<close>

record input_pair =
  pr_txin :: txin
  pr_psbtin :: psbt_input
  pr_expected_weight :: weight

definition raw_pair :: "input_pair \<Rightarrow> internal_input_pair" where
  "raw_pair p = \<lparr>ip_txin = pr_txin p, ip_psbtin = pr_psbtin p\<rparr>"

definition default_sighash_key_spend_input_weight :: "btc \<Rightarrow> weight" where
  "default_sighash_key_spend_input_weight L =
     p2tr_key_default_sighash L + non_witness_input_weight L"

definition input_pair_new ::
  "btc \<Rightarrow> txin \<Rightarrow> psbt_input \<Rightarrow> weight option \<Rightarrow> (input_pair, internal_psbt_input_error) res" where
  "input_pair_new L t i expected =
     (let r = \<lparr>ip_txin = t, ip_psbtin = i\<rparr> in
      rbind (validate_utxo L r) (\<lambda>_.
      rbind (case (expected_input_weight L r, expected) of
               (Panic, _) \<Rightarrow> Panic
             | (Ok _, Some _) \<Rightarrow> Err PI_ProvidedUnnecessaryWeight
             | (Ok w, None) \<Rightarrow> Ok w
             | (Err IW_NotSupported, Some w) \<Rightarrow> Ok w
             | (Err e, _) \<Rightarrow> Err (PI_WeightError e)) (\<lambda>w.
        Ok \<lparr>pr_txin = t, pr_psbtin = i, pr_expected_weight = w\<rparr>)))"

definition txin_for :: "outpoint \<Rightarrow> txin" where
  "txin_for p = default_txin\<lparr>previous_output := p\<rparr>"

definition new_legacy_input_pair ::
  "btc \<Rightarrow> transaction \<Rightarrow> outpoint \<Rightarrow> script option \<Rightarrow> (input_pair, internal_psbt_input_error) res" where
  "new_legacy_input_pair L tx p redeem =
     input_pair_new L (txin_for p)
       (default_psbt_input\<lparr>non_witness_utxo := Some tx, redeem_script := redeem\<rparr>) None"

definition get_txout_for_outpoint ::
  "transaction \<Rightarrow> outpoint \<Rightarrow> (txout, internal_psbt_input_error) res" where
  "get_txout_for_outpoint tx p =
     ok_or (PI_PrevTxOut (IndexOutOfBounds (length (tx_output tx)) (vout p)))
       (slice_get (tx_output tx) (vout p))"

definition new_segwit_input_pair ::
  "btc \<Rightarrow> txout \<Rightarrow> outpoint \<Rightarrow> weight option \<Rightarrow> (input_pair, internal_psbt_input_error) res" where
  "new_segwit_input_pair L t p expected =
     input_pair_new L (txin_for p)
       (default_psbt_input\<lparr>witness_utxo := Some \<lparr>txo_value = txo_value t, script_pubkey = script_pubkey t\<rparr>\<rparr>)
       expected"

definition new_p2pkh ::
  "btc \<Rightarrow> transaction \<Rightarrow> outpoint \<Rightarrow> (input_pair, internal_psbt_input_error) res" where
  "new_p2pkh L tx p =
     rbind (get_txout_for_outpoint tx p) (\<lambda>t.
       if \<not> script_is_p2pkh L (script_pubkey t) then Err (PI_InvalidScriptPubKey P2pkh)
       else new_legacy_input_pair L tx p None)"

definition new_p2sh ::
  "btc \<Rightarrow> transaction \<Rightarrow> outpoint \<Rightarrow> script \<Rightarrow> (input_pair, internal_psbt_input_error) res" where
  "new_p2sh L tx p redeem =
     rbind (get_txout_for_outpoint tx p) (\<lambda>t.
       if \<not> script_is_p2sh L (script_pubkey t) then Err (PI_InvalidScriptPubKey P2sh)
       else new_legacy_input_pair L tx p (Some redeem))"

definition new_p2wpkh ::
  "btc \<Rightarrow> txout \<Rightarrow> outpoint \<Rightarrow> (input_pair, internal_psbt_input_error) res" where
  "new_p2wpkh L t p =
     (if \<not> script_is_p2wpkh L (script_pubkey t) then Err (PI_InvalidScriptPubKey P2wpkh)
      else new_segwit_input_pair L t p None)"

definition new_p2wsh ::
  "btc \<Rightarrow> txout \<Rightarrow> outpoint \<Rightarrow> weight \<Rightarrow> (input_pair, internal_psbt_input_error) res" where
  "new_p2wsh L t p w =
     (if \<not> script_is_p2wsh L (script_pubkey t) then Err (PI_InvalidScriptPubKey P2wsh)
      else new_segwit_input_pair L t p (Some w))"

definition new_p2tr_keyspend ::
  "btc \<Rightarrow> txout \<Rightarrow> outpoint \<Rightarrow> (input_pair, internal_psbt_input_error) res" where
  "new_p2tr_keyspend L t p =
     (if \<not> script_is_p2tr L (script_pubkey t) then Err (PI_InvalidScriptPubKey P2tr)
      else new_segwit_input_pair L t p (Some (default_sighash_key_spend_input_weight L)))"

definition new_p2tr_scriptpath_spend ::
  "btc \<Rightarrow> txout \<Rightarrow> outpoint \<Rightarrow> weight \<Rightarrow> (input_pair, internal_psbt_input_error) res" where
  "new_p2tr_scriptpath_spend L t p w =
     (if \<not> script_is_p2tr L (script_pubkey t) then Err (PI_InvalidScriptPubKey P2tr)
      else new_segwit_input_pair L t p (Some w))"

definition pair_outpoint :: "input_pair \<Rightarrow> outpoint" where
  "pair_outpoint p = previous_output (pr_txin p)"

text \<open>\<open>previous_txout\<close> of a pair: an \<open>expect\<close> that its construction has made safe.\<close>

definition pair_txout :: "input_pair \<Rightarrow> (txout, 'e) res" where
  "pair_txout p = expect (ok (previous_txout (raw_pair p)))"

section \<open>Facts\<close>

text \<open>A pair whose previous output is checked: what every constructor establishes.\<close>

definition pair_ok :: "btc \<Rightarrow> input_pair \<Rightarrow> bool" where
  "pair_ok L p \<longleftrightarrow> validate_utxo L (raw_pair p) = Ok ()"

lemma input_pair_new_Ok:
  "input_pair_new L t i w = Ok p \<Longrightarrow> pair_ok L p \<and> pr_txin p = t \<and> pr_psbtin p = i"
  by (auto simp: input_pair_new_def Let_def rbind_eq_Ok pair_ok_def raw_pair_def)

lemma pair_txout_total: "pair_ok L p \<Longrightarrow> \<exists>t. pair_txout p = (Ok t :: (txout, 'e) res)"
  using validate_utxo_previous_txout [of L "raw_pair p" "()"]
  by (auto simp: pair_ok_def pair_txout_def)

lemma new_segwit_input_pair_Ok:
  "new_segwit_input_pair L t p w = Ok r \<Longrightarrow>
     pair_ok L r \<and> pair_outpoint r = p \<and> pair_txout r = (Ok t :: (txout, 'e) res)"
  by (auto simp: new_segwit_input_pair_def pair_outpoint_def txin_for_def pair_txout_def raw_pair_def
      previous_txout_def default_psbt_input_def dest!: input_pair_new_Ok)

lemma new_legacy_input_pair_Ok:
  assumes "new_legacy_input_pair L tx p redeem = Ok r"
  shows "pair_ok L r \<and> pair_outpoint r = p \<and> compute_txid L tx = op_txid p \<and> vout p < length (tx_output tx) \<and>
    pair_txout r = (Ok (tx_output tx ! vout p) :: (txout, 'e) res)"
proof -
  from assms have r: "pair_ok L r" "pr_txin r = txin_for p"
      "pr_psbtin r = default_psbt_input\<lparr>non_witness_utxo := Some tx, redeem_script := redeem\<rparr>"
    by (auto simp: new_legacy_input_pair_def dest: input_pair_new_Ok)
  from r(1) validate_utxo_previous_txout [of L "raw_pair r" "()"] r(2,3) show ?thesis
    by (auto simp: pair_ok_def raw_pair_def txin_for_def pair_outpoint_def pair_txout_def)
qed

text \<open>Every constructor of a receiver input that succeeds returns a pair that spends the given
  outpoint and whose previous output is known and has the script type of the constructor; for
  the legacy types it is the output of a previous transaction with the outpoint's identifier.
  So reading the previous output of a pair later cannot panic.\<close>

theorem input_pair_constructors:
  "(new_p2pkh L tx p = Ok r \<longrightarrow> pair_ok L r \<and> pair_outpoint r = p \<and> compute_txid L tx = op_txid p \<and>
      (\<exists>t. pair_txout r = (Ok t :: (txout, 'e) res) \<and> t = tx_output tx ! vout p \<and> script_is_p2pkh L (script_pubkey t))) \<and>
   (new_p2sh L tx p redeem = Ok r \<longrightarrow> pair_ok L r \<and> pair_outpoint r = p \<and> compute_txid L tx = op_txid p \<and>
      (\<exists>t. pair_txout r = (Ok t :: (txout, 'e) res) \<and> t = tx_output tx ! vout p \<and> script_is_p2sh L (script_pubkey t))) \<and>
   (new_p2wpkh L t p = Ok r \<longrightarrow> pair_ok L r \<and> pair_outpoint r = p \<and> script_is_p2wpkh L (script_pubkey t) \<and>
      pair_txout r = (Ok t :: (txout, 'e) res)) \<and>
   (new_p2wsh L t p w = Ok r \<longrightarrow> pair_ok L r \<and> pair_outpoint r = p \<and> script_is_p2wsh L (script_pubkey t) \<and>
      pair_txout r = (Ok t :: (txout, 'e) res)) \<and>
   (new_p2tr_keyspend L t p = Ok r \<or> new_p2tr_scriptpath_spend L t p w = Ok r \<longrightarrow>
      pair_ok L r \<and> pair_outpoint r = p \<and> script_is_p2tr L (script_pubkey t) \<and>
      pair_txout r = (Ok t :: (txout, 'e) res))"
  by (auto simp: new_p2pkh_def new_p2sh_def new_p2wpkh_def new_p2wsh_def new_p2tr_keyspend_def
      new_p2tr_scriptpath_spend_def get_txout_for_outpoint_def rbind_eq_Ok slice_get_eq_Some
      dest!: new_segwit_input_pair_Ok [where 'e = 'e] new_legacy_input_pair_Ok [where 'e = 'e] split: if_splits)


lemma input_pair_constructors_witness:
  "\<exists>r. new_p2wpkh sample_btc (sample_txout 80 receiver_spk) \<lparr>op_txid = 2, vout = 0\<rparr> = Ok r \<and>
     pair_ok sample_btc r \<and> pair_outpoint r = \<lparr>op_txid = 2, vout = 0\<rparr> \<and>
     pair_txout r = (Ok (sample_txout 80 receiver_spk) :: (txout, unit) res)"
proof -
  let ?r = "new_p2wpkh sample_btc (sample_txout 80 receiver_spk) \<lparr>op_txid = 2, vout = 0\<rparr>"
  have "is_ok ?r" by code_simp
  then obtain r where r: "?r = Ok r" by (auto simp: is_ok_iff)
  with input_pair_constructors [where 'e = unit, of sample_btc undefined "\<lparr>op_txid = 2, vout = 0\<rparr>" r
      undefined "sample_txout 80 receiver_spk" undefined] show ?thesis by blast
qed

end
