(* ===== verification/PJ_Receive_Common.thy ===== *)
theory PJ_Receive_Common
  imports PJ_Receive_Input
begin

text \<open>
  \<open>payjoin/src/core/receive/common/mod.rs\<close>: the typestates in which the receiver builds its
  proposal, shared by both protocol versions. Each typestate is a record and each transition a
  function on it.

  Randomness is a generator \<open>R\<close> with a state \<open>g\<close>: a number below a bound, a fair bit, and the
  permutation that \<open>shuffle\<close> applies. \<open>rng_ok\<close> is what the sources rely on.
\<close>

record 'g rng =
  gen_range :: "nat \<Rightarrow> 'g \<Rightarrow> nat \<times> 'g"
  gen_bool :: "'g \<Rightarrow> bool \<times> 'g"
  shuffle :: "nat \<Rightarrow> 'g \<Rightarrow> nat list \<times> 'g"

definition rng_ok :: "'g rng \<Rightarrow> bool" where
  "rng_ok R \<longleftrightarrow>
     (\<forall>n g. 0 < n \<longrightarrow> fst (gen_range R n g) < n) \<and>
     (\<forall>n g. mset (fst (shuffle R n g)) = mset [0..<n])"

section \<open>Errors\<close>

datatype output_substitution_error =
  DecreasedValueWhenDisabled
| ScriptPubKeyChangedWhenDisabled
| NotEnoughOutputs
| InvalidDrainScript

datatype coin_selection_error = Empty | UnsupportedOutputLength | NotFound

datatype input_contribution_error = ValueTooLow | DuplicateInput outpoint

section \<open>Typestates\<close>

record original_payload =
  pl_psbt :: psbt
  pl_params :: params

record original_context =
  oc_original_psbt :: psbt
  oc_params :: params

definition original_context_new :: "psbt \<Rightarrow> params \<Rightarrow> nat list \<Rightarrow> original_context" where
  "original_context_new original par owned_vouts =
     \<lparr>oc_original_psbt = original,
      oc_params = (case par_additional_fee_contribution par of
          Some (_, i) \<Rightarrow>
            if length (tx_output (unsigned_tx original)) \<le> i \<or> i \<in> set owned_vouts
            then par\<lparr>par_additional_fee_contribution := None\<rparr> else par
        | None \<Rightarrow> par)\<rparr>"

record working_proposal =
  wp_payjoin_psbt :: psbt
  wp_change_vout :: nat
  wp_receiver_inputs :: "input_pair list"

record wants_outputs =
  wo_original :: original_context
  wo_payjoin_psbt :: psbt
  wo_change_vout :: nat
  wo_owned_vouts :: "nat list"

record wants_inputs =
  wi_original :: original_context
  wi_proposal :: working_proposal

record wants_fee_range =
  wf_original :: original_context
  wf_proposal :: working_proposal

record psbt_context =
  pc_original_psbt :: psbt
  pc_payjoin_psbt :: psbt

section \<open>\<open>WantsOutputs\<close>\<close>

definition wants_outputs_new :: "original_payload \<Rightarrow> nat list \<Rightarrow> (wants_outputs, 'e) res" where
  "wants_outputs_new payload owned_vouts =
     rbind (index owned_vouts 0) (\<lambda>change_vout.
       Ok \<lparr>wo_original = original_context_new (pl_psbt payload) (pl_params payload) owned_vouts,
           wo_payjoin_psbt = pl_psbt payload, wo_change_vout = change_vout,
           wo_owned_vouts = owned_vouts\<rparr>)"

definition wo_output_substitution :: "wants_outputs \<Rightarrow> output_substitution" where
  "wo_output_substitution s = par_output_substitution (oc_params (wo_original s))"

text \<open>\<open>interleave_shuffle\<close>: the new elements are permuted, then merged at random places.\<close>

definition permute :: "nat list \<Rightarrow> 'a list \<Rightarrow> 'a list" where
  "permute p xs = map (\<lambda>i. xs ! i) p"

fun interleave :: "'g rng \<Rightarrow> 'g \<Rightarrow> 'a list \<Rightarrow> 'a list \<Rightarrow> 'a list" where
  "interleave R g [] [] = []"
| "interleave R g (x # xs) [] = x # interleave R g xs []"
| "interleave R g [] (y # ys) = y # interleave R g [] ys"
| "interleave R g (x # xs) (y # ys) =
     (let (b, g') = gen_bool R g in
      if b then x # interleave R g' xs (y # ys) else y # interleave R g' (x # xs) ys)"

definition interleave_shuffle :: "'g rng \<Rightarrow> 'g \<Rightarrow> 'a list \<Rightarrow> 'a list \<Rightarrow> 'a list" where
  "interleave_shuffle R g original new =
     (let (p, g') = shuffle R (length new) g in interleave R g' original (permute p new))"

text \<open>The replacement for one receiver output, and the replacements that are left.\<close>

definition take_replacement ::
  "'g rng \<Rightarrow> output_substitution \<Rightarrow> txout \<Rightarrow> txout list \<Rightarrow> 'g \<Rightarrow>
     (txout \<times> txout list \<times> 'g, output_substitution_error) res" where
  "take_replacement R os original repl g =
     (if repl = [] then Err NotEnoughOutputs
      else case position (\<lambda>t. script_pubkey t = script_pubkey original) repl of
        Some pos \<Rightarrow>
          rbind (swap_remove pos repl) (\<lambda>(t, repl').
            if os = Disabled \<and> txo_value t < txo_value original
            then Err DecreasedValueWhenDisabled else Ok (t, repl', g))
      | None \<Rightarrow>
          if os = Disabled then Err ScriptPubKeyChangedWhenDisabled
          else rmap (\<lambda>(t, repl'). (t, repl', snd (gen_range R (length repl) g)))
                 (swap_remove (fst (gen_range R (length repl) g)) repl))"

text \<open>
  The loop over the original outputs: it returns the outputs in their place, the replacements
  that are left, and the generator.
\<close>

fun replace_outputs_loop ::
  "'g rng \<Rightarrow> output_substitution \<Rightarrow> nat list \<Rightarrow> nat \<Rightarrow> txout list \<Rightarrow> txout list \<Rightarrow> 'g \<Rightarrow>
     (txout list \<times> txout list \<times> 'g, output_substitution_error) res" where
  "replace_outputs_loop R os owned i [] repl g = Ok ([], repl, g)"
| "replace_outputs_loop R os owned i (original # rest) repl g =
     (if i \<in> set owned
      then rbind (take_replacement R os original repl g) (\<lambda>(t, repl', g').
             rmap (\<lambda>(outs, left, g''). (t # outs, left, g''))
               (replace_outputs_loop R os owned (Suc i) rest repl' g'))
      else rmap (\<lambda>(outs, left, g'). (original # outs, left, g'))
             (replace_outputs_loop R os owned (Suc i) rest repl g))"

definition replace_receiver_outputs_with_rng ::
  "'g rng \<Rightarrow> 'g \<Rightarrow> wants_outputs \<Rightarrow> txout list \<Rightarrow> script \<Rightarrow> (wants_outputs, output_substitution_error) res"
where
  "replace_receiver_outputs_with_rng R g s replacement_outputs drain_script =
     (let original = oc_original_psbt (wo_original s) in
      rbind (replace_outputs_loop R (wo_output_substitution s) (wo_owned_vouts s) 0
               (tx_output (unsigned_tx original)) replacement_outputs g) (\<lambda>(outs, left, g').
      let outs' = interleave_shuffle R g' outs left in
      rbind (ok_or InvalidDrainScript (position (\<lambda>t. script_pubkey t = drain_script) outs'))
        (\<lambda>change_vout.
          Ok \<lparr>wo_original = wo_original s,
              wo_payjoin_psbt = original\<lparr>outputs := map (\<lambda>_. default_psbt_output) outs',
                unsigned_tx := (unsigned_tx original)\<lparr>tx_output := outs'\<rparr>\<rparr>,
              wo_change_vout = change_vout, wo_owned_vouts = wo_owned_vouts s\<rparr>)))"

text \<open>With a generator of its own (\<open>thread_rng\<close>), the code calls the version above.\<close>

definition replace_receiver_outputs ::
  "'g rng \<Rightarrow> 'g \<Rightarrow> wants_outputs \<Rightarrow> txout list \<Rightarrow> script \<Rightarrow> (wants_outputs, output_substitution_error) res"
where
  "replace_receiver_outputs R g s replacement_outputs drain_script =
     replace_receiver_outputs_with_rng R g s replacement_outputs drain_script"

definition substitute_receiver_script ::
  "'g rng \<Rightarrow> 'g \<Rightarrow> wants_outputs \<Rightarrow> script \<Rightarrow> (wants_outputs, output_substitution_error) res" where
  "substitute_receiver_script R g s output_script =
     rbind (index (tx_output (unsigned_tx (oc_original_psbt (wo_original s)))) (wo_change_vout s))
       (\<lambda>t. replace_receiver_outputs R g s
               [\<lparr>txo_value = txo_value t, script_pubkey = output_script\<rparr>] output_script)"

definition commit_outputs :: "wants_outputs \<Rightarrow> wants_inputs" where
  "commit_outputs s = \<lparr>wi_original = wo_original s,
     wi_proposal = \<lparr>wp_payjoin_psbt = wo_payjoin_psbt s, wp_change_vout = wo_change_vout s,
                    wp_receiver_inputs = []\<rparr>\<rparr>"

section \<open>\<open>WantsInputs\<close>\<close>

text \<open>\<open>Iterator::min\<close> with a default.\<close>

fun min_or :: "amount \<Rightarrow> amount list \<Rightarrow> amount" where
  "min_or d [] = d"
| "min_or d (v # vs) = fold min vs v"

fun avoid_uih_loop ::
  "btc \<Rightarrow> amount \<Rightarrow> amount \<Rightarrow> amount \<Rightarrow> input_pair list \<Rightarrow> (input_pair, coin_selection_error) res" where
  "avoid_uih_loop L min_out min_in prior [] = Err NotFound"
| "avoid_uih_loop L min_out min_in prior (p # ps) =
     rbind (rmap txo_value (pair_txout p)) (\<lambda>candidate.
     rbind (expect (amount_add L prior candidate)) (\<lambda>paid.
       if min min_in candidate > min min_out paid then Ok p
       else avoid_uih_loop L min_out min_in prior ps))"

definition avoid_uih ::
  "btc \<Rightarrow> wants_inputs \<Rightarrow> input_pair list \<Rightarrow> (input_pair, coin_selection_error) res" where
  "avoid_uih L s candidates =
     (let p = wp_payjoin_psbt (wi_proposal s) in
      if length (outputs p) \<noteq> 2 then Err UnsupportedOutputLength
      else let min_out = min_or (max_money L) (map txo_value (tx_output (unsigned_tx p)));
               min_in = min_or (max_money L)
                 (List.map_filter (\<lambda>i. map_option txo_value (ok (previous_txout i))) (input_pairs p))
           in rbind (index (tx_output (unsigned_tx p)) (wp_change_vout (wi_proposal s))) (\<lambda>t.
                avoid_uih_loop L min_out min_in (txo_value t) candidates))"

definition select_first_candidate :: "input_pair list \<Rightarrow> (input_pair, coin_selection_error) res" where
  "select_first_candidate candidates = (case candidates of [] \<Rightarrow> Err Empty | p # _ \<Rightarrow> Ok p)"

definition try_preserving_privacy ::
  "btc \<Rightarrow> wants_inputs \<Rightarrow> input_pair list \<Rightarrow> (input_pair, coin_selection_error) res" where
  "try_preserving_privacy L s candidates =
     (case avoid_uih L s candidates of
        Ok p \<Rightarrow> Ok p
      | Err _ \<Rightarrow> select_first_candidate candidates
      | Panic \<Rightarrow> Panic)"

fun check_duplicates :: "outpoint set \<Rightarrow> input_pair list \<Rightarrow> (unit, input_contribution_error) res" where
  "check_duplicates seen [] = Ok ()"
| "check_duplicates seen (p # ps) =
     (if pair_outpoint p \<in> seen then Err (DuplicateInput (pair_outpoint p))
      else check_duplicates (insert (pair_outpoint p) seen) ps)"

text \<open>
  The insertion loop: the transaction inputs and PSBT inputs so far, the sum of the previous
  outputs, the generator. Every index is drawn from the positions before the first insertion.
\<close>

fun insert_inputs_loop ::
  "btc \<Rightarrow> 'g rng \<Rightarrow> nat \<Rightarrow> nat \<Rightarrow> txin list \<Rightarrow> psbt_input list \<Rightarrow> amount \<Rightarrow> 'g \<Rightarrow> input_pair list \<Rightarrow>
     (txin list \<times> psbt_input list \<times> amount, input_contribution_error) res" where
  "insert_inputs_loop L R seq n ts is acc g [] = Ok (ts, is, acc)"
| "insert_inputs_loop L R seq n ts is acc g (p # ps) =
     rbind (pair_txout p) (\<lambda>t.
     rbind (expect (amount_add L acc (txo_value t))) (\<lambda>acc'.
     let (i, g') = gen_range R (n + 1) g in
     rbind (vec_insert i (pr_psbtin p) is) (\<lambda>is'.
     rbind (vec_insert i ((pr_txin p)\<lparr>sequence := seq\<rparr>) ts) (\<lambda>ts'.
       insert_inputs_loop L R seq n ts' is' acc' g' ps))))"

definition receiver_min_input_amount :: "btc \<Rightarrow> wants_inputs \<Rightarrow> (amount, 'e) res" where
  "receiver_min_input_amount L s =
     rbind (amount_sum L (map txo_value (tx_output (unsigned_tx (wp_payjoin_psbt (wi_proposal s))))))
       (\<lambda>output_amount.
     rbind (amount_sum L (map txo_value (tx_output (unsigned_tx (oc_original_psbt (wi_original s))))))
       (\<lambda>original_output_amount.
         Ok (case amount_checked_sub L output_amount original_output_amount of
               Some d \<Rightarrow> d | None \<Rightarrow> 0)))"

definition contribute_inputs ::
  "btc \<Rightarrow> 'g rng \<Rightarrow> 'g \<Rightarrow> wants_inputs \<Rightarrow> input_pair list \<Rightarrow> (wants_inputs, input_contribution_error) res"
where
  "contribute_inputs L R g s ps =
     (let p = wp_payjoin_psbt (wi_proposal s);
          tx = unsigned_tx p;
          change_vout = wp_change_vout (wi_proposal s);
          seq = (case tx_input (unsigned_tx (oc_original_psbt (wi_original s))) of
                   t # _ \<Rightarrow> sequence t | [] \<Rightarrow> sequence default_txin)
      in rbind (check_duplicates (set (outpoints tx)) ps) (\<lambda>_.
         rbind (insert_inputs_loop L R seq (length (tx_input tx)) (tx_input tx) (inputs p) 0 g ps)
           (\<lambda>(ts, is, receiver_input_amount).
         rbind (receiver_min_input_amount L s) (\<lambda>min_amount.
         if min_amount \<le> receiver_input_amount
         then rbind (expect (amount_sub L receiver_input_amount min_amount)) (\<lambda>change_amount.
              rbind (index (tx_output tx) change_vout) (\<lambda>change.
              rbind (expect (amount_add L (txo_value change) change_amount)) (\<lambda>value.
                Ok (s\<lparr>wi_proposal := \<lparr>
                  wp_payjoin_psbt = p\<lparr>inputs := is,
                    unsigned_tx := tx\<lparr>tx_input := ts,
                      tx_output := (tx_output tx)[change_vout := change\<lparr>txo_value := value\<rparr>]\<rparr>\<rparr>,
                  wp_change_vout = change_vout,
                  wp_receiver_inputs = wp_receiver_inputs (wi_proposal s) @ ps\<rparr>\<rparr>))))
         else Err ValueTooLow))))"

definition commit_inputs :: "wants_inputs \<Rightarrow> wants_fee_range" where
  "commit_inputs s = \<lparr>wf_original = wi_original s, wf_proposal = wi_proposal s\<rparr>"

section \<open>\<open>WantsFeeRange\<close>\<close>

definition wf_additional_input_weight :: "btc \<Rightarrow> wants_fee_range \<Rightarrow> (weight, 'e) res" where
  "wf_additional_input_weight L s =
     weight_sum L (map pr_expected_weight (wp_receiver_inputs (wf_proposal s)))"

definition additional_output_weight :: "btc \<Rightarrow> wants_fee_range \<Rightarrow> (weight, 'e) res" where
  "additional_output_weight L s =
     rbind (weight_sum L (map (txout_weight L) (tx_output (unsigned_tx (wp_payjoin_psbt (wf_proposal s))))))
       (\<lambda>payjoin_weight.
     rbind (weight_sum L (map (txout_weight L) (tx_output (unsigned_tx (oc_original_psbt (wf_original s))))))
       (\<lambda>original_weight.
         expect (weight_sub L payjoin_weight original_weight)))"

text \<open>\<open>output[i].value -= a\<close>\<close>

definition decrease_output :: "btc \<Rightarrow> nat \<Rightarrow> amount \<Rightarrow> txout list \<Rightarrow> (txout list, 'e) res" where
  "decrease_output L i a outs =
     rbind (index outs i) (\<lambda>t.
     rbind (expect (amount_sub L (txo_value t) a)) (\<lambda>v.
       Ok (outs[i := t\<lparr>txo_value := v\<rparr>])))"

text \<open>
  The sender's part of the additional fee: the outputs after it was taken, and what is left for
  the receiver to pay.
\<close>

definition take_sender_fee ::
  "btc \<Rightarrow> original_context \<Rightarrow> amount \<Rightarrow> txout list \<Rightarrow> (txout list \<times> amount, 'e) res" where
  "take_sender_fee L oc additional_fee outs =
     (if additional_fee \<ge> 1
      then case par_additional_fee_contribution (oc_params oc) of
        Some (max_contribution, fee_index) \<Rightarrow>
          rbind (index (tx_output (unsigned_tx (oc_original_psbt oc))) fee_index) (\<lambda>sender_output.
          rbind (expect (position (\<lambda>t. script_pubkey t = script_pubkey sender_output) outs)) (\<lambda>sender_vout.
          let sender_fee = min max_contribution additional_fee in
          rbind (decrease_output L sender_vout sender_fee outs) (\<lambda>outs'.
          rbind (expect (amount_sub L additional_fee sender_fee)) (\<lambda>receiver_fee.
            Ok (outs', receiver_fee)))))
      | None \<Rightarrow> Ok (outs, additional_fee)
      else Ok (outs, additional_fee))"

definition take_receiver_fee :: "btc \<Rightarrow> nat \<Rightarrow> amount \<Rightarrow> txout list \<Rightarrow> (txout list, 'e) res" where
  "take_receiver_fee L change_vout fee outs =
     (if fee \<ge> 1 then decrease_output L change_vout fee outs else Ok outs)"

definition calculate_psbt_with_fee_range ::
  "btc \<Rightarrow> wants_fee_range \<Rightarrow> fee_rate option \<Rightarrow> fee_rate option \<Rightarrow> (psbt, payload_error) res" where
  "calculate_psbt_with_fee_range L s min_rate max_effective_rate =
     (let oc = wf_original s;
          p = wp_payjoin_psbt (wf_proposal s);
          outs0 = tx_output (unsigned_tx p);
          min_fee = max (case min_rate of Some r \<Rightarrow> r | None \<Rightarrow> broadcast_min L)
                        (par_min_fee_rate (oc_params oc));
          max_rate = (case max_effective_rate of Some r \<Rightarrow> r | None \<Rightarrow> broadcast_min L)
      in rbind (wf_additional_input_weight L s) (\<lambda>input_weight.
         rbind (expect (fee_mul L min_fee input_weight)) (\<lambda>additional_fee.
         rbind (take_sender_fee L oc additional_fee outs0) (\<lambda>(outs1, receiver_fee1).
         rbind (additional_output_weight L s) (\<lambda>output_weight.
         rbind (expect (fee_mul L min_fee output_weight)) (\<lambda>output_fee.
         rbind (expect (amount_add L receiver_fee1 output_fee)) (\<lambda>receiver_fee.
         rbind (expect (weight_add L input_weight output_weight)) (\<lambda>total_weight.
         rbind (expect (fee_mul L max_rate total_weight)) (\<lambda>max_fee.
         if receiver_fee > max_fee
         then rbind (expect (fee_div L receiver_fee total_weight)) (\<lambda>proposed_rate.
                Err (FeeTooHigh proposed_rate max_rate))
         else rbind (take_receiver_fee L (wp_change_vout (wf_proposal s)) receiver_fee outs1) (\<lambda>outs2.
                Ok (p\<lparr>unsigned_tx := (unsigned_tx p)\<lparr>tx_output := outs2\<rparr>\<rparr>)))))))))))"

definition calculate_psbt_context_with_fee_range ::
  "btc \<Rightarrow> wants_fee_range \<Rightarrow> fee_rate option \<Rightarrow> fee_rate option \<Rightarrow> (psbt_context, payload_error) res" where
  "calculate_psbt_context_with_fee_range L s min_rate max_effective_rate =
     rmap (\<lambda>p. \<lparr>pc_original_psbt = oc_original_psbt (wf_original s), pc_payjoin_psbt = p\<rparr>)
       (calculate_psbt_with_fee_range L s min_rate max_effective_rate)"

end
