(* ===== verification/PJ_Receive.thy ===== *)
theory PJ_Receive
  imports PJ_Receive_Common
begin

text \<open>
  \<open>payjoin/src/core/receive/mod.rs\<close>: reading the sender's request, the checks on the original
  PSBT, and the finalisation of the proposal.

  A callback of the application is a function. One that may change its own state (\<open>FnMut\<close>) takes
  that state and returns the next one with its answer, so that the order and number of the calls
  are visible.
\<close>

section \<open>The request\<close>

definition parse_payload ::
  "btc \<Rightarrow> text_api \<Rightarrow> string \<Rightarrow> string \<Rightarrow> version list \<Rightarrow> (psbt \<times> params, payload_error) res" where
  "parse_payload L T base64 q supported =
     rbind (case psbt_from_str T base64 of Inl e \<Rightarrow> Err (ParsePsbt e) | Inr p \<Rightarrow> Ok p) (\<lambda>unchecked.
     rbind (map_err InconsistentPsbt (psbt_validate unchecked)) (\<lambda>p.
     rbind (map_err InvalidInputUtxo (validate_input_utxos L p)) (\<lambda>_.
     rbind (map_err SenderParams (from_query_str L T q supported)) (\<lambda>par.
       Ok (p, par)))))"

section \<open>Checks on the original PSBT\<close>

definition psbt_fee_rate :: "btc \<Rightarrow> original_payload \<Rightarrow> (fee_rate, payload_error) res" where
  "psbt_fee_rate L payload =
     rbind (case psbt_fee L (pl_psbt payload) of Inl e \<Rightarrow> Err (ParsePsbt e) | Inr f \<Rightarrow> Ok f) (\<lambda>fee.
       expect (fee_div L fee (tx_weight L (extract_tx_unchecked_fee_rate L (pl_psbt payload)))))"

abbreviation payload_failure :: "payload_error \<Rightarrow> receive_error" where
  "payload_failure e \<equiv> Protocol (OriginalPayloadError e)"

definition check_broadcast_suitability ::
  "btc \<Rightarrow> original_payload \<Rightarrow> fee_rate option \<Rightarrow> (transaction \<Rightarrow> (bool, implementation_error) res) \<Rightarrow>
     (unit, receive_error) res" where
  "check_broadcast_suitability L payload min_rate can_broadcast =
     rbind (map_err payload_failure (psbt_fee_rate L payload)) (\<lambda>rate.
     rbind (case min_rate of
              Some m \<Rightarrow> ensure (\<not> rate < m) (payload_failure (PsbtBelowFeeRate rate m))
            | None \<Rightarrow> Ok ()) (\<lambda>_.
     rbind (map_err Implementation
              (can_broadcast (extract_tx_unchecked_fee_rate L (pl_psbt payload)))) (\<lambda>ok.
       ensure ok (payload_failure OriginalPsbtNotBroadcastable))))"

type_synonym ('s, 'a) callback = "'s \<Rightarrow> 'a \<Rightarrow> (bool, implementation_error) res \<times> 's"

fun inputs_not_owned_loop ::
  "('s, outpoint) callback \<Rightarrow> 's \<Rightarrow> internal_input_pair list \<Rightarrow> (unit, receive_error) res \<times> 's" where
  "inputs_not_owned_loop is_owned s [] = (Ok (), s)"
| "inputs_not_owned_loop is_owned s (p # ps) =
     (let out = previous_output (ip_txin p); (r, s') = is_owned s out in
      case r of
        Ok True \<Rightarrow> (Err (payload_failure (InputOwned out)), s')
      | Ok False \<Rightarrow> inputs_not_owned_loop is_owned s' ps
      | Err e \<Rightarrow> (Err (Implementation e), s')
      | Panic \<Rightarrow> (Panic, s'))"

definition check_inputs_not_owned ::
  "original_payload \<Rightarrow> ('s, outpoint) callback \<Rightarrow> 's \<Rightarrow> (unit, receive_error) res \<times> 's" where
  "check_inputs_not_owned payload is_owned s =
     inputs_not_owned_loop is_owned s (input_pairs (pl_psbt payload))"

fun inputs_seen_loop ::
  "('s, outpoint) callback \<Rightarrow> 's \<Rightarrow> internal_input_pair list \<Rightarrow> (unit, receive_error) res \<times> 's" where
  "inputs_seen_loop is_known s [] = (Ok (), s)"
| "inputs_seen_loop is_known s (p # ps) =
     (let out = previous_output (ip_txin p); (r, s') = is_known s out in
      case r of
        Ok False \<Rightarrow> inputs_seen_loop is_known s' ps
      | Ok True \<Rightarrow> (Err (payload_failure (InputSeen out)), s')
      | Err e \<Rightarrow> (Err (Implementation e), s')
      | Panic \<Rightarrow> (Panic, s'))"

definition check_no_inputs_seen_before ::
  "original_payload \<Rightarrow> ('s, outpoint) callback \<Rightarrow> 's \<Rightarrow> (unit, receive_error) res \<times> 's" where
  "check_no_inputs_seen_before payload is_known s =
     inputs_seen_loop is_known s (input_pairs (pl_psbt payload))"

text \<open>The positions of the outputs that the callback claims; the first error stops the collection.\<close>

fun owned_vouts_loop ::
  "('s, script) callback \<Rightarrow> 's \<Rightarrow> nat \<Rightarrow> txout list \<Rightarrow> (nat list, implementation_error) res \<times> 's" where
  "owned_vouts_loop is_receiver_output s i [] = (Ok [], s)"
| "owned_vouts_loop is_receiver_output s i (t # ts) =
     (let (r, s') = is_receiver_output s (script_pubkey t) in
      case r of
        Ok b \<Rightarrow> (let (rest, s'') = owned_vouts_loop is_receiver_output s' (Suc i) ts in
                 (rmap (\<lambda>is. if b then i # is else is) rest, s''))
      | Err e \<Rightarrow> (Err e, s')
      | Panic \<Rightarrow> (Panic, s'))"

definition identify_receiver_outputs ::
  "original_payload \<Rightarrow> ('s, script) callback \<Rightarrow> 's \<Rightarrow> (wants_outputs, receive_error) res \<times> 's" where
  "identify_receiver_outputs payload is_receiver_output s =
     (let (r, s') = owned_vouts_loop is_receiver_output s 0 (tx_output (unsigned_tx (pl_psbt payload))) in
      (rbind (map_err Implementation r) (\<lambda>owned_vouts.
         if owned_vouts = [] then Err (payload_failure MissingPayment)
         else wants_outputs_new payload owned_vouts), s'))"

section \<open>Finalisation\<close>

definition psbt_input_is_signed :: "psbt_input \<Rightarrow> bool" where
  "psbt_input_is_signed i \<longleftrightarrow>
     final_script_sig i \<noteq> None \<or> final_script_witness i \<noteq> None \<or> partial_sigs i \<noteq> [] \<or>
     tap_key_sig i \<noteq> None \<or> tap_script_sigs i \<noteq> []"

definition filtered_input :: "psbt_input \<Rightarrow> psbt_input" where
  "filtered_input i = default_psbt_input\<lparr>
     witness_utxo := witness_utxo i, non_witness_utxo := non_witness_utxo i,
     final_script_sig := final_script_sig i, final_script_witness := final_script_witness i\<rparr>"

definition prepare_psbt :: "psbt \<Rightarrow> psbt" where
  "prepare_psbt processed = \<lparr>unsigned_tx = unsigned_tx processed, psbt_version = psbt_version processed,
     xpub = [], proprietary = [], unknown = [], inputs = map filtered_input (inputs processed),
     outputs = map (\<lambda>_. default_psbt_output) (outputs processed)\<rparr>"

fun sender_indexes_loop ::
  "internal_input_pair list \<Rightarrow> nat \<Rightarrow> internal_input_pair list \<Rightarrow> nat list" where
  "sender_indexes_loop originals i [] = []"
| "sender_indexes_loop originals i (p # ps) =
     (case originals of
        original # rest \<Rightarrow>
          if previous_output (ip_txin p) = previous_output (ip_txin original)
          then i # sender_indexes_loop rest (Suc i) ps
          else sender_indexes_loop originals (Suc i) ps
      | [] \<Rightarrow> sender_indexes_loop [] (Suc i) ps)"

definition sender_input_indexes :: "psbt_context \<Rightarrow> nat list" where
  "sender_input_indexes c =
     sender_indexes_loop (input_pairs (pc_original_psbt c)) 0 (input_pairs (pc_payjoin_psbt c))"

definition clear_signatures :: "psbt_input \<Rightarrow> psbt_input" where
  "clear_signatures i = i\<lparr>final_script_sig := None, final_script_witness := None, partial_sigs := [],
     tap_key_sig := None, tap_script_sigs := []\<rparr>"

fun clear_indexes_loop :: "nat list \<Rightarrow> psbt_input list \<Rightarrow> (psbt_input list, 'e) res" where
  "clear_indexes_loop [] is = Ok is"
| "clear_indexes_loop (k # ks) is =
     rbind (index is k) (\<lambda>i. clear_indexes_loop ks (is[k := clear_signatures i]))"

definition psbt_to_sign :: "psbt_context \<Rightarrow> (psbt, 'e) res" where
  "psbt_to_sign c =
     rmap (\<lambda>is. (pc_payjoin_psbt c)\<lparr>inputs := is\<rparr>)
       (clear_indexes_loop (sender_input_indexes c) (inputs (pc_payjoin_psbt c)))"

fun check_unsigned_loop :: "psbt \<Rightarrow> nat list \<Rightarrow> (unit, implementation_error) res" where
  "check_unsigned_loop signed_psbt [] = Ok ()"
| "check_unsigned_loop signed_psbt (k # ks) =
     (case slice_get (inputs signed_psbt) k of
        Some i \<Rightarrow>
          if psbt_input_is_signed i
          then Err (''unexpected signature on input '' @ show_dec k @ '' from the original PSBT'')
          else check_unsigned_loop signed_psbt ks
      | None \<Rightarrow> check_unsigned_loop signed_psbt ks)"

definition finalize_proposal ::
  "btc \<Rightarrow> text_api \<Rightarrow> psbt_context \<Rightarrow> (psbt \<Rightarrow> (psbt, implementation_error) res) \<Rightarrow>
     (psbt, implementation_error) res" where
  "finalize_proposal L T c wallet_process_psbt =
     rbind (psbt_to_sign c) (\<lambda>p.
     rbind (wallet_process_psbt p) (\<lambda>signed_psbt.
     let expected = compute_ntxid L (unsigned_tx (pc_payjoin_psbt c));
         actual = compute_ntxid L (unsigned_tx signed_psbt)
     in if expected \<noteq> actual
        then Err (''ntxid mismatch: expected '' @ show_txid T expected @ '', got '' @ show_txid T actual)
        else rbind (check_unsigned_loop signed_psbt (sender_input_indexes c)) (\<lambda>_.
               Ok (prepare_psbt signed_psbt))))"

end
