(* ===== verification/PJ_Receive_Outputs.thy ===== *)
theory PJ_Receive_Outputs
  imports PJ_Receive_Common PJ_Samples
begin

text \<open>
  What output substitution keeps: the sender's outputs stay, in order and with their values,
  whatever the random choices are, and the rest are exactly the replacements.
\<close>

section \<open>Interleaving\<close>

lemma mset_interleave: "mset (interleave R g xs ys) = mset xs + mset ys"
  by (induction R g xs ys rule: interleave.induct) (auto split: prod.split)

lemma subseq_interleave: "subseq xs (interleave R g xs ys)"
proof (induction R g xs ys rule: interleave.induct)
  case (4 R g x xs y ys)
  obtain b g' where "gen_bool R g = (b, g')" by force
  with 4 show ?case by (cases b) (simp_all add: list_emb_Cons del: subseq_Cons2_iff)
qed auto

lemma mset_permute:
  assumes "mset p = mset [0..<length xs]"
  shows "mset (permute p xs) = mset xs"
proof -
  have "mset (permute p xs) = image_mset (\<lambda>i. xs ! i) (mset p)" by (simp add: permute_def)
  also have "\<dots> = mset (map (\<lambda>i. xs ! i) [0..<length xs])" by (simp add: assms)
  also have "\<dots> = mset xs" by (simp add: map_nth)
  finally show ?thesis .
qed

lemma interleave_shuffle_ok:
  assumes "rng_ok R"
  shows "mset (interleave_shuffle R g xs ys) = mset xs + mset ys \<and> subseq xs (interleave_shuffle R g xs ys)"
proof -
  have "mset (permute (fst (shuffle R (length ys) g)) ys) = mset ys"
    using assms by (intro mset_permute) (simp add: rng_ok_def)
  then show ?thesis
    by (simp add: interleave_shuffle_def case_prod_unfold Let_def mset_interleave subseq_interleave)
qed

section \<open>The substitution loop\<close>

text \<open>The outputs whose positions are not in a list of owned positions: those of the sender.\<close>

fun not_owned :: "nat list \<Rightarrow> nat \<Rightarrow> 'a list \<Rightarrow> 'a list" where
  "not_owned owned i [] = []"
| "not_owned owned i (x # xs) =
     (if i \<in> set owned then not_owned owned (Suc i) xs else x # not_owned owned (Suc i) xs)"

definition sender_outputs :: "wants_outputs \<Rightarrow> txout list" where
  "sender_outputs s = not_owned (wo_owned_vouts s) 0 (tx_output (unsigned_tx (oc_original_psbt (wo_original s))))"

text \<open>An output in the place of an original one when substitution is disabled.\<close>

definition kept_or_raised :: "txout \<Rightarrow> txout \<Rightarrow> bool" where
  "kept_or_raised original t \<longleftrightarrow>
     script_pubkey t = script_pubkey original \<and> txo_value original \<le> txo_value t"

lemma kept_or_raised_refl [simp]: "kept_or_raised t t"
  by (simp add: kept_or_raised_def)

lemma take_replacement_Ok:
  assumes "take_replacement R os original repl g = Ok (t, repl', g')"
  shows "mset repl = add_mset t (mset repl') \<and> (os = Disabled \<longrightarrow> kept_or_raised original t)"
proof (cases "position (\<lambda>t. script_pubkey t = script_pubkey original) repl")
  case None
  with assms obtain j where "os \<noteq> Disabled"
    and "swap_remove j repl = (Ok (t, repl') :: (_, output_substitution_error) res)"
    by (auto simp: take_replacement_def rmap_eq_Ok split: if_split_asm)
  then show ?thesis using swap_remove_Ok by metis
next
  case (Some pos)
  with assms have t: "swap_remove pos repl = (Ok (t, repl') :: (_, output_substitution_error) res)"
    "\<not> (os = Disabled \<and> txo_value t < txo_value original)"
    by (auto simp: take_replacement_def rbind_eq_Ok split: if_split_asm)
  have "script_pubkey t = script_pubkey original"
    using position_holds [OF Some] swap_remove_Ok [OF t(1)] by simp
  with t(2) swap_remove_Ok [OF t(1)] show ?thesis by (auto simp: kept_or_raised_def)
qed

lemma replace_step:
  assumes "replace_outputs_loop R os owned i (original # rest) repl g = Ok (outs, left, g')"
  obtains
    (owned) t repl' g1 outs' where "i \<in> set owned" "outs = t # outs'"
      "take_replacement R os original repl g = Ok (t, repl', g1)"
      "replace_outputs_loop R os owned (Suc i) rest repl' g1 = Ok (outs', left, g')"
  | (sender) outs' where "i \<notin> set owned" "outs = original # outs'"
      "replace_outputs_loop R os owned (Suc i) rest repl g = Ok (outs', left, g')"
  using assms by (auto simp: rbind_eq_Ok rmap_eq_Ok split: if_split_asm)

lemma replace_outputs_loop_ok:
  "replace_outputs_loop R os owned i originals repl g = Ok (outs, left, g') \<Longrightarrow>
     length outs = length originals \<and>
     not_owned owned i outs = not_owned owned i originals \<and>
     mset outs + mset left = mset (not_owned owned i originals) + mset repl \<and>
     (os = Disabled \<longrightarrow> list_all2 kept_or_raised originals outs)"
proof (induction originals arbitrary: i repl g outs)
  case (Cons original rest)
  from Cons.prems show ?case
  proof (cases rule: replace_step)
    case (owned t repl' g1 outs')
    with Cons.IH [OF owned(4)] take_replacement_Ok [OF owned(3)] show ?thesis by auto
  next
    case (sender outs')
    with Cons.IH [OF sender(3)] show ?thesis by auto
  qed
qed simp

lemma subseq_not_owned: "subseq (not_owned owned i xs) xs"
  by (induction owned i xs rule: not_owned.induct) auto

lemma list_all2_emb: "list_all2 P xs ys \<Longrightarrow> list_emb P xs ys"
  by (induction rule: list_all2_induct) auto

lemma kept_or_raised_trans: "kept_or_raised a b \<Longrightarrow> kept_or_raised b c \<Longrightarrow> kept_or_raised a c"
  by (simp add: kept_or_raised_def)

lemma kept_subseq:
  assumes "list_emb kept_or_raised xs ys" and "subseq ys zs"
  shows "list_emb kept_or_raised xs zs"
proof -
  have "list_emb kept_or_raised ys zs" using assms(2) list_emb_mono [of "(=)" kept_or_raised ys zs] by auto
  with assms(1) show ?thesis using list_emb_trans kept_or_raised_trans by metis
qed

section \<open>Output substitution\<close>

lemma replace_Ok:
  assumes "replace_receiver_outputs_with_rng R g s repl drain = Ok s'" and "rng_ok R"
  obtains outs left where
    "tx_output (unsigned_tx (wo_payjoin_psbt s')) = outs" "wo_original s' = wo_original s"
    "wo_owned_vouts s' = wo_owned_vouts s"
    "mset outs = mset (sender_outputs s) + mset repl"
    "subseq (sender_outputs s) outs"
    "length (outputs (wo_payjoin_psbt s')) = length outs"
    "tx_input (unsigned_tx (wo_payjoin_psbt s')) = tx_input (unsigned_tx (oc_original_psbt (wo_original s)))"
    "inputs (wo_payjoin_psbt s') = inputs (oc_original_psbt (wo_original s))"
    "position (\<lambda>t. script_pubkey t = drain) outs = Some (wo_change_vout s')"
    "wo_output_substitution s = Disabled \<Longrightarrow>
       list_emb kept_or_raised (tx_output (unsigned_tx (oc_original_psbt (wo_original s)))) outs"
proof -
  let ?orig = "oc_original_psbt (wo_original s)"
  let ?o = "tx_output (unsigned_tx ?orig)"
  from assms(1) obtain os left g' cv where
    loop: "replace_outputs_loop R (wo_output_substitution s) (wo_owned_vouts s) 0 ?o repl g = Ok (os, left, g')"
    and cv: "position (\<lambda>t. script_pubkey t = drain) (interleave_shuffle R g' os left) = Some cv"
    and s': "s' = \<lparr>wo_original = wo_original s,
              wo_payjoin_psbt = ?orig\<lparr>outputs := map (\<lambda>_. default_psbt_output) (interleave_shuffle R g' os left),
                unsigned_tx := (unsigned_tx ?orig)\<lparr>tx_output := interleave_shuffle R g' os left\<rparr>\<rparr>,
              wo_change_vout = cv, wo_owned_vouts = wo_owned_vouts s\<rparr>"
    by (auto simp: replace_receiver_outputs_with_rng_def Let_def res_Ok_simps)
  let ?outs = "interleave_shuffle R g' os left"
  note loop_ok = replace_outputs_loop_ok [OF loop] and mix = interleave_shuffle_ok [OF assms(2), of g' os left]
  have "mset ?outs = mset (sender_outputs s) + mset repl"
    using loop_ok mix by (simp add: sender_outputs_def)
  moreover have "subseq (sender_outputs s) ?outs"
    using loop_ok mix subseq_not_owned [of "wo_owned_vouts s" 0 os] subseq_order.trans
    unfolding sender_outputs_def by metis
  moreover have "list_emb kept_or_raised ?o ?outs" if "wo_output_substitution s = Disabled"
    using loop_ok mix that by (auto intro: kept_subseq list_all2_emb)
  ultimately show ?thesis using cv by (intro that [of ?outs]) (simp_all add: s')
qed


text \<open>C26: Substituting outputs never touches the sender's: for every random choice, the new outputs
  are exactly the sender's outputs, in their order and with their values, and the receiver's
  replacements. The inputs stay, the PSBT has one output map per output, and the output chosen
  for change and fees exists and pays to the drain script.\<close>

theorem output_substitution_keeps_sender_outputs:
  assumes "rng_ok R" and "replace_receiver_outputs R g s repl drain = Ok s'"
  shows "mset (tx_output (unsigned_tx (wo_payjoin_psbt s'))) = mset (sender_outputs s) + mset repl \<and>
    subseq (sender_outputs s) (tx_output (unsigned_tx (wo_payjoin_psbt s'))) \<and>
    length (outputs (wo_payjoin_psbt s')) = length (tx_output (unsigned_tx (wo_payjoin_psbt s'))) \<and>
    inputs (wo_payjoin_psbt s') = inputs (oc_original_psbt (wo_original s)) \<and>
    tx_input (unsigned_tx (wo_payjoin_psbt s')) = tx_input (unsigned_tx (oc_original_psbt (wo_original s))) \<and>
    wo_change_vout s' < length (tx_output (unsigned_tx (wo_payjoin_psbt s'))) \<and>
    script_pubkey (tx_output (unsigned_tx (wo_payjoin_psbt s')) ! wo_change_vout s') = drain \<and>
    sender_outputs s' = sender_outputs s"
  using assms(2) unfolding replace_receiver_outputs_def
proof (rule replace_Ok [OF _ assms(1)])
qed (auto simp: sender_outputs_def dest: position_SomeD)

text \<open>When the sender disabled output substitution, every original output, the receiver's
  included, is still paid, in order, to the same script and with at least the same value.\<close>

theorem disabled_substitution_only_raises:
  assumes "rng_ok R" and "replace_receiver_outputs R g s repl drain = Ok s'"
    and "wo_output_substitution s = Disabled"
  shows "list_emb kept_or_raised (tx_output (unsigned_tx (oc_original_psbt (wo_original s))))
    (tx_output (unsigned_tx (wo_payjoin_psbt s')))"
  using assms(2) unfolding replace_receiver_outputs_def
proof (rule replace_Ok [OF _ assms(1)])
qed (use assms(3) in auto)

section \<open>Witnesses\<close>

definition sample_rng :: "nat rng" where
  "sample_rng = \<lparr>gen_range = (\<lambda>n g. (if n = 0 then 0 else g mod n, g + 1)),
     gen_bool = (\<lambda>g. (g mod 3 \<noteq> 0, g + 1)), shuffle = (\<lambda>n g. ([0..<n], g))\<rparr>"

lemma sample_rng_ok: "rng_ok sample_rng"
  by (simp add: rng_ok_def sample_rng_def)

definition sample_params :: "output_substitution \<Rightarrow> params" where
  "sample_params os = \<lparr>par_v = One, par_output_substitution = os,
     par_additional_fee_contribution = Some (182, 1), par_min_fee_rate = 1\<rparr>"

text \<open>The original pays the receiver at index 0; the change at index 1 is the sender's.\<close>

definition sample_wants_outputs :: "output_substitution \<Rightarrow> wants_outputs" where
  "sample_wants_outputs os = \<lparr>wo_original = \<lparr>oc_original_psbt = sample_original, oc_params = sample_params os\<rparr>,
     wo_payjoin_psbt = sample_original, wo_change_vout = 0, wo_owned_vouts = [0]\<rparr>"

lemma output_substitution_keeps_sender_outputs_witness:
  "\<exists>s'. replace_receiver_outputs sample_rng 0 (sample_wants_outputs Enabled)
       [sample_txout 20 receiver_spk, sample_txout 30 [9]] receiver_spk = Ok s' \<and>
     sender_outputs (sample_wants_outputs Enabled) = [sample_txout 45 change_spk] \<and>
     subseq [sample_txout 45 change_spk] (tx_output (unsigned_tx (wo_payjoin_psbt s')))"
proof -
  let ?r = "replace_receiver_outputs sample_rng 0 (sample_wants_outputs Enabled)
       [sample_txout 20 receiver_spk, sample_txout 30 [9]] receiver_spk"
  have "is_ok ?r" by code_simp
  then obtain s' where s': "?r = Ok s'" by (auto simp: is_ok_iff)
  have "sender_outputs (sample_wants_outputs Enabled) = [sample_txout 45 change_spk]" by code_simp
  with output_substitution_keeps_sender_outputs [OF sample_rng_ok s'] s' show ?thesis by simp
qed

lemma disabled_substitution_only_raises_witness:
  "\<exists>s'. replace_receiver_outputs sample_rng 0 (sample_wants_outputs Disabled)
       [sample_txout 60 payee_spk, sample_txout 30 [9]] [9] = Ok s' \<and>
     list_emb kept_or_raised [sample_txout 50 payee_spk, sample_txout 45 change_spk]
       (tx_output (unsigned_tx (wo_payjoin_psbt s')))"
proof -
  let ?r = "replace_receiver_outputs sample_rng 0 (sample_wants_outputs Disabled)
       [sample_txout 60 payee_spk, sample_txout 30 [9]] [9]"
  have "is_ok ?r" by code_simp
  then obtain s' where s': "?r = Ok s'" by (auto simp: is_ok_iff)
  have "wo_output_substitution (sample_wants_outputs Disabled) = Disabled" by code_simp
  from disabled_substitution_only_raises [OF sample_rng_ok s' this] s' show ?thesis
    by (simp add: sample_wants_outputs_def sample_original_def sample_psbt_def)
qed

text \<open>
  \<open>substitute_receiver_script\<close> reads the value of the original output at the change index, which
  after an earlier substitution is an index into the new outputs: with more outputs than the
  original has it panics.
\<close>

lemma substitute_after_replace_panics:
  "length (tx_output (unsigned_tx (oc_original_psbt (wo_original s)))) \<le> wo_change_vout s \<Longrightarrow>
     substitute_receiver_script R g s spk = Panic"
  by (simp add: substitute_receiver_script_def index_def)

lemma substitute_after_replace_example:
  "rbind (replace_receiver_outputs sample_rng 0 (sample_wants_outputs Enabled)
       [sample_txout 20 receiver_spk, sample_txout 30 [9]] [9])
     (\<lambda>s. substitute_receiver_script sample_rng 0 s [8]) = Panic"
  by code_simp

end
