(* ===== verification/PJ_Receive_Contribute.thy ===== *)
theory PJ_Receive_Contribute
  imports PJ_Receive_Outputs
begin

text \<open>
  What contributing inputs does: the inputs that are there stay in order, the new ones appear
  once each, and the value they add beyond what the outputs already need goes to the receiver's
  change output. Also the choice of an input that preserves privacy.
\<close>

section \<open>Inserting inputs\<close>

definition pair_value :: "input_pair \<Rightarrow> amount" where
  "pair_value p = (case pair_txout p of Ok t \<Rightarrow> txo_value t | Err (_ :: unit) \<Rightarrow> 0 | Panic \<Rightarrow> 0)"

lemma pair_txout_value: "pair_txout p = Ok t \<Longrightarrow> txo_value t = pair_value p"
  by (simp add: pair_value_def pair_txout_def)

definition contributed :: "nat \<Rightarrow> input_pair \<Rightarrow> txin \<times> psbt_input" where
  "contributed seq p = ((pr_txin p)\<lparr>sequence := seq\<rparr>, pr_psbtin p)"

lemma check_duplicates_Ok:
  "check_duplicates seen ps = Ok u \<longleftrightarrow> distinct (map pair_outpoint ps) \<and> pair_outpoint ` set ps \<inter> seen = {}"
  by (induction ps arbitrary: seen) auto

lemma check_duplicates_Err:
  "check_duplicates seen ps = Err e \<Longrightarrow> \<exists>p\<in>set ps. e = DuplicateInput (pair_outpoint p)"
  by (induction ps arbitrary: seen) (auto split: if_splits)

lemma zip_insert:
  assumes "length xs = length ys" "i \<le> length xs"
  shows "zip (take i xs @ x # drop i xs) (take i ys @ y # drop i ys) =
    take i (zip xs ys) @ (x, y) # drop i (zip xs ys)"
  using assms by (simp add: take_zip drop_zip)

lemma insert_inputs_loop_ok:
  assumes "insert_inputs_loop L R seq n ts is acc g ps = Ok (ts', is', acc')"
    and "amounts_ok L" and "length ts = length is"
  shows "length ts' = length is' \<and>
    mset (zip ts' is') = mset (zip ts is) + mset (map (contributed seq) ps) \<and>
    subseq (zip ts is) (zip ts' is') \<and>
    acc' = acc + sum_list (map pair_value ps)"
  using assms(1,3)
proof (induction ps arbitrary: ts "is" acc g)
  case (Cons p ps)
  from Cons.prems(1) obtain t acc1 is1 ts1 where
    t: "pair_txout p = (Ok t :: (txout, input_contribution_error) res)"
    and acc1: "amount_add L acc (txo_value t) = Some acc1"
    and is1: "vec_insert (fst (gen_range R (n + 1) g)) (pr_psbtin p) is =
        (Ok is1 :: (_, input_contribution_error) res)"
    and ts1: "vec_insert (fst (gen_range R (n + 1) g)) ((pr_txin p)\<lparr>sequence := seq\<rparr>) ts =
        (Ok ts1 :: (_, input_contribution_error) res)"
    and rest: "insert_inputs_loop L R seq n ts1 is1 acc1 (snd (gen_range R (n + 1) g)) ps = Ok (ts', is', acc')"
    by (auto simp: rbind_eq_Ok case_prod_unfold Let_def)
  let ?i = "fst (gen_range R (n + 1) g)"
  have i: "?i \<le> length ts" and eqs: "is1 = take ?i is @ pr_psbtin p # drop ?i is"
      "ts1 = take ?i ts @ (pr_txin p)\<lparr>sequence := seq\<rparr> # drop ?i ts"
    using is1 ts1 by (auto simp: vec_insert_eq_Ok)
  have len: "length ts1 = length is1" using eqs Cons.prems(2) i by simp
  have zip: "zip ts1 is1 = take ?i (zip ts is) @ contributed seq p # drop ?i (zip ts is)"
    using zip_insert [OF Cons.prems(2) i] by (simp add: eqs contributed_def)
  have acc: "acc1 = acc + pair_value p"
    using amount_add_exact [OF assms(2) acc1] pair_txout_value t by (simp add: pair_value_def pair_txout_def)
  note IH = Cons.IH [OF rest len]
  have "mset (zip ts1 is1) = add_mset (contributed seq p) (mset (zip ts is))"
    unfolding zip by (rule mset_take_drop_insert)
  moreover have "subseq (zip ts is) (zip ts1 is1)" unfolding zip by (rule subseq_take_drop_insert)
  ultimately show ?case using IH acc subseq_order.trans by auto
qed simp

lemma zip_outpoints: "length ts = length is \<Longrightarrow>
    map (\<lambda>q. previous_output (fst q)) (zip ts is) = map previous_output ts"
  by (induction ts "is" rule: list_induct2) simp_all

section \<open>Contributing\<close>

abbreviation current_psbt :: "wants_inputs \<Rightarrow> psbt" where
  "current_psbt s \<equiv> wp_payjoin_psbt (wi_proposal s)"

abbreviation current_tx :: "wants_inputs \<Rightarrow> transaction" where
  "current_tx s \<equiv> unsigned_tx (current_psbt s)"

abbreviation original_tx :: "wants_inputs \<Rightarrow> transaction" where
  "original_tx s \<equiv> unsigned_tx (oc_original_psbt (wi_original s))"

definition min_contribution :: "wants_inputs \<Rightarrow> amount" where
  "min_contribution s = out_total (current_tx s)
     - out_total (original_tx s)"

lemma receiver_min_input_amount_exact:
  assumes "amounts_ok L" and "receiver_min_input_amount L s = (Ok m :: (amount, 'e) res)"
  shows "m = min_contribution s"
proof -
  from assms(2) obtain a b where
    a: "amount_sum L (map txo_value (tx_output (current_tx s))) = (Ok a :: (amount, 'e) res)"
    and b: "amount_sum L (map txo_value (tx_output (original_tx s))) = (Ok b :: (amount, 'e) res)"
    and m: "m = (case amount_checked_sub L a b of Some d \<Rightarrow> d | None \<Rightarrow> 0)"
    by (auto simp: receiver_min_input_amount_def rbind_eq_Ok)
  from amount_sum_exact [OF assms(1) a] amount_sum_exact [OF assms(1) b] show ?thesis
    by (simp add: m amount_checked_sub_exact [OF assms(1)] min_contribution_def out_total_def out_values_def)
qed

lemma contribute_Ok:
  assumes ok: "contribute_inputs L R g s ps = Ok s'" and L: "amounts_ok L"
    and wf: "well_formed (current_psbt s)"
  obtains seq where
    "mset (zip (tx_input (current_tx s')) (inputs (current_psbt s'))) =
       mset (zip (tx_input (current_tx s)) (inputs (current_psbt s)))
       + mset (map (contributed seq) ps)"
    "subseq (zip (tx_input (current_tx s)) (inputs (current_psbt s)))
       (zip (tx_input (current_tx s')) (inputs (current_psbt s')))"
    "length (tx_input (current_tx s')) = length (inputs (current_psbt s'))"
    "distinct (map pair_outpoint ps)"
    "pair_outpoint ` set ps \<inter> set (outpoints (current_tx s)) = {}"
    "min_contribution s \<le> sum_list (map pair_value ps)"
    "wp_change_vout (wi_proposal s) < length (tx_output (current_tx s))"
    "tx_output (current_tx s') =
       (let outs = tx_output (current_tx s); i = wp_change_vout (wi_proposal s) in
        outs[i := (outs ! i)\<lparr>txo_value := txo_value (outs ! i) + (sum_list (map pair_value ps) - min_contribution s)\<rparr>])"
    "outputs (current_psbt s') = outputs (current_psbt s)"
    "wp_receiver_inputs (wi_proposal s') = wp_receiver_inputs (wi_proposal s) @ ps"
    "wi_original s' = wi_original s" "wp_change_vout (wi_proposal s') = wp_change_vout (wi_proposal s)"
    "\<And>t ts. tx_input (original_tx s) = t # ts \<Longrightarrow> seq = sequence t"
proof -
  let ?p = "current_psbt s"
  let ?tx = "unsigned_tx ?p" and ?cv = "wp_change_vout (wi_proposal s)"
  define seq where "seq = (case tx_input (original_tx s) of
      t # _ \<Rightarrow> sequence t | [] \<Rightarrow> sequence default_txin)"
  from ok obtain ts "is" total_in m d change v where
    dup: "check_duplicates (set (outpoints ?tx)) ps = Ok ()"
    and loop: "insert_inputs_loop L R seq (length (tx_input ?tx)) (tx_input ?tx) (inputs ?p) 0 g ps = Ok (ts, is, total_in)"
    and m: "receiver_min_input_amount L s = (Ok m :: (amount, input_contribution_error) res)" and le: "m \<le> total_in"
    and d: "amount_sub L total_in m = Some d"
    and change: "index (tx_output ?tx) ?cv = (Ok change :: (_, input_contribution_error) res)"
    and v: "amount_add L (txo_value change) d = Some v"
    and s': "s' = s\<lparr>wi_proposal := \<lparr>wp_payjoin_psbt = ?p\<lparr>inputs := is,
        unsigned_tx := ?tx\<lparr>tx_input := ts, tx_output := (tx_output ?tx)[?cv := change\<lparr>txo_value := v\<rparr>]\<rparr>\<rparr>,
        wp_change_vout = ?cv, wp_receiver_inputs = wp_receiver_inputs (wi_proposal s) @ ps\<rparr>\<rparr>"
    unfolding contribute_inputs_def Let_def seq_def [symmetric]
    by (auto simp: rbind_eq_Ok split: if_split_asm)
  have len: "length (tx_input ?tx) = length (inputs ?p)" using wf by (simp add: well_formed_def)
  note ins = insert_inputs_loop_ok [OF loop L len]
  have "m = min_contribution s" using m by (rule receiver_min_input_amount_exact [OF L])
  moreover have "d = total_in - m" using d amount_sub_exact [OF L] by simp
  moreover have "v = txo_value change + d" using amount_add_exact [OF L v] .
  moreover have "?cv < length (tx_output ?tx)" "change = tx_output ?tx ! ?cv"
    using change by (auto simp: index_eq_Ok)
  ultimately show ?thesis
    using ins dup le
    by (intro that [of seq]) (auto simp: s' check_duplicates_Ok Let_def seq_def)
qed

lemma sum_list_update_nat:
  "i < length (xs :: nat list) \<Longrightarrow> sum_list (xs[i := v]) + xs ! i = sum_list xs + v"
  by (induction xs arbitrary: i) (auto split: nat.split)

lemma out_total_update:
  "i < length outs \<Longrightarrow> sum_list (map txo_value (outs[i := t])) + txo_value (outs ! i) =
     sum_list (map txo_value outs) + txo_value t"
  using sum_list_update_nat [of i "map txo_value outs" "txo_value t"] by (simp add: map_update)

lemma out_total_raise:
  "i < length outs \<Longrightarrow> sum_list (map txo_value (outs[i := (outs ! i)\<lparr>txo_value := txo_value (outs ! i) + d\<rparr>])) =
     sum_list (map txo_value outs) + d"
  using out_total_update [of i outs "(outs ! i)\<lparr>txo_value := txo_value (outs ! i) + d\<rparr>"] by simp

lemma contribute_total:
  assumes "contribute_inputs L R g s ps = Ok s'" and "amounts_ok L"
    and "well_formed (current_psbt s)"
  shows "out_total (current_tx s') + min_contribution s =
    out_total (current_tx s) + sum_list (map pair_value ps)"
  using assms
proof (rule contribute_Ok)
  fix seq
  let ?outs = "tx_output (current_tx s)"
  define d where "d = sum_list (map pair_value ps) - min_contribution s"
  assume "min_contribution s \<le> sum_list (map pair_value ps)" "wp_change_vout (wi_proposal s) < length ?outs"
    "tx_output (current_tx s') =
       (let outs = ?outs; i = wp_change_vout (wi_proposal s) in
        outs[i := (outs ! i)\<lparr>txo_value := txo_value (outs ! i) + (sum_list (map pair_value ps) - min_contribution s)\<rparr>])"
  then show ?thesis
    using out_total_raise [of "wp_change_vout (wi_proposal s)" ?outs d]
    unfolding d_def [symmetric] by (simp add: out_total_def out_values_def d_def Let_def)
qed


text \<open>
  A second contribution loses the first. After one, the outputs are already worth more than the
  original's by that contribution, so the second must bring at least as much again and only what
  exceeds it reaches the outputs: the value of the first goes to miner fees.
\<close>

lemma second_contribution_burns_first:
  assumes "contribute_inputs L R g s ps = Ok s1" and "contribute_inputs L R g' s1 qs = Ok s2"
    and "amounts_ok L" and "well_formed (current_psbt s)" and "distinct (outpoints (current_tx s))"
    and "out_total (original_tx s) \<le> out_total (current_tx s)"
  shows "sum_list (map pair_value ps) \<le> sum_list (map pair_value qs) \<and>
    out_total (current_tx s2) = out_total (original_tx s) + sum_list (map pair_value qs)"
proof -
  note t1 = contribute_total [OF assms(1,3,4)]
  have s1: "original_tx s1 = original_tx s \<and> well_formed (current_psbt s1)"
    using assms(1,3,4) by (rule contribute_Ok) (use assms(4) in \<open>simp add: well_formed_def Let_def\<close>)
  note t2 = contribute_total [OF assms(2,3) conjunct2 [OF s1]]
  have "min_contribution s1 \<le> sum_list (map pair_value qs)"
    using assms(2,3) conjunct2 [OF s1] by (rule contribute_Ok) auto
  with t1 t2 assms(6) show ?thesis
    unfolding min_contribution_def conjunct1 [OF s1] by (intro conjI) linarith+
qed


section \<open>Choosing an input\<close>

text \<open>The smallest output and input of the proposal as it is before the contribution.\<close>

definition smallest_output :: "btc \<Rightarrow> wants_inputs \<Rightarrow> amount" where
  "smallest_output L s = min_or (max_money L) (map txo_value (tx_output (current_tx s)))"

definition smallest_input :: "btc \<Rightarrow> wants_inputs \<Rightarrow> amount" where
  "smallest_input L s = min_or (max_money L)
     (List.map_filter (\<lambda>i. map_option txo_value (ok (previous_txout i))) (input_pairs (current_psbt s)))"

definition passes_uih2 :: "btc \<Rightarrow> wants_inputs \<Rightarrow> input_pair \<Rightarrow> bool" where
  "passes_uih2 L s p \<longleftrightarrow> smallest_output L s < smallest_input L s \<and> smallest_output L s < pair_value p"

lemma fold_min_le: "fold min (vs :: nat list) v \<le> v \<and> (\<forall>x\<in>set vs. fold min vs v \<le> x)"
proof (induction vs arbitrary: v)
  case (Cons w vs)
  from Cons.IH [of "min w v"] show ?case by auto
qed simp

lemma min_or_le: "v \<in> set vs \<Longrightarrow> min_or d vs \<le> v"
  using fold_min_le by (cases vs) auto

text \<open>
  The prior payment is one of the outputs, so the minimum with the payment after the
  contribution is the minimum before it.
\<close>

lemma avoid_uih_loop_first:
  assumes "avoid_uih_loop L mo mi prior ps = r" and "amounts_ok L" and "mo \<le> prior" and "r \<noteq> Panic"
  shows "(\<exists>i<length ps. r = Ok (ps ! i) \<and> mo < min mi (pair_value (ps ! i)) \<and>
            (\<forall>j<i. \<not> mo < min mi (pair_value (ps ! j)))) \<or>
         r = Err NotFound \<and> (\<forall>p\<in>set ps. \<not> mo < min mi (pair_value p))"
  using assms(1,4)
proof (induction ps)
  case (Cons p ps)
  from Cons.prems obtain t paid where t: "pair_txout p = (Ok t :: (txout, coin_selection_error) res)"
    and paid: "amount_add L prior (txo_value t) = Some paid"
    by (cases "pair_txout p :: (txout, coin_selection_error) res"; cases "amount_add L prior (txo_value (res_val (pair_txout p :: (txout, coin_selection_error) res)))")
      (auto simp: pair_txout_def)
  have "paid = prior + pair_value p" "txo_value t = pair_value p"
    using amount_add_exact [OF assms(2) paid] pair_txout_value t by (simp_all add: pair_value_def pair_txout_def)
  then have step: "avoid_uih_loop L mo mi prior (p # ps) =
      (if mo < min mi (pair_value p) then Ok p else avoid_uih_loop L mo mi prior ps)"
    using t paid assms(3) by (simp add: min_def)
  show ?case
  proof (cases "mo < min mi (pair_value p)")
    case True
    then have "r = Ok p" using Cons.prems(1) unfolding step by simp
    with True show ?thesis by (auto intro!: exI [of _ 0])
  next
    case False
    then have "avoid_uih_loop L mo mi prior ps = r" using Cons.prems(1) by (simp only: step if_False)
    from Cons.IH [OF this Cons.prems(2)] False show ?thesis by (auto simp: Ex_less_Suc2 All_less_Suc2)
  qed
qed simp

lemma avoid_uih_cases:
  assumes "avoid_uih L s ps = r" and "r \<noteq> Panic" and "amounts_ok L"
  shows "(\<exists>i<length ps. r = Ok (ps ! i) \<and> length (outputs (current_psbt s)) = 2 \<and>
            passes_uih2 L s (ps ! i) \<and> (\<forall>j<i. \<not> passes_uih2 L s (ps ! j))) \<or>
         r = Err NotFound \<and> (\<forall>p\<in>set ps. \<not> passes_uih2 L s p) \<or>
         r = Err UnsupportedOutputLength \<and> length (outputs (current_psbt s)) \<noteq> 2"
proof (cases "length (outputs (current_psbt s)) = 2")
  case True
  let ?outs = "tx_output (current_tx s)" and ?cv = "wp_change_vout (wi_proposal s)"
  from True assms(1,2) obtain t where "index ?outs ?cv = (Ok t :: (txout, coin_selection_error) res)"
    and r: "avoid_uih_loop L (smallest_output L s) (smallest_input L s) (txo_value t) ps = r"
    by (cases "index ?outs ?cv :: (txout, coin_selection_error) res")
      (auto simp: avoid_uih_def Let_def smallest_output_def smallest_input_def)
  then have "txo_value t \<in> set (map txo_value ?outs)" by (auto simp: index_eq_Ok)
  then have "smallest_output L s \<le> txo_value t" unfolding smallest_output_def by (rule min_or_le)
  from avoid_uih_loop_first [OF r assms(3) this assms(2)] True show ?thesis
    by (auto simp: passes_uih2_def)
next
  case False
  with assms(1) show ?thesis by (auto simp: avoid_uih_def)
qed

text \<open>The input picked for privacy is one of the candidates. For a proposal with two outputs it is
  the first candidate that, together with all inputs that are there, is worth more than the
  smallest output; when there is no such candidate, or more outputs, it is the first of the
  list. Only an empty list is refused.\<close>

theorem try_preserving_privacy_selects:
  assumes "try_preserving_privacy L s ps = r" and "r \<noteq> Panic" and "amounts_ok L"
  shows "(ps = [] \<longleftrightarrow> r = Err Empty) \<and> (\<forall>p. r = Ok p \<longrightarrow> p \<in> set ps) \<and>
    (if length (outputs (current_psbt s)) = 2 \<and> (\<exists>p\<in>set ps. passes_uih2 L s p)
     then \<exists>i<length ps. r = Ok (ps ! i) \<and> passes_uih2 L s (ps ! i) \<and> (\<forall>j<i. \<not> passes_uih2 L s (ps ! j))
     else ps \<noteq> [] \<longrightarrow> r = Ok (hd ps))"
proof -
  have "avoid_uih L s ps \<noteq> Panic" using assms(1,2) by (auto simp: try_preserving_privacy_def)
  from avoid_uih_cases [OF refl this assms(3)] assms(1) show ?thesis
  proof (elim disjE exE conjE)
    fix i assume "i < length ps" "avoid_uih L s ps = Ok (ps ! i)" "length (outputs (current_psbt s)) = 2"
      "passes_uih2 L s (ps ! i)" "\<forall>j<i. \<not> passes_uih2 L s (ps ! j)"
    with assms(1) show ?thesis by (auto simp: try_preserving_privacy_def)
  qed (use assms(1) in \<open>cases ps; auto simp: try_preserving_privacy_def select_first_candidate_def\<close>)+
qed

section \<open>Witnesses\<close>

definition sample_pair :: "nat \<Rightarrow> amount \<Rightarrow> input_pair" where
  "sample_pair n a = \<lparr>pr_txin = sample_txin n, pr_psbtin = sample_input a receiver_spk, pr_expected_weight = 50\<rparr>"

definition sample_wants_inputs :: wants_inputs where
  "sample_wants_inputs = commit_outputs (sample_wants_outputs Enabled)"


lemma try_preserving_privacy_selects_witness:
  "try_preserving_privacy sample_btc sample_wants_inputs [sample_pair 2 40, sample_pair 3 80] = Ok (sample_pair 3 80) \<and>
   passes_uih2 sample_btc sample_wants_inputs (sample_pair 3 80) \<and>
   \<not> passes_uih2 sample_btc sample_wants_inputs (sample_pair 2 40)"
proof -
  let ?ps = "[sample_pair 2 40, sample_pair 3 80]"
  have r: "try_preserving_privacy sample_btc sample_wants_inputs ?ps = Ok (sample_pair 3 80)" by code_simp
  have two: "length (outputs (current_psbt sample_wants_inputs)) = 2"
    and ok: "passes_uih2 sample_btc sample_wants_inputs (sample_pair 3 80)"
    and ne: "sample_pair 2 40 \<noteq> sample_pair 3 80" by code_simp+
  from try_preserving_privacy_selects [OF r _ sample_amounts_ok] two ok
  obtain i where "i < 2" "sample_pair 3 80 = ?ps ! i"
    "\<forall>j<i. \<not> passes_uih2 sample_btc sample_wants_inputs (?ps ! j)" by (auto simp: numeral_2_eq_2)
  with ne have "i = 1" by (cases i) auto
  with \<open>\<forall>j<i. _ j\<close> r ok show ?thesis by auto
qed

text \<open>
  The documentation asks for the smallest output after the contribution, but the smallest output
  before it is what decides. Here the payment is the smallest output; the candidate is accepted,
  and afterwards it is worth less than both outputs, which is the pattern to avoid.
\<close>

lemma avoid_uih_ignores_contribution:
  "let s = sample_wants_inputs\<lparr>wi_proposal := (wi_proposal sample_wants_inputs)\<lparr>wp_payjoin_psbt :=
         sample_psbt [sample_txin 1] [signed_input 115 sender_spk]
           [sample_txout 10 payee_spk, sample_txout 100 change_spk]\<rparr>\<rparr>
   in avoid_uih sample_btc s [sample_pair 2 50] = Ok (sample_pair 2 50) \<and>
      min 115 50 < min (10 + 50) (100 :: nat)"
  unfolding Let_def by code_simp

end
