(* ===== verification/PJ_Receive_Fees.thy ===== *)
theory PJ_Receive_Fees
  imports PJ_Receive_Contribute
begin

text \<open>
  What the fee range step takes and from whom, and the invariant of the typestates that lead to
  it: the output the sender pays fees from is always there to be found.
\<close>

section \<open>Taking fees\<close>

lemma decrease_output_Ok:
  assumes "decrease_output L i a outs = Ok outs'" and "amounts_ok L"
  shows "i < length outs \<and> a \<le> txo_value (outs ! i) \<and>
    outs' = outs[i := (outs ! i)\<lparr>txo_value := txo_value (outs ! i) - a\<rparr>]"
  using assms by (auto simp: decrease_output_def rbind_eq_Ok index_eq_Ok amount_sub_exact)

lemma decrease_output_total:
  assumes "decrease_output L i a outs = Ok outs'" and "amounts_ok L"
  shows "sum_list (map txo_value outs') + a = sum_list (map txo_value outs)"
  using decrease_output_Ok [OF assms]
    out_total_update [of i outs "(outs ! i)\<lparr>txo_value := txo_value (outs ! i) - a\<rparr>"] by auto

lemma decrease_output_paid:
  assumes "decrease_output L i a outs = Ok outs'" and "amounts_ok L"
  shows "paid_by s outs = paid_by s outs' + (if script_pubkey (outs ! i) = s then a else 0)"
  using decrease_output_Ok [OF assms]
    paid_by_update [of i outs "(outs ! i)\<lparr>txo_value := txo_value (outs ! i) - a\<rparr>" s]
  by (auto split: if_splits)

lemma decrease_output_scripts:
  assumes "decrease_output L i a outs = Ok outs'" and "amounts_ok L"
  shows "map script_pubkey outs' = map script_pubkey outs"
  using decrease_output_Ok [OF assms] by (auto simp: map_update list_update_same_conv)

text \<open>The script of the output that the sender pays additional fees from.\<close>

definition sender_fee_script :: "original_context \<Rightarrow> script option" where
  "sender_fee_script oc = (case par_additional_fee_contribution (oc_params oc) of
     Some (_, i) \<Rightarrow> Some (script_pubkey (tx_output (unsigned_tx (oc_original_psbt oc)) ! i))
   | None \<Rightarrow> None)"

definition contribution_cap :: "original_context \<Rightarrow> amount" where
  "contribution_cap oc = (case par_additional_fee_contribution (oc_params oc) of
     Some (m, _) \<Rightarrow> m | None \<Rightarrow> 0)"

lemma take_sender_fee_Ok:
  assumes "take_sender_fee L oc af outs = (Ok (outs', rf) :: (_, 'e) res)" and "amounts_ok L"
  obtains sf where "sf \<le> contribution_cap oc" "sf + rf = af"
    "sum_list (map txo_value outs') + sf = sum_list (map txo_value outs)"
    "\<And>s. paid_by s outs = paid_by s outs' + (if sender_fee_script oc = Some s then sf else 0)"
    "map script_pubkey outs' = map script_pubkey outs"
proof (cases "af \<ge> 1 \<and> par_additional_fee_contribution (oc_params oc) \<noteq> None")
  case True
  then obtain m i where mi: "par_additional_fee_contribution (oc_params oc) = Some (m, i)" by auto
  with assms(1) True obtain so j where
    so: "so = tx_output (unsigned_tx (oc_original_psbt oc)) ! i"
    and j: "position (\<lambda>t. script_pubkey t = script_pubkey so) outs = Some j"
    and d: "decrease_output L j (min m af) outs = (Ok outs' :: (_, 'e) res)"
    and rf: "amount_sub L af (min m af) = Some rf"
    by (auto simp: take_sender_fee_def rbind_eq_Ok Let_def index_eq_Ok)
  have "script_pubkey (outs ! j) = script_pubkey so" using position_holds [OF j] by simp
  with decrease_output_paid [OF d assms(2)]
  have "\<And>s. paid_by s outs = paid_by s outs' + (if sender_fee_script oc = Some s then min m af else 0)"
    by (simp add: sender_fee_script_def mi so)
  moreover have "rf = af - min m af" using rf amount_sub_exact [OF assms(2)] by simp
  ultimately show ?thesis
    using decrease_output_total [OF d assms(2)] decrease_output_scripts [OF d assms(2)]
    by (intro that [of "min m af"]) (simp_all add: contribution_cap_def mi)
next
  case False
  with assms(1) have "outs' = outs" "rf = af"
    by (auto simp: take_sender_fee_def split: option.splits if_splits)
  then show ?thesis by (intro that [of 0]) simp_all
qed

text \<open>C8: The proposal after the fee range step differs from the one before only in the fee that its
  outputs pay: the fee rises by exactly the additional fee at the chosen rate for the added
  inputs and outputs. The sender's designated output gives at most what the sender agreed to,
  the receiver's change output gives the rest, which stays within the maximum effective rate;
  what any other script is paid stays the same.\<close>

theorem fee_range_takes_exact_fee:
  assumes "calculate_psbt_with_fee_range L s min_rate max_rate = Ok p" and "amounts_ok L"
  shows "\<exists>sf rf input_weight output_weight input_fee output_fee total_weight max_fee.
    wf_additional_input_weight L s = (Ok input_weight :: (weight, payload_error) res) \<and>
    additional_output_weight L s = (Ok output_weight :: (weight, payload_error) res) \<and>
    fee_mul L (max (case min_rate of Some r \<Rightarrow> r | None \<Rightarrow> broadcast_min L)
       (par_min_fee_rate (oc_params (wf_original s)))) input_weight = Some input_fee \<and>
    fee_mul L (max (case min_rate of Some r \<Rightarrow> r | None \<Rightarrow> broadcast_min L)
       (par_min_fee_rate (oc_params (wf_original s)))) output_weight = Some output_fee \<and>
    weight_add L input_weight output_weight = Some total_weight \<and>
    fee_mul L (case max_rate of Some r \<Rightarrow> r | None \<Rightarrow> broadcast_min L) total_weight = Some max_fee \<and>
    sf + rf = input_fee + output_fee \<and> sf \<le> contribution_cap (wf_original s) \<and> rf \<le> max_fee \<and>
    out_total (unsigned_tx p) + (sf + rf) = out_total (unsigned_tx (wp_payjoin_psbt (wf_proposal s))) \<and>
    (\<forall>spk. paid_to spk (unsigned_tx (wp_payjoin_psbt (wf_proposal s))) = paid_to spk (unsigned_tx p) +
       (if sender_fee_script (wf_original s) = Some spk then sf else 0) +
       (if 0 < rf \<and> script_pubkey (tx_output (unsigned_tx (wp_payjoin_psbt (wf_proposal s)))
              ! wp_change_vout (wf_proposal s)) = spk then rf else 0)) \<and>
    tx_input (unsigned_tx p) = tx_input (unsigned_tx (wp_payjoin_psbt (wf_proposal s))) \<and>
    inputs p = inputs (wp_payjoin_psbt (wf_proposal s)) \<and>
    map script_pubkey (tx_output (unsigned_tx p)) =
      map script_pubkey (tx_output (unsigned_tx (wp_payjoin_psbt (wf_proposal s))))"
proof -
  let ?q = "wp_payjoin_psbt (wf_proposal s)" and ?cv = "wp_change_vout (wf_proposal s)"
  let ?outs = "tx_output (unsigned_tx ?q)"
  let ?min = "max (case min_rate of Some r \<Rightarrow> r | None \<Rightarrow> broadcast_min L)
       (par_min_fee_rate (oc_params (wf_original s)))"
  let ?max = "case max_rate of Some r \<Rightarrow> r | None \<Rightarrow> broadcast_min L"
  from assms(1) obtain iw af outs1 rf1 ow outf rf tw mf outs2 where
    w: "wf_additional_input_weight L s = (Ok iw :: (weight, payload_error) res)" "fee_mul L ?min iw = Some af"
      "additional_output_weight L s = (Ok ow :: (weight, payload_error) res)" "fee_mul L ?min ow = Some outf"
      "weight_add L iw ow = Some tw" "fee_mul L ?max tw = Some mf"
    and take: "take_sender_fee L (wf_original s) af ?outs = (Ok (outs1, rf1) :: (_, payload_error) res)"
    and rf: "amount_add L rf1 outf = Some rf" "rf \<le> mf"
    and dec: "take_receiver_fee L ?cv rf outs1 = (Ok outs2 :: (_, payload_error) res)"
    and p: "p = ?q\<lparr>unsigned_tx := (unsigned_tx ?q)\<lparr>tx_output := outs2\<rparr>\<rparr>"
    unfolding calculate_psbt_with_fee_range_def Let_def by (auto simp: rbind_eq_Ok split: if_split_asm)
  have rf_sum: "rf = rf1 + outf" using amount_add_exact [OF assms(2) rf(1)] .
  from take assms(2) show ?thesis
  proof (rule take_sender_fee_Ok)
    fix sf
    assume sf: "sf \<le> contribution_cap (wf_original s)" "sf + rf1 = af"
      "sum_list (map txo_value outs1) + sf = sum_list (map txo_value ?outs)"
      "\<And>spk. paid_by spk ?outs = paid_by spk outs1 + (if sender_fee_script (wf_original s) = Some spk then sf else 0)"
      "map script_pubkey outs1 = map script_pubkey ?outs"
    have outs2: "sum_list (map txo_value outs2) + rf = sum_list (map txo_value outs1) \<and>
        (\<forall>spk. paid_by spk outs1 = paid_by spk outs2 +
           (if 0 < rf \<and> script_pubkey (?outs ! ?cv) = spk then rf else 0)) \<and>
        map script_pubkey outs2 = map script_pubkey outs1"
    proof (cases "rf \<ge> 1")
      case True
      with dec have d: "decrease_output L ?cv rf outs1 = (Ok outs2 :: (_, payload_error) res)" by (simp add: take_receiver_fee_def)
      have "?cv < length outs1" using decrease_output_Ok [OF d assms(2)] by simp
      then have "script_pubkey (outs1 ! ?cv) = script_pubkey (?outs ! ?cv)"
        using sf(5) by (metis length_map nth_map)
      with True decrease_output_total [OF d assms(2)] decrease_output_paid [OF d assms(2)]
        decrease_output_scripts [OF d assms(2)] show ?thesis by simp
    qed (use dec in \<open>simp add: take_receiver_fee_def\<close>)
    have sum: "sf + rf = af + outf" using sf(2) rf_sum by simp
    have tot: "out_total (unsigned_tx p) + (sf + rf) = out_total (unsigned_tx ?q)"
      using sf(3) outs2 by (simp add: p out_total_def out_values_def)
    have paid: "\<forall>spk. paid_to spk (unsigned_tx ?q) = paid_to spk (unsigned_tx p) +
        (if sender_fee_script (wf_original s) = Some spk then sf else 0) +
        (if 0 < rf \<and> script_pubkey (?outs ! ?cv) = spk then rf else 0)"
      using sf(4) outs2 by (simp only: p paid_to_def psbt.simps transaction.simps add.assoc add.commute) simp
    have same: "tx_input (unsigned_tx p) = tx_input (unsigned_tx ?q)" "inputs p = inputs ?q"
      "map script_pubkey (tx_output (unsigned_tx p)) = map script_pubkey ?outs"
      using sf(5) outs2 by (simp_all add: p)
    show ?thesis
      by (rule exI [of _ sf], rule exI [of _ rf], rule exI [of _ iw], rule exI [of _ ow],
          rule exI [of _ af], rule exI [of _ outf], rule exI [of _ tw], rule exI [of _ mf],
          intro conjI w sum sf(1) rf(2) tot paid same)
  qed
qed


section \<open>Reachable typestates\<close>

text \<open>
  The typestates a receiver can reach from a payload with checked output positions, by any
  sequence of substitutions and contributions, with any generator state.
\<close>

inductive outputs_reachable :: "'g rng \<Rightarrow> original_payload \<Rightarrow> wants_outputs \<Rightarrow> bool"
  for R :: "'g rng" and payload :: original_payload where
  identified: "wants_outputs_new payload owned = (Ok s :: (_, unit) res) \<Longrightarrow>
     \<forall>i\<in>set owned. i < length (tx_output (unsigned_tx (pl_psbt payload))) \<Longrightarrow> outputs_reachable R payload s"
| replaced: "outputs_reachable R payload s \<Longrightarrow> replace_receiver_outputs R g s repl drain = Ok s' \<Longrightarrow>
     outputs_reachable R payload s'"
| substituted: "outputs_reachable R payload s \<Longrightarrow> substitute_receiver_script R g s spk = Ok s' \<Longrightarrow>
     outputs_reachable R payload s'"

inductive inputs_reachable :: "btc \<Rightarrow> 'g rng \<Rightarrow> original_payload \<Rightarrow> wants_inputs \<Rightarrow> bool"
  for L :: btc and R :: "'g rng" and payload :: original_payload where
  outputs_committed: "outputs_reachable R payload s \<Longrightarrow> inputs_reachable L R payload (commit_outputs s)"
| contributed: "inputs_reachable L R payload s \<Longrightarrow> contribute_inputs L R g s ps = Ok s' \<Longrightarrow>
     inputs_reachable L R payload s'"

inductive_cases outputs_reachableE: "outputs_reachable R payload s"
inductive_cases inputs_reachableE: "inputs_reachable L R payload s"

text \<open>The sender's fee output exists in the original and its script among the current outputs.\<close>

definition fee_output_present :: "original_context \<Rightarrow> txout list \<Rightarrow> bool" where
  "fee_output_present oc outs \<longleftrightarrow>
     (\<forall>m i. par_additional_fee_contribution (oc_params oc) = Some (m, i) \<longrightarrow>
        i < length (tx_output (unsigned_tx (oc_original_psbt oc))) \<and>
        script_pubkey (tx_output (unsigned_tx (oc_original_psbt oc)) ! i) \<in> script_pubkey ` set outs)"

definition proposal_ok :: "original_payload \<Rightarrow> original_context \<Rightarrow> psbt \<Rightarrow> nat \<Rightarrow> bool" where
  "proposal_ok payload oc p change_vout \<longleftrightarrow>
     oc_original_psbt oc = pl_psbt payload \<and> well_formed p \<and>
     change_vout < length (tx_output (unsigned_tx p)) \<and>
     subseq (input_pairs (pl_psbt payload)) (input_pairs p) \<and>
     fee_output_present oc (tx_output (unsigned_tx p))"

lemma not_owned_mem: "i < length xs \<Longrightarrow> i + k \<notin> set owned \<Longrightarrow> xs ! i \<in> set (not_owned owned k xs)"
proof (induction xs arbitrary: i k)
  case (Cons x xs)
  then show ?case by (cases i) auto
qed simp

text \<open>The context keeps a fee output only when it is in bounds and not the receiver's.\<close>

lemma original_context_new_fee:
  "par_additional_fee_contribution (oc_params (original_context_new p par owned)) = Some (m, i) \<Longrightarrow>
     i < length (tx_output (unsigned_tx p)) \<and> i \<notin> set owned"
  by (auto simp: original_context_new_def split: option.splits prod.splits if_splits)

lemma original_context_new_psbt [simp]: "oc_original_psbt (original_context_new p par owned) = p"
  by (simp add: original_context_new_def)

lemma fee_output_among_senders:
  assumes "\<And>m i. par_additional_fee_contribution (oc_params (wo_original s)) = Some (m, i) \<Longrightarrow>
      i < length (tx_output (unsigned_tx (oc_original_psbt (wo_original s)))) \<and> i \<notin> set (wo_owned_vouts s)"
    and "set (sender_outputs s) \<subseteq> set outs"
  shows "fee_output_present (wo_original s) outs"
  using assms not_owned_mem [of _ "tx_output (unsigned_tx (oc_original_psbt (wo_original s)))" 0 "wo_owned_vouts s"]
  by (fastforce simp: fee_output_present_def sender_outputs_def)

definition outputs_inv :: "original_payload \<Rightarrow> wants_outputs \<Rightarrow> bool" where
  "outputs_inv payload s \<longleftrightarrow> proposal_ok payload (wo_original s) (wo_payjoin_psbt s) (wo_change_vout s) \<and>
     (\<forall>m i. par_additional_fee_contribution (oc_params (wo_original s)) = Some (m, i) \<longrightarrow>
        i < length (tx_output (unsigned_tx (oc_original_psbt (wo_original s)))) \<and> i \<notin> set (wo_owned_vouts s))"

lemma outputs_inv_replace:
  assumes "rng_ok R" and "well_formed (pl_psbt payload)" and "outputs_inv payload s"
    and "replace_receiver_outputs_with_rng R g s repl drain = Ok s'"
  shows "outputs_inv payload s'"
  using assms(4,1)
proof (rule replace_Ok)
  fix outs
  assume o: "tx_output (unsigned_tx (wo_payjoin_psbt s')) = outs" "wo_original s' = wo_original s"
    "wo_owned_vouts s' = wo_owned_vouts s" "mset outs = mset (sender_outputs s) + mset repl"
    "length (outputs (wo_payjoin_psbt s')) = length outs"
    "tx_input (unsigned_tx (wo_payjoin_psbt s')) = tx_input (unsigned_tx (oc_original_psbt (wo_original s)))"
    "inputs (wo_payjoin_psbt s') = inputs (oc_original_psbt (wo_original s))"
    "position (\<lambda>t. script_pubkey t = drain) outs = Some (wo_change_vout s')"
  have "set (sender_outputs s) \<subseteq> set outs" using mset_eq_setD [of outs "sender_outputs s @ repl"] o(4) by auto
  then have "fee_output_present (wo_original s) outs"
    using assms(3) by (intro fee_output_among_senders) (auto simp: outputs_inv_def)
  moreover have "input_pairs (wo_payjoin_psbt s') = input_pairs (oc_original_psbt (wo_original s))"
    using o(6,7) by (simp add: input_pairs_def)
  moreover have "well_formed (wo_payjoin_psbt s')"
    using assms(2,3) o(1,5-7) by (simp add: outputs_inv_def proposal_ok_def well_formed_def)
  ultimately show ?thesis
    using o(1-3) assms(3) position_bound [OF o(8)] by (auto simp: outputs_inv_def proposal_ok_def)
qed

lemma outputs_reachable_inv:
  assumes "outputs_reachable R payload s" and "rng_ok R" and "well_formed (pl_psbt payload)"
  shows "outputs_inv payload s"
  using assms(1)
proof induction
  case (identified owned s)
  then obtain cv where s: "s = \<lparr>wo_original = original_context_new (pl_psbt payload) (pl_params payload) owned,
      wo_payjoin_psbt = pl_psbt payload, wo_change_vout = cv, wo_owned_vouts = owned\<rparr>" "cv \<in> set owned"
    by (auto simp: wants_outputs_new_def rbind_eq_Ok index_eq_Ok)
  have "fee_output_present (wo_original s) (tx_output (unsigned_tx (pl_psbt payload)))"
    unfolding fee_output_present_def s(1) by (auto dest: original_context_new_fee)
  with identified s assms(3) show ?case
    by (auto simp: outputs_inv_def proposal_ok_def dest: original_context_new_fee)
next
  case (replaced s g repl drain s')
  then show ?case using outputs_inv_replace assms(2,3) by (metis replace_receiver_outputs_def)
next
  case (substituted s g spk s')
  then show ?case using outputs_inv_replace [OF assms(2,3) substituted(3)]
    by (auto simp: substitute_receiver_script_def replace_receiver_outputs_def rbind_eq_Ok)
qed

lemma inputs_reachable_inv:
  assumes "inputs_reachable L R payload s" and "rng_ok R" and "amounts_ok L" and "well_formed (pl_psbt payload)"
  shows "proposal_ok payload (wi_original s) (current_psbt s) (wp_change_vout (wi_proposal s))"
  using assms(1)
proof induction
  case (outputs_committed s)
  then show ?case using outputs_reachable_inv [OF outputs_committed assms(2,4)]
    by (simp add: outputs_inv_def commit_outputs_def)
next
  case (contributed s g ps s')
  from contributed(3) have wf: "well_formed (current_psbt s)" by (simp add: proposal_ok_def)
  from contributed(2) assms(3) wf show ?case
  proof (rule contribute_Ok)
    fix seq
    assume c: "subseq (zip (tx_input (current_tx s)) (inputs (current_psbt s)))
        (zip (tx_input (current_tx s')) (inputs (current_psbt s')))"
      "length (tx_input (current_tx s')) = length (inputs (current_psbt s'))"
      "wp_change_vout (wi_proposal s) < length (tx_output (current_tx s))"
      "tx_output (current_tx s') = (let outs = tx_output (current_tx s); i = wp_change_vout (wi_proposal s) in
         outs[i := (outs ! i)\<lparr>txo_value := txo_value (outs ! i) + (sum_list (map pair_value ps) - min_contribution s)\<rparr>])"
      "outputs (current_psbt s') = outputs (current_psbt s)"
      "wi_original s' = wi_original s" "wp_change_vout (wi_proposal s') = wp_change_vout (wi_proposal s)"
    have "map script_pubkey (tx_output (current_tx s')) = map script_pubkey (tx_output (current_tx s))"
      using c(3,4) by (simp add: Let_def map_update list_update_same_conv)
    then have "script_pubkey ` set (tx_output (current_tx s')) = script_pubkey ` set (tx_output (current_tx s))"
      by (metis image_set)
    moreover have "subseq (input_pairs (current_psbt s)) (input_pairs (current_psbt s'))"
      unfolding input_pairs_def by (rule subseq_map [OF c(1)])
    ultimately show ?thesis using contributed(3) c wf subseq_order.trans
      by (auto simp: proposal_ok_def fee_output_present_def well_formed_def Let_def)
  qed
qed

text \<open>In every state that a receiver can reach before it sets the fees, the proposal is a
  well-formed PSBT that contains the sender's inputs in their order, its change index is in
  bounds, and the output from which the sender agreed to pay fees exists, so that the lookups
  of the fee range step cannot fail: \<open>Sender output is missing\<close> is unreachable.\<close>

theorem fee_range_lookups_succeed:
  assumes "inputs_reachable L R payload s" and "rng_ok R" and "amounts_ok L" and "well_formed (pl_psbt payload)"
  shows "well_formed (wp_payjoin_psbt (wf_proposal (commit_inputs s))) \<and>
    wp_change_vout (wf_proposal (commit_inputs s)) <
      length (tx_output (unsigned_tx (wp_payjoin_psbt (wf_proposal (commit_inputs s))))) \<and>
    subseq (input_pairs (pl_psbt payload)) (input_pairs (wp_payjoin_psbt (wf_proposal (commit_inputs s)))) \<and>
    (\<forall>m i. par_additional_fee_contribution (oc_params (wf_original (commit_inputs s))) = Some (m, i) \<longrightarrow>
       (\<exists>t j. index (tx_output (unsigned_tx (oc_original_psbt (wf_original (commit_inputs s))))) i =
            (Ok t :: (_, payload_error) res) \<and>
          position (\<lambda>u. script_pubkey u = script_pubkey t)
            (tx_output (unsigned_tx (wp_payjoin_psbt (wf_proposal (commit_inputs s))))) = Some j))"
proof -
  from inputs_reachable_inv [OF assms]
  have ok: "proposal_ok payload (wi_original s) (current_psbt s) (wp_change_vout (wi_proposal s))" .
  have "\<exists>t j. index (tx_output (original_tx s)) i = (Ok t :: (_, payload_error) res) \<and>
      position (\<lambda>u. script_pubkey u = script_pubkey t) (tx_output (current_tx s)) = Some j"
    if mi: "par_additional_fee_contribution (oc_params (wi_original s)) = Some (m, i)" for m i
  proof -
    from ok mi have i: "i < length (tx_output (original_tx s))"
      and "script_pubkey (tx_output (original_tx s) ! i) \<in> script_pubkey ` set (tx_output (current_tx s))"
      by (auto simp: proposal_ok_def fee_output_present_def)
    then obtain u where "u \<in> set (tx_output (current_tx s))"
      "script_pubkey u = script_pubkey (tx_output (original_tx s) ! i)" by auto
    with position_exists [OF this(1), of "\<lambda>u. script_pubkey u = script_pubkey (tx_output (original_tx s) ! i)"] i
    show ?thesis by (auto simp: index_eq_Ok)
  qed
  with ok show ?thesis by (simp add: proposal_ok_def commit_inputs_def)
qed


section \<open>Witnesses\<close>

definition sample_payload :: original_payload where
  "sample_payload = \<lparr>pl_psbt = sample_original, pl_params = sample_params Enabled\<rparr>"

definition sample_contributed :: wants_inputs where
  "sample_contributed =
     (case contribute_inputs sample_btc sample_rng 0 sample_wants_inputs [sample_pair 2 80] of
        Ok s \<Rightarrow> s | _ \<Rightarrow> sample_wants_inputs)"

lemma sample_contributed_Ok:
  "contribute_inputs sample_btc sample_rng 0 sample_wants_inputs [sample_pair 2 80] = Ok sample_contributed"
proof -
  have "is_ok (contribute_inputs sample_btc sample_rng 0 sample_wants_inputs [sample_pair 2 80])" by code_simp
  then show ?thesis by (auto simp: is_ok_iff sample_contributed_def)
qed

lemma sample_outputs_reachable: "outputs_reachable sample_rng sample_payload (sample_wants_outputs Enabled)"
proof (rule identified [of _ "[0]"])
  show "wants_outputs_new sample_payload [0] = (Ok (sample_wants_outputs Enabled) :: (_, unit) res)" by code_simp
  show "\<forall>i\<in>set [0]. i < length (tx_output (unsigned_tx (pl_psbt sample_payload)))" by code_simp
qed

lemma sample_inputs_reachable: "inputs_reachable sample_btc sample_rng sample_payload sample_contributed"
  using contributed [OF outputs_committed [OF sample_outputs_reachable] sample_contributed_Ok
      [unfolded sample_wants_inputs_def]] .

lemma fee_range_lookups_succeed_witness:
  "well_formed (wp_payjoin_psbt (wf_proposal (commit_inputs sample_contributed))) \<and>
   wp_change_vout (wf_proposal (commit_inputs sample_contributed)) <
     length (tx_output (unsigned_tx (wp_payjoin_psbt (wf_proposal (commit_inputs sample_contributed)))))"
proof -
  have "well_formed (pl_psbt sample_payload)" by code_simp
  from fee_range_lookups_succeed [OF sample_inputs_reachable sample_rng_ok sample_amounts_ok this]
  show ?thesis by blast
qed

lemma fee_range_takes_exact_fee_witness:
  "\<exists>p. calculate_psbt_with_fee_range sample_btc (commit_inputs sample_contributed) (Some 1) (Some 3) = Ok p \<and>
     (\<exists>sf rf. sf \<le> 182 \<and>
        out_total (unsigned_tx p) + (sf + rf) =
        out_total (unsigned_tx (wp_payjoin_psbt (wf_proposal (commit_inputs sample_contributed)))))"
proof -
  let ?r = "calculate_psbt_with_fee_range sample_btc (commit_inputs sample_contributed) (Some 1) (Some 3)"
  have "is_ok ?r" by code_simp
  then obtain p where p: "?r = Ok p" by (auto simp: is_ok_iff)
  have "contribution_cap (wf_original (commit_inputs sample_contributed)) = 182" by code_simp
  with fee_range_takes_exact_fee [OF p sample_amounts_ok] p show ?thesis by auto
qed

text \<open>
  The output that the sender pays fees from is taken from without a check: when it holds less
  than the agreed contribution needs, the subtraction panics. The sender chooses the parameters.
\<close>

lemma decrease_output_panics:
  "amounts_ok L \<Longrightarrow> i < length outs \<Longrightarrow> txo_value (outs ! i) < a \<Longrightarrow> decrease_output L i a outs = Panic"
  using amount_sub_panics [of L "txo_value (outs ! i)" a] by (simp add: decrease_output_def index_def)

lemma fee_range_panics_on_small_fee_output:
  "calculate_psbt_with_fee_range sample_btc (commit_inputs sample_contributed) (Some 10) (Some 30) = Panic"
  by code_simp

end
