(* ===== verification/PJ_Receive_Facts.thy ===== *)
theory PJ_Receive_Facts
  imports PJ_Receive PJ_Receive_Fees PJ_Send_Request
begin

text \<open>
  The receiver's checks ask about every input and output once and in order, and accept exactly
  when every answer does; finalisation never lets a sender signature through, and an honest
  proposal has the inputs that the sender asks for.
\<close>

section \<open>Callbacks\<close>

text \<open>A callback that answers with \<open>f\<close> and records what it was asked.\<close>

definition logging :: "('a \<Rightarrow> (bool, implementation_error) res) \<Rightarrow> ('a list, 'a) callback" where
  "logging f = (\<lambda>log a. (f a, log @ [a]))"

definition asked :: "internal_input_pair \<Rightarrow> outpoint" where
  "asked p = previous_output (ip_txin p)"

lemma inputs_not_owned_loop_logging:
  "inputs_not_owned_loop (logging f) log ps = (r, log') \<Longrightarrow>
     (r = Ok () \<and> log' = log @ map asked ps \<and> (\<forall>p\<in>set ps. f (asked p) = Ok False)) \<or>
     (\<exists>pre p post. ps = pre @ p # post \<and> log' = log @ map asked pre @ [asked p] \<and>
        (\<forall>q\<in>set pre. f (asked q) = Ok False) \<and> f (asked p) \<noteq> Ok False \<and>
        (\<forall>x. r = Err (payload_failure (InputOwned x)) \<longrightarrow> x = asked p \<and> f (asked p) = Ok True) \<and> r \<noteq> Ok ())"
proof (induction ps arbitrary: log)
  case (Cons p ps)
  show ?case
  proof (cases "f (asked p) = Ok False")
    case True
    with Cons.prems have "inputs_not_owned_loop (logging f) (log @ [asked p]) ps = (r, log')"
      by (simp add: logging_def Let_def asked_def)
    from Cons.IH [OF this] show ?thesis
    proof (elim disjE exE conjE)
      fix pre q post
      assume "ps = pre @ q # post" "log' = (log @ [asked p]) @ map asked pre @ [asked q]"
        "\<forall>q\<in>set pre. f (asked q) = Ok False" "f (asked q) \<noteq> Ok False"
        "\<forall>x. r = Err (payload_failure (InputOwned x)) \<longrightarrow> x = asked q \<and> f (asked q) = Ok True" "r \<noteq> Ok ()"
      with True show ?thesis 
        by - (rule disjI2, rule exI [of _ "p # pre"], rule exI [of _ q], rule exI [of _ post], auto)
    qed (use True in simp)
  next
    case False
    with Cons.prems show ?thesis
      by - (rule disjI2, rule exI [of _ "[]"], rule exI [of _ p], rule exI [of _ ps],
          auto simp: logging_def Let_def asked_def split: res.splits bool.splits)
  qed
qed simp

lemma inputs_seen_loop_logging:
  "inputs_seen_loop (logging f) log ps = (r, log') \<Longrightarrow>
     (r = Ok () \<and> log' = log @ map asked ps \<and> (\<forall>p\<in>set ps. f (asked p) = Ok False)) \<or>
     (\<exists>pre p post. ps = pre @ p # post \<and> log' = log @ map asked pre @ [asked p] \<and>
        (\<forall>q\<in>set pre. f (asked q) = Ok False) \<and> f (asked p) \<noteq> Ok False \<and>
        (\<forall>x. r = Err (payload_failure (InputSeen x)) \<longrightarrow> x = asked p \<and> f (asked p) = Ok True) \<and> r \<noteq> Ok ())"
proof (induction ps arbitrary: log)
  case (Cons p ps)
  show ?case
  proof (cases "f (asked p) = Ok False")
    case True
    with Cons.prems have "inputs_seen_loop (logging f) (log @ [asked p]) ps = (r, log')"
      by (simp add: logging_def Let_def asked_def)
    from Cons.IH [OF this] show ?thesis
    proof (elim disjE exE conjE)
      fix pre q post
      assume "ps = pre @ q # post" "log' = (log @ [asked p]) @ map asked pre @ [asked q]"
        "\<forall>q\<in>set pre. f (asked q) = Ok False" "f (asked q) \<noteq> Ok False"
        "\<forall>x. r = Err (payload_failure (InputSeen x)) \<longrightarrow> x = asked q \<and> f (asked q) = Ok True" "r \<noteq> Ok ()"
      with True show ?thesis 
        by - (rule disjI2, rule exI [of _ "p # pre"], rule exI [of _ q], rule exI [of _ post], auto)
    qed (use True in simp)
  next
    case False
    with Cons.prems show ?thesis
      by - (rule disjI2, rule exI [of _ "[]"], rule exI [of _ p], rule exI [of _ ps],
          auto simp: logging_def Let_def asked_def split: res.splits bool.splits)
  qed
qed simp

lemma payload_outpoints:
  "well_formed p \<Longrightarrow> map asked (input_pairs p) = outpoints (unsigned_tx p)"
  using input_pairs_txin [of p, THEN arg_cong [where f = "map previous_output"]]
  by (simp add: well_formed_def outpoints_def comp_def asked_def [abs_def])

text \<open>The ownership check asks about every input of the original exactly once and in order until
  the first that is not answered with no, and it passes exactly when all are. It fails with the
  first input that is owned or with the error of the callback.\<close>

theorem ownership_check_covers_all_inputs:
  assumes "check_inputs_not_owned payload (logging f) [] = (r, log)" and "well_formed (pl_psbt payload)"
  shows "(r = Ok () \<longleftrightarrow> (\<forall>out\<in>set (outpoints (unsigned_tx (pl_psbt payload))). f out = Ok False)) \<and>
    (r = Ok () \<longrightarrow> log = outpoints (unsigned_tx (pl_psbt payload))) \<and>
    (\<exists>rest. outpoints (unsigned_tx (pl_psbt payload)) = log @ rest) \<and>
    (\<forall>out. r = Err (payload_failure (InputOwned out)) \<longrightarrow>
       f out = Ok True \<and> log \<noteq> [] \<and> last log = out \<and> (\<forall>x\<in>set (butlast log). f x = Ok False))"
  using inputs_not_owned_loop_logging [OF assms(1) [unfolded check_inputs_not_owned_def]]
  unfolding payload_outpoints [OF assms(2), symmetric]
  by (elim disjE exE conjE) auto

text \<open>The same for inputs seen before.\<close>

lemma seen_check_covers_all_inputs:
  assumes "check_no_inputs_seen_before payload (logging f) [] = (r, log)" and "well_formed (pl_psbt payload)"
  shows "r = Ok () \<longleftrightarrow> (\<forall>out\<in>set (outpoints (unsigned_tx (pl_psbt payload))). f out = Ok False)"
  using inputs_seen_loop_logging [OF assms(1) [unfolded check_no_inputs_seen_before_def]]
  unfolding payload_outpoints [OF assms(2), symmetric]
  by (elim disjE exE conjE) auto

section \<open>Identified outputs\<close>

lemma owned_vouts_loop_pure:
  "owned_vouts_loop (\<lambda>s a. (Ok (f a), s)) s i ts =
     (Ok (map fst (filter (\<lambda>(_, t). f (script_pubkey t)) (List.enumerate i ts))), s)"
  by (induction ts arbitrary: i) auto

lemma owned_vouts_bound:
  "owned_vouts_loop cb s i ts = (Ok vouts, s') \<Longrightarrow> \<forall>v\<in>set vouts. i \<le> v \<and> v < i + length ts"
proof (induction ts arbitrary: i s vouts)
  case (Cons t ts)
  then show ?case
    by (fastforce simp: rmap_eq_Ok split: prod.splits res.splits if_splits)
qed simp

text \<open>What is identified starts the typestates: every owned position is an output.\<close>

lemma identified_reachable:
  assumes "identify_receiver_outputs payload cb s = (Ok w, s')"
  shows "outputs_reachable R payload w \<and> wo_owned_vouts w \<noteq> []"
proof -
  from assms obtain vouts where v: "owned_vouts_loop cb s 0 (tx_output (unsigned_tx (pl_psbt payload))) = (Ok vouts, s')"
    and w: "vouts \<noteq> []" "wants_outputs_new payload vouts = (Ok w :: (_, receive_error) res)"
    by (auto simp: identify_receiver_outputs_def rbind_eq_Ok split: prod.splits if_splits)
  have "wants_outputs_new payload vouts = (Ok w :: (_, unit) res)"
    using w by (simp add: wants_outputs_new_def rbind_eq_Ok index_def)
  moreover have "\<forall>i\<in>set vouts. i < length (tx_output (unsigned_tx (pl_psbt payload)))"
    using owned_vouts_bound [OF v] by auto
  ultimately have "outputs_reachable R payload w" by (rule identified)
  moreover have "wo_owned_vouts w = vouts" using w(2) by (auto simp: wants_outputs_new_def rbind_eq_Ok)
  ultimately show ?thesis using w(1) by simp
qed


section \<open>Finalisation\<close>

lemma sender_indexes_loop_set:
  assumes "subseq (map asked os) (map asked ps)" and "distinct (map asked ps)"
  shows "set (sender_indexes_loop os i ps) = {i + k | k. k < length ps \<and> asked (ps ! k) \<in> asked ` set os}"
  using assms
proof (induction ps arbitrary: os i)
  case (Cons p ps)
  have parts: "{i + k | k. k < length (p # ps) \<and> asked ((p # ps) ! k) \<in> A} =
      (if asked p \<in> A then {i} else {}) \<union> {Suc i + k | k. k < length ps \<and> asked (ps ! k) \<in> A}" for A
    by (auto simp: less_Suc_eq_0_disj)
  show ?case
  proof (cases os)
    case Nil
    with Cons show ?thesis by simp
  next
    case (Cons o' os')
    show ?thesis
    proof (cases "asked p = asked o'")
      case True
      from Cons.prems Cons True have sub: "subseq (map asked os') (map asked ps)" "distinct (map asked ps)"
        by auto
      have ne: "asked (ps ! k) \<noteq> asked p" if "k < length ps" for k
        using Cons.prems(2) nth_mem [OF that] by (auto simp: image_iff)
      have "{Suc i + k | k. k < length ps \<and> asked (ps ! k) \<in> asked ` set os} =
          {Suc i + k | k. k < length ps \<and> asked (ps ! k) \<in> asked ` set os'}"
        using ne True by (auto simp: Cons)
      moreover have "asked p \<in> asked ` set os" using True by (simp add: Cons)
      ultimately have "{i + k | k. k < length (p # ps) \<and> asked ((p # ps) ! k) \<in> asked ` set os} =
          insert i {Suc i + k | k. k < length ps \<and> asked (ps ! k) \<in> asked ` set os'}"
        unfolding parts by simp
      moreover have "set (sender_indexes_loop os i (p # ps)) = insert i (set (sender_indexes_loop os' (Suc i) ps))"
        using True by (simp add: Cons asked_def)
      ultimately show ?thesis using Cons.IH [OF sub, of "Suc i"] by argo
    next
      case False
      from Cons.prems Cons False have sub: "subseq (map asked os) (map asked ps)" "distinct (map asked ps)"
        by auto
      have "set (map asked os) \<subseteq> set (map asked ps)"
        by (rule subsetI) (metis list_emb_set [OF sub(1)])
      then have "asked p \<notin> set (map asked os)" using Cons.prems(2) by auto
      then have "{i + k | k. k < length (p # ps) \<and> asked ((p # ps) ! k) \<in> asked ` set os} =
          {Suc i + k | k. k < length ps \<and> asked (ps ! k) \<in> asked ` set os}"
        by (simp only: parts set_map if_False Un_empty_left)
      moreover have "set (sender_indexes_loop os i (p # ps)) = set (sender_indexes_loop os (Suc i) ps)"
        using False by (simp add: Cons asked_def)
      ultimately show ?thesis using Cons.IH [OF sub, of "Suc i"] by argo
    qed
  qed
qed simp

lemma sender_indexes_bound: "k \<in> set (sender_indexes_loop os i ps) \<Longrightarrow> i \<le> k \<and> k < i + length ps"
  by (induction os i ps rule: sender_indexes_loop.induct) (fastforce split: list.splits if_splits)+

lemma clear_indexes_loop_Ok:
  "\<forall>k\<in>set ks. k < length is \<Longrightarrow>
     \<exists>is'. clear_indexes_loop ks is = (Ok is' :: (_, 'e) res) \<and> length is' = length is \<and>
       (\<forall>k<length is. is' ! k = (if k \<in> set ks then clear_signatures (is ! k) else is ! k))"
proof (induction ks arbitrary: "is")
  case (Cons k ks)
  let ?js = "is[k := clear_signatures (is ! k)]"
  have k: "k < length is" using Cons.prems by simp
  have "\<forall>j\<in>set ks. j < length ?js" using Cons.prems by simp
  from Cons.IH [OF this] obtain is' where is': "clear_indexes_loop ks ?js = (Ok is' :: (_, 'e) res)"
    "length is' = length ?js"
    "\<forall>j<length ?js. is' ! j = (if j \<in> set ks then clear_signatures (?js ! j) else ?js ! j)"
    by blast
  have idem: "clear_signatures (clear_signatures i) = clear_signatures i" for i
    by (simp add: clear_signatures_def)
  have "is' ! j = (if j \<in> set (k # ks) then clear_signatures (is ! j) else is ! j)" if "j < length is" for j
    using is'(3) that by (cases "j = k") (simp_all add: idem)
  moreover have "clear_indexes_loop (k # ks) is = (Ok is' :: (_, 'e) res)"
    using is'(1) k by (simp add: index_def)
  ultimately show ?case using is'(2) by auto
qed simp

lemma psbt_to_sign_Ok:
  "\<exists>p. psbt_to_sign c = (Ok p :: (_, 'e) res) \<and> unsigned_tx p = unsigned_tx (pc_payjoin_psbt c) \<and>
     length (inputs p) = length (inputs (pc_payjoin_psbt c)) \<and>
     (\<forall>k<length (inputs p). inputs p ! k =
        (if k \<in> set (sender_input_indexes c) then clear_signatures (inputs (pc_payjoin_psbt c) ! k)
         else inputs (pc_payjoin_psbt c) ! k))"
proof -
  have "\<forall>k\<in>set (sender_input_indexes c). k < length (inputs (pc_payjoin_psbt c))"
    using sender_indexes_bound by (fastforce simp: sender_input_indexes_def length_input_pairs)
  from clear_indexes_loop_Ok [OF this] obtain is' where is':
    "clear_indexes_loop (sender_input_indexes c) (inputs (pc_payjoin_psbt c)) = (Ok is' :: (_, 'e) res)"
    "length is' = length (inputs (pc_payjoin_psbt c))"
    "\<forall>k<length (inputs (pc_payjoin_psbt c)). is' ! k = (if k \<in> set (sender_input_indexes c)
       then clear_signatures (inputs (pc_payjoin_psbt c) ! k) else inputs (pc_payjoin_psbt c) ! k)" by blast
  show ?thesis
    by (rule exI [of _ "pc_payjoin_psbt c \<lparr>inputs := is'\<rparr>"]) (simp add: psbt_to_sign_def is')
qed

lemma check_unsigned_loop_Ok:
  "check_unsigned_loop p ks = Ok u \<longleftrightarrow>
     (\<forall>k\<in>set ks. k < length (inputs p) \<longrightarrow> \<not> psbt_input_is_signed (inputs p ! k))"
  by (induction ks) (auto simp: slice_get_def)

lemma finalize_Ok:
  assumes "finalize_proposal L T c wallet = Ok r"
  obtains p sp where "psbt_to_sign c = (Ok p :: (_, implementation_error) res)" "wallet p = Ok sp" "r = prepare_psbt sp"
    "compute_ntxid L (unsigned_tx sp) = compute_ntxid L (unsigned_tx (pc_payjoin_psbt c))"
    "\<forall>k\<in>set (sender_input_indexes c). k < length (inputs sp) \<longrightarrow> \<not> psbt_input_is_signed (inputs sp ! k)"
proof -
  from assms obtain p where p: "psbt_to_sign c = (Ok p :: (_, implementation_error) res)"
    by (auto simp: finalize_proposal_def rbind_eq_Ok)
  with assms obtain sp where sp: "wallet p = Ok sp"
    by (auto simp: finalize_proposal_def rbind_eq_Ok)
  from assms p sp have f: "r = prepare_psbt sp"
    "compute_ntxid L (unsigned_tx (pc_payjoin_psbt c)) = compute_ntxid L (unsigned_tx sp)"
    "check_unsigned_loop sp (sender_input_indexes c) = Ok ()"
    by (simp_all add: finalize_proposal_def rbind_eq_Ok Let_def split: if_split_asm)
  from f(3) have "\<forall>k\<in>set (sender_input_indexes c). k < length (inputs sp) \<longrightarrow> \<not> psbt_input_is_signed (inputs sp ! k)"
    by (simp add: check_unsigned_loop_Ok)
  with p sp f(1) f(2) [symmetric] that show ?thesis by blast
qed

definition only_utxo_and_signature :: "psbt_input \<Rightarrow> bool" where
  "only_utxo_and_signature i \<longleftrightarrow> filtered_input i = i"

lemma filtered_idem: "filtered_input (filtered_input i) = filtered_input i"
  by (simp add: filtered_input_def default_psbt_input_def)


section \<open>Examples\<close>

lemma ownership_check_covers_all_inputs_witness:
  "fst (check_inputs_not_owned sample_payload (logging (\<lambda>out. Ok (op_txid out = 9))) []) = Ok () \<and>
   9 \<notin> op_txid ` set (outpoints (unsigned_tx (pl_psbt sample_payload)))"
proof -
  let ?r = "check_inputs_not_owned sample_payload (logging (\<lambda>out. Ok (op_txid out = 9))) []"
  have ok: "fst ?r = Ok ()" by code_simp
  have wf: "well_formed (pl_psbt sample_payload)" by code_simp
  have "?r = (fst ?r, snd ?r)" by simp
  from ownership_check_covers_all_inputs [OF this wf] ok show ?thesis by auto
qed

definition sample_finalised :: psbt_context where
  "sample_finalised = \<lparr>pc_original_psbt = sample_original, pc_payjoin_psbt = sample_proposal\<rparr>"


end
