(* ===== verification/PJ_Persist.thy ===== *)
theory PJ_Persist
  imports PJ_Prelude
begin

text \<open>
  \<open>payjoin/src/core/persist.rs\<close>: state transitions that must be saved, and the persister that
  saves their events. A transition is a value of one of nine types; \<open>deconstruct\<close> splits it
  into the action on the persister and the outcome for the caller, and \<open>save\<close> executes the
  action before it hands out the outcome. The asynchronous variants run the same statements and
  only await each of them, so they have the same model.

  A persister is a record of three functions over its own state. What the sources promise about
  it (an append-only log that is read back in order) is the locale \<open>session_persister\<close>;
  \<open>InMemoryPersister\<close> is an interpretation.
\<close>

section \<open>Transitions and their outcomes\<close>

datatype 'e persist_actions = NoOp | Save 'e | SaveAndClose 'e

datatype ('e, 'n) accept_next_state = AcceptNextState 'e 'n

datatype ('e, 'n, 'c) accept_optional_transition = Success "('e, 'n) accept_next_state" | NoResults 'c

datatype ('e, 'x) reject_fatal = RejectFatal 'e 'x
datatype ('x, 'c) reject_transient = RejectTransient 'x 'c
datatype ('e, 's, 'x) reject_replyable_error = RejectReplyableError 'e 's 'x

datatype ('e, 'x, 's, 'c) rejection =
  Fatal "('e, 'x) reject_fatal"
| Transient "('x, 'c) reject_transient"
| ReplyableError "('e, 's, 'x) reject_replyable_error"

definition rejection_fatal :: "'e \<Rightarrow> 'x \<Rightarrow> ('e, 'x, 's, 'c) rejection" where
  "rejection_fatal event error = Fatal (RejectFatal event error)"

definition rejection_transient :: "'x \<Rightarrow> 'c \<Rightarrow> ('e, 'x, 's, 'c) rejection" where
  "rejection_transient error current_state = Transient (RejectTransient error current_state)"

definition rejection_replyable_error :: "'e \<Rightarrow> 's \<Rightarrow> 'x \<Rightarrow> ('e, 'x, 's, 'c) rejection" where
  "rejection_replyable_error event error_state error =
     ReplyableError (RejectReplyableError event error_state error)"

datatype ('e, 'n) maybe_terminal_outcome = Advance "('e, 'n) accept_next_state" | Terminate 'e

datatype ('e, 'n, 'x, 'c) maybe_terminal_success_outcome =
  SuccessAdvance "('e, 'n) accept_next_state"
| SuccessTerminate 'e
| FatalAdvance 'e 'n 'x
| FatalTerminate 'e 'x
| SuccessTransient 'x 'c

datatype ('x, 's, 'c) api_error = ApiTransient 'x 'c | ApiFatal 'x | ApiFatalWithState 'x 's

datatype ('x, 'd, 's, 'c) persisted_error = Api "('x, 's, 'c) api_error" | Storage 'd

datatype ('n, 'c) optional_transition_outcome = Progress 'n | Stasis 'c

definition storage_error :: "('x, 'd, 's, 'c) persisted_error \<Rightarrow> 'd option" where
  "storage_error e = (case e of Storage d \<Rightarrow> Some d | _ \<Rightarrow> None)"

definition api_error :: "('x, 'd, 's, 'c) persisted_error \<Rightarrow> 'x option" where
  "api_error e =
     (case e of
        Api (ApiFatal x) \<Rightarrow> Some x
      | Api (ApiTransient x _) \<Rightarrow> Some x
      | Api (ApiFatalWithState x _) \<Rightarrow> Some x
      | _ \<Rightarrow> None)"

definition fatal_state :: "('x, 'd, 's, 'c) persisted_error \<Rightarrow> 's option" where
  "fatal_state e = (case e of Api (ApiFatalWithState _ s) \<Rightarrow> Some s | _ \<Rightarrow> None)"

definition transient_state :: "('x, 'd, 's, 'c) persisted_error \<Rightarrow> 'c option" where
  "transient_state e = (case e of Api (ApiTransient _ c) \<Rightarrow> Some c | _ \<Rightarrow> None)"

definition is_transient :: "('x, 'd, 's, 'c) persisted_error \<Rightarrow> bool" where
  "is_transient e = (case e of Api (ApiTransient _ _) \<Rightarrow> True | _ \<Rightarrow> False)"

definition is_fatal :: "('x, 'd, 's, 'c) persisted_error \<Rightarrow> bool" where
  "is_fatal e =
     (case e of Api (ApiFatal _) \<Rightarrow> True | Api (ApiFatalWithState _ _) \<Rightarrow> True | _ \<Rightarrow> False)"

section \<open>Persisters\<close>

text \<open>
  \<open>SessionPersister\<close>: \<open>'p\<close> is the state of the storage, \<open>'e\<close> the event type and \<open>'d\<close> the storage
  error. A call may change the state even when it fails.
\<close>

record ('p, 'e, 'd) persister =
  save_event :: "'e \<Rightarrow> 'p \<Rightarrow> (unit, 'd) res \<times> 'p"
  load :: "'p \<Rightarrow> ('e list, 'd) res"
  close_session :: "'p \<Rightarrow> (unit, 'd) res \<times> 'p"

fun execute :: "('p, 'e, 'd) persister \<Rightarrow> 'e persist_actions \<Rightarrow> 'p \<Rightarrow> (unit, 'd) res \<times> 'p" where
  "execute P NoOp p = (Ok (), p)"
| "execute P (Save e) p = save_event P e p"
| "execute P (SaveAndClose e) p =
     (case save_event P e p of
        (Ok _, p') \<Rightarrow> close_session P p'
      | (r, p') \<Rightarrow> (r, p'))"

text \<open>The body of \<open>save\<close> for the transitions whose outcome can be an error, and for the others.\<close>

definition save_outcome ::
  "('p, 'e, 'd) persister \<Rightarrow> 'e persist_actions \<times> ('a, ('x, 's, 'c) api_error) res \<Rightarrow> 'p \<Rightarrow>
     ('a, ('x, 'd, 's, 'c) persisted_error) res \<times> 'p" where
  "save_outcome P t p =
     (case t of (actions, outcome) \<Rightarrow>
        case execute P actions p of
          (r, p') \<Rightarrow> (rbind (map_err Storage r) (\<lambda>_. map_err Api outcome), p'))"

definition save_value ::
  "('p, 'e, 'd) persister \<Rightarrow> 'e persist_actions \<times> 'a \<Rightarrow> 'p \<Rightarrow> ('a, 'd) res \<times> 'p" where
  "save_value P t p =
     (case t of (actions, next_state) \<Rightarrow>
        case execute P actions p of (r, p') \<Rightarrow> (rmap (\<lambda>_. next_state) r, p'))"

section \<open>The nine transition types\<close>

datatype ('e, 'n, 'c, 'x) maybe_success_transition_with_no_results =
  MaybeSuccessTransitionWithNoResults
    "(('e, 'n, 'c) accept_optional_transition, ('e, 'x, unit, 'c) rejection) res"

fun success_with_no_results_deconstruct ::
  "('e, 'n, 'c, 'x) maybe_success_transition_with_no_results \<Rightarrow>
     'e persist_actions \<times> (('n, 'c) optional_transition_outcome, ('x, unit, 'c) api_error) res" where
  "success_with_no_results_deconstruct (MaybeSuccessTransitionWithNoResults t) =
     (case t of
        Ok (Success (AcceptNextState event n)) \<Rightarrow> (SaveAndClose event, Ok (Progress n))
      | Ok (NoResults c) \<Rightarrow> (NoOp, Ok (Stasis c))
      | Err (Fatal (RejectFatal event x)) \<Rightarrow> (SaveAndClose event, Err (ApiFatal x))
      | Err (Transient (RejectTransient x c)) \<Rightarrow> (NoOp, Err (ApiTransient x c))
      | Err (ReplyableError (RejectReplyableError event _ x)) \<Rightarrow> (Save event, Err (ApiFatal x))
      | Panic \<Rightarrow> (NoOp, Panic))"

datatype ('e, 'n, 'c, 'x) maybe_fatal_transition_with_no_results =
  MaybeFatalTransitionWithNoResults
    "(('e, 'n, 'c) accept_optional_transition, ('e, 'x, unit, 'c) rejection) res"

fun fatal_with_no_results_deconstruct ::
  "('e, 'n, 'c, 'x) maybe_fatal_transition_with_no_results \<Rightarrow>
     'e persist_actions \<times> (('n, 'c) optional_transition_outcome, ('x, unit, 'c) api_error) res" where
  "fatal_with_no_results_deconstruct (MaybeFatalTransitionWithNoResults t) =
     (case t of
        Ok (Success (AcceptNextState event n)) \<Rightarrow> (Save event, Ok (Progress n))
      | Ok (NoResults c) \<Rightarrow> (NoOp, Ok (Stasis c))
      | Err (Fatal (RejectFatal event x)) \<Rightarrow> (SaveAndClose event, Err (ApiFatal x))
      | Err (Transient (RejectTransient x c)) \<Rightarrow> (NoOp, Err (ApiTransient x c))
      | Err (ReplyableError (RejectReplyableError event _ x)) \<Rightarrow> (Save event, Err (ApiFatal x))
      | Panic \<Rightarrow> (NoOp, Panic))"

datatype ('e, 'n, 'x, 's, 'c) maybe_fatal_transition =
  MaybeFatalTransition "(('e, 'n) accept_next_state, ('e, 'x, 's, 'c) rejection) res"

fun fatal_deconstruct ::
  "('e, 'n, 'x, 's, 'c) maybe_fatal_transition \<Rightarrow>
     'e persist_actions \<times> ('n, ('x, 's, 'c) api_error) res" where
  "fatal_deconstruct (MaybeFatalTransition t) =
     (case t of
        Ok (AcceptNextState event n) \<Rightarrow> (Save event, Ok n)
      | Err (Fatal (RejectFatal event x)) \<Rightarrow> (SaveAndClose event, Err (ApiFatal x))
      | Err (Transient (RejectTransient x c)) \<Rightarrow> (NoOp, Err (ApiTransient x c))
      | Err (ReplyableError (RejectReplyableError event s x)) \<Rightarrow>
          (Save event, Err (ApiFatalWithState x s))
      | Panic \<Rightarrow> (NoOp, Panic))"

datatype ('e, 'n, 'x, 'c) maybe_transient_transition =
  MaybeTransientTransition "(('e, 'n) accept_next_state, ('x, 'c) reject_transient) res"

fun transient_deconstruct ::
  "('e, 'n, 'x, 'c) maybe_transient_transition \<Rightarrow>
     'e persist_actions \<times> ('n, ('x, unit, 'c) api_error) res" where
  "transient_deconstruct (MaybeTransientTransition t) =
     (case t of
        Ok (AcceptNextState event n) \<Rightarrow> (Save event, Ok n)
      | Err (RejectTransient x c) \<Rightarrow> (NoOp, Err (ApiTransient x c))
      | Panic \<Rightarrow> (NoOp, Panic))"

datatype ('e, 'n) next_state_transition = NextStateTransition "('e, 'n) accept_next_state"

fun next_state_deconstruct :: "('e, 'n) next_state_transition \<Rightarrow> 'e persist_actions \<times> 'n" where
  "next_state_deconstruct (NextStateTransition (AcceptNextState event n)) = (Save event, n)"

datatype ('e, 'n) maybe_terminal_transition =
  MaybeTerminalTransition "('e, 'n) maybe_terminal_outcome"

fun terminal_deconstruct ::
  "('e, 'n) maybe_terminal_transition \<Rightarrow> 'e persist_actions \<times> 'n option" where
  "terminal_deconstruct (MaybeTerminalTransition t) =
     (case t of
        Advance (AcceptNextState event n) \<Rightarrow> (Save event, Some n)
      | Terminate event \<Rightarrow> (SaveAndClose event, None))"

datatype ('e, 'n, 'x, 'c) maybe_terminal_success_transition =
  MaybeTerminalSuccessTransition "('e, 'n, 'x, 'c) maybe_terminal_success_outcome"

fun terminal_success_deconstruct ::
  "('e, 'n, 'x, 'c) maybe_terminal_success_transition \<Rightarrow>
     'e persist_actions \<times> ('n option, ('x, 'n, 'c) api_error) res" where
  "terminal_success_deconstruct (MaybeTerminalSuccessTransition t) =
     (case t of
        SuccessAdvance (AcceptNextState event n) \<Rightarrow> (Save event, Ok (Some n))
      | SuccessTerminate event \<Rightarrow> (SaveAndClose event, Ok None)
      | FatalAdvance event n x \<Rightarrow> (Save event, Err (ApiFatalWithState x n))
      | FatalTerminate event x \<Rightarrow> (SaveAndClose event, Err (ApiFatal x))
      | SuccessTransient x c \<Rightarrow> (NoOp, Err (ApiTransient x c)))"

datatype ('e, 'a) terminal_transition = TerminalTransition 'e 'a

fun terminal_transition_deconstruct :: "('e, 'a) terminal_transition \<Rightarrow> 'e persist_actions \<times> 'a" where
  "terminal_transition_deconstruct (TerminalTransition event v) = (SaveAndClose event, v)"

datatype ('e, 'c, 'x) maybe_fatal_or_success_transition =
  FosSuccess 'e
| FosNoResults 'c
| FosTransient "('x, 'c) reject_transient"
| FosFatal "('e, 'x) reject_fatal"

fun fatal_or_success_deconstruct ::
  "('e, 'c, 'x) maybe_fatal_or_success_transition \<Rightarrow>
     'e persist_actions \<times> ((unit, 'c) optional_transition_outcome, ('x, unit, 'c) api_error) res" where
  "fatal_or_success_deconstruct (FosSuccess event) = (SaveAndClose event, Ok (Progress ()))"
| "fatal_or_success_deconstruct (FosNoResults c) = (NoOp, Ok (Stasis c))"
| "fatal_or_success_deconstruct (FosTransient (RejectTransient x c)) = (NoOp, Err (ApiTransient x c))"
| "fatal_or_success_deconstruct (FosFatal (RejectFatal event x)) = (SaveAndClose event, Err (ApiFatal x))"

section \<open>Building and saving transitions\<close>

definition mf_success :: "'e \<Rightarrow> 'n \<Rightarrow> ('e, 'n, 'x, 's, 'c) maybe_fatal_transition" where
  "mf_success event n = MaybeFatalTransition (Ok (AcceptNextState event n))"

definition mf_fatal :: "'e \<Rightarrow> 'x \<Rightarrow> ('e, 'n, 'x, 's, 'c) maybe_fatal_transition" where
  "mf_fatal event x = MaybeFatalTransition (Err (rejection_fatal event x))"

definition mf_transient :: "'x \<Rightarrow> 'c \<Rightarrow> ('e, 'n, 'x, 's, 'c) maybe_fatal_transition" where
  "mf_transient x c = MaybeFatalTransition (Err (rejection_transient x c))"

definition mf_replyable_error :: "'e \<Rightarrow> 's \<Rightarrow> 'x \<Rightarrow> ('e, 'n, 'x, 's, 'c) maybe_fatal_transition" where
  "mf_replyable_error event s x = MaybeFatalTransition (Err (rejection_replyable_error event s x))"

definition fnr_success :: "'e \<Rightarrow> 'n \<Rightarrow> ('e, 'n, 'c, 'x) maybe_fatal_transition_with_no_results" where
  "fnr_success event n = MaybeFatalTransitionWithNoResults (Ok (Success (AcceptNextState event n)))"

definition fnr_no_results :: "'c \<Rightarrow> ('e, 'n, 'c, 'x) maybe_fatal_transition_with_no_results" where
  "fnr_no_results c = MaybeFatalTransitionWithNoResults (Ok (NoResults c))"

definition fnr_fatal :: "'e \<Rightarrow> 'x \<Rightarrow> ('e, 'n, 'c, 'x) maybe_fatal_transition_with_no_results" where
  "fnr_fatal event x = MaybeFatalTransitionWithNoResults (Err (rejection_fatal event x))"

definition fnr_transient :: "'x \<Rightarrow> 'c \<Rightarrow> ('e, 'n, 'c, 'x) maybe_fatal_transition_with_no_results" where
  "fnr_transient x c = MaybeFatalTransitionWithNoResults (Err (rejection_transient x c))"

definition snr_success :: "'n \<Rightarrow> 'e \<Rightarrow> ('e, 'n, 'c, 'x) maybe_success_transition_with_no_results" where
  "snr_success v event = MaybeSuccessTransitionWithNoResults (Ok (Success (AcceptNextState event v)))"

definition snr_no_results :: "'c \<Rightarrow> ('e, 'n, 'c, 'x) maybe_success_transition_with_no_results" where
  "snr_no_results c = MaybeSuccessTransitionWithNoResults (Ok (NoResults c))"

definition snr_fatal :: "'e \<Rightarrow> 'x \<Rightarrow> ('e, 'n, 'c, 'x) maybe_success_transition_with_no_results" where
  "snr_fatal event x = MaybeSuccessTransitionWithNoResults (Err (rejection_fatal event x))"

definition snr_transient :: "'x \<Rightarrow> 'c \<Rightarrow> ('e, 'n, 'c, 'x) maybe_success_transition_with_no_results" where
  "snr_transient x c = MaybeSuccessTransitionWithNoResults (Err (rejection_transient x c))"

definition mt_success :: "'e \<Rightarrow> 'n \<Rightarrow> ('e, 'n, 'x, 'c) maybe_transient_transition" where
  "mt_success event n = MaybeTransientTransition (Ok (AcceptNextState event n))"

definition mt_transient :: "'x \<Rightarrow> 'c \<Rightarrow> ('e, 'n, 'x, 'c) maybe_transient_transition" where
  "mt_transient x c = MaybeTransientTransition (Err (RejectTransient x c))"

definition ns_success :: "'e \<Rightarrow> 'n \<Rightarrow> ('e, 'n) next_state_transition" where
  "ns_success event n = NextStateTransition (AcceptNextState event n)"

lemmas transition_defs = mf_success_def mf_fatal_def mf_transient_def mf_replyable_error_def
  fnr_success_def fnr_no_results_def fnr_fatal_def fnr_transient_def
  snr_success_def snr_no_results_def snr_fatal_def snr_transient_def
  mt_success_def mt_transient_def ns_success_def
  rejection_fatal_def rejection_transient_def rejection_replyable_error_def

definition success_with_no_results_save where
  "success_with_no_results_save P t = save_outcome P (success_with_no_results_deconstruct t)"

definition fatal_with_no_results_save where
  "fatal_with_no_results_save P t = save_outcome P (fatal_with_no_results_deconstruct t)"

definition fatal_save where
  "fatal_save P t = save_outcome P (fatal_deconstruct t)"

definition transient_save where
  "transient_save P t = save_outcome P (transient_deconstruct t)"

definition next_state_save where
  "next_state_save P t = save_value P (next_state_deconstruct t)"

definition terminal_save where
  "terminal_save P t = save_value P (terminal_deconstruct t)"

definition terminal_success_save where
  "terminal_success_save P t = save_outcome P (terminal_success_deconstruct t)"

definition terminal_transition_save where
  "terminal_transition_save P t = save_value P (terminal_transition_deconstruct t)"

definition fatal_or_success_save where
  "fatal_or_success_save P t = save_outcome P (fatal_or_success_deconstruct t)"

section \<open>The contract of a persister\<close>

fun saved_events :: "'e persist_actions \<Rightarrow> 'e list" where
  "saved_events NoOp = []"
| "saved_events (Save e) = [e]"
| "saved_events (SaveAndClose e) = [e]"

text \<open>
  A saved event is appended to the log, a load returns the log, and closing keeps the log and
  marks the session. Nothing is promised about the log after a failed save.
\<close>

locale session_persister =
  fixes P :: "('p, 'e, 'd) persister"
    and log_of :: "'p \<Rightarrow> 'e list"
    and is_closed :: "'p \<Rightarrow> bool"
  assumes save_appends: "save_event P e p = (Ok (), p') \<Longrightarrow> log_of p' = log_of p @ [e]"
    and save_keeps_closed: "save_event P e p = (Ok (), p') \<Longrightarrow> is_closed p' = is_closed p"
    and load_reads: "load P p = Ok es \<Longrightarrow> es = log_of p"
    and close_keeps: "close_session P p = (r, p') \<Longrightarrow> log_of p' = log_of p"
    and close_marks: "close_session P p = (Ok (), p') \<Longrightarrow> is_closed p'"
begin

lemma execute_log:
  "execute P a p = (Ok (), p') \<Longrightarrow> log_of p' = log_of p @ saved_events a"
  by (cases a) (auto dest!: save_appends close_keeps split: prod.splits res.splits)

lemma execute_closes:
  "execute P a p = (Ok (), p') \<Longrightarrow>
     is_closed p' \<longleftrightarrow> is_closed p \<or> (\<exists>e. a = SaveAndClose e)"
  by (cases a) (auto dest!: save_keeps_closed close_marks split: prod.splits res.splits)

lemma save_value_log:
  assumes "save_value P t p = (Ok v, p')"
  shows "log_of p' = log_of p @ saved_events (fst t) \<and> v = snd t"
  using assms execute_log [of "fst t" p p']
  by (auto simp: save_value_def rmap_eq_Ok split: prod.splits)

lemma save_outcome_log:
  assumes "save_outcome P t p = (r, p')" and "\<nexists>d. r = Err (Storage d)" and "r \<noteq> Panic"
  shows "log_of p' = log_of p @ saved_events (fst t)"
proof -
  obtain r' where x: "execute P (fst t) p = (r', p')" and r: "r = rbind (map_err Storage r') (\<lambda>_. map_err Api (snd t))"
    using assms(1) by (auto simp: save_outcome_def split: prod.splits)
  from r assms(2,3) have "r' = Ok ()" by (cases r') auto
  with x show ?thesis using execute_log by simp
qed

end

text \<open>A persister whose operations never fail.\<close>

locale reliable_persister = session_persister +
  assumes save_total: "\<exists>p'. save_event P e p = (Ok (), p')"
    and load_total: "load P p = Ok (log_of p)"
    and close_total: "\<exists>p'. close_session P p = (Ok (), p')"
begin

lemma execute_total: "\<exists>p'. execute P a p = (Ok (), p')"
proof (cases a)
  case (SaveAndClose e)
  obtain p1 where "save_event P e p = (Ok (), p1)" using save_total by blast
  moreover obtain p2 where "close_session P p1 = (Ok (), p2)" using close_total by blast
  ultimately show ?thesis by (simp add: SaveAndClose)
qed (use save_total in auto)

lemma save_outcome_total:
  "\<exists>p'. save_outcome P t p = (map_err Api (snd t), p') \<and> log_of p' = log_of p @ saved_events (fst t)"
proof -
  obtain p' where "execute P (fst t) p = (Ok (), p')" using execute_total by blast
  then show ?thesis by (cases t) (auto simp: save_outcome_def dest: execute_log)
qed

lemma save_value_total:
  "\<exists>p'. save_value P t p = (Ok (snd t), p') \<and> log_of p' = log_of p @ saved_events (fst t)"
proof -
  obtain p' where "execute P (fst t) p = (Ok (), p')" using execute_total by blast
  then show ?thesis by (cases t) (auto simp: save_value_def dest: execute_log)
qed

end

section \<open>The in-memory persister\<close>

record 'e inner_storage =
  in_events :: "'e list"
  in_is_closed :: bool

definition default_storage :: "'e inner_storage" where
  "default_storage = \<lparr>in_events = [], in_is_closed = False\<rparr>"

definition in_memory_save :: "'e \<Rightarrow> 'e inner_storage \<Rightarrow> (unit, 'd) res \<times> 'e inner_storage" where
  "in_memory_save event st = (Ok (), st\<lparr>in_events := in_events st @ [event]\<rparr>)"

definition in_memory_load :: "'e inner_storage \<Rightarrow> ('e list, 'd) res" where
  "in_memory_load st = Ok (in_events st)"

definition in_memory_close :: "'e inner_storage \<Rightarrow> (unit, 'd) res \<times> 'e inner_storage" where
  "in_memory_close st = (Ok (), st\<lparr>in_is_closed := True\<rparr>)"

definition in_memory_persister :: "('e inner_storage, 'e, 'd) persister" where
  "in_memory_persister = \<lparr>save_event = in_memory_save, load = in_memory_load,
     close_session = in_memory_close\<rparr>"

interpretation in_memory: reliable_persister in_memory_persister in_events in_is_closed
  by unfold_locales
    (auto simp: in_memory_persister_def in_memory_save_def in_memory_load_def in_memory_close_def)

section \<open>What an error tells the caller\<close>

text \<open>
  A deconstructed transition is consistent when a transient rejection saves nothing and every
  other error saves an event; every transition type is.
\<close>

definition consistent :: "'e persist_actions \<times> ('a, ('x, 's, 'c) api_error) res \<Rightarrow> bool" where
  "consistent t \<longleftrightarrow>
     (case snd t of
        Err (ApiTransient _ _) \<Rightarrow> fst t = NoOp
      | Err _ \<Rightarrow> fst t \<noteq> NoOp
      | _ \<Rightarrow> True)"

lemma success_with_no_results_consistent: "consistent (success_with_no_results_deconstruct t)"
  by (cases t; simp add: consistent_def split: res.split accept_optional_transition.split
      accept_next_state.split rejection.split reject_fatal.split reject_transient.split
      reject_replyable_error.split)

lemma fatal_with_no_results_consistent: "consistent (fatal_with_no_results_deconstruct t)"
  by (cases t; simp add: consistent_def split: res.split accept_optional_transition.split
      accept_next_state.split rejection.split reject_fatal.split reject_transient.split
      reject_replyable_error.split)

lemma fatal_consistent: "consistent (fatal_deconstruct t)"
  by (cases t; simp add: consistent_def split: res.split accept_next_state.split rejection.split
      reject_fatal.split reject_transient.split reject_replyable_error.split)

lemma transient_consistent: "consistent (transient_deconstruct t)"
  by (cases t; simp add: consistent_def split: res.split accept_next_state.split reject_transient.split)

lemma terminal_success_consistent: "consistent (terminal_success_deconstruct t)"
  by (cases t; simp add: consistent_def split: maybe_terminal_success_outcome.split accept_next_state.split)

lemma fatal_or_success_consistent: "consistent (fatal_or_success_deconstruct t)"
  by (cases t rule: fatal_or_success_deconstruct.cases; simp add: consistent_def)

lemmas deconstruct_consistent = success_with_no_results_consistent fatal_with_no_results_consistent
  fatal_consistent transient_consistent terminal_success_consistent fatal_or_success_consistent

lemma save_outcome_error:
  assumes "save_outcome P t p = (Err e, p')" and "consistent t"
  shows "(is_transient e \<longrightarrow> p' = p) \<and>
    (is_fatal e \<longrightarrow> (\<exists>a. fst t = a \<and> a \<noteq> NoOp \<and> execute P a p = (Ok (), p')))"
proof -
  obtain r' where x: "execute P (fst t) p = (r', p')" and r: "Err e = rbind (map_err Storage r') (\<lambda>_. map_err Api (snd t))"
    using assms(1) by (auto simp: save_outcome_def split: prod.splits)
  from r consider d where "r' = Err d" "e = Storage d" | y where "r' = Ok ()" "snd t = Err y" "e = Api y"
    by (cases r') (auto simp: eq_commute [of "Err e"] map_err_eq_Err)
  then show ?thesis
    using x assms(2) by cases (auto simp: is_transient_def is_fatal_def consistent_def split: api_error.splits)
qed

text \<open>What a persister holds after a transition was saved and the caller got an error.\<close>

definition error_report ::
  "('p, 'e, 'd) persister \<Rightarrow> 'p \<Rightarrow> ('a, ('x, 'd, 's, 'c) persisted_error) res \<times> 'p \<Rightarrow> bool" where
  "error_report P p rp \<longleftrightarrow>
     (case rp of (Err e, p') \<Rightarrow>
          (if is_transient e then p' = p
           else if is_fatal e then (\<exists>event. execute P (Save event) p = (Ok (), p') \<or> execute P (SaveAndClose event) p = (Ok (), p'))
           else storage_error e \<noteq> None)
      | _ \<Rightarrow> True)"

lemma save_outcome_reports: "consistent t \<Longrightarrow> error_report P p (save_outcome P t p)"
proof -
  assume c: "consistent t"
  obtain r p' where s: "save_outcome P t p = (r, p')" by fastforce
  show ?thesis
  proof (cases r)
    case (Err e)
    with s save_outcome_error [of P t p e p'] c have m: "is_transient e \<longrightarrow> p' = p"
      "is_fatal e \<longrightarrow> fst t \<noteq> NoOp \<and> execute P (fst t) p = (Ok (), p')" by auto
    have "is_transient e \<or> is_fatal e \<or> storage_error e \<noteq> None"
      by (auto simp: is_transient_def is_fatal_def storage_error_def split: persisted_error.splits api_error.splits)
    moreover have "\<exists>event. execute P (Save event) p = (Ok (), p') \<or> execute P (SaveAndClose event) p = (Ok (), p')"
      if "is_fatal e"
      using m(2) that by (cases "fst t") auto
    ultimately show ?thesis using s Err m(1) by (auto simp: error_report_def)
  qed (use s in \<open>simp_all add: error_report_def\<close>)
qed


end
