(* ===== verification/PJ_Session.thy ===== *)
theory PJ_Session
  imports PJ_Persist PJ_Errors
begin

text \<open>
  What the receiver's and the sender's session share: the errors of a replay (\<open>error.rs\<close>), the
  interface to the application, and the contract of an event-sourced state machine. Its locale
  proves once that replaying the events of any run gives back the last saved state.
\<close>

section \<open>Interfaces\<close>

text \<open>
  The crates that the sessions use; \<open>json_from_slice\<close> and \<open>psbt_deserialize\<close> read JSON text and
  the binary form of a PSBT.
\<close>

record env =
  e_btc :: btc
  e_text :: text_api
  e_wire :: wire_api
  json_to_string :: "json \<Rightarrow> string"
  json_from_slice :: "string \<Rightarrow> json option"
  psbt_serialize :: "psbt \<Rightarrow> string"
  psbt_deserialize :: "string \<Rightarrow> nat + psbt"

definition extract_tx :: "env \<Rightarrow> psbt \<Rightarrow> transaction" where
  "extract_tx E p = extract_tx_unchecked_fee_rate (e_btc E) p"

section \<open>Errors of a replay\<close>

datatype ('s, 'e) replay_error =
  NoEvents
| InvalidEvent 'e "'s option"
| InvalidEventPayload 'e string
| Expired time "transaction option"
| PersistenceFailure implementation_error

definition is_expired :: "('s, 'e) replay_error \<Rightarrow> bool" where
  "is_expired e = (case e of Expired _ _ \<Rightarrow> True | _ \<Rightarrow> False)"

definition expiry_fallback_tx :: "('s, 'e) replay_error \<Rightarrow> transaction option" where
  "expiry_fallback_tx e = (case e of Expired _ tx \<Rightarrow> tx | _ \<Rightarrow> None)"

text \<open>\<open>Iterator::find_map\<close>\<close>

fun find_map :: "('a \<Rightarrow> 'b option) \<Rightarrow> 'a list \<Rightarrow> 'b option" where
  "find_map f [] = None"
| "find_map f (x # xs) = (case f x of Some y \<Rightarrow> Some y | None \<Rightarrow> find_map f xs)"

lemma find_map_append: "find_map f (xs @ ys) = (case find_map f xs of Some y \<Rightarrow> Some y | None \<Rightarrow> find_map f ys)"
  by (induction xs) (auto split: option.splits)

lemma try_fold_append: "try_fold f b (xs @ ys) = rbind (try_fold f b xs) (\<lambda>b'. try_fold f b' ys)"
proof (induction xs arbitrary: b)
  case (Cons x xs)
  then show ?case by (cases "f b x") auto
qed simp

section \<open>Event-sourced state machines\<close>

text \<open>
  A run of a live machine: a step saves at most one event. The first component is the state
  after the last saved event, the second the state of the handle, the third the log.
\<close>

inductive runs ::
  "('s \<Rightarrow> 'e option \<Rightarrow> 's \<Rightarrow> bool) \<Rightarrow> 's \<Rightarrow> 's \<Rightarrow> 's \<Rightarrow> 'e list \<Rightarrow> bool"
  for step :: "'s \<Rightarrow> 'e option \<Rightarrow> 's \<Rightarrow> bool" and s0 :: 's where
  started: "runs step s0 s0 s0 []"
| saved: "runs step s0 c s es \<Longrightarrow> step s (Some e) s' \<Longrightarrow> runs step s0 s' s' (es @ [e])"
| silent: "runs step s0 c s es \<Longrightarrow> step s None s' \<Longrightarrow> runs step s0 c s' es"

lemma runs_one: "step s0 (Some e) s' \<Longrightarrow> runs step s0 s' s' [e]"
  using saved [of step s0 s0 s0 "[]" e s'] by (simp add: started)

lemma runs_two: "step s0 (Some e) s1 \<Longrightarrow> step s1 (Some e') s' \<Longrightarrow> runs step s0 s' s' [e, e']"
  using saved [of step s0 s1 s1 "[e]" e' s'] by (simp add: runs_one)

text \<open>
  The contract. \<open>process_event\<close> is the replay's transition function. \<open>stored s\<close> is what the log
  determines of a saved state, and \<open>resumes c s\<close> relates a saved state to the handle, which may
  have changed since by operations that save nothing.
\<close>

locale event_sourced =
  fixes process_event :: "'s \<Rightarrow> 'e \<Rightarrow> ('s, 'x) res"
    and step :: "'s \<Rightarrow> 'e option \<Rightarrow> 's \<Rightarrow> bool"
    and stored :: "'s \<Rightarrow> 's"
    and resumes :: "'s \<Rightarrow> 's \<Rightarrow> bool"
  assumes step_saved: "resumes c s \<Longrightarrow> step s (Some e) s' \<Longrightarrow> process_event (stored c) e = Ok (stored s') \<and> resumes s' s'"
    and step_silent: "resumes c s \<Longrightarrow> step s None s' \<Longrightarrow> resumes c s'"
begin

lemma replay_gives_saved_state:
  assumes "runs step s0 c s es" and "resumes s0 s0"
  shows "try_fold process_event (stored s0) es = Ok (stored c) \<and> resumes c s"
  using assms(1)
proof induction
  case (saved c s es e s')
  then show ?case using step_saved [of c s e s'] by (auto simp: try_fold_append)
qed (use assms(2) step_silent in auto)

text \<open>Every prefix of the log replays as well.\<close>

lemma replay_prefix:
  assumes "runs step s0 c s (es @ es')" and "resumes s0 s0"
  shows "\<exists>s1. try_fold process_event (stored s0) es = Ok s1"
  using replay_gives_saved_state [OF assms] by (auto simp: try_fold_append rbind_eq_Ok)

end

end
