(* ===== verification/PJ_Receive_V2.thy ===== *)
theory PJ_Receive_V2
  imports PJ_Receive PJ_Session
begin

text \<open>
  The receiver's session of version 2: \<open>payjoin/src/core/receive/v2/mod.rs\<close> and
  \<open>receive/v2/session.rs\<close>. Every typestate has its handlers, which return transitions to be
  saved, and \<open>process_event\<close> applies a saved event to a session when the log is replayed.

  A typestate with one field is that field, so that \<open>Receiver<S>\<close> is the record \<open>receiver\<close> over the
  type of that field. An address stands for its output script. Reading the clock and drawing
  random bytes are arguments.
\<close>

section \<open>Sessions and events\<close>

record session_context =
  sc_address :: script
  sc_directory :: url
  sc_ohttp_keys :: nat
  sc_expiration :: time
  sc_amount :: "amount option"
  sc_receiver_key :: hpke_key_pair
  sc_reply_key :: "hpke_public_key option"
  sc_max_fee_rate :: fee_rate

record 's receiver =
  rc_state :: 's
  rc_context :: session_context

record has_replyable_error =
  hre_error_reply :: json_reply
  hre_fallback_tx :: "transaction option"

datatype session_outcome =
  SuccessOutcome txid | Aborted | FallbackBroadcasted | PayjoinProposalSent | Unrecognized txid

datatype session_event =
  Created session_context
| RetrievedOriginalPayload original_payload "hpke_public_key option"
| CheckedBroadcastSuitability
| CheckedInputsNotOwned
| CheckedNoInputsSeenBefore
| IdentifiedReceiverOutputs "nat list"
| CommittedOutputs "txout list" nat
| CommittedInputs "input_pair list" psbt
| AppliedFeeRange psbt_context
| FinalizedProposal psbt
| GotReplyableError json_reply
| PostedPayjoinProposal
| Cancelled
| ProtocolFailed
| Closed session_outcome

datatype receive_session =
  Initialized "unit receiver"
| UncheckedOriginalPayload "original_payload receiver"
| MaybeInputsOwned "original_payload receiver"
| MaybeInputsSeen "original_payload receiver"
| OutputsUnknown "original_payload receiver"
| WantsOutputs "wants_outputs receiver"
| WantsInputs "wants_inputs receiver"
| WantsFeeRange "wants_fee_range receiver"
| ProvisionalProposal "psbt_context receiver"
| PayjoinProposal "psbt_context receiver"
| HasReplyableError "has_replyable_error receiver"
| Monitor "psbt_context receiver"
| PendingFallback "transaction receiver"
| ClosedSession session_outcome

definition receive_session_new :: "session_context \<Rightarrow> receive_session" where
  "receive_session_new context = Initialized \<lparr>rc_state = (), rc_context = context\<rparr>"

text \<open>The fallback transaction of the typestates that have one.\<close>

definition payload_fallback_tx :: "env \<Rightarrow> original_payload \<Rightarrow> transaction" where
  "payload_fallback_tx E p = extract_tx E (pl_psbt p)"

definition wants_outputs_fallback_tx :: "env \<Rightarrow> wants_outputs \<Rightarrow> transaction" where
  "wants_outputs_fallback_tx E s = extract_tx E (oc_original_psbt (wo_original s))"

definition wants_inputs_fallback_tx :: "env \<Rightarrow> wants_inputs \<Rightarrow> transaction" where
  "wants_inputs_fallback_tx E s = extract_tx E (oc_original_psbt (wi_original s))"

definition wants_fee_range_fallback_tx :: "env \<Rightarrow> wants_fee_range \<Rightarrow> transaction" where
  "wants_fee_range_fallback_tx E s = extract_tx E (oc_original_psbt (wf_original s))"

definition proposal_fallback_tx :: "env \<Rightarrow> psbt_context \<Rightarrow> transaction" where
  "proposal_fallback_tx E s = extract_tx E (pc_original_psbt s)"

section \<open>Replaying one event\<close>

definition invalid_event_payload ::
  "session_event \<Rightarrow> string \<Rightarrow> (receive_session, session_event) replay_error" where
  "invalid_event_payload event reason = InvalidEventPayload event reason"

definition apply_retrieved_original_payload ::
  "original_payload \<Rightarrow> hpke_public_key option \<Rightarrow> unit receiver \<Rightarrow> receive_session" where
  "apply_retrieved_original_payload event reply_key r =
     UncheckedOriginalPayload \<lparr>rc_state = event, rc_context = (rc_context r)\<lparr>sc_reply_key := reply_key\<rparr>\<rparr>"

definition apply_checked_broadcast_suitability :: "original_payload receiver \<Rightarrow> receive_session" where
  "apply_checked_broadcast_suitability r = MaybeInputsOwned \<lparr>rc_state = rc_state r, rc_context = rc_context r\<rparr>"

definition apply_checked_inputs_not_owned :: "original_payload receiver \<Rightarrow> receive_session" where
  "apply_checked_inputs_not_owned r = MaybeInputsSeen \<lparr>rc_state = rc_state r, rc_context = rc_context r\<rparr>"

definition apply_checked_no_inputs_seen_before :: "original_payload receiver \<Rightarrow> receive_session" where
  "apply_checked_no_inputs_seen_before r = OutputsUnknown \<lparr>rc_state = rc_state r, rc_context = rc_context r\<rparr>"

definition apply_identified_receiver_outputs ::
  "nat list \<Rightarrow> original_payload receiver \<Rightarrow> (receive_session, (receive_session, session_event) replay_error) res"
where
  "apply_identified_receiver_outputs owned_vouts r =
     (let output_count = length (tx_output (unsigned_tx (pl_psbt (rc_state r))))
      in if owned_vouts = [] \<or> list_ex (\<lambda>v. output_count \<le> v) owned_vouts
         then Err (invalid_event_payload (IdentifiedReceiverOutputs owned_vouts)
                (''owned vouts must be non-empty and within the original PSBT's '' @ show_dec output_count
                 @ '' outputs''))
         else rmap (\<lambda>inner. WantsOutputs \<lparr>rc_state = inner, rc_context = rc_context r\<rparr>)
                (wants_outputs_new (rc_state r) owned_vouts))"

definition apply_committed_outputs ::
  "txout list \<Rightarrow> nat \<Rightarrow> wants_outputs receiver \<Rightarrow> (receive_session, (receive_session, session_event) replay_error) res"
where
  "apply_committed_outputs outs change_vout r =
     (let output_count = length outs
      in if output_count \<le> change_vout
         then Err (invalid_event_payload (CommittedOutputs outs change_vout)
                (''change vout '' @ show_dec change_vout @ '' is out of bounds; '' @ show_dec output_count
                 @ '' outputs committed''))
         else (let original = oc_original_psbt (wo_original (rc_state r));
                   payjoin_psbt = original\<lparr>outputs := replicate (length outs) default_psbt_output,
                     unsigned_tx := (unsigned_tx original)\<lparr>tx_output := outs\<rparr>\<rparr>;
                   proposal = \<lparr>wp_payjoin_psbt = payjoin_psbt, wp_change_vout = change_vout,
                     wp_receiver_inputs = []\<rparr>
               in Ok (WantsInputs \<lparr>rc_state = \<lparr>wi_original = wo_original (rc_state r), wi_proposal = proposal\<rparr>,
                                   rc_context = rc_context r\<rparr>)))"

definition apply_committed_inputs ::
  "input_pair list \<Rightarrow> psbt \<Rightarrow> wants_inputs receiver \<Rightarrow> (receive_session, (receive_session, session_event) replay_error) res"
where
  "apply_committed_inputs receiver_inputs payjoin_psbt r =
     (let change_vout = wp_change_vout (wi_proposal (rc_state r));
          output_count = length (tx_output (unsigned_tx payjoin_psbt))
      in if output_count \<le> change_vout
         then Err (invalid_event_payload (CommittedInputs receiver_inputs payjoin_psbt)
                (''change vout '' @ show_dec change_vout @ '' is out of bounds; committed PSBT has ''
                 @ show_dec output_count @ '' outputs''))
         else Ok (WantsFeeRange \<lparr>rc_state = \<lparr>wf_original = wi_original (rc_state r),
                    wf_proposal = \<lparr>wp_payjoin_psbt = payjoin_psbt, wp_change_vout = change_vout,
                      wp_receiver_inputs = receiver_inputs\<rparr>\<rparr>, rc_context = rc_context r\<rparr>))"

definition apply_applied_fee_range :: "psbt_context \<Rightarrow> wants_fee_range receiver \<Rightarrow> receive_session" where
  "apply_applied_fee_range c r = ProvisionalProposal \<lparr>rc_state = c, rc_context = rc_context r\<rparr>"

definition apply_payjoin_proposal :: "psbt \<Rightarrow> psbt_context receiver \<Rightarrow> receive_session" where
  "apply_payjoin_proposal p r =
     PayjoinProposal \<lparr>rc_state = \<lparr>pc_original_psbt = pc_original_psbt (rc_state r), pc_payjoin_psbt = p\<rparr>,
                      rc_context = rc_context r\<rparr>"

definition apply_payjoin_posted :: "psbt_context receiver \<Rightarrow> receive_session" where
  "apply_payjoin_posted r = Monitor \<lparr>rc_state = rc_state r, rc_context = rc_context r\<rparr>"

definition pending_fallback_from :: "transaction \<Rightarrow> session_context \<Rightarrow> receive_session" where
  "pending_fallback_from tx context = PendingFallback \<lparr>rc_state = tx, rc_context = context\<rparr>"

definition pending_fallback_from_replyable_error ::
  "has_replyable_error receiver \<Rightarrow> (receive_session, receive_session) res" where
  "pending_fallback_from_replyable_error r =
     (case hre_fallback_tx (rc_state r) of
        Some tx \<Rightarrow> Ok (PendingFallback \<lparr>rc_state = tx, rc_context = rc_context r\<rparr>)
      | None \<Rightarrow> Err (HasReplyableError \<lparr>rc_state = \<lparr>hre_error_reply = hre_error_reply (rc_state r),
                  hre_fallback_tx = None\<rparr>, rc_context = rc_context r\<rparr>))"

fun try_pending_fallback :: "env \<Rightarrow> receive_session \<Rightarrow> (receive_session, receive_session) res" where
  "try_pending_fallback E (MaybeInputsOwned r) = Ok (pending_fallback_from (payload_fallback_tx E (rc_state r)) (rc_context r))"
| "try_pending_fallback E (MaybeInputsSeen r) = Ok (pending_fallback_from (payload_fallback_tx E (rc_state r)) (rc_context r))"
| "try_pending_fallback E (OutputsUnknown r) = Ok (pending_fallback_from (payload_fallback_tx E (rc_state r)) (rc_context r))"
| "try_pending_fallback E (WantsOutputs r) = Ok (pending_fallback_from (wants_outputs_fallback_tx E (rc_state r)) (rc_context r))"
| "try_pending_fallback E (WantsInputs r) = Ok (pending_fallback_from (wants_inputs_fallback_tx E (rc_state r)) (rc_context r))"
| "try_pending_fallback E (WantsFeeRange r) = Ok (pending_fallback_from (wants_fee_range_fallback_tx E (rc_state r)) (rc_context r))"
| "try_pending_fallback E (ProvisionalProposal r) = Ok (pending_fallback_from (proposal_fallback_tx E (rc_state r)) (rc_context r))"
| "try_pending_fallback E (PayjoinProposal r) = Ok (pending_fallback_from (proposal_fallback_tx E (rc_state r)) (rc_context r))"
| "try_pending_fallback E (HasReplyableError r) = pending_fallback_from_replyable_error r"
| "try_pending_fallback E (Monitor r) = Ok (pending_fallback_from (proposal_fallback_tx E (rc_state r)) (rc_context r))"
| "try_pending_fallback E session = Err session"

text \<open>The context and the fallback transaction that a replyable error keeps, per session state.\<close>

fun error_context :: "env \<Rightarrow> receive_session \<Rightarrow> (session_context \<times> transaction option) option" where
  "error_context E (Initialized r) = Some (rc_context r, None)"
| "error_context E (UncheckedOriginalPayload r) = Some (rc_context r, None)"
| "error_context E (MaybeInputsOwned r) = Some (rc_context r, Some (payload_fallback_tx E (rc_state r)))"
| "error_context E (MaybeInputsSeen r) = Some (rc_context r, Some (payload_fallback_tx E (rc_state r)))"
| "error_context E (OutputsUnknown r) = Some (rc_context r, Some (payload_fallback_tx E (rc_state r)))"
| "error_context E (WantsOutputs r) = Some (rc_context r, Some (wants_outputs_fallback_tx E (rc_state r)))"
| "error_context E (WantsInputs r) = Some (rc_context r, Some (wants_inputs_fallback_tx E (rc_state r)))"
| "error_context E (WantsFeeRange r) = Some (rc_context r, Some (wants_fee_range_fallback_tx E (rc_state r)))"
| "error_context E (ProvisionalProposal r) = Some (rc_context r, Some (proposal_fallback_tx E (rc_state r)))"
| "error_context E (PayjoinProposal r) = Some (rc_context r, Some (proposal_fallback_tx E (rc_state r)))"
| "error_context E (HasReplyableError r) = Some (rc_context r, hre_fallback_tx (rc_state r))"
| "error_context E (Monitor r) = Some (rc_context r, Some (proposal_fallback_tx E (rc_state r)))"
| "error_context E (PendingFallback r) = Some (rc_context r, Some (rc_state r))"
| "error_context E (ClosedSession _) = None"

definition process_event ::
  "env \<Rightarrow> receive_session \<Rightarrow> session_event \<Rightarrow> (receive_session, (receive_session, session_event) replay_error) res"
where
  "process_event E session event =
     (case event of
        Cancelled \<Rightarrow> map_err (\<lambda>s. InvalidEvent Cancelled (Some s)) (try_pending_fallback E session)
      | ProtocolFailed \<Rightarrow> map_err (\<lambda>s. InvalidEvent ProtocolFailed (Some s)) (try_pending_fallback E session)
      | Closed outcome \<Rightarrow> Ok (ClosedSession outcome)
      | GotReplyableError error \<Rightarrow>
          (case error_context E session of
             Some (context, tx) \<Rightarrow>
               Ok (HasReplyableError \<lparr>rc_state = \<lparr>hre_error_reply = error, hre_fallback_tx = tx\<rparr>,
                                      rc_context = context\<rparr>)
           | None \<Rightarrow> Ok session)
      | _ \<Rightarrow>
          (case (session, event) of
             (Initialized r, RetrievedOriginalPayload proposal reply_key) \<Rightarrow>
               Ok (apply_retrieved_original_payload proposal reply_key r)
           | (UncheckedOriginalPayload r, CheckedBroadcastSuitability) \<Rightarrow>
               Ok (apply_checked_broadcast_suitability r)
           | (MaybeInputsOwned r, CheckedInputsNotOwned) \<Rightarrow> Ok (apply_checked_inputs_not_owned r)
           | (MaybeInputsSeen r, CheckedNoInputsSeenBefore) \<Rightarrow> Ok (apply_checked_no_inputs_seen_before r)
           | (OutputsUnknown r, IdentifiedReceiverOutputs owned_vouts) \<Rightarrow>
               apply_identified_receiver_outputs owned_vouts r
           | (WantsOutputs r, CommittedOutputs outs change_vout) \<Rightarrow>
               apply_committed_outputs outs change_vout r
           | (WantsInputs r, CommittedInputs receiver_inputs payjoin_psbt) \<Rightarrow>
               apply_committed_inputs receiver_inputs payjoin_psbt r
           | (WantsFeeRange r, AppliedFeeRange c) \<Rightarrow> Ok (apply_applied_fee_range c r)
           | (ProvisionalProposal r, FinalizedProposal p) \<Rightarrow> Ok (apply_payjoin_proposal p r)
           | (PayjoinProposal r, PostedPayjoinProposal) \<Rightarrow> Ok (apply_payjoin_posted r)
           | _ \<Rightarrow> Err (InvalidEvent event (Some session))))"

end
