(* ===== verification/PJ_Receive_Live.thy ===== *)
theory PJ_Receive_Live
  imports PJ_Receive_V2
begin

text \<open>
  The handlers of the receiver's typestates (\<open>receive/v2/mod.rs\<close>): what the application calls
  between saves. Each returns the transition that its source returns.
\<close>

section \<open>Building a session\<close>

definition twenty_four_hours_ns :: nat where
  "twenty_four_hours_ns = 60 * 60 * 24 * 10 ^ 9"

definition receiver_builder_new ::
  "env \<Rightarrow> clock \<Rightarrow> nat \<Rightarrow> script \<Rightarrow> string \<Rightarrow> nat \<Rightarrow> (session_context, into_url_error) res" where
  "receiver_builder_new E c random address directory ohttp_keys =
     rbind (into_url directory) (\<lambda>u.
     rbind (case time_from_now (e_wire E) c twenty_four_hours_ns of Ok t \<Rightarrow> Ok t | _ \<Rightarrow> Panic) (\<lambda>t.
       Ok \<lparr>sc_address = address, sc_directory = u, sc_ohttp_keys = ohttp_keys, sc_expiration = t,
           sc_amount = None, sc_receiver_key = gen_keypair (e_wire E) random, sc_reply_key = None,
           sc_max_fee_rate = broadcast_min (e_btc E)\<rparr>))"

definition with_expiration :: "env \<Rightarrow> clock \<Rightarrow> nat \<Rightarrow> session_context \<Rightarrow> (session_context, 'e) res" where
  "with_expiration E c expiration_ns b =
     (case time_from_now (e_wire E) c expiration_ns of
        Ok t \<Rightarrow> Ok (b\<lparr>sc_expiration := t\<rparr>) | _ \<Rightarrow> Panic)"

definition with_amount :: "amount \<Rightarrow> session_context \<Rightarrow> session_context" where
  "with_amount a b = b\<lparr>sc_amount := Some a\<rparr>"

definition with_max_fee_rate :: "fee_rate \<Rightarrow> session_context \<Rightarrow> session_context" where
  "with_max_fee_rate r b = b\<lparr>sc_max_fee_rate := r\<rparr>"

definition receiver_build :: "session_context \<Rightarrow> (session_event, unit receiver) next_state_transition" where
  "receiver_build b = ns_success (Created b) \<lparr>rc_state = (), rc_context = b\<rparr>"

section \<open>Mailboxes and requests\<close>

definition proposal_mailbox_id :: "env \<Rightarrow> session_context \<Rightarrow> (short_id, 'e) res" where
  "proposal_mailbox_id E sc = short_id_from_pubkey (e_wire E) (snd (sc_receiver_key sc))"

definition reply_mailbox_id :: "env \<Rightarrow> session_context \<Rightarrow> (short_id, 'e) res" where
  "reply_mailbox_id E sc =
     short_id_from_pubkey (e_wire E)
       (case sc_reply_key sc of Some k \<Rightarrow> k | None \<Rightarrow> snd (sc_receiver_key sc))"

definition mailbox_endpoint :: "env \<Rightarrow> url \<Rightarrow> short_id \<Rightarrow> (url, 'e) res" where
  "mailbox_endpoint E directory i =
     rmap (\<lambda>s. push_segments [s] directory) (short_id_to_string (e_wire E) i)"

definition full_relay_url :: "url \<Rightarrow> string \<Rightarrow> (url, into_url_error) res" where
  "full_relay_url directory ohttp_relay =
     rbind (into_url ohttp_relay) (\<lambda>relay_base.
     rbind (map_err ParseError (join ''/'' directory)) (\<lambda>directory_base.
       map_err ParseError (join (''/'' @ raw directory_base) relay_base)))"

definition check_not_expired :: "env \<Rightarrow> clock \<Rightarrow> time \<Rightarrow> (unit, create_request_error) res" where
  "check_not_expired E c expiration =
     rbind (elapsed (e_wire E) c expiration) (\<lambda>gone. ensure (\<not> gone) (RequestExpired expiration))"

definition fallback_req_body :: "env \<Rightarrow> string \<Rightarrow> session_context \<Rightarrow> (string \<times> nat, ohttp_error) res" where
  "fallback_req_body E random_bytes sc =
     rbind (proposal_mailbox_id E sc) (\<lambda>i.
     rbind (mailbox_endpoint E (sc_directory sc) i) (\<lambda>target.
       ohttp_encapsulate (e_wire E) random_bytes (sc_ohttp_keys sc) ''GET'' (raw target) None))"

definition create_poll_request ::
  "env \<Rightarrow> clock \<Rightarrow> string \<Rightarrow> string \<Rightarrow> unit receiver \<Rightarrow> (request \<times> nat, create_request_error) res" where
  "create_poll_request E c random_bytes ohttp_relay r =
     (let sc = rc_context r in
      rbind (check_not_expired E c (sc_expiration sc)) (\<lambda>_.
      rbind (map_err RequestOhttp (fallback_req_body E random_bytes sc)) (\<lambda>(bdy, ohttp_ctx).
      rbind (map_err RequestUrl (full_relay_url (sc_directory sc) ohttp_relay)) (\<lambda>u.
        Ok (new_v2 u bdy, ohttp_ctx)))))"

section \<open>\<open>Receiver<Initialized>\<close>\<close>

definition trim_nul :: "string \<Rightarrow> string" where
  "trim_nul s = rev (dropWhile (\<lambda>c. c = nul) (rev (dropWhile (\<lambda>c. c = nul) s)))"

definition unchecked_from_payload :: "env \<Rightarrow> string \<Rightarrow> (original_payload, protocol_error) res" where
  "unchecked_from_payload E payload =
     (let (base64, padded_query) = (case split_once CHR 0x0A payload of Some r \<Rightarrow> r | None \<Rightarrow> ([], []));
          q = trim_nul padded_query
      in rbind (map_err OriginalPayloadError (parse_payload (e_btc E) (e_text E) base64 q [One, Two])) (\<lambda>(p, par).
           Ok \<lparr>pl_psbt = p,
               pl_params = (if par_v par = One then par\<lparr>par_output_substitution := Disabled\<rparr> else par)\<rparr>))"

definition extract_proposal_from_v1 :: "env \<Rightarrow> string \<Rightarrow> (original_payload, protocol_error) res" where
  "extract_proposal_from_v1 E response = unchecked_from_payload E response"

definition extract_proposal_from_v2 ::
  "env \<Rightarrow> session_context \<Rightarrow> string \<Rightarrow> (original_payload \<times> hpke_public_key, protocol_error) res" where
  "extract_proposal_from_v2 E sc response =
     rbind (map_err (\<lambda>e. V2 (SessionHpke e))
              (decrypt_message_a (e_wire E) response (fst (sc_receiver_key sc)))) (\<lambda>(payload_bytes, reply_key).
     rbind (from_sum (\<lambda>e. OriginalPayloadError (Utf8 e)) (from_utf8 payload_bytes)) (\<lambda>payload.
       rmap (\<lambda>p. (p, reply_key)) (unchecked_from_payload E payload)))"

definition inner_process_res ::
  "env \<Rightarrow> string \<Rightarrow> nat \<Rightarrow> unit receiver \<Rightarrow>
     ((original_payload \<times> hpke_public_key option) option, protocol_error) res" where
  "inner_process_res E bdy context r =
     rbind (map_err (\<lambda>e. V2 (DirectoryResponse e)) (process_get_res (e_wire E) bdy context)) (\<lambda>content.
     case content of
       None \<Rightarrow> Ok None
     | Some b \<Rightarrow>
         (case from_utf8 b of
            Inr response \<Rightarrow> rmap (\<lambda>original. Some (original, None)) (extract_proposal_from_v1 E response)
          | Inl _ \<Rightarrow> rmap (\<lambda>(original, reply_key). Some (original, Some reply_key))
                       (extract_proposal_from_v2 E (rc_context r) b)))"

definition initialized_process_response ::
  "env \<Rightarrow> string \<Rightarrow> nat \<Rightarrow> unit receiver \<Rightarrow>
     (session_event, original_payload receiver, unit receiver, protocol_error) maybe_fatal_transition_with_no_results"
where
  "initialized_process_response E bdy context r =
     (case inner_process_res E bdy context r of
        Panic \<Rightarrow> MaybeFatalTransitionWithNoResults Panic
      | Err e \<Rightarrow>
          (case e of
             V2 (DirectoryResponse d) \<Rightarrow>
               if is_fatal_response d then fnr_fatal (Closed Aborted) e else fnr_transient e r
           | _ \<Rightarrow> fnr_fatal (Closed Aborted) e)
      | Ok (Some (proposal, reply_key)) \<Rightarrow>
          fnr_success (RetrievedOriginalPayload proposal reply_key)
            \<lparr>rc_state = proposal, rc_context = (rc_context r)\<lparr>sc_reply_key := reply_key\<rparr>\<rparr>
      | Ok None \<Rightarrow> fnr_no_results r)"

text \<open>\<open>cancel\<close> before the original was checked: the session closes at once.\<close>

definition cancel_unchecked :: "'s receiver \<Rightarrow> (session_event, unit) terminal_transition" where
  "cancel_unchecked r = TerminalTransition (Closed Aborted) ()"

section \<open>The checks\<close>

definition to_reply :: "env \<Rightarrow> receive_error \<Rightarrow> json_reply" where
  "to_reply E e = error_reply (e_text E) (json_to_string E) e"

definition replyable :: "env \<Rightarrow> receive_error \<Rightarrow> transaction option \<Rightarrow> session_context \<Rightarrow>
    (session_event, 'n, receive_error, has_replyable_error receiver, 'c) maybe_fatal_transition" where
  "replyable E e tx context =
     mf_replyable_error (GotReplyableError (to_reply E e))
       \<lparr>rc_state = \<lparr>hre_error_reply = to_reply E e, hre_fallback_tx = tx\<rparr>, rc_context = context\<rparr> e"

type_synonym ('n, 'c) check_transition =
  "(session_event, 'n, receive_error, has_replyable_error receiver, 'c) maybe_fatal_transition"

definition unchecked_check_broadcast_suitability ::
  "env \<Rightarrow> fee_rate option \<Rightarrow> (transaction \<Rightarrow> (bool, implementation_error) res) \<Rightarrow> original_payload receiver \<Rightarrow>
     (original_payload receiver, original_payload receiver) check_transition" where
  "unchecked_check_broadcast_suitability E min_rate can_broadcast r =
     (case check_broadcast_suitability (e_btc E) (rc_state r) min_rate can_broadcast of
        Ok _ \<Rightarrow> mf_success CheckedBroadcastSuitability \<lparr>rc_state = rc_state r, rc_context = rc_context r\<rparr>
      | Err (Implementation e) \<Rightarrow> mf_transient (Implementation e) r
      | Err e \<Rightarrow> replyable E e None (rc_context r)
      | Panic \<Rightarrow> MaybeFatalTransition Panic)"

definition assume_interactive_receiver ::
  "original_payload receiver \<Rightarrow> (session_event, original_payload receiver) next_state_transition" where
  "assume_interactive_receiver r =
     ns_success CheckedBroadcastSuitability \<lparr>rc_state = rc_state r, rc_context = rc_context r\<rparr>"

definition owned_check_inputs_not_owned ::
  "env \<Rightarrow> ('a, outpoint) callback \<Rightarrow> 'a \<Rightarrow> original_payload receiver \<Rightarrow>
     (original_payload receiver, original_payload receiver) check_transition \<times> 'a" where
  "owned_check_inputs_not_owned E is_owned a r =
     (let (res, a') = check_inputs_not_owned (rc_state r) is_owned a in
      (case res of
         Ok _ \<Rightarrow> mf_success CheckedInputsNotOwned \<lparr>rc_state = rc_state r, rc_context = rc_context r\<rparr>
       | Err (Implementation e) \<Rightarrow> mf_transient (Implementation e) r
       | Err e \<Rightarrow> replyable E e (Some (payload_fallback_tx E (rc_state r))) (rc_context r)
       | Panic \<Rightarrow> MaybeFatalTransition Panic, a'))"

definition seen_check_no_inputs_seen_before ::
  "env \<Rightarrow> ('a, outpoint) callback \<Rightarrow> 'a \<Rightarrow> original_payload receiver \<Rightarrow>
     (original_payload receiver, original_payload receiver) check_transition \<times> 'a" where
  "seen_check_no_inputs_seen_before E is_known a r =
     (let (res, a') = check_no_inputs_seen_before (rc_state r) is_known a in
      (case res of
         Ok _ \<Rightarrow> mf_success CheckedNoInputsSeenBefore \<lparr>rc_state = rc_state r, rc_context = rc_context r\<rparr>
       | Err (Implementation e) \<Rightarrow> mf_transient (Implementation e) r
       | Err e \<Rightarrow> replyable E e (Some (payload_fallback_tx E (rc_state r))) (rc_context r)
       | Panic \<Rightarrow> MaybeFatalTransition Panic, a'))"

definition unknown_identify_receiver_outputs ::
  "env \<Rightarrow> ('a, script) callback \<Rightarrow> 'a \<Rightarrow> original_payload receiver \<Rightarrow>
     (wants_outputs receiver, original_payload receiver) check_transition \<times> 'a" where
  "unknown_identify_receiver_outputs E is_receiver_output a r =
     (let (res, a') = identify_receiver_outputs (rc_state r) is_receiver_output a in
      (case res of
         Ok inner \<Rightarrow> mf_success (IdentifiedReceiverOutputs (wo_owned_vouts inner))
                       \<lparr>rc_state = inner, rc_context = rc_context r\<rparr>
       | Err (Implementation e) \<Rightarrow> mf_transient (Implementation e) r
       | Err e \<Rightarrow> replyable E e (Some (payload_fallback_tx E (rc_state r))) (rc_context r)
       | Panic \<Rightarrow> MaybeFatalTransition Panic, a'))"

section \<open>Contributions\<close>

definition v2_substitute_receiver_script ::
  "'g rng \<Rightarrow> 'g \<Rightarrow> script \<Rightarrow> wants_outputs receiver \<Rightarrow> (wants_outputs receiver, output_substitution_error) res" where
  "v2_substitute_receiver_script R g output_script r =
     rmap (\<lambda>inner. \<lparr>rc_state = inner, rc_context = rc_context r\<rparr>)
       (substitute_receiver_script R g (rc_state r) output_script)"

definition v2_replace_receiver_outputs ::
  "'g rng \<Rightarrow> 'g \<Rightarrow> txout list \<Rightarrow> script \<Rightarrow> wants_outputs receiver \<Rightarrow>
     (wants_outputs receiver, output_substitution_error) res" where
  "v2_replace_receiver_outputs R g replacement_outputs drain_script r =
     rmap (\<lambda>inner. \<lparr>rc_state = inner, rc_context = rc_context r\<rparr>)
       (replace_receiver_outputs R g (rc_state r) replacement_outputs drain_script)"

definition v2_commit_outputs :: "wants_outputs receiver \<Rightarrow> (session_event, wants_inputs receiver) next_state_transition" where
  "v2_commit_outputs r =
     (let inner = commit_outputs (rc_state r) in
      ns_success (CommittedOutputs (tx_output (unsigned_tx (wp_payjoin_psbt (wi_proposal inner))))
                    (wp_change_vout (wi_proposal inner)))
        \<lparr>rc_state = inner, rc_context = rc_context r\<rparr>)"

definition v2_contribute_inputs ::
  "env \<Rightarrow> 'g rng \<Rightarrow> 'g \<Rightarrow> input_pair list \<Rightarrow> wants_inputs receiver \<Rightarrow> (wants_inputs receiver, input_contribution_error) res" where
  "v2_contribute_inputs E R g ps r =
     rmap (\<lambda>inner. \<lparr>rc_state = inner, rc_context = rc_context r\<rparr>)
       (contribute_inputs (e_btc E) R g (rc_state r) ps)"

definition v2_commit_inputs :: "wants_inputs receiver \<Rightarrow> (session_event, wants_fee_range receiver) next_state_transition" where
  "v2_commit_inputs r =
     (let inner = commit_inputs (rc_state r) in
      ns_success (CommittedInputs (wp_receiver_inputs (wf_proposal inner)) (wp_payjoin_psbt (wf_proposal inner)))
        \<lparr>rc_state = inner, rc_context = rc_context r\<rparr>)"

definition apply_fee_range ::
  "env \<Rightarrow> fee_rate option \<Rightarrow> fee_rate option \<Rightarrow> wants_fee_range receiver \<Rightarrow>
     (session_event, psbt_context receiver, protocol_error, unit, wants_fee_range receiver) maybe_fatal_transition" where
  "apply_fee_range E min_rate max_effective_rate r =
     (let max_rate = (case max_effective_rate of Some m \<Rightarrow> Some m | None \<Rightarrow> Some (sc_max_fee_rate (rc_context r)))
      in case calculate_psbt_context_with_fee_range (e_btc E) (rc_state r) min_rate max_rate of
           Ok c \<Rightarrow> mf_success (AppliedFeeRange c) \<lparr>rc_state = c, rc_context = rc_context r\<rparr>
         | Err e \<Rightarrow> mf_transient (OriginalPayloadError e) r
         | Panic \<Rightarrow> MaybeFatalTransition Panic)"

definition v2_finalize_proposal ::
  "env \<Rightarrow> (psbt \<Rightarrow> (psbt, implementation_error) res) \<Rightarrow> psbt_context receiver \<Rightarrow>
     (session_event, psbt_context receiver, implementation_error, psbt_context receiver) maybe_transient_transition" where
  "v2_finalize_proposal E wallet_process_psbt r =
     (case finalize_proposal (e_btc E) (e_text E) (rc_state r) wallet_process_psbt of
        Ok payjoin_psbt \<Rightarrow>
          mt_success (FinalizedProposal payjoin_psbt)
            \<lparr>rc_state = \<lparr>pc_original_psbt = pc_original_psbt (rc_state r), pc_payjoin_psbt = payjoin_psbt\<rparr>,
             rc_context = rc_context r\<rparr>
      | Err e \<Rightarrow> mt_transient e r
      | Panic \<Rightarrow> MaybeTransientTransition Panic)"

section \<open>Posting the proposal\<close>

text \<open>The request of the proposal: sealed for a version 2 sender, in the clear for a version 1 sender.\<close>

definition proposal_post_body ::
  "env \<Rightarrow> nat \<Rightarrow> psbt_context receiver \<Rightarrow> (string \<times> url \<times> string, create_request_error) res" where
  "proposal_post_body E random r =
     (let sc = rc_context r; p = pc_payjoin_psbt (rc_state r) in
      case sc_reply_key sc of
        Some e \<Rightarrow>
          rbind (short_id_from_pubkey (e_wire E) e) (\<lambda>sender_mailbox.
          rbind (mailbox_endpoint E (sc_directory sc) sender_mailbox) (\<lambda>target.
          rbind (map_err RequestHpke
                   (encrypt_message_b (e_wire E) random (psbt_serialize E p) (sc_receiver_key sc) e)) (\<lambda>bdy.
            Ok (''POST'', target, bdy))))
      | None \<Rightarrow>
          rbind (proposal_mailbox_id E sc) (\<lambda>receiver_mailbox.
          rbind (mailbox_endpoint E (sc_directory sc) receiver_mailbox) (\<lambda>target.
            Ok (''PUT'', target, psbt_to_str (e_text E) p))))"

definition create_post_request ::
  "env \<Rightarrow> clock \<Rightarrow> nat \<Rightarrow> string \<Rightarrow> string \<Rightarrow> psbt_context receiver \<Rightarrow> (request \<times> nat, create_request_error) res" where
  "create_post_request E c random random_bytes ohttp_relay r =
     (let sc = rc_context r in
      rbind (check_not_expired E c (sc_expiration sc)) (\<lambda>_.
      rbind (proposal_post_body E random r) (\<lambda>(verb, target, bdy).
      rbind (map_err RequestOhttp
               (ohttp_encapsulate (e_wire E) random_bytes (sc_ohttp_keys sc) verb (raw target) (Some bdy)))
        (\<lambda>(bdy', ctx).
      rbind (map_err RequestUrl (full_relay_url (sc_directory sc) ohttp_relay)) (\<lambda>u.
        Ok (new_v2 u bdy', ctx))))))"

definition proposal_process_response ::
  "env \<Rightarrow> string \<Rightarrow> nat \<Rightarrow> psbt_context receiver \<Rightarrow>
     (session_event, psbt_context receiver, protocol_error, transaction receiver, psbt_context receiver) maybe_fatal_transition"
where
  "proposal_process_response E response ohttp_context r =
     (case process_post_res (e_wire E) response ohttp_context of
        Ok _ \<Rightarrow> mf_success PostedPayjoinProposal \<lparr>rc_state = rc_state r, rc_context = rc_context r\<rparr>
      | Err e \<Rightarrow>
          if is_fatal_response e
          then mf_replyable_error ProtocolFailed
                 \<lparr>rc_state = proposal_fallback_tx E (rc_state r), rc_context = rc_context r\<rparr>
                 (V2 (DirectoryResponse e))
          else mf_transient (V2 (DirectoryResponse e)) r
      | Panic \<Rightarrow> MaybeFatalTransition Panic)"

section \<open>Replyable errors\<close>

definition replyable_cancel ::
  "has_replyable_error receiver \<Rightarrow> (session_event, transaction receiver) maybe_terminal_transition" where
  "replyable_cancel r =
     (case hre_fallback_tx (rc_state r) of
        Some tx \<Rightarrow> MaybeTerminalTransition (Advance (AcceptNextState Cancelled
                     \<lparr>rc_state = tx, rc_context = rc_context r\<rparr>))
      | None \<Rightarrow> MaybeTerminalTransition (Terminate (Closed Aborted)))"

definition error_body :: "env \<Rightarrow> nat \<Rightarrow> has_replyable_error receiver \<Rightarrow> (string, create_request_error) res" where
  "error_body E random r =
     (case sc_reply_key (rc_context r) of
        Some reply_key \<Rightarrow>
          map_err RequestHpke (encrypt_message_b (e_wire E) random
            (json_to_string E (to_json (hre_error_reply (rc_state r)))) (sc_receiver_key (rc_context r)) reply_key)
      | None \<Rightarrow> Ok (json_to_string E (to_json (json_reply_new Unavailable ''Receiver error''))))"

definition create_error_request ::
  "env \<Rightarrow> clock \<Rightarrow> nat \<Rightarrow> string \<Rightarrow> string \<Rightarrow> has_replyable_error receiver \<Rightarrow> (request \<times> nat, create_request_error) res" where
  "create_error_request E c random random_bytes ohttp_relay r =
     (let sc = rc_context r in
      rbind (check_not_expired E c (sc_expiration sc)) (\<lambda>_.
      rbind (reply_mailbox_id E sc) (\<lambda>i.
      rbind (mailbox_endpoint E (sc_directory sc) i) (\<lambda>mailbox.
      rbind (error_body E random r) (\<lambda>bdy.
      rbind (map_err RequestOhttp
               (ohttp_encapsulate (e_wire E) random_bytes (sc_ohttp_keys sc) ''POST'' (raw mailbox) (Some bdy)))
        (\<lambda>(bdy', ohttp_ctx).
      rbind (map_err RequestUrl (full_relay_url (sc_directory sc) ohttp_relay)) (\<lambda>u.
        Ok (new_v2 u bdy', ohttp_ctx))))))))"

definition pending_fallback_after_protocol_failure ::
  "has_replyable_error receiver \<Rightarrow> transaction receiver option" where
  "pending_fallback_after_protocol_failure r =
     map_option (\<lambda>tx. \<lparr>rc_state = tx, rc_context = rc_context r\<rparr>) (hre_fallback_tx (rc_state r))"

definition process_error_response ::
  "env \<Rightarrow> string \<Rightarrow> nat \<Rightarrow> has_replyable_error receiver \<Rightarrow>
     ((session_event, transaction receiver, protocol_error, has_replyable_error receiver) maybe_terminal_success_transition,
      'e) res"
where
  "process_error_response E response ohttp_context r =
     (let pending = pending_fallback_after_protocol_failure r;
          event = (case pending of Some _ \<Rightarrow> ProtocolFailed | None \<Rightarrow> Closed Aborted)
      in case process_post_res (e_wire E) response ohttp_context of
           Panic \<Rightarrow> Panic
         | Ok _ \<Rightarrow> Ok (MaybeTerminalSuccessTransition (case pending of
               Some p \<Rightarrow> SuccessAdvance (AcceptNextState event p) | None \<Rightarrow> SuccessTerminate event))
         | Err e \<Rightarrow> Ok (MaybeTerminalSuccessTransition
             (if \<not> is_fatal_response e then SuccessTransient (V2 (DirectoryResponse e)) r
              else (case pending of
                Some p \<Rightarrow> FatalAdvance event p (V2 (DirectoryResponse e))
              | None \<Rightarrow> FatalTerminate event (V2 (DirectoryResponse e))))))"

section \<open>Monitoring\<close>

definition txid_is_stable :: "transaction \<Rightarrow> bool" where
  "txid_is_stable tx = list_all (\<lambda>i. script_sig i = []) (tx_input tx)"

definition check_for_transaction ::
  "env \<Rightarrow> (txid \<Rightarrow> (transaction option, implementation_error) res) \<Rightarrow> psbt_context receiver \<Rightarrow>
     ((session_event, psbt_context receiver, receive_error) maybe_fatal_or_success_transition, 'e) res" where
  "check_for_transaction E find_transaction r =
     (let fallback_tx = proposal_fallback_tx E (rc_state r);
          payjoin_txid = compute_txid (e_btc E) (unsigned_tx (pc_payjoin_psbt (rc_state r)))
      in if \<not> txid_is_stable fallback_tx then Ok (FosSuccess (Closed PayjoinProposalSent))
         else case find_transaction payjoin_txid of
           Panic \<Rightarrow> Panic
         | Err e \<Rightarrow> Ok (FosTransient (RejectTransient (Implementation e) r))
         | Ok (Some tx) \<Rightarrow>
             (let tx_id = compute_txid (e_btc E) tx in
              if tx_id \<noteq> payjoin_txid
              then Ok (FosTransient (RejectTransient (Implementation
                     (''Payjoin transaction ID mismatch. Expected: '' @ show_txid (e_text E) payjoin_txid
                      @ '', Got: '' @ show_txid (e_text E) tx_id)) r))
              else Ok (FosSuccess (Closed (SuccessOutcome tx_id))))
         | Ok None \<Rightarrow>
             (case find_transaction (compute_txid (e_btc E) fallback_tx) of
                Panic \<Rightarrow> Panic
              | Err e \<Rightarrow> Ok (FosTransient (RejectTransient (Implementation e) r))
              | Ok (Some _) \<Rightarrow> Ok (FosSuccess (Closed FallbackBroadcasted))
              | Ok None \<Rightarrow> Ok (FosNoResults r)))"

section \<open>Cancelling and closing\<close>

text \<open>The typestates that hold a fallback transaction, with it and their context.\<close>

fun with_fallback :: "env \<Rightarrow> receive_session \<Rightarrow> (transaction \<times> session_context) option" where
  "with_fallback E (MaybeInputsOwned r) = Some (payload_fallback_tx E (rc_state r), rc_context r)"
| "with_fallback E (MaybeInputsSeen r) = Some (payload_fallback_tx E (rc_state r), rc_context r)"
| "with_fallback E (OutputsUnknown r) = Some (payload_fallback_tx E (rc_state r), rc_context r)"
| "with_fallback E (WantsOutputs r) = Some (wants_outputs_fallback_tx E (rc_state r), rc_context r)"
| "with_fallback E (WantsInputs r) = Some (wants_inputs_fallback_tx E (rc_state r), rc_context r)"
| "with_fallback E (WantsFeeRange r) = Some (wants_fee_range_fallback_tx E (rc_state r), rc_context r)"
| "with_fallback E (ProvisionalProposal r) = Some (proposal_fallback_tx E (rc_state r), rc_context r)"
| "with_fallback E (PayjoinProposal r) = Some (proposal_fallback_tx E (rc_state r), rc_context r)"
| "with_fallback E (Monitor r) = Some (proposal_fallback_tx E (rc_state r), rc_context r)"
| "with_fallback E s = None"

definition cancel_with_fallback ::
  "transaction \<Rightarrow> session_context \<Rightarrow> (session_event, transaction receiver) next_state_transition" where
  "cancel_with_fallback tx context = ns_success Cancelled \<lparr>rc_state = tx, rc_context = context\<rparr>"

definition close_pending :: "transaction receiver \<Rightarrow> (session_event, unit) terminal_transition" where
  "close_pending r = TerminalTransition (Closed Aborted) ()"

end
