(* ===== verification/PJ_Pj_Uri.thy ===== *)
theory PJ_Pj_Uri
  imports PJ_Receive_Live "HOL-Library.Char_ord" "HOL-Library.List_Lexorder"
begin

text \<open>
  The \<open>pj\<close> parameter of a payment URI: \<open>uri/v2.rs\<close> (the parameters in the fragment of a version 2
  endpoint), \<open>uri/v1.rs\<close> and \<open>uri/mod.rs\<close>. The URI itself is read and written by the crate
  \<open>bitcoin_uri\<close>, which calls the functions of the last section for each parameter. A fragment is
  ASCII here: a letter outside ASCII is rejected as an invalid character, also where the source
  would say that it is lower case.
\<close>

section \<open>Fragment parameters\<close>

datatype parse_fragment_error = InvalidChar char | AmbiguousDelimiter

definition fragment_char :: "char \<Rightarrow> bool" where
  "fragment_char c \<longleftrightarrow> is_digit c \<or> is_upper c \<or> c = CHR ''-'' \<or> c = CHR ''+''"

fun fragment_chars_loop :: "string \<Rightarrow> (unit, parse_fragment_error) res" where
  "fragment_chars_loop [] = Ok ()"
| "fragment_chars_loop (c # cs) =
     (if \<not> fragment_char c then Err (InvalidChar c) else fragment_chars_loop cs)"

definition check_fragment_delimiter :: "string \<Rightarrow> (char, parse_fragment_error) res" where
  "check_fragment_delimiter f =
     (let has_dash = CHR ''-'' \<in> set f; has_plus = CHR ''+'' \<in> set f
      in rbind (fragment_chars_loop f) (\<lambda>_.
           if has_dash \<and> has_plus then Err AmbiguousDelimiter
           else if \<not> has_dash \<and> has_plus then Ok CHR ''+''
           else Ok CHR ''-''))"

definition get_param :: "string \<Rightarrow> url \<Rightarrow> (string option, parse_fragment_error) res" where
  "get_param prfx u =
     (case fragment u of
        None \<Rightarrow> Ok None
      | Some f \<Rightarrow> rmap (\<lambda>delim. List.find (starts_with prfx) (split_on delim f)) (check_fragment_delimiter f))"

text \<open>A \<open>BTreeMap\<close> is a list of pairs sorted by key.\<close>

fun btree_insert :: "string \<Rightarrow> 'v \<Rightarrow> (string \<times> 'v) list \<Rightarrow> (string \<times> 'v) list" where
  "btree_insert k v [] = [(k, v)]"
| "btree_insert k v ((k', v') # m) =
     (if k < k' then (k, v) # (k', v') # m
      else if k = k' then (k', v) # m
      else (k', v') # btree_insert k v m)"

definition param_key :: "string \<Rightarrow> string" where
  "param_key param = before CHR ''1'' param"

definition set_param :: "string \<Rightarrow> url \<Rightarrow> (url, 'e) res" where
  "set_param new_param u =
     (let f = (case fragment u of Some s \<Rightarrow> s | None \<Rightarrow> [])
      in case check_fragment_delimiter f of
           Ok delim \<Rightarrow>
             (let ps = fold (\<lambda>p m. btree_insert (param_key p) p m) (filter (\<lambda>p. p \<noteq> []) (split_on delim f)) [];
                  ps' = btree_insert (param_key new_param) new_param ps
              in Ok (set_fragment (if ps' = [] then None else Some (join_with ''-'' (map snd ps'))) u))
         | _ \<Rightarrow> Panic)"

text \<open>The crate compares prefixes without regard to case.\<close>

definition same_hrp :: "string \<Rightarrow> string \<Rightarrow> bool" where
  "same_hrp a b \<longleftrightarrow> map to_lower a = map to_lower b"

datatype pubkey_param_error =
  MissingPubkey | PubkeyInvalidFormat | PubkeyInvalid hpke_error | PubkeyInvalidFragment parse_fragment_error

definition receiver_pubkey :: "wire_api \<Rightarrow> url \<Rightarrow> (hpke_public_key, pubkey_param_error) res" where
  "receiver_pubkey W u =
     rbind (map_err PubkeyInvalidFragment (get_param ''RK1'' u)) (\<lambda>found.
     rbind (ok_or MissingPubkey found) (\<lambda>v.
     rbind (ok_or PubkeyInvalidFormat (bech32_decode W v)) (\<lambda>(hrp, bytes).
       if \<not> same_hrp hrp ''RK'' then Err PubkeyInvalidFormat
       else map_err PubkeyInvalid (from_compressed_bytes W bytes))))"

definition set_receiver_pubkey :: "wire_api \<Rightarrow> hpke_public_key \<Rightarrow> url \<Rightarrow> (url, 'e) res" where
  "set_receiver_pubkey W pubkey u =
     rbind (to_compressed_bytes W pubkey) (\<lambda>bytes.
     rbind (expect (bech32_encode_upper W ''RK'' bytes)) (\<lambda>s. set_param s u))"

datatype ohttp_param_error =
  MissingOhttpKeys | OhttpInvalidFormat | OhttpInvalidKeys ohttp_keys_error | OhttpInvalidFragment parse_fragment_error

definition ohttp_param :: "wire_api \<Rightarrow> url \<Rightarrow> (nat, ohttp_param_error) res" where
  "ohttp_param W u =
     rbind (map_err OhttpInvalidFragment (get_param ''OH1'' u)) (\<lambda>found.
     rbind (ok_or MissingOhttpKeys found) (\<lambda>v.
     rbind (ok_or OhttpInvalidFormat (bech32_decode W v)) (\<lambda>(hrp, bytes).
       if \<not> same_hrp hrp ''OH'' then Err OhttpInvalidFormat
       else map_err OhttpInvalidKeys (ohttp_keys_from_bytes W bytes))))"

text \<open>\<open>to_string\<close> panics when the display fails.\<close>

definition ohttp_keys_to_string :: "wire_api \<Rightarrow> nat \<Rightarrow> (string, 'e) res" where
  "ohttp_keys_to_string W keys =
     (case ohttp_keys_to_bytes W keys of Ok b \<Rightarrow> expect (bech32_encode_upper W ''OH'' b) | _ \<Rightarrow> Panic)"

definition set_ohttp :: "wire_api \<Rightarrow> nat \<Rightarrow> url \<Rightarrow> (url, 'e) res" where
  "set_ohttp W keys u = rbind (ohttp_keys_to_string W keys) (\<lambda>s. set_param s u)"

datatype exp_param_error =
  MissingExp | ExpInvalidFormat | InvalidExp parse_time_error | ExpInvalidFragment parse_fragment_error

definition expiration_param :: "wire_api \<Rightarrow> url \<Rightarrow> (time, exp_param_error) res" where
  "expiration_param W u =
     rbind (map_err ExpInvalidFragment (get_param ''EX1'' u)) (\<lambda>found.
     rbind (ok_or MissingExp found) (\<lambda>v.
     rbind (ok_or ExpInvalidFormat (bech32_decode W v)) (\<lambda>(hrp, bytes).
       if \<not> same_hrp hrp ''EX'' then Err ExpInvalidFormat
       else map_err InvalidExp (time_from_bytes W bytes))))"

definition set_expiration :: "wire_api \<Rightarrow> time \<Rightarrow> url \<Rightarrow> (url, 'e) res" where
  "set_expiration W t u =
     rbind (expect (bech32_encode_upper W ''EX'' (time_to_bytes t))) (\<lambda>s. set_param s u)"

section \<open>The parameter of version 2\<close>

record pj_param_v2 =
  pj_directory :: url
  pj_id :: short_id
  pj_expiration :: time
  pj_ohttp_keys :: nat
  pj_receiver_pubkey :: hpke_public_key

datatype pj_parse_error_v2 =
  NotV2 | LowercaseFragment | InvalidReceiverPubkey pubkey_param_error
| InvalidOhttpKeys ohttp_param_error | InvalidExpiration exp_param_error

definition pj_v2_parse :: "wire_api \<Rightarrow> url \<Rightarrow> (pj_param_v2, pj_parse_error_v2) res" where
  "pj_v2_parse W u =
     rbind (case path_segments u of
              [segment] \<Rightarrow> map_err (\<lambda>_. NotV2) (short_id_from_str W segment)
            | _ \<Rightarrow> Err NotV2) (\<lambda>i.
     rbind (case fragment u of
              None \<Rightarrow> Ok ()
            | Some f \<Rightarrow>
                rbind (ensure (\<not> list_ex is_lower f) LowercaseFragment) (\<lambda>_.
                  ensure (find_str ''RK1'' f \<noteq> None \<and> find_str ''OH1'' f \<noteq> None \<and> find_str ''EX1'' f \<noteq> None) NotV2))
       (\<lambda>_.
     rbind (map_err InvalidReceiverPubkey (receiver_pubkey W u)) (\<lambda>rk.
     rbind (map_err InvalidOhttpKeys (ohttp_param W u)) (\<lambda>oh.
     rbind (map_err InvalidExpiration (expiration_param W u)) (\<lambda>ex.
       Ok \<lparr>pj_directory = u, pj_id = i, pj_expiration = ex, pj_ohttp_keys = oh, pj_receiver_pubkey = rk\<rparr>)))))"

definition pj_v2_endpoint :: "wire_api \<Rightarrow> pj_param_v2 \<Rightarrow> (url, 'e) res" where
  "pj_v2_endpoint W p =
     rbind (short_id_to_string W (pj_id p)) (\<lambda>i.
     rbind (case join i (pj_directory p) of Ok u \<Rightarrow> Ok u | _ \<Rightarrow> Panic) (\<lambda>u.
     rbind (set_receiver_pubkey W (pj_receiver_pubkey p) u) (\<lambda>u.
     rbind (set_ohttp W (pj_ohttp_keys p) u) (\<lambda>u.
       set_expiration W (pj_expiration p) u))))"

section \<open>The parameter of either version\<close>

datatype pj_param = PjV1 url | PjV2 pj_param_v2

datatype pj_parse_error =
  BadPjOs | DuplicateParams string | MissingEndpoint | NotUtf8 | PjIntoUrl into_url_error | UnsecureEndpoint
| PjParseV2 pj_parse_error_v2

definition ends_with :: "string \<Rightarrow> string \<Rightarrow> bool" where
  "ends_with sfx s \<longleftrightarrow> starts_with (rev sfx) (rev s)"

definition pj_v1_parse :: "url \<Rightarrow> (url, pj_parse_error) res" where
  "pj_v1_parse u =
     (if scheme u = ''https'' \<or>
         scheme u = ''http'' \<and> ends_with ''.onion'' (case domain u of Some s \<Rightarrow> s | None \<Rightarrow> [])
      then Ok u else Err UnsecureEndpoint)"

definition pj_param_parse :: "wire_api \<Rightarrow> string \<Rightarrow> (pj_param, pj_parse_error) res" where
  "pj_param_parse W s =
     rbind (map_err PjIntoUrl (into_url s)) (\<lambda>endpoint.
     case pj_v2_parse W endpoint of
       Err NotV2 \<Rightarrow> rmap PjV1 (pj_v1_parse endpoint)
     | Ok v2 \<Rightarrow> Ok (PjV2 v2)
     | Err e \<Rightarrow> Err (PjParseV2 e)
     | Panic \<Rightarrow> Panic)"

fun endpoint_url :: "wire_api \<Rightarrow> pj_param \<Rightarrow> (url, 'e) res" where
  "endpoint_url W (PjV1 u) = Ok u"
| "endpoint_url W (PjV2 p) = pj_v2_endpoint W p"

text \<open>\<open>replacen(old, new, 1)\<close>; a scheme and a host are ASCII.\<close>

definition replace_first :: "string \<Rightarrow> string \<Rightarrow> string \<Rightarrow> string" where
  "replace_first old new s =
     (case find_str old s of Some i \<Rightarrow> take i s @ new @ drop (i + length old) s | None \<Rightarrow> s)"

definition pj_param_to_string :: "wire_api \<Rightarrow> pj_param \<Rightarrow> (string, 'e) res" where
  "pj_param_to_string W p =
     rmap (\<lambda>endpoint.
       let sch = scheme endpoint; host = host_str (url_host endpoint)
       in replace_first host (map to_upper host) (replace_first sch (map to_upper sch) (raw endpoint)))
     (endpoint_url W p)"

record payjoin_extras =
  px_pj_param :: pj_param
  px_output_substitution :: output_substitution

datatype maybe_payjoin_extras = Supported payjoin_extras | Unsupported

definition serialize_payjoin_params :: "wire_api \<Rightarrow> payjoin_extras \<Rightarrow> ((string \<times> string) list, 'e) res" where
  "serialize_payjoin_params W extras =
     rmap (\<lambda>pj. (if px_output_substitution extras = Disabled then [(''pjos'', ''0'')] else []) @ [(''pj'', pj)])
       (pj_param_to_string W (px_pj_param extras))"

record deserialization_state =
  ds_pj :: "pj_param option"
  ds_pjos :: "output_substitution option"

definition is_param_known :: "string \<Rightarrow> bool" where
  "is_param_known param \<longleftrightarrow> param = ''pj'' \<or> param = ''pjos''"

datatype param_kind = Known | Unknown

text \<open>The value is the decoded parameter, if it is UTF-8.\<close>

definition deserialize_temp ::
  "wire_api \<Rightarrow> deserialization_state \<Rightarrow> string \<Rightarrow> string option \<Rightarrow>
     (deserialization_state \<times> param_kind, pj_parse_error) res" where
  "deserialize_temp W st key v =
     (if key = ''pj'' then
        if ds_pj st = None
        then rbind (ok_or NotUtf8 v) (\<lambda>endpoint.
             rmap (\<lambda>p. (st\<lparr>ds_pj := Some p\<rparr>, Known)) (pj_param_parse W endpoint))
        else Err (DuplicateParams ''pj'')
      else if key = ''pjos'' then
        if ds_pjos st = None
        then rbind (ok_or BadPjOs v) (\<lambda>s.
             if s = ''0'' then Ok (st\<lparr>ds_pjos := Some Disabled\<rparr>, Known)
             else if s = ''1'' then Ok (st\<lparr>ds_pjos := Some Enabled\<rparr>, Known)
             else Err BadPjOs)
        else Err (DuplicateParams ''pjos'')
      else Ok (st, Unknown))"

definition finalize :: "deserialization_state \<Rightarrow> (maybe_payjoin_extras, pj_parse_error) res" where
  "finalize st =
     (case (ds_pj st, ds_pjos st) of
        (None, None) \<Rightarrow> Ok Unsupported
      | (None, Some _) \<Rightarrow> Err MissingEndpoint
      | (Some p, pjos) \<Rightarrow>
          Ok (Supported \<lparr>px_pj_param = p,
                px_output_substitution = (case pjos of Some os \<Rightarrow> os | None \<Rightarrow> Enabled)\<rparr>))"

section \<open>The URI of a session\<close>

record pj_uri =
  uri_address :: script
  uri_amount :: "amount option"
  uri_extras :: payjoin_extras

definition session_pj_uri :: "env \<Rightarrow> session_context \<Rightarrow> output_substitution \<Rightarrow> (pj_uri, 'e) res" where
  "session_pj_uri E sc os =
     rmap (\<lambda>i. \<lparr>uri_address = sc_address sc, uri_amount = sc_amount sc,
             uri_extras = \<lparr>px_pj_param = PjV2 \<lparr>pj_directory = sc_directory sc, pj_id = i,
                 pj_expiration = sc_expiration sc, pj_ohttp_keys = sc_ohttp_keys sc,
                 pj_receiver_pubkey = snd (sc_receiver_key sc)\<rparr>, px_output_substitution = os\<rparr>\<rparr>)
       (proposal_mailbox_id E sc)"

end
