(* ===== verification/PJ_Send_V2.thy ===== *)
theory PJ_Send_V2
  imports PJ_Pj_Uri PJ_Send_Request
begin

text \<open>
  The version 2 sender: \<open>send/v2/mod.rs\<close> and \<open>send/v2/session.rs\<close>. Its typestates, what each of
  them sends and how it treats the response, the replay of its log, and the live machine, which
  is a second interpretation of \<open>event_sourced\<close>.
\<close>

section \<open>Sessions\<close>

record send_session_context =
  ss_pj_param :: pj_param_v2
  ss_psbt_ctx :: sender_context
  ss_reply_key :: hpke_secret_key

record 's v2_sender =
  sn_state :: 's
  sn_context :: send_session_context

datatype send_outcome = SendSuccess psbt | SendAborted

datatype send_event =
  SendCreated send_session_context
| PostedOriginalPsbt
| SendCancelled
| SendClosedEvent send_outcome

text \<open>The first two typestates have no field; the third is the fallback transaction.\<close>

datatype send_session =
  WithReplyKey "unit v2_sender"
| PollingForProposal "unit v2_sender"
| SendPendingFallback "transaction v2_sender"
| SendClosed send_outcome

definition send_session_new :: "send_session_context \<Rightarrow> send_session" where
  "send_session_new context = WithReplyKey \<lparr>sn_state = (), sn_context = context\<rparr>"

definition original_tx :: "env \<Rightarrow> send_session_context \<Rightarrow> transaction" where
  "original_tx E sc = extract_tx E (original_psbt (ss_psbt_ctx sc))"

definition apply_polling_for_proposal :: "unit v2_sender \<Rightarrow> send_session" where
  "apply_polling_for_proposal s = PollingForProposal \<lparr>sn_state = (), sn_context = sn_context s\<rparr>"

fun send_process_event ::
  "env \<Rightarrow> send_session \<Rightarrow> send_event \<Rightarrow> (send_session, (send_session, send_event) replay_error) res" where
  "send_process_event E (WithReplyKey s) PostedOriginalPsbt = Ok (apply_polling_for_proposal s)"
| "send_process_event E (PollingForProposal s) (SendClosedEvent (SendSuccess proposal)) =
     Ok (SendClosed (SendSuccess proposal))"
| "send_process_event E (WithReplyKey s) SendCancelled =
     Ok (SendPendingFallback \<lparr>sn_state = original_tx E (sn_context s), sn_context = sn_context s\<rparr>)"
| "send_process_event E (PollingForProposal s) SendCancelled =
     Ok (SendPendingFallback \<lparr>sn_state = original_tx E (sn_context s), sn_context = sn_context s\<rparr>)"
| "send_process_event E s (SendClosedEvent outcome) = Ok (SendClosed outcome)"
| "send_process_event E current_state event = Err (InvalidEvent event (Some current_state))"

section \<open>Building a sender\<close>

record v2_sender_builder =
  v2b_pj_param :: pj_param_v2
  v2b_output_substitution :: output_substitution
  v2b_psbt_ctx_builder :: psbt_context_builder

definition v2_from_parts :: "psbt \<Rightarrow> pj_param_v2 \<Rightarrow> script \<Rightarrow> amount option \<Rightarrow> v2_sender_builder" where
  "v2_from_parts p pj_param address amt =
     \<lparr>v2b_pj_param = pj_param, v2b_output_substitution = Enabled,
      v2b_psbt_ctx_builder = new_builder p address amt\<rparr>"

definition v2_builder_new :: "psbt \<Rightarrow> pj_uri \<Rightarrow> (v2_sender_builder, 'e) res" where
  "v2_builder_new p uri =
     (case px_pj_param (uri_extras uri) of
        PjV1 _ \<Rightarrow> Panic
      | PjV2 pj_param \<Rightarrow> Ok (v2_from_parts p pj_param (uri_address uri) (uri_amount uri)))"

definition v2_always_disable_output_substitution :: "v2_sender_builder \<Rightarrow> v2_sender_builder" where
  "v2_always_disable_output_substitution b = b\<lparr>v2b_output_substitution := Disabled\<rparr>"

definition v2_sender_new :: "env \<Rightarrow> nat \<Rightarrow> pj_param_v2 \<Rightarrow> sender_context \<Rightarrow> unit v2_sender" where
  "v2_sender_new E random pj_param psbt_ctx =
     \<lparr>sn_state = (), sn_context = \<lparr>ss_pj_param = pj_param, ss_psbt_ctx = psbt_ctx,
        ss_reply_key = fst (gen_keypair (e_wire E) random)\<rparr>\<rparr>"

definition v2_transition_from_psbt_ctx ::
  "env \<Rightarrow> nat \<Rightarrow> pj_param_v2 \<Rightarrow> sender_context \<Rightarrow> (send_event, unit v2_sender) next_state_transition" where
  "v2_transition_from_psbt_ctx E random pj_param psbt_ctx =
     (let sender = v2_sender_new E random pj_param psbt_ctx
      in ns_success (SendCreated (sn_context sender)) sender)"

definition v2_build_recommended ::
  "env \<Rightarrow> nat \<Rightarrow> v2_sender_builder \<Rightarrow> fee_rate \<Rightarrow>
     ((send_event, unit v2_sender) next_state_transition, build_sender_error) res" where
  "v2_build_recommended E random b min_rate =
     rmap (v2_transition_from_psbt_ctx E random (v2b_pj_param b))
       (build_recommended (e_btc E) (v2b_psbt_ctx_builder b) min_rate (v2b_output_substitution b))"

definition v2_build_with_additional_fee ::
  "env \<Rightarrow> nat \<Rightarrow> v2_sender_builder \<Rightarrow> amount \<Rightarrow> nat option \<Rightarrow> fee_rate \<Rightarrow> bool \<Rightarrow>
     ((send_event, unit v2_sender) next_state_transition, build_sender_error) res" where
  "v2_build_with_additional_fee E random b max_fee change_index min_rate clamp =
     rmap (v2_transition_from_psbt_ctx E random (v2b_pj_param b))
       (build_with_additional_fee (e_btc E) (v2b_psbt_ctx_builder b) max_fee change_index min_rate clamp
          (v2b_output_substitution b))"

definition v2_build_non_incentivizing ::
  "env \<Rightarrow> nat \<Rightarrow> v2_sender_builder \<Rightarrow> fee_rate \<Rightarrow>
     ((send_event, unit v2_sender) next_state_transition, build_sender_error) res" where
  "v2_build_non_incentivizing E random b min_rate =
     rmap (v2_transition_from_psbt_ctx E random (v2b_pj_param b))
       (build_non_incentivizing (e_btc E) (v2b_psbt_ctx_builder b) min_rate (v2b_output_substitution b))"

section \<open>Posting the original\<close>

definition sender_full_relay_url :: "env \<Rightarrow> send_session_context \<Rightarrow> string \<Rightarrow> (url, create_request_error) res" where
  "sender_full_relay_url E sc ohttp_relay =
     rbind (map_err RequestUrl (into_url ohttp_relay)) (\<lambda>relay_base.
     rbind (pj_v2_endpoint (e_wire E) (ss_pj_param sc)) (\<lambda>endpoint.
     rbind (map_err (\<lambda>e. RequestUrl (ParseError e)) (join ''/'' endpoint)) (\<lambda>directory_base.
       map_err (\<lambda>e. RequestUrl (ParseError e)) (join (''/'' @ raw directory_base) relay_base))))"

text \<open>The base URL of the placeholder is dropped again; only its query is sent.\<close>

definition serialize_v2_body ::
  "text_api \<Rightarrow> psbt \<Rightarrow> output_substitution \<Rightarrow> additional_fee_contribution option \<Rightarrow> fee_rate \<Rightarrow> (string, 'e) res" where
  "serialize_v2_body T p os contribution min_rate =
     (case parse ''http://localhost'' of
        Ok base_url \<Rightarrow>
          (let placeholder_url = serialize_url T base_url os contribution min_rate Two;
               query_params = (case query placeholder_url of Some q \<Rightarrow> q | None \<Rightarrow> [])
           in Ok (psbt_to_str T p @ [CHR 0x0A] @ query_params))
      | _ \<Rightarrow> Panic)"

definition extract_request ::
  "env \<Rightarrow> nat \<Rightarrow> string \<Rightarrow> send_session_context \<Rightarrow> string \<Rightarrow> string \<Rightarrow> (request \<times> nat, create_request_error) res" where
  "extract_request E random random_bytes sc ohttp_relay bdy =
     (let W = e_wire E; pj = ss_pj_param sc in
      rbind (map_err RequestHpke (encrypt_message_a W random bdy
               (snd (key_pair_from_secret_key W (ss_reply_key sc))) (pj_receiver_pubkey pj))) (\<lambda>bdy'.
      rbind (pj_v2_endpoint W pj) (\<lambda>endpoint.
      rbind (map_err RequestOhttp
               (ohttp_encapsulate W random_bytes (pj_ohttp_keys pj) ''POST'' (raw endpoint) (Some bdy')))
        (\<lambda>(bdy'', ohttp_ctx).
      rbind (sender_full_relay_url E sc ohttp_relay) (\<lambda>u.
        Ok (new_v2 u bdy'', ohttp_ctx))))))"

definition create_v2_post_request ::
  "env \<Rightarrow> clock \<Rightarrow> nat \<Rightarrow> string \<Rightarrow> string \<Rightarrow> unit v2_sender \<Rightarrow> (request \<times> nat, create_request_error) res" where
  "create_v2_post_request E c random random_bytes ohttp_relay s =
     (let sc = sn_context s; ctx = ss_psbt_ctx sc in
      rbind (check_not_expired E c (pj_expiration (ss_pj_param sc))) (\<lambda>_.
      rbind (serialize_v2_body (e_text E) (clear_unneeded_fields (original_psbt ctx))
               (output_substitution ctx) (fee_contribution ctx) (min_fee_rate ctx)) (\<lambda>bdy.
        extract_request E random random_bytes sc ohttp_relay bdy)))"

definition post_process_response ::
  "env \<Rightarrow> string \<Rightarrow> nat \<Rightarrow> unit v2_sender \<Rightarrow>
     (send_event, unit v2_sender, decapsulation_error, unit, unit v2_sender) maybe_fatal_transition" where
  "post_process_response E response post_ctx s =
     (case process_post_res (e_wire E) response post_ctx of
        Ok _ \<Rightarrow> mf_success PostedOriginalPsbt \<lparr>sn_state = (), sn_context = sn_context s\<rparr>
      | Err e \<Rightarrow>
          if is_fatal_response e then mf_fatal (SendClosedEvent SendAborted) (DecapsulationResponse e)
          else mf_transient (DecapsulationResponse e) s
      | Panic \<Rightarrow> MaybeFatalTransition Panic)"

section \<open>Polling for the proposal\<close>

definition sender_mailbox_url :: "env \<Rightarrow> send_session_context \<Rightarrow> (url, create_request_error) res" where
  "sender_mailbox_url E sc =
     (let W = e_wire E in
      rbind (short_id_from_pubkey W (snd (key_pair_from_secret_key W (ss_reply_key sc)))) (\<lambda>mailbox.
      rbind (pj_v2_endpoint W (ss_pj_param sc)) (\<lambda>endpoint.
      rbind (case parse (raw endpoint) of Ok u \<Rightarrow> Ok u | _ \<Rightarrow> Panic) (\<lambda>base.
      rbind (short_id_to_string W mailbox) (\<lambda>i.
        map_err (\<lambda>e. RequestUrl (ParseError e)) (join i base))))))"

definition sender_create_poll_request ::
  "env \<Rightarrow> clock \<Rightarrow> nat \<Rightarrow> string \<Rightarrow> string \<Rightarrow> unit v2_sender \<Rightarrow> (request \<times> nat, create_request_error) res" where
  "sender_create_poll_request E c random random_bytes ohttp_relay s =
     (let W = e_wire E; sc = sn_context s; pj = ss_pj_param sc;
          reply_pk = snd (key_pair_from_secret_key W (ss_reply_key sc)) in
      rbind (check_not_expired E c (pj_expiration pj)) (\<lambda>_.
      rbind (sender_mailbox_url E sc) (\<lambda>u.
      rbind (map_err RequestHpke (encrypt_message_a W random [] reply_pk (pj_receiver_pubkey pj))) (\<lambda>bdy.
      rbind (map_err RequestOhttp (ohttp_encapsulate W random_bytes (pj_ohttp_keys pj) ''GET'' (raw u) (Some bdy)))
        (\<lambda>(bdy', ohttp_ctx).
      rbind (sender_full_relay_url E sc ohttp_relay) (\<lambda>relay.
        Ok (new_v2 relay bdy', ohttp_ctx)))))))"

text \<open>A reply is an error reply when what stands before the first zero byte is JSON.\<close>

definition response_error_from_slice :: "env \<Rightarrow> string \<Rightarrow> response_error option" where
  "response_error_from_slice E bytes = map_option from_json (json_from_slice E (before nul bytes))"

definition poll_process_response ::
  "env \<Rightarrow> string \<Rightarrow> nat \<Rightarrow> unit v2_sender \<Rightarrow>
     (send_event, psbt, unit v2_sender, response_error) maybe_success_transition_with_no_results" where
  "poll_process_response E response ohttp_ctx s =
     (let sc = sn_context s; abort = SendClosedEvent SendAborted in
      case process_get_res (e_wire E) response ohttp_ctx of
        Panic \<Rightarrow> MaybeSuccessTransitionWithNoResults Panic
      | Ok None \<Rightarrow> snr_no_results s
      | Err e \<Rightarrow>
          if is_fatal_response e then snr_fatal abort (Validation (V2Decapsulation (DecapsulationResponse e)))
          else snr_transient (Validation (V2Decapsulation (DecapsulationResponse e))) s
      | Ok (Some content) \<Rightarrow>
          (case decrypt_message_b (e_wire E) content (pj_receiver_pubkey (ss_pj_param sc)) (ss_reply_key sc) of
             Panic \<Rightarrow> MaybeSuccessTransitionWithNoResults Panic
           | Err e \<Rightarrow> snr_fatal abort (Validation (V2Decapsulation (DecapsulationHpke e)))
           | Ok bdy \<Rightarrow>
               (case response_error_from_slice E bdy of
                  Some resp_err \<Rightarrow> snr_fatal abort resp_err
                | None \<Rightarrow>
                    (case psbt_deserialize E bdy of
                       Inl e \<Rightarrow> snr_fatal abort (Validation (Proposal (Psbt e)))
                     | Inr proposal \<Rightarrow>
                         (case process_proposal (e_btc E) (ss_psbt_ctx sc) proposal of
                            Panic \<Rightarrow> MaybeSuccessTransitionWithNoResults Panic
                          | Err e \<Rightarrow> snr_fatal abort (Validation (Proposal e))
                          | Ok processed \<Rightarrow>
                              snr_success processed (SendClosedEvent (SendSuccess processed)))))))"

section \<open>Cancelling and closing\<close>

definition send_cancel :: "env \<Rightarrow> unit v2_sender \<Rightarrow> (send_event, transaction v2_sender) next_state_transition" where
  "send_cancel E s = ns_success SendCancelled
     \<lparr>sn_state = original_tx E (sn_context s), sn_context = sn_context s\<rparr>"

definition send_close :: "transaction v2_sender \<Rightarrow> (send_event, unit) terminal_transition" where
  "send_close s = TerminalTransition (SendClosedEvent SendAborted) ()"

section \<open>History and replay\<close>

definition created_context :: "send_event list \<Rightarrow> (send_session_context, 'e) res" where
  "created_context events = expect (find_map (\<lambda>e. case e of SendCreated sc \<Rightarrow> Some sc | _ \<Rightarrow> None) events)"

definition send_history_fallback_tx :: "env \<Rightarrow> send_event list \<Rightarrow> (transaction, 'e) res" where
  "send_history_fallback_tx E events = rmap (original_tx E) (created_context events)"

definition send_history_pj_param :: "send_event list \<Rightarrow> (pj_param_v2, 'e) res" where
  "send_history_pj_param events = rmap ss_pj_param (created_context events)"

datatype send_status = SendExpired | SendActive | SendFailed | SendCompleted

definition send_history_status :: "env \<Rightarrow> clock \<Rightarrow> send_event list \<Rightarrow> (send_status, 'e) res" where
  "send_history_status E c events =
     (let open_status = rbind (send_history_pj_param events) (\<lambda>pj.
            rmap (\<lambda>gone. if gone then SendExpired else SendActive) (elapsed (e_wire E) c (pj_expiration pj)))
      in if events = [] then open_status
         else case last events of
           SendClosedEvent (SendSuccess _) \<Rightarrow> Ok SendCompleted
         | SendClosedEvent SendAborted \<Rightarrow> Ok SendFailed
         | _ \<Rightarrow> open_status)"

type_synonym send_replay_error = "(send_session, send_event) replay_error"

fun send_replay_loop ::
  "env \<Rightarrow> send_session \<Rightarrow> send_event list \<Rightarrow> send_event list \<Rightarrow> (send_session \<times> send_event list, send_replay_error) res" where
  "send_replay_loop E s seen [] = Ok (s, seen)"
| "send_replay_loop E s seen (e # es) = rbind (send_process_event E s e) (\<lambda>s'. send_replay_loop E s' (seen @ [e]) es)"

definition send_replay_events ::
  "env \<Rightarrow> send_event list \<Rightarrow> (send_session \<times> send_event list, send_replay_error) res" where
  "send_replay_events E logs =
     (case logs of
        [] \<Rightarrow> Err NoEvents
      | SendCreated sc # rest \<Rightarrow> send_replay_loop E (send_session_new sc) [SendCreated sc] rest
      | first_event # _ \<Rightarrow> Err (InvalidEvent first_event None))"

fun is_send_closed :: "send_session \<Rightarrow> bool" where
  "is_send_closed (SendClosed _) = True"
| "is_send_closed _ = False"

definition send_construct_history ::
  "env \<Rightarrow> clock \<Rightarrow> send_event list \<Rightarrow> send_session \<Rightarrow> (send_event list, send_replay_error) res" where
  "send_construct_history E c events sender =
     (if \<not> is_send_closed sender
      then rbind (send_history_pj_param events) (\<lambda>pj.
           rbind (elapsed (e_wire E) c (pj_expiration pj)) (\<lambda>gone.
             if gone then rbind (send_history_fallback_tx E events) (\<lambda>tx. Err (Expired (pj_expiration pj) (Some tx)))
             else Ok events))
      else Ok events)"

definition send_replay_event_log ::
  "env \<Rightarrow> clock \<Rightarrow> ('p, send_event, 'd) persister \<Rightarrow> ('d \<Rightarrow> implementation_error) \<Rightarrow> 'p \<Rightarrow>
     (send_session \<times> send_event list, send_replay_error) res \<times> 'p" where
  "send_replay_event_log E c P show_storage p =
     (case map_err (\<lambda>e. PersistenceFailure (show_storage e)) (load P p) of
        Err e \<Rightarrow> (Err e, p)
      | Panic \<Rightarrow> (Panic, p)
      | Ok logs \<Rightarrow>
          (case send_replay_events E logs of
             Ok (sender, session_events) \<Rightarrow>
               (rmap (\<lambda>history. (sender, history)) (send_construct_history E c session_events sender), p)
           | Err e \<Rightarrow>
               (case close_session P p of
                  (Ok _, p') \<Rightarrow> (Err e, p')
                | (Err ce, p') \<Rightarrow> (Err (PersistenceFailure (show_storage ce)), p')
                | (Panic, p') \<Rightarrow> (Panic, p'))
           | Panic \<Rightarrow> (Panic, p)))"

end
