(* ===== verification/PJ_Send_Session.thy ===== *)
theory PJ_Send_Session
  imports PJ_Send_V2 PJ_Send_Facts PJ_Wire_Facts
begin

text \<open>
  The live machine of the version 2 sender as an event-sourced state machine: its log replays to
  its saved state, and it succeeds only with a proposal that passed the sender's checks.
\<close>

section \<open>The live machine\<close>

inductive send_step :: "env \<Rightarrow> send_session \<Rightarrow> send_event option \<Rightarrow> send_session \<Rightarrow> bool" for E :: env where
  posted: "fatal_deconstruct (post_process_response E b ctx s) = (Save e, Ok n) \<Longrightarrow>
     send_step E (WithReplyKey s) (Some e) (PollingForProposal n)"
| post_aborted: "fatal_deconstruct (post_process_response E b ctx s) = (SaveAndClose (SendClosedEvent o'), Err x) \<Longrightarrow>
     send_step E (WithReplyKey s) (Some (SendClosedEvent o')) (SendClosed o')"
| post_transient: "fatal_deconstruct (post_process_response E b ctx s) = (NoOp, Err (ApiTransient x s')) \<Longrightarrow>
     send_step E (WithReplyKey s) None (WithReplyKey s')"
| polled: "fst (success_with_no_results_deconstruct (poll_process_response E b ctx s)) = SaveAndClose (SendClosedEvent o') \<Longrightarrow>
     send_step E (PollingForProposal s) (Some (SendClosedEvent o')) (SendClosed o')"
| poll_stasis: "success_with_no_results_deconstruct (poll_process_response E b ctx s) = (NoOp, Ok (Stasis s')) \<Longrightarrow>
     send_step E (PollingForProposal s) None (PollingForProposal s')"
| poll_transient: "success_with_no_results_deconstruct (poll_process_response E b ctx s) = (NoOp, Err (ApiTransient x s')) \<Longrightarrow>
     send_step E (PollingForProposal s) None (PollingForProposal s')"
| cancel_posting: "next_state_deconstruct (send_cancel E s) = (Save e, n) \<Longrightarrow>
     send_step E (WithReplyKey s) (Some e) (SendPendingFallback n)"
| cancel_polling: "next_state_deconstruct (send_cancel E s) = (Save e, n) \<Longrightarrow>
     send_step E (PollingForProposal s) (Some e) (SendPendingFallback n)"
| closed: "terminal_transition_deconstruct (send_close s) = (SaveAndClose (SendClosedEvent o'), v) \<Longrightarrow>
     send_step E (SendPendingFallback s) (Some (SendClosedEvent o')) (SendClosed o')"

inductive_cases send_closedE: "send_step E (SendClosed o') event s'"

lemma closed_event_replays: "send_process_event E s (SendClosedEvent o') = Ok (SendClosed o')"
  by (cases s; cases o') simp_all

lemma send_step_saved:
  assumes "send_step E s (Some e) s'"
  shows "send_process_event E s e = Ok s'"
  using assms
proof cases
  case (posted b ctx s n)
  then show ?thesis
    by (auto simp: post_process_response_def transition_defs apply_polling_for_proposal_def
        split: res.splits if_split_asm)
qed (auto simp: closed_event_replays send_cancel_def transition_defs)

lemma send_step_silent:
  assumes "send_step E s None s'"
  shows "s' = s"
  using assms
proof cases
  case (post_transient b ctx s x s')
  then show ?thesis by (auto simp: post_process_response_def transition_defs split: res.splits if_split_asm)
next
  case (poll_stasis b ctx s s')
  then show ?thesis
    by (auto simp: poll_process_response_def transition_defs Let_def
        split: res.splits option.splits sum.splits if_split_asm)
next
  case (poll_transient b ctx s x s')
  then show ?thesis
    by (auto simp: poll_process_response_def transition_defs Let_def
        split: res.splits option.splits sum.splits if_split_asm)
qed

interpretation send: event_sourced "send_process_event E" "send_step E" "\<lambda>s. s" "(=)"
  by unfold_locales (auto dest: send_step_saved send_step_silent)

section \<open>Replay\<close>

lemma send_replay_loop_fold:
  "send_replay_loop E s seen es = rmap (\<lambda>s'. (s', seen @ es)) (try_fold (send_process_event E) s es)"
proof (induction es arbitrary: s seen)
  case (Cons e es)
  then show ?case by (cases "send_process_event E s e") auto
qed simp

lemma send_run_folds:
  assumes "runs (send_step E) (send_session_new ctx) c s es"
  shows "try_fold (send_process_event E) (send_session_new ctx) es = Ok c \<and> c = s"
  using send.replay_gives_saved_state [OF assms] by simp

text \<open>What a state of a session with this context can be.\<close>

fun from_context :: "env \<Rightarrow> send_session_context \<Rightarrow> send_session \<Rightarrow> bool" where
  "from_context E ctx (WithReplyKey s) \<longleftrightarrow> sn_context s = ctx"
| "from_context E ctx (PollingForProposal s) \<longleftrightarrow> sn_context s = ctx"
| "from_context E ctx (SendPendingFallback s) \<longleftrightarrow> sn_context s = ctx \<and> sn_state s = original_tx E ctx"
| "from_context E ctx (SendClosed (SendSuccess p)) \<longleftrightarrow>
     (\<exists>proposal. process_proposal (e_btc E) (ss_psbt_ctx ctx) proposal = Ok p)"
| "from_context E ctx (SendClosed SendAborted) \<longleftrightarrow> True"

lemma saved_from_context:
  assumes "send_step E s (Some e) s'" and "from_context E ctx s"
  shows "from_context E ctx s'"
  using assms(1)
proof cases
  case (polled b rctx s o')
  with assms(2) show ?thesis
    by (cases o') (auto simp: poll_process_response_def transition_defs Let_def
        split: res.splits option.splits sum.splits if_split_asm)
next
  case (post_aborted b rctx s o' x)
  with assms(2) show ?thesis
    by (auto simp: post_process_response_def transition_defs split: res.splits if_split_asm)
next
  case (posted b rctx s n)
  with assms(2) show ?thesis
    by (auto simp: post_process_response_def transition_defs split: res.splits if_split_asm)
qed (use assms(2) in \<open>auto simp: send_cancel_def send_close_def transition_defs\<close>)

lemma step_from_context:
  assumes "send_step E s event s'" and "from_context E ctx s"
  shows "from_context E ctx s'"
  using assms saved_from_context send_step_silent by (cases event) blast+

text \<open>C9: The log of every run of a version 2 sender replays to its saved state, and that state belongs
  to the session: it has the context that the session was created with, a fallback is the
  original transaction, and a successful session ended with a proposal that passed the checks
  of the sender against that original.\<close>

theorem send_session_replay:
  assumes "runs (send_step E) (send_session_new ctx) c s es"
  shows "send_replay_events E (SendCreated ctx # es) = Ok (c, SendCreated ctx # es) \<and> from_context E ctx c"
proof
  show "send_replay_events E (SendCreated ctx # es) = Ok (c, SendCreated ctx # es)"
    using send_run_folds [OF assms] by (simp add: send_replay_events_def send_replay_loop_fold)
  have "from_context E ctx c \<and> from_context E ctx s"
    using assms by induction (auto simp: send_session_new_def intro: step_from_context)
  then show "from_context E ctx c" ..
qed

end
