(* ===== verification/PJ_Receive_Session.thy ===== *)
theory PJ_Receive_Session
  imports PJ_Receive_Live PJ_Receive_Facts
begin

text \<open>
  \<open>receive/v2/session.rs\<close>: replaying the log of a session, its history, and the live machine that
  the log is a record of. The live machine is an interpretation of \<open>event_sourced\<close>, so that a
  replay of the events saved by any run gives back the last saved state.
\<close>

section \<open>History\<close>

definition get_unchecked_proposal :: "session_event list \<Rightarrow> original_payload option" where
  "get_unchecked_proposal events =
     find_map (\<lambda>e. case e of RetrievedOriginalPayload original _ \<Rightarrow> Some original | _ \<Rightarrow> None) events"

definition history_fallback_tx :: "env \<Rightarrow> session_event list \<Rightarrow> (transaction option, 'e) res" where
  "history_fallback_tx E events =
     (if list_ex (\<lambda>e. e = CheckedBroadcastSuitability) events
      then rmap (\<lambda>p. Some (extract_tx E (pl_psbt p))) (expect (get_unchecked_proposal events))
      else Ok None)"

definition history_session_context :: "session_event list \<Rightarrow> (session_context, 'e) res" where
  "history_session_context events =
     rmap (\<lambda>sc. sc\<lparr>sc_reply_key := find_map (\<lambda>e. case e of
              RetrievedOriginalPayload _ reply_key \<Rightarrow> reply_key | _ \<Rightarrow> None) events\<rparr>)
       (expect (find_map (\<lambda>e. case e of Created sc \<Rightarrow> Some sc | _ \<Rightarrow> None) events))"

datatype session_status = Active | ExpiredStatus | Failed | Completed | FallbackBroadcastedStatus | PendingFallbackStatus

definition history_status :: "env \<Rightarrow> clock \<Rightarrow> session_event list \<Rightarrow> (session_status, 'e) res" where
  "history_status E c events =
     (let open_status = rbind (history_session_context events) (\<lambda>sc.
            rmap (\<lambda>gone. if gone then ExpiredStatus else Active) (elapsed (e_wire E) c (sc_expiration sc)))
      in if events = [] then open_status
         else case last events of
           Closed (SuccessOutcome _) \<Rightarrow> Ok Completed
         | Closed PayjoinProposalSent \<Rightarrow> Ok Completed
         | Closed Aborted \<Rightarrow> Ok Failed
         | Closed (session_outcome.Unrecognized _) \<Rightarrow> Ok Failed
         | Closed FallbackBroadcasted \<Rightarrow> Ok FallbackBroadcastedStatus
         | Cancelled \<Rightarrow> Ok PendingFallbackStatus
         | ProtocolFailed \<Rightarrow> Ok PendingFallbackStatus
         | _ \<Rightarrow> open_status)"

section \<open>Replay\<close>

type_synonym receive_replay_error = "(receive_session, session_event) replay_error"

fun replay_loop ::
  "env \<Rightarrow> receive_session \<Rightarrow> session_event list \<Rightarrow> session_event list \<Rightarrow>
     (receive_session \<times> session_event list, receive_replay_error) res" where
  "replay_loop E s seen [] = Ok (s, seen)"
| "replay_loop E s seen (e # es) = rbind (process_event E s e) (\<lambda>s'. replay_loop E s' (seen @ [e]) es)"

definition replay_events ::
  "env \<Rightarrow> session_event list \<Rightarrow> (receive_session \<times> session_event list, receive_replay_error) res" where
  "replay_events E logs =
     (case logs of
        [] \<Rightarrow> Err NoEvents
      | Created context # rest \<Rightarrow> replay_loop E (receive_session_new context) [Created context] rest
      | first_event # _ \<Rightarrow> Err (InvalidEvent first_event None))"

fun is_closed_session :: "receive_session \<Rightarrow> bool" where
  "is_closed_session (ClosedSession _) = True"
| "is_closed_session _ = False"

text \<open>A history is its events.\<close>

definition construct_history ::
  "env \<Rightarrow> clock \<Rightarrow> session_event list \<Rightarrow> receive_session \<Rightarrow> (session_event list, receive_replay_error) res" where
  "construct_history E c events receiver =
     (if \<not> is_closed_session receiver
      then rbind (history_session_context events) (\<lambda>sc.
           rbind (elapsed (e_wire E) c (sc_expiration sc)) (\<lambda>gone.
             if gone then rbind (history_fallback_tx E events) (\<lambda>tx. Err (Expired (sc_expiration sc) tx))
             else Ok events))
      else Ok events)"

text \<open>
  The storage error is turned into an implementation error by its text. A log that does not
  replay closes the session.
\<close>

definition replay_event_log ::
  "env \<Rightarrow> clock \<Rightarrow> ('p, session_event, 'd) persister \<Rightarrow> ('d \<Rightarrow> implementation_error) \<Rightarrow> 'p \<Rightarrow>
     (receive_session \<times> session_event list, receive_replay_error) res \<times> 'p" where
  "replay_event_log E c P show_storage p =
     (case map_err (\<lambda>e. PersistenceFailure (show_storage e)) (load P p) of
        Err e \<Rightarrow> (Err e, p)
      | Panic \<Rightarrow> (Panic, p)
      | Ok logs \<Rightarrow>
          (case replay_events E logs of
             Ok (receiver, session_events) \<Rightarrow>
               (rmap (\<lambda>history. (receiver, history)) (construct_history E c session_events receiver), p)
           | Err e \<Rightarrow>
               (case close_session P p of
                  (Ok _, p') \<Rightarrow> (Err e, p')
                | (Err ce, p') \<Rightarrow> (Err (PersistenceFailure (show_storage ce)), p')
                | (Panic, p') \<Rightarrow> (Panic, p'))
           | Panic \<Rightarrow> (Panic, p)))"

section \<open>The live machine\<close>

text \<open>
  What a saved transition does to the session: an event and the next state, an error state, or
  the same state again when nothing is saved.
\<close>

definition fatal_moves ::
  "(session_event, 'n, 'x, 's, 'c) maybe_fatal_transition \<Rightarrow> ('n \<Rightarrow> receive_session) \<Rightarrow> ('s \<Rightarrow> receive_session) \<Rightarrow>
     ('c \<Rightarrow> receive_session) \<Rightarrow> session_event option \<Rightarrow> receive_session \<Rightarrow> bool" where
  "fatal_moves t next_state error_state current event s' \<longleftrightarrow>
     (case fatal_deconstruct t of
        (Save e, Ok n) \<Rightarrow> event = Some e \<and> s' = next_state n
      | (Save e, Err (ApiFatalWithState _ h)) \<Rightarrow> event = Some e \<and> s' = error_state h
      | (NoOp, Err (ApiTransient _ c)) \<Rightarrow> event = None \<and> s' = current c
      | _ \<Rightarrow> False)"

inductive receive_step :: "env \<Rightarrow> 'g rng \<Rightarrow> receive_session \<Rightarrow> session_event option \<Rightarrow> receive_session \<Rightarrow> bool"
  for E :: env and R :: "'g rng" where
  retrieved: "fatal_with_no_results_deconstruct (initialized_process_response E b ctx r) = (Save e, Ok (Progress n)) \<Longrightarrow>
     receive_step E R (Initialized r) (Some e) (UncheckedOriginalPayload n)"
| poll_stasis: "fatal_with_no_results_deconstruct (initialized_process_response E b ctx r) = (NoOp, Ok (Stasis r')) \<Longrightarrow>
     receive_step E R (Initialized r) None (Initialized r')"
| poll_transient: "fatal_with_no_results_deconstruct (initialized_process_response E b ctx r) = (NoOp, Err (ApiTransient x r')) \<Longrightarrow>
     receive_step E R (Initialized r) None (Initialized r')"
| poll_fatal: "fatal_with_no_results_deconstruct (initialized_process_response E b ctx r) = (SaveAndClose (Closed o'), Err (ApiFatal x)) \<Longrightarrow>
     receive_step E R (Initialized r) (Some (Closed o')) (ClosedSession o')"
| cancel_initialized: "terminal_transition_deconstruct (cancel_unchecked r) = (SaveAndClose (Closed o'), v) \<Longrightarrow>
     receive_step E R (Initialized r) (Some (Closed o')) (ClosedSession o')"
| cancel_unchecked_payload: "terminal_transition_deconstruct (cancel_unchecked r) = (SaveAndClose (Closed o'), v) \<Longrightarrow>
     receive_step E R (UncheckedOriginalPayload r) (Some (Closed o')) (ClosedSession o')"
| broadcast_checked: "fatal_moves (unchecked_check_broadcast_suitability E m can r) MaybeInputsOwned HasReplyableError
       UncheckedOriginalPayload event s' \<Longrightarrow> receive_step E R (UncheckedOriginalPayload r) event s'"
| interactive: "next_state_deconstruct (assume_interactive_receiver r) = (Save e, n) \<Longrightarrow>
     receive_step E R (UncheckedOriginalPayload r) (Some e) (MaybeInputsOwned n)"
| ownership_checked: "fatal_moves (fst (owned_check_inputs_not_owned E (cb :: ('g, outpoint) callback) a r)) MaybeInputsSeen
       HasReplyableError MaybeInputsOwned event s' \<Longrightarrow> receive_step E R (MaybeInputsOwned r) event s'"
| seen_checked: "fatal_moves (fst (seen_check_no_inputs_seen_before E (cb :: ('g, outpoint) callback) a r)) OutputsUnknown
       HasReplyableError MaybeInputsSeen event s' \<Longrightarrow> receive_step E R (MaybeInputsSeen r) event s'"
| outputs_identified: "fatal_moves (fst (unknown_identify_receiver_outputs E (cs :: ('g, script) callback) a r)) WantsOutputs
       HasReplyableError OutputsUnknown event s' \<Longrightarrow> receive_step E R (OutputsUnknown r) event s'"
| script_substituted: "v2_substitute_receiver_script R g spk r = Ok r' \<Longrightarrow>
     receive_step E R (WantsOutputs r) None (WantsOutputs r')"
| outputs_replaced: "v2_replace_receiver_outputs R g repl drain r = Ok r' \<Longrightarrow>
     receive_step E R (WantsOutputs r) None (WantsOutputs r')"
| commit_outputs_step: "next_state_deconstruct (v2_commit_outputs r) = (Save e, n) \<Longrightarrow>
     receive_step E R (WantsOutputs r) (Some e) (WantsInputs n)"
| inputs_contributed: "v2_contribute_inputs E R g ps r = Ok r' \<Longrightarrow>
     receive_step E R (WantsInputs r) None (WantsInputs r')"
| commit_inputs_step: "next_state_deconstruct (v2_commit_inputs r) = (Save e, n) \<Longrightarrow>
     receive_step E R (WantsInputs r) (Some e) (WantsFeeRange n)"
| fee_range_applied: "fatal_moves (apply_fee_range E m mx r) ProvisionalProposal (\<lambda>_. WantsFeeRange r)
       WantsFeeRange event s' \<Longrightarrow> receive_step E R (WantsFeeRange r) event s'"
| finalized: "transient_deconstruct (v2_finalize_proposal E wallet r) = (Save e, Ok n) \<Longrightarrow>
     receive_step E R (ProvisionalProposal r) (Some e) (PayjoinProposal n)"
| finalize_transient: "transient_deconstruct (v2_finalize_proposal E wallet r) = (NoOp, Err (ApiTransient x r')) \<Longrightarrow>
     receive_step E R (ProvisionalProposal r) None (ProvisionalProposal r')"
| proposal_posted: "fatal_moves (proposal_process_response E b ctx r) Monitor PendingFallback PayjoinProposal event s' \<Longrightarrow>
     receive_step E R (PayjoinProposal r) event s'"
| error_cancelled: "terminal_deconstruct (replyable_cancel r) = (Save e, Some n) \<Longrightarrow>
     receive_step E R (HasReplyableError r) (Some e) (PendingFallback n)"
| error_cancel_closes: "terminal_deconstruct (replyable_cancel r) = (SaveAndClose (Closed o'), None) \<Longrightarrow>
     receive_step E R (HasReplyableError r) (Some (Closed o')) (ClosedSession o')"
| error_posted: "process_error_response E b ctx r = (Ok t :: (_, unit) res) \<Longrightarrow>
     terminal_success_deconstruct t = (Save e, Ok (Some n)) \<or>
     terminal_success_deconstruct t = (Save e, Err (ApiFatalWithState x n)) \<Longrightarrow>
     receive_step E R (HasReplyableError r) (Some e) (PendingFallback n)"
| error_post_closes: "process_error_response E b ctx r = (Ok t :: (_, unit) res) \<Longrightarrow>
     fst (terminal_success_deconstruct t) = SaveAndClose (Closed o') \<Longrightarrow>
     receive_step E R (HasReplyableError r) (Some (Closed o')) (ClosedSession o')"
| error_post_transient: "process_error_response E b ctx r = (Ok t :: (_, unit) res) \<Longrightarrow>
     terminal_success_deconstruct t = (NoOp, Err (ApiTransient x r')) \<Longrightarrow>
     receive_step E R (HasReplyableError r) None (HasReplyableError r')"
| monitored: "check_for_transaction E lookup r = (Ok t :: (_, unit) res) \<Longrightarrow>
     fst (fatal_or_success_deconstruct t) = SaveAndClose (Closed o') \<Longrightarrow>
     receive_step E R (Monitor r) (Some (Closed o')) (ClosedSession o')"
| monitor_again: "check_for_transaction E lookup r = (Ok t :: (_, unit) res) \<Longrightarrow>
     fatal_or_success_deconstruct t = (NoOp, Ok (Stasis r')) \<or>
     fatal_or_success_deconstruct t = (NoOp, Err (ApiTransient x r')) \<Longrightarrow>
     receive_step E R (Monitor r) None (Monitor r')"
| pending_closed: "terminal_transition_deconstruct (close_pending r) = (SaveAndClose (Closed o'), v) \<Longrightarrow>
     receive_step E R (PendingFallback r) (Some (Closed o')) (ClosedSession o')"
| cancelled: "with_fallback E s = Some (tx, context) \<Longrightarrow>
     next_state_deconstruct (cancel_with_fallback tx context) = (Save e, n) \<Longrightarrow>
     receive_step E R s (Some e) (PendingFallback n)"

inductive_cases receive_step_closedE: "receive_step E R (ClosedSession o') event s'"

section \<open>The log determines the saved state\<close>

text \<open>
  A replay builds the proposal of \<open>WantsInputs\<close> with empty output maps, whatever the maps of the
  live PSBT are; every other state is the saved one.
\<close>

definition with_empty_output_maps :: "psbt \<Rightarrow> psbt" where
  "with_empty_output_maps p = p\<lparr>outputs := replicate (length (tx_output (unsigned_tx p))) default_psbt_output\<rparr>"

fun stored :: "receive_session \<Rightarrow> receive_session" where
  "stored (WantsInputs r) =
     WantsInputs (r\<lparr>rc_state := (rc_state r)\<lparr>wi_proposal := (wi_proposal (rc_state r))\<lparr>
       wp_payjoin_psbt := with_empty_output_maps (wp_payjoin_psbt (wi_proposal (rc_state r)))\<rparr>\<rparr>\<rparr>)"
| "stored s = s"

text \<open>The original with other outputs, and the change index in bounds.\<close>

definition substituted :: "wants_outputs \<Rightarrow> bool" where
  "substituted w \<longleftrightarrow>
     (let orig = oc_original_psbt (wo_original w); p = wo_payjoin_psbt w in
      with_empty_output_maps p = with_empty_output_maps (orig\<lparr>unsigned_tx := (unsigned_tx orig)\<lparr>tx_output := tx_output (unsigned_tx p)\<rparr>\<rparr>) \<and>
      wo_change_vout w < length (tx_output (unsigned_tx p)))"

definition change_in_bounds :: "wants_inputs \<Rightarrow> bool" where
  "change_in_bounds w \<longleftrightarrow>
     wp_change_vout (wi_proposal w) < length (tx_output (unsigned_tx (wp_payjoin_psbt (wi_proposal w))))"

fun resumes :: "receive_session \<Rightarrow> receive_session \<Rightarrow> bool" where
  "resumes (WantsOutputs r0) s =
     (case s of WantsOutputs r \<Rightarrow> rc_context r = rc_context r0 \<and>
        wo_original (rc_state r) = wo_original (rc_state r0) \<and> substituted (rc_state r) | _ \<Rightarrow> False)"
| "resumes (WantsInputs r0) s =
     (case s of WantsInputs r \<Rightarrow> rc_context r = rc_context r0 \<and>
        wi_original (rc_state r) = wi_original (rc_state r0) \<and>
        wp_change_vout (wi_proposal (rc_state r)) = wp_change_vout (wi_proposal (rc_state r0)) \<and>
        change_in_bounds (rc_state r) | _ \<Rightarrow> False)"
| "resumes c s = (c = s)"

lemma replaced_substituted:
  assumes "replace_receiver_outputs R g w repl drain = Ok w'"
  shows "wo_original w' = wo_original w \<and> substituted w'"
  using assms position_bound
  by (auto simp: replace_receiver_outputs_def replace_receiver_outputs_with_rng_def Let_def rbind_eq_Ok
      substituted_def with_empty_output_maps_def)

lemma substitute_substituted:
  assumes "substitute_receiver_script R g w spk = Ok w'"
  shows "wo_original w' = wo_original w \<and> substituted w'"
  using assms by (auto simp: substitute_receiver_script_def rbind_eq_Ok dest!: replaced_substituted)

lemma contribute_keeps_bounds:
  assumes "contribute_inputs L R g w ps = Ok w'" and "change_in_bounds w"
  shows "wi_original w' = wi_original w \<and>
    wp_change_vout (wi_proposal w') = wp_change_vout (wi_proposal w) \<and> change_in_bounds w'"
  using assms by (auto simp: contribute_inputs_def Let_def rbind_eq_Ok change_in_bounds_def split: if_split_asm)

lemma identified_substituted:
  assumes "identify_receiver_outputs payload cb a = (Ok w, a')"
  shows "wo_owned_vouts w \<noteq> [] \<and> (\<forall>v\<in>set (wo_owned_vouts w). v < length (tx_output (unsigned_tx (pl_psbt payload)))) \<and>
    wants_outputs_new payload (wo_owned_vouts w) = (Ok w :: (_, 'e) res) \<and> substituted w"
proof -
  from assms obtain vouts where v: "owned_vouts_loop cb a 0 (tx_output (unsigned_tx (pl_psbt payload))) = (Ok vouts, a')"
    and w: "vouts \<noteq> []" "wants_outputs_new payload vouts = (Ok w :: (_, receive_error) res)"
    by (auto simp: identify_receiver_outputs_def rbind_eq_Ok split: prod.splits if_splits)
  from owned_vouts_bound [OF v] have b: "\<forall>i\<in>set vouts. i < length (tx_output (unsigned_tx (pl_psbt payload)))"
    by auto
  from w have "w = \<lparr>wo_original = original_context_new (pl_psbt payload) (pl_params payload) vouts,
      wo_payjoin_psbt = pl_psbt payload, wo_change_vout = vouts ! 0, wo_owned_vouts = vouts\<rparr>"
    by (auto simp: wants_outputs_new_def rbind_eq_Ok index_def)
  with b w(1) show ?thesis
    by (simp add: wants_outputs_new_def index_def substituted_def with_empty_output_maps_def)
qed

subsection \<open>Saved steps\<close>

text \<open>The saved event of each live step takes the stored state to the stored next state.\<close>

lemmas deconstruct_simps = fatal_moves_def transition_defs

lemma retrieved_replays:
  assumes "fatal_with_no_results_deconstruct (initialized_process_response E b ctx r) = (Save e, Ok (Progress n))"
  shows "process_event E (Initialized r) e = Ok (UncheckedOriginalPayload n)"
  using assms
  by (auto simp: initialized_process_response_def transition_defs process_event_def
      apply_retrieved_original_payload_def split: res.splits option.splits prod.splits if_split_asm
      protocol_error.splits session_error.splits)

lemma initialized_silent:
  assumes "fatal_with_no_results_deconstruct (initialized_process_response E b ctx r) = (NoOp, Ok (Stasis r')) \<or>
     fatal_with_no_results_deconstruct (initialized_process_response E b ctx r) = (NoOp, Err (ApiTransient x r'))"
  shows "r' = r"
  using assms
  by (auto simp: initialized_process_response_def transition_defs split: res.splits option.splits prod.splits if_split_asm
      protocol_error.splits session_error.splits)

lemma check_moves:
  assumes "fatal_moves (case res of Ok v \<Rightarrow> mf_success e (n v) | Err (Implementation x) \<Rightarrow> mf_transient (Implementation x) r
      | Err (Protocol y) \<Rightarrow> replyable E (Protocol y) tx context | Panic \<Rightarrow> MaybeFatalTransition Panic)
      fn HasReplyableError fc event s'"
  shows "(\<exists>v. res = Ok v \<and> event = Some e \<and> s' = fn (n v)) \<or>
    (\<exists>reply. event = Some (GotReplyableError reply) \<and>
       s' = HasReplyableError \<lparr>rc_state = \<lparr>hre_error_reply = reply, hre_fallback_tx = tx\<rparr>, rc_context = context\<rparr>) \<or>
    event = None \<and> s' = fc r"
  using assms by (auto simp: deconstruct_simps replyable_def split: res.splits receive_error.splits)

lemma substituted_commit:
  assumes "substituted w" and "wo_original w = wo_original (rc_state r0)"
  shows "process_event E (WantsOutputs r0)
      (CommittedOutputs (tx_output (unsigned_tx (wp_payjoin_psbt (wi_proposal (commit_outputs w)))))
         (wp_change_vout (wi_proposal (commit_outputs w)))) =
    Ok (stored (WantsInputs \<lparr>rc_state = commit_outputs w, rc_context = rc_context r0\<rparr>))"
  using assms
  by (simp add: process_event_def apply_committed_outputs_def Let_def commit_outputs_def substituted_def
      with_empty_output_maps_def)

lemma commit_outputs_bounds: "substituted w \<Longrightarrow> change_in_bounds (commit_outputs w)"
  by (simp add: substituted_def change_in_bounds_def commit_outputs_def Let_def)

lemma error_reply_replays:
  assumes "error_context E s = Some (context, tx)"
  shows "process_event E s (GotReplyableError reply) =
    Ok (HasReplyableError \<lparr>rc_state = \<lparr>hre_error_reply = reply, hre_fallback_tx = tx\<rparr>, rc_context = context\<rparr>)"
  using assms by (simp add: process_event_def)

lemma unchecked_moves:
  assumes "fatal_moves (unchecked_check_broadcast_suitability E m can r) MaybeInputsOwned HasReplyableError
       UncheckedOriginalPayload event s'"
  shows "(event = None \<and> s' = UncheckedOriginalPayload r) \<or>
    (\<exists>e. event = Some e \<and> process_event E (UncheckedOriginalPayload r) e = Ok s' \<and> resumes s' s' \<and> stored s' = s')"
  using assms unfolding unchecked_check_broadcast_suitability_def
  by (auto dest!: check_moves simp: process_event_def apply_checked_broadcast_suitability_def)

lemma owned_moves:
  assumes "fatal_moves (fst (owned_check_inputs_not_owned E cb a r)) MaybeInputsSeen HasReplyableError
       MaybeInputsOwned event s'"
  shows "(event = None \<and> s' = MaybeInputsOwned r) \<or>
    (\<exists>e. event = Some e \<and> process_event E (MaybeInputsOwned r) e = Ok s' \<and> resumes s' s' \<and> stored s' = s')"
  using assms unfolding owned_check_inputs_not_owned_def
  by (auto dest!: check_moves simp: process_event_def apply_checked_inputs_not_owned_def split: prod.splits)

lemma seen_moves:
  assumes "fatal_moves (fst (seen_check_no_inputs_seen_before E cb a r)) OutputsUnknown HasReplyableError
       MaybeInputsSeen event s'"
  shows "(event = None \<and> s' = MaybeInputsSeen r) \<or>
    (\<exists>e. event = Some e \<and> process_event E (MaybeInputsSeen r) e = Ok s' \<and> resumes s' s' \<and> stored s' = s')"
  using assms unfolding seen_check_no_inputs_seen_before_def
  by (auto dest!: check_moves simp: process_event_def apply_checked_no_inputs_seen_before_def split: prod.splits)

lemma unknown_moves:
  assumes "fatal_moves (fst (unknown_identify_receiver_outputs E cb a r)) WantsOutputs HasReplyableError
       OutputsUnknown event s'"
  shows "(event = None \<and> s' = OutputsUnknown r) \<or>
    (\<exists>e. event = Some e \<and> process_event E (OutputsUnknown r) e = Ok s' \<and> resumes s' s' \<and> stored s' = s')"
proof -
  obtain res a' where i: "identify_receiver_outputs (rc_state r) cb a = (res, a')" by fastforce
  from assms i have m: "fatal_moves (case res of
      Ok v \<Rightarrow> mf_success (IdentifiedReceiverOutputs (wo_owned_vouts v)) \<lparr>rc_state = v, rc_context = rc_context r\<rparr>
      | Err (Implementation x) \<Rightarrow> mf_transient (Implementation x) r
      | Err (Protocol y) \<Rightarrow> replyable E (Protocol y) (Some (payload_fallback_tx E (rc_state r))) (rc_context r)
      | Panic \<Rightarrow> MaybeFatalTransition Panic) WantsOutputs HasReplyableError OutputsUnknown event s'"
    by (simp add: unknown_identify_receiver_outputs_def)
  show ?thesis
  proof (cases res)
    case (Ok w)
    with m have e: "event = Some (IdentifiedReceiverOutputs (wo_owned_vouts w))"
      "s' = WantsOutputs \<lparr>rc_state = w, rc_context = rc_context r\<rparr>" by (auto simp: deconstruct_simps)
    have n: "wants_outputs_new (rc_state r) (wo_owned_vouts w) = (Ok w :: (_, receive_replay_error) res)"
      and s: "wo_owned_vouts w \<noteq> []" "substituted w"
      using identified_substituted [of "rc_state r" cb a w a', where 'e = receive_replay_error] i Ok by simp_all
    have b: "list_ex (\<lambda>v. length (tx_output (unsigned_tx (pl_psbt (rc_state r)))) \<le> v) (wo_owned_vouts w) = False"
      using identified_substituted [of "rc_state r" cb a w a'] i Ok by (auto simp: list_ex_iff not_le)
    show ?thesis
      using e b n s by (simp add: process_event_def apply_identified_receiver_outputs_def)
  qed (use m in \<open>auto simp: deconstruct_simps replyable_def process_event_def split: receive_error.splits\<close>)
qed

subsection \<open>The contract holds\<close>

lemma cancel_moves:
  assumes "resumes c s" and "with_fallback E s = Some (tx, context)"
  shows "try_pending_fallback E (stored c) = Ok (pending_fallback_from tx context)"
  using assms by (cases c; cases s) (auto simp: wants_outputs_fallback_tx_def wants_inputs_fallback_tx_def)

lemma fee_range_moves:
  assumes "fatal_moves (apply_fee_range E m mx r) ProvisionalProposal (\<lambda>_. WantsFeeRange r) WantsFeeRange event s'"
  shows "(event = None \<and> s' = WantsFeeRange r) \<or>
    (\<exists>e. event = Some e \<and> process_event E (WantsFeeRange r) e = Ok s' \<and> resumes s' s' \<and> stored s' = s')"
  using assms
  by (auto simp: deconstruct_simps apply_fee_range_def Let_def process_event_def apply_applied_fee_range_def
      split: res.splits)

lemma post_moves:
  assumes "fatal_moves (proposal_process_response E b ctx r) Monitor PendingFallback PayjoinProposal event s'"
  shows "(event = None \<and> s' = PayjoinProposal r) \<or>
    (\<exists>e. event = Some e \<and> process_event E (PayjoinProposal r) e = Ok s' \<and> resumes s' s' \<and> stored s' = s')"
  using assms
  by (auto simp: deconstruct_simps proposal_process_response_def process_event_def apply_payjoin_posted_def
      pending_fallback_from_def split: res.splits if_split_asm)

lemma closed_replays: "process_event E s (Closed o') = Ok (ClosedSession o')"
  by (simp add: process_event_def)

lemma stored_wants_outputs: "stored (WantsOutputs r) = WantsOutputs r"
  by simp

lemma receive_step_saved:
  assumes "receive_step E R s (Some e) s'" and "resumes c s"
  shows "process_event E (stored c) e = Ok (stored s') \<and> resumes s' s'"
  using assms(1)
proof cases
  case (retrieved b ctx r n)
  with assms(2) show ?thesis by (cases c) (auto simp: retrieved_replays split: receive_session.splits)
next
  case (broadcast_checked m can r)
  with assms(2) show ?thesis by (cases c) (auto dest!: unchecked_moves split: receive_session.splits)
next
  case (interactive r n)
  with assms(2) show ?thesis
    by (cases c) (auto simp: assume_interactive_receiver_def transition_defs process_event_def
        apply_checked_broadcast_suitability_def split: receive_session.splits)
next
  case (ownership_checked cb a r)
  with assms(2) show ?thesis by (cases c) (auto dest!: owned_moves split: receive_session.splits)
next
  case (seen_checked cb a r)
  with assms(2) show ?thesis by (cases c) (auto dest!: seen_moves split: receive_session.splits)
next
  case (outputs_identified cs a r)
  with assms(2) show ?thesis by (cases c) (auto dest!: unknown_moves split: receive_session.splits)
next
  case (commit_outputs_step r n)
  with assms(2) show ?thesis
    by (cases c) (auto simp: v2_commit_outputs_def transition_defs Let_def commit_outputs_bounds
        substituted_commit stored_wants_outputs simp del: stored.simps split: receive_session.splits)
next
  case (commit_inputs_step r n)
  with assms(2) show ?thesis
    by (cases c) (auto simp: v2_commit_inputs_def commit_inputs_def transition_defs Let_def process_event_def
        apply_committed_inputs_def change_in_bounds_def split: receive_session.splits)
next
  case (fee_range_applied m mx r)
  with assms(2) show ?thesis by (cases c) (auto dest!: fee_range_moves split: receive_session.splits)
next
  case (finalized wallet r n)
  with assms(2) show ?thesis
    by (cases c) (auto simp: v2_finalize_proposal_def transition_defs process_event_def apply_payjoin_proposal_def
        split: receive_session.splits res.splits)
next
  case (proposal_posted b ctx r)
  with assms(2) show ?thesis by (cases c) (auto dest!: post_moves split: receive_session.splits)
next
  case (error_cancelled r n)
  with assms(2) show ?thesis
    by (cases c) (auto simp: replyable_cancel_def process_event_def pending_fallback_from_replyable_error_def
        split: receive_session.splits option.splits)
next
  case (error_posted b ctx r t n x)
  with assms(2) show ?thesis
    by (cases c) (auto simp: process_error_response_def pending_fallback_after_protocol_failure_def Let_def
        process_event_def pending_fallback_from_replyable_error_def
        split: receive_session.splits option.splits res.splits if_split_asm)
next
  case (cancelled tx cx n)
  with cancel_moves [OF assms(2)] show ?thesis
    by (auto simp: cancel_with_fallback_def transition_defs process_event_def pending_fallback_from_def)
qed (auto simp: closed_replays)

lemma receive_step_silent:
  assumes "receive_step E R s None s'" and "resumes c s"
  shows "resumes c s'"
  using assms(1)
proof cases
  case (poll_stasis b ctx r r')
  with assms(2) initialized_silent [of E b ctx r r'] show ?thesis by simp
next
  case (poll_transient b ctx r x r')
  with assms(2) initialized_silent [of E b ctx r r' x] show ?thesis by simp
next
  case (broadcast_checked m can r)
  with assms(2) show ?thesis by (auto dest!: unchecked_moves)
next
  case (ownership_checked cb a r)
  with assms(2) show ?thesis by (auto dest!: owned_moves)
next
  case (seen_checked cb a r)
  with assms(2) show ?thesis by (auto dest!: seen_moves)
next
  case (outputs_identified cs a r)
  with assms(2) show ?thesis by (auto dest!: unknown_moves)
next
  case (script_substituted g spk r r')
  with assms(2) show ?thesis
    by (cases c) (auto simp: v2_substitute_receiver_script_def rmap_eq_Ok dest!: substitute_substituted
        split: receive_session.splits)
next
  case (outputs_replaced g repl drain r r')
  with assms(2) show ?thesis
    by (cases c) (auto simp: v2_replace_receiver_outputs_def rmap_eq_Ok dest!: replaced_substituted
        split: receive_session.splits)
next
  case (inputs_contributed g ps r r')
  with assms(2) show ?thesis
    by (cases c) (auto simp: v2_contribute_inputs_def rmap_eq_Ok dest!: contribute_keeps_bounds
        split: receive_session.splits)
next
  case (fee_range_applied m mx r)
  with assms(2) show ?thesis by (auto dest!: fee_range_moves)
next
  case (finalize_transient wallet r x r')
  with assms(2) show ?thesis
    by (auto simp: v2_finalize_proposal_def transition_defs split: res.splits)
next
  case (proposal_posted b ctx r)
  with assms(2) show ?thesis by (auto dest!: post_moves)
next
  case (error_post_transient b ctx r t x r')
  with assms(2) show ?thesis
    by (auto simp: process_error_response_def Let_def split: option.splits res.splits if_split_asm)
next
  case (monitor_again lookup r t r' x)
  with assms(2) show ?thesis
    by (auto simp: check_for_transaction_def Let_def split: option.splits res.splits if_split_asm)
qed

interpretation receive: event_sourced "process_event E" "receive_step E R" stored resumes
  by unfold_locales (auto dest: receive_step_saved receive_step_silent)

end
