(* ===== verification/PJ_Receive_Replay.thy ===== *)
theory PJ_Receive_Replay
  imports PJ_Receive_Session PJ_Send_Request PJ_Wire_Facts
begin

text \<open>
  Properties of the receiver's session: what a log determines, in which order a log can only be,
  what the history says, and that a session ends.
\<close>

section \<open>Replay of a live session\<close>

lemma replay_loop_fold:
  "replay_loop E s seen es = rmap (\<lambda>s'. (s', seen @ es)) (try_fold (process_event E) s es)"
proof (induction es arbitrary: s seen)
  case (Cons e es)
  then show ?case by (cases "process_event E s e") auto
qed simp

lemma replay_events_created:
  "replay_events E (Created ctx # es) =
     rmap (\<lambda>s. (s, Created ctx # es)) (try_fold (process_event E) (receive_session_new ctx) es)"
  by (simp add: replay_events_def replay_loop_fold)

lemma new_session_simps [simp]:
  "stored (receive_session_new ctx) = receive_session_new ctx"
  "resumes (receive_session_new ctx) (receive_session_new ctx)"
  by (simp_all add: receive_session_new_def)

lemma run_folds:
  assumes "runs (receive_step E R) (receive_session_new ctx) c s es"
  shows "try_fold (process_event E) (receive_session_new ctx) es = Ok (stored c) \<and> resumes c s"
  using receive.replay_gives_saved_state [OF assms] by simp

text \<open>C5: For every run of a session, the replay of the events that it saved succeeds and gives the
  state after the last saved event, up to the output maps that a replay leaves empty.\<close>

theorem session_replay:
  assumes "runs (receive_step E R) (receive_session_new ctx) c s es"
  shows "replay_events E (Created ctx # es) = Ok (stored c, Created ctx # es)"
  using run_folds [OF assms] by (simp add: replay_events_created)

text \<open>C31: Loading the log of a live session gives back its saved state, without touching the
  storage; an expired session that is not closed is refused, with the fallback transaction.\<close>

theorem session_resumed:
  assumes "runs (receive_step E R) (receive_session_new ctx) c s es"
    and "load P p = Ok (Created ctx # es)"
    and "elapsed (e_wire E) clk (sc_expiration ctx) = (Ok gone :: (bool, receive_replay_error) res)"
  shows "replay_event_log E clk P f p =
    (if \<not> is_closed_session c \<and> gone
     then (rbind (history_fallback_tx E (Created ctx # es)) (\<lambda>tx. Err (Expired (sc_expiration ctx) tx)), p)
     else (Ok (stored c, Created ctx # es), p))"
proof -
  have closed: "is_closed_session (stored c) = is_closed_session c" by (cases c) simp_all
  have ctx: "history_session_context (Created ctx # es) = (Ok (ctx\<lparr>sc_reply_key := find_map (\<lambda>e. case e of
              RetrievedOriginalPayload _ reply_key \<Rightarrow> reply_key | _ \<Rightarrow> None) (Created ctx # es)\<rparr>) :: (_, receive_replay_error) res)"
    by (simp add: history_session_context_def)
  from run_folds [OF assms(1)] assms(2,3) ctx closed show ?thesis
    by (cases "history_fallback_tx E (Created ctx # es) :: (_, receive_replay_error) res")
      (simp_all add: replay_event_log_def replay_events_created construct_history_def)
qed

section \<open>The order of a log\<close>

text \<open>The stages of the protocol and the event that enters each of them.\<close>

fun stage :: "receive_session \<Rightarrow> nat option" where
  "stage (Initialized _) = Some 0"
| "stage (UncheckedOriginalPayload _) = Some 1"
| "stage (MaybeInputsOwned _) = Some 2"
| "stage (MaybeInputsSeen _) = Some 3"
| "stage (OutputsUnknown _) = Some 4"
| "stage (WantsOutputs _) = Some 5"
| "stage (WantsInputs _) = Some 6"
| "stage (WantsFeeRange _) = Some 7"
| "stage (ProvisionalProposal _) = Some 8"
| "stage (PayjoinProposal _) = Some 9"
| "stage (Monitor _) = Some 10"
| "stage _ = None"

fun event_stage :: "session_event \<Rightarrow> nat option" where
  "event_stage (Created _) = Some 0"
| "event_stage (RetrievedOriginalPayload _ _) = Some 1"
| "event_stage CheckedBroadcastSuitability = Some 2"
| "event_stage CheckedInputsNotOwned = Some 3"
| "event_stage CheckedNoInputsSeenBefore = Some 4"
| "event_stage (IdentifiedReceiverOutputs _) = Some 5"
| "event_stage (CommittedOutputs _ _) = Some 6"
| "event_stage (CommittedInputs _ _) = Some 7"
| "event_stage (AppliedFeeRange _) = Some 8"
| "event_stage (FinalizedProposal _) = Some 9"
| "event_stage PostedPayjoinProposal = Some 10"
| "event_stage _ = None"

lemma fallback_has_no_stage: "try_pending_fallback E s = Ok s' \<Longrightarrow> stage s' = None"
  by (cases s) (auto simp: pending_fallback_from_def pending_fallback_from_replyable_error_def split: option.splits)

lemma stage_step:
  assumes "process_event E s e = Ok s'" and "stage s' = Some k"
  shows "0 < k \<and> stage s = Some (k - 1) \<and> event_stage e = Some k"
proof (cases e)
  case (GotReplyableError error)
  with assms show ?thesis by (cases s) (auto simp: process_event_def)
next
  case Cancelled
  with assms show ?thesis by (auto simp: process_event_def dest!: fallback_has_no_stage)
next
  case ProtocolFailed
  with assms show ?thesis by (auto simp: process_event_def dest!: fallback_has_no_stage)
next
  case (Closed outcome)
  with assms show ?thesis by (auto simp: process_event_def)
qed (use assms in \<open>cases s; fastforce simp: process_event_def apply_retrieved_original_payload_def
    apply_checked_broadcast_suitability_def apply_checked_inputs_not_owned_def
    apply_checked_no_inputs_seen_before_def apply_identified_receiver_outputs_def apply_committed_outputs_def
    apply_committed_inputs_def apply_applied_fee_range_def apply_payjoin_proposal_def apply_payjoin_posted_def Let_def rmap_eq_Ok
    split: if_split_asm\<close>)+

lemma stages_in_order:
  assumes "try_fold (process_event E) s es = Ok s'" and "stage s' = Some k" and "stage s = Some j"
  shows "j \<le> k \<and> map event_stage es = map Some [Suc j..<Suc k]"
  using assms(1,2)
proof (induction es arbitrary: s' k rule: rev_induct)
  case (snoc e es)
  then obtain s1 where s1: "try_fold (process_event E) s es = Ok s1" "process_event E s1 e = Ok s'"
    by (auto simp: try_fold_append rbind_eq_Ok)
  from stage_step [OF s1(2) snoc.prems(2)] obtain i where i: "k = Suc i" "stage s1 = Some i" "event_stage e = Some k"
    by (cases k) auto
  from snoc.IH [OF s1(1) i(2)] i show ?case by simp
qed (use assms(3) in auto)

text \<open>C12: A log that replays to a state of the protocol holds exactly the events of the steps up to
  that state, each once and in order: no check can be skipped, repeated or reordered in a log.\<close>

theorem log_in_order:
  assumes "replay_events E log = Ok (s, log')" and "stage s = Some k"
  shows "log' = log \<and> map event_stage log = map Some [0..<Suc k]"
proof -
  obtain ctx es where l: "log = Created ctx # es" 
    using assms(1) by (auto simp: replay_events_def split: list.splits session_event.splits)
  with assms(1) have f: "try_fold (process_event E) (receive_session_new ctx) es = Ok s" "log' = log"
    by (auto simp: replay_events_created rmap_eq_Ok)
  have "map event_stage es = map Some [Suc 0..<Suc k]"
    using stages_in_order [OF f(1) assms(2), of 0] by (simp add: receive_session_new_def)
  with l f(2) show ?thesis by (simp add: upt_conv_Cons del: upt_Suc)
qed

section \<open>Logs are not trusted\<close>

text \<open>The indexes that the later steps use without a check of their own.\<close>

fun session_in_bounds :: "receive_session \<Rightarrow> bool" where
  "session_in_bounds (WantsOutputs r) \<longleftrightarrow>
     wo_owned_vouts (rc_state r) \<noteq> [] \<and>
     list_all (\<lambda>v. v < length (tx_output (unsigned_tx (oc_original_psbt (wo_original (rc_state r)))))) (wo_owned_vouts (rc_state r)) \<and>
     wo_change_vout (rc_state r) < length (tx_output (unsigned_tx (wo_payjoin_psbt (rc_state r))))"
| "session_in_bounds (WantsInputs r) \<longleftrightarrow> change_in_bounds (rc_state r)"
| "session_in_bounds (WantsFeeRange r) \<longleftrightarrow>
     wp_change_vout (wf_proposal (rc_state r)) < length (tx_output (unsigned_tx (wp_payjoin_psbt (wf_proposal (rc_state r)))))"
| "session_in_bounds _ \<longleftrightarrow> True"

definition replays_safely :: "env \<Rightarrow> session_event list \<Rightarrow> bool" where
  "replays_safely E log \<longleftrightarrow>
     (case replay_events E log of Ok (s, _) \<Rightarrow> session_in_bounds s | Err _ \<Rightarrow> True | Panic \<Rightarrow> False)"

lemma identified_safe:
  "case apply_identified_receiver_outputs vouts r of Ok s \<Rightarrow> session_in_bounds s | Err _ \<Rightarrow> True | Panic \<Rightarrow> False"
  by (cases vouts)
    (auto simp: apply_identified_receiver_outputs_def Let_def wants_outputs_new_def index_def original_context_new_def
      list_all_iff list_ex_iff not_le split: if_splits)

lemma committed_safe:
  "case apply_committed_outputs outs v r of Ok s \<Rightarrow> session_in_bounds s | Err _ \<Rightarrow> True | Panic \<Rightarrow> False"
  "case apply_committed_inputs ps p r' of Ok s \<Rightarrow> session_in_bounds s | Err _ \<Rightarrow> True | Panic \<Rightarrow> False"
  by (auto simp: apply_committed_outputs_def apply_committed_inputs_def Let_def change_in_bounds_def)

lemma fallback_safe:
  "case try_pending_fallback E s of Ok s' \<Rightarrow> session_in_bounds s' | Err _ \<Rightarrow> True | Panic \<Rightarrow> False"
  by (cases s) (auto simp: pending_fallback_from_def pending_fallback_from_replyable_error_def split: option.splits)

lemma process_event_safe:
  "case process_event E s e of Ok s' \<Rightarrow> session_in_bounds s' | Err _ \<Rightarrow> True | Panic \<Rightarrow> False"
proof (cases e)
  case Cancelled
  with fallback_safe [of E s] show ?thesis by (cases "try_pending_fallback E s") (auto simp: process_event_def)
next
  case ProtocolFailed
  with fallback_safe [of E s] show ?thesis by (cases "try_pending_fallback E s") (auto simp: process_event_def)
next
  case (IdentifiedReceiverOutputs vouts)
  then show ?thesis by (cases s) (simp_all add: process_event_def identified_safe)
next
  case (CommittedOutputs outs v)
  then show ?thesis by (cases s) (simp_all add: process_event_def committed_safe)
next
  case (CommittedInputs ps p)
  then show ?thesis by (cases s) (simp_all add: process_event_def committed_safe)
next
  case (GotReplyableError r)
  then show ?thesis by (cases s) (simp_all add: process_event_def)
qed (cases s; simp add: process_event_def apply_retrieved_original_payload_def apply_checked_broadcast_suitability_def
    apply_checked_inputs_not_owned_def apply_checked_no_inputs_seen_before_def apply_applied_fee_range_def
    apply_payjoin_proposal_def apply_payjoin_posted_def)+

text \<open>C40: Replaying any sequence of events at all, also one that no session wrote, gives an error or a
  state whose indexes are in bounds; it never panics.\<close>

theorem replay_is_safe:
  "replays_safely E log"
proof (cases log)
  case (Cons e es)
  show ?thesis
  proof (cases e)
    case (Created ctx)
    have "case try_fold (process_event E) s es of Ok s' \<Rightarrow> session_in_bounds s' | Err _ \<Rightarrow> True | Panic \<Rightarrow> False"
      if "session_in_bounds s" for s
      using that
    proof (induction es arbitrary: s)
      case (Cons x xs)
      with process_event_safe [of E s x] show ?case by (cases "process_event E s x") auto
    qed simp
    from this [of "receive_session_new ctx"] show ?thesis
      using Cons Created
      by (cases "try_fold (process_event E) (receive_session_new ctx) es")
        (auto simp: replays_safely_def replay_events_created receive_session_new_def)
  qed (use Cons in \<open>auto simp: replays_safely_def replay_events_def\<close>)
qed (simp add: replays_safely_def replay_events_def)

section \<open>What the history says\<close>

fun quiet :: "session_event \<Rightarrow> bool" where
  "quiet (Created _) = False"
| "quiet (RetrievedOriginalPayload _ _) = False"
| "quiet CheckedBroadcastSuitability = False"
| "quiet _ = True"

lemma history_quiet:
  assumes "quiet e"
  shows "get_unchecked_proposal (log @ [e]) = get_unchecked_proposal log"
    and "history_session_context log = (Ok sc :: (_, 'e) res) \<Longrightarrow> history_session_context (log @ [e]) = (Ok sc :: (_, 'e) res)"
    and "history_fallback_tx E (log @ [e]) = (history_fallback_tx E log :: (_, 'e) res)"
proof -
  show g: "get_unchecked_proposal (log @ [e]) = get_unchecked_proposal log"
    using assms by (cases e) (auto simp: get_unchecked_proposal_def find_map_append split: option.splits)
  show "history_session_context log = (Ok sc :: (_, 'e) res) \<Longrightarrow> history_session_context (log @ [e]) = (Ok sc :: (_, 'e) res)"
    using assms by (cases e) (auto simp: history_session_context_def find_map_append rmap_eq_Ok split: option.splits)
  show "history_fallback_tx E (log @ [e]) = (history_fallback_tx E log :: (_, 'e) res)"
    unfolding history_fallback_tx_def g using assms by auto
qed

lemma quiet_keeps_context:
  assumes "process_event E s e = Ok s'" and "quiet e"
    and "\<And>r c. s = WantsFeeRange r \<Longrightarrow> e = AppliedFeeRange c \<Longrightarrow>
      pc_original_psbt c = oc_original_psbt (wf_original (rc_state r))"
  shows "error_context E s' = error_context E s \<or> error_context E s' = None"
proof (cases e)
  case Cancelled
  with assms(1) show ?thesis
    by (cases s) (auto simp: process_event_def pending_fallback_from_def pending_fallback_from_replyable_error_def
        split: option.splits)
next
  case ProtocolFailed
  with assms(1) show ?thesis
    by (cases s) (auto simp: process_event_def pending_fallback_from_def pending_fallback_from_replyable_error_def
        split: option.splits)
next
  case (GotReplyableError error)
  with assms(1) show ?thesis by (auto simp: process_event_def split: option.splits prod.splits)
next
  case (IdentifiedReceiverOutputs vouts)
  with assms(1) show ?thesis
    by (cases s) (auto simp: process_event_def apply_identified_receiver_outputs_def wants_outputs_new_def Let_def
        rmap_eq_Ok rbind_eq_Ok original_context_new_def payload_fallback_tx_def wants_outputs_fallback_tx_def
        split: if_split_asm)
next
  case (CommittedOutputs outs v)
  with assms(1) show ?thesis
    by (cases s) (auto simp: process_event_def apply_committed_outputs_def Let_def wants_outputs_fallback_tx_def
        wants_inputs_fallback_tx_def split: if_split_asm)
next
  case (CommittedInputs ps p)
  with assms(1) show ?thesis
    by (cases s) (auto simp: process_event_def apply_committed_inputs_def Let_def wants_fee_range_fallback_tx_def
        wants_inputs_fallback_tx_def split: if_split_asm)
next
  case (AppliedFeeRange c)
  with assms(1,3) show ?thesis
    by (cases s) (auto simp: process_event_def apply_applied_fee_range_def wants_fee_range_fallback_tx_def
        proposal_fallback_tx_def)
qed (use assms in \<open>cases s; force simp: process_event_def apply_checked_inputs_not_owned_def
    apply_checked_no_inputs_seen_before_def apply_payjoin_proposal_def apply_payjoin_posted_def proposal_fallback_tx_def\<close>)+

text \<open>What the log says of a state.\<close>

definition told :: "env \<Rightarrow> session_event list \<Rightarrow> receive_session \<Rightarrow> bool" where
  "told E log s \<longleftrightarrow>
     (case error_context E s of
        Some (sc, tx) \<Rightarrow> history_session_context log = (Ok sc :: (_, receive_replay_error) res) \<and>
          history_fallback_tx E log = (Ok tx :: (_, receive_replay_error) res)
      | None \<Rightarrow> True) \<and>
     (case s of
        Initialized r \<Rightarrow> get_unchecked_proposal log = None \<and> CheckedBroadcastSuitability \<notin> set log \<and>
          sc_reply_key (rc_context r) = None
      | UncheckedOriginalPayload r \<Rightarrow> get_unchecked_proposal log = Some (rc_state r) \<and> CheckedBroadcastSuitability \<notin> set log
      | _ \<Rightarrow> True)"

lemma told_step:
  assumes "process_event E s e = Ok s'" and "told E log s"
    and "\<And>r c. s = WantsFeeRange r \<Longrightarrow> e = AppliedFeeRange c \<Longrightarrow>
      pc_original_psbt c = oc_original_psbt (wf_original (rc_state r))"
  shows "told E (log @ [e]) s'"
proof (cases "quiet e")
  case True
  have "error_context E s' = error_context E s \<or> error_context E s' = None"
    by (rule quiet_keeps_context [OF assms(1) True]) (use assms(3) in auto)
  moreover have "s' \<noteq> Initialized r" "s' \<noteq> UncheckedOriginalPayload r'" for r r'
    using stage_step [OF assms(1)] True by (cases e; fastforce)+
  ultimately show ?thesis
    using assms(2) history_quiet(2,3) [OF True, where 'e = receive_replay_error] history_quiet(1) [OF True]
    by (auto simp: told_def split: option.splits receive_session.splits)
next
  case False
  then consider ctx where "e = Created ctx" | p k where "e = RetrievedOriginalPayload p k" | "e = CheckedBroadcastSuitability"
    by (cases e) auto
  then show ?thesis
  proof cases
    case 2
    then obtain r where r: "s = Initialized r" using assms(1) by (cases s) (auto simp: process_event_def)
    with 2 assms show ?thesis
      by (auto simp: told_def process_event_def apply_retrieved_original_payload_def get_unchecked_proposal_def
          find_map_append history_session_context_def history_fallback_tx_def rmap_eq_Ok list_ex_iff
          split: option.splits)
  next
    case 3
    then obtain r where r: "s = UncheckedOriginalPayload r" using assms(1) by (cases s) (auto simp: process_event_def)
    with 3 assms show ?thesis
      by (auto simp: told_def process_event_def apply_checked_broadcast_suitability_def get_unchecked_proposal_def
          find_map_append history_session_context_def history_fallback_tx_def rmap_eq_Ok payload_fallback_tx_def
          split: option.splits)
  qed (use assms(1) in \<open>cases s; simp add: process_event_def\<close>)
qed

lemma stored_view [simp]: "error_context E (stored s) = error_context E s"
  by (cases s) (simp_all add: wants_inputs_fallback_tx_def)

lemma told_stored: "told E log (stored s) = told E log s"
  unfolding told_def stored_view by (cases s) simp_all

lemma fee_range_keeps_original:
  assumes "receive_step E R (WantsFeeRange r) (Some (AppliedFeeRange c)) s'"
  shows "pc_original_psbt c = oc_original_psbt (wf_original (rc_state r))"
  using assms
proof cases
  case (fee_range_applied m mx)
  then show ?thesis
    by (auto simp: deconstruct_simps apply_fee_range_def calculate_psbt_context_with_fee_range_def
        rbind_eq_Ok rmap_eq_Ok Let_def split: res.splits)
qed (auto simp: cancel_with_fallback_def transition_defs)

text \<open>C32: The history of a live session tells what its state holds: the session's context with the
  sender's reply key, and the transaction that an error or a cancellation falls back to.\<close>

theorem history_tells_state:
  assumes "runs (receive_step E R) (receive_session_new ctx) c s es"
    and "sc_reply_key ctx = None"
    and "error_context E c = Some (sc, tx)"
  shows "history_session_context (Created ctx # es) = (Ok sc :: (_, receive_replay_error) res) \<and>
    history_fallback_tx E (Created ctx # es) = (Ok tx :: (_, receive_replay_error) res)"
proof -
  have "told E (Created ctx # es) c \<and> resumes c s"
    using assms(1)
  proof induction
    case started
    then show ?case
      using assms(2) by (simp add: told_def receive_session_new_def history_session_context_def history_fallback_tx_def
          get_unchecked_proposal_def)
  next
    case (saved c s es e s')
    from saved have p: "process_event E (stored c) e = Ok (stored s')" "resumes s' s'"
      using receive_step_saved by blast+
    have "told E ((Created ctx # es) @ [e]) (stored s')"
    proof (rule told_step [OF p(1)])
      show "told E (Created ctx # es) (stored c)" using saved by (simp add: told_stored)
      fix r pc assume "stored c = WantsFeeRange r" "e = AppliedFeeRange pc"
      with saved show "pc_original_psbt pc = oc_original_psbt (wf_original (rc_state r))"
        by (cases c) (auto dest: fee_range_keeps_original)
    qed
    with p show ?case by (simp add: told_stored)
  next
    case (silent c s es s')
    then show ?case using receive_step_silent by blast
  qed
  with assms(3) show ?thesis by (simp add: told_def)
qed

section \<open>A session ends\<close>

text \<open>How many events a session can still save.\<close>

fun remaining :: "receive_session \<Rightarrow> nat" where
  "remaining (ClosedSession _) = 0"
| "remaining (PendingFallback _) = 1"
| "remaining (HasReplyableError _) = 2"
| "remaining s = (case stage s of Some k \<Rightarrow> 12 - k | None \<Rightarrow> 0)"

lemma remaining_resumes: "resumes c s \<Longrightarrow> remaining c = remaining s"
  by (cases c; cases s) auto

lemma remaining_no_stage: "stage s = None \<Longrightarrow> remaining s \<le> 2"
  by (cases s) auto

lemma remaining_stage: "stage s = Some k \<Longrightarrow> remaining s = 12 - k \<and> k \<le> 10"
  by (cases s) auto

lemma no_stage_step:
  assumes "receive_step E R s (Some e) s'" and "stage s' = None"
  shows "remaining s' < remaining s"
  using assms
  by cases (auto simp: deconstruct_simps unchecked_check_broadcast_suitability_def owned_check_inputs_not_owned_def
      seen_check_no_inputs_seen_before_def unknown_identify_receiver_outputs_def apply_fee_range_def
      proposal_process_response_def replyable_def assume_interactive_receiver_def
      split: res.splits receive_error.splits prod.splits if_split_asm
      elim!: with_fallback.elims)

lemma remaining_step:
  assumes "receive_step E R s (Some e) s'" and "resumes c s"
  shows "remaining s' < remaining c"
proof (cases "stage s'")
  case None
  then show ?thesis using no_stage_step [OF assms(1)] remaining_resumes [OF assms(2)] by simp
next
  case (Some k)
  have "stage (stored x) = stage x" for x by (cases x) simp_all
  with receive_step_saved [OF assms] Some have "0 < k \<and> stage c = Some (k - 1)"
    using stage_step [of E "stored c" e "stored s'" k] by simp
  with Some remaining_stage [of s' k] remaining_stage [of c "k - 1"] show ?thesis by auto
qed

text \<open>C33: Every session saves at most twelve events after its creation, however often its steps are
  retried: each saved event takes the session to a state from which fewer can follow.\<close>

theorem session_log_bounded:
  assumes "runs (receive_step E R) (receive_session_new ctx) c s es"
  shows "length es + remaining c \<le> 12"
proof -
  have "length es + remaining c \<le> 12 \<and> resumes c s"
    using assms
  proof induction
    case started
    then show ?case by (simp add: receive_session_new_def)
  next
    case (saved c s es e s')
    with remaining_step [of E R s e s' c] receive_step_saved [of E R s e s' c] show ?case by auto
  next
    case (silent c s es s')
    then show ?case using receive_step_silent by blast
  qed
  then show ?thesis by simp
qed

lemma close_from_pending:
  "receive_step E R (PendingFallback r) (Some (Closed Aborted)) (ClosedSession Aborted)"
  by (rule pending_closed [of r Aborted "()"]) (simp add: close_pending_def)

lemma cancel_then_close:
  assumes "receive_step E R s (Some e) (PendingFallback r)"
  shows "runs (receive_step E R) s (ClosedSession Aborted) (ClosedSession Aborted) [e, Closed Aborted]"
  by (rule runs_two [where step = "receive_step E R", OF assms close_from_pending])

text \<open>C34: From every state of a session there is a run that closes it and saves at most two events: no
  state is stuck.\<close>

theorem session_can_be_closed:
  "\<exists>es o'. length es \<le> 2 \<and> runs (receive_step E R) s (ClosedSession o') (ClosedSession o') es"
proof (cases "with_fallback E s")
  case (Some f)
  obtain tx cx where f: "f = (tx, cx)" by fastforce
  have "receive_step E R s (Some Cancelled) (PendingFallback \<lparr>rc_state = tx, rc_context = cx\<rparr>)"
    by (rule cancelled [OF Some [unfolded f]]) (simp add: cancel_with_fallback_def transition_defs)
  from cancel_then_close [OF this] show ?thesis
    by (intro exI [of _ "[Cancelled, Closed Aborted]"] exI [of _ Aborted]) simp
next
  case None
  have one: ?thesis if "receive_step E R s (Some (Closed Aborted)) (ClosedSession Aborted)"
    using runs_one [where step = "receive_step E R", OF that] by (intro exI [of _ "[Closed Aborted]"] exI [of _ Aborted]) simp
  show ?thesis
  proof (cases s)
    case (Initialized r)
    show ?thesis by (rule one) (simp add: Initialized cancel_initialized cancel_unchecked_def)
  next
    case (UncheckedOriginalPayload r)
    show ?thesis by (rule one) (simp add: UncheckedOriginalPayload cancel_unchecked_payload cancel_unchecked_def)
  next
    case (PendingFallback r)
    show ?thesis by (rule one) (simp add: PendingFallback close_from_pending)
  next
    case (HasReplyableError r)
    show ?thesis
    proof (cases "hre_fallback_tx (rc_state r)")
      case None
      show ?thesis
        by (rule one, simp only: HasReplyableError, rule error_cancel_closes) (simp add: replyable_cancel_def None)
    next
      case (Some tx)
      have "receive_step E R s (Some Cancelled) (PendingFallback \<lparr>rc_state = tx, rc_context = rc_context r\<rparr>)"
        unfolding HasReplyableError by (rule error_cancelled) (simp add: replyable_cancel_def Some)
      from cancel_then_close [OF this] show ?thesis
        by (intro exI [of _ "[Cancelled, Closed Aborted]"] exI [of _ Aborted]) simp
    qed
  next
    case (ClosedSession o')
    show ?thesis using runs.started [of "receive_step E R" s] ClosedSession
      by (intro exI [of _ "[]"] exI [of _ o']) simp
  qed (use None in simp_all)
qed

section \<open>A concrete session\<close>

text \<open>The directory answers with a version 1 original.\<close>

definition sample_answer :: string where
  "sample_answer = ''orig'' @ [CHR 0x0A] @ ''v=1''"

definition sample_env :: env where
  "sample_env = \<lparr>e_btc = sample_btc, e_text = sample_text,
     e_wire = sample_wire\<lparr>read_bhttp := (\<lambda>s. Inr \<lparr>bh_status = Some 200, bh_headers = [], bh_content = sample_answer\<rparr>)\<rparr>,
     json_to_string = (\<lambda>_. []), json_from_slice = (\<lambda>_. None), psbt_serialize = (\<lambda>_. ''orig''),
     psbt_deserialize = (\<lambda>_. Inr sample_original)\<rparr>"

definition sample_session_context :: session_context where
  "sample_session_context = \<lparr>sc_address = payee_spk, sc_directory = sample_url, sc_ohttp_keys = 3, sc_expiration = 1700000000,
     sc_amount = None, sc_receiver_key = (9, 9), sc_reply_key = None, sc_max_fee_rate = 5\<rparr>"

definition sample_received :: original_payload where
  "sample_received = \<lparr>pl_psbt = sample_original,
     pl_params = (default_params sample_btc)\<lparr>par_output_substitution := Disabled\<rparr>\<rparr>"

lemma sample_unchecked: "unchecked_from_payload sample_env sample_answer = Ok sample_received"
  by code_simp

lemma sample_retrieved:
  "initialized_process_response sample_env (replicate 8192 nul) 0 r =
     fnr_success (RetrievedOriginalPayload sample_received None) \<lparr>rc_state = sample_received,
       rc_context = (rc_context r)\<lparr>sc_reply_key := None\<rparr>\<rparr>"
proof -
  have "process_get_res (e_wire sample_env) (replicate 8192 nul) 0 = Ok (Some sample_answer)"
    by (simp add: process_get_res_def process_ohttp_res_def ohttp_decapsulate_def sample_env_def sample_wire_def
        encapsulated_message_bytes_def)
  moreover have "from_utf8 sample_answer = Inr sample_answer" by code_simp
  ultimately show ?thesis
    by (simp add: initialized_process_response_def inner_process_res_def extract_proposal_from_v1_def sample_unchecked)
qed

text \<open>The receiver skips the broadcast check and cancels.\<close>

abbreviation sample_log :: "session_event list" where
  "sample_log \<equiv> [RetrievedOriginalPayload sample_received None, CheckedBroadcastSuitability]"

lemma sample_run:
  "runs (receive_step sample_env R) (receive_session_new sample_session_context)
     (MaybeInputsOwned \<lparr>rc_state = sample_received, rc_context = sample_session_context\<rparr>)
     (MaybeInputsOwned \<lparr>rc_state = sample_received, rc_context = sample_session_context\<rparr>) sample_log"
proof (rule runs_two)
  show "receive_step sample_env R (receive_session_new sample_session_context)
      (Some (RetrievedOriginalPayload sample_received None))
      (UncheckedOriginalPayload \<lparr>rc_state = sample_received, rc_context = sample_session_context\<rparr>)"
    unfolding receive_session_new_def
    by (rule retrieved [of _ "replicate 8192 nul" 0])
      (simp add: sample_retrieved transition_defs sample_session_context_def)
  show "receive_step sample_env R (UncheckedOriginalPayload \<lparr>rc_state = sample_received, rc_context = sample_session_context\<rparr>)
      (Some CheckedBroadcastSuitability) (MaybeInputsOwned \<lparr>rc_state = sample_received, rc_context = sample_session_context\<rparr>)"
    by (rule interactive) (simp add: assume_interactive_receiver_def transition_defs)
qed

lemma session_replay_witness:
  "replay_events sample_env (Created sample_session_context # sample_log) =
     Ok (MaybeInputsOwned \<lparr>rc_state = sample_received, rc_context = sample_session_context\<rparr>, Created sample_session_context # sample_log)"
  using session_replay [OF sample_run] by simp

lemma log_in_order_witness:
  "map event_stage (Created sample_session_context # sample_log) = [Some 0, Some 1, Some 2]"
proof -
  have "replay_events sample_env (Created sample_session_context # sample_log) =
     Ok (MaybeInputsOwned \<lparr>rc_state = sample_received, rc_context = sample_session_context\<rparr>, Created sample_session_context # sample_log)"
    using run_folds [OF sample_run] by (simp add: replay_events_created)
  from log_in_order [OF this, of 2] show ?thesis by (simp add: numeral_2_eq_2)
qed

lemma history_tells_state_witness:
  "history_fallback_tx sample_env (Created sample_session_context # sample_log) =
     (Ok (Some (unsigned_tx sample_original)) :: (_, receive_replay_error) res)"
proof -
  have "error_context sample_env (MaybeInputsOwned \<lparr>rc_state = sample_received, rc_context = sample_session_context\<rparr>) =
      Some (sample_session_context, Some (unsigned_tx sample_original))"
    by (simp add: payload_fallback_tx_def extract_tx_def sample_received_def sample_env_def sample_btc_def)
  from history_tells_state [OF sample_run _ this] show ?thesis by (simp add: sample_session_context_def)
qed

lemma session_log_bounded_witness:
  "length sample_log + remaining (MaybeInputsOwned \<lparr>rc_state = sample_received, rc_context = sample_session_context\<rparr>) = 12"
  using session_log_bounded [OF sample_run] by simp

lemma session_resumed_witness:
  "let p = \<lparr>in_events = Created sample_session_context # sample_log, in_is_closed = False\<rparr>;
       late = \<lparr>now_ns = 1800000000 * 10 ^ 9, max_ns = 10 ^ 30\<rparr>
   in replay_event_log sample_env late in_memory_persister (\<lambda>_ :: unit. []) p =
      (Err (Expired 1700000000 (Some (unsigned_tx sample_original))), p)"
proof -
  define p where "p = \<lparr>in_events = Created sample_session_context # sample_log, in_is_closed = False\<rparr>"
  define late where "late = \<lparr>now_ns = 1800000000 * 10 ^ 9, max_ns = 10 ^ 30\<rparr>"
  have l: "load in_memory_persister p = (Ok (Created sample_session_context # sample_log) :: (_, unit) res)"
    by (simp add: in_memory_persister_def in_memory_load_def p_def)
  have e: "elapsed (e_wire sample_env) late (sc_expiration sample_session_context) = (Ok True :: (bool, receive_replay_error) res)"
    by (simp add: elapsed_def time_now_def time_from_system_time_def from_unix_seconds_def sample_env_def
        sample_wire_def late_def sample_session_context_def)
  have f: "history_fallback_tx sample_env (Created sample_session_context # sample_log) =
      (Ok (Some (unsigned_tx sample_original)) :: (_, receive_replay_error) res)"
    by (simp add: history_fallback_tx_def get_unchecked_proposal_def extract_tx_def sample_received_def
        sample_env_def sample_btc_def)
  have x: "sc_expiration sample_session_context = 1700000000" by (simp add: sample_session_context_def)
  from session_resumed [OF sample_run l e, of "\<lambda>_. []"] show ?thesis
    unfolding Let_def p_def [symmetric] late_def [symmetric] by (simp add: f x)
qed

end
