(* ===== verification/PJ_Pj_Uri_Facts.thy ===== *)
theory PJ_Pj_Uri_Facts
  imports PJ_Pj_Uri PJ_Wire_Facts PJ_Url_Facts
begin

text \<open>
  The endpoint that a receiver hands out is read by the sender as the same parameters, and the
  two agree on the mailboxes of a session.
\<close>

section \<open>Documented behaviour of bech32\<close>

definition plain_char :: "char \<Rightarrow> bool" where
  "plain_char c \<longleftrightarrow> is_digit c \<or> is_upper c"

text \<open>The upper-case form: the prefix, the separator \<open>1\<close>, and characters that are not a \<open>1\<close>.\<close>

definition bech32_laws :: "wire_api \<Rightarrow> bool" where
  "bech32_laws W \<longleftrightarrow>
     (\<forall>hrp\<in>{''ID'', ''RK'', ''OH'', ''EX''}. \<forall>bytes. bytes \<noteq> [] \<longrightarrow>
        (\<exists>d. bech32_encode_upper W hrp bytes = Some (hrp @ ''1'' @ d) \<and> d \<noteq> [] \<and>
          list_all plain_char d \<and> CHR ''1'' \<notin> set d \<and> bech32_decode W (hrp @ ''1'' @ d) = Some (hrp, bytes)))"

section \<open>Setting and getting\<close>

lemma plain_not_special: "plain_char c \<Longrightarrow> c \<noteq> CHR ''-'' \<and> c \<noteq> CHR ''+'' \<and> c \<noteq> CHR ''/'' \<and>
    c \<noteq> CHR ''?'' \<and> c \<noteq> CHR ''#'' \<and> c \<noteq> CHR '':'' \<and> c \<noteq> CHR ''.'' \<and> \<not> is_lower c"
  by (auto simp: plain_char_def is_digit_def is_upper_def is_lower_def)

lemma plain_not_in: "list_all plain_char s \<Longrightarrow> CHR ''-'' \<notin> set s \<and> CHR ''+'' \<notin> set s \<and> CHR ''/'' \<notin> set s \<and>
    CHR ''?'' \<notin> set s \<and> CHR ''#'' \<notin> set s \<and> CHR '':'' \<notin> set s \<and> CHR ''.'' \<notin> set s \<and> \<not> list_ex is_lower s"
  using plain_not_special by (auto simp: list_all_iff list_ex_iff)

lemma fragment_chars_ok: "list_all fragment_char s \<Longrightarrow> fragment_chars_loop s = Ok ()"
  by (induction s) auto

lemma delimiter_dash:
  assumes "list_all (\<lambda>c. plain_char c \<or> c = CHR ''-'') s"
  shows "check_fragment_delimiter s = Ok CHR ''-''"
proof -
  have "list_all fragment_char s"
    using assms by (auto simp: list_all_iff fragment_char_def plain_char_def)
  moreover have "CHR ''+'' \<notin> set s" using assms plain_not_special by (fastforce simp: list_all_iff)
  ultimately show ?thesis by (simp add: check_fragment_delimiter_def fragment_chars_ok)
qed

lemma set_fragment_twice [simp]: "set_fragment f (set_fragment g u) = set_fragment f u"
  by (simp add: set_fragment_def rebuild_raw_def render_def)

lemma set_fragment_simps [simp]:
  "fragment (set_fragment f u) = f" "path (set_fragment f u) = path u"
  by (simp_all add: set_fragment_def rebuild_raw_def)

text \<open>The three parameters are set one after the other and end up sorted.\<close>

lemma set_params:
  assumes "list_all plain_char a" "list_all plain_char b" "list_all plain_char c" and "fragment u = None"
  defines "rk \<equiv> ''RK1'' @ a" and "oh \<equiv> ''OH1'' @ b" and "ex \<equiv> ''EX1'' @ c"
  shows "rbind (set_param rk u) (\<lambda>u. rbind (set_param oh u) (set_param ex)) =
    (Ok (set_fragment (Some (ex @ ''-'' @ oh @ ''-'' @ rk)) u) :: (url, 'e) res)"
proof -
  have plain: "list_all plain_char rk" "list_all plain_char oh" "list_all plain_char ex"
    using assms(1-3) by (simp_all add: rk_def oh_def ex_def plain_char_def is_upper_def is_digit_def)
  have keys: "param_key rk = ''RK''" "param_key oh = ''OH''" "param_key ex = ''EX''"
    by (simp_all add: param_key_def before_def rk_def oh_def ex_def)
  have ne: "rk \<noteq> []" "oh \<noteq> []" "ex \<noteq> []" by (simp_all add: rk_def oh_def ex_def)
  have free: "CHR ''-'' \<notin> set rk" "CHR ''-'' \<notin> set oh" "CHR ''-'' \<notin> set ex"
    using plain plain_not_in by blast+
  have order: "''OH'' < ''RK''" "''EX'' < ''RK''" "''EX'' < ''OH''" by (simp_all add: less_char_def)
  have "set_param rk u = (Ok (set_fragment (Some rk) u) :: (url, 'e) res)"
    using assms(4) by (simp add: set_param_def delimiter_dash keys)
  moreover have "set_param oh (set_fragment (Some rk) u) = (Ok (set_fragment (Some (oh @ ''-'' @ rk)) u) :: (url, 'e) res)"
  proof -
    have "check_fragment_delimiter rk = Ok CHR ''-''"
      using plain(1) by (intro delimiter_dash) (auto simp: list_all_iff)
    then show ?thesis using free ne order by (simp add: set_param_def keys split_on_none)
  qed
  moreover have "set_param ex (set_fragment (Some (oh @ ''-'' @ rk)) u) =
      (Ok (set_fragment (Some (ex @ ''-'' @ oh @ ''-'' @ rk)) u) :: (url, 'e) res)"
  proof -
    have "check_fragment_delimiter (oh @ ''-'' @ rk) = Ok CHR ''-''"
      using plain(1,2) by (intro delimiter_dash) (auto simp: list_all_iff)
    moreover have "split_on CHR ''-'' (oh @ ''-'' @ rk) = [oh, rk]"
      using split_on_append [OF free(2), of rk] free(1) by (simp add: split_on_none)
    ultimately show ?thesis using ne order by (simp add: set_param_def keys)
  qed
  ultimately show ?thesis by simp
qed

lemma get_params:
  assumes "list_all plain_char a" "list_all plain_char b" "list_all plain_char c"
    and "fragment u = Some ((''EX1'' @ c) @ ''-'' @ (''OH1'' @ b) @ ''-'' @ ''RK1'' @ a)"
  shows "get_param ''RK1'' u = Ok (Some (''RK1'' @ a))" and "get_param ''OH1'' u = Ok (Some (''OH1'' @ b))"
    and "get_param ''EX1'' u = Ok (Some (''EX1'' @ c))"
proof -
  let ?rk = "''RK1'' @ a" and ?oh = "''OH1'' @ b" and ?ex = "''EX1'' @ c"
  have plain: "list_all plain_char ?rk" "list_all plain_char ?oh" "list_all plain_char ?ex"
    using assms(1-3) by (simp_all add: plain_char_def is_upper_def is_digit_def)
  have free: "CHR ''-'' \<notin> set ?rk" "CHR ''-'' \<notin> set ?oh" "CHR ''-'' \<notin> set ?ex"
    using plain plain_not_in by blast+
  have d: "check_fragment_delimiter (?ex @ ''-'' @ ?oh @ ''-'' @ ?rk) = Ok CHR ''-''"
    using plain by (intro delimiter_dash) (auto simp: list_all_iff)
  have s: "split_on CHR ''-'' (?ex @ ''-'' @ ?oh @ ''-'' @ ?rk) = [?ex, ?oh, ?rk]"
    using split_on_append [OF free(3), of "?oh @ ''-'' @ ?rk"] split_on_append [OF free(2), of ?rk] free(1)
    by (simp add: split_on_none)
  show "get_param ''RK1'' u = Ok (Some ?rk)" "get_param ''OH1'' u = Ok (Some ?oh)" "get_param ''EX1'' u = Ok (Some ?ex)"
    unfolding get_param_def assms(4) option.case d rmap.simps s by (simp_all add: starts_with_def)
qed

section \<open>Endpoints\<close>

text \<open>A directory whose path is one level deep: a relative reference replaces the whole path.\<close>

definition one_level :: "url \<Rightarrow> bool" where
  "one_level u \<longleftrightarrow> rooted u \<and> CHR ''/'' \<notin> set (tl (path u))"

definition at_path :: "string \<Rightarrow> string option \<Rightarrow> url \<Rightarrow> url" where
  "at_path i f u = rebuild_raw (u\<lparr>path := CHR ''/'' # i, query := None, fragment := f\<rparr>)"

lemma at_path_simps [simp]:
  "path (at_path i f u) = CHR ''/'' # i" "fragment (at_path i f u) = f" "query (at_path i f u) = None"
  "scheme (at_path i f u) = scheme u" "url_host (at_path i f u) = url_host u" "port (at_path i f u) = port u"
  "set_fragment g (at_path i f u) = at_path i g u" "at_path i f (at_path j g u) = at_path i f u"
  by (simp_all add: at_path_def rebuild_raw_def set_fragment_def render_def)

lemma at_path_one_level:
  assumes "one_level u" and "list_all plain_char i"
  shows "one_level (at_path i f u)"
  using assms plain_not_in [OF assms(2)] rooted_rebuild [of u "u\<lparr>path := CHR ''/'' # i, query := None, fragment := f\<rparr>"]
  by (simp add: one_level_def at_path_def rebuild_raw_def)

lemma plain_not_url:
  assumes "list_all plain_char i"
  shows "\<not> full_url_reference i"
proof (cases "find_str ''://'' i")
  case (Some k)
  then obtain t where "i = take k i @ ''://'' @ t" using find_str_SomeD by blast
  then have "CHR '':'' \<in> set i" by (metis in_set_conv_decomp append_Cons)
  then show ?thesis using plain_not_in [OF assms] by blast
qed (simp add: full_url_reference_def)

lemma find_str_mid: "find_str p (s @ p @ t) \<noteq> None"
proof (induction s)
  case Nil
  have "starts_with p (p @ t)" by (auto simp: starts_with_iff)
  then show ?case by (cases "p @ t") auto
qed auto

lemma upto_last_root: "CHR ''/'' \<notin> set s \<Longrightarrow> upto_last CHR ''/'' (CHR ''/'' # s) = Some ''/''"
proof -
  assume "CHR ''/'' \<notin> set s"
  then have "dropWhile (\<lambda>x. x \<noteq> CHR ''/'') (rev s @ [CHR ''/'']) = [CHR ''/'']"
    by (subst dropWhile_append2) auto
  then show ?thesis by (simp add: upto_last_def)
qed

lemma join_one_level:
  assumes "one_level u" and "list_all plain_char i" and "i \<noteq> []"
  shows "join i u = Ok (at_path i None u)"
proof -
  obtain t where t: "path u = CHR ''/'' # t" "CHR ''/'' \<notin> set t"
    using assms(1) by (cases "path u") (auto simp: one_level_def rooted_iff)
  have i: "CHR ''/'' \<notin> set i" "CHR ''.'' \<notin> set i" using plain_not_in [OF assms(2)] by auto
  have "split_on CHR ''/'' (CHR ''/'' # i) = [[], i]" using i(1) by (simp add: split_on_none)
  moreover have "i \<noteq> ''.''" "i \<noteq> ''..''" using i(2) by auto
  ultimately have "merged_path (path u) i = CHR ''/'' # i"
    using upto_last_root [OF t(2)] assms(3) by (simp add: merged_path_def t(1) starts_with_def)
  moreover have "\<not> starts_with ''/'' i" using i(1) by (cases i) (auto simp: starts_with_def)
  ultimately show ?thesis using plain_not_url [OF assms(2)] by (simp add: join_def at_path_def)
qed

text \<open>
  What a parameter has to satisfy: a directory one level deep, and values that their encodings
  can hold. The gateway's keys are those whose compact form is read back.
\<close>

definition pj_ok :: "wire_api \<Rightarrow> pj_param_v2 \<Rightarrow> bool" where
  "pj_ok W p \<longleftrightarrow> one_level (pj_directory p) \<and> length (pj_id p) = 8 \<and> valid_pk W (pj_receiver_pubkey p) \<and>
     lock_time_threshold W \<le> pj_expiration p \<and> pj_expiration p < 2 ^ 32 \<and>
     (\<exists>b. ohttp_keys_to_bytes W (pj_ohttp_keys p) = Ok b \<and> ohttp_keys_from_bytes W b = Ok (pj_ohttp_keys p))"

lemma bech32_encodes:
  assumes "bech32_laws W" and "hrp \<in> {''ID'', ''RK'', ''OH'', ''EX''}" and "bytes \<noteq> []"
  obtains d where "bech32_encode_upper W hrp bytes = Some (hrp @ ''1'' @ d)" "d \<noteq> []" "list_all plain_char d"
    "bech32_decode W (hrp @ ''1'' @ d) = Some (hrp, bytes)"
  using assms unfolding bech32_laws_def by blast

lemma pubkey_bytes:
  assumes "hpke_laws W" and "valid_pk W pk"
  obtains k where "secp_from_slice W (pk_to_bytes W pk) = Inr k" "from_compressed_bytes W (secp_serialize W k) = Ok pk"
    "secp_serialize W k \<noteq> []"
proof -
  obtain k where k: "secp_from_slice W (pk_to_bytes W pk) = Inr k" "pk_from_bytes W (secp_serialize_uncompressed W k) = Inr pk"
    using assms(2) by (auto simp: valid_pk_def)
  have "from_compressed_bytes W (secp_serialize W k) = Ok pk"
    by (simp add: from_compressed_bytes_def secp_laws [OF assms(1) k(1)] k)
  moreover have "secp_serialize W k \<noteq> []" using secp_laws(1) [OF assms(1) k(1)] by (auto simp: public_key_size_def)
  ultimately show thesis using that k(1) by blast
qed

lemma time_bytes_length: "length (time_to_bytes t) = 4"
  by (simp add: time_to_bytes_def)

text \<open>The endpoint is the directory with the path and the fragment replaced, and is parsed back.\<close>

lemma endpoint_form:
  assumes laws: "bech32_laws W" "hpke_laws W" and ok: "pj_ok W p"
  obtains i f where
    "bech32_encode_upper W ''ID'' (pj_id p) = Some (''ID1'' @ i)" "list_all plain_char i" "i \<noteq> []"
    "\<And>u. one_level u \<Longrightarrow> pj_v2_endpoint W (p\<lparr>pj_directory := u\<rparr>) = (Ok (at_path i (Some f) u) :: (url, 'e) res)"
    "\<And>u. pj_v2_parse W (at_path i (Some f) u) = Ok (p\<lparr>pj_directory := at_path i (Some f) u\<rparr>)"
proof -
  have l: "length (pj_id p) = 8" using ok by (simp add: pj_ok_def)
  then have ne: "pj_id p \<noteq> []" by auto
  obtain i where i: "bech32_encode_upper W ''ID'' (pj_id p) = Some (''ID'' @ ''1'' @ i)" "i \<noteq> []" "list_all plain_char i"
      "bech32_decode W (''ID'' @ ''1'' @ i) = Some (''ID'', pj_id p)"
    using bech32_encodes [OF laws(1), of "''ID''" "pj_id p"] ne by blast
  obtain k where k: "secp_from_slice W (pk_to_bytes W (pj_receiver_pubkey p)) = Inr k"
      "from_compressed_bytes W (secp_serialize W k) = Ok (pj_receiver_pubkey p)" "secp_serialize W k \<noteq> []"
    using pubkey_bytes [OF laws(2)] ok unfolding pj_ok_def by blast
  define rb where "rb = secp_serialize W k"
  note rb = k [folded rb_def]
  obtain a where a: "bech32_encode_upper W ''RK'' rb = Some (''RK'' @ ''1'' @ a)" "list_all plain_char a"
      "bech32_decode W (''RK'' @ ''1'' @ a) = Some (''RK'', rb)"
    using bech32_encodes [OF laws(1), of "''RK''" rb] rb(3) by blast
  obtain ob where ob: "ohttp_keys_to_bytes W (pj_ohttp_keys p) = Ok ob" "ohttp_keys_from_bytes W ob = Ok (pj_ohttp_keys p)"
    using ok by (auto simp: pj_ok_def)
  have "ob \<noteq> []" using ob(2) by (auto simp: ohttp_keys_from_bytes_def split: if_split_asm)
  then obtain b where b: "bech32_encode_upper W ''OH'' ob = Some (''OH'' @ ''1'' @ b)" "list_all plain_char b"
      "bech32_decode W (''OH'' @ ''1'' @ b) = Some (''OH'', ob)"
    using bech32_encodes [OF laws(1), of "''OH''" ob] by blast
  have t: "time_from_bytes W (time_to_bytes (pj_expiration p)) = Ok (pj_expiration p)"
    using ok time_bytes_value [of "pj_expiration p"] unfolding pj_ok_def time_from_bytes_def from_unix_seconds_def
    by (simp add: time_bytes_length)
  have "time_to_bytes (pj_expiration p) \<noteq> []" by (simp add: time_to_bytes_def)
  then obtain c where c: "bech32_encode_upper W ''EX'' (time_to_bytes (pj_expiration p)) = Some (''EX'' @ ''1'' @ c)"
      "list_all plain_char c" "bech32_decode W (''EX'' @ ''1'' @ c) = Some (''EX'', time_to_bytes (pj_expiration p))"
    using bech32_encodes [OF laws(1), of "''EX''" "time_to_bytes (pj_expiration p)"] by blast
  define f where "f = (''EX1'' @ c) @ ''-'' @ (''OH1'' @ b) @ ''-'' @ ''RK1'' @ a"
  show thesis
  proof
    show "bech32_encode_upper W ''ID'' (pj_id p) = Some (''ID1'' @ i)" using i(1) by simp
    show "list_all plain_char i" "i \<noteq> []" by fact+
    show "pj_v2_endpoint W (p\<lparr>pj_directory := u\<rparr>) = (Ok (at_path i (Some f) u) :: (url, 'e) res)" if "one_level u" for u
    proof -
      have "rbind (set_param (''RK1'' @ a) (at_path i None u)) (\<lambda>u. rbind (set_param (''OH1'' @ b) u) (set_param (''EX1'' @ c))) =
          (Ok (at_path i (Some f) u) :: (url, 'e) res)"
        using set_params [OF a(2) b(2) c(2), of "at_path i None u"] by (simp add: f_def)
      then show ?thesis
        using i(1) a(1) b(1) c(1) rb(1) ob(1) join_one_level [OF that i(3,2)]
        by (simp add: pj_v2_endpoint_def short_id_to_string_def set_receiver_pubkey_def set_ohttp_def
            ohttp_keys_to_string_def set_expiration_def to_compressed_bytes_def rb_def [symmetric])
    qed
    show "pj_v2_parse W (at_path i (Some f) u) = Ok (p\<lparr>pj_directory := at_path i (Some f) u\<rparr>)" for u
    proof -
      let ?u = "at_path i (Some f) u"
      have seg: "path_segments ?u = [i]"
        using plain_not_in [OF i(3)] i(2) by (cases i) (auto simp: path_segments_def split_on_none)
      note g = get_params [OF a(2) b(2) c(2), of ?u, folded f_def, simplified]
      have low: "\<not> list_ex is_lower f"
        using plain_not_in [OF a(2)] plain_not_in [OF b(2)] plain_not_in [OF c(2)]
        by (auto simp: f_def is_lower_def)
      have has: "find_str ''RK1'' f \<noteq> None \<and> find_str ''OH1'' f \<noteq> None \<and> find_str ''EX1'' f \<noteq> None"
        using find_str_mid [of "''RK1''" "(''EX1'' @ c) @ ''-'' @ (''OH1'' @ b) @ ''-''" a]
          find_str_mid [of "''OH1''" "(''EX1'' @ c) @ ''-''" "b @ ''-'' @ ''RK1'' @ a"]
          find_str_mid [of "''EX1''" "[]" "c @ ''-'' @ (''OH1'' @ b) @ ''-'' @ ''RK1'' @ a"]
        by (simp add: f_def)
      have p: "p\<lparr>pj_directory := ?u\<rparr> = \<lparr>pj_directory = ?u, pj_id = pj_id p, pj_expiration = pj_expiration p,
          pj_ohttp_keys = pj_ohttp_keys p, pj_receiver_pubkey = pj_receiver_pubkey p\<rparr>" by (cases p) simp
      show ?thesis
        unfolding p using seg g low has i(4) l a(3) b(3) c(3) rb(2) ob(2) t
        by (simp add: pj_v2_parse_def short_id_from_str_def short_id_from_slice_def receiver_pubkey_def
            ohttp_param_def expiration_param_def same_hrp_def ensure_def)
    qed
  qed
qed


section \<open>An instance\<close>

lemma toy_letters_plain: "list_all plain_char (toy_letters c) \<and> CHR ''1'' \<notin> set (toy_letters c) \<and> toy_letters c \<noteq> []"
proof -
  have l: "plain_char (char_of (65 + n :: nat)) \<and> CHR ''1'' \<noteq> char_of (65 + n :: nat)" if "n < 16" for n
  proof -
    have o: "(of_char (char_of (65 + n :: nat)) :: nat) = 65 + n" using that by (simp add: of_char_of)
    moreover have "CHR ''1'' \<noteq> char_of (65 + n :: nat)"
    proof
      assume "CHR ''1'' = char_of (65 + n :: nat)"
      then have "(of_char CHR ''1'' :: nat) = of_char (char_of (65 + n :: nat))" by simp
      with o show False by simp
    qed
    ultimately show ?thesis using that by (simp add: plain_char_def is_upper_def less_eq_char_def)
  qed
  have "(of_char c :: nat) div 16 < 16" "(of_char c :: nat) mod 16 < 16"
    using of_char_less [of c] by (simp_all add: less_mult_imp_div_less)
  with l show ?thesis by (simp add: toy_letters_def)
qed

lemma toy_bytes_letters: "toy_bytes (concat (map toy_letters b)) = Some b"
proof (induction b)
  case (Cons c b)
  have "(of_char c :: nat) div 16 < 16" "(of_char c :: nat) mod 16 < 16"
    using of_char_less [of c] by (simp_all add: less_mult_imp_div_less)
  then show ?case using Cons by (simp add: toy_letters_def of_char_of)
qed simp

lemma sample_bech32_laws: "bech32_laws sample_wire"
  unfolding bech32_laws_def
proof (intro ballI allI impI)
  fix hrp bytes assume h: "hrp \<in> {''ID'', ''RK'', ''OH'', ''EX''}" and b: "(bytes :: string) \<noteq> []"
  let ?d = "concat (map toy_letters bytes)"
  have "CHR ''1'' \<notin> set hrp" using h by auto
  then have "split_once CHR ''1'' (hrp @ ''1'' @ ?d) = Some (hrp, ?d)" by (simp add: split_once_append)
  moreover have "list_all plain_char ?d" "CHR ''1'' \<notin> set ?d"
    using toy_letters_plain by (auto simp: list_all_iff)
  moreover have "?d \<noteq> []" using toy_letters_plain b by (cases bytes) auto
  ultimately show "\<exists>d. bech32_encode_upper sample_wire hrp bytes = Some (hrp @ ''1'' @ d) \<and> d \<noteq> [] \<and>
      list_all plain_char d \<and> CHR ''1'' \<notin> set d \<and> bech32_decode sample_wire (hrp @ ''1'' @ d) = Some (hrp, bytes)"
    by (intro exI [of _ ?d]) (simp add: sample_wire_def toy_bytes_letters)
qed

definition sample_directory :: url where
  "sample_directory = \<lparr>raw = ''https://a.io/'', scheme = ''https'', url_host = Domain ''a.io'',
     port = None, path = ''/'', query = None, fragment = None\<rparr>"

lemma sample_directory_parsed: "parse ''https://a.io'' = Ok sample_directory"
  by code_simp

definition sample_pj :: pj_param_v2 where
  "sample_pj = \<lparr>pj_directory = sample_directory, pj_id = ''mailbox1'', pj_expiration = 1700000000,
     pj_ohttp_keys = 3, pj_receiver_pubkey = 9\<rparr>"

lemma sample_keys:
  "\<exists>b. ohttp_keys_to_bytes sample_wire 3 = Ok b \<and> ohttp_keys_from_bytes sample_wire b = Ok 3"
  by (simp add: ohttp_keys_to_bytes_def ohttp_keys_from_bytes_def sample_wire_def toy_from_slice_def toy_point_def
      index_def kem_id_def symmetric_len_def symmetric_kdf_aead_def of_char_of)

lemma sample_pj_ok: "pj_ok sample_wire sample_pj"
proof -
  have "rooted sample_directory"
    using parse_url_ok [OF sample_directory_parsed] by (simp add: rooted_def sample_directory_def)
  then have "one_level sample_directory" by (simp add: one_level_def sample_directory_def)
  moreover have "valid_pk sample_wire 9" by (rule sample_valid) simp
  moreover have "lock_time_threshold sample_wire \<le> 1700000000" by (simp add: sample_wire_def)
  ultimately show ?thesis using sample_keys by (simp add: pj_ok_def sample_pj_def)
qed


end
