(* ===== verification/PJ_Exchange.thy ===== *)
theory PJ_Exchange
  imports PJ_Send_Session PJ_Receive_Replay PJ_Pj_Uri_Facts
begin

text \<open>
  The two sides together: the sender's requests go to the mailboxes that the receiver reads and
  writes, and the original that the sender posts is the one that the receiver gets.
\<close>

section \<open>Mailboxes\<close>

text \<open>What the encapsulated request names: scheme, authority and path of its target.\<close>

definition request_target :: "url \<Rightarrow> string \<times> string \<times> string" where
  "request_target u = (scheme u, authority u, path u)"

definition receiver_poll_url :: "env \<Rightarrow> session_context \<Rightarrow> (url, 'e) res" where
  "receiver_poll_url E sc = rbind (proposal_mailbox_id E sc) (mailbox_endpoint E (sc_directory sc))"

definition receiver_reply_url :: "env \<Rightarrow> session_context \<Rightarrow> hpke_public_key \<Rightarrow> (url, 'e) res" where
  "receiver_reply_url E sc reply_key =
     rbind (short_id_from_pubkey (e_wire E) reply_key) (mailbox_endpoint E (sc_directory sc))"

lemma at_path_target: "request_target (at_path i f u) = (scheme u, authority u, CHR ''/'' # i)"
  by (simp add: request_target_def authority_def)

lemma push_target:
  assumes "path u = ''/''"
  shows "request_target (push_segments [i] u) = (scheme u, authority u, CHR ''/'' # i)"
  using assms
  by (simp add: request_target_def authority_def push_segments_def push_segment_def rebuild_raw_def)

text \<open>
  The receiver's URI, read by the sender: the parameter with the endpoint in place of the
  directory, as \<open>pj_param_roundtrip\<close> gives it.
\<close>

definition paired :: "env \<Rightarrow> session_context \<Rightarrow> send_session_context \<Rightarrow> bool" where
  "paired E sc ss \<longleftrightarrow>
     (\<exists>i p u. proposal_mailbox_id E sc = (Ok i :: (_, unit) res) \<and>
        p = \<lparr>pj_directory = sc_directory sc, pj_id = i, pj_expiration = sc_expiration sc,
             pj_ohttp_keys = sc_ohttp_keys sc, pj_receiver_pubkey = snd (sc_receiver_key sc)\<rparr> \<and>
        pj_ok (e_wire E) p \<and> pj_v2_endpoint (e_wire E) p = (Ok u :: (_, unit) res) \<and>
        ss_pj_param ss = p\<lparr>pj_directory := u\<rparr>)"

lemma same_short_id:
  "short_id_from_pubkey W pk = (Ok i :: (_, 'e) res) \<Longrightarrow> short_id_from_pubkey W pk = (Ok i :: (_, 'f) res)"
  by (auto simp: short_id_from_pubkey_def to_compressed_bytes_def rmap_eq_Ok)

lemma short_id_string:
  assumes "bech32_laws W" and "length i = 8"
  obtains s where "short_id_to_string W i = (Ok s :: (_, 'e) res)" "short_id_to_string W i = (Ok s :: (_, 'f) res)"
    "list_all plain_char s" "s \<noteq> []" "bech32_encode_upper W ''ID'' i = Some (''ID1'' @ s)"
proof -
  have "i \<noteq> []" using assms(2) by auto
  then obtain d where "bech32_encode_upper W ''ID'' i = Some (''ID'' @ ''1'' @ d)" "d \<noteq> []" "list_all plain_char d"
    using bech32_encodes [OF assms(1), of "''ID''" i] by blast
  then show thesis using that [of d] by (simp add: short_id_to_string_def)
qed


text \<open>
  A directory below the root of its host breaks the agreement: the endpoint in the URI replaces
  the last segment of the directory's path, while the receiver appends to it.
\<close>

lemma nested_directory_diverges:
  "case parse ''https://a.io/api'' of
     Ok d \<Rightarrow> rmap path (join ''ID'' d) = Ok ''/ID'' \<and> path (push_segments [''ID''] d) = ''/api/ID''
   | _ \<Rightarrow> False"
  by code_simp

section \<open>The original\<close>

definition printable :: "char \<Rightarrow> bool" where
  "printable c \<longleftrightarrow> 33 \<le> (of_char c :: nat) \<and> (of_char c :: nat) < 127 \<and> c \<noteq> CHR ''#''"

lemma printable_facts: "printable c \<Longrightarrow> c \<noteq> nul \<and> c \<noteq> CHR 0x0A \<and> c \<noteq> CHR ''#'' \<and> (of_char c :: nat) < 128"
  by (auto simp: printable_def nul_def)

lemma printable_list:
  assumes "list_all printable s"
  shows "list_all (\<lambda>c. (of_char c :: nat) < 128) s" and "nul \<notin> set s" and "CHR 0x0A \<notin> set s"
  using assms by (induction s) (auto dest: printable_facts)

lemma padding_ascii: "list_all (\<lambda>c. (of_char c :: nat) < 128) (replicate n nul)"
  by (induction n) (simp_all add: nul_def)

lemma from_utf8_ascii:
  assumes "list_all (\<lambda>c. (of_char c :: nat) < 128) s"
  shows "from_utf8 s = Inr s"
proof -
  have "utf8_error pos s = None" for pos
    using assms by (induction s arbitrary: pos) (auto simp: in_range_def)
  then show ?thesis by (simp add: from_utf8_def)
qed

lemma trim_nul_padding:
  assumes "nul \<notin> set q"
  shows "trim_nul (q @ replicate n nul) = q"
proof -
  have d: "dropWhile (\<lambda>c. c = nul) s = s" if "nul \<notin> set s" for s
    using that by (cases s) auto
  have r: "dropWhile (\<lambda>c. c = nul) (replicate n nul @ s) = dropWhile (\<lambda>c. c = nul) s" for s
    by (induction n) auto
  show ?thesis
  proof (cases q)
    case Nil
    then show ?thesis using r [of "[]"] by (simp add: trim_nul_def)
  next
    case (Cons c cs)
    then have "dropWhile (\<lambda>c. c = nul) (q @ replicate n nul) = q @ replicate n nul" using assms by auto
    then show ?thesis using r [of "rev q"] d [of "rev q"] assms by (simp add: trim_nul_def)
  qed
qed

text \<open>The URL that the sender writes its parameters to: only its query differs from the base.\<close>

definition query_of :: "url \<Rightarrow> url \<Rightarrow> bool" where
  "query_of base u \<longleftrightarrow> rooted u \<and> scheme u = scheme base \<and> url_host u = url_host base \<and> port u = port base \<and>
     path u = path base \<and> fragment u = fragment base \<and> (\<forall>q. query u = Some q \<longrightarrow> list_all printable q)"

lemma append_pair_query_of:
  assumes "query_of base u" and "list_all printable k" "list_all printable v"
  shows "query_of base (append_pair k v u)" and "query (append_pair k v u) \<noteq> None"
proof -
  have "CHR ''#'' \<notin> set k" "CHR ''#'' \<notin> set v" using assms(2,3) by (auto simp: list_all_iff printable_def)
  with assms show "query_of base (append_pair k v u)"
    using rooted_append_pair [of u k v]
    by (auto simp: query_of_def append_pair_def rebuild_raw_def printable_def Let_def split: option.splits)
  show "query (append_pair k v u) \<noteq> None" by (simp add: append_pair_def rebuild_raw_def Let_def)
qed

lemma show_dec_printable: "list_all printable (show_dec n)"
proof -
  have "is_digit c \<Longrightarrow> printable c" for c
    by (auto simp: is_digit_def printable_def less_eq_char_def)
  then show ?thesis using show_dec_digits by (auto simp: list_all_iff)
qed

lemma serialize_url_query_of:
  assumes "query_of base base" and "list_all printable (fee_rate_to_f32 T min_rate)"
  shows "query_of base (serialize_url T base os contribution min_rate v)"
    and "query (serialize_url T base os contribution min_rate v) \<noteq> None"
proof -
  have k: "list_all printable ''v''" "list_all printable (version_to_string v)"
      "list_all printable ''disableoutputsubstitution''" "list_all printable ''true''"
      "list_all printable ''maxadditionalfeecontribution''" "list_all printable ''additionalfeeoutputindex''"
      "list_all printable ''minfeerate''"
    by (cases v; simp add: printable_def version_to_string_def)+
  note a = append_pair_query_of(1)
  show "query_of base (serialize_url T base os contribution min_rate v)"
    using assms k
    by (auto simp: serialize_url_def Let_def show_dec_printable intro!: a split: option.split)
  show "query (serialize_url T base os contribution min_rate v) \<noteq> None"
    by (simp add: serialize_url_def Let_def append_pair_def rebuild_raw_def split: option.split)
qed

definition localhost :: url where
  "localhost = \<lparr>raw = ''http://localhost/'', scheme = ''http'', url_host = Domain ''localhost'',
     port = None, path = ''/'', query = None, fragment = None\<rparr>"

lemma localhost_parsed: "parse ''http://localhost'' = Ok localhost"
  by code_simp

lemma localhost_query_of: "query_of localhost localhost"
  using parse_url_ok [OF localhost_parsed] by (simp add: query_of_def rooted_def localhost_def)

lemma placeholder_parsed:
  assumes "list_all printable q"
  obtains u where "parse (''http://localhost/?'' @ q) = Ok u" "query u = Some q"
proof -
  define u where "u = localhost\<lparr>raw := ''http://localhost/?'' @ q, query := Some q\<rparr>"
  have "CHR ''#'' \<notin> set q" using assms by (auto simp: list_all_iff printable_def)
  then have "rooted u"
    using localhost_query_of
    by (simp add: query_of_def rooted_iff u_def localhost_def render_def render_port_def render_query_def
        render_fragment_def)
  then have "parse (raw u) = Ok u" by (intro url_ok_reparses) (simp add: rooted_def)
  then show thesis using that [of u] by (simp add: u_def)
qed

text \<open>The receiver sees the query only, after a placeholder for the rest of the URL.\<close>

lemma query_read:
  assumes "query u = Some q" and "list_all printable q"
  shows "from_query_str L T q supported = from_query_pairs L T (query_pairs (percent_decode T) u) supported"
proof -
  obtain v where v: "parse (''http://localhost/?'' @ q) = Ok v" "query v = Some q"
    by (rule placeholder_parsed [OF assms(2)])
  have "query_pairs (percent_decode T) v = query_pairs (percent_decode T) u" using v(2) assms(1) by (simp add: query_pairs_def)
  then show ?thesis unfolding from_query_str_def v(1) by simp
qed

text \<open>The text forms of the crates: base64 and decimal numbers are printable, and are read back.\<close>

definition text_laws :: "btc \<Rightarrow> text_api \<Rightarrow> psbt \<Rightarrow> fee_rate \<Rightarrow> fee_rate \<Rightarrow> bool" where
  "text_laws L T p min_rate read_rate \<longleftrightarrow>
     decode_plain T \<and> amount_text L T \<and>
     psbt_from_str T (psbt_to_str T p) = Inr p \<and> list_all printable (psbt_to_str T p) \<and>
     fee_rate_from_f32 T (fee_rate_to_f32 T min_rate) = Some read_rate \<and>
     list_all (\<lambda>c. printable c \<and> c \<noteq> CHR ''&'' \<and> c \<noteq> CHR ''%'') (fee_rate_to_f32 T min_rate)"

text \<open>C39: The original that the sender posts is the one that the receiver gets, through the encryption,
  the padding, the text of the body and its placeholder URL: the same PSBT, version 2, the
  sender's preference about its outputs, its fee contribution and its minimum fee rate as the
  printed number reads back, and the key to reply to. The hypotheses are the documented laws
  of the crates, and that the PSBT passes the receiver's validation.\<close>

theorem original_delivered:
  assumes "hpke_laws (e_wire E)" and "valid_pk (e_wire E) reply_pk"
    and "text_laws (e_btc E) (e_text E) p min_rate read_rate"
    and "psbt_validate p = Ok p" and "validate_input_utxos (e_btc E) p = Ok ()"
    and "\<forall>fc. contribution = Some fc \<longrightarrow> fee_vout fc \<le> usize_max \<and> max_amount fc \<le> max_money (e_btc E)"
    and "serialize_v2_body (e_text E) p os contribution min_rate = (Ok bdy :: (_, unit) res)"
    and "encrypt_message_a (e_wire E) r bdy reply_pk (sk_to_pk (e_wire E) (fst (sc_receiver_key sc))) = Ok msg"
  shows "extract_proposal_from_v2 E sc msg =
    Ok (\<lparr>pl_psbt = p, pl_params = \<lparr>par_v = Two, par_output_substitution = os,
          par_additional_fee_contribution = map_option (\<lambda>fc. (max_amount fc, fee_vout fc)) contribution,
          par_min_fee_rate = (if min_rate > 0 then read_rate else broadcast_min (e_btc E))\<rparr>\<rparr>, reply_pk)"
proof -
  let ?T = "e_text E" and ?L = "e_btc E"
  define u where "u = serialize_url ?T localhost os contribution min_rate Two"
  note t = assms(3) [unfolded text_laws_def]
  have rate: "list_all printable (fee_rate_to_f32 ?T min_rate)" "CHR ''&'' \<notin> set (fee_rate_to_f32 ?T min_rate)"
      "CHR ''%'' \<notin> set (fee_rate_to_f32 ?T min_rate)"
    using t by (simp_all only: list_all_iff) blast+
  have u: "query_of localhost u" "query u \<noteq> None"
    unfolding u_def by (rule serialize_url_query_of [OF localhost_query_of rate(1)])+
  then obtain q where q: "query u = Some q" by blast
  with u(1) have qp: "list_all printable q" by (simp add: query_of_def)
  have b: "list_all printable (psbt_to_str ?T p)" using t by blast
  let ?b64 = "psbt_to_str ?T p" and ?pad = "replicate (padded_plaintext_a_length - length bdy) nul"
  have bdy: "bdy = ?b64 @ CHR 0x0A # q"
    using assms(7) q by (simp add: serialize_v2_body_def localhost_parsed u_def [symmetric])
  have dec: "decrypt_message_a (e_wire E) msg (fst (sc_receiver_key sc)) = Ok (bdy @ ?pad, reply_pk)"
    using message_a_opens [OF assms(1,2,8)] by blast
  have ascii: "list_all (\<lambda>c. (of_char c :: nat) < 128) (bdy @ ?pad)"
    by (simp add: bdy printable_list(1) [OF b] printable_list(1) [OF qp] padding_ascii)
  have split: "split_once CHR 0x0A (bdy @ ?pad) = Some (?b64, q @ ?pad)"
    by (simp add: bdy split_once_append printable_list(3) [OF b])
  have trim: "trim_nul (q @ ?pad) = q" by (rule trim_nul_padding [OF printable_list(2) [OF qp]])
  have base: "query_pairs (percent_decode ?T) localhost = []" by (simp add: query_pairs_def localhost_def)
  have l: "decode_plain ?T" "amount_text ?L ?T" "fee_rate_from_f32 ?T (fee_rate_to_f32 ?T min_rate) = Some read_rate"
    using t by blast+
  have pairs: "query_pairs (percent_decode ?T) u = [] @ sent_pairs ?T os contribution min_rate Two"
    unfolding u_def serialized_pairs [OF l(1) rate(2,3)] base ..
  have "from_query_str ?L ?T q [One, Two] = Ok \<lparr>par_v = Two, par_output_substitution = os,
          par_additional_fee_contribution = map_option (\<lambda>fc. (max_amount fc, fee_vout fc)) contribution,
          par_min_fee_rate = (if min_rate > 0 then read_rate else broadcast_min ?L)\<rparr>"
    using sent_pairs_read [OF l(2) _ assms(6) l(3), of "[]"] by (simp add: query_read [OF q qp] pairs)
  then show ?thesis
    using t assms(4,5)
    by (simp add: extract_proposal_from_v2_def dec from_utf8_ascii [OF ascii] unchecked_from_payload_def split trim
        parse_payload_def)
qed

section \<open>An example\<close>

definition exchange_env :: env where
  "exchange_env = \<lparr>e_btc = sample_btc, e_text = sample_text, e_wire = sample_wire,
     json_to_string = (\<lambda>_. []), json_from_slice = (\<lambda>_. None), psbt_serialize = (\<lambda>_. ''orig''),
     psbt_deserialize = (\<lambda>_. Inr sample_proposal)\<rparr>"

definition exchange_receiver :: session_context where
  "exchange_receiver = \<lparr>sc_address = payee_spk, sc_directory = sample_directory, sc_ohttp_keys = 3,
     sc_expiration = 1700000000, sc_amount = None, sc_receiver_key = (9, 9), sc_reply_key = None, sc_max_fee_rate = 5\<rparr>"

abbreviation exchange_param :: pj_param_v2 where
  "exchange_param \<equiv> sample_pj\<lparr>pj_id := replicate 8 (char_of (9 :: nat))\<rparr>"

definition exchange_sender :: "url \<Rightarrow> send_session_context" where
  "exchange_sender u = \<lparr>ss_pj_param = exchange_param\<lparr>pj_directory := u\<rparr>, ss_psbt_ctx = sample_context, ss_reply_key = 7\<rparr>"

lemma exchange_short_id:
  "k < 256 \<Longrightarrow> short_id_from_pubkey sample_wire k = Ok (replicate 8 (char_of k))"
  by (simp add: short_id_from_pubkey_def to_compressed_bytes_def sample_wire_def toy_from_slice_def)

lemma endpoint_exists:
  assumes "bech32_laws W" and "hpke_laws W" and "pj_ok W p"
  shows "\<exists>u. pj_v2_endpoint W p = (Ok u :: (url, unit) res)"
proof -
  obtain i f where "bech32_encode_upper W ''ID'' (pj_id p) = Some (''ID1'' @ i)" "list_all plain_char i" "i \<noteq> []"
    and e: "\<And>u. one_level u \<Longrightarrow> pj_v2_endpoint W (p\<lparr>pj_directory := u\<rparr>) = (Ok (at_path i (Some f) u) :: (url, unit) res)"
    and "\<And>u. pj_v2_parse W (at_path i (Some f) u) = Ok (p\<lparr>pj_directory := at_path i (Some f) u\<rparr>)"
    by (rule endpoint_form [OF assms, where 'e = unit]) (rule that)
  have "p\<lparr>pj_directory := pj_directory p\<rparr> = p" by (cases p) simp
  with e [of "pj_directory p"] assms(3) show ?thesis by (auto simp: pj_ok_def)
qed

lemma exchange_paired:
  assumes "pj_v2_endpoint sample_wire exchange_param = (Ok u :: (url, unit) res)"
  shows "paired exchange_env exchange_receiver (exchange_sender u)"
  using assms sample_pj_ok
  by (simp add: paired_def exchange_env_def exchange_receiver_def exchange_sender_def proposal_mailbox_id_def
      exchange_short_id sample_pj_def pj_ok_def)


lemma send_session_replay_witness:
  "send_replay_events exchange_env [SendCreated (exchange_sender sample_directory), SendCancelled, SendClosedEvent SendAborted] =
     Ok (SendClosed SendAborted, [SendCreated (exchange_sender sample_directory), SendCancelled, SendClosedEvent SendAborted])"
proof -
  let ?c = "exchange_sender sample_directory"
  have "runs (send_step exchange_env) (send_session_new ?c) (SendClosed SendAborted) (SendClosed SendAborted)
      [SendCancelled, SendClosedEvent SendAborted]"
  proof (rule runs_two)
    show "send_step exchange_env (send_session_new ?c) (Some SendCancelled)
        (SendPendingFallback \<lparr>sn_state = PJ_Send_V2.original_tx exchange_env ?c, sn_context = ?c\<rparr>)"
      unfolding send_session_new_def by (rule cancel_posting) (simp add: send_cancel_def transition_defs)
    show "send_step exchange_env (SendPendingFallback \<lparr>sn_state = PJ_Send_V2.original_tx exchange_env ?c, sn_context = ?c\<rparr>)
        (Some (SendClosedEvent SendAborted)) (SendClosed SendAborted)"
      by (rule closed) (simp add: send_close_def transition_defs)
  qed
  from send_session_replay [OF this] show ?thesis by simp
qed

lemma exchange_text_laws:
  assumes "rate \<le> 1000"
  shows "text_laws sample_btc sample_text sample_original rate rate"
proof -
  have "decode_plain sample_text" by (simp add: decode_plain_def sample_text_def)
  moreover have "amount_text sample_btc sample_text"
    by (simp add: amount_text_def sample_text_def sample_btc_def parse_radix_show)
  moreover have "fee_rate_from_f32 sample_text (fee_rate_to_f32 sample_text rate) = Some rate"
    using assms by (simp add: sample_text_def parse_radix_show)
  moreover have "list_all (\<lambda>c. printable c \<and> c \<noteq> CHR ''&'' \<and> c \<noteq> CHR ''%'') (fee_rate_to_f32 sample_text rate)"
    using show_dec_printable [of rate] plain_texts [of rate] by (auto simp: sample_text_def list_all_iff)
  ultimately show ?thesis by (simp add: text_laws_def sample_text_def printable_def)
qed

lemma exchange_body:
  obtains bdy where
    "serialize_v2_body sample_text sample_original Disabled (Some \<lparr>max_amount = 2, fee_vout = 1\<rparr>) 500 = (Ok bdy :: (_, unit) res)"
    "length bdy \<le> padded_plaintext_a_length"
proof -
  have "rmap (\<lambda>b. length b < 200)
      (serialize_v2_body sample_text sample_original Disabled (Some \<lparr>max_amount = 2, fee_vout = 1\<rparr>) 500 :: (_, unit) res) = Ok True"
    by code_simp
  then show thesis using that by (auto simp: rmap_eq_Ok padding_defs)
qed

lemma original_delivered_witness:
  "\<exists>msg. extract_proposal_from_v2 exchange_env exchange_receiver msg =
    Ok (\<lparr>pl_psbt = sample_original, pl_params = \<lparr>par_v = Two, par_output_substitution = Disabled,
          par_additional_fee_contribution = Some (2, 1), par_min_fee_rate = 500\<rparr>\<rparr>, 7)"
proof -
  let ?fc = "Some \<lparr>max_amount = 2, fee_vout = 1\<rparr>"
  have e: "e_wire exchange_env = sample_wire" "e_btc exchange_env = sample_btc" "e_text exchange_env = sample_text"
    by (simp_all add: exchange_env_def)
  have k: "sk_to_pk sample_wire (fst (sc_receiver_key exchange_receiver)) = 9"
    by (simp add: sample_wire_def exchange_receiver_def)
  obtain bdy where b: "serialize_v2_body sample_text sample_original Disabled ?fc 500 = (Ok bdy :: (_, unit) res)"
    and "length bdy \<le> padded_plaintext_a_length"
    by (rule exchange_body)
  then obtain msg where m: "encrypt_message_a sample_wire 5 bdy 7 9 = Ok msg"
    using sample_encrypts(1) [of bdy 5 7 9] by (auto simp: is_ok_iff)
  have "psbt_validate sample_original = Ok sample_original" by code_simp
  moreover have "validate_input_utxos sample_btc sample_original = Ok ()" by code_simp
  moreover have "valid_pk sample_wire 7" by (rule sample_valid) simp
  moreover have "fee_vout fc \<le> usize_max \<and> max_amount fc \<le> max_money sample_btc" if "?fc = Some fc" for fc
    using that by (auto simp: usize_max_def sample_btc_def)
  ultimately show ?thesis
    using original_delivered [of exchange_env 7 sample_original 500 500 ?fc Disabled bdy 5 exchange_receiver msg]
      m b exchange_text_laws [of 500] sample_hpke_laws unfolding e k by auto
qed

end
