(* ===== verification/PJ_Receive_V1.thy ===== *)
theory PJ_Receive_V1
  imports PJ_Receive PJ_Errors PJ_Pj_Uri
begin

text \<open>
  The version 1 receiver: \<open>receive/v1/mod.rs\<close> and \<open>receive/v1/error.rs\<close>. The typestates are the
  checks of \<open>receive/mod.rs\<close> in a fixed order; each consumes the previous one, so that a value of
  a typestate shows which checks have passed. The headers of the request are a function of
  their lower case name.
\<close>

section \<open>Integers\<close>

text \<open>\<open>std::num::ParseIntError\<close> and \<open>usize::from_str\<close>.\<close>

datatype parse_int_error = EmptyInt | InvalidDigit | PosOverflow

fun show_parse_int_error :: "parse_int_error \<Rightarrow> string" where
  "show_parse_int_error EmptyInt = ''cannot parse integer from empty string''"
| "show_parse_int_error InvalidDigit = ''invalid digit found in string''"
| "show_parse_int_error PosOverflow = ''number too large to fit in target type''"

fun usize_digits_loop :: "nat \<Rightarrow> string \<Rightarrow> (nat, parse_int_error) res" where
  "usize_digits_loop acc [] = Ok acc"
| "usize_digits_loop acc (c # cs) =
     (case digit_value 10 c of
        None \<Rightarrow> Err InvalidDigit
      | Some d \<Rightarrow> if acc * 10 + d \<le> usize_max then usize_digits_loop (acc * 10 + d) cs else Err PosOverflow)"

definition usize_from_str :: "string \<Rightarrow> (nat, parse_int_error) res" where
  "usize_from_str s =
     (case s of
        [] \<Rightarrow> Err EmptyInt
      | c # cs \<Rightarrow>
          if c = CHR ''+'' then (if cs = [] then Err InvalidDigit else usize_digits_loop 0 cs)
          else usize_digits_loop 0 s)"

lemma usize_digits_loop_ok: "ok (usize_digits_loop acc s) = parse_digits 10 usize_max acc s"
  by (induction s arbitrary: acc) (auto split: option.splits)

lemma usize_from_str_ok: "ok (usize_from_str s) = parse_radix 10 usize_max s"
  by (auto simp: usize_from_str_def parse_radix_def usize_digits_loop_ok
      simp del: usize_digits_loop.simps parse_digits.simps split: list.splits)

lemma usize_shown: "n \<le> usize_max \<Longrightarrow> usize_from_str (show_dec n) = Ok n"
  using usize_from_str_ok [of "show_dec n"] parse_radix_show [of 10 n usize_max]
  by (cases "usize_from_str (show_dec n)") auto

section \<open>Reading the request\<close>

datatype request_error =
  MissingHeader string
| InvalidContentType string
| InvalidContentLength parse_int_error
| ContentLengthMismatch nat nat   \<comment> \<open>expected, actual\<close>

fun show_request_error :: "request_error \<Rightarrow> string" where
  "show_request_error (MissingHeader header) = ''Missing header: '' @ header"
| "show_request_error (InvalidContentType t) = ''Invalid content type: '' @ t"
| "show_request_error (InvalidContentLength e) = show_parse_int_error e"
| "show_request_error (ContentLengthMismatch expected actual) =
     ''Content length mismatch: expected '' @ show_dec expected @ '', got '' @ show_dec actual @ ''.''"

type_synonym headers = "string \<Rightarrow> string option"

definition validate_body :: "headers \<Rightarrow> string \<Rightarrow> (string, request_error) res" where
  "validate_body get_header b =
     rbind (ok_or (MissingHeader ''Content-Type'') (get_header ''content-type'')) (\<lambda>t.
     rbind (ensure (starts_with ''text/plain'' t) (InvalidContentType t)) (\<lambda>_.
     rbind (ok_or (MissingHeader ''Content-Length'') (get_header ''content-length'')) (\<lambda>l.
     rbind (map_err InvalidContentLength (usize_from_str l)) (\<lambda>n.
     rbind (ensure (length b = n) (ContentLengthMismatch n (length b))) (\<lambda>_. Ok b)))))"

datatype v1_unchecked = V1Unchecked original_payload
datatype v1_maybe_inputs_owned = V1MaybeInputsOwned original_payload
datatype v1_maybe_inputs_seen = V1MaybeInputsSeen original_payload
datatype v1_outputs_unknown = V1OutputsUnknown original_payload
datatype v1_provisional = V1Provisional psbt_context
datatype v1_payjoin_proposal = V1PayjoinProposal psbt

definition from_request ::
  "btc \<Rightarrow> text_api \<Rightarrow> string \<Rightarrow> string \<Rightarrow> headers \<Rightarrow> (v1_unchecked, receive_error) res" where
  "from_request L T b q get_header =
     rbind (map_err (\<lambda>e. Protocol (V1 (show_request_error e))) (validate_body get_header b)) (\<lambda>validated.
     rbind (case from_utf8 validated of Inl e \<Rightarrow> Err (payload_failure (Utf8 e)) | Inr s \<Rightarrow> Ok s) (\<lambda>base64.
     rbind (map_err payload_failure (parse_payload L T base64 q [One])) (\<lambda>(p, par).
       Ok (V1Unchecked \<lparr>pl_psbt = p, pl_params = par\<rparr>))))"

definition build_v1_pj_uri ::
  "wire_api \<Rightarrow> script \<Rightarrow> string \<Rightarrow> output_substitution \<Rightarrow> (pj_uri, pj_parse_error) res" where
  "build_v1_pj_uri W address endpoint os =
     rmap (\<lambda>p. \<lparr>uri_address = address, uri_amount = None,
             uri_extras = \<lparr>px_pj_param = p, px_output_substitution = os\<rparr>\<rparr>)
       (pj_param_parse W endpoint)"

section \<open>The typestates\<close>

fun v1_check_broadcast_suitability ::
  "btc \<Rightarrow> fee_rate option \<Rightarrow> (transaction \<Rightarrow> (bool, implementation_error) res) \<Rightarrow> v1_unchecked \<Rightarrow>
     (v1_maybe_inputs_owned, receive_error) res" where
  "v1_check_broadcast_suitability L min_rate can_broadcast (V1Unchecked payload) =
     rbind (check_broadcast_suitability L payload min_rate can_broadcast) (\<lambda>_. Ok (V1MaybeInputsOwned payload))"

fun v1_assume_interactive_receiver :: "v1_unchecked \<Rightarrow> v1_maybe_inputs_owned" where
  "v1_assume_interactive_receiver (V1Unchecked payload) = V1MaybeInputsOwned payload"

fun extract_tx_to_schedule_broadcast :: "btc \<Rightarrow> v1_maybe_inputs_owned \<Rightarrow> transaction" where
  "extract_tx_to_schedule_broadcast L (V1MaybeInputsOwned payload) = extract_tx_unchecked_fee_rate L (pl_psbt payload)"

fun v1_check_inputs_not_owned ::
  "('s, outpoint) callback \<Rightarrow> 's \<Rightarrow> v1_maybe_inputs_owned \<Rightarrow> (v1_maybe_inputs_seen, receive_error) res \<times> 's" where
  "v1_check_inputs_not_owned is_owned s (V1MaybeInputsOwned payload) =
     (let (r, s') = check_inputs_not_owned payload is_owned s in (rmap (\<lambda>_. V1MaybeInputsSeen payload) r, s'))"

fun v1_check_no_inputs_seen_before ::
  "('s, outpoint) callback \<Rightarrow> 's \<Rightarrow> v1_maybe_inputs_seen \<Rightarrow> (v1_outputs_unknown, receive_error) res \<times> 's" where
  "v1_check_no_inputs_seen_before is_known s (V1MaybeInputsSeen payload) =
     (let (r, s') = check_no_inputs_seen_before payload is_known s in (rmap (\<lambda>_. V1OutputsUnknown payload) r, s'))"

fun v1_identify_receiver_outputs ::
  "('s, script) callback \<Rightarrow> 's \<Rightarrow> v1_outputs_unknown \<Rightarrow> (wants_outputs, receive_error) res \<times> 's" where
  "v1_identify_receiver_outputs is_receiver_output s (V1OutputsUnknown payload) =
     identify_receiver_outputs payload is_receiver_output s"

definition v1_apply_fee_range ::
  "btc \<Rightarrow> fee_rate option \<Rightarrow> fee_rate option \<Rightarrow> wants_fee_range \<Rightarrow> (v1_provisional, receive_error) res" where
  "v1_apply_fee_range L min_rate max_effective_rate s =
     rbind (map_err payload_failure (calculate_psbt_context_with_fee_range L s min_rate max_effective_rate))
       (\<lambda>c. Ok (V1Provisional c))"

fun v1_finalize_proposal ::
  "btc \<Rightarrow> text_api \<Rightarrow> (psbt \<Rightarrow> (psbt, implementation_error) res) \<Rightarrow> v1_provisional \<Rightarrow>
     (v1_payjoin_proposal, receive_error) res" where
  "v1_finalize_proposal L T wallet_process_psbt (V1Provisional c) =
     rbind (map_err Implementation (finalize_proposal L T c wallet_process_psbt)) (\<lambda>p. Ok (V1PayjoinProposal p))"

fun v1_psbt_to_sign :: "v1_provisional \<Rightarrow> (psbt, 'e) res" where
  "v1_psbt_to_sign (V1Provisional c) = psbt_to_sign c"

fun v1_psbt :: "v1_payjoin_proposal \<Rightarrow> psbt" where
  "v1_psbt (V1PayjoinProposal p) = p"

end
