(* ===== verification/PJ_Exchange_V1.thy ===== *)
theory PJ_Exchange_V1
  imports PJ_Exchange PJ_Receive_V1
begin

text \<open>
  The version 1 exchange: the request of the version 1 sender, read by the version 1 receiver.
\<close>

text \<open>What the receiver gets of a request: an HTTP client adds the length of the body.\<close>

definition request_headers :: "request \<Rightarrow> headers" where
  "request_headers r =
     (\<lambda>name. if name = ''content-type'' then Some (content_type r)
             else if name = ''content-length'' then Some (show_dec (length (body r))) else None)"

lemma validate_body_Ok:
  "validate_body h b = Ok b' \<longleftrightarrow>
     b' = b \<and> (\<exists>t. h ''content-type'' = Some t \<and> starts_with ''text/plain'' t) \<and>
     (\<exists>l. h ''content-length'' = Some l \<and> usize_from_str l = Ok (length b))"
  by (auto simp: validate_body_def res_Ok_simps)

lemma request_validated:
  assumes "length b \<le> usize_max"
  shows "validate_body (request_headers (new_v1 u b)) b = Ok b"
proof -
  have "starts_with ''text/plain'' ''text/plain''" by code_simp
  then show ?thesis by (simp add: validate_body_Ok request_headers_def new_v1_def usize_shown [OF assms])
qed

text \<open>The request of a version 1 sender reaches the receiver as it was meant: the URL of the request
  parses, and from its query, the body and the headers the receiver reads the sender's
  original without its private fields, version 1, the preference about outputs, the fee
  contribution and the minimum fee rate.\<close>

theorem v1_original_delivered:
  assumes "text_laws L T (clear_unneeded_fields (original_psbt c)) (min_fee_rate c) read_rate"
    and "query_of (v1_endpoint s) (v1_endpoint s)" and "v1_psbt_ctx s = c"
    and "\<forall>(k, v)\<in>set (query_pairs (percent_decode T) (v1_endpoint s)). k \<notin> recognised_keys"
    and "psbt_validate (clear_unneeded_fields (original_psbt c)) = Ok (clear_unneeded_fields (original_psbt c))"
    and "validate_input_utxos L (clear_unneeded_fields (original_psbt c)) = Ok ()"
    and "\<forall>fc. fee_contribution c = Some fc \<longrightarrow> fee_vout fc \<le> usize_max \<and> max_amount fc \<le> max_money L"
    and "length (psbt_to_str T (clear_unneeded_fields (original_psbt c))) \<le> usize_max"
    and "create_v1_post_request T s = (r, ctx)"
  shows "\<exists>u q. parse (req_url r) = Ok u \<and> query u = Some q \<and>
    from_request L T (body r) q (request_headers r) = Ok (V1Unchecked
      \<lparr>pl_psbt = clear_unneeded_fields (original_psbt c),
       pl_params = \<lparr>par_v = One, par_output_substitution = output_substitution c,
          par_additional_fee_contribution = map_option (\<lambda>fc. (max_amount fc, fee_vout fc)) (fee_contribution c),
          par_min_fee_rate = (if min_fee_rate c > 0 then read_rate else broadcast_min L)\<rparr>\<rparr>)"
proof -
  let ?p = "clear_unneeded_fields (original_psbt c)" and ?e = "v1_endpoint s"
  define u where "u = serialize_url T ?e (output_substitution c) (fee_contribution c) (min_fee_rate c) One"
  have r: "r = new_v1 u (psbt_to_str T ?p)"
    using assms(3,9) by (simp add: create_v1_post_request_def Let_def u_def)
  note t = assms(1) [unfolded text_laws_def]
  have rate: "list_all printable (fee_rate_to_f32 T (min_fee_rate c))" "CHR ''&'' \<notin> set (fee_rate_to_f32 T (min_fee_rate c))"
      "CHR ''%'' \<notin> set (fee_rate_to_f32 T (min_fee_rate c))"
    using t by (simp_all only: list_all_iff) blast+
  have u: "query_of ?e u" "query u \<noteq> None"
    unfolding u_def by (rule serialize_url_query_of [OF assms(2) rate(1)])+
  then obtain q where q: "query u = Some q" by blast
  with u(1) have qp: "list_all printable q" by (simp add: query_of_def)
  have parsed: "parse (raw u) = Ok u" using u(1) by (intro url_ok_reparses) (simp add: query_of_def rooted_def)
  have l: "decode_plain T" "amount_text L T" "fee_rate_from_f32 T (fee_rate_to_f32 T (min_fee_rate c)) = Some read_rate"
    and b: "psbt_from_str T (psbt_to_str T ?p) = Inr ?p" "list_all printable (psbt_to_str T ?p)"
    using t by blast+
  have params: "from_query_str L T q [One] = Ok \<lparr>par_v = One, par_output_substitution = output_substitution c,
          par_additional_fee_contribution = map_option (\<lambda>fc. (max_amount fc, fee_vout fc)) (fee_contribution c),
          par_min_fee_rate = (if min_fee_rate c > 0 then read_rate else broadcast_min L)\<rparr>"
    unfolding query_read [OF q qp] u_def serialized_pairs [OF l(1) rate(2,3)]
    by (rule sent_pairs_read [OF l(2) assms(4,7) l(3)])
  have "from_utf8 (psbt_to_str T ?p) = Inr (psbt_to_str T ?p)" by (rule from_utf8_ascii [OF printable_list(1) [OF b(2)]])
  then have "from_request L T (psbt_to_str T ?p) q (request_headers r) = Ok (V1Unchecked \<lparr>pl_psbt = ?p,
       pl_params = \<lparr>par_v = One, par_output_substitution = output_substitution c,
          par_additional_fee_contribution = map_option (\<lambda>fc. (max_amount fc, fee_vout fc)) (fee_contribution c),
          par_min_fee_rate = (if min_fee_rate c > 0 then read_rate else broadcast_min L)\<rparr>\<rparr>)"
    using request_validated [OF assms(8), of u] assms(5,6) b(1) params
    by (simp add: from_request_def parse_payload_def r)
  with q parsed show ?thesis by (auto simp: r new_v1_def)
qed

definition sample_v1_sender :: v1_sender where
  "sample_v1_sender = \<lparr>v1_endpoint = sample_directory, v1_psbt_ctx = sample_context\<rparr>"

lemma v1_original_delivered_witness:
  "\<exists>u q. parse (req_url (fst (create_v1_post_request sample_text sample_v1_sender))) = Ok u \<and> query u = Some q \<and>
    from_request sample_btc sample_text ''orig'' q
        (request_headers (fst (create_v1_post_request sample_text sample_v1_sender))) =
      Ok (V1Unchecked \<lparr>pl_psbt = sample_original,
        pl_params = \<lparr>par_v = One, par_output_substitution = Disabled,
          par_additional_fee_contribution = Some (2, 1), par_min_fee_rate = 2\<rparr>\<rparr>)"
proof -
  let ?r = "create_v1_post_request sample_text sample_v1_sender"
  have clear: "clear_unneeded_fields (original_psbt sample_context) = sample_original" by code_simp
  have valid: "psbt_validate sample_original = Ok sample_original" "validate_input_utxos sample_btc sample_original = Ok ()"
    by code_simp+
  have e: "query_of sample_directory sample_directory"
    using parse_url_ok [OF sample_directory_parsed] by (simp add: query_of_def rooted_def sample_directory_def)
  have keys: "query_pairs (percent_decode sample_text) sample_directory = []"
    by (simp add: query_pairs_def sample_directory_def)
  have fields: "min_fee_rate sample_context = 0" "output_substitution sample_context = Disabled"
    "fee_contribution sample_context = Some \<lparr>max_amount = 2, fee_vout = 1\<rparr>"
    by (simp_all add: sample_context_def)
  have s: "v1_endpoint sample_v1_sender = sample_directory" "v1_psbt_ctx sample_v1_sender = sample_context"
    by (simp_all add: sample_v1_sender_def)
  have b: "body (fst ?r) = ''orig''" by (simp add: create_v1_post_request_def Let_def new_v1_def sample_text_def)
  have p: "psbt_to_str sample_text sample_original = ''orig''" by (simp add: sample_text_def)
  have m: "broadcast_min sample_btc = 2" "\<forall>fc. Some \<lparr>max_amount = 2, fee_vout = 1\<rparr> = Some fc \<longrightarrow>
      fee_vout fc \<le> usize_max \<and> max_amount fc \<le> max_money sample_btc"
    by (auto simp: usize_max_def sample_btc_def)
  from v1_original_delivered [of sample_btc sample_text sample_context 0 sample_v1_sender "fst ?r" "snd ?r"]
  show ?thesis
    unfolding clear fields s keys b m(1) p
    using exchange_text_laws [of 0] e valid m(2) by (simp add: usize_max_def)
qed

end
