(* ===== verification/PJ_Cli_V1.thy ===== *)
theory PJ_Cli_V1
  imports PJ_Receive_V1
begin

text \<open>
  The version 1 receiver of the command line program, \<open>payjoin-cli/src/app/v1.rs\<close>: how an
  application puts the typestates together, from the HTTP request to the response. The wallet is
  the node behind \<open>wallet.rs\<close>; the table of inputs seen before is a callback with state.
\<close>

record wallet =
  can_broadcast :: "transaction \<Rightarrow> (bool, implementation_error) res"
  is_my_outpoint :: "outpoint \<Rightarrow> (bool, implementation_error) res"
  is_mine :: "script \<Rightarrow> (bool, implementation_error) res"
  get_new_address :: "(script, implementation_error) res"
  list_unspent :: "(input_pair list, implementation_error) res"
  process_psbt :: "psbt \<Rightarrow> (psbt, implementation_error) res"

section \<open>Texts\<close>

fun show_output_substitution_error :: "output_substitution_error \<Rightarrow> string" where
  "show_output_substitution_error DecreasedValueWhenDisabled =
     ''Decreasing the receiver output value is not allowed when output substitution is disabled''"
| "show_output_substitution_error ScriptPubKeyChangedWhenDisabled =
     ''Changing the receiver output script pubkey is not allowed when output substitution is disabled''"
| "show_output_substitution_error NotEnoughOutputs =
     ''Current output substitution implementation doesn't support reducing the number of outputs''"
| "show_output_substitution_error InvalidDrainScript =
     ''The provided drain script could not be identified in the provided replacement outputs''"

fun show_coin_selection_error :: "coin_selection_error \<Rightarrow> string" where
  "show_coin_selection_error Empty = ''No candidates available for selection''"
| "show_coin_selection_error UnsupportedOutputLength =
     ''Current privacy selection implementation only supports 2-output transactions''"
| "show_coin_selection_error NotFound = ''No selection candidates improve privacy''"

fun show_input_contribution_error :: "text_api \<Rightarrow> input_contribution_error \<Rightarrow> string" where
  "show_input_contribution_error T ValueTooLow = ''Total input value is not enough to cover additional output value''"
| "show_input_contribution_error T (DuplicateInput out) = ''Duplicate input detected: '' @ show_outpoint T out"

section \<open>The proposal\<close>

definition try_contributing_inputs ::
  "btc \<Rightarrow> text_api \<Rightarrow> 'g rng \<Rightarrow> 'g \<Rightarrow> wallet \<Rightarrow> wants_inputs \<Rightarrow> (wants_fee_range, implementation_error) res" where
  "try_contributing_inputs L T R g w payjoin =
     rbind (list_unspent w) (\<lambda>candidate_inputs.
     if candidate_inputs = []
     then Err ''No spendable UTXOs available in wallet. Please fund your wallet before resuming this session''
     else rbind (map_err show_coin_selection_error (try_preserving_privacy L payjoin candidate_inputs)) (\<lambda>selected_input.
          rbind (map_err (show_input_contribution_error T) (contribute_inputs L R g payjoin [selected_input])) (\<lambda>s.
            Ok (commit_inputs s))))"

text \<open>A callback that has no state of its own.\<close>

definition stateless :: "('a \<Rightarrow> (bool, implementation_error) res) \<Rightarrow> ('s, 'a) callback" where
  "stateless f s x = (f x, s)"

definition build_proposal ::
  "btc \<Rightarrow> text_api \<Rightarrow> 'g rng \<Rightarrow> 'g \<Rightarrow> 'g \<Rightarrow> wallet \<Rightarrow> fee_rate option \<Rightarrow> wants_outputs \<Rightarrow>
     (v1_payjoin_proposal, receive_error) res" where
  "build_proposal L T R g g' w max_fee_rate payjoin =
     rbind (map_err Implementation (get_new_address w)) (\<lambda>address.
     rbind (map_err (\<lambda>e. Implementation (show_output_substitution_error e))
              (substitute_receiver_script R g payjoin address)) (\<lambda>substituted.
     rbind (map_err Implementation (try_contributing_inputs L T R g' w (commit_outputs substituted))) (\<lambda>wants_fee_range.
     rbind (v1_apply_fee_range L None max_fee_rate wants_fee_range) (\<lambda>provisional_payjoin.
       v1_finalize_proposal L T (process_psbt w) provisional_payjoin))))"

definition process_v1_proposal ::
  "btc \<Rightarrow> text_api \<Rightarrow> 'g rng \<Rightarrow> 'g \<Rightarrow> 'g \<Rightarrow> wallet \<Rightarrow> ('d, outpoint) callback \<Rightarrow> fee_rate option \<Rightarrow> 'd \<Rightarrow> v1_unchecked \<Rightarrow>
     (v1_payjoin_proposal, receive_error) res \<times> 'd" where
  "process_v1_proposal L T R g g' w insert_input_seen_before max_fee_rate db proposal =
     (case rbind (v1_check_broadcast_suitability L None (can_broadcast w) proposal) (\<lambda>owned.
             fst (v1_check_inputs_not_owned (stateless (is_my_outpoint w)) () owned)) of
        Err e \<Rightarrow> (Err e, db)
      | Panic \<Rightarrow> (Panic, db)
      | Ok seen \<Rightarrow>
          (let (r, db') = v1_check_no_inputs_seen_before insert_input_seen_before db seen in
           (rbind r (\<lambda>outputs_unknown.
            rbind (fst (v1_identify_receiver_outputs (stateless (is_mine w)) () outputs_unknown)) (\<lambda>payjoin.
              build_proposal L T R g g' w max_fee_rate payjoin)), db')))"

section \<open>The response\<close>

definition handle_payjoin_post ::
  "btc \<Rightarrow> text_api \<Rightarrow> 'g rng \<Rightarrow> 'g \<Rightarrow> 'g \<Rightarrow> wallet \<Rightarrow> ('d, outpoint) callback \<Rightarrow> fee_rate option \<Rightarrow> 'd \<Rightarrow>
     string \<Rightarrow> string option \<Rightarrow> headers \<Rightarrow> (string, receive_error) res \<times> 'd" where
  "handle_payjoin_post L T R g g' w insert_input_seen_before max_fee_rate db b q get_header =
     (case from_request L T b (case q of Some s \<Rightarrow> s | None \<Rightarrow> []) get_header of
        Err e \<Rightarrow> (Err e, db)
      | Panic \<Rightarrow> (Panic, db)
      | Ok proposal \<Rightarrow>
          (let (r, db') = process_v1_proposal L T R g g' w insert_input_seen_before max_fee_rate db proposal in
           (rmap (\<lambda>p. psbt_to_str T (v1_psbt p)) r, db')))"

text \<open>The status and the body of the response to a POST.\<close>

definition post_response :: "text_api \<Rightarrow> (json \<Rightarrow> string) \<Rightarrow> (string, receive_error) res \<Rightarrow> (nat \<times> string, 'e) res" where
  "post_response T to_str r =
     (case r of
        Ok b \<Rightarrow> Ok (200, b)
      | Err e \<Rightarrow> (let reply = error_reply T to_str e in Ok (status_code reply, to_str (to_json reply)))
      | Panic \<Rightarrow> Panic)"

end
