(* ===== verification/PJ_Agreement_Checks.thy ===== *)
theory PJ_Agreement_Checks
  imports PJ_Exchange_V1 PJ_Cli_V1 PJ_Receive_Facts
begin

text \<open>
  What is enough for the sender's checks of the inputs and the outputs: conditions on each output,
  and a finalised proposal that keeps the sender's inputs and adds inputs of the receiver.
\<close>

section \<open>Outputs\<close>

text \<open>What the sender accepts in the place of its output at index \<open>j\<close>, when none was added.\<close>

definition acceptable_output :: "sender_context \<Rightarrow> nat \<Rightarrow> txout \<Rightarrow> txout \<Rightarrow> bool" where
  "acceptable_output c j original t \<longleftrightarrow>
     script_pubkey t = script_pubkey original \<and> txo_value original \<le> txo_value t \<or>
     (\<exists>fc. fee_contribution c = Some fc \<and> fee_vout fc = j \<and> script_pubkey t = script_pubkey original \<and>
        txo_value t < txo_value original \<and> txo_value original - txo_value t \<le> max_amount fc) \<or>
     output_substitution c = Enabled \<and> script_pubkey original = payee c \<and>
       (\<forall>fc. fee_contribution c = Some fc \<longrightarrow> fee_vout fc \<noteq> j)"

lemma check_outputs_accept_step:
  assumes "acceptable_output c m o' t" and "out_bip32_derivation out = []" and "amounts_ok L"
  shows "\<exists>k1. check_outputs_loop L c ((m, o') # originals) k0 ((t, out) # rest) = check_outputs_loop L c originals k1 rest"
proof -
  have sub: "b \<le> a \<Longrightarrow> amount_sub L a b = Some (a - b)" for a b
    using amount_sub_exact [OF assms(3)] by blast
  from assms(1) consider
    (kept) "script_pubkey t = script_pubkey o'" "txo_value o' \<le> txo_value t"
  | (fee) fc where "fee_contribution c = Some fc" "fee_vout fc = m" "script_pubkey t = script_pubkey o'"
      "txo_value t < txo_value o'" "txo_value o' - txo_value t \<le> max_amount fc"
  | (substituted) "output_substitution c = Enabled" "script_pubkey o' = payee c"
      "\<forall>fc. fee_contribution c = Some fc \<longrightarrow> fee_vout fc \<noteq> m"
    unfolding acceptable_output_def by blast
  then show ?thesis
  proof cases
    case kept
    then show ?thesis using assms(2) by (cases "fee_contribution c") (auto simp: ensure_def)
  next
    case fee
    then show ?thesis using assms(2) by (auto simp: ensure_def sub)
  next
    case substituted
    then show ?thesis using assms(2) by (cases "fee_contribution c") (auto simp: ensure_def)
  qed
qed

lemma check_outputs_pointwise:
  assumes "length ts = length os" and "length pouts = length ts" and "\<forall>out\<in>set pouts. out_bip32_derivation out = []"
    and "\<forall>j<length os. acceptable_output c (m + j) (os ! j) (ts ! j)" and "amounts_ok L"
  shows "\<exists>k. check_outputs_loop L c (List.enumerate m os) contributed0 (zip ts pouts) = Ok ([], k)"
  using assms(1-4)
proof (induction os arbitrary: m ts pouts contributed0)
  case (Cons o' os)
  obtain t ts' where ts: "ts = t # ts'" using Cons.prems(1) by (cases ts) auto
  obtain out pouts' where pouts: "pouts = out # pouts'" using Cons.prems(2) by (cases pouts) (auto simp: ts)
  have "\<forall>j<length os. acceptable_output c (Suc m + j) (os ! j) (ts' ! j)"
    using Cons.prems(4) by (force simp: ts)
  then have step: "\<exists>k. check_outputs_loop L c (List.enumerate (Suc m) os) k0 (zip ts' pouts') = Ok ([], k)" for k0
    using Cons.IH [of ts' pouts' "Suc m" k0] Cons.prems(1-3) by (simp add: ts pouts)
  have "acceptable_output c m o' t" using Cons.prems(4) by (force simp: ts)
  moreover have "out_bip32_derivation out = []" using Cons.prems(3) by (simp add: pouts)
  ultimately obtain k1 where
    "check_outputs_loop L c ((m, o') # List.enumerate (Suc m) os) contributed0 ((t, out) # zip ts' pouts') =
      check_outputs_loop L c (List.enumerate (Suc m) os) k1 (zip ts' pouts')"
    using check_outputs_accept_step [OF _ _ assms(5)] by blast
  then show ?case using step [of k1] by (simp add: ts pouts del: check_outputs_loop.simps)
qed simp

lemma check_outputs_accepts:
  assumes "length (tx_output (unsigned_tx p)) = length (tx_output (unsigned_tx (original_psbt c)))"
    and "length (outputs p) = length (tx_output (unsigned_tx p))" and "\<forall>out\<in>set (outputs p). out_bip32_derivation out = []"
    and "\<forall>j<length (tx_output (unsigned_tx (original_psbt c))).
      acceptable_output c j (tx_output (unsigned_tx (original_psbt c)) ! j) (tx_output (unsigned_tx p) ! j)"
    and "amounts_ok L"
  shows "\<exists>k. check_outputs L c p = Ok k"
  using check_outputs_pointwise [OF assms(1-3), of c 0 L 0] assms(4,5) by (auto simp: check_outputs_def ensure_def)

section \<open>Inputs\<close>

lemma subseq_members: "subseq xs ys \<Longrightarrow> set xs \<subseteq> set ys"
  by (induction rule: list_emb.induct) auto

lemma aligned_by_outpoint:
  assumes "subseq (map asked os) (map asked ps)" and "distinct (map asked ps)"
    and "\<And>o' p. o' \<in> set os \<Longrightarrow> p \<in> set ps \<Longrightarrow> asked p = asked o' \<Longrightarrow> M o' p"
    and "\<And>p. p \<in> set ps \<Longrightarrow> asked p \<notin> asked ` set os \<Longrightarrow> E p"
  shows "aligned M E os ps"
  using assms
proof (induction ps arbitrary: os)
  case (Cons p ps)
  show ?case
  proof (cases "\<exists>o' os'. os = o' # os' \<and> asked p = asked o'")
    case True
    then obtain o' os' where os: "os = o' # os'" "asked p = asked o'" by blast
    have "asked o' \<notin> asked ` set ps" using Cons.prems(2) os(2) by auto
    then have "asked q \<notin> asked ` set os" if "q \<in> set ps" "asked q \<notin> asked ` set os'" for q
      using that by (force simp: os image_iff)
    then have "aligned M E os' ps"
      using Cons.prems by (intro Cons.IH) (auto simp: os)
    then show ?thesis using Cons.prems(3) [of o' p] os by (auto intro: aligned_Match)
  next
    case False
    then have s: "subseq (map asked os) (map asked ps)" using Cons.prems(1) by (cases os) auto
    then have "asked ` set os \<subseteq> asked ` set ps" using subseq_members [OF s] by auto
    with Cons.prems(2) have "asked p \<notin> asked ` set os" by auto
    then have "E p" using Cons.prems(4) by simp
    moreover have "aligned M E os ps" using Cons.prems s by (intro Cons.IH) auto
    ultimately show ?thesis by (rule aligned_Extra)
  qed
qed (auto dest: list_emb_Nil2 intro: aligned_Nil)

text \<open>
  What the receiver relies on of its wallet: signing keeps the transaction and the maps, does
  not drop information about previous outputs, and finalizes the inputs that spend the coins
  in \<open>own\<close>.
\<close>

definition signing_wallet :: "outpoint set \<Rightarrow> (psbt \<Rightarrow> (psbt, implementation_error) res) \<Rightarrow> bool" where
  "signing_wallet own sign \<longleftrightarrow>
     (\<forall>p q. sign p = Ok q \<longrightarrow>
        unsigned_tx q = unsigned_tx p \<and> length (inputs q) = length (inputs p) \<and>
        length (outputs q) = length (outputs p) \<and>
        (\<forall>k<length (inputs p).
           (witness_utxo (inputs p ! k) \<noteq> None \<or> non_witness_utxo (inputs p ! k) \<noteq> None \<longrightarrow>
              witness_utxo (inputs q ! k) \<noteq> None \<or> non_witness_utxo (inputs q ! k) \<noteq> None) \<and>
           (k < length (outpoints (unsigned_tx p)) \<and> outpoints (unsigned_tx p) ! k \<in> own \<longrightarrow>
              final_script_sig (inputs q ! k) \<noteq> None \<or> final_script_witness (inputs q ! k) \<noteq> None)))"

text \<open>A payjoin transaction that keeps the inputs of the original and adds inputs of the receiver.\<close>

definition adds_inputs :: "outpoint set \<Rightarrow> psbt \<Rightarrow> psbt \<Rightarrow> bool" where
  "adds_inputs own original pj \<longleftrightarrow>
     well_formed original \<and> well_formed pj \<and>
     subseq (tx_input (unsigned_tx original)) (tx_input (unsigned_tx pj)) \<and>
     distinct (outpoints (unsigned_tx pj)) \<and>
     (\<forall>k<length (inputs pj). outpoints (unsigned_tx pj) ! k \<notin> set (outpoints (unsigned_tx original)) \<longrightarrow>
        outpoints (unsigned_tx pj) ! k \<in> own \<and>
        (witness_utxo (inputs pj ! k) \<noteq> None \<or> non_witness_utxo (inputs pj ! k) \<noteq> None) \<and>
        tx_input (unsigned_tx original) \<noteq> [] \<and>
        sequence (tx_input (unsigned_tx pj) ! k) = sequence (hd (tx_input (unsigned_tx original))))"

lemma outpoints_nth: "k < length (tx_input t) \<Longrightarrow> outpoints t ! k = previous_output (tx_input t ! k)"
  by (simp add: outpoints_def)

lemma input_pairs_at:
  "well_formed p \<Longrightarrow> k < length (inputs p) \<Longrightarrow> input_pairs p ! k = \<lparr>ip_txin = tx_input (unsigned_tx p) ! k, ip_psbtin = inputs p ! k\<rparr>"
  by (simp add: input_pairs_def well_formed_def)

lemma sender_indexes_set:
  assumes "well_formed (pc_payjoin_psbt c)" and "well_formed (pc_original_psbt c)"
    and "subseq (outpoints (unsigned_tx (pc_original_psbt c))) (outpoints (unsigned_tx (pc_payjoin_psbt c)))"
    and "distinct (outpoints (unsigned_tx (pc_payjoin_psbt c)))"
  shows "k \<in> set (sender_input_indexes c) \<longleftrightarrow> k < length (inputs (pc_payjoin_psbt c)) \<and>
     outpoints (unsigned_tx (pc_payjoin_psbt c)) ! k \<in> set (outpoints (unsigned_tx (pc_original_psbt c)))"
proof -
  let ?pj = "pc_payjoin_psbt c" and ?or = "pc_original_psbt c"
  have "subseq (map asked (input_pairs ?or)) (map asked (input_pairs ?pj))" "distinct (map asked (input_pairs ?pj))"
    using assms by (simp_all add: payload_outpoints)
  from sender_indexes_loop_set [OF this, of 0]
  have "set (sender_input_indexes c) =
      {k. k < length (input_pairs ?pj) \<and> asked (input_pairs ?pj ! k) \<in> asked ` set (input_pairs ?or)}"
    by (simp add: sender_input_indexes_def)
  moreover have "asked ` set (input_pairs ?or) = set (outpoints (unsigned_tx ?or))"
    using payload_outpoints [OF assms(2)] by (metis set_map)
  moreover have "length (input_pairs ?pj) = length (inputs ?pj)"
    using assms(1) by (simp add: length_input_pairs well_formed_def)
  moreover have "asked (input_pairs ?pj ! k) = outpoints (unsigned_tx ?pj) ! k" if "k < length (inputs ?pj)"
    using that assms(1) by (simp add: input_pairs_at asked_def outpoints_nth well_formed_def)
  ultimately show ?thesis by auto
qed

lemma finalized_inputs_accepted:
  assumes fin: "finalize_proposal L T \<lparr>pc_original_psbt = original, pc_payjoin_psbt = pj\<rparr> sign = Ok r"
    and w: "signing_wallet own sign" and a: "adds_inputs own original pj"
    and o: "unsigned_tx (original_psbt c) = unsigned_tx original" "well_formed (original_psbt c)"
  shows "check_inputs L c r True = Ok () \<and> unsigned_tx r = unsigned_tx pj \<and> length (outputs r) = length (outputs pj) \<and>
    (\<forall>out\<in>set (outputs r). out = default_psbt_output)"
proof -
  let ?c = "\<lparr>pc_original_psbt = original, pc_payjoin_psbt = pj\<rparr>" and ?otx = "unsigned_tx original" and ?tx = "unsigned_tx pj"
  from a have wf: "well_formed original" "well_formed pj" and sub: "subseq (tx_input ?otx) (tx_input ?tx)"
    and d: "distinct (outpoints ?tx)" by (simp_all add: adds_inputs_def)
  have so: "subseq (outpoints ?otx) (outpoints ?tx)" unfolding outpoints_def by (rule subseq_map [OF sub])
  note idx = sender_indexes_set [of ?c, simplified, OF wf(2,1) so d]
  from fin obtain p sp where p: "psbt_to_sign ?c = (Ok p :: (_, implementation_error) res)" and sp: "sign p = Ok sp"
    and r: "r = prepare_psbt sp"
    and unsigned: "\<forall>k\<in>set (sender_input_indexes ?c). k < length (inputs sp) \<longrightarrow> \<not> psbt_input_is_signed (inputs sp ! k)"
    by (rule finalize_Ok) (rule that)
  from psbt_to_sign_Ok [of ?c, where 'e = implementation_error] obtain p1 where
    "psbt_to_sign ?c = (Ok p1 :: (_, implementation_error) res)" "unsigned_tx p1 = ?tx" "length (inputs p1) = length (inputs pj)"
    "\<forall>k<length (inputs p1). inputs p1 ! k = (if k \<in> set (sender_input_indexes ?c)
        then clear_signatures (inputs pj ! k) else inputs pj ! k)" by auto
  moreover from p have "length (outputs p) = length (outputs pj)" by (auto simp: psbt_to_sign_def rmap_eq_Ok)
  ultimately have p': "unsigned_tx p = ?tx" "length (inputs p) = length (inputs pj)"
    "\<forall>k<length (inputs p). inputs p ! k = (if k \<in> set (sender_input_indexes ?c)
        then clear_signatures (inputs pj ! k) else inputs pj ! k)" "length (outputs p) = length (outputs pj)"
    using p by simp_all
  with w sp have sp': "unsigned_tx sp = ?tx" "length (inputs sp) = length (inputs pj)" "length (outputs sp) = length (outputs pj)"
    by (simp_all add: signing_wallet_def)
  have n: "length (tx_input ?tx) = length (inputs pj)" using wf(2) by (simp add: well_formed_def)
  have r': "unsigned_tx r = ?tx" "inputs r = map filtered_input (inputs sp)" "outputs r = map (\<lambda>_. default_psbt_output) (outputs sp)"
    by (simp_all add: r prepare_psbt_def sp'(1))
  have wr: "well_formed r" using wf(2) by (simp add: well_formed_def r' sp')
  have pair: "\<exists>k<length (inputs pj). q = \<lparr>ip_txin = tx_input ?tx ! k, ip_psbtin = filtered_input (inputs sp ! k)\<rparr>"
    if "q \<in> set (input_pairs r)" for q
  proof -
    from that obtain k where "k < length (input_pairs r)" "q = input_pairs r ! k" by (auto simp: in_set_conv_nth)
    then show ?thesis using wr sp'(2) n by (intro exI [of _ k]) (simp add: input_pairs_at r' length_input_pairs)
  qed
  have po: "map asked (input_pairs (original_psbt c)) = outpoints ?otx" "map asked (input_pairs r) = outpoints ?tx"
    using payload_outpoints [OF o(2)] payload_outpoints [OF wr] by (simp_all add: o(1) r')
  have "aligned (kept_sender_input L) (signed_receiver_input c True) (input_pairs (original_psbt c)) (input_pairs r)"
  proof (rule aligned_by_outpoint)
    show "subseq (map asked (input_pairs (original_psbt c))) (map asked (input_pairs r))" using so by (simp add: po)
    show "distinct (map asked (input_pairs r))" using d by (simp add: po)
  next
    fix o' q assume q: "o' \<in> set (input_pairs (original_psbt c))" "q \<in> set (input_pairs r)" "asked q = asked o'"
    from pair [OF q(2)] obtain k where k: "k < length (inputs pj)"
      "q = \<lparr>ip_txin = tx_input ?tx ! k, ip_psbtin = filtered_input (inputs sp ! k)\<rparr>" by blast
    have "asked o' \<in> set (outpoints ?otx)" using q(1) po(1) by (metis image_eqI set_map)
    then have "outpoints ?tx ! k \<in> set (outpoints ?otx)" using q(3) k n by (simp add: asked_def outpoints_nth)
    with k(1) unsigned sp'(2) have u: "\<not> psbt_input_is_signed (inputs sp ! k)" by (simp add: idx)
    have "ip_txin o' \<in> set (tx_input ?otx)"
      using q(1) o(1) by (auto simp: input_pairs_def dest: set_zip_leftD)
    then have "ip_txin o' \<in> set (tx_input ?tx)" using subseq_members [OF sub] by blast
    moreover have "tx_input ?tx ! k \<in> set (tx_input ?tx)" using k(1) n by simp
    moreover have "previous_output (tx_input ?tx ! k) = previous_output (ip_txin o')" using q(3) k(2) by (simp add: asked_def)
    ultimately have "tx_input ?tx ! k = ip_txin o'"
      using d unfolding outpoints_def distinct_map by (meson inj_onD)
    with u show "kept_sender_input L o' q"
      by (simp add: k(2) kept_sender_input_def same_outpoint_def stripped_def filtered_input_def default_psbt_input_def
          psbt_input_is_signed_def)
  next
    fix q assume q: "q \<in> set (input_pairs r)" "asked q \<notin> asked ` set (input_pairs (original_psbt c))"
    from pair [OF q(1)] obtain k where k: "k < length (inputs pj)"
      "q = \<lparr>ip_txin = tx_input ?tx ! k, ip_psbtin = filtered_input (inputs sp ! k)\<rparr>" by blast
    have "asked ` set (input_pairs (original_psbt c)) = set (outpoints ?otx)" using po(1) by (metis set_map)
    with q(2) k n have nk: "outpoints ?tx ! k \<notin> set (outpoints ?otx)" by (simp add: asked_def outpoints_nth)
    with a k(1) have e: "outpoints ?tx ! k \<in> own" "witness_utxo (inputs pj ! k) \<noteq> None \<or> non_witness_utxo (inputs pj ! k) \<noteq> None"
      "tx_input ?otx \<noteq> []" "sequence (tx_input ?tx ! k) = sequence (hd (tx_input ?otx))"
      unfolding adds_inputs_def by blast+
    have "inputs p ! k = inputs pj ! k" using p'(2,3) k(1) nk by (simp add: idx)
    with w sp e(1,2) k(1) p'(1,2) n
    have f: "witness_utxo (inputs sp ! k) \<noteq> None \<or> non_witness_utxo (inputs sp ! k) \<noteq> None"
      "final_script_sig (inputs sp ! k) \<noteq> None \<or> final_script_witness (inputs sp ! k) \<noteq> None"
      unfolding signing_wallet_def by (metis, metis length_map outpoints_def)
    have hd: "input_pairs (original_psbt c) \<noteq> [] \<and> ip_txin (hd (input_pairs (original_psbt c))) = hd (tx_input ?otx)"
      using e(3) o by (cases "tx_input ?otx"; cases "inputs (original_psbt c)")
        (auto simp: input_pairs_def well_formed_def)
    from e(4) f hd show "signed_receiver_input c True q"
      by (simp add: k(2) signed_receiver_input_def stripped_def filtered_input_def default_psbt_input_def)
  qed
  moreover have "distinct (map (\<lambda>p. previous_output (ip_txin p)) (input_pairs r))"
    using d po(2) by (simp add: asked_def [abs_def])
  ultimately have "check_inputs L c r True = Ok ()" by (simp add: check_inputs_def aligned_check_inputs)
  then show ?thesis by (simp add: r' sp'(3))
qed

end
