(* ===== verification/PJ_Agreement.thy ===== *)
theory PJ_Agreement
  imports PJ_Agreement_Checks
begin

text \<open>
  The checks of both sides agree: the proposal that an honest version 1 receiver builds from a
  sender's original passes the sender's checks of the transaction, the inputs and the outputs.
\<close>

section \<open>The receiver's steps\<close>

lemma replace_none:
  "replace_outputs_loop R os owned i outs [] g = Ok (outs', left, g') \<Longrightarrow>
     outs' = outs \<and> left = [] \<and> (\<forall>j<length outs. i + j \<notin> set owned)"
proof (induction outs arbitrary: i outs' g g')
  case (Cons t ts)
  then have n: "i \<notin> set owned" by (auto simp: take_replacement_def split: if_split_asm)
  with Cons.prems obtain ts' where ts': "outs' = t # ts'" "replace_outputs_loop R os owned (Suc i) ts [] g = Ok (ts', left, g')"
    by (auto simp: rmap_eq_Ok)
  from Cons.IH [OF ts'(2)] n show ?case by (auto simp: ts'(1) less_Suc_eq_0_disj)
qed simp

lemma take_single:
  assumes "take_replacement R os original [t] g = Ok (t', repl', g')"
  shows "t' = t \<and> repl' = [] \<and> (os = Disabled \<longrightarrow> script_pubkey t = script_pubkey original)"
proof -
  from take_replacement_Ok [OF assms] have "t' = t \<and> repl' = [] \<and> (os = Disabled \<longrightarrow> kept_or_raised original t')"
    by (auto simp: add_mset_eq_single)
  then show ?thesis by (auto simp: kept_or_raised_def)
qed

lemma replace_single:
  "replace_outputs_loop R os owned i outs [t] g = Ok (outs', left, g') \<Longrightarrow> j0 < length outs \<Longrightarrow> i + j0 \<in> set owned \<Longrightarrow>
     outs' = outs[j0 := t] \<and> left = [] \<and> (\<forall>j<length outs. i + j \<in> set owned \<longrightarrow> j = j0) \<and>
     (os = Disabled \<longrightarrow> script_pubkey t = script_pubkey (outs ! j0))"
proof (induction outs arbitrary: i j0 outs' g g')
  case (Cons x xs)
  show ?case
  proof (cases "i \<in> set owned")
    case True
    with Cons.prems(1) obtain t' repl' g1 xs' where
      t: "take_replacement R os x [t] g = Ok (t', repl', g1)" and
      xs: "outs' = t' # xs'" "replace_outputs_loop R os owned (Suc i) xs repl' g1 = Ok (xs', left, g')"
      by (auto simp: res_Ok_simps)
    note s = take_single [OF t]
    with xs(2) have n: "xs' = xs \<and> left = [] \<and> (\<forall>j<length xs. Suc i + j \<notin> set owned)"
      using replace_none by metis
    have "j0 = 0"
    proof (rule ccontr)
      assume "j0 \<noteq> 0"
      with n Cons.prems(2,3) show False by (cases j0) auto
    qed
    with n s show ?thesis by (auto simp: xs(1) less_Suc_eq_0_disj)
  next
    case False
    with Cons.prems(3) obtain j1 where j0: "j0 = Suc j1" by (cases j0) auto
    from False Cons.prems(1) obtain xs' where
      xs: "outs' = x # xs'" "replace_outputs_loop R os owned (Suc i) xs [t] g = Ok (xs', left, g')"
      by (auto simp: rmap_eq_Ok)
    have "j1 < length xs" "Suc i + j1 \<in> set owned" using Cons.prems(2,3) by (simp_all add: j0)
    from Cons.IH [OF xs(2) this] False show ?thesis
      by (simp add: xs(1) j0 All_less_Suc2)
  qed
qed simp

text \<open>Substituting the script of the only receiver output, by one that no other output has.\<close>

lemma substitute_Ok:
  assumes ok: "substitute_receiver_script R g s spk = Ok s'" and R: "rng_ok R"
    and owned: "wo_change_vout s \<in> set (wo_owned_vouts s)"
    and fresh: "\<forall>j<length (tx_output (unsigned_tx (oc_original_psbt (wo_original s)))).
      j \<notin> set (wo_owned_vouts s) \<longrightarrow> script_pubkey (tx_output (unsigned_tx (oc_original_psbt (wo_original s))) ! j) \<noteq> spk"
  shows "wo_change_vout s' = wo_change_vout s \<and> wo_original s' = wo_original s \<and>
    wo_change_vout s < length (tx_output (unsigned_tx (oc_original_psbt (wo_original s)))) \<and>
    (\<exists>t. script_pubkey t = spk \<and> txo_value t = txo_value (tx_output (unsigned_tx (oc_original_psbt (wo_original s))) ! wo_change_vout s) \<and>
       wo_payjoin_psbt s' = (oc_original_psbt (wo_original s))\<lparr>
         outputs := map (\<lambda>_. default_psbt_output) (tx_output (unsigned_tx (oc_original_psbt (wo_original s)))),
         unsigned_tx := (unsigned_tx (oc_original_psbt (wo_original s)))\<lparr>tx_output :=
           (tx_output (unsigned_tx (oc_original_psbt (wo_original s))))[wo_change_vout s := t]\<rparr>\<rparr>)"
proof -
  let ?o = "oc_original_psbt (wo_original s)" and ?k = "wo_change_vout s"
  let ?outs = "tx_output (unsigned_tx ?o)"
  define t where "t = \<lparr>txo_value = txo_value (?outs ! ?k), script_pubkey = spk\<rparr>"
  from ok have k: "?k < length ?outs" and
    "replace_receiver_outputs_with_rng R g s [t] spk = Ok s'"
    by (auto simp: substitute_receiver_script_def replace_receiver_outputs_def rbind_eq_Ok index_eq_Ok t_def)
  then obtain outs left g1 cv where
    loop: "replace_outputs_loop R (wo_output_substitution s) (wo_owned_vouts s) 0 ?outs [t] g = Ok (outs, left, g1)"
    and cv: "position (\<lambda>t. script_pubkey t = spk) (interleave_shuffle R g1 outs left) = Some cv"
    and s': "s' = \<lparr>wo_original = wo_original s,
         wo_payjoin_psbt = ?o\<lparr>outputs := map (\<lambda>_. default_psbt_output) (interleave_shuffle R g1 outs left),
           unsigned_tx := (unsigned_tx ?o)\<lparr>tx_output := interleave_shuffle R g1 outs left\<rparr>\<rparr>,
         wo_change_vout = cv, wo_owned_vouts = wo_owned_vouts s\<rparr>"
    by (auto simp: replace_receiver_outputs_with_rng_def Let_def rbind_eq_Ok)
  from replace_single [OF loop k] owned
  have outs: "outs = ?outs[?k := t]" "left = []" "\<forall>j<length ?outs. j \<in> set (wo_owned_vouts s) \<longrightarrow> j = ?k" by simp_all
  have "size (mset (interleave_shuffle R g1 outs [])) = length outs" and "subseq outs (interleave_shuffle R g1 outs [])"
    using interleave_shuffle_ok [OF R, of g1 outs "[]"] by simp_all
  then have sh: "interleave_shuffle R g1 outs left = outs"
    unfolding outs(2) by (metis size_mset subseq_same_length)
  have "cv = ?k"
  proof -
    note p = position_SomeD [OF cv [unfolded sh]]
    have "\<not> ?k < cv" using p k by (auto simp: outs(1) t_def)
    moreover have "\<not> cv < ?k"
    proof
      assume "cv < ?k"
      then have c: "cv < length ?outs" "cv \<noteq> ?k" using k by simp_all
      then have "cv \<notin> set (wo_owned_vouts s)" using outs(3) by blast
      moreover have "script_pubkey (?outs ! cv) = spk" using p c(2) by (simp add: outs(1))
      ultimately show False using fresh c(1) by blast
    qed
    ultimately show ?thesis by simp
  qed
  moreover have "interleave_shuffle R g1 outs left = ?outs[?k := t]" using sh outs(1) by simp
  ultimately show ?thesis
    using k by (intro conjI exI [of _ t]) (simp_all add: s' map_replicate_const, simp_all add: t_def)
qed

text \<open>The fee step changes the values of at most two outputs.\<close>

lemma fee_range_outputs:
  assumes "calculate_psbt_with_fee_range L s min_rate max_rate = Ok p" and "amounts_ok L"
  shows "\<exists>outs'. p = (wp_payjoin_psbt (wf_proposal s))\<lparr>unsigned_tx :=
        (unsigned_tx (wp_payjoin_psbt (wf_proposal s)))\<lparr>tx_output := outs'\<rparr>\<rparr> \<and>
    length outs' = length (tx_output (unsigned_tx (wp_payjoin_psbt (wf_proposal s)))) \<and>
    (\<forall>j<length outs'. j \<noteq> wp_change_vout (wf_proposal s) \<longrightarrow>
       outs' ! j = tx_output (unsigned_tx (wp_payjoin_psbt (wf_proposal s))) ! j \<or>
       (\<exists>m i v. par_additional_fee_contribution (oc_params (wf_original s)) = Some (m, i) \<and>
          position (\<lambda>t. script_pubkey t = script_pubkey (tx_output (unsigned_tx (oc_original_psbt (wf_original s))) ! i))
            (tx_output (unsigned_tx (wp_payjoin_psbt (wf_proposal s)))) = Some j \<and>
          outs' ! j = (tx_output (unsigned_tx (wp_payjoin_psbt (wf_proposal s))) ! j)\<lparr>txo_value := v\<rparr> \<and>
          v \<le> txo_value (tx_output (unsigned_tx (wp_payjoin_psbt (wf_proposal s))) ! j) \<and>
          txo_value (tx_output (unsigned_tx (wp_payjoin_psbt (wf_proposal s))) ! j) - v \<le> m))"
proof -
  let ?q = "wp_payjoin_psbt (wf_proposal s)" and ?cv = "wp_change_vout (wf_proposal s)" and ?oc = "wf_original s"
  let ?outs = "tx_output (unsigned_tx ?q)"
  from assms(1) obtain af outs1 rf1 rf outs2 where
    take: "take_sender_fee L ?oc af ?outs = (Ok (outs1, rf1) :: (_, payload_error) res)"
    and dec: "take_receiver_fee L ?cv rf outs1 = (Ok outs2 :: (_, payload_error) res)"
    and p: "p = ?q\<lparr>unsigned_tx := (unsigned_tx ?q)\<lparr>tx_output := outs2\<rparr>\<rparr>"
    unfolding calculate_psbt_with_fee_range_def Let_def by (auto simp: rbind_eq_Ok split: if_split_asm)
  have two: "length outs2 = length outs1 \<and> (\<forall>j<length outs2. j \<noteq> ?cv \<longrightarrow> outs2 ! j = outs1 ! j)"
  proof (cases "rf \<ge> 1")
    case True
    with dec have "decrease_output L ?cv rf outs1 = (Ok outs2 :: (_, payload_error) res)" by (simp add: take_receiver_fee_def)
    from decrease_output_Ok [OF this assms(2)] show ?thesis by simp
  qed (use dec in \<open>simp add: take_receiver_fee_def\<close>)
  have one: "length outs1 = length ?outs \<and> (\<forall>j<length outs1. outs1 ! j = ?outs ! j \<or>
      (\<exists>m i v. par_additional_fee_contribution (oc_params ?oc) = Some (m, i) \<and>
         position (\<lambda>t. script_pubkey t = script_pubkey (tx_output (unsigned_tx (oc_original_psbt ?oc)) ! i)) ?outs = Some j \<and>
         outs1 ! j = (?outs ! j)\<lparr>txo_value := v\<rparr> \<and> v \<le> txo_value (?outs ! j) \<and> txo_value (?outs ! j) - v \<le> m))"
  proof (cases "af \<ge> 1 \<and> par_additional_fee_contribution (oc_params ?oc) \<noteq> None")
    case True
    then obtain m i where mi: "par_additional_fee_contribution (oc_params ?oc) = Some (m, i)" by auto
    with take True obtain j0 where
      j0: "position (\<lambda>t. script_pubkey t = script_pubkey (tx_output (unsigned_tx (oc_original_psbt ?oc)) ! i)) ?outs = Some j0"
      and d: "decrease_output L j0 (min m af) ?outs = (Ok outs1 :: (_, payload_error) res)"
      by (auto simp: take_sender_fee_def rbind_eq_Ok Let_def index_eq_Ok)
    from decrease_output_Ok [OF d assms(2)] have o1: "j0 < length ?outs" "min m af \<le> txo_value (?outs ! j0)"
      "outs1 = ?outs[j0 := (?outs ! j0)\<lparr>txo_value := txo_value (?outs ! j0) - min m af\<rparr>]" by simp_all
    show ?thesis
    proof (intro conjI allI impI)
      fix j assume "j < length outs1"
      show "outs1 ! j = ?outs ! j \<or> (\<exists>m i v. par_additional_fee_contribution (oc_params ?oc) = Some (m, i) \<and>
         position (\<lambda>t. script_pubkey t = script_pubkey (tx_output (unsigned_tx (oc_original_psbt ?oc)) ! i)) ?outs = Some j \<and>
         outs1 ! j = (?outs ! j)\<lparr>txo_value := v\<rparr> \<and> v \<le> txo_value (?outs ! j) \<and> txo_value (?outs ! j) - v \<le> m)"
      proof (cases "j = j0")
        case True
        then show ?thesis using mi j0 o1
          by (intro disjI2 exI [of _ m] exI [of _ i] exI [of _ "txo_value (?outs ! j0) - min m af"]) auto
      qed (simp add: o1(3))
    qed (simp add: o1(3))
  qed (use take in \<open>auto simp: take_sender_fee_def split: option.splits if_splits\<close>)
  show ?thesis
    by (intro exI [of _ outs2]) (use one two p in auto)
qed

section \<open>The honest receiver\<close>

text \<open>
  What the sender's builder guarantees of an original: the maps match the transaction, which has
  an input and spends no coin twice, and the designated fee output is not the payee's and shares
  its script with no other output.
\<close>

definition proper_original :: "sender_context \<Rightarrow> bool" where
  "proper_original c \<longleftrightarrow>
     well_formed (original_psbt c) \<and> tx_input (unsigned_tx (original_psbt c)) \<noteq> [] \<and>
     distinct (outpoints (unsigned_tx (original_psbt c))) \<and>
     (\<forall>fc. fee_contribution c = Some fc \<longrightarrow>
        (let outs = tx_output (unsigned_tx (original_psbt c)) in
         fee_vout fc < length outs \<and> script_pubkey (outs ! fee_vout fc) \<noteq> payee c \<and>
         (\<forall>j<length outs. script_pubkey (outs ! j) = script_pubkey (outs ! fee_vout fc) \<longrightarrow> j = fee_vout fc)))"

text \<open>
  What the receiver relies on of its wallet: it signs its own coins, lists only those and knows
  what they spend, recognises the payee's script and no other of the transaction, and gives out
  new addresses that the transaction does not use.
\<close>

definition honest_wallet :: "outpoint set \<Rightarrow> sender_context \<Rightarrow> wallet \<Rightarrow> bool" where
  "honest_wallet own c w \<longleftrightarrow>
     signing_wallet own (process_psbt w) \<and>
     (\<forall>ps. list_unspent w = Ok ps \<longrightarrow> (\<forall>p\<in>set ps. pair_outpoint p \<in> own \<and>
        (witness_utxo (pr_psbtin p) \<noteq> None \<or> non_witness_utxo (pr_psbtin p) \<noteq> None))) \<and>
     (\<forall>t\<in>set (tx_output (unsigned_tx (original_psbt c))).
        is_mine w (script_pubkey t) = Ok (script_pubkey t = payee c) \<and>
        (script_pubkey t \<noteq> payee c \<longrightarrow> get_new_address w \<noteq> Ok (script_pubkey t)))"

text \<open>What reaches the receiver, as \<open>v1_original_delivered\<close> has it.\<close>

definition delivered :: "sender_context \<Rightarrow> original_payload \<Rightarrow> bool" where
  "delivered c payload \<longleftrightarrow>
     pl_psbt payload = clear_unneeded_fields (original_psbt c) \<and>
     par_output_substitution (pl_params payload) = output_substitution c \<and>
     par_additional_fee_contribution (pl_params payload) = map_option (\<lambda>fc. (max_amount fc, fee_vout fc)) (fee_contribution c)"

lemma cleared [simp]:
  "unsigned_tx (clear_unneeded_fields p) = unsigned_tx p" "well_formed (clear_unneeded_fields p) = well_formed p"
  by (simp_all add: clear_unneeded_fields_def well_formed_def)

lemma owned_vouts_exact:
  assumes "owned_vouts_loop (stateless f) s i ts = (Ok owned, s')" and "\<forall>t\<in>set ts. f (script_pubkey t) = Ok (script_pubkey t = spk)"
  shows "\<forall>j. j \<in> set owned \<longleftrightarrow> i \<le> j \<and> j < i + length ts \<and> script_pubkey (ts ! (j - i)) = spk"
  using assms
proof (induction ts arbitrary: i owned)
  case (Cons t ts)
  obtain r s1 where l: "owned_vouts_loop (stateless f) s (Suc i) ts = (r, s1)" by force
  have "stateless f s (script_pubkey t) = (Ok (script_pubkey t = spk), s)" using Cons.prems(2) by (simp add: stateless_def)
  with Cons.prems(1) obtain rest where r: "r = Ok rest" "owned = (if script_pubkey t = spk then i # rest else rest)" "s1 = s'"
    by (auto simp: l Let_def rmap_eq_Ok)
  have ih: "\<forall>j. j \<in> set rest \<longleftrightarrow> Suc i \<le> j \<and> j < Suc i + length ts \<and> script_pubkey (ts ! (j - Suc i)) = spk"
    using Cons.IH [of "Suc i" rest] Cons.prems(2) l r by simp
  show ?case
  proof
    fix j
    show "j \<in> set owned \<longleftrightarrow> i \<le> j \<and> j < i + length (t # ts) \<and> script_pubkey ((t # ts) ! (j - i)) = spk"
    proof (cases "j = i")
      case True
      then show ?thesis using ih by (simp add: r(2))
    next
      case False
      then have "j \<in> set owned \<longleftrightarrow> j \<in> set rest" by (simp add: r(2))
      moreover have "i \<le> j \<Longrightarrow> (t # ts) ! (j - i) = ts ! (j - Suc i)" using False by (simp add: nth_Cons')
      moreover have "Suc i \<le> j \<longleftrightarrow> i \<le> j" using False by auto
      ultimately show ?thesis using ih [rule_format, of j] by (cases "i \<le> j") simp_all
    qed
  qed
qed simp

lemma identified:
  assumes "fst (identify_receiver_outputs payload (stateless f) s) = Ok s0"
    and "\<forall>t\<in>set (tx_output (unsigned_tx (pl_psbt payload))). f (script_pubkey t) = Ok (script_pubkey t = spk)"
  shows "wo_original s0 = original_context_new (pl_psbt payload) (pl_params payload) (wo_owned_vouts s0) \<and>
    wo_change_vout s0 \<in> set (wo_owned_vouts s0) \<and>
    (\<forall>j<length (tx_output (unsigned_tx (pl_psbt payload))).
       j \<in> set (wo_owned_vouts s0) \<longleftrightarrow> script_pubkey (tx_output (unsigned_tx (pl_psbt payload)) ! j) = spk)"
proof -
  obtain r s' where l: "owned_vouts_loop (stateless f) s 0 (tx_output (unsigned_tx (pl_psbt payload))) = (r, s')" by force
  with assms(1) obtain owned where r: "r = Ok owned" "owned \<noteq> []"
      "wants_outputs_new payload owned = (Ok s0 :: (_, receive_error) res)"
    by (auto simp: identify_receiver_outputs_def res_Ok_simps split: if_split_asm)
  have "wo_original s0 = original_context_new (pl_psbt payload) (pl_params payload) owned \<and>
      wo_change_vout s0 = owned ! 0 \<and> wo_owned_vouts s0 = owned"
    using r(3) by (auto simp: wants_outputs_new_def rbind_eq_Ok index_eq_Ok)
  moreover have "owned ! 0 \<in> set owned" using r(2) by simp
  ultimately show ?thesis
    using owned_vouts_exact [OF l [unfolded r(1)] assms(2)] by simp
qed

lemma selected_is_candidate:
  assumes "try_preserving_privacy L s ps = Ok p"
  shows "p \<in> set ps"
proof -
  have "avoid_uih_loop L mo mi prior qs = Ok p \<Longrightarrow> p \<in> set qs" for mo mi prior qs
    by (induction qs) (auto simp: rbind_eq_Ok split: if_split_asm)
  with assms show ?thesis
    by (auto simp: try_preserving_privacy_def avoid_uih_def select_first_candidate_def Let_def rbind_eq_Ok
        split: res.splits if_split_asm list.splits)
qed

lemma contribution_adds_inputs:
  assumes "contribute_inputs L R g s ps = Ok s'" and "amounts_ok L"
    and wf: "well_formed (current_psbt s)" "well_formed original"
    and same: "tx_input (current_tx s) = tx_input (unsigned_tx original)"
      "tx_input (PJ_Receive_Contribute.original_tx s) = tx_input (unsigned_tx original)"
    and o: "tx_input (unsigned_tx original) \<noteq> []" "distinct (outpoints (unsigned_tx original))"
    and ps: "\<forall>p\<in>set ps. pair_outpoint p \<in> own \<and> (witness_utxo (pr_psbtin p) \<noteq> None \<or> non_witness_utxo (pr_psbtin p) \<noteq> None)"
  shows "adds_inputs own original (current_psbt s')"
  using assms(1,2) wf(1)
proof (rule contribute_Ok)
  fix seq
  let ?ts = "tx_input (current_tx s)" and ?ts' = "tx_input (current_tx s')"
  let ?is = "inputs (current_psbt s)" and ?is' = "inputs (current_psbt s')"
  assume m: "mset (zip ?ts' ?is') = mset (zip ?ts ?is) + mset (map (contributed seq) ps)"
    and sub: "subseq (zip ?ts ?is) (zip ?ts' ?is')" and len: "length ?ts' = length ?is'"
    and d: "distinct (map pair_outpoint ps)" "pair_outpoint ` set ps \<inter> set (outpoints (current_tx s)) = {}"
    and outs: "tx_output (current_tx s') = (let outs = tx_output (current_tx s); i = wp_change_vout (wi_proposal s) in
        outs[i := (outs ! i)\<lparr>txo_value := txo_value (outs ! i) + (sum_list (map pair_value ps) - min_contribution s)\<rparr>])"
      "outputs (current_psbt s') = outputs (current_psbt s)"
    and seq: "\<And>t ts. tx_input (PJ_Receive_Contribute.original_tx s) = t # ts \<Longrightarrow> seq = sequence t"
  have lens: "length ?ts = length ?is" using wf(1) by (simp add: well_formed_def)
  have wf': "well_formed (current_psbt s')" using wf(1) by (simp add: well_formed_def len outs Let_def)
  have op: "pair_outpoint p = previous_output (fst (contributed seq p))" for p
    by (simp add: pair_outpoint_def contributed_def)
  have fst_zip: "map fst (zip ?ts' ?is') = ?ts'" "map fst (zip ?ts ?is) = ?ts" using len lens by simp_all
  have "mset ?ts' = image_mset fst (mset (zip ?ts' ?is'))" by (metis fst_zip(1) mset_map)
  also have "\<dots> = image_mset fst (mset (zip ?ts ?is)) + image_mset fst (mset (map (contributed seq) ps))"
    by (simp only: m image_mset_union)
  also have "\<dots> = mset ?ts + mset (map (\<lambda>p. fst (contributed seq p)) ps)"
    by (simp only: mset_map [symmetric] fst_zip(2) map_map comp_def)
  finally have f: "mset ?ts' = mset ?ts + mset (map (\<lambda>p. fst (contributed seq p)) ps)" .
  have "image_mset previous_output (mset (map (\<lambda>p. fst (contributed seq p)) ps)) = mset (map pair_outpoint ps)"
    by (simp add: op [abs_def] multiset.map_comp comp_def)
  then have "mset (outpoints (current_tx s')) = mset (outpoints (unsigned_tx original) @ map pair_outpoint ps)"
    by (simp only: outpoints_def mset_map f image_mset_union mset_append same(1))
  moreover have "distinct (outpoints (unsigned_tx original) @ map pair_outpoint ps)"
    using o(2) d by (auto simp: outpoints_def same(1))
  ultimately have dist: "distinct (outpoints (current_tx s'))" by (metis mset_eq_imp_distinct_iff)
  have sub': "subseq (tx_input (unsigned_tx original)) ?ts'"
    using subseq_map [OF sub, of fst] unfolding fst_zip by (simp only: same(1))
  have "outpoints (current_tx s') ! k \<in> own \<and>
      (witness_utxo (?is' ! k) \<noteq> None \<or> non_witness_utxo (?is' ! k) \<noteq> None) \<and>
      sequence (?ts' ! k) = sequence (hd (tx_input (unsigned_tx original)))"
    if k: "k < length ?is'" "outpoints (current_tx s') ! k \<notin> set (outpoints (unsigned_tx original))" for k
  proof -
    have "(?ts' ! k, ?is' ! k) \<in> set (zip ?ts' ?is')" using k(1) len by (force simp: set_zip)
    moreover have "set (zip ?ts' ?is') = set (zip ?ts ?is) \<union> contributed seq ` set ps"
      using arg_cong [OF m, of set_mset] by simp
    moreover have "?ts' ! k \<notin> set ?ts" using k len by (auto simp: outpoints_def same(1))
    then have "(?ts' ! k, ?is' ! k) \<notin> set (zip ?ts ?is)" by (meson set_zip_leftD)
    ultimately obtain p where p: "p \<in> set ps" "(?ts' ! k, ?is' ! k) = contributed seq p" by blast
    obtain t ts where t: "tx_input (unsigned_tx original) = t # ts" using o(1) by (cases "tx_input (unsigned_tx original)") auto
    have "outpoints (current_tx s') ! k = pair_outpoint p"
      using k(1) len unfolding op p(2) [symmetric] by (simp add: outpoints_nth)
    moreover have "?is' ! k = pr_psbtin p" "sequence (?ts' ! k) = seq" using p(2) by (simp_all add: contributed_def)
    ultimately show ?thesis using ps p(1) seq [of t ts] by (simp add: same(2) t)
  qed
  with wf' wf(2) sub' dist o(1) show ?thesis by (auto simp: adds_inputs_def)
qed

lemma contribution_keeps_header:
  "contribute_inputs L R g s ps = Ok s' \<Longrightarrow>
     tx_version (current_tx s') = tx_version (current_tx s) \<and> lock_time (current_tx s') = lock_time (current_tx s)"
  by (auto simp: contribute_inputs_def Let_def rbind_eq_Ok split: if_split_asm)

lemma build_proposal_Ok:
  assumes "build_proposal L T R g g' w max_rate s0 = Ok (V1PayjoinProposal p)"
  obtains a s1 candidates sel s3 pj where
    "get_new_address w = Ok a" "substitute_receiver_script R g s0 a = Ok s1" "list_unspent w = Ok candidates"
    "sel \<in> set candidates" "contribute_inputs L R g' (commit_outputs s1) [sel] = Ok s3"
    "calculate_psbt_with_fee_range L (commit_inputs s3) None max_rate = Ok pj"
    "finalize_proposal L T \<lparr>pc_original_psbt = oc_original_psbt (wi_original s3), pc_payjoin_psbt = pj\<rparr> (process_psbt w) = Ok p"
proof -
  from assms obtain a s1 candidates sel s3 pj where
    "get_new_address w = Ok a" "substitute_receiver_script R g s0 a = Ok s1" "list_unspent w = Ok candidates"
    and sel: "try_preserving_privacy L (commit_outputs s1) candidates = Ok sel" and
    "contribute_inputs L R g' (commit_outputs s1) [sel] = Ok s3"
    "calculate_psbt_with_fee_range L (commit_inputs s3) None max_rate = Ok pj"
    "finalize_proposal L T \<lparr>pc_original_psbt = oc_original_psbt (wi_original s3), pc_payjoin_psbt = pj\<rparr> (process_psbt w) = Ok p"
    by (auto simp: build_proposal_def try_contributing_inputs_def v1_apply_fee_range_def
        calculate_psbt_context_with_fee_range_def commit_inputs_def res_Ok_simps split: if_split_asm)
  then show ?thesis using selected_is_candidate [OF sel] by (intro that)
qed

lemma process_v1_Ok:
  assumes "process_v1_proposal L T R g g' w seen max_rate db (V1Unchecked payload) = (Ok (V1PayjoinProposal p), db')"
  obtains s0 where "fst (identify_receiver_outputs payload (stateless (is_mine w)) ()) = Ok s0"
    "build_proposal L T R g g' w max_rate s0 = Ok (V1PayjoinProposal p)"
proof -
  from assms obtain sn where sn: "rbind (v1_check_broadcast_suitability L None (can_broadcast w) (V1Unchecked payload)) (\<lambda>owned.
      fst (v1_check_inputs_not_owned (stateless (is_my_outpoint w)) () owned)) = Ok sn"
    by (auto simp: process_v1_proposal_def split: res.splits)
  then have "sn = V1MaybeInputsSeen payload"
    by (auto simp: rbind_eq_Ok rmap_eq_Ok Let_def case_prod_unfold)
  with assms sn that show ?thesis
    by (auto simp: process_v1_proposal_def Let_def case_prod_unfold res_Ok_simps)
qed

text \<open>The outputs of the proposal: the payee's was substituted, the fee output may have paid, the rest is as it was.\<close>

lemma proposal_outputs_acceptable:
  assumes ok: "calculate_psbt_with_fee_range L s min_rate max_rate = Ok pj" and L: "amounts_ok L"
    and c: "proper_original c" "output_substitution c = Enabled"
    and outs: "tx_output (unsigned_tx (wp_payjoin_psbt (wf_proposal s))) = outs0[k := t]" "outs0 = tx_output (unsigned_tx (original_psbt c))"
    and k: "wp_change_vout (wf_proposal s) = k" "k < length outs0" "script_pubkey (outs0 ! k) = payee c"
    and o: "unsigned_tx (oc_original_psbt (wf_original s)) = unsigned_tx (original_psbt c)"
    and fee: "\<And>m i. par_additional_fee_contribution (oc_params (wf_original s)) = Some (m, i) \<Longrightarrow>
      \<exists>fc. fee_contribution c = Some fc \<and> max_amount fc = m \<and> fee_vout fc = i"
  shows "length (tx_output (unsigned_tx pj)) = length outs0 \<and>
    (\<forall>j<length outs0. acceptable_output c j (outs0 ! j) (tx_output (unsigned_tx pj) ! j))"
proof -
  let ?before = "tx_output (unsigned_tx (wp_payjoin_psbt (wf_proposal s)))"
  from fee_range_outputs [OF ok L] obtain outs' where pj: "tx_output (unsigned_tx pj) = outs'" "length outs' = length outs0"
    and ch: "\<And>j. j < length outs' \<Longrightarrow> j \<noteq> k \<Longrightarrow> outs' ! j = ?before ! j \<or>
       (\<exists>m i v. par_additional_fee_contribution (oc_params (wf_original s)) = Some (m, i) \<and>
          position (\<lambda>t. script_pubkey t = script_pubkey (outs0 ! i)) ?before = Some j \<and>
          outs' ! j = (?before ! j)\<lparr>txo_value := v\<rparr> \<and> v \<le> txo_value (?before ! j) \<and> txo_value (?before ! j) - v \<le> m)"
    unfolding outs(1) k(1) o outs(2) [symmetric] by auto
  have "acceptable_output c j (outs0 ! j) (outs' ! j)" if j: "j < length outs0" for j
  proof (cases "j = k")
    case True
    have "\<forall>fc. fee_contribution c = Some fc \<longrightarrow> fee_vout fc \<noteq> k"
      using c(1) k(3) by (auto simp: proper_original_def Let_def outs(2))
    then show ?thesis using c(2) k(3) True by (simp add: acceptable_output_def)
  next
    case False
    have b: "?before ! j = outs0 ! j" using False by (simp add: outs(1))
    from ch [of j] j False pj(2) consider (same) "outs' ! j = outs0 ! j"
      | (paid) m i v where "par_additional_fee_contribution (oc_params (wf_original s)) = Some (m, i)"
          "position (\<lambda>t. script_pubkey t = script_pubkey (outs0 ! i)) ?before = Some j"
          "outs' ! j = (outs0 ! j)\<lparr>txo_value := v\<rparr>" "v \<le> txo_value (outs0 ! j)" "txo_value (outs0 ! j) - v \<le> m"
      unfolding b by auto
    then show ?thesis
    proof cases
      case paid
      from fee [OF paid(1)] obtain fc where fc: "fee_contribution c = Some fc" "max_amount fc = m" "fee_vout fc = i" by blast
      have "script_pubkey (outs0 ! j) = script_pubkey (outs0 ! i)" using position_holds [OF paid(2)] by (simp add: b)
      then have "j = i" using c(1) fc(1,3) j unfolding proper_original_def Let_def outs(2) by blast
      then show ?thesis using paid(3-5) fc by (auto simp: acceptable_output_def)
    qed (simp add: acceptable_output_def)
  qed
  with pj show ?thesis by simp
qed

text \<open>The proposal before it is signed: its inputs, its outputs and the rest of the transaction.\<close>

lemma constructed_proposal:
  fixes c :: sender_context and payload :: original_payload
  defines "p0 \<equiv> clear_unneeded_fields (original_psbt c)" and "outs \<equiv> tx_output (unsigned_tx (original_psbt c))"
  assumes c: "delivered c payload" "proper_original c" "honest_wallet own c w" "output_substitution c = Enabled"
    and L: "rng_ok R" "amounts_ok L"
    and s0: "fst (identify_receiver_outputs payload (stateless (is_mine w)) ()) = Ok s0"
    and a: "get_new_address w = Ok a" and s1: "substitute_receiver_script R g s0 a = Ok s1"
    and sel: "list_unspent w = Ok candidates" "sel \<in> set candidates"
    and s3: "contribute_inputs L R g' (commit_outputs s1) [sel] = Ok s3"
    and pj: "calculate_psbt_with_fee_range L (commit_inputs s3) None max_rate = Ok pj"
  shows "oc_original_psbt (wi_original s3) = p0 \<and> adds_inputs own p0 pj \<and>
    length (tx_output (unsigned_tx pj)) = length outs \<and>
    (\<forall>j<length outs. acceptable_output c j (outs ! j) (tx_output (unsigned_tx pj) ! j)) \<and>
    tx_version (unsigned_tx pj) = tx_version (unsigned_tx (original_psbt c)) \<and>
    lock_time (unsigned_tx pj) = lock_time (unsigned_tx (original_psbt c)) \<and>
    outputs pj = map (\<lambda>_. default_psbt_output) outs"
proof -
  let ?o = "original_psbt c" and ?k = "wo_change_vout s0"
  have p0: "pl_psbt payload = p0" using c(1) by (simp add: delivered_def p0_def)
  have wfo: "well_formed ?o" "tx_input (unsigned_tx ?o) \<noteq> []" "distinct (outpoints (unsigned_tx ?o))"
    using c(2) by (simp_all add: proper_original_def)
  have mine: "\<And>t. t \<in> set outs \<Longrightarrow> is_mine w (script_pubkey t) = Ok (script_pubkey t = payee c)"
    using c(3) by (simp add: honest_wallet_def outs_def)
  have i: "wo_original s0 = original_context_new p0 (pl_params payload) (wo_owned_vouts s0)"
    "wo_change_vout s0 \<in> set (wo_owned_vouts s0)"
    "\<And>j. j < length outs \<Longrightarrow> j \<in> set (wo_owned_vouts s0) \<longleftrightarrow> script_pubkey (outs ! j) = payee c"
    using identified [OF s0, of "payee c"] mine by (simp_all add: p0 outs_def) (simp_all add: p0_def)
  have orig: "oc_original_psbt (wo_original s0) = p0" by (simp add: i(1))
  have "\<forall>j<length outs. j \<notin> set (wo_owned_vouts s0) \<longrightarrow> script_pubkey (outs ! j) \<noteq> a"
    using c(3) a i(3) by (auto simp: honest_wallet_def outs_def)
  with substitute_Ok [OF s1 L(1) i(2)] obtain t where
    st: "wo_change_vout s1 = ?k" "wo_original s1 = wo_original s0" "?k < length outs"
      "wo_payjoin_psbt s1 = p0\<lparr>outputs := map (\<lambda>_. default_psbt_output) outs,
         unsigned_tx := (unsigned_tx ?o)\<lparr>tx_output := outs[?k := t]\<rparr>\<rparr>"
    unfolding orig by (auto simp: p0_def outs_def)
  have cur: "current_psbt (commit_outputs s1) = wo_payjoin_psbt s1" "wp_change_vout (wi_proposal (commit_outputs s1)) = ?k"
    "wi_original (commit_outputs s1) = wo_original s0"
    by (simp_all add: commit_outputs_def st(1,2))
  have wf1: "well_formed (current_psbt (commit_outputs s1))"
    using wfo(1) by (simp add: cur st(4) well_formed_def clear_unneeded_fields_def p0_def outs_def)
  have adds: "adds_inputs own p0 (current_psbt s3)"
  proof (rule contribution_adds_inputs [OF s3 L(2) wf1])
    show "\<forall>p\<in>set [sel]. pair_outpoint p \<in> own \<and> (witness_utxo (pr_psbtin p) \<noteq> None \<or> non_witness_utxo (pr_psbtin p) \<noteq> None)"
      using c(3) sel by (simp add: honest_wallet_def)
  qed (use wfo in \<open>simp_all add: cur st(4) orig p0_def\<close>)
  from s3 L(2) wf1 obtain v where
    c3: "tx_output (current_tx s3) = outs[?k := v]" "outputs (current_psbt s3) = map (\<lambda>_. default_psbt_output) outs"
      "wi_original s3 = wo_original s0" "wp_change_vout (wi_proposal s3) = ?k"
    by (rule contribute_Ok) (use st(3) in \<open>simp add: cur st(4) Let_def\<close>)
  have fee: "\<exists>fc. fee_contribution c = Some fc \<and> max_amount fc = m \<and> fee_vout fc = i'"
    if "par_additional_fee_contribution (oc_params (wf_original (commit_inputs s3))) = Some (m, i')" for m i'
    using that c(1)
    by (auto simp: commit_inputs_def c3(3) i(1) original_context_new_def delivered_def split: option.splits prod.splits if_split_asm)
  from fee_range_outputs [OF pj L(2)] obtain outs' where
    pj': "pj = (current_psbt s3)\<lparr>unsigned_tx := (current_tx s3)\<lparr>tx_output := outs'\<rparr>\<rparr>" "length outs' = length outs"
    by (auto simp: commit_inputs_def c3(1))
  have "outpoints (unsigned_tx pj) = outpoints (current_tx s3)" by (simp add: outpoints_def pj'(1))
  moreover have "well_formed (current_psbt s3) \<Longrightarrow> well_formed pj" by (simp add: well_formed_def pj' c3(1))
  ultimately have "adds_inputs own p0 pj" using adds by (simp add: adds_inputs_def pj'(1))
  moreover have "script_pubkey (outs ! ?k) = payee c" using i(2,3) st(3) by simp
  then have "length (tx_output (unsigned_tx pj)) = length outs \<and>
      (\<forall>j<length outs. acceptable_output c j (outs ! j) (tx_output (unsigned_tx pj) ! j))"
    by (intro proposal_outputs_acceptable [OF pj L(2) c(2,4) _ meta_eq_to_obj_eq [OF outs_def] _ st(3) _ _ fee, where t = v])
      (simp_all add: commit_inputs_def c3 orig p0_def)
  ultimately show ?thesis using contribution_keeps_header [OF s3] by (simp add: pj'(1) cur(1) st(4) c3 orig)
qed

text \<open>C2: An honest version 1 receiver's proposal passes the sender's checks of the transaction, the
  inputs and the outputs, for every original, wallet, selected coin, fee rate and random
  generator: whatever \<open>process_v1_proposal\<close> answers, the sender's \<open>process_proposal\<close> decides by
  the fees alone.\<close>

theorem honest_proposal_accepted:
  assumes "process_v1_proposal L T R g g' w seen max_rate db (V1Unchecked payload) = (Ok (V1PayjoinProposal p), db')"
    and "delivered c payload" and "proper_original c" and "honest_wallet own c w"
    and "output_substitution c = Enabled" and "rng_ok R" and "amounts_ok L"
  shows "basic_checks c p = Ok () \<and> check_inputs L c p True = Ok () \<and>
    (\<exists>k q. check_outputs L c p = Ok k \<and> process_proposal L c p = rmap (\<lambda>_. q) (check_fees L c q k))"
proof -
  have wf: "well_formed (original_psbt c)" "signing_wallet own (process_psbt w)"
    using assms(3,4) by (simp_all add: proper_original_def honest_wallet_def)
  from assms(1) obtain s0 where s0: "fst (identify_receiver_outputs payload (stateless (is_mine w)) ()) = Ok s0"
    and build: "build_proposal L T R g g' w max_rate s0 = Ok (V1PayjoinProposal p)" by (rule process_v1_Ok)
  from build show ?thesis
  proof (rule build_proposal_Ok)
    fix a s1 candidates sel s3 pj
    assume "get_new_address w = Ok a" "substitute_receiver_script R g s0 a = Ok s1" "list_unspent w = Ok candidates"
      "sel \<in> set candidates" "contribute_inputs L R g' (commit_outputs s1) [sel] = Ok s3"
      "calculate_psbt_with_fee_range L (commit_inputs s3) None max_rate = Ok pj"
      and fin: "finalize_proposal L T \<lparr>pc_original_psbt = oc_original_psbt (wi_original s3), pc_payjoin_psbt = pj\<rparr> (process_psbt w) = Ok p"
    note pj = constructed_proposal [OF assms(2-7) s0 this(1-6)]
    have "check_inputs L c p True = Ok ()" "unsigned_tx p = unsigned_tx pj" "length (outputs p) = length (outputs pj)"
      "\<forall>out\<in>set (outputs p). out = default_psbt_output"
      using finalized_inputs_accepted [of L T "clear_unneeded_fields (original_psbt c)" pj "process_psbt w" p own c] fin pj wf by simp_all
    note f = this
    have "basic_checks c p = Ok ()" using pj by (simp add: basic_checks_def Let_def f(2))
    moreover have "\<forall>out\<in>set (outputs p). out_bip32_derivation out = []"
      using f(4) by (metis default_psbt_output_def psbt_output.select_convs(3))
    then obtain k where "check_outputs L c p = Ok k"
      using check_outputs_accepts [of p c L] pj f(2,3) assms(7) by auto
    moreover have "rbind m (\<lambda>_. Ok q) = rmap (\<lambda>_. q) m" for m :: "(unit, proposal_error) res" and q :: psbt
      by (cases m) simp_all
    ultimately show ?thesis using f(1) by (auto simp: process_proposal_def Let_def)
  qed
qed

section \<open>Witness\<close>

text \<open>The sender of the samples with substitution allowed, and a wallet with one coin of 80 that it can sign.\<close>

definition agreeing_context :: sender_context where
  "agreeing_context = sample_context\<lparr>output_substitution := Enabled,
     fee_contribution := Some \<lparr>max_amount = 182, fee_vout = 1\<rparr>\<rparr>"

definition sample_sign :: "outpoint \<Rightarrow> psbt \<Rightarrow> (psbt, implementation_error) res" where
  "sample_sign own p = Ok (p\<lparr>inputs := map (\<lambda>k.
       if k < length (outpoints (unsigned_tx p)) \<and> outpoints (unsigned_tx p) ! k = own
       then (inputs p ! k)\<lparr>final_script_witness := Some [[7]]\<rparr> else inputs p ! k) [0..<length (inputs p)]\<rparr>)"

definition sample_wallet :: wallet where
  "sample_wallet = \<lparr>can_broadcast = (\<lambda>_. Ok True), is_my_outpoint = (\<lambda>_. Ok False), is_mine = (\<lambda>s. Ok (s = payee_spk)),
     get_new_address = Ok receiver_spk, list_unspent = Ok [sample_pair 2 80],
     process_psbt = sample_sign \<lparr>op_txid = 2, vout = 0\<rparr>\<rparr>"

lemma sample_sign_signs: "signing_wallet {own} (sample_sign own)"
  by (auto simp: signing_wallet_def sample_sign_def)

lemma sample_honest_wallet: "honest_wallet {\<lparr>op_txid = 2, vout = 0\<rparr>} agreeing_context sample_wallet"
proof -
  have "pair_outpoint (sample_pair 2 80) = \<lparr>op_txid = 2, vout = 0\<rparr>" "witness_utxo (pr_psbtin (sample_pair 2 80)) \<noteq> None"
    by (simp_all add: sample_pair_def pair_outpoint_def sample_txin_def sample_input_def)
  then show ?thesis
    by (simp add: honest_wallet_def sample_wallet_def sample_sign_signs agreeing_context_def sample_context_def
        sample_original_def sample_psbt_def sample_txout_def)
qed

lemma honest_proposal_accepted_witness:
  "\<exists>p. fst (process_v1_proposal sample_btc sample_text sample_rng 0 0 sample_wallet (stateless (\<lambda>_. Ok False)) None ()
        (V1Unchecked sample_payload)) = Ok (V1PayjoinProposal p) \<and>
     basic_checks agreeing_context p = Ok () \<and> check_inputs sample_btc agreeing_context p True = Ok () \<and>
     (\<exists>k q. check_outputs sample_btc agreeing_context p = Ok k \<and>
        process_proposal sample_btc agreeing_context p = rmap (\<lambda>_. q) (check_fees sample_btc agreeing_context q k))"
proof -
  let ?r = "process_v1_proposal sample_btc sample_text sample_rng 0 0 sample_wallet (stateless (\<lambda>_. Ok False)) None ()
        (V1Unchecked sample_payload)"
  have "is_ok (fst ?r)" by code_simp
  then obtain p where p: "?r = (Ok (V1PayjoinProposal p), ())"
    by (metis is_ok_iff prod.collapse unit.exhaust v1_payjoin_proposal.exhaust)
  have d: "delivered agreeing_context sample_payload"
    by (simp add: delivered_def) code_simp
  have o: "proper_original agreeing_context" "output_substitution agreeing_context = Enabled"
    by (simp_all add: proper_original_def agreeing_context_def sample_context_def sample_original_def sample_psbt_def
        well_formed_def outpoints_def less_Suc_eq numeral_2_eq_2 sample_txout_def)
  from honest_proposal_accepted [OF p d o(1) sample_honest_wallet o(2) sample_rng_ok sample_amounts_ok] p
  show ?thesis by simp
qed

end
