(* ===== verification/PJ_Mail_Store.thy ===== *)
theory PJ_Mail_Store
  imports PJ_Wire
begin

text \<open>
  The files of the mail room's mailboxes: \<open>DiskStorage\<close> of \<open>payjoin-mailroom/src/db/files.rs\<close>.

  The directory is a map from identifiers to a creation time and the bytes of the file, the
  directory \<open>tmp\<close> below it a set of identifiers. An operation of the file system that may fail is a
  field of \<open>faults\<close>: the error it fails with for a file, if it does.
\<close>

type_synonym io_error = string

record faults =
  exists_fault :: "short_id \<Rightarrow> io_error option"
  get_fault :: "short_id \<Rightarrow> io_error option"
  create_fault :: "short_id \<Rightarrow> io_error option"
  write_fault :: "short_id \<Rightarrow> io_error option"
  link_fault :: "short_id \<Rightarrow> io_error option"
  unlink_fault :: "short_id \<Rightarrow> io_error option"
  stat_fault :: "short_id \<Rightarrow> io_error option"
  remove_fault :: "short_id \<Rightarrow> io_error option"

definition no_faults :: faults where
  "no_faults = \<lparr>exists_fault = (\<lambda>_. None), get_fault = (\<lambda>_. None), create_fault = (\<lambda>_. None),
     write_fault = (\<lambda>_. None), link_fault = (\<lambda>_. None), unlink_fault = (\<lambda>_. None),
     stat_fault = (\<lambda>_. None), remove_fault = (\<lambda>_. None)\<rparr>"

record disk =
  files :: "short_id \<Rightarrow> (nat \<times> string) option"
  tmp_files :: "short_id set"
  xor_pattern :: string

section \<open>The obfuscation\<close>

definition xor_char :: "char \<Rightarrow> char \<Rightarrow> char" where
  "xor_char a b = Char (digit0 a \<noteq> digit0 b) (digit1 a \<noteq> digit1 b) (digit2 a \<noteq> digit2 b) (digit3 a \<noteq> digit3 b)
     (digit4 a \<noteq> digit4 b) (digit5 a \<noteq> digit5 b) (digit6 a \<noteq> digit6 b) (digit7 a \<noteq> digit7 b)"

text \<open>The buffer is zipped with the repeated pattern; with an empty pattern nothing is zipped.\<close>

definition xor_buffer :: "string \<Rightarrow> string \<Rightarrow> string" where
  "xor_buffer pattern buffer =
     (if pattern = [] then buffer
      else map (\<lambda>k. xor_char (buffer ! k) (pattern ! (k mod length pattern))) [0..<length buffer])"

lemma xor_char_twice [simp]: "xor_char (xor_char a b) b = a"
  by (cases a) (auto simp: xor_char_def)

lemma xor_buffer_length [simp]: "length (xor_buffer pat b) = length b"
  by (simp add: xor_buffer_def)

lemma xor_buffer_twice [simp]: "xor_buffer pat (xor_buffer pat b) = b"
  by (rule nth_equalityI) (auto simp: xor_buffer_def)

section \<open>Operations\<close>

text \<open>At the start \<open>tmp\<close> is emptied; a pattern that is not there yet is drawn.\<close>

definition disk_init :: "string \<Rightarrow> string option \<Rightarrow> (short_id \<Rightarrow> (nat \<times> string) option) \<Rightarrow> disk" where
  "disk_init drawn xor_file fs =
     \<lparr>files = fs, tmp_files = {}, xor_pattern = (case xor_file of Some x \<Rightarrow> x | None \<Rightarrow> drawn)\<rparr>"

definition contains_key :: "faults \<Rightarrow> disk \<Rightarrow> short_id \<Rightarrow> (bool, io_error) res" where
  "contains_key F d i = (case exists_fault F i of Some e \<Rightarrow> Err e | None \<Rightarrow> Ok (files d i \<noteq> None))"

definition disk_get :: "faults \<Rightarrow> disk \<Rightarrow> short_id \<Rightarrow> ((nat \<times> string) option, io_error) res" where
  "disk_get F d i =
     (case get_fault F i of
        Some e \<Rightarrow> Err e
      | None \<Rightarrow> Ok (map_option (\<lambda>(created, buffer). (created, xor_buffer (xor_pattern d) buffer)) (files d i)))"

definition already_exists :: io_error where "already_exists = ''File exists''"

text \<open>
  The file is written under \<open>tmp\<close> and then linked into the directory. An error before the link
  leaves the file in \<open>tmp\<close>, where the next attempt finds it; an error after it leaves the mailbox.
\<close>

definition try_insert ::
  "faults \<Rightarrow> nat \<Rightarrow> short_id \<Rightarrow> string \<Rightarrow> disk \<Rightarrow> (nat option, io_error) res \<times> disk" where
  "try_insert F now i contents d =
     (case contains_key F d i of
        Err e \<Rightarrow> (Err e, d)
      | Panic \<Rightarrow> (Panic, d)
      | Ok True \<Rightarrow>
          (case disk_get F d i of
             Ok (Some (created, existing_contents)) \<Rightarrow>
               (Ok (if existing_contents = contents then Some created else None), d)
           | _ \<Rightarrow> (Ok None, d))
      | Ok False \<Rightarrow>
          (if i \<in> tmp_files d then (Err already_exists, d)
           else case create_fault F i of Some e \<Rightarrow> (Err e, d) | None \<Rightarrow>
           let written = d\<lparr>tmp_files := insert i (tmp_files d)\<rparr> in
           case write_fault F i of Some e \<Rightarrow> (Err e, written) | None \<Rightarrow>
           let linked = (case link_fault F i of
                 Some e \<Rightarrow> written
               | None \<Rightarrow> written\<lparr>files := (files d)(i \<mapsto> (now, xor_buffer (xor_pattern d) contents))\<rparr>) in
           case unlink_fault F i of Some e \<Rightarrow> (Err e, linked) | None \<Rightarrow>
           let unlinked = linked\<lparr>tmp_files := tmp_files d\<rparr> in
           case link_fault F i of
             Some e \<Rightarrow> (if e = already_exists then Ok None else Err e, unlinked)
           | None \<Rightarrow> (case stat_fault F i of Some e \<Rightarrow> (Err e, unlinked) | None \<Rightarrow> (Ok (Some now), unlinked))))"

definition disk_remove :: "faults \<Rightarrow> short_id \<Rightarrow> disk \<Rightarrow> (unit option, io_error) res \<times> disk" where
  "disk_remove F i d =
     (case remove_fault F i of
        Some e \<Rightarrow> (Err e, d)
      | None \<Rightarrow> (if files d i = None then (Ok None, d) else (Ok (Some ()), d\<lparr>files := (files d)(i := None)\<rparr>)))"

text \<open>The names of the directory with their creation times, sorted by them; other names are left out.\<close>

definition disk_insert_order :: "wire_api \<Rightarrow> (string \<times> nat) list \<Rightarrow> (nat \<times> short_id) list" where
  "disk_insert_order W dir_entries =
     sort_key fst (concat (map (\<lambda>(file_name, ctime).
       case short_id_from_str W file_name of Ok i \<Rightarrow> [(ctime, i)] | _ \<Rightarrow> []) dir_entries))"

section \<open>Facts\<close>

text \<open>What a mailbox holds, in the clear.\<close>

definition mailbox :: "disk \<Rightarrow> short_id \<Rightarrow> (nat \<times> string) option" where
  "mailbox d i = map_option (\<lambda>(created, buffer). (created, xor_buffer (xor_pattern d) buffer)) (files d i)"

lemma mailbox_None [simp]: "mailbox d i = None \<longleftrightarrow> files d i = None"
  by (simp add: mailbox_def)

lemma mailbox_update [simp]:
  "mailbox (d\<lparr>tmp_files := T\<rparr>) = mailbox d"
  "mailbox (d\<lparr>files := (files d)(i \<mapsto> (c, xor_buffer (xor_pattern d) p))\<rparr>) = (mailbox d)(i \<mapsto> (c, p))"
  "mailbox (d\<lparr>tmp_files := T, files := (files d)(i \<mapsto> (c, xor_buffer (xor_pattern d) p))\<rparr>) = (mailbox d)(i \<mapsto> (c, p))"
  by (simp_all add: mailbox_def fun_eq_iff)

lemma disk_get_Ok [simp]: "disk_get F d i = Ok r \<longleftrightarrow> get_fault F i = None \<and> r = mailbox d i"
  by (auto simp: disk_get_def mailbox_def split: option.splits)

lemma disk_get_not_Panic [simp]: "disk_get F d i \<noteq> Panic"
  by (simp add: disk_get_def split: option.splits)

lemma try_insert_pattern [simp]: "xor_pattern (snd (try_insert F now i c d)) = xor_pattern d"
  by (auto simp: try_insert_def Let_def split: option.splits res.splits bool.splits)

lemma try_insert_not_Panic [simp]: "fst (try_insert F now i c d) \<noteq> Panic"
  by (auto simp: try_insert_def contains_key_def Let_def split: option.splits res.splits bool.splits)

text \<open>A mailbox is written once: an insertion never changes one that is there.\<close>

lemma try_insert_mailbox:
  "mailbox (snd (try_insert F now i c d)) j = mailbox d j \<or>
     j = i \<and> mailbox d i = None \<and> mailbox (snd (try_insert F now i c d)) i = Some (now, c)"
  by (auto simp: try_insert_def contains_key_def mailbox_def Let_def split: option.splits res.splits bool.splits)

text \<open>An insertion that succeeds leaves the contents in the mailbox: they were there, or are now.\<close>

lemma try_insert_Some:
  assumes "try_insert F now i c d = (Ok (Some created), d')"
  shows "mailbox d' i = Some (created, c) \<and> (mailbox d i = None \<and> created = now \<or> d' = d)"
  using assms
  by (cases "files d i") (auto simp: try_insert_def contains_key_def disk_get_def mailbox_def Let_def
      split: option.splits res.splits bool.splits if_split_asm)

lemma try_insert_None:
  assumes "try_insert F now i c d = (Ok None, d')"
  shows "mailbox d' j = mailbox d j"
  using assms
  by (auto simp: try_insert_def contains_key_def disk_get_def mailbox_def Let_def
      split: option.splits res.splits bool.splits if_split_asm)

lemma disk_remove_mailbox: "mailbox (snd (disk_remove F i d)) j = (if j = i \<and> remove_fault F i = None then None else mailbox d j)"
  by (auto simp: disk_remove_def mailbox_def split: option.splits)

lemma disk_remove_pattern [simp]: "xor_pattern (snd (disk_remove F i d)) = xor_pattern d"
  by (auto simp: disk_remove_def split: option.splits)

text \<open>Without faults the file system does what is asked of it.\<close>

lemma no_faults_sel [simp]:
  "exists_fault no_faults i = None" "get_fault no_faults i = None" "create_fault no_faults i = None"
  "write_fault no_faults i = None" "link_fault no_faults i = None" "unlink_fault no_faults i = None"
  "stat_fault no_faults i = None" "remove_fault no_faults i = None"
  by (simp_all add: no_faults_def)

end
