(* ===== verification/PJ_Mailbox.thy ===== *)
theory PJ_Mailbox
  imports PJ_Mail_Store "HOL-Library.AList"
begin

text \<open>
  The mailboxes of the mail room: \<open>Mailboxes\<close> and \<open>FilesDb\<close> of \<open>payjoin-mailroom/src/db/files.rs\<close>.

  A hash map is an association list. A one-shot channel is a number: \<open>posted\<close> is what was sent on
  it, \<open>handles\<close> how many receivers of it tasks hold. For a shared receiver of a pending version 2
  entry the map holds one more, which the strong count of the code counts in. Each definition of a
  method is one section under the mutex; \<open>now\<close> is the system time of the call. The debug assertion at the
  start of \<open>prune\<close>, that no pending version 1 sender has lost its receiver, is not part of a release build.
\<close>

record channels =
  next_channel :: nat
  posted :: "nat \<Rightarrow> string option"
  handles :: "nat \<Rightarrow> nat"

definition no_channels :: channels where
  "no_channels = \<lparr>next_channel = 0, posted = (\<lambda>_. None), handles = (\<lambda>_. 0)\<rparr>"

definition new_channel :: "channels \<Rightarrow> nat \<times> channels" where
  "new_channel c = (next_channel c, c\<lparr>next_channel := Suc (next_channel c)\<rparr>)"

definition send_on :: "nat \<Rightarrow> string \<Rightarrow> channels \<Rightarrow> channels" where
  "send_on ch p c = c\<lparr>posted := (posted c)(ch \<mapsto> p)\<rparr>"

definition clone_handle :: "nat \<Rightarrow> channels \<Rightarrow> channels" where
  "clone_handle ch c = c\<lparr>handles := (handles c)(ch := Suc (handles c ch))\<rparr>"

definition drop_handle :: "nat \<Rightarrow> channels \<Rightarrow> channels" where
  "drop_handle ch c = c\<lparr>handles := (handles c)(ch := handles c ch - 1)\<rparr>"

record v1_entry =
  v1_payload :: "string option"
  v1_channel :: nat

record mailboxes =
  capacity :: nat
  persistent_storage :: disk
  pending_v1 :: "(short_id \<times> v1_entry) list"
  pending_v2 :: "(short_id \<times> nat) list"
  insert_order :: "(nat \<times> short_id) list"
  ttl :: nat
  channels_v1 :: channels
  channels_v2 :: channels

datatype mail_error = OverCapacity | AlreadyRead | V1SenderUnavailable | IO io_error

datatype db_error =
  Operational io_error | Timeout | DbOverCapacity | DbAlreadyRead | DbV1SenderUnavailable

fun db_error_from :: "mail_error \<Rightarrow> db_error" where
  "db_error_from V1SenderUnavailable = DbV1SenderUnavailable"
| "db_error_from OverCapacity = DbOverCapacity"
| "db_error_from AlreadyRead = DbAlreadyRead"
| "db_error_from (IO e) = Operational e"

definition default_capacity :: nat where "default_capacity = 2 ^ 21"

definition mailboxes_init :: "wire_api \<Rightarrow> disk \<Rightarrow> (string \<times> nat) list \<Rightarrow> nat \<Rightarrow> mailboxes" where
  "mailboxes_init W storage dir_entries t =
     \<lparr>capacity = default_capacity, persistent_storage = storage, pending_v1 = [], pending_v2 = [],
      insert_order = disk_insert_order W dir_entries, ttl = t,
      channels_v1 = no_channels, channels_v2 = no_channels\<rparr>"

section \<open>Pruning and capacity\<close>

fun prune_loop ::
  "faults \<Rightarrow> nat \<Rightarrow> nat \<Rightarrow> (nat \<times> short_id) list \<Rightarrow> disk \<Rightarrow> (unit, io_error) res \<times> (nat \<times> short_id) list \<times> disk" where
  "prune_loop F t now [] d = (Ok (), [], d)"
| "prune_loop F t now ((created, i) # rest) d =
     (if created + t < now
      then (case disk_remove F i d of
              (Ok _, d') \<Rightarrow> prune_loop F t now rest d'
            | (Err e, d') \<Rightarrow> (Err e, rest, d')
            | (Panic, d') \<Rightarrow> (Panic, rest, d'))
      else (Ok (), (created, i) # rest, d))"

text \<open>The time an entry has been there is negative when the clock was set back: a panic.\<close>

definition next_prune :: "nat \<Rightarrow> mailboxes \<Rightarrow> (nat, 'e) res" where
  "next_prune now m =
     (case insert_order m of
        [] \<Rightarrow> Ok (ttl m)
      | (created, i) # _ \<Rightarrow>
          if now < created then Panic
          else Ok (if now - created \<le> ttl m then ttl m - (now - created) else ttl m))"

definition retain_v2 :: "mailboxes \<Rightarrow> mailboxes" where
  "retain_v2 m = m\<lparr>pending_v2 := filter (\<lambda>(i, ch). 1 < 1 + handles (channels_v2 m) ch) (pending_v2 m)\<rparr>"

definition prune :: "faults \<Rightarrow> nat \<Rightarrow> mailboxes \<Rightarrow> (nat, io_error) res \<times> mailboxes" where
  "prune F now m =
     (let (r, order, d) = prune_loop F (ttl m) now (insert_order m) (persistent_storage m);
          m' = (retain_v2 m)\<lparr>insert_order := order, persistent_storage := d\<rparr>
      in (rbind r (\<lambda>_. next_prune now m'), m'))"

definition mailboxes_len :: "mailboxes \<Rightarrow> nat" where
  "mailboxes_len m = length (insert_order m) + length (pending_v1 m) + length (pending_v2 m)"

definition has_capacity :: "faults \<Rightarrow> nat \<Rightarrow> mailboxes \<Rightarrow> (bool, io_error) res \<times> mailboxes" where
  "has_capacity F now m =
     (let (r, m') = prune F now m in (rmap (\<lambda>_. mailboxes_len m' < capacity m') r, m'))"

text \<open>The first statement of every operation that adds an entry.\<close>

definition if_capacity ::
  "faults \<Rightarrow> nat \<Rightarrow> (mailboxes \<Rightarrow> ('a, mail_error) res \<times> mailboxes) \<Rightarrow> mailboxes \<Rightarrow> ('a, mail_error) res \<times> mailboxes" where
  "if_capacity F now f m =
     (case has_capacity F now m of
        (Ok True, m') \<Rightarrow> f m'
      | (Ok False, m') \<Rightarrow> (Err OverCapacity, m')
      | (Err e, m') \<Rightarrow> (Err (IO e), m')
      | (Panic, m') \<Rightarrow> (Panic, m'))"

section \<open>Reading and waiting\<close>

definition take_payload :: "short_id \<Rightarrow> mailboxes \<Rightarrow> mailboxes" where
  "take_payload i m =
     m\<lparr>pending_v1 := map (\<lambda>(j, e). (j, if j = i then e\<lparr>v1_payload := None\<rparr> else e)) (pending_v1 m)\<rparr>"

definition read_mailbox :: "faults \<Rightarrow> short_id \<Rightarrow> mailboxes \<Rightarrow> (string option, io_error) res \<times> mailboxes" where
  "read_mailbox F i m =
     (case map_option v1_payload (map_of (pending_v1 m) i) of
        Some (Some p) \<Rightarrow> (Ok (Some p), take_payload i m)
      | _ \<Rightarrow> (rmap (map_option snd) (disk_get F (persistent_storage m) i), m))"

text \<open>The receiver of the entry of an identifier, which is created if there is none.\<close>

definition v2_receiver :: "short_id \<Rightarrow> mailboxes \<Rightarrow> nat \<times> mailboxes" where
  "v2_receiver i m =
     (case map_of (pending_v2 m) i of
        Some ch \<Rightarrow> (ch, m\<lparr>channels_v2 := clone_handle ch (channels_v2 m)\<rparr>)
      | None \<Rightarrow> (let (ch, c) = new_channel (channels_v2 m) in
          (ch, m\<lparr>pending_v2 := (i, ch) # pending_v2 m, channels_v2 := clone_handle ch c\<rparr>)))"

definition wait_v2 :: "faults \<Rightarrow> nat \<Rightarrow> short_id \<Rightarrow> mailboxes \<Rightarrow> (nat, mail_error) res \<times> mailboxes" where
  "wait_v2 F now i = if_capacity F now (\<lambda>m.
     (case map_of (pending_v1 m) i of
        Some e \<Rightarrow> (Err (if v1_payload e \<noteq> None then OverCapacity else AlreadyRead), m)
      | None \<Rightarrow> (let (ch, m') = v2_receiver i m in (Ok ch, m'))))"

definition maybe_cleanup_v2_waitmap :: "short_id \<Rightarrow> mailboxes \<Rightarrow> mailboxes" where
  "maybe_cleanup_v2_waitmap i m =
     (case map_of (pending_v2 m) i of
        Some ch \<Rightarrow> if 1 + handles (channels_v2 m) ch \<le> 1
                   then m\<lparr>pending_v2 := AList.delete i (pending_v2 m)\<rparr> else m
      | None \<Rightarrow> m)"

section \<open>Posting\<close>

text \<open>Sending cannot fail here: the entry that was removed still holds a receiver.\<close>

definition notify_v2 :: "short_id \<Rightarrow> string \<Rightarrow> mailboxes \<Rightarrow> mailboxes" where
  "notify_v2 i p m =
     (case map_of (pending_v2 m) i of
        Some ch \<Rightarrow> m\<lparr>pending_v2 := AList.delete i (pending_v2 m), channels_v2 := send_on ch p (channels_v2 m)\<rparr>
      | None \<Rightarrow> m)"

definition post_v2 ::
  "faults \<Rightarrow> nat \<Rightarrow> short_id \<Rightarrow> string \<Rightarrow> mailboxes \<Rightarrow> (unit option, mail_error) res \<times> mailboxes" where
  "post_v2 F now i p = if_capacity F now (\<lambda>m.
     (case try_insert F now i p (persistent_storage m) of
        (Ok (Some created), d) \<Rightarrow>
          (Ok (Some ()), notify_v2 i p (m\<lparr>persistent_storage := d, insert_order := insert_order m @ [(created, i)]\<rparr>))
      | (Ok None, d) \<Rightarrow> (Ok None, m\<lparr>persistent_storage := d\<rparr>)
      | (Err e, d) \<Rightarrow> (Err (IO e), m\<lparr>persistent_storage := d\<rparr>)
      | (Panic, d) \<Rightarrow> (Panic, m\<lparr>persistent_storage := d\<rparr>)))"

text \<open>A request in flight is not overwritten.\<close>

definition v1_insert :: "short_id \<Rightarrow> string \<Rightarrow> mailboxes \<Rightarrow> nat option \<times> mailboxes" where
  "v1_insert i p m =
     (case map_of (pending_v1 m) i of
        Some _ \<Rightarrow> (None, m)
      | None \<Rightarrow> (let (ch, c) = new_channel (channels_v1 m) in
          (Some ch, m\<lparr>pending_v1 := (i, \<lparr>v1_payload = Some p, v1_channel = ch\<rparr>) # pending_v1 m,
                      channels_v1 := clone_handle ch c\<rparr>)))"

definition post_v1_req_and_wait ::
  "faults \<Rightarrow> nat \<Rightarrow> short_id \<Rightarrow> string \<Rightarrow> mailboxes \<Rightarrow> (nat option, mail_error) res \<times> mailboxes" where
  "post_v1_req_and_wait F now i p = if_capacity F now (\<lambda>m.
     (let (ret, m1) = v1_insert i p m in
      (Ok ret, if map_of (pending_v2 m1) i = None then m1 else take_payload i (notify_v2 i p m1))))"

definition post_v1_res :: "short_id \<Rightarrow> string \<Rightarrow> mailboxes \<Rightarrow> (unit, mail_error) res \<times> mailboxes" where
  "post_v1_res i p m =
     (case map_of (pending_v1 m) i of
        None \<Rightarrow> (Err V1SenderUnavailable, m)
      | Some e \<Rightarrow>
          (let m' = m\<lparr>pending_v1 := AList.delete i (pending_v1 m)\<rparr> in
           if handles (channels_v1 m) (v1_channel e) = 0 then (Err V1SenderUnavailable, m')
           else (Ok (), m'\<lparr>channels_v1 := send_on (v1_channel e) p (channels_v1 m)\<rparr>)))"

definition forget_v1 :: "short_id \<Rightarrow> mailboxes \<Rightarrow> mailboxes" where
  "forget_v1 i m = m\<lparr>pending_v1 := AList.delete i (pending_v1 m)\<rparr>"

section \<open>The database\<close>

text \<open>
  A reader first looks into the mailbox and otherwise waits, under one lock. Awaiting its receiver
  ends with the payload, with the timeout, or, when the sender of the channel is gone, with a panic.
\<close>

definition read_or_wait :: "faults \<Rightarrow> nat \<Rightarrow> short_id \<Rightarrow> mailboxes \<Rightarrow> (string + nat, db_error) res \<times> mailboxes" where
  "read_or_wait F now i m =
     (case read_mailbox F i m of
        (Ok (Some p), m') \<Rightarrow> (Ok (Inl p), m')
      | (Ok None, m') \<Rightarrow> (let (r, m'') = wait_v2 F now i m' in (map_err db_error_from (rmap Inr r), m''))
      | (Err e, m') \<Rightarrow> (Err (Operational e), m')
      | (Panic, m') \<Rightarrow> (Panic, m'))"

definition await :: "channels \<Rightarrow> nat set \<Rightarrow> nat \<Rightarrow> (string, db_error) res" where
  "await c senders ch =
     (case posted c ch of Some p \<Rightarrow> Ok p | None \<Rightarrow> if ch \<in> senders then Err Timeout else Panic)"

definition senders_v1 :: "mailboxes \<Rightarrow> nat set" where
  "senders_v1 m = set (map (v1_channel \<circ> snd) (pending_v1 m))"

definition senders_v2 :: "mailboxes \<Rightarrow> nat set" where
  "senders_v2 m = set (map snd (pending_v2 m))"

definition await_v2 :: "nat \<Rightarrow> mailboxes \<Rightarrow> (string, db_error) res \<times> mailboxes" where
  "await_v2 ch m = (await (channels_v2 m) (senders_v2 m) ch, m\<lparr>channels_v2 := drop_handle ch (channels_v2 m)\<rparr>)"

definition await_v1 :: "nat \<Rightarrow> mailboxes \<Rightarrow> (string, db_error) res \<times> mailboxes" where
  "await_v1 ch m = (await (channels_v1 m) (senders_v1 m) ch, m\<lparr>channels_v1 := drop_handle ch (channels_v1 m)\<rparr>)"

text \<open>
  The methods of the trait \<open>Db\<close>. While a task waits, and again before it takes the lock to clean up,
  other tasks change the mailboxes: \<open>others\<close> and \<open>others'\<close>.
\<close>

definition post_v2_payload ::
  "faults \<Rightarrow> nat \<Rightarrow> short_id \<Rightarrow> string \<Rightarrow> mailboxes \<Rightarrow> (unit option, db_error) res \<times> mailboxes" where
  "post_v2_payload F now i p m = (let (r, m') = post_v2 F now i p m in (map_err db_error_from r, m'))"

definition wait_for_v2_payload ::
  "faults \<Rightarrow> nat \<Rightarrow> (mailboxes \<Rightarrow> mailboxes) \<Rightarrow> (mailboxes \<Rightarrow> mailboxes) \<Rightarrow> short_id \<Rightarrow> mailboxes \<Rightarrow>
     (string, db_error) res \<times> mailboxes" where
  "wait_for_v2_payload F now others others' i m =
     (case read_or_wait F now i m of
        (Ok (Inl p), m1) \<Rightarrow> (Ok p, m1)
      | (Ok (Inr ch), m1) \<Rightarrow>
          (let (r, m2) = await_v2 ch (others m1) in
           (r, if r = Panic then m2 else maybe_cleanup_v2_waitmap i (others' m2)))
      | (Err e, m1) \<Rightarrow> (Err e, m1)
      | (Panic, m1) \<Rightarrow> (Panic, m1))"

definition post_v1_request_and_wait_for_response ::
  "faults \<Rightarrow> nat \<Rightarrow> (mailboxes \<Rightarrow> mailboxes) \<Rightarrow> (mailboxes \<Rightarrow> mailboxes) \<Rightarrow> short_id \<Rightarrow> string \<Rightarrow> mailboxes \<Rightarrow>
     (string, db_error) res \<times> mailboxes" where
  "post_v1_request_and_wait_for_response F now others others' i p m =
     (case post_v1_req_and_wait F now i p m of
        (Ok None, m1) \<Rightarrow> (Err DbOverCapacity, m1)
      | (Ok (Some ch), m1) \<Rightarrow>
          (let (r, m2) = await_v1 ch (others m1) in
           (r, if r = Panic then m2 else forget_v1 i (others' m2)))
      | (Err e, m1) \<Rightarrow> (Err (db_error_from e), m1)
      | (Panic, m1) \<Rightarrow> (Panic, m1))"

definition post_v1_response :: "short_id \<Rightarrow> string \<Rightarrow> mailboxes \<Rightarrow> (unit, db_error) res \<times> mailboxes" where
  "post_v1_response i p m = (let (r, m') = post_v1_res i p m in (map_err db_error_from r, m'))"

end
