(* ===== verification/PJ_Mailbox_Run.thy ===== *)
theory PJ_Mailbox_Run
  imports PJ_Mailbox
begin

text \<open>
  Runs of the mailboxes: any interleaving of the sections that tasks execute under the mutex, with
  any times and faults, and the invariant that every run keeps.
\<close>

section \<open>Runs\<close>

datatype mail_op =
  OpPostV2 short_id string | OpRead short_id | OpWakeV2 nat | OpCleanupV2 short_id
| OpPostV1Request short_id string | OpWakeV1 nat | OpForgetV1 short_id | OpPostV1Response short_id string
| OpPrune

datatype mail_answer = Stored bool | Payload string | Waiting nat | Refused db_error | Done | Crash

definition answer :: "('a \<Rightarrow> mail_answer) \<Rightarrow> ('a, db_error) res \<Rightarrow> mail_answer" where
  "answer f r = (case r of Ok a \<Rightarrow> f a | Err e \<Rightarrow> Refused e | Panic \<Rightarrow> Crash)"

fun mail_step :: "faults \<Rightarrow> nat \<Rightarrow> mail_op \<Rightarrow> mailboxes \<Rightarrow> mail_answer \<times> mailboxes" where
  "mail_step F now (OpPostV2 i p) m =
     (let (r, m') = post_v2_payload F now i p m in (answer (\<lambda>x. Stored (x \<noteq> None)) r, m'))"
| "mail_step F now (OpRead i) m =
     (let (r, m') = read_or_wait F now i m in
      (answer (\<lambda>x. case x of Inl p \<Rightarrow> Payload p | Inr ch \<Rightarrow> Waiting ch) r, m'))"
| "mail_step F now (OpWakeV2 ch) m = (let (r, m') = await_v2 ch m in (answer Payload r, m'))"
| "mail_step F now (OpCleanupV2 i) m = (Done, maybe_cleanup_v2_waitmap i m)"
| "mail_step F now (OpPostV1Request i p) m =
     (let (r, m') = post_v1_req_and_wait F now i p m in
      (answer (\<lambda>x. case x of None \<Rightarrow> Refused DbOverCapacity | Some ch \<Rightarrow> Waiting ch) (map_err db_error_from r), m'))"
| "mail_step F now (OpWakeV1 ch) m = (let (r, m') = await_v1 ch m in (answer Payload r, m'))"
| "mail_step F now (OpForgetV1 i) m = (Done, forget_v1 i m)"
| "mail_step F now (OpPostV1Response i p) m = (let (r, m') = post_v1_response i p m in (answer (\<lambda>_. Done) r, m'))"
| "mail_step F now OpPrune m = (let (r, m') = prune F now m in (answer (\<lambda>_. Done) (map_err Operational r), m'))"

text \<open>Only a task that holds a receiver wakes up on it.\<close>

fun enabled :: "mailboxes \<Rightarrow> mail_op \<Rightarrow> bool" where
  "enabled m (OpWakeV2 ch) \<longleftrightarrow> 0 < handles (channels_v2 m) ch"
| "enabled m (OpWakeV1 ch) \<longleftrightarrow> 0 < handles (channels_v1 m) ch"
| "enabled m _ \<longleftrightarrow> True"

inductive mail_exec :: "faults set \<Rightarrow> mailboxes \<Rightarrow> (nat \<times> mail_op \<times> mail_answer) list \<Rightarrow> mailboxes \<Rightarrow> bool"
  for Fs :: "faults set" and m0 :: mailboxes where
  exec_start: "mail_exec Fs m0 [] m0"
| exec_step: "mail_exec Fs m0 tr m \<Longrightarrow> F \<in> Fs \<Longrightarrow> enabled m op \<Longrightarrow> mail_step F now op m = (a, m') \<Longrightarrow>
    mail_exec Fs m0 (tr @ [(now, op, a)]) m'"

inductive_cases mail_exec_snocE: "mail_exec Fs m0 (tr @ [x]) m"

section \<open>How the operations decompose\<close>

lemma prune_loop_suffix:
  "prune_loop F t now q d = (r, q', d') \<Longrightarrow> \<exists>pre. q = pre @ q' \<and> (\<forall>(c, i)\<in>set pre. c + t < now)"
proof (induction q arbitrary: d)
  case (Cons x q)
  obtain c i where x: "x = (c, i)" by (cases x)
  show ?case
  proof (cases "c + t < now")
    case True
    obtain r1 d1 where rm: "disk_remove F i d = (r1, d1)" by (cases "disk_remove F i d")
    show ?thesis
    proof (cases r1)
      case (Ok u)
      with Cons.prems x True rm have "prune_loop F t now q d1 = (r, q', d')" by simp
      from Cons.IH [OF this] obtain pre where "q = pre @ q'" "\<forall>(c, i)\<in>set pre. c + t < now" by blast
      then show ?thesis using x True by (intro exI [of _ "x # pre"]) simp
    next
      case (Err e)
      with Cons.prems x True rm show ?thesis by (intro exI [of _ "[x]"]) simp
    next
      case Panic
      with Cons.prems x True rm show ?thesis by (intro exI [of _ "[x]"]) simp
    qed
  next
    case False
    with Cons.prems x show ?thesis by (intro exI [of _ "[]"]) simp
  qed
qed simp

text \<open>What pruning does to everything but the files.\<close>

lemma prune_fields:
  "\<exists>pre. insert_order m = pre @ insert_order (snd (prune F now m)) \<and> (\<forall>(c, i)\<in>set pre. c + ttl m < now)"
  "pending_v1 (snd (prune F now m)) = pending_v1 m"
  "pending_v2 (snd (prune F now m)) = filter (\<lambda>(i, ch). 0 < handles (channels_v2 m) ch) (pending_v2 m)"
  "capacity (snd (prune F now m)) = capacity m" "ttl (snd (prune F now m)) = ttl m"
  "channels_v1 (snd (prune F now m)) = channels_v1 m" "channels_v2 (snd (prune F now m)) = channels_v2 m"
proof -
  obtain r q d where l: "prune_loop F (ttl m) now (insert_order m) (persistent_storage m) = (r, q, d)"
    by (metis prod.exhaust)
  show "\<exists>pre. insert_order m = pre @ insert_order (snd (prune F now m)) \<and> (\<forall>(c, i)\<in>set pre. c + ttl m < now)"
    using prune_loop_suffix [OF l] by (simp add: prune_def l Let_def)
qed (simp_all add: prune_def retain_v2_def Let_def split: prod.split)

lemma prune_len: "mailboxes_len (snd (prune F now m)) \<le> mailboxes_len m"
proof -
  from prune_fields(1) [of m F now] have "length (insert_order (snd (prune F now m))) \<le> length (insert_order m)"
    by (metis length_append le_add2)
  then show ?thesis by (simp add: mailboxes_len_def prune_fields(2,3) add_mono)
qed

text \<open>An operation that needs capacity prunes first, and goes on only if there is room.\<close>

lemma if_capacity_cases:
  obtains (refused) "snd (if_capacity F now f m) = snd (prune F now m)"
      "\<And>a. fst (if_capacity F now f m) \<noteq> Ok a"
  | (admitted) "if_capacity F now f m = f (snd (prune F now m))"
      "mailboxes_len (snd (prune F now m)) < capacity m"
proof -
  obtain r m' where p: "prune F now m = (r, m')" by (cases "prune F now m")
  have c: "capacity m' = capacity m" using prune_fields(4) [where F = F and now = now and m = m] by (simp add: p)
  show thesis
  proof (cases "r = Panic \<or> (\<exists>e. r = Err e) \<or> \<not> mailboxes_len m' < capacity m'")
    case True
    then show thesis by (intro refused) (cases r; auto simp: if_capacity_def has_capacity_def p split: bool.splits)+
  next
    case False
    then have "if_capacity F now f m = f m'"
      by (cases r) (auto simp: if_capacity_def has_capacity_def p split: bool.splits)
    then show thesis using False by (intro admitted) (simp_all add: p c)
  qed
qed

lemma if_capacity_Ok:
  assumes "if_capacity F now f m = (Ok a, m')"
  shows "f (snd (prune F now m)) = (Ok a, m') \<and> mailboxes_len (snd (prune F now m)) < capacity m"
  using assms by (cases rule: if_capacity_cases [of F now f m]) auto

lemma read_or_wait_state:
  "snd (read_or_wait F now i m) =
     (if fst (read_mailbox F i m) = Ok None then snd (wait_v2 F now i (snd (read_mailbox F i m))) else snd (read_mailbox F i m))"
  by (simp add: read_or_wait_def Let_def case_prod_unfold split: prod.split res.split option.split)

section \<open>The invariant\<close>

text \<open>A channel whose sender is alive was created and has nothing on it yet; numbers not given out are unused.\<close>

definition channels_ok :: "channels \<Rightarrow> nat set \<Rightarrow> bool" where
  "channels_ok c live \<longleftrightarrow>
     (\<forall>ch\<in>live. ch < next_channel c \<and> posted c ch = None) \<and>
     (\<forall>ch. next_channel c \<le> ch \<longrightarrow> handles c ch = 0 \<and> posted c ch = None)"

text \<open>
  No mailbox has both a version 1 sender and version 2 readers pending, every pending entry has a
  channel of its own, and a receiver that a task holds has a sender or a payload.
\<close>

definition mailboxes_ok :: "mailboxes \<Rightarrow> bool" where
  "mailboxes_ok m \<longleftrightarrow>
     distinct (map fst (pending_v1 m)) \<and> distinct (map fst (pending_v2 m)) \<and>
     fst ` set (pending_v1 m) \<inter> fst ` set (pending_v2 m) = {} \<and>
     distinct (map (v1_channel \<circ> snd) (pending_v1 m)) \<and> distinct (map snd (pending_v2 m)) \<and>
     channels_ok (channels_v1 m) (senders_v1 m) \<and> channels_ok (channels_v2 m) (senders_v2 m) \<and>
     (\<forall>ch. 0 < handles (channels_v2 m) ch \<longrightarrow> ch \<in> senders_v2 m \<or> posted (channels_v2 m) ch \<noteq> None)"

lemmas channel_defs = channels_ok_def new_channel_def send_on_def clone_handle_def drop_handle_def

lemma mailboxes_ok_storage [simp]:
  "mailboxes_ok (m\<lparr>persistent_storage := d\<rparr>) = mailboxes_ok m" "mailboxes_ok (m\<lparr>insert_order := q\<rparr>) = mailboxes_ok m"
  by (simp_all add: mailboxes_ok_def senders_v1_def senders_v2_def)

lemma map_of_None_iff: "map_of al i = None \<longleftrightarrow> i \<notin> fst ` set al"
  by (metis map_of_eq_None_iff)

lemma ok_filter_v2:
  assumes "mailboxes_ok m" and "\<And>i ch. (i, ch) \<in> set (pending_v2 m) \<Longrightarrow> \<not> P (i, ch) \<Longrightarrow> handles (channels_v2 m) ch = 0"
  shows "mailboxes_ok (m\<lparr>pending_v2 := filter P (pending_v2 m)\<rparr>)"
proof -
  let ?m = "m\<lparr>pending_v2 := filter P (pending_v2 m)\<rparr>"
  have "ch \<in> senders_v2 ?m \<or> posted (channels_v2 m) ch \<noteq> None" if "0 < handles (channels_v2 m) ch" for ch
  proof -
    from assms(1) that have "ch \<in> senders_v2 m \<or> posted (channels_v2 m) ch \<noteq> None" by (simp add: mailboxes_ok_def)
    then show ?thesis using that assms(2) by (force simp: senders_v2_def)
  qed
  moreover have "senders_v2 ?m \<subseteq> senders_v2 m" "senders_v1 ?m = senders_v1 m" by (auto simp: senders_v2_def senders_v1_def)
  moreover have "fst ` set (filter P (pending_v2 m)) \<subseteq> fst ` set (pending_v2 m)" by auto
  ultimately show ?thesis using assms(1) unfolding mailboxes_ok_def
    by (simp add: distinct_map_filter channels_ok_def) blast
qed

lemma ok_prune: "mailboxes_ok m \<Longrightarrow> mailboxes_ok (snd (prune F now m))"
proof -
  assume ok: "mailboxes_ok m"
  have "mailboxes_ok (retain_v2 m)" unfolding retain_v2_def by (rule ok_filter_v2 [OF ok]) simp
  then show ?thesis by (simp add: prune_def Let_def split: prod.split)
qed

lemma ok_cleanup: "mailboxes_ok m \<Longrightarrow> mailboxes_ok (maybe_cleanup_v2_waitmap i m)"
proof -
  assume ok: "mailboxes_ok m"
  show ?thesis
  proof (cases "map_of (pending_v2 m) i")
    case (Some ch)
    have "mailboxes_ok (m\<lparr>pending_v2 := AList.delete i (pending_v2 m)\<rparr>)" if "handles (channels_v2 m) ch = 0"
      unfolding AList.delete_eq
    proof (rule ok_filter_v2 [OF ok])
      fix j ch' assume "(j, ch') \<in> set (pending_v2 m)" "\<not> (case (j, ch') of (k, uu) \<Rightarrow> i \<noteq> k)"
      then have "map_of (pending_v2 m) i = Some ch'" using ok by (auto simp: mailboxes_ok_def)
      then show "handles (channels_v2 m) ch' = 0" using Some that by simp
    qed
    with ok show ?thesis by (simp add: maybe_cleanup_v2_waitmap_def Some)
  qed (simp add: maybe_cleanup_v2_waitmap_def ok)
qed

lemma take_payload_fields [simp]:
  "map fst (pending_v1 (take_payload i m)) = map fst (pending_v1 m)"
  "map (v1_channel \<circ> snd) (pending_v1 (take_payload i m)) = map (v1_channel \<circ> snd) (pending_v1 m)"
  "pending_v2 (take_payload i m) = pending_v2 m" "channels_v1 (take_payload i m) = channels_v1 m"
  "channels_v2 (take_payload i m) = channels_v2 m" "insert_order (take_payload i m) = insert_order m"
  "persistent_storage (take_payload i m) = persistent_storage m" "capacity (take_payload i m) = capacity m"
  "ttl (take_payload i m) = ttl m" "senders_v2 (take_payload i m) = senders_v2 m"
  by (auto simp: take_payload_def senders_v2_def)

lemma take_payload_senders [simp]: "senders_v1 (take_payload i m) = senders_v1 m"
  unfolding senders_v1_def by (simp only: take_payload_fields(2))

lemma take_payload_keys [simp]: "fst ` set (pending_v1 (take_payload i m)) = fst ` set (pending_v1 m)"
  by (metis list.set_map take_payload_fields(1))

lemma ok_take: "mailboxes_ok m \<Longrightarrow> mailboxes_ok (take_payload i m)"
  unfolding mailboxes_ok_def by simp

lemma notify_senders:
  assumes "mailboxes_ok m" and "map_of (pending_v2 m) i = Some ch"
  shows "senders_v2 (notify_v2 i p m) = senders_v2 m - {ch}"
proof -
  have d: "distinct (map snd (pending_v2 m))" "distinct (map fst (pending_v2 m))"
    using assms(1) by (simp_all add: mailboxes_ok_def)
  have i: "(i, ch) \<in> set (pending_v2 m)" using assms(2) by (rule map_of_SomeD)
  have "(j, c) \<in> set (pending_v2 m) \<Longrightarrow> c = ch \<longleftrightarrow> j = i" for j c
    using i d by (metis distinct_map eq_key_imp_eq_value inj_onD prod.inject snd_conv)
  then show ?thesis using i by (force simp: senders_v2_def notify_v2_def assms(2) AList.delete_eq)
qed

lemma ok_notify: "mailboxes_ok m \<Longrightarrow> mailboxes_ok (notify_v2 i p m)"
proof -
  assume ok: "mailboxes_ok m"
  show ?thesis
  proof (cases "map_of (pending_v2 m) i")
    case (Some ch)
    note s = notify_senders [OF ok Some, of p]
    have "ch \<in> senders_v2 m" using map_of_SomeD [OF Some] by (force simp: senders_v2_def)
    then have "ch < next_channel (channels_v2 m)" using ok by (simp add: mailboxes_ok_def channels_ok_def)
    with ok s show ?thesis unfolding mailboxes_ok_def s
      by (auto simp: notify_v2_def Some AList.delete_eq distinct_map_filter channel_defs senders_v1_def)
  qed (simp add: notify_v2_def ok)
qed

lemma ok_delete_v1:
  assumes "mailboxes_ok m" shows "mailboxes_ok (forget_v1 i m)"
  using assms by (auto simp: mailboxes_ok_def forget_v1_def AList.delete_eq distinct_map_filter channels_ok_def senders_v1_def
      senders_v2_def)

lemma ok_if_capacity:
  assumes "mailboxes_ok m" and "\<And>m'. mailboxes_ok m' \<Longrightarrow> mailboxes_ok (snd (f m'))"
  shows "mailboxes_ok (snd (if_capacity F now f m))"
  by (cases rule: if_capacity_cases [of F now f m]) (simp_all add: assms ok_prune)

lemma ok_post_v2: "mailboxes_ok m \<Longrightarrow> mailboxes_ok (snd (post_v2 F now i p m))"
  unfolding post_v2_def by (erule ok_if_capacity) (auto split: prod.splits res.splits option.splits intro!: ok_notify)

lemma ok_read: "mailboxes_ok m \<Longrightarrow> mailboxes_ok (snd (read_mailbox F i m))"
  by (simp add: read_mailbox_def ok_take split: option.splits)

lemma ok_v2_receiver:
  assumes ok: "mailboxes_ok m" and v1: "map_of (pending_v1 m) i = None"
  shows "mailboxes_ok (snd (v2_receiver i m))"
proof (cases "map_of (pending_v2 m) i")
  case None
  let ?n = "next_channel (channels_v2 m)"
  have "?n \<notin> senders_v2 m" using ok by (auto simp: mailboxes_ok_def channels_ok_def)
  moreover have "i \<notin> fst ` set (pending_v1 m)" "i \<notin> fst ` set (pending_v2 m)"
    using v1 None by (simp_all add: map_of_None_iff)
  moreover have "snd (v2_receiver i m) = m\<lparr>pending_v2 := (i, ?n) # pending_v2 m,
      channels_v2 := clone_handle ?n ((channels_v2 m)\<lparr>next_channel := Suc ?n\<rparr>)\<rparr>"
    by (simp add: v2_receiver_def None new_channel_def)
  ultimately show ?thesis using ok
    by (auto simp: mailboxes_ok_def channel_defs senders_v2_def senders_v1_def less_Suc_eq)
next
  case (Some ch)
  then have "ch \<in> senders_v2 m" by (force simp: senders_v2_def dest: map_of_SomeD)
  with ok have "ch < next_channel (channels_v2 m)" "ch \<in> senders_v2 m" by (simp_all add: mailboxes_ok_def channels_ok_def)
  with Some ok show ?thesis
    by (auto simp: v2_receiver_def mailboxes_ok_def channel_defs senders_v2_def senders_v1_def)
qed

lemma ok_wait_v2: "mailboxes_ok m \<Longrightarrow> mailboxes_ok (snd (wait_v2 F now i m))"
  unfolding wait_v2_def by (erule ok_if_capacity) (simp add: ok_v2_receiver case_prod_unfold Let_def split: option.splits)

text \<open>A version 1 sender and the readers of its mailbox never stay together.\<close>

lemma ok_v1_insert:
  assumes ok: "mailboxes_ok m" and v2: "map_of (pending_v2 m) i = None"
  shows "mailboxes_ok (snd (v1_insert i p m))"
proof (cases "map_of (pending_v1 m) i")
  case None
  let ?n = "next_channel (channels_v1 m)"
  have "?n \<notin> senders_v1 m" using ok by (auto simp: mailboxes_ok_def channels_ok_def)
  moreover have "i \<notin> fst ` set (pending_v1 m)" "i \<notin> fst ` set (pending_v2 m)"
    using v2 None by (simp_all add: map_of_None_iff)
  moreover have "snd (v1_insert i p m) = m\<lparr>pending_v1 := (i, \<lparr>v1_payload = Some p, v1_channel = ?n\<rparr>) # pending_v1 m,
      channels_v1 := clone_handle ?n ((channels_v1 m)\<lparr>next_channel := Suc ?n\<rparr>)\<rparr>"
    by (simp add: v1_insert_def None new_channel_def)
  ultimately show ?thesis using ok
    by (auto simp: mailboxes_ok_def channel_defs senders_v2_def senders_v1_def less_Suc_eq)
qed (simp add: v1_insert_def ok)

lemma notify_v1_insert: "notify_v2 i p (snd (v1_insert i p m)) = snd (v1_insert i p (notify_v2 i p m))"
  by (auto simp: notify_v2_def v1_insert_def new_channel_def split: option.splits)

lemma notify_removes: "map_of (pending_v2 (notify_v2 i p m)) i = None"
  by (auto simp: notify_v2_def AList.delete_conv' split: option.splits)

lemma v1_insert_keeps_v2 [simp]:
  "pending_v2 (snd (v1_insert i p m)) = pending_v2 m" "channels_v2 (snd (v1_insert i p m)) = channels_v2 m"
  by (simp_all add: v1_insert_def new_channel_def split: option.split)

lemma ok_post_v1_req: "mailboxes_ok m \<Longrightarrow> mailboxes_ok (snd (post_v1_req_and_wait F now i p m))"
  unfolding post_v1_req_and_wait_def
proof (erule ok_if_capacity)
  fix m assume ok: "mailboxes_ok m"
  have "mailboxes_ok (take_payload i (notify_v2 i p (snd (v1_insert i p m))))"
    unfolding notify_v1_insert by (intro ok_take ok_v1_insert ok_notify ok notify_removes)
  with ok_v1_insert [OF ok]
  show "mailboxes_ok (snd (let (ret, m1) = v1_insert i p m in
      (Ok ret, if map_of (pending_v2 m1) i = None then m1 else take_payload i (notify_v2 i p m1))))"
    by (simp add: case_prod_unfold Let_def)
qed

lemma ok_post_v1_res: "mailboxes_ok m \<Longrightarrow> mailboxes_ok (snd (post_v1_res i p m))"
proof -
  assume ok: "mailboxes_ok m"
  show ?thesis
  proof (cases "map_of (pending_v1 m) i")
    case (Some e)
    let ?m = "forget_v1 i m"
    have f: "mailboxes_ok ?m" by (rule ok_delete_v1 [OF ok])
    have e: "(i, e) \<in> set (pending_v1 m)" using Some by (rule map_of_SomeD)
    have "v1_channel e < next_channel (channels_v1 m)"
      using ok e by (auto simp: mailboxes_ok_def channels_ok_def senders_v1_def)
    moreover have "v1_channel e \<notin> senders_v1 ?m"
    proof
      assume "v1_channel e \<in> senders_v1 ?m"
      then obtain j e' where j: "(j, e') \<in> set (pending_v1 m)" "j \<noteq> i" "v1_channel e' = v1_channel e"
        by (auto simp: senders_v1_def forget_v1_def AList.delete_eq)
      have "distinct (map (v1_channel \<circ> snd) (pending_v1 m))" using ok by (simp add: mailboxes_ok_def)
      with e j show False by (metis comp_apply distinct_map inj_onD prod.inject snd_conv)
    qed
    ultimately have "mailboxes_ok (?m\<lparr>channels_v1 := send_on (v1_channel e) p (channels_v1 ?m)\<rparr>)"
      using f unfolding mailboxes_ok_def channels_ok_def
      by (auto simp: send_on_def forget_v1_def senders_v1_def senders_v2_def image_iff)
    with f show ?thesis by (simp add: post_v1_res_def Some Let_def forget_v1_def)
  qed (simp add: post_v1_res_def ok)
qed

lemma ok_await:
  assumes "mailboxes_ok m"
  shows "mailboxes_ok (snd (await_v2 ch m))" "mailboxes_ok (snd (await_v1 ch m))"
  using assms by (auto simp: mailboxes_ok_def await_v2_def await_v1_def channel_defs senders_v1_def senders_v2_def split: if_splits)

lemma ok_step: "mailboxes_ok m \<Longrightarrow> mailboxes_ok (snd (mail_step F now op m))"
proof (cases op)
  case (OpRead i)
  assume ok: "mailboxes_ok m"
  show ?thesis by (simp add: OpRead read_or_wait_state case_prod_unfold Let_def ok_read ok_wait_v2 ok)
qed (simp_all add: post_v2_payload_def post_v1_response_def case_prod_unfold Let_def ok_post_v2 ok_await ok_cleanup
      ok_post_v1_req ok_delete_v1 ok_post_v1_res ok_prune)

lemma ok_exec: "mail_exec Fs m0 tr m \<Longrightarrow> mailboxes_ok m0 \<Longrightarrow> mailboxes_ok m"
  by (induction rule: mail_exec.induct) (metis ok_step snd_conv)+

section \<open>Running the mailboxes\<close>

text \<open>A run with a working disk, computed; nothing when a task that holds no receiver would wake up.\<close>

fun mail_run :: "mailboxes \<Rightarrow> (nat \<times> mail_op) list \<Rightarrow> ((nat \<times> mail_op \<times> mail_answer) list \<times> mailboxes) option" where
  "mail_run m [] = Some ([], m)"
| "mail_run m ((now, op) # ops) =
     (if enabled m op
      then (let (a, m') = mail_step no_faults now op m in
            map_option (\<lambda>(tr, m''). ((now, op, a) # tr, m'')) (mail_run m' ops))
      else None)"

lemma mail_exec_ConsI:
  assumes "mail_exec Fs m1 tr m2" "F \<in> Fs" "enabled m op" "mail_step F now op m = (a, m1)"
  shows "mail_exec Fs m ((now, op, a) # tr) m2"
  using assms
proof (induction rule: mail_exec.induct)
  case exec_start
  then show ?case using mail_exec.exec_step [OF mail_exec.exec_start, of F Fs m op now a m1] by simp
next
  case (exec_step tr m' F' op' now' a' m'')
  then show ?case using mail_exec.exec_step [of Fs m "(now, op, a) # tr" m' F' op' now' a' m''] by simp
qed

lemma mail_run_exec: "mail_run m ops = Some (tr, m') \<Longrightarrow> mail_exec {no_faults} m tr m'"
proof (induction ops arbitrary: m tr)
  case (Cons x ops)
  obtain now op where x: "x = (now, op)" by (cases x)
  obtain a m1 where s: "mail_step no_faults now op m = (a, m1)" by force
  with Cons.prems x obtain tr1 where "enabled m op" "mail_run m1 ops = Some (tr1, m')" "tr = (now, op, a) # tr1"
    by (auto split: if_split_asm)
  with Cons.IH s show ?case by (simp add: mail_exec_ConsI [of _ m1])
qed (simp add: exec_start)

definition run_answers :: "mailboxes \<Rightarrow> (nat \<times> mail_op) list \<Rightarrow> mail_answer list option" where
  "run_answers m ops = map_option (map (snd \<circ> snd) \<circ> fst) (mail_run m ops)"

text \<open>An empty mail room whose mailboxes live for ten ticks.\<close>

definition empty_mail_room :: "wire_api \<Rightarrow> mailboxes" where
  "empty_mail_room W = mailboxes_init W (disk_init ''key'' None (\<lambda>_. None)) [] 10"

section \<open>What can go wrong\<close>

text \<open>
  Contents that are posted again are stored again in the queue, with the old creation time but at its
  end: when that entry is reached, whatever is in the mailbox by then goes. Here a message that was
  stored at time 12 is dropped at 16, though the mailbox lives for ten ticks.
\<close>

lemma reposted_mail_drops_later_mail:
  "run_answers (empty_mail_room W)
     [(0, OpPostV2 ''A'' ''x''), (5, OpPostV2 ''B'' ''y''), (6, OpPostV2 ''A'' ''x''), (11, OpPrune),
      (12, OpPostV2 ''A'' ''new''), (13, OpRead ''A''), (16, OpPrune), (17, OpRead ''A'')] =
   Some [Stored True, Stored True, Stored True, Done, Stored True, Payload ''new'', Done, Waiting 0]"
  by code_simp

text \<open>Posting the same contents again also counts against the capacity.\<close>

lemma repost_counts_twice:
  "map_option (mailboxes_len \<circ> snd) (mail_run (empty_mail_room W) [(0, OpPostV2 ''A'' ''x''), (1, OpPostV2 ''A'' ''x'')]) = Some 2"
  by code_simp

text \<open>
  A version 1 request whose task is dropped, as it is when the client disconnects, is never removed:
  no pruning looks at it, and further requests to the mailbox are refused.
\<close>

lemma abandoned_v1_request_stays:
  "run_answers (empty_mail_room W)
     [(0, OpPostV1Request ''A'' ''x''), (1, OpWakeV1 0), (1000, OpPrune), (1000, OpPostV1Request ''A'' ''y'')] =
   Some [Waiting 0, Refused Timeout, Done, Refused DbOverCapacity]"
  by code_simp

text \<open>
  The task of a version 1 request removes the entry of its mailbox after it woke up, also when by then
  it is the entry of a later request, whose own task then finds no sender and panics.
\<close>

lemma forgetting_v1_request_hits_next:
  "run_answers (empty_mail_room W)
     [(0, OpPostV1Request ''A'' ''x''), (1, OpPostV1Response ''A'' ''r''), (2, OpPostV1Request ''A'' ''y''),
      (3, OpWakeV1 0), (3, OpForgetV1 ''A''), (4, OpWakeV1 1)] =
   Some [Waiting 0, Done, Waiting 1, Payload ''r'', Done, Crash]"
  by code_simp

end
