(* ===== verification/PJ_Mailbox_Facts.thy ===== *)
theory PJ_Mailbox_Facts
  imports PJ_Mailbox_Run PJ_Wire_Facts
begin

text \<open>
  What runs of the mailboxes guarantee: the bound on entries, no reader that misses its payload,
  mailboxes as write-once registers that expire, and plaintext that is handed out once.
\<close>

section \<open>Bounded storage\<close>

lemma notify_len [simp]: "mailboxes_len (notify_v2 i p m) \<le> mailboxes_len m"
  by (auto simp: notify_v2_def mailboxes_len_def AList.length_delete_le split: option.split)

lemma take_len [simp]: "mailboxes_len (take_payload i m) = mailboxes_len m"
  by (simp add: mailboxes_len_def take_payload_def)

lemma receiver_len: "mailboxes_len (snd (v2_receiver i m)) \<le> Suc (mailboxes_len m)"
  by (simp add: v2_receiver_def mailboxes_len_def new_channel_def split: option.split)

lemma v1_insert_len: "mailboxes_len (snd (v1_insert i p m)) \<le> Suc (mailboxes_len m)"
  by (simp add: v1_insert_def mailboxes_len_def new_channel_def split: option.split)

lemma constant_fields [simp]:
  "capacity (notify_v2 i p m) = capacity m" "ttl (notify_v2 i p m) = ttl m"
  "capacity (snd (v2_receiver i m)) = capacity m" "ttl (snd (v2_receiver i m)) = ttl m"
  "capacity (snd (v1_insert i p m)) = capacity m" "ttl (snd (v1_insert i p m)) = ttl m"
  "capacity (maybe_cleanup_v2_waitmap i m) = capacity m" "ttl (maybe_cleanup_v2_waitmap i m) = ttl m"
  by (auto simp: notify_v2_def v2_receiver_def v1_insert_def maybe_cleanup_v2_waitmap_def new_channel_def
      split: option.split)

lemma constant_fields_v1 [simp]:
  "capacity (forget_v1 i m) = capacity m" "ttl (forget_v1 i m) = ttl m"
  "capacity (snd (post_v1_res i p m)) = capacity m" "ttl (snd (post_v1_res i p m)) = ttl m"
  "capacity (snd (await_v1 ch m)) = capacity m" "ttl (snd (await_v1 ch m)) = ttl m"
  "capacity (snd (await_v2 ch m)) = capacity m" "ttl (snd (await_v2 ch m)) = ttl m"
  by (simp_all add: forget_v1_def post_v1_res_def await_v1_def await_v2_def Let_def split: option.split)

lemma if_capacity_len:
  assumes "\<And>m. mailboxes_len (snd (f m)) \<le> Suc (mailboxes_len m)" "\<And>m. capacity (snd (f m)) = capacity m"
    "\<And>m. ttl (snd (f m)) = ttl m"
  shows "mailboxes_len (snd (if_capacity F now f m)) \<le> max (capacity m) (mailboxes_len m) \<and>
    capacity (snd (if_capacity F now f m)) = capacity m \<and> ttl (snd (if_capacity F now f m)) = ttl m"
proof (cases rule: if_capacity_cases [of F now f m])
  case refused
  then show ?thesis using prune_len [of F now m] by (simp add: prune_fields)
next
  case admitted
  have "mailboxes_len (snd (f (snd (prune F now m)))) \<le> Suc (mailboxes_len (snd (prune F now m)))" by (rule assms(1))
  with admitted assms(2,3) show ?thesis by (auto simp: prune_fields)
qed

text \<open>The bodies of the operations that need capacity add at most one entry.\<close>

lemma post_v2_len:
  "mailboxes_len (snd (post_v2 F now i p m)) \<le> max (capacity m) (mailboxes_len m) \<and>
     capacity (snd (post_v2 F now i p m)) = capacity m \<and> ttl (snd (post_v2 F now i p m)) = ttl m"
  unfolding post_v2_def
proof (rule if_capacity_len)
  fix m
  have "mailboxes_len (notify_v2 i p (m\<lparr>persistent_storage := d, insert_order := insert_order m @ [(c, i)]\<rparr>))
      \<le> Suc (mailboxes_len m)" for d c
    by (rule order_trans [OF notify_len]) (simp add: mailboxes_len_def)
  then show "mailboxes_len (snd (case try_insert F now i p (persistent_storage m) of
        (Ok (Some created), d) \<Rightarrow>
          (Ok (Some ()), notify_v2 i p (m\<lparr>persistent_storage := d, insert_order := insert_order m @ [(created, i)]\<rparr>))
      | (Ok None, d) \<Rightarrow> (Ok None, m\<lparr>persistent_storage := d\<rparr>)
      | (Err e, d) \<Rightarrow> (Err (IO e), m\<lparr>persistent_storage := d\<rparr>)
      | (Panic, d) \<Rightarrow> (Panic, m\<lparr>persistent_storage := d\<rparr>))) \<le> Suc (mailboxes_len m)"
    by (auto simp: mailboxes_len_def split: prod.split res.split option.split)
qed (simp_all split: prod.split res.split option.split)

lemma wait_v2_len:
  "mailboxes_len (snd (wait_v2 F now i m)) \<le> max (capacity m) (mailboxes_len m) \<and>
     capacity (snd (wait_v2 F now i m)) = capacity m \<and> ttl (snd (wait_v2 F now i m)) = ttl m"
  unfolding wait_v2_def
  by (rule if_capacity_len) (simp_all add: case_prod_unfold Let_def receiver_len split: option.split)

lemma post_v1_len:
  "mailboxes_len (snd (post_v1_req_and_wait F now i p m)) \<le> max (capacity m) (mailboxes_len m) \<and>
     capacity (snd (post_v1_req_and_wait F now i p m)) = capacity m \<and> ttl (snd (post_v1_req_and_wait F now i p m)) = ttl m"
  unfolding post_v1_req_and_wait_def
  by (rule if_capacity_len)
    (simp_all add: case_prod_unfold Let_def v1_insert_len order_trans [OF notify_len v1_insert_len])

lemma delete_len [simp]:
  "mailboxes_len (forget_v1 i m) \<le> mailboxes_len m" "mailboxes_len (maybe_cleanup_v2_waitmap i m) \<le> mailboxes_len m"
  "mailboxes_len (snd (post_v1_res i p m)) \<le> mailboxes_len m"
  "mailboxes_len (snd (read_mailbox F i m)) = mailboxes_len m"
  "mailboxes_len (snd (await_v1 ch m)) = mailboxes_len m" "mailboxes_len (snd (await_v2 ch m)) = mailboxes_len m"
  by (auto simp: forget_v1_def await_v1_def await_v2_def maybe_cleanup_v2_waitmap_def post_v1_res_def read_mailbox_def mailboxes_len_def
      take_payload_def AList.length_delete_le Let_def split: option.split)

lemma step_len:
  "mailboxes_len (snd (mail_step F now op m)) \<le> max (capacity m) (mailboxes_len m) \<and>
     capacity (snd (mail_step F now op m)) = capacity m \<and> ttl (snd (mail_step F now op m)) = ttl m"
proof (cases op)
  case (OpRead i)
  have f: "capacity (snd (read_mailbox F i m)) = capacity m" "ttl (snd (read_mailbox F i m)) = ttl m"
    by (simp_all add: read_mailbox_def split: option.split)
  show ?thesis using wait_v2_len [of F now i "snd (read_mailbox F i m)"]
    by (simp add: OpRead read_or_wait_state case_prod_unfold Let_def f max.coboundedI2)
qed (use post_v2_len [of F now _ _ m] post_v1_len [of F now _ _ m] in
    \<open>simp_all add: post_v2_payload_def post_v1_response_def case_prod_unfold Let_def prune_fields
      max.coboundedI2 prune_len\<close>)

lemma exec_len:
  "mail_exec Fs m0 tr m \<Longrightarrow>
     mailboxes_len m \<le> max (capacity m0) (mailboxes_len m0) \<and> capacity m = capacity m0 \<and> ttl m = ttl m0"
proof (induction rule: mail_exec.induct)
  case (exec_step tr m F op now a m')
  then show ?case using step_len [of F now op m] by auto
qed simp

lemma init_ok: "mailboxes_ok (mailboxes_init W storage dir_entries t)"
  by (simp add: mailboxes_ok_def mailboxes_init_def channels_ok_def no_channels_def senders_v1_def senders_v2_def)

text \<open>C16: In every run of the mailboxes, with any interleaving, times and disk faults: no mailbox has a version 1
  sender and version 2 readers pending at the same time; the entries never exceed the capacity, or what
  was found on disk at the start; and a version 2 reader that wakes up finds its payload or the
  timeout, never a channel without a sender, so that the \<open>expect\<close> on it cannot fail.\<close>

theorem mailboxes_invariant:
  assumes "mail_exec Fs (mailboxes_init W storage dir_entries t) tr m"
  shows "fst ` set (pending_v1 m) \<inter> fst ` set (pending_v2 m) = {} \<and>
    mailboxes_len m \<le> max default_capacity (length (disk_insert_order W dir_entries)) \<and>
    (\<forall>ch. 0 < handles (channels_v2 m) ch \<longrightarrow> fst (await_v2 ch m) \<noteq> Panic)"
proof -
  have ok: "mailboxes_ok m" using assms init_ok by (rule ok_exec)
  have "mailboxes_len m \<le> max default_capacity (length (disk_insert_order W dir_entries))"
    using exec_len [OF assms] by (simp add: mailboxes_init_def mailboxes_len_def)
  moreover have "fst (await_v2 ch m) \<noteq> Panic" if "0 < handles (channels_v2 m) ch" for ch
  proof -
    have "ch \<in> senders_v2 m \<or> posted (channels_v2 m) ch \<noteq> None" using ok that by (simp add: mailboxes_ok_def)
    then show ?thesis by (auto simp: await_v2_def await_def split: option.splits)
  qed
  ultimately show ?thesis using ok by (simp add: mailboxes_ok_def)
qed

section \<open>Waiting readers\<close>

text \<open>
  What a step may do to the readers, with \<open>Q\<close> what it may send: a pending entry stays, or is sent
  something, or had no reader left; what was sent stays; a channel without a sender gets neither a
  sender nor a receiver again.
\<close>

definition v2_step :: "(short_id \<times> string) set \<Rightarrow> mailboxes \<Rightarrow> mailboxes \<Rightarrow> bool" where
  "v2_step Q m m' \<longleftrightarrow>
     (\<forall>(j, ch)\<in>set (pending_v2 m). (j, ch) \<in> set (pending_v2 m') \<or>
        (\<exists>q. (j, q) \<in> Q \<and> posted (channels_v2 m') ch = Some q) \<or>
        handles (channels_v2 m') ch = 0 \<and> ch \<notin> senders_v2 m') \<and>
     (\<forall>ch q. posted (channels_v2 m) ch = Some q \<longrightarrow> posted (channels_v2 m') ch = Some q) \<and>
     (\<forall>ch. ch < next_channel (channels_v2 m) \<and> ch \<notin> senders_v2 m \<longrightarrow>
        ch \<notin> senders_v2 m' \<and> handles (channels_v2 m') ch \<le> handles (channels_v2 m) ch) \<and>
     next_channel (channels_v2 m) \<le> next_channel (channels_v2 m')"

lemma v2_step_same:
  "pending_v2 m' = pending_v2 m \<Longrightarrow> channels_v2 m' = channels_v2 m \<Longrightarrow> v2_step Q m m'"
  by (auto simp: v2_step_def senders_v2_def)

lemma v2_stepD:
  assumes "v2_step Q m m'"
  shows "(j, ch) \<in> set (pending_v2 m) \<Longrightarrow> (j, ch) \<in> set (pending_v2 m') \<or>
        (\<exists>q. (j, q) \<in> Q \<and> posted (channels_v2 m') ch = Some q) \<or>
        handles (channels_v2 m') ch = 0 \<and> ch \<notin> senders_v2 m'"
    and "posted (channels_v2 m) ch = Some q \<Longrightarrow> posted (channels_v2 m') ch = Some q"
    and "ch < next_channel (channels_v2 m) \<Longrightarrow> ch \<notin> senders_v2 m \<Longrightarrow>
        ch \<notin> senders_v2 m' \<and> handles (channels_v2 m') ch \<le> handles (channels_v2 m) ch"
    and "next_channel (channels_v2 m) \<le> next_channel (channels_v2 m')"
  using assms unfolding v2_step_def by (blast, blast, blast, blast)

lemma pending_v2_channel: "mailboxes_ok m \<Longrightarrow> (j, ch) \<in> set (pending_v2 m) \<Longrightarrow> ch < next_channel (channels_v2 m) \<and> posted (channels_v2 m) ch = None"
  by (force simp: mailboxes_ok_def channels_ok_def senders_v2_def)

lemma pending_v2_unique: "mailboxes_ok m \<Longrightarrow> (j, ch) \<in> set (pending_v2 m) \<Longrightarrow> (j, ch') \<in> set (pending_v2 m) \<Longrightarrow> ch' = ch"
  unfolding mailboxes_ok_def by (metis eq_key_imp_eq_value)

lemma v2_step_trans:
  assumes "v2_step Q m m1" "v2_step Q m1 m'" "mailboxes_ok m"
  shows "v2_step Q m m'"
  unfolding v2_step_def
proof (intro conjI ballI allI impI)
  fix x assume x: "x \<in> set (pending_v2 m)"
  obtain j ch where jc: "x = (j, ch)" by (cases x)
  have n: "ch < next_channel (channels_v2 m1)"
    using pending_v2_channel [OF assms(3) x [unfolded jc]] v2_stepD(4) [OF assms(1)] by simp
  have "(j, ch) \<in> set (pending_v2 m') \<or> (\<exists>q. (j, q) \<in> Q \<and> posted (channels_v2 m') ch = Some q) \<or>
      handles (channels_v2 m') ch = 0 \<and> ch \<notin> senders_v2 m'"
    using v2_stepD(1) [OF assms(1) x [unfolded jc]]
  proof (elim disjE)
    assume "(j, ch) \<in> set (pending_v2 m1)"
    then show ?thesis by (rule v2_stepD(1) [OF assms(2)])
  next
    assume "\<exists>q. (j, q) \<in> Q \<and> posted (channels_v2 m1) ch = Some q"
    then show ?thesis using v2_stepD(2) [OF assms(2)] by blast
  next
    assume "handles (channels_v2 m1) ch = 0 \<and> ch \<notin> senders_v2 m1"
    then show ?thesis using v2_stepD(3) [OF assms(2) n] by auto
  qed
  then show "case x of (j, ch) \<Rightarrow> (j, ch) \<in> set (pending_v2 m') \<or> (\<exists>q. (j, q) \<in> Q \<and> posted (channels_v2 m') ch = Some q) \<or>
      handles (channels_v2 m') ch = 0 \<and> ch \<notin> senders_v2 m'" by (simp add: jc)
next
  show "next_channel (channels_v2 m) \<le> next_channel (channels_v2 m')"
    using v2_stepD(4) [OF assms(1)] v2_stepD(4) [OF assms(2)] by simp
next
  fix ch q assume "posted (channels_v2 m) ch = Some q"
  then show "posted (channels_v2 m') ch = Some q" by (intro v2_stepD(2) [OF assms(2)] v2_stepD(2) [OF assms(1)])
next
  fix ch assume a: "ch < next_channel (channels_v2 m) \<and> ch \<notin> senders_v2 m"
  have "ch < next_channel (channels_v2 m1)" using a v2_stepD(4) [OF assms(1)] by simp
  with a show "ch \<notin> senders_v2 m'" "handles (channels_v2 m') ch \<le> handles (channels_v2 m) ch"
    using v2_stepD(3) [OF assms(1), of ch] v2_stepD(3) [OF assms(2), of ch] by auto
qed

lemma v2_step_filter:
  assumes "mailboxes_ok m" and "pending_v2 m' = filter P (pending_v2 m)" "channels_v2 m' = channels_v2 m"
    and "\<And>i ch. (i, ch) \<in> set (pending_v2 m) \<Longrightarrow> \<not> P (i, ch) \<Longrightarrow> handles (channels_v2 m) ch = 0"
  shows "v2_step Q m m'"
proof -
  have "(j, ch) \<in> set (pending_v2 m) \<Longrightarrow> \<not> P (j, ch) \<Longrightarrow> ch \<notin> senders_v2 m'" for j ch
  proof
    assume a: "(j, ch) \<in> set (pending_v2 m)" "\<not> P (j, ch)" and "ch \<in> senders_v2 m'"
    then obtain k where k: "(k, ch) \<in> set (pending_v2 m)" "P (k, ch)" by (auto simp: senders_v2_def assms(2))
    have "distinct (map snd (pending_v2 m))" using assms(1) by (simp add: mailboxes_ok_def)
    with a(1) k(1) have "k = j" by (metis distinct_map inj_onD prod.inject snd_conv)
    with a(2) k(2) show False by simp
  qed
  with assms(4) show ?thesis by (auto simp: v2_step_def assms(2,3)) (auto simp: senders_v2_def assms(2))
qed

lemma v2_step_prune: "mailboxes_ok m \<Longrightarrow> v2_step Q m (snd (prune F now m))"
  by (erule v2_step_filter [OF _ prune_fields(3) prune_fields(7)]) simp

lemma v2_step_notify: "mailboxes_ok m \<Longrightarrow> (i, p) \<in> Q \<Longrightarrow> v2_step Q m (notify_v2 i p m)"
proof (cases "map_of (pending_v2 m) i")
  case (Some ch)
  assume ok: "mailboxes_ok m" and Q: "(i, p) \<in> Q"
  note s = notify_senders [OF ok Some, of p]
  have ch: "ch \<in> senders_v2 m" using map_of_SomeD [OF Some] by (force simp: senders_v2_def)
  then have n: "posted (channels_v2 m) ch = None" using ok by (simp add: mailboxes_ok_def channels_ok_def)
  have "(j, c) \<in> set (pending_v2 m) \<Longrightarrow> j \<noteq> i \<or> c = ch" for j c
    using pending_v2_unique [OF ok map_of_SomeD [OF Some]] by blast
  with Q n show ?thesis unfolding v2_step_def s
    by (auto simp: notify_v2_def Some AList.delete_eq send_on_def)
qed (auto intro!: v2_step_same simp: notify_v2_def)

lemma v2_step_receiver: "mailboxes_ok m \<Longrightarrow> v2_step Q m (snd (v2_receiver i m))"
proof (cases "map_of (pending_v2 m) i")
  case None
  assume ok: "mailboxes_ok m"
  then show ?thesis
    by (auto simp: v2_step_def v2_receiver_def None new_channel_def clone_handle_def senders_v2_def mailboxes_ok_def channels_ok_def)
next
  case (Some ch)
  then have "ch \<in> senders_v2 m" by (force simp: senders_v2_def dest: map_of_SomeD)
  then show ?thesis by (auto simp: v2_step_def v2_receiver_def Some clone_handle_def senders_v2_def)
qed

lemma v2_step_cleanup: "mailboxes_ok m \<Longrightarrow> v2_step Q m (maybe_cleanup_v2_waitmap i m)"
proof (cases "map_of (pending_v2 m) i")
  case (Some ch)
  assume ok: "mailboxes_ok m"
  show ?thesis
  proof (cases "handles (channels_v2 m) ch = 0")
    case True
    show ?thesis
    proof (rule v2_step_filter [OF ok, where P = "\<lambda>(k, _). i \<noteq> k"])
      fix j c assume "(j, c) \<in> set (pending_v2 m)" "\<not> (case (j, c) of (k, _) \<Rightarrow> i \<noteq> k)"
      then have "c = ch" using Some ok by (auto simp: mailboxes_ok_def)
      then show "handles (channels_v2 m) c = 0" using True by simp
    qed (simp_all add: maybe_cleanup_v2_waitmap_def Some True AList.delete_eq)
  qed (auto intro!: v2_step_same simp: maybe_cleanup_v2_waitmap_def Some)
qed (auto intro!: v2_step_same simp: maybe_cleanup_v2_waitmap_def)

lemma v2_step_cong:
  assumes "pending_v2 m1 = pending_v2 m" "channels_v2 m1 = channels_v2 m"
  shows "v2_step Q m1 m' = v2_step Q m m'" "v2_step Q m' m1 = v2_step Q m' m"
  using assms by (simp_all add: v2_step_def senders_v2_def)

lemma v2_step_if_capacity:
  assumes "mailboxes_ok m" and "\<And>m. mailboxes_ok m \<Longrightarrow> v2_step Q m (snd (f m))"
  shows "v2_step Q m (snd (if_capacity F now f m))"
proof (cases rule: if_capacity_cases [of F now f m])
  case refused
  then show ?thesis by (simp add: v2_step_prune assms(1))
next
  case admitted
  have "v2_step Q (snd (prune F now m)) (snd (f (snd (prune F now m))))" by (rule assms(2) [OF ok_prune [OF assms(1)]])
  with admitted(1) v2_step_trans [OF v2_step_prune [OF assms(1)] _ assms(1)] show ?thesis by simp
qed

definition sends :: "mail_op \<Rightarrow> (short_id \<times> string) set" where
  "sends op = (case op of OpPostV2 i p \<Rightarrow> {(i, p)} | OpPostV1Request i p \<Rightarrow> {(i, p)} | _ \<Rightarrow> {})"

lemma v2_step_post_v2: "mailboxes_ok m \<Longrightarrow> v2_step {(i, p)} m (snd (post_v2 F now i p m))"
  unfolding post_v2_def
proof (erule v2_step_if_capacity)
  fix m assume ok: "mailboxes_ok m"
  have "v2_step {(i, p)} m (notify_v2 i p (m\<lparr>persistent_storage := d, insert_order := q\<rparr>))" for d q
  proof -
    have "v2_step {(i, p)} (m\<lparr>persistent_storage := d, insert_order := q\<rparr>) (notify_v2 i p (m\<lparr>persistent_storage := d, insert_order := q\<rparr>))"
      by (rule v2_step_notify) (simp_all add: ok)
    then show ?thesis by (simp add: v2_step_cong(1) [of "m\<lparr>persistent_storage := d, insert_order := q\<rparr>" m])
  qed
  then show "v2_step {(i, p)} m (snd (case try_insert F now i p (persistent_storage m) of
        (Ok (Some created), d) \<Rightarrow>
          (Ok (Some ()), notify_v2 i p (m\<lparr>persistent_storage := d, insert_order := insert_order m @ [(created, i)]\<rparr>))
      | (Ok None, d) \<Rightarrow> (Ok None, m\<lparr>persistent_storage := d\<rparr>)
      | (Err e, d) \<Rightarrow> (Err (IO e), m\<lparr>persistent_storage := d\<rparr>)
      | (Panic, d) \<Rightarrow> (Panic, m\<lparr>persistent_storage := d\<rparr>)))"
    by (auto intro: v2_step_same split: prod.split res.split option.split)
qed

lemma v2_step_post_v1: "mailboxes_ok m \<Longrightarrow> v2_step {(i, p)} m (snd (post_v1_req_and_wait F now i p m))"
  unfolding post_v1_req_and_wait_def
proof (erule v2_step_if_capacity)
  fix m assume ok: "mailboxes_ok m"
  have "v2_step {(i, p)} m (snd (v1_insert i p (notify_v2 i p m)))"
    using v2_step_notify [OF ok, of i p "{(i, p)}"] by (simp add: v2_step_cong(2) [of "snd (v1_insert i p (notify_v2 i p m))" "notify_v2 i p m"])
  moreover have "v2_step {(i, p)} m (snd (v1_insert i p m))" by (rule v2_step_same) simp_all
  ultimately show "v2_step {(i, p)} m (snd (let (ret, m1) = v1_insert i p m in
      (Ok ret, if map_of (pending_v2 m1) i = None then m1 else take_payload i (notify_v2 i p m1))))"
    by (simp add: case_prod_unfold Let_def notify_v1_insert
        v2_step_cong(2) [of "take_payload i (snd (v1_insert i p (notify_v2 i p m)))" "snd (v1_insert i p (notify_v2 i p m))"])
qed

lemma v2_step_wait: "mailboxes_ok m \<Longrightarrow> v2_step Q m (snd (wait_v2 F now i m))"
  unfolding wait_v2_def
  by (erule v2_step_if_capacity) (auto simp: case_prod_unfold Let_def v2_step_receiver intro: v2_step_same split: option.split)

lemma v2_step_read: "v2_step Q m (snd (read_mailbox F i m))"
  by (auto simp: read_mailbox_def intro: v2_step_same split: option.split)

lemma v2_step_await: "v2_step Q m (snd (await_v2 ch m))" "v2_step Q m (snd (await_v1 ch m))"
  by (auto simp: v2_step_def await_v2_def await_v1_def drop_handle_def senders_v2_def)

lemma v2_step_op: "mailboxes_ok m \<Longrightarrow> v2_step (sends op) m (snd (mail_step F now op m))"
proof (cases op)
  case (OpRead i)
  assume ok: "mailboxes_ok m"
  have "v2_step {} m (snd (wait_v2 F now i (snd (read_mailbox F i m))))"
    by (rule v2_step_trans [OF v2_step_read v2_step_wait [OF ok_read [OF ok]] ok])
  then show ?thesis by (simp add: OpRead sends_def read_or_wait_state case_prod_unfold Let_def v2_step_read)
qed (simp_all add: sends_def post_v2_payload_def post_v1_response_def case_prod_unfold Let_def v2_step_post_v2 v2_step_post_v1
    v2_step_await v2_step_cleanup v2_step_prune v2_step_same forget_v1_def post_v1_res_def split: option.split)

lemma answer_eq:
  "answer f r = Waiting ch \<longleftrightarrow> (\<exists>a. r = Ok a \<and> f a = Waiting ch)" "answer f r = Stored b \<longleftrightarrow> (\<exists>a. r = Ok a \<and> f a = Stored b)"
  "answer f r = Payload p \<longleftrightarrow> (\<exists>a. r = Ok a \<and> f a = Payload p)"
  by (cases r; simp add: answer_def)+

text \<open>A reader that is told to wait has its entry.\<close>

lemma wait_v2_waits: "wait_v2 F now i m = (Ok ch, m') \<Longrightarrow> (i, ch) \<in> set (pending_v2 m')"
  unfolding wait_v2_def
  by (drule if_capacity_Ok) (auto simp: case_prod_unfold Let_def v2_receiver_def new_channel_def
        dest: map_of_SomeD split: option.splits)

lemma read_or_wait_waits:
  "read_or_wait F now i m = (Ok (Inr ch), m') \<Longrightarrow> \<exists>m1. read_mailbox F i m = (Ok None, m1) \<and> wait_v2 F now i m1 = (Ok ch, m')"
  by (auto simp: read_or_wait_def Let_def rmap_eq_Ok split: prod.splits res.splits option.splits)

lemma read_waits:
  assumes "mail_step F now (OpRead i) m = (Waiting ch, m')"
  shows "(i, ch) \<in> set (pending_v2 m')"
proof -
  from assms obtain x where "read_or_wait F now i m = (Ok x, m')"
    and "(case x of Inl p \<Rightarrow> Payload p | Inr c \<Rightarrow> Waiting c) = Waiting ch"
    by (auto simp: case_prod_unfold Let_def answer_eq prod_eq_iff)
  then have "read_or_wait F now i m = (Ok (Inr ch), m')" by (cases x) auto
  from read_or_wait_waits [OF this] show ?thesis using wait_v2_waits by blast
qed

text \<open>A successful post leaves no reader waiting.\<close>

lemma stored_iff:
  "mail_step F now (OpPostV2 i p) m = (Stored b, m') \<longleftrightarrow> post_v2 F now i p m = (Ok (if b then Some () else None), m')"
  by (auto simp: case_prod_unfold Let_def answer_eq post_v2_payload_def prod_eq_iff) (metis not_None_eq unit.exhaust)

lemma post_wakes:
  assumes "mail_step F now (OpPostV2 i p) m = (Stored True, m')"
  shows "(i, ch) \<notin> set (pending_v2 m')"
proof -
  from assms have "post_v2 F now i p m = (Ok (Some ()), m')" by (simp only: stored_iff if_True)
  then have "map_of (pending_v2 m') i = None"
    unfolding post_v2_def
    by (auto dest!: if_capacity_Ok simp: notify_removes split: prod.splits res.splits option.splits)
  then show ?thesis by (auto simp: map_of_None_iff image_iff)
qed

lemma mail_exec_appendE:
  assumes "mail_exec Fs m0 (tr1 @ tr2) m"
  obtains m1 where "mail_exec Fs m0 tr1 m1" "mail_exec Fs m1 tr2 m"
  using assms
proof (induction tr2 arbitrary: m thesis rule: rev_induct)
  case Nil
  then show ?case by (metis append_Nil2 exec_start)
next
  case (snoc x tr2)
  from snoc.prems(2) have "mail_exec Fs m0 ((tr1 @ tr2) @ [x]) m" by simp
  then show ?case
  proof (cases rule: mail_exec.cases)
    case (exec_step tr m' F op now a)
    with snoc.IH [of m'] obtain m1 where "mail_exec Fs m0 tr1 m1" "mail_exec Fs m1 tr2 m'" by auto
    with exec_step snoc.prems(1) show ?thesis by (metis append1_eq_conv mail_exec.exec_step)
  qed simp
qed

lemma mail_exec_single:
  "mail_exec Fs m0 [(now, op, a)] m \<longleftrightarrow> (\<exists>F\<in>Fs. enabled m0 op \<and> mail_step F now op m0 = (a, m))"
proof
  assume "mail_exec Fs m0 [(now, op, a)] m"
  then show "\<exists>F\<in>Fs. enabled m0 op \<and> mail_step F now op m0 = (a, m)"
    by (cases rule: mail_exec.cases) (auto elim: mail_exec.cases)
next
  assume "\<exists>F\<in>Fs. enabled m0 op \<and> mail_step F now op m0 = (a, m)"
  then show "mail_exec Fs m0 [(now, op, a)] m"
    using mail_exec.exec_step [OF exec_start] by fastforce
qed

lemma mail_exec_Cons:
  assumes "mail_exec Fs m0 ((now, op, a) # tr) m"
  obtains F m1 where "F \<in> Fs" "enabled m0 op" "mail_step F now op m0 = (a, m1)" "mail_exec Fs m1 tr m"
proof -
  from assms have "mail_exec Fs m0 ([(now, op, a)] @ tr) m" by simp
  then obtain m1 where "mail_exec Fs m0 [(now, op, a)] m1" "mail_exec Fs m1 tr m" by (rule mail_exec_appendE)
  then show thesis using that by (auto simp: mail_exec_single)
qed

text \<open>Where a waiting reader is: pending, served by something posted for it, or gone.\<close>

definition reader_state :: "short_id \<Rightarrow> nat \<Rightarrow> (nat \<times> mail_op \<times> mail_answer) list \<Rightarrow> mailboxes \<Rightarrow> bool" where
  "reader_state i ch tr m \<longleftrightarrow>
     (i, ch) \<in> set (pending_v2 m) \<and> (\<forall>t p. (t, OpPostV2 i p, Stored True) \<notin> set tr) \<or>
     (\<exists>q t op a. posted (channels_v2 m) ch = Some q \<and> (t, op, a) \<in> set tr \<and> (i, q) \<in> sends op) \<or>
     handles (channels_v2 m) ch = 0 \<and> ch \<notin> senders_v2 m"

lemma reader_state_step:
  assumes "reader_state i ch tr m" "mailboxes_ok m" "ch < next_channel (channels_v2 m)" "mail_step F now op m = (a, m')"
  shows "reader_state i ch (tr @ [(now, op, a)]) m'"
proof -
  have s: "v2_step (sends op) m m'" using v2_step_op [OF assms(2), of op F now] assms(4) by simp
  from assms(1) consider
    (pending) "(i, ch) \<in> set (pending_v2 m)" "\<forall>t p. (t, OpPostV2 i p, Stored True) \<notin> set tr"
  | (served) q t op' a' where "posted (channels_v2 m) ch = Some q" "(t, op', a') \<in> set tr" "(i, q) \<in> sends op'"
  | (gone) "handles (channels_v2 m) ch = 0" "ch \<notin> senders_v2 m"
    unfolding reader_state_def by (elim disjE conjE exE; blast)
  then show ?thesis
  proof cases
    case pending
    have "(i, ch) \<in> set (pending_v2 m') \<Longrightarrow> \<not> (\<exists>p. op = OpPostV2 i p \<and> a = Stored True)"
      using post_wakes assms(4) by blast
    note n = this
    from v2_stepD(1) [OF s pending(1)] show ?thesis
    proof (elim disjE exE conjE)
      assume "(i, ch) \<in> set (pending_v2 m')"
      with n pending(2) show ?thesis unfolding reader_state_def by simp blast
    next
      fix q assume "(i, q) \<in> sends op" "posted (channels_v2 m') ch = Some q"
      then show ?thesis unfolding reader_state_def by (simp, blast)
    qed (simp add: reader_state_def)
  next
    case served
    then show ?thesis using v2_stepD(2) [OF s served(1)] unfolding reader_state_def by auto
  next
    case gone
    then show ?thesis using v2_stepD(3) [OF s assms(3) gone(2)] unfolding reader_state_def by auto
  qed
qed

lemma reader_state_exec:
  assumes "mail_exec Fs m0 tr m" "reader_state i ch [] m0" "mailboxes_ok m0" "ch < next_channel (channels_v2 m0)"
  shows "reader_state i ch tr m \<and> ch < next_channel (channels_v2 m)"
  using assms
proof (induction rule: mail_exec.induct)
  case (exec_step tr m F op now a m')
  have ok: "mailboxes_ok m" by (rule ok_exec [OF exec_step.hyps(1) exec_step.prems(2)])
  have "next_channel (channels_v2 m) \<le> next_channel (channels_v2 m')"
    using v2_stepD(4) [OF v2_step_op [OF ok, of op F now]] exec_step.hyps(4) by simp
  with exec_step.IH [OF exec_step.prems] reader_state_step [OF _ ok _ exec_step.hyps(4)] show ?case by auto
qed simp

text \<open>C17: No reader misses its payload. When a version 2 payload was stored in a mailbox at any time after a
  reader was told to wait for it, and the reader still holds its receiver, then whatever else
  happened in between, the reader wakes up with a payload that was posted to this mailbox while it
  waited.\<close>

theorem waiting_reader_served:
  assumes "mail_exec Fs (mailboxes_init W storage dir_entries t) (tr1 @ (t1, OpRead i, Waiting ch) # tr2) m"
    and "(t2, OpPostV2 i p, Stored True) \<in> set tr2" and "0 < handles (channels_v2 m) ch"
  shows "\<exists>q t3 op a. fst (await_v2 ch m) = Ok q \<and> (t3, op, a) \<in> set tr2 \<and> (i, q) \<in> sends op"
proof -
  from assms(1) obtain m1 where m1: "mail_exec Fs (mailboxes_init W storage dir_entries t) tr1 m1"
    "mail_exec Fs m1 ((t1, OpRead i, Waiting ch) # tr2) m" by (rule mail_exec_appendE)
  from m1(2) obtain F m2 where m2: "mail_step F t1 (OpRead i) m1 = (Waiting ch, m2)" "mail_exec Fs m2 tr2 m"
    by (rule mail_exec_Cons)
  have ok1: "mailboxes_ok m1" by (rule ok_exec [OF m1(1) init_ok])
  have ok2: "mailboxes_ok m2" using ok_step [OF ok1, of F t1 "OpRead i"] m2(1) by (metis snd_conv)
  have pending: "(i, ch) \<in> set (pending_v2 m2)" by (rule read_waits [OF m2(1)])
  then have "reader_state i ch [] m2" by (simp add: reader_state_def)
  from reader_state_exec [OF m2(2) this ok2] pending_v2_channel [OF ok2 pending]
  have "reader_state i ch tr2 m" by simp
  with assms(2,3) obtain q t3 op a where "posted (channels_v2 m) ch = Some q" "(t3, op, a) \<in> set tr2" "(i, q) \<in> sends op"
    unfolding reader_state_def by auto
  then show ?thesis by (auto simp: await_v2_def await_def)
qed

section \<open>Plaintext\<close>

text \<open>What a step may do to version 1 entries: keep them, take their payload, remove them or add one on a new channel.\<close>

definition v1_step :: "mailboxes \<Rightarrow> mailboxes \<Rightarrow> bool" where
  "v1_step m m' \<longleftrightarrow>
     (\<forall>(j, e')\<in>set (pending_v1 m'). next_channel (channels_v1 m) \<le> v1_channel e' \<or>
        (\<exists>e. (j, e) \<in> set (pending_v1 m) \<and> v1_channel e' = v1_channel e \<and> v1_payload e' \<in> {v1_payload e, None})) \<and>
     next_channel (channels_v1 m) \<le> next_channel (channels_v1 m')"

lemma v1_step_same: "pending_v1 m' = pending_v1 m \<Longrightarrow> channels_v1 m' = channels_v1 m \<Longrightarrow> v1_step m m'"
  by (auto simp: v1_step_def)

lemma v1_step_trans: "v1_step m m1 \<Longrightarrow> v1_step m1 m' \<Longrightarrow> v1_step m m'"
  unfolding v1_step_def by (fastforce dest: order_trans)

lemma v1_step_take: "v1_step m (take_payload i m)"
proof -
  have "\<exists>e0. (j, e0) \<in> set (pending_v1 m) \<and> v1_channel e = v1_channel e0 \<and> v1_payload e \<in> {v1_payload e0, None}"
    if "(j, e) \<in> set (pending_v1 (take_payload i m))" for j e
  proof -
    from that obtain e0 where "(j, e0) \<in> set (pending_v1 m)" "e = (if j = i then e0\<lparr>v1_payload := None\<rparr> else e0)"
      by (auto simp: take_payload_def)
    then show ?thesis by (intro exI [of _ e0]) simp
  qed
  then show ?thesis by (auto simp: v1_step_def)
qed

lemma v1_step_moves:
  "v1_step m (take_payload i m)" "v1_step m (notify_v2 i p m)" "v1_step m (snd (v1_insert i p m))"
  "v1_step m (forget_v1 i m)" "v1_step m (snd (post_v1_res i p m))" "v1_step m (snd (await_v1 ch m))"
  "v1_step m (snd (await_v2 ch m))" "v1_step m (maybe_cleanup_v2_waitmap i m)" "v1_step m (snd (prune F now m))"
  by (rule v1_step_take) (auto simp: v1_step_def notify_v2_def v1_insert_def new_channel_def clone_handle_def forget_v1_def
      post_v1_res_def await_v1_def await_v2_def drop_handle_def send_on_def maybe_cleanup_v2_waitmap_def prune_fields
      AList.delete_eq Let_def split: option.split)

lemma v1_step_if_capacity:
  assumes "\<And>m. v1_step m (snd (f m))"
  shows "v1_step m (snd (if_capacity F now f m))"
  by (cases rule: if_capacity_cases [of F now f m]) (auto intro: v1_step_moves v1_step_trans [OF v1_step_moves(9) assms])

lemma v1_step_op: "v1_step m (snd (mail_step F now op m))"
proof (cases op)
  case (OpPostV2 i p)
  have "v1_step m (notify_v2 i p (m\<lparr>persistent_storage := d, insert_order := q\<rparr>))" for d q m
    by (rule v1_step_trans [OF v1_step_same v1_step_moves(2)]) simp_all
  then have "v1_step m (snd (post_v2 F now i p m))"
    unfolding post_v2_def
    by (intro v1_step_if_capacity) (auto intro: v1_step_same split: prod.split res.split option.split)
  then show ?thesis by (simp add: OpPostV2 post_v2_payload_def case_prod_unfold Let_def)
next
  case (OpRead i)
  have "v1_step m (snd (v2_receiver i m))" for m
    by (rule v1_step_same) (simp_all add: v2_receiver_def new_channel_def split: option.split)
  then have w: "v1_step m (snd (wait_v2 F now i m))" for m
    unfolding wait_v2_def
    by (intro v1_step_if_capacity) (auto simp: case_prod_unfold Let_def intro: v1_step_same split: option.split)
  have r: "v1_step m (snd (read_mailbox F i m))"
    by (auto simp: read_mailbox_def intro: v1_step_same v1_step_moves split: option.split)
  show ?thesis by (simp add: OpRead read_or_wait_state case_prod_unfold Let_def r v1_step_trans [OF r w])
next
  case (OpPostV1Request i p)
  have "v1_step m (take_payload i (notify_v2 i p (snd (v1_insert i p m))))" for m
    by (rule v1_step_trans [OF v1_step_moves(3) v1_step_trans [OF v1_step_moves(2) v1_step_moves(1)]])
  then have "v1_step m (snd (post_v1_req_and_wait F now i p m))"
    unfolding post_v1_req_and_wait_def
    by (intro v1_step_if_capacity) (simp add: case_prod_unfold Let_def v1_step_moves)
  then show ?thesis by (simp add: OpPostV1Request case_prod_unfold Let_def)
qed (simp_all add: v1_step_moves post_v1_response_def case_prod_unfold Let_def)

definition payload_gone :: "nat \<Rightarrow> mailboxes \<Rightarrow> bool" where
  "payload_gone ch m \<longleftrightarrow> ch < next_channel (channels_v1 m) \<and>
     (\<forall>(j, e)\<in>set (pending_v1 m). v1_channel e = ch \<longrightarrow> v1_payload e = None)"

lemma payload_gone_step: "payload_gone ch m \<Longrightarrow> v1_step m m' \<Longrightarrow> payload_gone ch m'"
  unfolding payload_gone_def v1_step_def by fastforce

lemma payload_gone_exec: "mail_exec Fs m0 tr m \<Longrightarrow> payload_gone ch m0 \<Longrightarrow> payload_gone ch m"
  by (induction rule: mail_exec.induct) (metis payload_gone_step snd_conv v1_step_op)+

lemma taken_is_gone:
  assumes "mailboxes_ok m" "map_of (pending_v1 m) i = Some e"
  shows "payload_gone (v1_channel e) (take_payload i m)"
proof -
  have e: "(i, e) \<in> set (pending_v1 m)" using assms(2) by (rule map_of_SomeD)
  have "j = i" if "(j, e') \<in> set (pending_v1 m)" "v1_channel e' = v1_channel e" for j e'
  proof -
    have "distinct (map (v1_channel \<circ> snd) (pending_v1 m))" using assms(1) by (simp add: mailboxes_ok_def)
    with e that show ?thesis by (metis comp_apply distinct_map inj_onD prod.inject snd_conv)
  qed
  moreover have "v1_channel e < next_channel (channels_v1 m)"
    using assms(1) e by (auto simp: mailboxes_ok_def channels_ok_def senders_v1_def)
  ultimately show ?thesis by (auto simp: payload_gone_def take_payload_def)
qed


section \<open>Witnesses\<close>

lemma empty_mail_room_run:
  "mail_run (empty_mail_room sample_wire) ops = Some (tr, m) \<Longrightarrow>
     mail_exec {no_faults} (mailboxes_init sample_wire (disk_init ''key'' None (\<lambda>_. None)) [] 10) tr m"
  using mail_run_exec [of "empty_mail_room sample_wire" ops tr m] by (simp add: empty_mail_room_def)

lemma mailboxes_invariant_witness:
  "\<exists>m. mail_exec {no_faults} (mailboxes_init sample_wire (disk_init ''key'' None (\<lambda>_. None)) [] 10)
      [(0, OpRead ''A'', Waiting 0), (1, OpPostV2 ''B'' ''x'', Stored True)] m \<and>
    fst ` set (pending_v1 m) \<inter> fst ` set (pending_v2 m) = {} \<and> fst (await_v2 0 m) \<noteq> Panic"
proof -
  let ?ops = "[(0, OpRead ''A''), (1, OpPostV2 ''B'' ''x'')]"
  have "map_option (\<lambda>(tr, m). (tr, handles (channels_v2 m) 0)) (mail_run (empty_mail_room sample_wire) ?ops) =
      Some ([(0, OpRead ''A'', Waiting 0), (1, OpPostV2 ''B'' ''x'', Stored True)], 1)" by code_simp
  then obtain m where r: "mail_run (empty_mail_room sample_wire) ?ops =
      Some ([(0, OpRead ''A'', Waiting 0), (1, OpPostV2 ''B'' ''x'', Stored True)], m)" "handles (channels_v2 m) 0 = 1"
    by (auto simp: map_option_eq_Some)
  note e = empty_mail_room_run [OF r(1)]
  from mailboxes_invariant [OF e] e r(2) show ?thesis by (intro exI [of _ m]) simp
qed

lemma waiting_reader_served_witness:
  "\<exists>m q. mail_exec {no_faults} (mailboxes_init sample_wire (disk_init ''key'' None (\<lambda>_. None)) [] 10)
      [(0, OpRead ''A'', Waiting 0), (1, OpPostV2 ''B'' ''y'', Stored True), (2, OpPostV2 ''A'' ''x'', Stored True)] m \<and>
    fst (await_v2 0 m) = Ok q"
proof -
  let ?ops = "[(0, OpRead ''A''), (1, OpPostV2 ''B'' ''y''), (2, OpPostV2 ''A'' ''x'')]"
  let ?tr = "[(0, OpRead ''A'', Waiting 0), (1, OpPostV2 ''B'' ''y'', Stored True), (2, OpPostV2 ''A'' ''x'', Stored True)]"
  have "map_option (\<lambda>(tr, m). (tr, handles (channels_v2 m) 0)) (mail_run (empty_mail_room sample_wire) ?ops) = Some (?tr, 1)"
    by code_simp
  then obtain m where r: "mail_run (empty_mail_room sample_wire) ?ops = Some (?tr, m)" "handles (channels_v2 m) 0 = 1"
    by (auto simp: map_option_eq_Some)
  note e = empty_mail_room_run [OF r(1)]
  from waiting_reader_served [of _ _ _ _ _ "[]" 0 "''A''" 0, simplified, OF e, of 2 "''x''"] e r(2)
  show ?thesis by (intro exI [of _ m]) auto
qed


end
