(* ===== verification/PJ_Mailbox_Registers.thy ===== *)
theory PJ_Mailbox_Registers
  imports PJ_Mailbox_Facts
begin

text \<open>
  What a mailbox promises: it is a register that is written once and kept until it expires. The
  mailboxes refine such registers step by step, with any faults; without faults, and as long as
  nobody posts the same contents twice, nothing is dropped before its time.
\<close>

definition regs :: "mailboxes \<Rightarrow> short_id \<Rightarrow> (nat \<times> string) option" where
  "regs m = mailbox (persistent_storage m)"

lemma regs_same [simp]:
  "regs (notify_v2 i p m) = regs m" "regs (take_payload i m) = regs m" "regs (snd (v2_receiver i m)) = regs m"
  "regs (snd (v1_insert i p m)) = regs m" "regs (maybe_cleanup_v2_waitmap i m) = regs m" "regs (forget_v1 i m) = regs m"
  "regs (snd (post_v1_res i p m)) = regs m" "regs (snd (await_v1 ch m)) = regs m" "regs (snd (await_v2 ch m)) = regs m"
  "regs (snd (read_mailbox F i m)) = regs m"
  by (simp_all add: regs_def notify_v2_def v2_receiver_def v1_insert_def new_channel_def maybe_cleanup_v2_waitmap_def
      forget_v1_def post_v1_res_def await_v1_def await_v2_def read_mailbox_def Let_def split: option.split)

lemma order_same [simp]:
  "insert_order (notify_v2 i p m) = insert_order m" "insert_order (snd (v2_receiver i m)) = insert_order m"
  "insert_order (snd (v1_insert i p m)) = insert_order m" "insert_order (maybe_cleanup_v2_waitmap i m) = insert_order m"
  "insert_order (forget_v1 i m) = insert_order m" "insert_order (snd (post_v1_res i p m)) = insert_order m"
  "insert_order (snd (await_v1 ch m)) = insert_order m" "insert_order (snd (await_v2 ch m)) = insert_order m"
  "insert_order (snd (read_mailbox F i m)) = insert_order m"
  by (simp_all add: notify_v2_def v2_receiver_def v1_insert_def new_channel_def maybe_cleanup_v2_waitmap_def
      forget_v1_def post_v1_res_def await_v1_def await_v2_def read_mailbox_def Let_def split: option.split)

section \<open>Pruning\<close>

lemma prune_loop_mailbox:
  assumes "prune_loop F t now q d = (r, q', d')"
  shows "\<exists>pre. q = pre @ q' \<and> (\<forall>(c, i)\<in>set pre. c + t < now) \<and>
    (\<forall>i. mailbox d' i = mailbox d i \<or> mailbox d' i = None \<and> i \<in> snd ` set pre) \<and>
    (F = no_faults \<longrightarrow> (\<forall>i\<in>snd ` set pre. mailbox d' i = None))"
  using assms
proof (induction q arbitrary: d)
  case (Cons x q)
  obtain c i where x: "x = (c, i)" by (cases x)
  show ?case
  proof (cases "c + t < now")
    case True
    obtain r1 d1 where rm: "disk_remove F i d = (r1, d1)" by (cases "disk_remove F i d")
    have m1: "mailbox d1 j = (if j = i \<and> remove_fault F i = None then None else mailbox d j)" for j
      using disk_remove_mailbox [of F i d j] by (simp add: rm)
    have f: "F = no_faults \<Longrightarrow> \<exists>u. r1 = Ok u" using rm by (auto simp: disk_remove_def split: if_split_asm)
    show ?thesis
    proof (cases r1)
      case (Ok u)
      with Cons.prems x True rm have "prune_loop F t now q d1 = (r, q', d')" by simp
      from Cons.IH [OF this] obtain pre where pre: "q = pre @ q'" "\<forall>(c, i)\<in>set pre. c + t < now"
        "\<And>j. mailbox d' j = mailbox d1 j \<or> mailbox d' j = None \<and> j \<in> snd ` set pre"
        "F = no_faults \<longrightarrow> (\<forall>i\<in>snd ` set pre. mailbox d' i = None)" by blast
      have "mailbox d' j = mailbox d j \<or> mailbox d' j = None \<and> j \<in> snd ` set (x # pre)" for j
        using pre(3) [of j] m1 [of j] by (auto simp: x split: if_split_asm)
      moreover have "F = no_faults \<longrightarrow> (\<forall>j\<in>snd ` set (x # pre). mailbox d' j = None)"
        using pre(3) [of i] pre(4) m1 [of i] by (auto simp: x)
      ultimately show ?thesis using x True pre(1,2) by (intro exI [of _ "x # pre"]) simp
    next
      case (Err e)
      with Cons.prems x True rm f m1 show ?thesis by (intro exI [of _ "[x]"]) auto
    next
      case Panic
      with Cons.prems x True rm f m1 show ?thesis by (intro exI [of _ "[x]"]) auto
    qed
  next
    case False
    with Cons.prems x show ?thesis by (intro exI [of _ "[]"]) simp
  qed
qed simp

lemma prune_regs:
  "\<exists>pre. insert_order m = pre @ insert_order (snd (prune F now m)) \<and> (\<forall>(c, i)\<in>set pre. c + ttl m < now) \<and>
     (\<forall>i. regs (snd (prune F now m)) i = regs m i \<or> regs (snd (prune F now m)) i = None \<and> i \<in> snd ` set pre) \<and>
     (F = no_faults \<longrightarrow> (\<forall>i\<in>snd ` set pre. regs (snd (prune F now m)) i = None))"
proof -
  obtain r q d where l: "prune_loop F (ttl m) now (insert_order m) (persistent_storage m) = (r, q, d)"
    by (metis prod.exhaust)
  have o: "insert_order (snd (prune F now m)) = q" "regs (snd (prune F now m)) = mailbox d"
    by (simp_all add: prune_def l Let_def regs_def)
  show ?thesis unfolding o using prune_loop_mailbox [OF l] by (simp only: regs_def)
qed

section \<open>Write-once registers\<close>

text \<open>One step of the registers. A post that fails late may have written all the same.\<close>

definition register_op ::
  "faults \<Rightarrow> nat \<Rightarrow> mail_op \<Rightarrow> mail_answer \<Rightarrow> (short_id \<Rightarrow> (nat \<times> string) option) \<Rightarrow> (short_id \<Rightarrow> (nat \<times> string) option) \<Rightarrow> bool" where
  "register_op F now op a R R' \<longleftrightarrow>
     (case op of
        OpPostV2 i p \<Rightarrow>
          (case a of
             Stored True \<Rightarrow> R i = None \<and> R' = R(i \<mapsto> (now, p)) \<or> (\<exists>c. R i = Some (c, p)) \<and> R' = R
           | Stored False \<Rightarrow> R' = R \<and> (F = no_faults \<longrightarrow> (\<exists>c q. R i = Some (c, q) \<and> q \<noteq> p))
           | _ \<Rightarrow> R' = R \<or> F \<noteq> no_faults \<and> R i = None \<and> R' = R(i \<mapsto> (now, p)))
      | _ \<Rightarrow> R' = R)"

definition may_expire :: "mailboxes \<Rightarrow> nat \<Rightarrow> (short_id \<Rightarrow> (nat \<times> string) option) \<Rightarrow> bool" where
  "may_expire m now R \<longleftrightarrow>
     (\<forall>i. R i = regs m i \<or> R i = None \<and> (\<exists>c. (c, i) \<in> set (insert_order m) \<and> c + ttl m < now))"

lemma prune_may_expire: "may_expire m now (regs (snd (prune F now m)))"
proof -
  from prune_regs [of m F now] obtain pre where pre: "insert_order m = pre @ insert_order (snd (prune F now m))"
    "\<forall>(c, i)\<in>set pre. c + ttl m < now"
    "\<And>i. regs (snd (prune F now m)) i = regs m i \<or> regs (snd (prune F now m)) i = None \<and> i \<in> snd ` set pre" by blast
  have "i \<in> snd ` set pre \<Longrightarrow> \<exists>c. (c, i) \<in> set (insert_order m) \<and> c + ttl m < now" for i
    using pre(1,2) by (metis (mono_tags, lifting) Un_iff case_prodD imageE prod.collapse set_append)
  with pre(3) show ?thesis unfolding may_expire_def by blast
qed

lemma may_expire_refl [simp]: "may_expire m now (regs m)"
  by (simp add: may_expire_def)

lemma try_insert_cases:
  assumes "try_insert F now i p d = (r, d')"
  shows "(\<forall>c. r = Ok (Some c) \<longrightarrow> mailbox d i = None \<and> mailbox d' = (mailbox d)(i \<mapsto> (now, p)) \<and> c = now \<or>
       mailbox d i = Some (c, p) \<and> mailbox d' = mailbox d) \<and>
    (r = Ok None \<longrightarrow> mailbox d' = mailbox d \<and> (F = no_faults \<longrightarrow> (\<exists>c q. mailbox d i = Some (c, q) \<and> q \<noteq> p))) \<and>
    (\<forall>e. r = Err e \<longrightarrow> mailbox d' = mailbox d \<or> F \<noteq> no_faults \<and> mailbox d i = None \<and> mailbox d' = (mailbox d)(i \<mapsto> (now, p)))"
proof (cases "files d i")
  case None
  then show ?thesis using assms
    by (auto simp: try_insert_def contains_key_def Let_def split: option.splits if_split_asm)
next
  case (Some x)
  obtain c b where "x = (c, b)" by (cases x)
  with Some show ?thesis using assms
    by (auto simp: try_insert_def contains_key_def disk_get_def mailbox_def split: option.splits if_split_asm)
qed

section \<open>The refinement\<close>

lemma if_capacity_regs:
  assumes "if_capacity F now f m = (r, m')"
  obtains "m' = snd (prune F now m)" "\<And>a. r \<noteq> Ok a" | "f (snd (prune F now m)) = (r, m')"
  using if_capacity_cases [of F now f m] assms by (metis fst_conv snd_conv)

lemma post_v2_register:
  assumes "post_v2 F now i p m = (r, m')" and R: "R = regs (snd (prune F now m))"
  shows "(\<forall>x. r = Ok (Some x) \<longrightarrow> R i = None \<and> regs m' = R(i \<mapsto> (now, p)) \<or> (\<exists>c. R i = Some (c, p)) \<and> regs m' = R) \<and>
    (r = Ok None \<longrightarrow> regs m' = R \<and> (F = no_faults \<longrightarrow> (\<exists>c q. R i = Some (c, q) \<and> q \<noteq> p))) \<and>
    ((\<forall>x. r \<noteq> Ok x) \<longrightarrow> regs m' = R \<or> F \<noteq> no_faults \<and> R i = None \<and> regs m' = R(i \<mapsto> (now, p)))"
proof -
  let ?m = "snd (prune F now m)"
  from assms(1) [unfolded post_v2_def] show ?thesis
  proof (cases rule: if_capacity_regs)
    case 1
    then show ?thesis by (simp add: R)
  next
    case 2
    obtain r1 d where t: "try_insert F now i p (persistent_storage ?m) = (r1, d)" by force
    note c = try_insert_cases [OF t, folded regs_def]
    have "r1 \<noteq> Panic" using try_insert_not_Panic [of F now i p "persistent_storage ?m"] by (simp add: t)
    moreover have "regs (?m\<lparr>persistent_storage := d\<rparr>) = mailbox d"
      "regs (?m\<lparr>persistent_storage := d, insert_order := q\<rparr>) = mailbox d" for q by (simp_all add: regs_def)
    ultimately show ?thesis using 2 c t unfolding R by (cases r1) (auto split: option.splits)
  qed
qed

lemma only_prunes:
  assumes "\<And>m. regs (snd (f m)) = regs m"
  shows "may_expire m now (regs (snd (if_capacity F now f m)))"
  by (cases rule: if_capacity_cases [of F now f m]) (simp_all add: prune_may_expire assms)

lemma wait_v2_regs: "may_expire m now (regs (snd (wait_v2 F now i m)))"
  unfolding wait_v2_def by (rule only_prunes) (simp add: case_prod_unfold Let_def split: option.split)

lemma post_v1_regs: "may_expire m now (regs (snd (post_v1_req_and_wait F now i p m)))"
  unfolding post_v1_req_and_wait_def by (rule only_prunes) (simp add: case_prod_unfold Let_def)

lemma read_or_wait_regs: "may_expire m now (regs (snd (read_or_wait F now i m)))"
proof -
  have "may_expire m now R" if "may_expire (snd (read_mailbox F i m)) now R" for R
  proof -
    have "ttl (snd (read_mailbox F i m)) = ttl m" by (simp add: read_mailbox_def split: option.split)
    with that show ?thesis by (simp add: may_expire_def)
  qed
  with wait_v2_regs show ?thesis by (simp add: read_or_wait_state)
qed

lemma read_payload:
  assumes "mail_step F now (OpRead i) m = (Payload q, m')"
  shows "(\<exists>c. regs m i = Some (c, q)) \<or> (\<exists>e. map_of (pending_v1 m) i = Some e \<and> v1_payload e = Some q)"
proof -
  from assms obtain x where "read_or_wait F now i m = (Ok x, m')" "(case x of Inl p \<Rightarrow> Payload p | Inr c \<Rightarrow> Waiting c) = Payload q"
    by (auto simp: case_prod_unfold Let_def answer_eq prod_eq_iff)
  then have "read_or_wait F now i m = (Ok (Inl q), m')" by (cases x) auto
  then have "fst (read_mailbox F i m) = Ok (Some q)"
    by (auto simp: read_or_wait_def Let_def rmap_eq_Ok split: prod.splits res.splits option.splits)
  then show ?thesis
    by (auto simp: read_mailbox_def rmap_eq_Ok regs_def map_option_eq_Some eq_commute [of "Some q"] split: option.splits)
qed

text \<open>C7: A mailbox is a register that is written once and may expire. Whatever the interleaving, the times and
  the faults of the disk, every operation first lets some expired mailboxes go and then does what
  it would to registers: only a version 2 post writes, only into an empty mailbox and only its own
  contents; it answers that it stored them exactly when the mailbox holds them now; contents that
  differ from what is there are turned down. A reader gets what the register holds, or the request
  of a version 1 sender who is waiting.\<close>

theorem mailboxes_refine_registers:
  assumes "mail_step F now op m = (a, m')"
  shows "(\<exists>R. may_expire m now R \<and> register_op F now op a R (regs m')) \<and>
    (\<forall>i q. op = OpRead i \<and> a = Payload q \<longrightarrow>
       (\<exists>c. regs m i = Some (c, q)) \<or> (\<exists>e. map_of (pending_v1 m) i = Some e \<and> v1_payload e = Some q))"
proof -
  have "\<exists>R. may_expire m now R \<and> register_op F now op a R (regs m')"
  proof (cases op)
    case (OpPostV2 i p)
    obtain r m1 where r: "post_v2 F now i p m = (r, m1)" by force
    have "x \<noteq> None \<longleftrightarrow> x = Some ()" for x :: "unit option" by (cases x) auto
    with post_v2_register [OF r refl] assms have "register_op F now op a (regs (snd (prune F now m))) (regs m')"
      by (cases r; cases "res_val r") (auto simp: OpPostV2 r register_op_def post_v2_payload_def answer_def)
    then show ?thesis using prune_may_expire by blast
  qed (use assms wait_v2_regs post_v1_regs prune_may_expire read_or_wait_regs in
      \<open>auto simp: register_op_def case_prod_unfold Let_def post_v1_response_def\<close>)
  with read_payload assms show ?thesis by blast
qed

section \<open>Kept until expiry\<close>

text \<open>The queue holds exactly the mailboxes, each once, with the time they were written.\<close>

definition tracked :: "mailboxes \<Rightarrow> bool" where
  "tracked m \<longleftrightarrow> distinct (map snd (insert_order m)) \<and>
     (\<forall>i c. (c, i) \<in> set (insert_order m) \<longleftrightarrow> (\<exists>p. regs m i = Some (c, p)))"

definition stored_ids :: "(nat \<times> mail_op \<times> mail_answer) list \<Rightarrow> short_id list" where
  "stored_ids tr = concat (map (\<lambda>(t, op, a). case op of OpPostV2 i p \<Rightarrow> (if a = Stored True then [i] else []) | _ \<Rightarrow> []) tr)"

lemma stored_ids_append [simp]: "stored_ids (tr1 @ tr2) = stored_ids tr1 @ stored_ids tr2"
  by (simp add: stored_ids_def)

lemma stored_ids_simps [simp]:
  "stored_ids [] = []" "stored_ids ((t, OpPostV2 i p, Stored True) # tr) = i # stored_ids tr"
  by (simp_all add: stored_ids_def)

text \<open>What an operation other than a post does to the store: nothing, or pruning.\<close>

definition store_view :: "mailboxes \<Rightarrow> (nat \<times> short_id) list \<times> (short_id \<Rightarrow> (nat \<times> string) option)" where
  "store_view m = (insert_order m, regs m)"

lemma if_capacity_view:
  assumes "\<And>m. store_view (snd (f m)) = store_view m"
  shows "store_view (snd (if_capacity F now f m)) = store_view (snd (prune F now m))"
  by (cases rule: if_capacity_cases [of F now f m]) (simp_all add: assms)

lemma wait_v2_view: "store_view (snd (wait_v2 F now i m)) = store_view (snd (prune F now m))"
  unfolding wait_v2_def
  by (rule if_capacity_view) (simp add: store_view_def case_prod_unfold Let_def split: option.split)

lemma post_v1_view: "store_view (snd (post_v1_req_and_wait F now i p m)) = store_view (snd (prune F now m))"
  unfolding post_v1_req_and_wait_def
  by (rule if_capacity_view) (simp add: store_view_def case_prod_unfold Let_def)

lemma prune_view_cong:
  assumes "store_view m1 = store_view m" "persistent_storage m1 = persistent_storage m" "ttl m1 = ttl m"
  shows "store_view (snd (prune F now m1)) = store_view (snd (prune F now m))"
  using assms by (simp add: store_view_def prune_def Let_def regs_def case_prod_unfold)

lemma step_view:
  assumes "\<And>i p. op \<noteq> OpPostV2 i p"
  shows "store_view (snd (mail_step F now op m)) \<in> {store_view m, store_view (snd (prune F now m))}"
proof (cases op)
  case (OpRead i)
  have "store_view (snd (prune F now (snd (read_mailbox F i m)))) = store_view (snd (prune F now m))"
    by (rule prune_view_cong) (simp_all add: store_view_def read_mailbox_def split: option.split)
  moreover have "store_view (snd (read_mailbox F i m)) = store_view m" by (simp add: store_view_def)
  ultimately show ?thesis by (simp add: OpRead read_or_wait_state case_prod_unfold Let_def wait_v2_view)
qed (use assms in \<open>simp_all add: case_prod_unfold Let_def post_v1_view post_v1_response_def\<close>,
    simp_all add: store_view_def)

lemma post_view:
  assumes "post_v2 no_faults now i p m = (r, m')"
  shows "(\<forall>x. r = Ok (Some x) \<longrightarrow> (\<exists>c. insert_order m' = insert_order (snd (prune no_faults now m)) @ [(c, i)] \<and> regs m' i = Some (c, p))) \<and>
    ((\<forall>x. r \<noteq> Ok (Some x)) \<longrightarrow> store_view m' = store_view (snd (prune no_faults now m)))"
proof -
  let ?m = "snd (prune no_faults now m)"
  from assms [unfolded post_v2_def] show ?thesis
  proof (cases rule: if_capacity_regs)
    case 1
    then show ?thesis by simp
  next
    case 2
    obtain r1 d where t: "try_insert no_faults now i p (persistent_storage ?m) = (r1, d)" by force
    have "r1 \<noteq> Panic" using try_insert_not_Panic [of no_faults now i p "persistent_storage ?m"] by (simp add: t)
    then show ?thesis using 2 try_insert_cases [OF t] t
      by (cases r1) (auto simp: store_view_def regs_def [of ?m] regs_def [of "?m\<lparr>persistent_storage := _\<rparr>"]
          regs_def [of "?m\<lparr>persistent_storage := _, insert_order := _\<rparr>"] split: option.splits)
  qed
qed

text \<open>Pruning keeps the queue exact and drops only what has expired.\<close>

lemma prune_tracked:
  assumes "tracked m" and "store_view m' = store_view (snd (prune no_faults now m))"
  shows "tracked m'" and "regs m j = Some (c, p) \<Longrightarrow> now \<le> c + ttl m \<Longrightarrow> regs m' j = Some (c, p)"
    and "regs m' j \<noteq> None \<Longrightarrow> regs m' j = regs m j"
proof -
  have v: "insert_order m' = insert_order (snd (prune no_faults now m))" "regs m' = regs (snd (prune no_faults now m))"
    using assms(2) by (simp_all add: store_view_def)
  from prune_regs [of m no_faults now, folded v] obtain pre where p: "insert_order m = pre @ insert_order m'"
    "\<forall>(c, i)\<in>set pre. c + ttl m < now" "\<forall>i. regs m' i = regs m i \<or> regs m' i = None \<and> i \<in> snd ` set pre"
    "\<forall>i\<in>snd ` set pre. regs m' i = None" by blast
  have pre: "insert_order m = pre @ insert_order m'" "\<And>c i. (c, i) \<in> set pre \<Longrightarrow> c + ttl m < now"
    "\<And>i. regs m' i = regs m i \<or> regs m' i = None \<and> i \<in> snd ` set pre" "\<And>i. i \<in> snd ` set pre \<Longrightarrow> regs m' i = None"
    using p by (blast, blast, blast, metis)
  have d: "distinct (map snd (insert_order m'))" "snd ` set pre \<inter> snd ` set (insert_order m') = {}"
    using assms(1) by (auto simp: tracked_def pre(1))
  have t: "\<And>i c. (c, i) \<in> set pre \<or> (c, i) \<in> set (insert_order m') \<longleftrightarrow> (\<exists>p. regs m i = Some (c, p))"
    using assms(1) by (simp add: tracked_def pre(1))
  have "(c, i) \<in> set (insert_order m') \<longleftrightarrow> (\<exists>p. regs m' i = Some (c, p))" for c i
  proof (cases "i \<in> snd ` set pre")
    case True
    then show ?thesis using d(2) pre(4) by force
  next
    case False
    then have "(c, i) \<notin> set pre" "regs m' i = regs m i" using pre(3) by force+
    then show ?thesis using t by auto
  qed
  with d(1) show "tracked m'" by (simp add: tracked_def)
  show "regs m' j = Some (c, p)" if "regs m j = Some (c, p)" "now \<le> c + ttl m"
  proof -
    have "c' = c" if "(c', j) \<in> set pre" for c' using t [where i = j and c = c'] that \<open>regs m j = Some (c, p)\<close> by auto
    then have "j \<notin> snd ` set pre" using pre(2) that(2) by fastforce
    then show ?thesis using pre(3) [of j] that(1) by simp
  qed
  show "regs m' j = regs m j" if "regs m' j \<noteq> None" using pre(3) [of j] that by auto
qed

lemma tracked_step:
  assumes "tracked m" and "mail_step no_faults now op m = (a, m')"
    and "\<And>i p. op = OpPostV2 i p \<Longrightarrow> a = Stored True \<Longrightarrow> regs m i = None"
  shows "tracked m' \<and> (\<forall>j c p. regs m j = Some (c, p) \<longrightarrow> now \<le> c + ttl m \<longrightarrow> regs m' j = Some (c, p)) \<and>
    (\<forall>j. regs m' j \<noteq> None \<longrightarrow> regs m j \<noteq> None \<or> (\<exists>p. op = OpPostV2 j p \<and> a = Stored True))"
proof (cases "\<exists>i p. op = OpPostV2 i p \<and> a = Stored True")
  case True
  then obtain i p where i: "op = OpPostV2 i p" "a = Stored True" by blast
  let ?m = "snd (prune no_faults now m)"
  note k = prune_tracked [OF assms(1) refl, where now = now]
  have post: "post_v2 no_faults now i p m = (Ok (Some ()), m')" using assms(2) by (simp only: i stored_iff if_True)
  have e: "regs m i = None" by (rule assms(3) [OF i])
  then have e': "regs ?m i = None" using k(3) by fastforce
  obtain c where c: "insert_order m' = insert_order ?m @ [(c, i)]" "regs m' i = Some (c, p)"
    using post_view [OF post] by auto
  have "regs m' = (regs ?m)(i \<mapsto> (now, p))" using post_v2_register [OF post refl] e' by auto
  then have r: "regs m' j = (if j = i then Some (c, p) else regs ?m j)" for j using c(2) by auto
  have "i \<notin> snd ` set (insert_order ?m)" using k(1) e' by (auto simp: tracked_def)
  then have "tracked m'" using k(1) by (auto simp: tracked_def c(1) r e')
  moreover have "regs m' j = Some (c', p')" if "regs m j = Some (c', p')" "now \<le> c' + ttl m" for j c' p'
    using k(2) [OF that] e that(1) by (auto simp: r)
  moreover have "regs m j \<noteq> None \<or> j = i" if "regs m' j \<noteq> None" for j
    using that k(3) [of j] by (auto simp: r split: if_split_asm)
  ultimately show ?thesis using i by blast
next
  case False
  have "store_view m' \<in> {store_view m, store_view (snd (prune no_faults now m))}"
  proof (cases "\<exists>i p. op = OpPostV2 i p")
    case True
    then obtain i p where i: "op = OpPostV2 i p" by blast
    obtain r m1 where r1: "post_v2 no_faults now i p m = (r, m1)" by force
    with assms(2) have r: "post_v2 no_faults now i p m = (r, m')" and a: "a = answer (\<lambda>x. Stored (x \<noteq> None)) (map_err db_error_from r)"
      by (simp_all add: i post_v2_payload_def)
    have "r \<noteq> Ok (Some x)" for x using False a i by (auto simp: answer_def)
    with post_view [OF r] show ?thesis by simp
  next
    case other: False
    then show ?thesis using step_view [of op no_faults now m] assms(2) by simp
  qed
  then show ?thesis
  proof (elim insertE emptyE)
    assume "store_view m' = store_view m"
    then show ?thesis using assms(1) by (simp add: store_view_def tracked_def)
  next
    assume v: "store_view m' = store_view (snd (prune no_faults now m))"
    from prune_tracked [OF assms(1) v] show ?thesis by metis
  qed
qed

text \<open>As long as nothing is stored twice under one identifier.\<close>

lemma tracked_exec:
  assumes "mail_exec {no_faults} m0 tr m" "tracked m0" "distinct (stored_ids tr)" "\<forall>j\<in>set (stored_ids tr). regs m0 j = None"
  shows "tracked m \<and> (\<forall>j. regs m j \<noteq> None \<longrightarrow> regs m0 j \<noteq> None \<or> j \<in> set (stored_ids tr)) \<and>
    (\<forall>j c p. regs m0 j = Some (c, p) \<longrightarrow> (\<forall>(t, op, a)\<in>set tr. t \<le> c + ttl m0) \<longrightarrow> regs m j = Some (c, p))"
  using assms
proof (induction rule: mail_exec.induct)
  case (exec_step tr m F op now a m')
  have step: "mail_step no_faults now op m = (a, m')" using exec_step.hyps by simp
  have ih: "tracked m" "\<And>j. regs m j \<noteq> None \<Longrightarrow> regs m0 j \<noteq> None \<or> j \<in> set (stored_ids tr)"
    "\<And>j c p. regs m0 j = Some (c, p) \<Longrightarrow> \<forall>(t, op, a)\<in>set tr. t \<le> c + ttl m0 \<Longrightarrow> regs m j = Some (c, p)"
    using exec_step.IH [OF exec_step.prems(1)] exec_step.prems(2,3) unfolding stored_ids_append distinct_append set_append
    by blast+
  have "regs m i = None" if "op = OpPostV2 i p" "a = Stored True" for i p
    by (rule ccontr) (use ih(2) [of i] exec_step.prems(2,3) that in auto)
  then have T: "tracked m' \<and> (\<forall>j c p. regs m j = Some (c, p) \<longrightarrow> now \<le> c + ttl m \<longrightarrow> regs m' j = Some (c, p)) \<and>
    (\<forall>j. regs m' j \<noteq> None \<longrightarrow> regs m j \<noteq> None \<or> (\<exists>p. op = OpPostV2 j p \<and> a = Stored True))"
    by (rule tracked_step [OF ih(1) step])
  note s = T [THEN conjunct1] T [THEN conjunct2, THEN conjunct1, rule_format] T [THEN conjunct2, THEN conjunct2, rule_format]
  have t: "ttl m = ttl m0" using exec_len [OF exec_step.hyps(1)] by simp
  have "regs m0 j \<noteq> None \<or> j \<in> set (stored_ids (tr @ [(now, op, a)]))" if "regs m' j \<noteq> None" for j
    using s(3) [OF that] ih(2) [of j] by auto
  moreover have "regs m' j = Some (c, p)"
    if "regs m0 j = Some (c, p)" "\<forall>(t, op, a)\<in>set (tr @ [(now, op, a)]). t \<le> c + ttl m0" for j c p
  proof (rule s(2))
    show "regs m j = Some (c, p)" by (rule ih(3)) (use that in auto)
  qed (use that t in auto)
  ultimately show ?case using s(1) by blast
qed simp

lemma stored_mailbox:
  assumes "tracked m" "regs m i = None" "mail_step no_faults now (OpPostV2 i p) m = (Stored True, m')"
  shows "regs m' i = Some (now, p)"
proof -
  have "regs (snd (prune no_faults now m)) i = None"
    using prune_tracked(3) [OF assms(1) refl, where j = i and now = now] assms(2) by fastforce
  moreover have "post_v2 no_faults now i p m = (Ok (Some ()), m')" using assms(3) by (simp only: stored_iff if_True)
  ultimately show ?thesis using post_v2_register [OF _ refl, of no_faults now i p m] by auto
qed

text \<open>What was stored stays until it expires. With a working disk, and when nothing is stored twice under the
  same identifier, a mailbox that was written at time \<open>c\<close> still holds its contents after any run
  whose times are at most \<open>c + ttl\<close>, and a reader gets them (or the request of a version 1 sender who is
  waiting).\<close>

theorem mail_kept_until_expiry:
  assumes "mail_exec {no_faults} m0 (tr1 @ (c, OpPostV2 i p, Stored True) # tr2) m"
    and "tracked m0" and "distinct (stored_ids (tr1 @ (c, OpPostV2 i p, Stored True) # tr2))"
    and "\<forall>j\<in>set (stored_ids (tr1 @ (c, OpPostV2 i p, Stored True) # tr2)). regs m0 j = None"
    and "\<forall>(t, op, a)\<in>set tr2. t \<le> c + ttl m0"
  shows "regs m i = Some (c, p) \<and>
    fst (read_mailbox no_faults i m) =
      Ok (Some (case map_option v1_payload (map_of (pending_v1 m) i) of Some (Some q) \<Rightarrow> q | _ \<Rightarrow> p))"
proof -
  from assms(1) obtain m1 where m1: "mail_exec {no_faults} m0 tr1 m1" "mail_exec {no_faults} m1 ((c, OpPostV2 i p, Stored True) # tr2) m"
    by (rule mail_exec_appendE)
  from m1(2) obtain F m2 where "F \<in> {no_faults}" and m2: "mail_step F c (OpPostV2 i p) m1 = (Stored True, m2)" "mail_exec {no_faults} m2 tr2 m"
    by (rule mail_exec_Cons)
  then have post: "mail_step no_faults c (OpPostV2 i p) m1 = (Stored True, m2)" by simp
  have t1: "tracked m1" "\<And>j. regs m1 j \<noteq> None \<Longrightarrow> regs m0 j \<noteq> None \<or> j \<in> set (stored_ids tr1)"
    using tracked_exec [OF m1(1) assms(2)] assms(3,4) by auto
  have "regs m1 i = None" using t1(2) [of i] assms(3,4) by auto
  note w = stored_mailbox [OF t1(1) this post]
  have t2: "tracked m2" "\<And>j. regs m2 j \<noteq> None \<Longrightarrow> regs m1 j \<noteq> None \<or> j = i"
    using tracked_step [OF t1(1) post] \<open>regs m1 i = None\<close> by blast+
  have "regs m2 j = None" if "j \<in> set (stored_ids tr2)" for j
  proof (rule ccontr)
    assume "regs m2 j \<noteq> None"
    then have "regs m0 j \<noteq> None \<or> j \<in> set (stored_ids tr1) \<or> j = i" using t1(2) t2(2) by blast
    with that assms(3,4) show False by auto
  qed
  moreover have "ttl m2 = ttl m0" using exec_len [OF m1(1)] step_len [of no_faults c "OpPostV2 i p" m1] post by (metis snd_conv)
  ultimately have r: "regs m i = Some (c, p)" using tracked_exec [OF m2(2) t2(1)] assms(3,5) w by auto
  then have "rmap (map_option snd) (disk_get no_faults (persistent_storage m) i) = Ok (Some p)"
    by (simp add: rmap_eq_Ok regs_def)
  with r show ?thesis by (simp add: read_mailbox_def split: option.split)
qed

section \<open>Witnesses\<close>

lemma empty_regs: "regs (empty_mail_room W) i = None" "insert_order (empty_mail_room W) = []" "ttl (empty_mail_room W) = 10"
  by (simp_all add: regs_def empty_mail_room_def mailboxes_init_def disk_init_def disk_insert_order_def)

lemma empty_tracked: "tracked (empty_mail_room W)"
  by (simp add: tracked_def empty_regs)

lemma mailboxes_refine_registers_witness:
  "\<exists>m'. mail_step no_faults 3 (OpPostV2 ''A'' ''x'') (empty_mail_room sample_wire) = (Stored True, m') \<and>
     regs m' = (\<lambda>_. None)(''A'' \<mapsto> (3, ''x''))"
proof -
  have "fst (mail_step no_faults 3 (OpPostV2 ''A'' ''x'') (empty_mail_room sample_wire)) = Stored True" by code_simp
  then obtain m' where m: "mail_step no_faults 3 (OpPostV2 ''A'' ''x'') (empty_mail_room sample_wire) = (Stored True, m')"
    by (metis prod.collapse)
  from mailboxes_refine_registers [OF m] obtain R where
    "may_expire (empty_mail_room sample_wire) 3 R" "register_op no_faults 3 (OpPostV2 ''A'' ''x'') (Stored True) R (regs m')" by blast
  then have "R = (\<lambda>_. None)" "regs m' = R(''A'' \<mapsto> (3, ''x'')) \<or> (\<exists>c. R ''A'' = Some (c, ''x''))"
    by (auto simp: may_expire_def empty_regs register_op_def)
  with m show ?thesis by auto
qed

lemma mail_kept_until_expiry_witness:
  "\<exists>m. mail_exec {no_faults} (empty_mail_room sample_wire)
      [(0, OpPostV2 ''B'' ''y'', Stored True), (5, OpPostV2 ''A'' ''x'', Stored True), (12, OpPrune, Done)] m \<and>
    regs m ''A'' = Some (5, ''x'')"
proof -
  let ?ops = "[(0, OpPostV2 ''B'' ''y''), (5, OpPostV2 ''A'' ''x''), (12, OpPrune)]"
  let ?tr = "[(0, OpPostV2 ''B'' ''y'', Stored True), (5, OpPostV2 ''A'' ''x'', Stored True), (12, OpPrune, Done)]"
  have "map_option fst (mail_run (empty_mail_room sample_wire) ?ops) = Some ?tr" by code_simp
  then obtain m where "mail_run (empty_mail_room sample_wire) ?ops = Some (?tr, m)" by (auto simp: map_option_eq_Some)
  then have "mail_exec {no_faults} (empty_mail_room sample_wire) ?tr m" by (rule mail_run_exec)
  then have e: "mail_exec {no_faults} (empty_mail_room sample_wire)
      ([(0, OpPostV2 ''B'' ''y'', Stored True)] @ (5, OpPostV2 ''A'' ''x'', Stored True) # [(12, OpPrune, Done)]) m"
    by simp
  have "regs m ''A'' = Some (5, ''x'')"
    by (rule mail_kept_until_expiry [OF e, THEN conjunct1]) (simp_all add: empty_tracked empty_regs stored_ids_def)
  with e show ?thesis by (intro exI [of _ m]) simp
qed

end
