(* ===== verification/PJ_Mail_Db.thy ===== *)
theory PJ_Mail_Db
  imports PJ_Mailbox_Registers
begin

text \<open>
  The interface between the directory and its database, the trait \<open>Db\<close> of
  \<open>payjoin-mailroom/src/db/mod.rs\<close>, with the implementation on files, the service adapter and the
  decorator that records metrics. What a client of the interface relies on is the locale
  \<open>mail_store\<close>; every implementation is an interpretation of it.
\<close>

record 's mail_db =
  db_post_v2_payload :: "short_id \<Rightarrow> string \<Rightarrow> 's \<Rightarrow> (unit option, db_error) res \<times> 's"
  db_wait_for_v2_payload :: "short_id \<Rightarrow> 's \<Rightarrow> (string, db_error) res \<times> 's"
  db_post_v1_response :: "short_id \<Rightarrow> string \<Rightarrow> 's \<Rightarrow> (unit, db_error) res \<times> 's"
  db_post_v1_request :: "short_id \<Rightarrow> string \<Rightarrow> 's \<Rightarrow> (string, db_error) res \<times> 's"

text \<open>\<open>FilesDb\<close>, at a time, with the faults of the disk and with what other tasks do while a call waits.\<close>

definition files_db :: "faults \<Rightarrow> nat \<Rightarrow> (mailboxes \<Rightarrow> mailboxes) \<Rightarrow> (mailboxes \<Rightarrow> mailboxes) \<Rightarrow> mailboxes mail_db" where
  "files_db F now others others' =
     \<lparr>db_post_v2_payload = post_v2_payload F now,
      db_wait_for_v2_payload = wait_for_v2_payload F now others others',
      db_post_v1_response = post_v1_response,
      db_post_v1_request = post_v1_request_and_wait_for_response F now others others'\<rparr>"

section \<open>The service adapter\<close>

datatype db_request =
  PostV2Payload short_id string | WaitForV2Payload short_id | PostV1Response short_id string
| PostV1RequestAndWaitForResponse short_id string

datatype db_response =
  PostV2PayloadDone "unit option" | WaitForV2PayloadDone string | PostV1ResponseDone unit
| PostV1RequestAndWaitForResponseDone string

fun db_call :: "'s mail_db \<Rightarrow> db_request \<Rightarrow> 's \<Rightarrow> (db_response, db_error) res \<times> 's" where
  "db_call D (PostV2Payload i p) s = (let (r, s') = db_post_v2_payload D i p s in (rmap PostV2PayloadDone r, s'))"
| "db_call D (WaitForV2Payload i) s = (let (r, s') = db_wait_for_v2_payload D i s in (rmap WaitForV2PayloadDone r, s'))"
| "db_call D (PostV1Response i p) s = (let (r, s') = db_post_v1_response D i p s in (rmap PostV1ResponseDone r, s'))"
| "db_call D (PostV1RequestAndWaitForResponse i p) s =
     (let (r, s') = db_post_v1_request D i p s in (rmap PostV1RequestAndWaitForResponseDone r, s'))"

definition invalid_response :: "string \<Rightarrow> db_error" where
  "invalid_response operation = Operational (''invalid db response for operation '' @ operation)"

definition db_service_adapter :: "'s mail_db \<Rightarrow> 's mail_db" where
  "db_service_adapter D =
     \<lparr>db_post_v2_payload = (\<lambda>i p s. let (r, s') = db_call D (PostV2Payload i p) s in
        (rbind r (\<lambda>response. case response of PostV2PayloadDone x \<Rightarrow> Ok x
           | _ \<Rightarrow> Err (invalid_response ''post_v2_payload'')), s')),
      db_wait_for_v2_payload = (\<lambda>i s. let (r, s') = db_call D (WaitForV2Payload i) s in
        (rbind r (\<lambda>response. case response of WaitForV2PayloadDone x \<Rightarrow> Ok x
           | _ \<Rightarrow> Err (invalid_response ''wait_for_v2_payload'')), s')),
      db_post_v1_response = (\<lambda>i p s. let (r, s') = db_call D (PostV1Response i p) s in
        (rbind r (\<lambda>response. case response of PostV1ResponseDone x \<Rightarrow> Ok x
           | _ \<Rightarrow> Err (invalid_response ''post_v1_response'')), s')),
      db_post_v1_request = (\<lambda>i p s. let (r, s') = db_call D (PostV1RequestAndWaitForResponse i p) s in
        (rbind r (\<lambda>response. case response of PostV1RequestAndWaitForResponseDone x \<Rightarrow> Ok x
           | _ \<Rightarrow> Err (invalid_response ''post_v1_request_and_wait_for_response'')), s'))\<rparr>"

lemma unwrap_response: "(\<And>x. g (f x) = Ok x) \<Longrightarrow> rbind (rmap f r) g = r"
  by (cases r) simp_all

text \<open>The service answers every request with its own kind of response: the adapter changes nothing.\<close>

lemma db_service_adapter_transparent [simp]: "db_service_adapter D = D"
proof (rule mail_db.equality)
  show "db_post_v2_payload (db_service_adapter D) = db_post_v2_payload D"
    "db_wait_for_v2_payload (db_service_adapter D) = db_wait_for_v2_payload D"
    "db_post_v1_response (db_service_adapter D) = db_post_v1_response D"
    "db_post_v1_request (db_service_adapter D) = db_post_v1_request D"
    by (simp_all add: db_service_adapter_def fun_eq_iff case_prod_unfold Let_def unwrap_response)
qed simp

section \<open>The metrics decorator\<close>

datatype payjoin_version = VersionOne | VersionTwo

datatype metric = RecordShortId short_id | RecordDbEntry payjoin_version

definition metrics_db :: "'s mail_db \<Rightarrow> ('s \<times> metric list) mail_db" where
  "metrics_db D =
     \<lparr>db_post_v2_payload = (\<lambda>i p (s, ms). let (r, s') = db_post_v2_payload D i p s in
        (r, s', ms @ [RecordShortId i] @ (case r of Ok (Some _) \<Rightarrow> [RecordDbEntry VersionTwo] | _ \<Rightarrow> []))),
      db_wait_for_v2_payload = (\<lambda>i (s, ms). let (r, s') = db_wait_for_v2_payload D i s in (r, s', ms @ [RecordShortId i])),
      db_post_v1_response = (\<lambda>i p (s, ms). let (r, s') = db_post_v1_response D i p s in (r, s', ms @ [RecordShortId i])),
      db_post_v1_request = (\<lambda>i p (s, ms). let (r, s') = db_post_v1_request D i p s in
        (r, s', ms @ [RecordShortId i] @ (case r of Ok _ \<Rightarrow> [RecordDbEntry VersionOne] | _ \<Rightarrow> [])))\<rparr>"

text \<open>The database that the mail room is started with.\<close>

definition mail_room_db :: "faults \<Rightarrow> nat \<Rightarrow> (mailboxes \<Rightarrow> mailboxes) \<Rightarrow> (mailboxes \<Rightarrow> mailboxes) \<Rightarrow> (mailboxes \<times> metric list) mail_db" where
  "mail_room_db F now others others' = metrics_db (db_service_adapter (files_db F now others others'))"

section \<open>What clients rely on\<close>

text \<open>
  \<open>store\<close> is what is in a mailbox, \<open>plain\<close> whether a version 1 sender is waiting there. What was stored is
  in the mailbox, what was turned down differs from what is there, and a reader of a mailbox with
  contents gets them at once.
\<close>

locale mail_store =
  fixes D :: "'s mail_db" and store :: "'s \<Rightarrow> short_id \<Rightarrow> string option" and plain :: "'s \<Rightarrow> short_id \<Rightarrow> bool"
  assumes stored: "db_post_v2_payload D i p s = (Ok (Some u), s') \<Longrightarrow> store s' i = Some p"
    and turned_down: "db_post_v2_payload D i p s = (Ok None, s') \<Longrightarrow> \<exists>q. store s' i = Some q \<and> q \<noteq> p"
    and fetched: "store s i = Some p \<Longrightarrow> \<not> plain s i \<Longrightarrow> fst (db_wait_for_v2_payload D i s) = Ok p \<and>
        store (snd (db_wait_for_v2_payload D i s)) = store s \<and> plain (snd (db_wait_for_v2_payload D i s)) = plain s"
begin

text \<open>An answered post leaves its contents in the mailbox exactly if it was not turned down.\<close>

lemma answered_post: "db_post_v2_payload D i p s = (Ok x, s') \<Longrightarrow> store s' i = Some p \<longleftrightarrow> x \<noteq> None"
  using stored [of i p s] turned_down [of i p s] by (cases x) fastforce+

lemma post_then_fetch:
  assumes "db_post_v2_payload D i p s = (Ok (Some u), s')" and "\<not> plain s' i"
  shows "fst (db_wait_for_v2_payload D i s') = Ok p"
  using fetched [OF stored [OF assms(1)] assms(2)] by simp

text \<open>Readers do not use mail up: a second reader gets the same.\<close>

lemma fetch_again:
  assumes "store s i = Some p" and "\<not> plain s i"
  shows "fst (db_wait_for_v2_payload D i (snd (db_wait_for_v2_payload D i s))) = Ok p"
  using fetched [OF assms] assms by (intro fetched [THEN conjunct1]) simp_all

end

text \<open>The decorator keeps the contract.\<close>

lemma metrics_keeps_contract:
  assumes "mail_store D store plain"
  shows "mail_store (metrics_db D) (\<lambda>(s, ms). store s) (\<lambda>(s, ms). plain s)"
  using mail_store.stored [OF assms] mail_store.turned_down [OF assms] mail_store.fetched [OF assms]
  by unfold_locales (auto simp: metrics_db_def Let_def case_prod_unfold prod_eq_iff)

section \<open>The files keep the contract\<close>

definition mail_contents :: "mailboxes \<Rightarrow> short_id \<Rightarrow> string option" where
  "mail_contents m i = map_option snd (regs m i)"

definition plaintext_waiting :: "mailboxes \<Rightarrow> short_id \<Rightarrow> bool" where
  "plaintext_waiting m i \<longleftrightarrow> Option.bind (map_of (pending_v1 m) i) v1_payload \<noteq> None"

interpretation files: mail_store "files_db no_faults now others others'" mail_contents plaintext_waiting
proof unfold_locales
  fix i p s u s'
  assume "db_post_v2_payload (files_db no_faults now others others') i p s = (Ok (Some u), s')"
  then have "post_v2 no_faults now i p s = (Ok (Some u), s')"
    by (auto simp: files_db_def post_v2_payload_def Let_def split: prod.splits)
  from post_v2_register [OF this refl] show "mail_contents s' i = Some p" by (auto simp: mail_contents_def)
next
  fix i p s s'
  assume "db_post_v2_payload (files_db no_faults now others others') i p s = (Ok None, s')"
  then have "post_v2 no_faults now i p s = (Ok None, s')"
    by (auto simp: files_db_def post_v2_payload_def Let_def split: prod.splits)
  from post_v2_register [OF this refl] show "\<exists>q. mail_contents s' i = Some q \<and> q \<noteq> p" by (auto simp: mail_contents_def)
next
  fix s i p
  assume a: "mail_contents s i = Some p" "\<not> plaintext_waiting s i"
  then obtain c where "mailbox (persistent_storage s) i = Some (c, p)" by (auto simp: mail_contents_def regs_def)
  then have "rmap (map_option snd) (disk_get no_faults (persistent_storage s) i) = Ok (Some p)" by (simp add: rmap_eq_Ok)
  with a(2) have "read_mailbox no_faults i s = (Ok (Some p), s)"
    by (auto simp: read_mailbox_def plaintext_waiting_def split: option.split)
  then have "db_wait_for_v2_payload (files_db no_faults now others others') i s = (Ok p, s)"
    by (simp add: files_db_def wait_for_v2_payload_def read_or_wait_def)
  then show "fst (db_wait_for_v2_payload (files_db no_faults now others others') i s) = Ok p \<and>
      mail_contents (snd (db_wait_for_v2_payload (files_db no_faults now others others') i s)) = mail_contents s \<and>
      plaintext_waiting (snd (db_wait_for_v2_payload (files_db no_faults now others others') i s)) = plaintext_waiting s"
    by simp
qed

interpretation room: mail_store "mail_room_db no_faults now others others'"
    "\<lambda>(m, ms). mail_contents m" "\<lambda>(m, ms). plaintext_waiting m"
  unfolding mail_room_db_def db_service_adapter_transparent
  by (rule metrics_keeps_contract) unfold_locales

end
