(* ===== verification/PJ_Directory.thy ===== *)
theory PJ_Directory
  imports PJ_Mail_Db PJ_Errors
begin

text \<open>
  The directory of the mail room: \<open>payjoin-mailroom/src/directory.rs\<close> and
  \<open>ohttp_relay/sentinel.rs\<close>.

  The crates \<open>ohttp\<close>, \<open>bhttp\<close> and \<open>http\<close> on the server's side are the record \<open>gateway_api\<close>. A body that
  cannot be collected is \<open>None\<close>. The errors carry texts that are only logged; they are left out. The
  handlers work on any implementation \<open>D\<close> of the database and its state \<open>m\<close>.
\<close>

record gateway_api =
  server_decapsulate :: "string \<Rightarrow> nat + string \<times> nat"
  server_encapsulate :: "nat \<Rightarrow> string \<Rightarrow> nat + string"
  server_config_encode :: "nat + string"
  read_request :: "string \<Rightarrow> nat + (string option \<times> string option \<times> string option \<times> string option) \<times> (string \<times> string) list \<times> string"
  build_request :: "string \<Rightarrow> string \<Rightarrow> string \<Rightarrow> string \<Rightarrow> (string \<times> string) list \<Rightarrow> nat + string \<times> string"
  write_response :: "nat \<Rightarrow> (string \<times> string) list \<Rightarrow> string \<Rightarrow> nat + string"

record http_response =
  rs_status :: nat
  rs_headers :: "(string \<times> string) list"
  rs_body :: string

definition with_status :: "nat \<Rightarrow> http_response" where
  "with_status n = \<lparr>rs_status = n, rs_headers = [], rs_body = []\<rparr>"

definition with_body :: "nat \<Rightarrow> string \<Rightarrow> http_response" where
  "with_body n b = \<lparr>rs_status = n, rs_headers = [], rs_body = b\<rparr>"

definition with_type :: "nat \<Rightarrow> string \<Rightarrow> string \<Rightarrow> http_response" where
  "with_type n t b = \<lparr>rs_status = n, rs_headers = [(''content-type'', t)], rs_body = b\<rparr>"

lemmas response_defs = with_status_def with_body_def with_type_def

definition chacha20_poly1305_nonce_len :: nat where "chacha20_poly1305_nonce_len = 32"

definition bhttp_req_bytes :: nat where
  "bhttp_req_bytes = encapsulated_message_bytes - (chacha20_poly1305_nonce_len + poly1305_tag_size)"

definition v1_max_buffer_size :: nat where "v1_max_buffer_size = 65536"

text \<open>The braces are doubled in the source, which is a raw string and not a format.\<close>

definition v1_reject_res_json :: string where
  "v1_reject_res_json = ''{{\"errorCode\": \"original-psbt-rejected \", \"message\": \"Body is not a string\"}}''"

definition v1_unavailable_res_json :: string where
  "v1_unavailable_res_json =
     ''{{\"errorCode\": \"unavailable\", \"message\": \"V2 receiver offline. V1 sends require synchronous communications.\"}}''"

definition v1_version_unsupported_res_json :: string where
  "v1_version_unsupported_res_json =
     ''{\"errorCode\": \"version-unsupported\", \"supported\": [2], \"message\": \"V1 is not supported\"}''"

definition ohttp_key_rejection_res_json :: string where
  "ohttp_key_rejection_res_json =
     ''{\"type\":\"https://iana.org/assignments/http-problem-types#ohttp-key\", \"title\": \"key identifier unknown\"}''"

datatype handler_error =
  HandlerPayloadTooLarge | InternalServerError | ServiceUnavailable | SenderGone | OhttpKeyRejection | BadRequest
| V1PsbtRejected | Forbidden

fun to_response :: "handler_error \<Rightarrow> http_response" where
  "to_response HandlerPayloadTooLarge = with_status 413"
| "to_response InternalServerError = with_status 500"
| "to_response ServiceUnavailable = with_status 503"
| "to_response SenderGone = with_status 410"
| "to_response OhttpKeyRejection = with_type 400 ''application/problem+json'' ohttp_key_rejection_res_json"
| "to_response BadRequest = with_status 400"
| "to_response V1PsbtRejected = with_body 400 v1_reject_res_json"
| "to_response Forbidden = with_status 403"

definition not_found :: http_response where "not_found = with_status 404"

section \<open>Screening\<close>

datatype screen_result = Blocked | Clean | ParseError

definition blocked_input :: "script set \<Rightarrow> psbt \<Rightarrow> nat \<Rightarrow> psbt_input \<Rightarrow> bool" where
  "blocked_input blocked p i input \<longleftrightarrow>
     (case witness_utxo input of Some utxo \<Rightarrow> script_pubkey utxo \<in> blocked | None \<Rightarrow> False) \<or>
     (case non_witness_utxo input of
        None \<Rightarrow> False
      | Some t \<Rightarrow>
          (case slice_get (tx_input (unsigned_tx p)) i of
             None \<Rightarrow> False
           | Some prev_out \<Rightarrow>
               (case slice_get (tx_output t) (vout (previous_output prev_out)) of
                  None \<Rightarrow> False
                | Some out \<Rightarrow> script_pubkey out \<in> blocked)))"

definition screen_v1_addresses :: "text_api \<Rightarrow> string \<Rightarrow> script set \<Rightarrow> screen_result" where
  "screen_v1_addresses T b blocked =
     (case psbt_from_str T b of
        Inl _ \<Rightarrow> ParseError
      | Inr p \<Rightarrow>
          if list_ex (\<lambda>out. script_pubkey out \<in> blocked) (tx_output (unsigned_tx p)) \<or>
             list_ex (\<lambda>(i, input). blocked_input blocked p i input) (enumerate 0 (inputs p))
          then Blocked else Clean)"

record v1_config =
  blocked_addresses :: "script set option"

definition check_v1_blocklist :: "text_api \<Rightarrow> v1_config option \<Rightarrow> string \<Rightarrow> (unit, handler_error) res" where
  "check_v1_blocklist T v1 body_str =
     (case Option.bind v1 blocked_addresses of
        None \<Rightarrow> Ok ()
      | Some scripts \<Rightarrow>
          if scripts = {} then Ok ()
          else (case screen_v1_addresses T body_str scripts of
                  Blocked \<Rightarrow> Err V1PsbtRejected
                | _ \<Rightarrow> Ok ()))"

section \<open>Mailboxes\<close>

text \<open>\<open>ShortId::from_str(id)?\<close>\<close>

definition with_short_id ::
  "wire_api \<Rightarrow> string \<Rightarrow> (short_id \<Rightarrow> 's \<Rightarrow> ('a, handler_error) res \<times> 's) \<Rightarrow> 's \<Rightarrow>
     ('a, handler_error) res \<times> 's" where
  "with_short_id W s f m =
     (case short_id_from_str W s of Ok i \<Rightarrow> f i m | Err _ \<Rightarrow> (Err BadRequest, m) | Panic \<Rightarrow> (Panic, m))"

definition handle_peek :: "(string, db_error) res \<Rightarrow> http_response \<Rightarrow> (http_response, handler_error) res" where
  "handle_peek result timeout_response =
     (case result of
        Ok payload \<Rightarrow> Ok (with_body 200 payload)
      | Err (Operational _) \<Rightarrow> Err InternalServerError
      | Err Timeout \<Rightarrow> Ok timeout_response
      | Err DbOverCapacity \<Rightarrow> Err ServiceUnavailable
      | Err DbAlreadyRead \<Rightarrow> Ok timeout_response
      | Err DbV1SenderUnavailable \<Rightarrow> Err SenderGone
      | Panic \<Rightarrow> Panic)"

definition post_mailbox ::
  "wire_api \<Rightarrow> 's mail_db \<Rightarrow> string \<Rightarrow> string \<Rightarrow> 's \<Rightarrow> (http_response, handler_error) res \<times> 's" where
  "post_mailbox W D s req = with_short_id W s (\<lambda>i m.
     if length req > v1_max_buffer_size then (Err HandlerPayloadTooLarge, m)
     else (let (r, m') = db_post_v2_payload D i req m in
           (map_err (\<lambda>_. InternalServerError) (rmap (\<lambda>_. with_status 200) r), m')))"

definition get_mailbox ::
  "wire_api \<Rightarrow> 's mail_db \<Rightarrow> string \<Rightarrow> 's \<Rightarrow>
     (http_response, handler_error) res \<times> 's" where
  "get_mailbox W D s = with_short_id W s (\<lambda>i m.
     let (r, m') = db_wait_for_v2_payload D i m in (handle_peek r (with_status 202), m'))"

definition put_payjoin_v1 ::
  "wire_api \<Rightarrow> text_api \<Rightarrow> 's mail_db \<Rightarrow> v1_config option \<Rightarrow> string \<Rightarrow> string \<Rightarrow> 's \<Rightarrow>
     (http_response, handler_error) res \<times> 's" where
  "put_payjoin_v1 W T D v1 s req = with_short_id W s (\<lambda>i m.
     if length req > v1_max_buffer_size then (Err HandlerPayloadTooLarge, m)
     else (case rbind (from_sum (\<lambda>_. BadRequest) (from_utf8 req)) (check_v1_blocklist T v1) of
             Err e \<Rightarrow> (Err e, m)
           | Panic \<Rightarrow> (Panic, m)
           | Ok _ \<Rightarrow> (let (r, m') = db_post_v1_response D i req m in
                      (map_err (\<lambda>_. BadRequest) (rmap (\<lambda>_. with_status 200) r), m'))))"

definition post_fallback_v1 ::
  "wire_api \<Rightarrow> text_api \<Rightarrow> 's mail_db \<Rightarrow> v1_config option \<Rightarrow>
     string \<Rightarrow> string \<Rightarrow> string option \<Rightarrow> 's \<Rightarrow> (http_response, handler_error) res \<times> 's" where
  "post_fallback_v1 W T D v1 s q b m =
     (case Option.bind b (\<lambda>bytes. case from_utf8 bytes of Inl _ \<Rightarrow> None | Inr body_str \<Rightarrow> Some body_str) of
        None \<Rightarrow> (Ok (with_body 400 v1_reject_res_json), m)
      | Some body_str \<Rightarrow>
          (case check_v1_blocklist T v1 body_str of
             Err e \<Rightarrow> (Err e, m)
           | Panic \<Rightarrow> (Panic, m)
           | Ok _ \<Rightarrow> with_short_id W s (\<lambda>i m.
               let (r, m') = db_post_v1_request D i (body_str @ [CHR 0x0A] @ q) m in
               (handle_peek r (with_body 503 v1_unavailable_res_json), m')) m))"

definition handle_post_v1 ::
  "wire_api \<Rightarrow> text_api \<Rightarrow> 's mail_db \<Rightarrow> v1_config option \<Rightarrow>
     string \<Rightarrow> string \<Rightarrow> string option \<Rightarrow> 's \<Rightarrow> (http_response, handler_error) res \<times> 's" where
  "handle_post_v1 W T D v1 s q b m =
     (if v1 \<noteq> None then post_fallback_v1 W T D v1 s q b m
      else (Ok (with_type 400 ''application/json'' v1_version_unsupported_res_json), m))"

section \<open>The gateway\<close>

definition handle_decapsulated_request ::
  "wire_api \<Rightarrow> text_api \<Rightarrow> 's mail_db \<Rightarrow> v1_config option \<Rightarrow>
     string \<Rightarrow> string \<Rightarrow> string \<Rightarrow> 's \<Rightarrow> (http_response, handler_error) res \<times> 's" where
  "handle_decapsulated_request W T D v1 verb target b m =
     (case split_on CHR ''/'' target of
        [e, i] \<Rightarrow>
          if e \<noteq> [] then (Ok not_found, m)
          else if verb = ''POST'' then post_mailbox W D i b m
          else if verb = ''GET'' then get_mailbox W D i m
          else if verb = ''PUT'' \<and> v1 \<noteq> None then put_payjoin_v1 W T D v1 i b m
          else (Ok not_found, m)
      | _ \<Rightarrow> (Ok not_found, m))"

text \<open>\<open>Vec::resize\<close>: what is too long is cut.\<close>

definition resize :: "nat \<Rightarrow> string \<Rightarrow> string" where
  "resize n s = take n s @ replicate (n - length s) nul"

definition decapsulate_request :: "gateway_api \<Rightarrow> string \<Rightarrow> ((string \<times> string \<times> string) \<times> nat, handler_error) res" where
  "decapsulate_request G ohttp_body =
     rbind (from_sum (\<lambda>_. OhttpKeyRejection) (server_decapsulate G ohttp_body)) (\<lambda>(bhttp_req, res_ctx).
     rbind (from_sum (\<lambda>_. BadRequest) (read_request G bhttp_req)) (\<lambda>((verb, sch, auth, target), hs, content).
     rbind (from_sum (\<lambda>_. InternalServerError) (build_request G
         (case verb of Some x \<Rightarrow> x | None \<Rightarrow> []) (case sch of Some x \<Rightarrow> x | None \<Rightarrow> [])
         (case auth of Some x \<Rightarrow> x | None \<Rightarrow> []) (case target of Some x \<Rightarrow> x | None \<Rightarrow> []) hs)) (\<lambda>(verb', path').
       Ok ((verb', path', content), res_ctx))))"

definition encapsulate_response :: "gateway_api \<Rightarrow> nat \<Rightarrow> http_response \<Rightarrow> (http_response, handler_error) res" where
  "encapsulate_response G res_ctx r =
     rbind (from_sum (\<lambda>_. InternalServerError) (write_response G (rs_status r) (rs_headers r) (rs_body r))) (\<lambda>bhttp_bytes.
     rbind (from_sum (\<lambda>_. InternalServerError) (server_encapsulate G res_ctx (resize bhttp_req_bytes bhttp_bytes))) (\<lambda>ohttp_res.
       if length ohttp_res = encapsulated_message_bytes then Ok (with_body 200 ohttp_res) else Panic))"

definition handle_ohttp_gateway ::
  "gateway_api \<Rightarrow> wire_api \<Rightarrow> text_api \<Rightarrow> 's mail_db \<Rightarrow>
     v1_config option \<Rightarrow> string option \<Rightarrow> 's \<Rightarrow> (http_response, handler_error) res \<times> 's" where
  "handle_ohttp_gateway G W T D v1 b m =
     (case rbind (ok_or BadRequest b) (decapsulate_request G) of
        Err e \<Rightarrow> (Err e, m)
      | Panic \<Rightarrow> (Panic, m)
      | Ok ((verb, target, content), res_ctx) \<Rightarrow>
          (let (r, m') = handle_decapsulated_request W T D v1 verb target content m in
           (rbind r (encapsulate_response G res_ctx), m')))"

definition get_ohttp_keys :: "gateway_api \<Rightarrow> (http_response, handler_error) res" where
  "get_ohttp_keys G =
     rmap (with_type 200 ''application/ohttp-keys'') (from_sum (\<lambda>_. InternalServerError) (server_config_encode G))"

definition bip77_purpose :: string where
  "bip77_purpose = ''BIP77 454403bb-9f7b-4385-b31f-acd2dae20b7e''"

definition get_ohttp_allowed_purposes :: http_response where
  "get_ohttp_allowed_purposes =
     with_type 200 ''application/x-ohttp-allowed-purposes'' ([CHR 0x00, CHR 0x01, CHR 0x2a] @ bip77_purpose)"

definition handle_ohttp_gateway_get :: "gateway_api \<Rightarrow> string \<Rightarrow> (http_response, handler_error) res" where
  "handle_ohttp_gateway_get G q =
     (if q = ''allowed_purposes'' then Ok get_ohttp_allowed_purposes else get_ohttp_keys G)"

definition health_check :: "v1_config option \<Rightarrow> http_response" where
  "health_check v1 =
     with_type 200 ''application/json'' (''{\"versions\":'' @ (if v1 \<noteq> None then ''[1,2]'' else ''[2]'') @ ''}'')"

section \<open>Routing\<close>

text \<open>\<open>sentinel.rs\<close>: the tag in lower-case hexadecimal.\<close>

definition to_header_value :: "string \<Rightarrow> string" where
  "to_header_value tag =
     concat (map (\<lambda>c. [digit_char (of_char c div 16), digit_char (of_char c mod 16)]) tag)"

definition is_self_loop :: "string \<Rightarrow> string \<Rightarrow> bool" where
  "is_self_loop tag header_value \<longleftrightarrow> to_header_value tag = header_value"

definition allow_any_origin :: "http_response \<Rightarrow> http_response" where
  "allow_any_origin r = r\<lparr>rs_headers := filter (\<lambda>(n, _). n \<noteq> ''access-control-allow-origin'') (rs_headers r) @ [(''access-control-allow-origin'', ''*'')]\<rparr>"

record directory =
  dir_gateway :: gateway_api
  dir_sentinel_tag :: string
  dir_v1 :: "v1_config option"
  dir_home_page :: string

record incoming =
  rq_method :: string
  rq_path :: string
  rq_query :: "string option"
  rq_sentinel :: "string option"
  rq_body :: "string option"

definition route ::
  "directory \<Rightarrow> wire_api \<Rightarrow> text_api \<Rightarrow> 's mail_db \<Rightarrow>
     incoming \<Rightarrow> 's \<Rightarrow> (http_response, handler_error) res \<times> 's" where
  "route S W T D req m =
     (let G = dir_gateway S; v1 = dir_v1 S; q = (case rq_query req of Some s \<Rightarrow> s | None \<Rightarrow> []);
          verb = rq_method req; segments = split_on CHR ''/'' (rq_path req) in
      if verb = ''POST'' \<and> segments = [[], ''.well-known'', ''ohttp-gateway'']
      then handle_ohttp_gateway G W T D v1 (rq_body req) m
      else if verb = ''GET'' \<and> segments = [[], ''.well-known'', ''ohttp-gateway''] then (handle_ohttp_gateway_get G q, m)
      else if verb = ''POST'' \<and> segments = [[], []] then handle_ohttp_gateway G W T D v1 (rq_body req) m
      else if verb = ''GET'' \<and> segments = [[], ''ohttp-keys''] then (get_ohttp_keys G, m)
      else if verb = ''POST'' \<and> length segments = 2 \<and> segments ! 0 = []
      then handle_post_v1 W T D v1 (segments ! 1) q (rq_body req) m
      else if verb = ''GET'' \<and> segments = [[], ''health''] then (Ok (health_check v1), m)
      else if verb = ''GET'' \<and> segments = [[], []] then (Ok (with_type 200 ''text/html'' (dir_home_page S)), m)
      else (Ok not_found, m))"

definition serve_request ::
  "directory \<Rightarrow> wire_api \<Rightarrow> text_api \<Rightarrow> 's mail_db \<Rightarrow>
     incoming \<Rightarrow> 's \<Rightarrow> (http_response, unit) res \<times> 's" where
  "serve_request S W T D req m =
     (if (case rq_sentinel req of Some h \<Rightarrow> is_self_loop (dir_sentinel_tag S) h | None \<Rightarrow> False)
      then (Ok (to_response Forbidden), m)
      else (let (r, m') = route S W T D req m in
            (case r of
               Ok resp \<Rightarrow> Ok (allow_any_origin resp)
             | Err e \<Rightarrow> Ok (allow_any_origin (to_response e))
             | Panic \<Rightarrow> Panic, m')))"

end
