(* ===== verification/PJ_Gateway.thy ===== *)
theory PJ_Gateway
  imports PJ_Directory PJ_Receive_V1 "HOL-Library.AList"
begin

text \<open>
  The gateways that a relay forwards to: \<open>payjoin-mailroom/src/ohttp_relay/gateway_uri.rs\<close> and
  \<open>gateway_prober.rs\<close>, which finds out by a request whether a gateway wants to be used.

  The crate \<open>http\<close> is the record \<open>uri_api\<close>. Instants and durations are nanoseconds.
\<close>

record http_uri =
  uri_scheme :: "string option"
  uri_authority :: "string option"
  uri_path_and_query :: "string option"

record uri_api =
  uri_from_str :: "string \<Rightarrow> string + http_uri"
  authority_from_str :: "string \<Rightarrow> string + string"
  authority_host :: "string \<Rightarrow> string"
  authority_port :: "string \<Rightarrow> nat option"

section \<open>Gateway URIs\<close>

record gateway_uri =
  gw_scheme :: string
  gw_authority :: string

definition rfc_9540_gateway_path :: string where
  "rfc_9540_gateway_path = ''/.well-known/ohttp-gateway''"

definition allowed_purposes_path_and_query :: string where
  "allowed_purposes_path_and_query = ''/.well-known/ohttp-gateway?allowed_purposes''"

text \<open>A missing port is made explicit; only HTTP has a default port.\<close>

definition gateway_uri_new :: "uri_api \<Rightarrow> string \<Rightarrow> string \<Rightarrow> (gateway_uri, string) res" where
  "gateway_uri_new U sch auth =
     (if sch = ''http'' \<or> sch = ''https'' then
        (if authority_port U auth = None then
           rmap (\<lambda>a. \<lparr>gw_scheme = sch, gw_authority = a\<rparr>)
             (expect_sum (authority_from_str U
               (authority_host U auth @ '':'' @ show_dec (if sch = ''http'' then 80 else 443))))
         else Ok \<lparr>gw_scheme = sch, gw_authority = auth\<rparr>)
      else Err ''Unsupported URI scheme'')"

text \<open>Building a URI from a valid scheme and authority and a constant path does not fail.\<close>

definition gateway_url :: "gateway_uri \<Rightarrow> string \<Rightarrow> http_uri" where
  "gateway_url g pq = \<lparr>uri_scheme = Some (gw_scheme g), uri_authority = Some (gw_authority g), uri_path_and_query = Some pq\<rparr>"

definition to_uri :: "gateway_uri \<Rightarrow> http_uri" where "to_uri g = gateway_url g ''/''"
definition rfc_9540_url :: "gateway_uri \<Rightarrow> http_uri" where "rfc_9540_url g = gateway_url g rfc_9540_gateway_path"
definition probe_url :: "gateway_uri \<Rightarrow> http_uri" where "probe_url g = gateway_url g allowed_purposes_path_and_query"

definition gateway_try_from :: "uri_api \<Rightarrow> http_uri \<Rightarrow> (gateway_uri, string) res" where
  "gateway_try_from U u =
     (if (case uri_path_and_query u of Some pq \<Rightarrow> pq \<noteq> ''/'' | None \<Rightarrow> False)
      then Err ''URI must not contain path or query''
      else rbind (ok_or ''URI must have a scheme'' (uri_scheme u)) (\<lambda>sch.
           rbind (ok_or ''URI must have an authority'' (uri_authority u)) (\<lambda>auth. gateway_uri_new U sch auth)))"

definition gateway_from_authority :: "uri_api \<Rightarrow> string \<Rightarrow> (gateway_uri, 'e) res" where
  "gateway_from_authority U auth = (case gateway_uri_new U ''https'' auth of Ok g \<Rightarrow> Ok g | _ \<Rightarrow> Panic)"

definition gateway_from_str :: "uri_api \<Rightarrow> string \<Rightarrow> (gateway_uri, string) res" where
  "gateway_from_str U s = rbind (from_sum id (uri_from_str U s)) (gateway_try_from U)"

section \<open>Known gateways\<close>

definition secs :: "nat \<Rightarrow> nat" where "secs n = n * 10 ^ 9"

record policy =
  bip77_allowed :: bool
  expires :: nat

definition policy_always :: "nat \<Rightarrow> bool \<Rightarrow> policy" where
  "policy_always now b = \<lparr>bip77_allowed = b, expires = now + secs (30 * 365 * 24 * 60 * 60)\<rparr>"

text \<open>A probe in flight is the channel its policy will be sent on.\<close>

datatype gateway_status = InFlight nat | Known policy

text \<open>The heap is a list in the order of its pops. Entries that expire together may be in any order.\<close>

record known_gateways =
  kg_capacity :: nat
  by_url :: "(gateway_uri \<times> gateway_status) list"
  by_expiry :: "(nat \<times> gateway_uri) list"

definition default_gateway_capacity :: nat where "default_gateway_capacity = 1000"

definition no_gateways :: known_gateways where
  "no_gateways = \<lparr>kg_capacity = default_gateway_capacity, by_url = [], by_expiry = []\<rparr>"

fun prune_expired :: "nat \<Rightarrow> (nat \<times> gateway_uri) list \<Rightarrow> (gateway_uri \<times> gateway_status) list \<Rightarrow>
    (gateway_uri \<times> gateway_status) list \<times> (nat \<times> gateway_uri) list" where
  "prune_expired now [] m = (m, [])"
| "prune_expired now ((e, u) # h) m =
     (if now - e = 0 then (m, (e, u) # h) else prune_expired now h (AList.delete u m))"

definition kg_prune :: "nat \<Rightarrow> known_gateways \<Rightarrow> known_gateways" where
  "kg_prune now k = (let (m, h) = prune_expired now (by_expiry k) (by_url k) in k\<lparr>by_url := m, by_expiry := h\<rparr>)"

definition kg_get :: "nat \<Rightarrow> gateway_uri \<Rightarrow> known_gateways \<Rightarrow> gateway_status option \<times> known_gateways" where
  "kg_get now u k = (let k = kg_prune now k in (map_of (by_url k) u, k))"

definition kg_has_capacity :: "nat \<Rightarrow> known_gateways \<Rightarrow> bool \<times> known_gateways" where
  "kg_has_capacity now k = (let k = kg_prune now k in (length (by_url k) < kg_capacity k, k))"

definition no_capacity_for :: "nat \<Rightarrow> known_gateways \<Rightarrow> nat \<times> known_gateways" where
  "no_capacity_for now k =
     (let (b, k) = kg_has_capacity now k in
      (if b then 0 else case by_expiry k of [] \<Rightarrow> 0 | (e, u) # _ \<Rightarrow> e - now, k))"

text \<open>The sender of the channel \<open>ch\<close> goes to the caller.\<close>

definition allocate_in_flight :: "nat \<Rightarrow> nat \<Rightarrow> gateway_uri \<Rightarrow> known_gateways \<Rightarrow> nat option \<times> known_gateways" where
  "allocate_in_flight now ch u k =
     (let (b, k) = kg_has_capacity now k in
      if \<not> b \<or> map_of (by_url k) u \<noteq> None then (None, k)
      else (Some ch, k\<lparr>by_url := AList.update u (InFlight ch) (by_url k)\<rparr>))"

definition kg_insert :: "gateway_uri \<Rightarrow> policy \<Rightarrow> known_gateways \<Rightarrow> unit option \<times> known_gateways" where
  "kg_insert u p k =
     (case map_of (by_url k) u of
        Some (Known _) \<Rightarrow> (None, k)
      | _ \<Rightarrow> (Some (), k\<lparr>by_url := AList.update u (Known p) (by_url k),
                          by_expiry := insort_key fst (expires p, u) (by_expiry k)\<rparr>))"

section \<open>Probing\<close>

definition header :: "string \<Rightarrow> (string \<times> string) list \<Rightarrow> string option" where
  "header n hs = map_of hs n"

text \<open>The list of purposes: a count of two bytes, then each with its length in one byte.\<close>

definition unexpected_eof :: string where "unexpected_eof = ''UnexpectedEof''"

fun alpn_loop :: "nat \<Rightarrow> string \<Rightarrow> (string list \<times> string, string) res" where
  "alpn_loop 0 input = Ok ([], input)"
| "alpn_loop (Suc n) [] = Err unexpected_eof"
| "alpn_loop (Suc n) (c # input) =
     (if length input < of_char c then Err unexpected_eof
      else rmap (\<lambda>(out, rest). (take (of_char c) input # out, rest)) (alpn_loop n (drop (of_char c) input)))"

definition parse_alpn_encoded :: "string \<Rightarrow> (string list, string) res" where
  "parse_alpn_encoded input =
     (case input of
        a # b # rest \<Rightarrow>
          rbind (alpn_loop (256 * of_char a + of_char b) rest) (\<lambda>(out, rest').
            if rest' \<noteq> [] then Err unexpected_eof else Ok out)
      | _ \<Rightarrow> Err unexpected_eof)"

text \<open>The answer of a gateway, whose body may break off, or the kind of the I/O error underneath.\<close>

datatype io_error_kind = IoNotFound | IoTimedOut | IoConnectionReset | IoOther

datatype probe_answer =
  ProbeResponse nat "(string \<times> string) list" "string option"
| ProbeFailed "io_error_kind option"

definition allowed_purposes_content_type :: string where
  "allowed_purposes_content_type = ''application/x-ohttp-allowed-purposes''"

definition magic_bip77_purpose :: string where
  "magic_bip77_purpose = ''BIP77 454403bb-9f7b-4385-b31f-acd2dae20b7e''"

definition is_explicit_opt_in :: "nat \<Rightarrow> (string \<times> string) list \<Rightarrow> string option \<Rightarrow> bool" where
  "is_explicit_opt_in status hs b =
     (status = 200 \<and>
      (case b of
         None \<Rightarrow> False
       | Some bytes \<Rightarrow>
           header ''content-type'' hs = Some allowed_purposes_content_type \<and>
           (case parse_alpn_encoded bytes of
              Ok allowed_purposes \<Rightarrow> magic_bip77_purpose \<in> set allowed_purposes
            | _ \<Rightarrow> False)))"

record ttl_config =
  ttl_opt_in :: nat
  ttl_http_2xx :: nat
  ttl_http_4xx :: nat
  ttl_http_504 :: nat
  ttl_http_5xx :: nat
  ttl_dns :: nat
  ttl_reset_by_peer :: nat
  ttl_timedout :: nat
  ttl_default :: nat

definition default_ttls :: ttl_config where
  "default_ttls = (let long = secs (7 * 24 * 60 * 60); short = secs 5 in
     \<lparr>ttl_opt_in = long, ttl_http_2xx = long, ttl_http_4xx = long, ttl_http_504 = 0, ttl_http_5xx = short,
      ttl_dns = 0, ttl_reset_by_peer = 0, ttl_timedout = 0, ttl_default = short\<rparr>)"

definition max_retry_after_ttl :: nat where "max_retry_after_ttl = secs (24 * 60 * 60)"

text \<open>A number of seconds that fits 64 bits, at most a day.\<close>

definition retry_after_or :: "(string \<times> string) list \<Rightarrow> nat \<Rightarrow> nat" where
  "retry_after_or hs default_ttl =
     (case header ''retry-after'' hs of
        None \<Rightarrow> default_ttl
      | Some v \<Rightarrow> (case usize_from_str v of Ok n \<Rightarrow> min (secs n) max_retry_after_ttl | _ \<Rightarrow> default_ttl))"

definition probe :: "ttl_config \<Rightarrow> nat \<Rightarrow> probe_answer \<Rightarrow> policy" where
  "probe ttls now a =
     (case a of
        ProbeResponse status hs b \<Rightarrow>
          if 200 \<le> status \<and> status < 300 then
            (if is_explicit_opt_in status hs b
             then \<lparr>bip77_allowed = True, expires = now + ttl_opt_in ttls\<rparr>
             else \<lparr>bip77_allowed = False, expires = now + ttl_http_2xx ttls\<rparr>)
          else \<lparr>bip77_allowed = False, expires = now +
            (if status = 504 then ttl_http_504 ttls
             else if status = 429 then retry_after_or hs (ttl_http_4xx ttls)
             else if 400 \<le> status \<and> status < 500 then ttl_http_4xx ttls
             else if status = 503 then retry_after_or hs (ttl_http_5xx ttls)
             else if 500 \<le> status \<and> status < 600 then ttl_http_5xx ttls
             else ttl_default ttls)\<rparr>
      | ProbeFailed kind \<Rightarrow>
          \<lparr>bip77_allowed = False, expires = now +
            (case kind of
               Some IoNotFound \<Rightarrow> ttl_dns ttls
             | Some IoTimedOut \<Rightarrow> ttl_timedout ttls
             | Some IoConnectionReset \<Rightarrow> ttl_reset_by_peer ttls
             | _ \<Rightarrow> ttl_default ttls)\<rparr>)"

section \<open>The prober\<close>

text \<open>
  \<open>probing\<close> are the tasks that hold the sender of a channel, \<open>answered\<close> what was sent on it. Looking
  a gateway up is one section under the lock, and so is entering the policy of a probe.
\<close>

record prober =
  gateways :: known_gateways
  probing :: "(nat \<times> gateway_uri) list"
  answered :: "nat \<Rightarrow> policy option"
  next_probe :: nat

definition new_prober :: prober where
  "new_prober = \<lparr>gateways = no_gateways, probing = [], answered = (\<lambda>_. None), next_probe = 0\<rparr>"

definition assert_opt_in :: "nat \<Rightarrow> gateway_uri \<Rightarrow> prober \<Rightarrow> unit option \<times> prober" where
  "assert_opt_in now u s =
     (let (r, k) = kg_insert u (policy_always now True) (gateways s) in (r, s\<lparr>gateways := k\<rparr>))"

datatype gateway_lookup = HasPolicy policy | AwaitProbe nat | StartProbe nat | NoRoom

definition lookup_gateway :: "nat \<Rightarrow> gateway_uri \<Rightarrow> prober \<Rightarrow> gateway_lookup \<times> prober" where
  "lookup_gateway now u s =
     (let (status, k) = kg_get now u (gateways s); s = s\<lparr>gateways := k\<rparr> in
      case status of
        Some (Known p) \<Rightarrow> (HasPolicy p, s)
      | Some (InFlight ch) \<Rightarrow> (AwaitProbe ch, s)
      | None \<Rightarrow>
          (case allocate_in_flight now (next_probe s) u k of
             (None, k) \<Rightarrow> (NoRoom, s\<lparr>gateways := k\<rparr>)
           | (Some ch, k) \<Rightarrow>
               (StartProbe ch, s\<lparr>gateways := k, probing := (ch, u) # probing s, next_probe := Suc (next_probe s)\<rparr>)))"

definition finish_probe :: "nat \<Rightarrow> gateway_uri \<Rightarrow> policy \<Rightarrow> prober \<Rightarrow> prober" where
  "finish_probe ch u p s =
     s\<lparr>gateways := snd (kg_insert u p (gateways s)), answered := (answered s)(ch \<mapsto> p),
       probing := filter (\<lambda>(c, _). c \<noteq> ch) (probing s)\<rparr>"

text \<open>
  While the task waits for a probe, its own or another's, other tasks run: \<open>others\<close>. The receiver of a
  probe whose task is gone is an error, which \<open>expect\<close> turns into a panic. \<open>client\<close> sends the request.
\<close>

definition check_opt_in ::
  "ttl_config \<Rightarrow> nat \<Rightarrow> nat \<Rightarrow> (prober \<Rightarrow> prober) \<Rightarrow> (http_uri \<Rightarrow> 'c \<Rightarrow> probe_answer \<times> 'c) \<Rightarrow> gateway_uri \<Rightarrow> prober \<times> 'c \<Rightarrow>
     (policy option, 'e) res \<times> prober \<times> 'c" where
  "check_opt_in ttls now now' others client u = (\<lambda>(s, c).
     (case lookup_gateway now u s of
        (HasPolicy p, s) \<Rightarrow> (Ok (Some p), s, c)
      | (NoRoom, s) \<Rightarrow> (Ok None, s, c)
      | (AwaitProbe ch, s) \<Rightarrow>
          (let s = others s in (case answered s ch of Some p \<Rightarrow> Ok (Some p) | None \<Rightarrow> Panic, s, c))
      | (StartProbe ch, s) \<Rightarrow>
          (let (a, c) = client (probe_url u) c; p = probe ttls now' a in
           (Ok (Some p), finish_probe ch u p (others s), c))))"

definition unavailable_for :: "nat \<Rightarrow> prober \<Rightarrow> nat \<times> prober" where
  "unavailable_for now s = (let (d, k) = no_capacity_for now (gateways s) in (d, s\<lparr>gateways := k\<rparr>))"

end
