(* ===== verification/PJ_Relay.thy ===== *)
theory PJ_Relay
  imports PJ_Gateway
begin

text \<open>
  The relay of the mail room: \<open>payjoin-mailroom/src/ohttp_relay/\<close> (\<open>mod.rs\<close>, \<open>error.rs\<close>,
  \<open>bootstrap/\<close>), and how \<open>lib.rs\<close> and \<open>middleware.rs\<close> put it together with the directory.

  A request has lower-case header names; a body that cannot be collected is \<open>Inl\<close> the error. The HTTP
  client is a function on a state \<open>'c\<close> of the network: no response is an error of the connection.
\<close>

record http_request =
  rr_method :: string
  rr_uri :: http_uri
  rr_path :: string
  rr_query :: "string option"
  rr_headers :: "(string \<times> string) list"
  rr_body :: "string + string"

section \<open>Errors\<close>

datatype relay_error =
  BadGateway | MethodNotAllowed | UnsupportedMediaType | RelayBadRequest string | RelayNotFound
| RelayInternalError | Unavailable nat

fun relay_error_response :: "relay_error \<Rightarrow> http_response" where
  "relay_error_response UnsupportedMediaType = with_status 415"
| "relay_error_response BadGateway = with_status 502"
| "relay_error_response MethodNotAllowed = with_status 405"
| "relay_error_response (RelayBadRequest e) = with_body 400 e"
| "relay_error_response RelayNotFound = with_status 404"
| "relay_error_response RelayInternalError = with_status 500"
| "relay_error_response (Unavailable max_age) =
     \<lparr>rs_status = 503, rs_headers = [(''retry-after'', show_dec (max_age div 10 ^ 9))], rs_body = []\<rparr>"

section \<open>Tunnels\<close>

text \<open>The permits that are left, and the tunnels that are open. A tunnel gives its permit back when it ends.\<close>

record tunnel_limits =
  tl_permits :: nat
  tl_timeout :: nat

record tunnels =
  tn_free :: nat
  tn_open :: "gateway_uri list"
  tn_shed :: nat

definition max_concurrent_tunnels :: nat where "max_concurrent_tunnels = 1024"
definition tunnel_timeout :: nat where "tunnel_timeout = secs 60"

definition default_tunnel_limits :: tunnel_limits where
  "default_tunnel_limits = \<lparr>tl_permits = max_concurrent_tunnels, tl_timeout = tunnel_timeout\<rparr>"

definition new_tunnels :: "tunnel_limits \<Rightarrow> tunnels" where
  "new_tunnels limits = \<lparr>tn_free = tl_permits limits, tn_open = [], tn_shed = 0\<rparr>"

definition open_tunnel :: "gateway_uri \<Rightarrow> tunnels \<Rightarrow> tunnels" where
  "open_tunnel g t = t\<lparr>tn_free := tn_free t - 1, tn_open := g # tn_open t\<rparr>"

definition close_tunnel :: "gateway_uri \<Rightarrow> tunnels \<Rightarrow> tunnels" where
  "close_tunnel g t =
     (if g \<in> set (tn_open t) then t\<lparr>tn_free := Suc (tn_free t), tn_open := remove1 g (tn_open t)\<rparr> else t)"

definition connect_try_upgrade ::
  "tunnel_limits \<Rightarrow> gateway_uri \<Rightarrow> tunnels \<Rightarrow> (http_response, relay_error) res \<times> tunnels" where
  "connect_try_upgrade limits g t =
     (if tn_free t = 0 then (Err (Unavailable (tl_timeout limits)), t\<lparr>tn_shed := Suc (tn_shed t)\<rparr>)
      else (Ok (with_status 200), open_tunnel g t))"

text \<open>\<open>HeaderValue::to_str\<close>.\<close>

definition to_str :: "string \<Rightarrow> string option" where
  "to_str v = (if \<forall>c\<in>set v. (32 \<le> (of_char c :: nat) \<and> (of_char c :: nat) < 127) \<or> c = CHR 0x09 then Some v else None)"

fun contains_str :: "string \<Rightarrow> string \<Rightarrow> bool" where
  "contains_str p [] = (p = [])"
| "contains_str p (c # s) = (starts_with p (c # s) \<or> contains_str p s)"

definition is_websocket_request :: "http_request \<Rightarrow> bool" where
  "is_websocket_request req =
     ((case Option.bind (header ''connection'' (rr_headers req)) to_str of
         Some v \<Rightarrow> contains_str ''upgrade'' (map to_lower v) | None \<Rightarrow> False) \<and>
      (case Option.bind (header ''upgrade'' (rr_headers req)) to_str of
         Some v \<Rightarrow> map to_lower v = ''websocket'' | None \<Rightarrow> False) \<and>
      header ''sec-websocket-key'' (rr_headers req) \<noteq> None)"

text \<open>\<open>derive_accept_key\<close> belongs to the crate \<open>tungstenite\<close>. A permit that was taken is given back on an error.\<close>

definition ws_try_upgrade ::
  "(string \<Rightarrow> string) \<Rightarrow> tunnel_limits \<Rightarrow> http_request \<Rightarrow> gateway_uri \<Rightarrow> tunnels \<Rightarrow> (http_response, relay_error) res \<times> tunnels" where
  "ws_try_upgrade derive_accept_key limits req g t =
     (if tn_free t = 0 then (Err (Unavailable (tl_timeout limits)), t\<lparr>tn_shed := Suc (tn_shed t)\<rparr>)
      else (case header ''sec-websocket-key'' (rr_headers req) of
              None \<Rightarrow> (Err (RelayBadRequest ''Missing Sec-WebSocket-Key header''), t)
            | Some v \<Rightarrow>
                (case to_str v of
                   None \<Rightarrow> (Err (RelayBadRequest ''Invalid Sec-WebSocket-Key header''), t)
                 | Some key \<Rightarrow>
                     (Ok \<lparr>rs_status = 101, rs_headers = [(''upgrade'', ''websocket''), (''connection'', ''Upgrade''),
                            (''sec-websocket-accept'', derive_accept_key key)], rs_body = []\<rparr>,
                      open_tunnel g t))))"

definition handle_ohttp_keys ::
  "(string \<Rightarrow> string) \<Rightarrow> tunnel_limits \<Rightarrow> http_request \<Rightarrow> gateway_uri \<Rightarrow> tunnels \<Rightarrow> (http_response, relay_error) res \<times> tunnels" where
  "handle_ohttp_keys derive_accept_key limits req g t =
     (if rr_method req = ''CONNECT'' then connect_try_upgrade limits g t
      else if is_websocket_request req then ws_try_upgrade derive_accept_key limits req g t
      else (Err (RelayBadRequest ''Not a supported proxy upgrade request''), t))"

section \<open>The gateway of a request\<close>

text \<open>A slice beyond the end of the path is a panic; the second is not taken when the first matches. Paths are
  ASCII here.\<close>

definition slice_to :: "nat \<Rightarrow> string \<Rightarrow> (string, 'e) res" where
  "slice_to n s = (if n \<le> length s then Ok (take n s) else Panic)"

definition parse_gateway_uri_from_path :: "uri_api \<Rightarrow> string \<Rightarrow> gateway_uri \<Rightarrow> (gateway_uri, string) res" where
  "parse_gateway_uri_from_path U p default_gateway =
     (if p = [] \<or> p = ''/'' then Ok default_gateway
      else (let p = tl p in
        rbind (slice_to 7 p) (\<lambda>s7.
        rbind (if s7 = ''http://'' then Ok True else rmap (\<lambda>s8. s8 = ''https://'') (slice_to 8 p)) (\<lambda>has_scheme.
          if has_scheme then gateway_from_str U p
          else rbind (from_sum id (authority_from_str U p)) (gateway_from_authority U)))))"

record relay_config =
  rc_default_gateway :: gateway_uri
  rc_sentinel_tag :: string
  rc_ttls :: ttl_config
  rc_limits :: tunnel_limits

record relay_state =
  rs_prober :: prober
  rs_tunnels :: tunnels

definition payjo_in :: string where "payjo_in = ''https://payjo.in''"

text \<open>\<open>Service::new\<close>. The gateway of older clients is opted in for good.\<close>

definition relay_new :: "uri_api \<Rightarrow> nat \<Rightarrow> string \<Rightarrow> (relay_config \<times> relay_state, 'e) res" where
  "relay_new U now tag =
     (case gateway_from_str U payjo_in of
        Ok g \<Rightarrow> Ok (\<lparr>rc_default_gateway = g, rc_sentinel_tag = tag, rc_ttls = default_ttls, rc_limits = default_tunnel_limits\<rparr>,
                   \<lparr>rs_prober = snd (assert_opt_in now g new_prober), rs_tunnels = new_tunnels default_tunnel_limits\<rparr>)
      | _ \<Rightarrow> Panic)"

definition requested_gateway :: "uri_api \<Rightarrow> relay_config \<Rightarrow> http_request \<Rightarrow> (gateway_uri, relay_error) res" where
  "requested_gateway U C req =
     (if rr_method req = ''CONNECT''
      then (case uri_authority (rr_uri req) of
              Some auth \<Rightarrow> gateway_from_authority U auth
            | None \<Rightarrow> Err (RelayBadRequest ''Invalid gateway''))
      else map_err (\<lambda>_. RelayBadRequest ''Invalid gateway'')
             (parse_gateway_uri_from_path U (rr_path req) (rc_default_gateway C)))"

text \<open>\<open>parse_gateway_uri\<close>, at the times of the lookup and of the end of a probe.\<close>

definition parse_gateway_uri ::
  "uri_api \<Rightarrow> relay_config \<Rightarrow> nat \<Rightarrow> nat \<Rightarrow> (prober \<Rightarrow> prober) \<Rightarrow> (http_uri \<Rightarrow> 'c \<Rightarrow> probe_answer \<times> 'c) \<Rightarrow> http_request \<Rightarrow> prober \<times> 'c \<Rightarrow>
     (gateway_uri, relay_error) res \<times> prober \<times> 'c" where
  "parse_gateway_uri U C now now' others client req = (\<lambda>(s, c).
     (case requested_gateway U C req of
        Err e \<Rightarrow> (Err e, s, c)
      | Panic \<Rightarrow> (Panic, s, c)
      | Ok g \<Rightarrow>
          (case check_opt_in (rc_ttls C) now now' others client g (s, c) of
             (Ok (Some p), sc) \<Rightarrow> (if bip77_allowed p then Ok g else Err RelayNotFound, sc)
           | (Ok None, s, c) \<Rightarrow> (let (d, s) = unavailable_for now s in (Err (Unavailable d), s, c))
           | (Err e, sc) \<Rightarrow> (Err e, sc)
           | (Panic, sc) \<Rightarrow> (Panic, sc))))"

section \<open>Forwarding\<close>

definition expected_media_type :: string where "expected_media_type = ''message/ohttp-req''"

definition sentinel_header_name :: string where "sentinel_header_name = ''x-ohttp-self-loop-tag''"

definition into_forward_req :: "string \<Rightarrow> gateway_uri \<Rightarrow> http_request \<Rightarrow> (http_request, relay_error) res" where
  "into_forward_req tag gateway_origin req =
     (if rr_method req \<noteq> ''POST'' then Err MethodNotAllowed
      else if header ''content-type'' (rr_headers req) \<noteq> Some expected_media_type then Err UnsupportedMediaType
      else rbind (from_sum RelayBadRequest (rr_body req)) (\<lambda>bytes.
        Ok \<lparr>rr_method = ''POST'', rr_uri = rfc_9540_url gateway_origin, rr_path = rfc_9540_gateway_path, rr_query = None,
            rr_headers = [(''content-type'', expected_media_type)] @
              (case header ''content-length'' (rr_headers req) of Some n \<Rightarrow> [(''content-length'', n)] | None \<Rightarrow> []) @
              [(sentinel_header_name, to_header_value tag)],
            rr_body = Inr bytes\<rparr>))"

definition forward_request :: "(http_request \<Rightarrow> 'c \<Rightarrow> http_response option \<times> 'c) \<Rightarrow> http_request \<Rightarrow> 'c \<Rightarrow> (http_response, relay_error) res \<times> 'c" where
  "forward_request client req c = (let (r, c) = client req c in (ok_or BadGateway r, c))"

definition handle_ohttp_relay ::
  "relay_config \<Rightarrow> (http_request \<Rightarrow> 'c \<Rightarrow> http_response option \<times> 'c) \<Rightarrow> gateway_uri \<Rightarrow> http_request \<Rightarrow> 'c \<Rightarrow> (http_response, relay_error) res \<times> 'c" where
  "handle_ohttp_relay C client g req c =
     (case into_forward_req (rc_sentinel_tag C) g req of
        Ok fwd_req \<Rightarrow> forward_request client fwd_req c
      | Err e \<Rightarrow> (Err e, c)
      | Panic \<Rightarrow> (Panic, c))"

section \<open>Serving\<close>

definition handle_preflight :: http_response where
  "handle_preflight = \<lparr>rs_status = 204,
     rs_headers = [(''access-control-allow-origin'', ''*''),
       (''access-control-allow-methods'', ''CONNECT, GET, OPTIONS, POST''),
       (''access-control-allow-headers'', ''Content-Type, Content-Length'')], rs_body = []\<rparr>"

definition relay_respond :: "(http_response, relay_error) res \<Rightarrow> (http_response, 'e) res" where
  "relay_respond r =
     (case r of
        Ok x \<Rightarrow> Ok (allow_any_origin x)
      | Err e \<Rightarrow> Ok (allow_any_origin (relay_error_response e))
      | Panic \<Rightarrow> Panic)"

text \<open>What \<open>serve_ohttp_relay\<close> needs: the probe is a request of the same client.\<close>

record 'c network =
  nw_request :: "http_request \<Rightarrow> 'c \<Rightarrow> http_response option \<times> 'c"
  nw_probe :: "http_uri \<Rightarrow> 'c \<Rightarrow> probe_answer \<times> 'c"
  nw_accept_key :: "string \<Rightarrow> string"

definition serve_ohttp_relay ::
  "uri_api \<Rightarrow> relay_config \<Rightarrow> nat \<Rightarrow> nat \<Rightarrow> (prober \<Rightarrow> prober) \<Rightarrow> 'c network \<Rightarrow> http_request \<Rightarrow> relay_state \<times> 'c \<Rightarrow>
     (http_response, unit) res \<times> relay_state \<times> 'c" where
  "serve_ohttp_relay U C now now' others N req = (\<lambda>(s, c).
     if rr_method req = ''OPTIONS'' then (relay_respond (Ok handle_preflight), s, c)
     else if rr_method req = ''GET'' \<and> rr_path req = ''/health'' then (relay_respond (Ok (with_status 200)), s, c)
     else if rr_method req = ''POST'' then
       (case parse_gateway_uri U C now now' others (nw_probe N) req (rs_prober s, c) of
          (Ok g, p, c) \<Rightarrow>
            (let (r, c) = handle_ohttp_relay C (nw_request N) g req c in (relay_respond r, s\<lparr>rs_prober := p\<rparr>, c))
        | (Err e, p, c) \<Rightarrow> (relay_respond (Err e), s\<lparr>rs_prober := p\<rparr>, c)
        | (Panic, p, c) \<Rightarrow> (Panic, s\<lparr>rs_prober := p\<rparr>, c))
     else if rr_method req = ''GET'' \<or> rr_method req = ''CONNECT'' then
       (case parse_gateway_uri U C now now' others (nw_probe N) req (rs_prober s, c) of
          (Ok g, p, c) \<Rightarrow>
            (let (r, t) = handle_ohttp_keys (nw_accept_key N) (rc_limits C) req g (rs_tunnels s) in
             (relay_respond r, s\<lparr>rs_prober := p, rs_tunnels := t\<rparr>, c))
        | (Err e, p, c) \<Rightarrow> (relay_respond (Err e), s\<lparr>rs_prober := p\<rparr>, c)
        | (Panic, p, c) \<Rightarrow> (Panic, s\<lparr>rs_prober := p\<rparr>, c))
     else (relay_respond (Err RelayNotFound), s, c))"

section \<open>The mail room\<close>

definition is_relay_request :: "http_request \<Rightarrow> bool" where
  "is_relay_request req =
     (rr_method req = ''OPTIONS'' \<or> rr_method req = ''CONNECT'' \<or> (rr_method req = ''POST'' \<and> rr_path req = ''/'') \<or>
      ((rr_method req = ''POST'' \<or> rr_method req = ''GET'') \<and>
       (starts_with ''/http://'' (rr_path req) \<or> starts_with ''/https://'' (rr_path req))))"

text \<open>How the directory sees a request.\<close>

definition incoming_of :: "http_request \<Rightarrow> incoming" where
  "incoming_of req = \<lparr>rq_method = rr_method req, rq_path = rr_path req, rq_query = rr_query req,
     rq_sentinel = Option.bind (header sentinel_header_name (rr_headers req)) to_str,
     rq_body = (case rr_body req of Inl _ \<Rightarrow> None | Inr b \<Rightarrow> Some b)\<rparr>"

text \<open>A mail room: the relay, the directory and its database \<open>'s\<close>.\<close>

definition route_request ::
  "uri_api \<Rightarrow> relay_config \<Rightarrow> directory \<Rightarrow> wire_api \<Rightarrow> text_api \<Rightarrow> 's mail_db \<Rightarrow> nat \<Rightarrow> nat \<Rightarrow> (prober \<Rightarrow> prober) \<Rightarrow> 'c network \<Rightarrow>
     http_request \<Rightarrow> relay_state \<times> 's \<times> 'c \<Rightarrow> (http_response, unit) res \<times> relay_state \<times> 's \<times> 'c" where
  "route_request U C S W T D now now' others N req = (\<lambda>(s, m, c).
     if is_relay_request req
     then (let (r, s, c) = serve_ohttp_relay U C now now' others N req (s, c) in (r, s, m, c))
     else (let (r, m) = serve_request S W T D (incoming_of req) m in (r, s, m, c)))"

section \<open>Labels of the metrics\<close>

definition bech32_charset :: string where "bech32_charset = ''qpzry9x8gf2tvdw0s3jn54khce6mua7l''"

definition endpoint_label :: "string \<Rightarrow> string" where
  "endpoint_label p =
     (if p \<in> {''/'', ''/health'', ''/ohttp-keys'', ''/.well-known/ohttp-gateway''} then p
      else if (case strip_prefix ''/'' p of
                 Some segment \<Rightarrow> length segment = 13 \<and> list_all (\<lambda>b. to_lower b \<in> set bech32_charset) segment
               | None \<Rightarrow> False) then ''/{mailbox}''
      else if starts_with ''/http://'' p \<or> starts_with ''/https://'' p then ''/{gateway}''
      else ''other'')"

definition method_label :: "string \<Rightarrow> string" where
  "method_label m =
     (if m \<in> {''GET'', ''POST'', ''PUT'', ''DELETE'', ''HEAD'', ''OPTIONS'', ''CONNECT'', ''PATCH'', ''TRACE''} then m
      else ''other'')"

end
