(* ===== verification/PJ_Prober.thy ===== *)
theory PJ_Prober
  imports PJ_Gateway
begin

text \<open>
  The prober in every interleaving of the tasks that use it: what it knows of gateways is bounded and
  not out of date, it probes a gateway once at a time, and who waits for a probe gets its result.
\<close>

section \<open>Known gateways\<close>

text \<open>The heap holds exactly the known policies, each once, in the order of their expiration.\<close>

definition heap_ok :: "(nat \<times> gateway_uri) list \<Rightarrow> (gateway_uri \<times> gateway_status) list \<Rightarrow> bool" where
  "heap_ok h m \<longleftrightarrow> distinct (map fst m) \<and> sorted (map fst h) \<and> distinct (map snd h) \<and>
     (\<forall>e u. (e, u) \<in> set h \<longleftrightarrow> (\<exists>p. map_of m u = Some (Known p) \<and> expires p = e))"

definition kg_ok :: "known_gateways \<Rightarrow> bool" where
  "kg_ok k \<longleftrightarrow> heap_ok (by_expiry k) (by_url k) \<and> length (by_url k) \<le> kg_capacity k"

definition unexpired :: "nat \<Rightarrow> gateway_status option \<Rightarrow> gateway_status option" where
  "unexpired now st = (case st of Some (Known p) \<Rightarrow> if now \<le> expires p then st else None | _ \<Rightarrow> st)"

lemma unexpired_eq_Some: "unexpired now st = Some x \<longleftrightarrow> st = Some x \<and> (\<forall>p. x = Known p \<longrightarrow> now \<le> expires p)"
  by (auto simp: unexpired_def split: option.splits gateway_status.splits)

lemma heap_known: "heap_ok h m \<Longrightarrow> (e, u) \<in> set h \<longleftrightarrow> (\<exists>p. map_of m u = Some (Known p) \<and> expires p = e)"
  by (simp only: heap_ok_def)

lemma heap_pop:
  assumes "heap_ok ((e, u) # h) m"
  shows "heap_ok h (AList.delete u m)"
proof -
  have "u \<notin> snd ` set h" using assms by (simp add: heap_ok_def)
  have "(e', v) \<in> set h \<longleftrightarrow> (\<exists>p. map_of (AList.delete u m) v = Some (Known p) \<and> expires p = e')" for e' v
  proof (cases "v = u")
    case True
    then show ?thesis using \<open>u \<notin> snd ` set h\<close> by (force simp: delete_conv')
  next
    case False
    have "(e', v) \<in> set h \<longleftrightarrow> (e', v) \<in> set ((e, u) # h)" using False by simp
    also have "\<dots> \<longleftrightarrow> (\<exists>p. map_of m v = Some (Known p) \<and> expires p = e')" using heap_known [OF assms] by blast
    finally show ?thesis using False by (simp add: delete_conv')
  qed
  with assms show ?thesis by (simp add: heap_ok_def distinct_delete)
qed

lemma prune_expired_ok:
  assumes "heap_ok h m" and "prune_expired now h m = (m', h')"
  shows "heap_ok h' m' \<and> length m' \<le> length m \<and> (\<forall>v. map_of m' v = unexpired now (map_of m v))"
  using assms
proof (induction now h m rule: prune_expired.induct)
  case (1 now m)
  then have "map_of m v \<noteq> Some (Known p)" for v p using heap_known [of "[]" m] by (metis empty_iff list.set(1))
  then have "map_of m v = unexpired now (map_of m v)" for v by (auto simp: unexpired_def split: option.split gateway_status.split)
  with 1 show ?case by simp
next
  case (2 now e u h m)
  show ?case
  proof (cases "now - e = 0")
    case True
    have "now \<le> expires p" if "map_of m v = Some (Known p)" for v p
    proof -
      have "(expires p, v) \<in> set ((e, u) # h)" using heap_known [OF 2(2)] that by blast
      moreover have "sorted (map fst ((e, u) # h))" using 2(2) by (simp only: heap_ok_def)
      ultimately have "e \<le> expires p" by auto
      with True show ?thesis by simp
    qed
    then have "map_of m v = unexpired now (map_of m v)" for v by (auto simp: unexpired_def split: option.split gateway_status.split)
    with True 2(2,3) show ?thesis by simp
  next
    case False
    with 2(1) [OF False heap_pop [OF 2(2)]] 2(3)
    have ih: "heap_ok h' m'" "length m' \<le> length (AList.delete u m)" "\<And>v. map_of m' v = unexpired now (map_of (AList.delete u m) v)"
      by simp_all
    obtain p where "map_of m u = Some (Known p)" "expires p = e" using heap_known [OF 2(2), of e u] by auto
    then have "unexpired now (map_of (AList.delete u m) v) = unexpired now (map_of m v)" for v
      using False by (simp add: delete_conv' unexpired_def)
    with ih show ?thesis using length_delete_le [of u m] by (simp add: le_trans)
  qed
qed

lemma kg_prune_ok:
  assumes "kg_ok k"
  shows "kg_ok (kg_prune now k) \<and> kg_capacity (kg_prune now k) = kg_capacity k \<and>
    (\<forall>u. map_of (by_url (kg_prune now k)) u = unexpired now (map_of (by_url k) u))"
proof -
  obtain m h where p: "prune_expired now (by_expiry k) (by_url k) = (m, h)" by (meson surj_pair)
  with prune_expired_ok [OF _ p] assms show ?thesis by (auto simp: kg_ok_def kg_prune_def)
qed

lemma length_update: "length (AList.update u x m) = (if map_of m u = None then Suc (length m) else length m)"
  by (induction m) auto

text \<open>An entry that is not known yet replaces the one in flight, or is new.\<close>

lemma heap_ok_in_flight:
  assumes "heap_ok h m" and "\<And>p. map_of m u \<noteq> Some (Known p)"
  shows "heap_ok h (AList.update u (InFlight ch) m)"
  using assms unfolding heap_ok_def by (auto simp: distinct_update update_conv')

lemma kg_allocate_ok:
  assumes "kg_ok k" and "allocate_in_flight now ch u k = (r, k')"
  shows "kg_ok k' \<and> kg_capacity k' = kg_capacity k \<and>
    (r = None \<and> map_of (by_url k') = (\<lambda>v. unexpired now (map_of (by_url k) v)) \<or>
     r = Some ch \<and> unexpired now (map_of (by_url k) u) = None \<and>
     map_of (by_url k') = (\<lambda>v. unexpired now (map_of (by_url k) v))(u \<mapsto> InFlight ch))"
proof -
  let ?k = "kg_prune now k"
  note p = kg_prune_ok [OF assms(1), of now]
  show ?thesis
  proof (cases "length (by_url ?k) < kg_capacity ?k \<and> map_of (by_url ?k) u = None")
    case True
    then have "kg_ok (?k\<lparr>by_url := AList.update u (InFlight ch) (by_url ?k)\<rparr>)"
      using p by (auto simp: kg_ok_def length_update intro: heap_ok_in_flight)
    with True assms(2) p show ?thesis
      by (auto simp: allocate_in_flight_def kg_has_capacity_def Let_def update_conv' fun_eq_iff)
  next
    case False
    with assms(2) p show ?thesis by (auto simp: allocate_in_flight_def kg_has_capacity_def Let_def fun_eq_iff split: if_split_asm)
  qed
qed

lemma distinct_snd_insort: "u \<notin> snd ` set h \<Longrightarrow> distinct (map snd h) \<Longrightarrow> distinct (map snd (insort_key fst (e, u) h))"
  by (induction h) (auto simp: set_insort_key)

lemma kg_insert_ok:
  assumes "kg_ok k" and "map_of (by_url k) u = Some (InFlight ch)"
  shows "kg_ok (snd (kg_insert u p k)) \<and> kg_capacity (snd (kg_insert u p k)) = kg_capacity k \<and>
    map_of (by_url (snd (kg_insert u p k))) = (map_of (by_url k))(u \<mapsto> Known p)"
proof -
  have h: "heap_ok (by_expiry k) (by_url k)" using assms(1) by (simp add: kg_ok_def)
  have "u \<notin> snd ` set (by_expiry k)" using heap_known [OF h, of _ u] assms(2) by auto
  then have "distinct (map snd (insort_key fst (expires p, u) (by_expiry k)))"
    using h by (simp add: heap_ok_def distinct_snd_insort)
  moreover have "(e, v) \<in> set (insort_key fst (expires p, u) (by_expiry k)) \<longleftrightarrow>
      (\<exists>q. ((map_of (by_url k))(u \<mapsto> Known p)) v = Some (Known q) \<and> expires q = e)" for e v
    using \<open>u \<notin> snd ` set (by_expiry k)\<close> heap_known [OF h, of e v] by (cases "v = u") (force simp: set_insort_key)+
  ultimately have "heap_ok (insort_key fst (expires p, u) (by_expiry k)) (AList.update u (Known p) (by_url k))"
    using h unfolding heap_ok_def update_conv' by (simp add: distinct_update sorted_insort_key)
  then show ?thesis using assms by (simp add: kg_insert_def kg_ok_def length_update update_conv')
qed

section \<open>Runs\<close>

text \<open>
  A task looks a gateway up, a task whose probe is back enters any policy it found, a task is dropped,
  as it is when its client disconnects.
\<close>

datatype prober_op = OpLookup gateway_uri | OpFinish nat gateway_uri policy | OpDropTask nat

fun prober_step :: "nat \<Rightarrow> prober_op \<Rightarrow> prober \<Rightarrow> gateway_lookup option \<times> prober" where
  "prober_step now (OpLookup u) s = (let (l, s') = lookup_gateway now u s in (Some l, s'))"
| "prober_step now (OpFinish ch u p) s = (None, finish_probe ch u p s)"
| "prober_step now (OpDropTask ch) s = (None, s\<lparr>probing := filter (\<lambda>(c, _). c \<noteq> ch) (probing s)\<rparr>)"

fun prober_enabled :: "prober \<Rightarrow> prober_op \<Rightarrow> bool" where
  "prober_enabled s (OpFinish ch u p) \<longleftrightarrow> (ch, u) \<in> set (probing s)"
| "prober_enabled s _ \<longleftrightarrow> True"

type_synonym prober_trace = "(nat \<times> prober_op \<times> gateway_lookup option) list"

inductive prober_exec :: "prober \<Rightarrow> prober_trace \<Rightarrow> prober \<Rightarrow> bool" for s0 :: prober where
  prober_start: "prober_exec s0 [] s0"
| prober_more: "prober_exec s0 tr s \<Longrightarrow> prober_enabled s op \<Longrightarrow> prober_step now op s = (a, s') \<Longrightarrow>
    prober_exec s0 (tr @ [(now, op, a)]) s'"

definition dropped :: "prober_trace \<Rightarrow> nat set" where
  "dropped tr = {ch. \<exists>t a. (t, OpDropTask ch, a) \<in> set tr}"

text \<open>\<open>found tr ch u\<close> are the policies that probes on the channel \<open>ch\<close> found for \<open>u\<close>.\<close>

definition found :: "prober_trace \<Rightarrow> nat \<Rightarrow> gateway_uri \<Rightarrow> policy set" where
  "found tr ch u = {p. \<exists>t a. (t, OpFinish ch u p, a) \<in> set tr}"

definition prober_ok :: "prober \<Rightarrow> bool" where
  "prober_ok s \<longleftrightarrow> kg_ok (gateways s) \<and> distinct (map fst (probing s)) \<and>
     (\<forall>(ch, u)\<in>set (probing s). map_of (by_url (gateways s)) u = Some (InFlight ch) \<and> ch < next_probe s \<and> answered s ch = None) \<and>
     (\<forall>ch. next_probe s \<le> ch \<longrightarrow> answered s ch = None) \<and>
     (\<forall>u ch. map_of (by_url (gateways s)) u = Some (InFlight ch) \<longrightarrow> ch < next_probe s)"

text \<open>The state of a channel that a lookup of \<open>u\<close> gave out.\<close>

definition probe_state :: "prober_trace \<Rightarrow> prober \<Rightarrow> nat \<Rightarrow> gateway_uri \<Rightarrow> bool" where
  "probe_state tr s ch u \<longleftrightarrow> (ch, u) \<in> set (probing s) \<or> ch \<in> dropped tr \<or> (\<exists>p\<in>found tr ch u. answered s ch = Some p)"

lemma unexpired_idem [simp]: "unexpired now (unexpired now st) = unexpired now st"
  by (simp add: unexpired_def split: option.split gateway_status.split)

text \<open>A lookup finds what is known, waits, or starts a probe; either way only expired policies go.\<close>

lemma lookup_spec:
  assumes "kg_ok (gateways s)" and "lookup_gateway now u s = (l, s')"
  shows "kg_ok (gateways s') \<and> kg_capacity (gateways s') = kg_capacity (gateways s) \<and> answered s' = answered s \<and>
    (probing s' = probing s \<and> next_probe s' = next_probe s \<and>
       map_of (by_url (gateways s')) = (\<lambda>v. unexpired now (map_of (by_url (gateways s)) v)) \<and>
       (l = NoRoom \<or> (\<exists>ch. l = AwaitProbe ch \<and> map_of (by_url (gateways s)) u = Some (InFlight ch)) \<or>
         (\<exists>p. l = HasPolicy p \<and> now \<le> expires p)) \<or>
     l = StartProbe (next_probe s) \<and> probing s' = (next_probe s, u) # probing s \<and> next_probe s' = Suc (next_probe s) \<and>
       unexpired now (map_of (by_url (gateways s)) u) = None \<and>
       map_of (by_url (gateways s')) = (\<lambda>v. unexpired now (map_of (by_url (gateways s)) v))(u \<mapsto> InFlight (next_probe s)))"
proof -
  let ?k = "kg_prune now (gateways s)"
  note k = kg_prune_ok [OF assms(1), of now]
  then have k': "kg_ok ?k" "kg_capacity ?k = kg_capacity (gateways s)"
    "map_of (by_url ?k) = (\<lambda>v. unexpired now (map_of (by_url (gateways s)) v))" by (simp_all add: fun_eq_iff)
  show ?thesis
  proof (cases "map_of (by_url ?k) u")
    case (Some st)
    then have "unexpired now (map_of (by_url (gateways s)) u) = Some st" by (simp add: k'(3))
    with Some assms(2) k' show ?thesis
      by (cases st) (auto simp: lookup_gateway_def kg_get_def Let_def unexpired_eq_Some)
  next
    case None
    obtain r k2 where r: "allocate_in_flight now (next_probe s) u ?k = (r, k2)" by (meson surj_pair)
    have "l = (case r of None \<Rightarrow> NoRoom | Some ch \<Rightarrow> StartProbe ch)" "gateways s' = k2" "answered s' = answered s"
      "r = None \<Longrightarrow> probing s' = probing s \<and> next_probe s' = next_probe s"
      "r \<noteq> None \<Longrightarrow> probing s' = (the r, u) # probing s \<and> next_probe s' = Suc (next_probe s)"
      using assms(2) None by (auto simp: lookup_gateway_def kg_get_def Let_def r split: option.splits)
    with kg_allocate_ok [OF k'(1) r] k'(2) show ?thesis by (auto simp: k'(3))
  qed
qed

lemma unexpired_in_flight [simp]: "unexpired now (Some (InFlight ch)) = Some (InFlight ch)"
  "unexpired now st = Some (InFlight ch) \<longleftrightarrow> st = Some (InFlight ch)"
  by (auto simp: unexpired_def split: option.split gateway_status.split)

lemma prober_okD:
  assumes "prober_ok s"
  shows "kg_ok (gateways s)" "distinct (map fst (probing s))"
    "(ch, u) \<in> set (probing s) \<Longrightarrow> map_of (by_url (gateways s)) u = Some (InFlight ch) \<and> ch < next_probe s \<and> answered s ch = None"
    "next_probe s \<le> ch \<Longrightarrow> answered s ch = None"
    "map_of (by_url (gateways s)) u = Some (InFlight ch) \<Longrightarrow> ch < next_probe s"
  using assms by (auto simp: prober_ok_def)

lemma prober_ok_lookup:
  assumes ok: "prober_ok s" and l: "lookup_gateway now u s = (l, s')"
  shows "prober_ok s'"
proof -
  note L = lookup_spec [OF prober_okD(1) [OF ok] l]
  from L consider (old) "probing s' = probing s" "next_probe s' = next_probe s"
      "map_of (by_url (gateways s')) = (\<lambda>v. unexpired now (map_of (by_url (gateways s)) v))"
    | (new) "probing s' = (next_probe s, u) # probing s" "next_probe s' = Suc (next_probe s)"
      "unexpired now (map_of (by_url (gateways s)) u) = None"
      "map_of (by_url (gateways s')) = (\<lambda>v. unexpired now (map_of (by_url (gateways s)) v))(u \<mapsto> InFlight (next_probe s))"
    by (elim conjE disjE) (assumption | rule that(1) | rule that(2))+
  then show ?thesis
  proof cases
    case old
    then show ?thesis using L ok by (auto simp: prober_ok_def)
  next
    case new
    have "map_of (by_url (gateways s)) u \<noteq> Some (InFlight ch)" for ch using new(3) by auto
    then have "v \<noteq> u" if "(ch, v) \<in> set (probing s)" for ch v using prober_okD(3) [OF ok that] by auto
    moreover have "next_probe s \<notin> fst ` set (probing s)" using prober_okD(3) [OF ok] by fastforce
    ultimately show ?thesis using L ok new(1,2,4) unfolding prober_ok_def by (auto simp: less_Suc_eq split: if_split_asm)
  qed
qed

lemma prober_ok_finish:
  assumes ok: "prober_ok s" and "(ch, u) \<in> set (probing s)"
  shows "prober_ok (finish_probe ch u p s) \<and> kg_capacity (gateways (finish_probe ch u p s)) = kg_capacity (gateways s)"
proof -
  have fl: "map_of (by_url (gateways s)) u = Some (InFlight ch)" "ch < next_probe s" using prober_okD(3) [OF assms] by simp_all
  note i = kg_insert_ok [OF prober_okD(1) [OF ok] fl(1), of p]
  have "v \<noteq> u" if "(c, v) \<in> set (probing s)" "c \<noteq> ch" for c v using prober_okD(3) [OF ok that(1)] fl(1) that(2) by auto
  then show ?thesis using ok i fl(2) unfolding prober_ok_def finish_probe_def
    by (auto simp: distinct_map_filter split: if_split_asm)
qed

lemma prober_ok_step:
  assumes "prober_ok s" and "prober_enabled s op" and "prober_step now op s = (a, s')"
  shows "prober_ok s' \<and> kg_capacity (gateways s') = kg_capacity (gateways s)"
proof (cases op)
  case (OpLookup u)
  obtain l where l: "lookup_gateway now u s = (l, s')" using assms(3) OpLookup by (auto split: prod.splits)
  from lookup_spec [OF prober_okD(1) [OF assms(1)] l] prober_ok_lookup [OF assms(1) l] show ?thesis by blast
next
  case (OpFinish ch u p)
  then show ?thesis using assms prober_ok_finish by auto
next
  case (OpDropTask ch)
  then show ?thesis using assms by (auto simp: prober_ok_def distinct_map_filter)
qed

text \<open>The channels that lookups gave out, and those in the map.\<close>

lemma probe_state_step:
  assumes ok: "prober_ok s" and en: "prober_enabled s op" and step: "prober_step now op s = (a, s')"
    and st: "probe_state tr s ch u"
  shows "probe_state (tr @ [(now, op, a)]) s' ch u"
proof -
  have m: "dropped tr \<subseteq> dropped (tr @ [(now, op, a)])" "found tr ch u \<subseteq> found (tr @ [(now, op, a)]) ch u"
    by (auto simp: dropped_def found_def)
  show ?thesis
  proof (cases op)
    case (OpLookup v)
    obtain l where "lookup_gateway now v s = (l, s')" using step OpLookup by (auto split: prod.splits)
    from lookup_spec [OF prober_okD(1) [OF ok] this] have "set (probing s) \<subseteq> set (probing s')" "answered s' = answered s" by auto
    with st m show ?thesis unfolding probe_state_def by (metis subsetD)
  next
    case (OpFinish ch' v p)
    with en have v: "(ch', v) \<in> set (probing s)" by simp
    have s': "s' = finish_probe ch' v p s" using step OpFinish by simp
    have "p \<in> found (tr @ [(now, op, a)]) ch' v" using OpFinish by (auto simp: found_def)
    moreover have "u = v" if "(ch', u) \<in> set (probing s)"
      using prober_okD(2) [OF ok] v that by (metis map_of_eq_Some_iff option.inject)
    moreover have "answered s ch' = None" using prober_okD(3) [OF ok v] by simp
    ultimately show ?thesis using st m unfolding probe_state_def s' finish_probe_def by (cases "ch = ch'") auto
  next
    case (OpDropTask ch')
    then have "ch' \<in> dropped (tr @ [(now, op, a)])" by (auto simp: dropped_def)
    then show ?thesis using st m step OpDropTask unfolding probe_state_def by (cases "ch = ch'") auto
  qed
qed

lemma prober_exec_ok:
  assumes "prober_exec s0 tr s" and "prober_ok s0"
  shows "prober_ok s \<and> kg_capacity (gateways s) = kg_capacity (gateways s0)"
  using assms(1)
proof (induction rule: prober_exec.induct)
  case (prober_more tr s op now a s')
  then show ?case using prober_ok_step [of s op now a s'] by simp
qed (simp add: assms(2))

lemma in_flight_step:
  assumes ok: "prober_ok s" and en: "prober_enabled s op" and step: "prober_step now op s = (a, s')"
    and fl: "map_of (by_url (gateways s')) u = Some (InFlight ch)"
  shows "map_of (by_url (gateways s)) u = Some (InFlight ch) \<or> (ch, u) \<in> set (probing s')"
proof (cases op)
  case (OpLookup v)
  obtain l where "lookup_gateway now v s = (l, s')" using step OpLookup by (auto split: prod.splits)
  from lookup_spec [OF prober_okD(1) [OF ok] this] fl show ?thesis by (auto split: if_split_asm)
next
  case (OpFinish ch' v p)
  with en have "map_of (by_url (gateways s)) v = Some (InFlight ch')" using prober_okD(3) [OF ok] by auto
  from kg_insert_ok [OF prober_okD(1) [OF ok] this, of p] fl step OpFinish show ?thesis
    by (auto simp: finish_probe_def split: if_split_asm)
next
  case (OpDropTask c)
  then show ?thesis using step fl by auto
qed

lemma lookups_tracked:
  assumes "prober_exec s0 tr s" and "prober_ok s0" and "\<And>u ch. map_of (by_url (gateways s0)) u \<noteq> Some (InFlight ch)"
  shows "(\<forall>u ch. map_of (by_url (gateways s)) u = Some (InFlight ch) \<longrightarrow> probe_state tr s ch u) \<and>
    (\<forall>t u ch. (t, OpLookup u, Some (AwaitProbe ch)) \<in> set tr \<longrightarrow> probe_state tr s ch u)"
  using assms(1)
proof (induction rule: prober_exec.induct)
  case (prober_more tr s op now a s')
  have ok: "prober_ok s" using prober_exec_ok [OF prober_more.hyps(1) assms(2)] by simp
  note step = probe_state_step [OF ok prober_more.hyps(2,3), of tr]
  have "probe_state (tr @ [(now, op, a)]) s' ch u" if "map_of (by_url (gateways s')) u = Some (InFlight ch)" for u ch
    using in_flight_step [OF ok prober_more.hyps(2,3) that] prober_more.IH step by (auto simp: probe_state_def [of _ s'])
  moreover have "probe_state (tr @ [(now, op, a)]) s' ch u" if "op = OpLookup u" "a = Some (AwaitProbe ch)" for u ch
  proof -
    have "lookup_gateway now u s = (AwaitProbe ch, s')" using prober_more.hyps(3) that by (auto split: prod.splits)
    from lookup_spec [OF prober_okD(1) [OF ok] this] have "map_of (by_url (gateways s)) u = Some (InFlight ch)" by auto
    then show ?thesis using prober_more.IH step by blast
  qed
  ultimately show ?case using prober_more.IH step by auto
qed (simp add: assms(3))

lemma started_ok:
  "prober_ok (snd (assert_opt_in t g new_prober))" "kg_capacity (gateways (snd (assert_opt_in t g new_prober))) = 1000"
  "map_of (by_url (gateways (snd (assert_opt_in t g new_prober)))) u \<noteq> Some (InFlight ch)"
  by (auto simp: assert_opt_in_def new_prober_def no_gateways_def kg_insert_def prober_ok_def kg_ok_def heap_ok_def
      default_gateway_capacity_def split: if_split_asm)


section \<open>Running the prober\<close>

fun prober_run :: "prober \<Rightarrow> (nat \<times> prober_op) list \<Rightarrow> (prober_trace \<times> prober) option" where
  "prober_run s [] = Some ([], s)"
| "prober_run s ((now, op) # ops) =
     (if prober_enabled s op
      then (let (a, s') = prober_step now op s in
            map_option (\<lambda>(tr, s''). ((now, op, a) # tr, s'')) (prober_run s' ops))
      else None)"

lemma prober_exec_ConsI:
  assumes "prober_exec s1 tr s2" "prober_enabled s op" "prober_step now op s = (a, s1)"
  shows "prober_exec s ((now, op, a) # tr) s2"
  using assms
proof (induction rule: prober_exec.induct)
  case prober_start
  then show ?case using prober_exec.prober_more [OF prober_exec.prober_start, of s op now a s1] by simp
next
  case (prober_more tr s' op' now' a' s'')
  then show ?case using prober_exec.prober_more [of s "(now, op, a) # tr" s' op' now' a' s''] by simp
qed

lemma prober_run_exec: "prober_run s ops = Some (tr, s') \<Longrightarrow> prober_exec s tr s'"
proof (induction ops arbitrary: s tr)
  case (Cons x ops)
  obtain now op where x: "x = (now, op)" by (cases x)
  obtain a s1 where st: "prober_step now op s = (a, s1)" by force
  with Cons.prems x obtain tr1 where "prober_enabled s op" "prober_run s1 ops = Some (tr1, s')" "tr = (now, op, a) # tr1"
    by (auto split: if_split_asm)
  with Cons.IH st show ?case by (simp add: prober_exec_ConsI [of s1])
qed (simp add: prober_start)

definition sample_prober :: prober where
  "sample_prober = snd (assert_opt_in 0 \<lparr>gw_scheme = ''https'', gw_authority = ''payjo.in:443''\<rparr> new_prober)"

definition sample_gateway_uri :: gateway_uri where
  "sample_gateway_uri = \<lparr>gw_scheme = ''https'', gw_authority = ''b.io:443''\<rparr>"

text \<open>
  A probe whose task is dropped, as it is when the client that asked for the gateway first disconnects,
  stays in flight for good: no pruning looks at it, everybody who asks for the gateway later waits for
  it, and \<open>expect\<close> panics.
\<close>

lemma dropped_probe_stays:
  "map_option (map (snd \<circ> snd) \<circ> fst) (prober_run sample_prober
     [(1, OpLookup sample_gateway_uri), (2, OpDropTask 0), (10 ^ 30, OpLookup sample_gateway_uri)]) =
   Some [Some (StartProbe 0), None, Some (AwaitProbe 0)]"
  by code_simp


end
