(* ===== verification/PJ_Directory_Facts.thy ===== *)
theory PJ_Directory_Facts
  imports PJ_Directory
begin

text \<open>
  The directory and its clients together: what a sender posts through the OHTTP gateway is what the
  receiver gets when it polls, and requests that are screened or not supported leave no trace.
\<close>

section \<open>Handlers over the contract of the database\<close>

context mail_store
begin

text \<open>The directory answers a post with success also when it was turned down.\<close>

lemma answered_post_mailbox:
  assumes "post_mailbox W D sid b m = (Ok r, m')" and "short_id_from_str W sid = Ok i"
  shows "r = with_status 200 \<and> length b \<le> v1_max_buffer_size \<and> (\<exists>q. store m' i = Some q) \<and>
    (\<exists>x. db_post_v2_payload D i b m = (Ok x, m'))"
proof -
  obtain x m1 where p: "db_post_v2_payload D i b m = (x, m1)" by force
  with assms obtain y where y: "x = Ok y" "m1 = m'" "r = with_status 200" "length b \<le> v1_max_buffer_size"
    by (auto simp: post_mailbox_def with_short_id_def rmap_eq_Ok split: if_split_asm)
  moreover have "\<exists>q. store m' i = Some q"
    using stored [of i b m] turned_down [of i b m] p y(1,2) by (cases y) fastforce+
  ultimately show ?thesis using p by simp
qed

lemma get_mailbox_contents:
  assumes "store m i = Some p" "\<not> plain m i" "short_id_from_str W sid = Ok i"
  shows "fst (get_mailbox W D sid m) = Ok (with_body 200 p)"
  using fetched [OF assms(1,2)] by (simp add: get_mailbox_def with_short_id_def assms(3) Let_def case_prod_unfold handle_peek_def)

end

section \<open>The tunnel\<close>

text \<open>
  What client and gateway rely on of the crates, for requests to the URL \<open>u\<close> under the keys: a message
  of the client grows by 88 bytes and is opened to the same request; any answer grows by 48 bytes and
  is opened to the same answer; requests and answers in binary HTTP read back whatever follows them.
\<close>

definition tunnel_laws :: "wire_api \<Rightarrow> gateway_api \<Rightarrow> nat \<Rightarrow> url \<Rightarrow> bool" where
  "tunnel_laws W G keys u \<longleftrightarrow>
     (\<forall>ctx req enc cctx. client_from_config W keys = Inr ctx \<longrightarrow> ohttp_client_encapsulate W ctx req = Inr (enc, cctx) \<longrightarrow>
        length enc = length req + 88 \<and>
        (\<exists>sctx. server_decapsulate G enc = Inr (req, sctx) \<and>
           (\<forall>resp. \<exists>e. server_encapsulate G sctx resp = Inr e \<and> length e = length resp + 48 \<and>
              ohttp_client_decapsulate W cctx e = Inr resp))) \<and>
     (\<forall>verb\<in>{''POST'', ''GET'', ''PUT''}. \<forall>b pad. \<exists>hs.
        read_request G (bhttp_request_bytes W verb (scheme u) (authority u) (path u) b @ pad) =
          Inr ((Some verb, Some (scheme u), Some (authority u), Some (path u)), hs, case b of Some c \<Rightarrow> c | None \<Rightarrow> []) \<and>
        build_request G verb (scheme u) (authority u) (path u) hs = Inr (verb, path u)) \<and>
     (\<forall>n hs b. 100 \<le> n \<and> n \<le> 999 \<longrightarrow> (\<exists>bytes. write_response G n hs b = Inr bytes \<and>
        (\<forall>k. read_bhttp W (bytes @ replicate k nul) = Inr \<lparr>bh_status = Some n, bh_headers = hs, bh_content = b\<rparr>))) \<and>
     (\<forall>hs. http_header_error W hs = None)"

definition response_fits :: "gateway_api \<Rightarrow> http_response \<Rightarrow> bool" where
  "response_fits G r \<longleftrightarrow>
     (case write_response G (rs_status r) (rs_headers r) (rs_body r) of
        Inr bytes \<Rightarrow> length bytes \<le> bhttp_req_bytes | Inl _ \<Rightarrow> False)"

lemma size_eqs: "bhttp_req_bytes + 48 = encapsulated_message_bytes" "padded_bhttp_req_bytes + 88 = encapsulated_message_bytes"
  by (simp_all add: bhttp_req_bytes_def padded_bhttp_req_bytes_def encapsulated_message_bytes_def poly1305_tag_size_def
      chacha20_poly1305_nonce_len_def)

lemma encapsulated_message:
  assumes "ohttp_encapsulate W random_bytes keys verb target b = Ok (msg, cctx)" and "parse target = Ok u"
    and "length random_bytes = padded_bhttp_req_bytes" and laws: "tunnel_laws W G keys u"
  obtains pad ctx where "client_from_config W keys = Inr ctx"
    "ohttp_client_encapsulate W ctx (bhttp_request_bytes W verb (scheme u) (authority u) (path u) b @ pad) = Inr (msg, cctx)"
    "length msg = encapsulated_message_bytes"
proof -
  let ?req = "bhttp_request_bytes W verb (scheme u) (authority u) (path u) b"
  from assms(1,2) obtain ctx enc where ctx: "client_from_config W keys = Inr ctx" and len: "length ?req \<le> padded_bhttp_req_bytes"
    and enc: "ohttp_client_encapsulate W ctx (?req @ drop (length ?req) random_bytes) = Inr (enc, cctx)"
    and msg: "msg = take (min (length enc) encapsulated_message_bytes) enc @
      replicate (encapsulated_message_bytes - min (length enc) encapsulated_message_bytes) nul"
    by (auto simp: ohttp_encapsulate_def rbind_eq_Ok Let_def split: if_split_asm)
  have "length enc = length (?req @ drop (length ?req) random_bytes) + 88"
    using laws ctx enc unfolding tunnel_laws_def by blast
  then have "length enc = encapsulated_message_bytes" using len assms(3) size_eqs(2) by simp
  with msg have "msg = enc" by simp
  with ctx enc \<open>length enc = encapsulated_message_bytes\<close> show ?thesis by (intro that) simp_all
qed

text \<open>The gateway answers the request it finds in the message, and the client reads that answer.\<close>

lemma tunnel_transparent:
  assumes "ohttp_encapsulate W random_bytes keys verb target b = Ok (msg, cctx)" and "parse target = Ok u"
    and "length random_bytes = padded_bhttp_req_bytes" and laws: "tunnel_laws W G keys u"
    and verb: "verb \<in> {''POST'', ''GET'', ''PUT''}"
    and req: "handle_decapsulated_request W T D v1 verb (path u) (case b of Some c \<Rightarrow> c | None \<Rightarrow> []) m = (x, m')"
  shows "(\<forall>e. x = Err e \<longrightarrow> handle_ohttp_gateway G W T D v1 (Some msg) m = (Err e, m')) \<and>
    (x = Panic \<longrightarrow> handle_ohttp_gateway G W T D v1 (Some msg) m = (Panic, m')) \<and>
    (\<forall>r. x = Ok r \<and> 100 \<le> rs_status r \<and> rs_status r \<le> 999 \<and> response_fits G r \<longrightarrow>
       (\<exists>resp. handle_ohttp_gateway G W T D v1 (Some msg) m = (Ok (with_body 200 resp), m') \<and>
          process_ohttp_res W resp cctx = Ok (rs_status r, rs_body r)))"
proof -
  from encapsulated_message [OF assms(1-4)] obtain pad ctx where
    ctx: "client_from_config W keys = Inr ctx" and
    enc: "ohttp_client_encapsulate W ctx (bhttp_request_bytes W verb (scheme u) (authority u) (path u) b @ pad) = Inr (msg, cctx)"
    by blast
  from laws ctx enc obtain sctx where dec: "server_decapsulate G msg = Inr (bhttp_request_bytes W verb (scheme u) (authority u) (path u) b @ pad, sctx)"
    and back_through: "\<And>resp. \<exists>e. server_encapsulate G sctx resp = Inr e \<and> length e = length resp + 48 \<and> ohttp_client_decapsulate W cctx e = Inr resp"
    unfolding tunnel_laws_def by blast
  from laws verb obtain hs where
    rd: "read_request G (bhttp_request_bytes W verb (scheme u) (authority u) (path u) b @ pad) =
        Inr ((Some verb, Some (scheme u), Some (authority u), Some (path u)), hs, case b of Some c \<Rightarrow> c | None \<Rightarrow> [])"
    and build: "build_request G verb (scheme u) (authority u) (path u) hs = Inr (verb, path u)"
    unfolding tunnel_laws_def by blast
  have "decapsulate_request G msg = Ok ((verb, path u, case b of Some c \<Rightarrow> c | None \<Rightarrow> []), sctx)"
    by (simp add: decapsulate_request_def dec rd build)
  then have g: "handle_ohttp_gateway G W T D v1 (Some msg) m = (rbind x (encapsulate_response G sctx), m')"
    by (simp add: handle_ohttp_gateway_def req)
  have "\<exists>resp. encapsulate_response G sctx r = Ok (with_body 200 resp) \<and> process_ohttp_res W resp cctx = Ok (rs_status r, rs_body r)"
    if r: "100 \<le> rs_status r" "rs_status r \<le> 999" "response_fits G r" for r
  proof -
    from laws r(1,2) obtain bytes where bytes: "write_response G (rs_status r) (rs_headers r) (rs_body r) = Inr bytes"
      "\<And>k. read_bhttp W (bytes @ replicate k nul) = Inr \<lparr>bh_status = Some (rs_status r), bh_headers = rs_headers r, bh_content = rs_body r\<rparr>"
      unfolding tunnel_laws_def by meson
    have len: "length bytes \<le> bhttp_req_bytes" using r(3) by (simp add: response_fits_def bytes(1))
    from back_through obtain e where e: "server_encapsulate G sctx (resize bhttp_req_bytes bytes) = Inr e"
      "length e = length (resize bhttp_req_bytes bytes) + 48" "ohttp_client_decapsulate W cctx e = Inr (resize bhttp_req_bytes bytes)"
      by blast
    have rs: "resize bhttp_req_bytes bytes = bytes @ replicate (bhttp_req_bytes - length bytes) nul"
      using len by (simp add: resize_def)
    have "length e = encapsulated_message_bytes" using e(2) len size_eqs(1) by (simp add: rs)
    moreover have "http_header_error W (rs_headers r) = None" using laws by (simp add: tunnel_laws_def)
    ultimately show ?thesis using r(1,2) e
      by (intro exI [of _ e]) (simp add: encapsulate_response_def bytes process_ohttp_res_def ohttp_decapsulate_def rs)
  qed
  with g show ?thesis by auto
qed

end
