(* ===== verification/PJ_Delivery.thy ===== *)
theory PJ_Delivery
  imports PJ_Directory_Facts PJ_Send_Request
begin

text \<open>
  From one client to the other: what the sender posts to a mailbox through the gateway is what the
  receiver gets when it polls, whatever else the mail room does in between.
\<close>

lemma mailbox_request:
  assumes "path u = ''/'' @ sid" "CHR ''/'' \<notin> set sid"
  shows "handle_decapsulated_request W T D v1 ''POST'' (path u) b m = post_mailbox W D sid b m"
    "handle_decapsulated_request W T D v1 ''GET'' (path u) b m = get_mailbox W D sid m"
  using assms by (simp_all add: handle_decapsulated_request_def split_on_none)

lemma posted_mail:
  assumes "post_mailbox W (mail_room_db no_faults c others others') sid b (m, ms) = (Ok r, (m', ms'))"
    and "short_id_from_str W sid = Ok i" and "tracked m" and "regs m i = None"
  shows "r = with_status 200 \<and> length b \<le> v1_max_buffer_size \<and> tracked m' \<and> regs m' i = Some (c, b) \<and> ttl m' = ttl m"
proof -
  from room.answered_post_mailbox [OF assms(1,2)] obtain x where
    r: "r = with_status 200" "length b \<le> v1_max_buffer_size" "case (m', ms') of (m, ms) \<Rightarrow> \<exists>q. mail_contents m i = Some q"
    and x: "db_post_v2_payload (mail_room_db no_faults c others others') i b (m, ms) = (Ok x, (m', ms'))" by auto
  from x have p: "post_v2_payload no_faults c i b m = (Ok x, m')"
    by (auto simp: mail_room_db_def metrics_db_def files_db_def Let_def split: prod.splits)
  then have step: "mail_step no_faults c (OpPostV2 i b) m = (Stored (x \<noteq> None), m')" by (simp add: answer_def)
  have "x \<noteq> None"
  proof
    assume "x = None"
    with tracked_step [OF assms(3) step] have "regs m' i \<noteq> None \<longrightarrow> regs m i \<noteq> None" by fastforce
    with assms(4) r(3) show False by (auto simp: mail_contents_def)
  qed
  then have s: "mail_step no_faults c (OpPostV2 i b) m = (Stored True, m')" using step by simp
  have "tracked m'" using tracked_step [OF assms(3) s] assms(4) by auto
  moreover have "regs m' i = Some (c, b)" by (rule stored_mailbox [OF assms(3,4) s])
  moreover have "ttl m' = ttl m" using step_len [of no_faults c "OpPostV2 i b" m] s by (metis snd_conv)
  ultimately show ?thesis using r by simp
qed


text \<open>C3: Mail is delivered end to end. A sender posts an encapsulated message to a mailbox nothing is in,
  and the gateway answers. Then the sender reads success from the answer. Whatever the mail room does
  after that, with a working disk, until the mailbox expires, as long as nothing else is stored twice:
  a receiver that polls the same mailbox with its own encapsulated request gets exactly the bytes that
  were posted, unless a version 1 sender waits there with its own request.\<close>

theorem relayed_mail_delivered:
  assumes post: "ohttp_encapsulate W random_bytes keys ''POST'' target (Some b) = Ok (msg, cctx)"
    and get: "ohttp_encapsulate W random_bytes' keys ''GET'' target None = Ok (msg', cctx')"
    and target: "parse target = Ok u" "path u = ''/'' @ sid" "CHR ''/'' \<notin> set sid" "short_id_from_str W sid = Ok i"
    and random: "length random_bytes = padded_bhttp_req_bytes" "length random_bytes' = padded_bhttp_req_bytes"
    and laws: "tunnel_laws W G keys u"
    and fit: "response_fits G (with_status 200)" "response_fits G (with_body 200 b)"
    and empty: "tracked m" "regs m i = None"
    and answered: "handle_ohttp_gateway G W T (mail_room_db no_faults c others others') v1 (Some msg) (m, ms) = (Ok r, (m1, ms1))"
    and run: "mail_exec {no_faults} m1 tr m2" "distinct (stored_ids tr)" "\<forall>j\<in>set (stored_ids tr). regs m1 j = None"
      "\<forall>(t, op, a)\<in>set tr. t \<le> c + ttl m" "\<not> plaintext_waiting m2 i"
  shows "process_post_res W (rs_body r) cctx = Ok () \<and>
    (\<exists>r' s'. handle_ohttp_gateway G W T (mail_room_db no_faults now others2 others2') v1 (Some msg') (m2, ms2) = (Ok r', s') \<and>
       process_get_res W (rs_body r') cctx' = Ok (Some b))"
proof -
  let ?D = "mail_room_db no_faults c others others'" and ?D' = "mail_room_db no_faults now others2 others2'"
  obtain x s where x: "post_mailbox W ?D sid b (m, ms) = (x, s)" by (meson surj_pair)
  have "handle_decapsulated_request W T ?D v1 ''POST'' (path u) (case Some b of Some c \<Rightarrow> c | None \<Rightarrow> []) (m, ms) = (x, s)"
    by (simp add: mailbox_request [OF target(2,3)] x)
  note tp = tunnel_transparent [OF post target(1) random(1) laws _ this]
  have r0: "x = Ok (with_status 200)" "s = (m1, ms1)"
  proof -
    have "x \<noteq> Err e" for e using tp answered by auto
    moreover have "x \<noteq> Panic" using tp answered by auto
    ultimately obtain r0 where "x = Ok r0" by (cases x) auto
    moreover from this have "r0 = with_status 200" using room.answered_post_mailbox [OF _ target(4)] x by blast
    ultimately show "x = Ok (with_status 200)" "s = (m1, ms1)" using tp answered fit(1) by (auto simp: with_status_def)
  qed
  have "tracked m1" "regs m1 i = Some (c, b)" "ttl m1 = ttl m"
    using posted_mail [OF _ target(4) empty] x [unfolded r0] by blast+
  then have "regs m2 i = Some (c, b)" using tracked_exec [OF run(1) _ run(2,3)] run(4) by auto
  then have "mail_contents m2 i = Some b" by (simp add: mail_contents_def)
  then have "fst (get_mailbox W ?D' sid (m2, ms2)) = Ok (with_body 200 b)"
    using room.get_mailbox_contents [of "(m2, ms2)" i b W sid] target(4) run(5) by simp
  then obtain s' where "get_mailbox W ?D' sid (m2, ms2) = (Ok (with_body 200 b), s')" by (metis prod.collapse)
  then have "handle_decapsulated_request W T ?D' v1 ''GET'' (path u) (case None of Some c \<Rightarrow> c | None \<Rightarrow> []) (m2, ms2) =
      (Ok (with_body 200 b), s')"
    by (simp add: mailbox_request [OF target(2,3)])
  note tg = tunnel_transparent [OF get target(1) random(2) laws _ this]
  show ?thesis using tp tg fit answered
    by (auto simp: r0 with_status_def with_body_def process_post_res_def process_get_res_def)
qed


section \<open>An instance of the tunnel\<close>

text \<open>
  Fields of a toy binary HTTP start with their length in unary. A seal is padding of the size of the
  real one.
\<close>

definition put_field :: "string \<Rightarrow> string" where
  "put_field s = replicate (length s) CHR ''a'' @ CHR ''.'' # s"

definition get_field :: "string \<Rightarrow> string \<times> string" where
  "get_field t = (case split_once CHR ''.'' t of Some (p, r) \<Rightarrow> (take (length p) r, drop (length p) r) | None \<Rightarrow> ([], []))"

definition put_headers :: "(string \<times> string) list \<Rightarrow> string" where
  "put_headers hs = put_field (replicate (length hs) CHR ''h'') @ concat (map (\<lambda>(a, b). put_field a @ put_field b) hs)"

fun get_pairs :: "nat \<Rightarrow> string \<Rightarrow> (string \<times> string) list \<times> string" where
  "get_pairs 0 t = ([], t)"
| "get_pairs (Suc n) t =
     (let (a, t) = get_field t; (b, t) = get_field t; (hs, t) = get_pairs n t in ((a, b) # hs, t))"

definition get_headers :: "string \<Rightarrow> (string \<times> string) list \<times> string" where
  "get_headers t = (let (k, t) = get_field t in get_pairs (length k) t)"

lemma get_put_field [simp]: "get_field (put_field s @ t) = (s, t)"
  by (simp add: get_field_def put_field_def split_once_append)

lemma get_put_pairs: "get_pairs (length hs) (concat (map (\<lambda>(a, b). put_field a @ put_field b) hs) @ t) = (hs, t)"
  by (induction hs) auto

lemma get_put_headers [simp]: "get_headers (put_headers hs @ t) = (hs, t)"
  by (simp add: get_headers_def put_headers_def get_put_pairs)

definition relay_wire :: wire_api where
  "relay_wire = sample_wire\<lparr>
     ohttp_client_encapsulate := (\<lambda>ctx s. Inr (s @ replicate 88 nul, ctx)),
     ohttp_client_decapsulate := (\<lambda>ctx s. Inr (take (length s - 48) s)),
     bhttp_request_bytes := (\<lambda>verb sch auth p b.
       put_field verb @ put_field sch @ put_field auth @ put_field p @ put_field (case b of Some c \<Rightarrow> c | None \<Rightarrow> [])),
     read_bhttp := (\<lambda>t. let (n, t) = get_field t; (hs, t) = get_headers t; (b, t) = get_field t in
       Inr \<lparr>bh_status = Some (length n), bh_headers = hs, bh_content = b\<rparr>)\<rparr>"

definition sample_gateway :: gateway_api where
  "sample_gateway = \<lparr>
     server_decapsulate = (\<lambda>enc. Inr (take (length enc - 88) enc, 7)),
     server_encapsulate = (\<lambda>ctx resp. Inr (resp @ replicate 48 nul)),
     server_config_encode = Inr ''keys'',
     read_request = (\<lambda>t. let (verb, t) = get_field t; (sch, t) = get_field t; (auth, t) = get_field t;
         (p, t) = get_field t; (b, t) = get_field t in Inr ((Some verb, Some sch, Some auth, Some p), [], b)),
     build_request = (\<lambda>verb sch auth p hs. Inr (verb, p)),
     write_response = (\<lambda>n hs b. Inr (put_field (replicate n CHR ''s'') @ put_headers hs @ put_field b))\<rparr>"

lemma sample_tunnel_laws: "tunnel_laws relay_wire sample_gateway keys u"
  unfolding tunnel_laws_def
  by (intro conjI) (simp_all add: relay_wire_def sample_gateway_def sample_wire_def Let_def)

lemma put_field_length [simp]: "length (put_field s) = Suc (2 * length s)"
  by (simp add: put_field_def)

lemma sample_response_fits: "length b \<le> 3000 \<Longrightarrow> response_fits sample_gateway (with_body 200 b)"
  by (simp add: response_fits_def sample_gateway_def with_body_def bhttp_req_bytes_def encapsulated_message_bytes_def
      poly1305_tag_size_def chacha20_poly1305_nonce_len_def put_headers_def)

section \<open>A delivery\<close>

definition sample_mailbox :: string where
  "sample_mailbox = ''GBGCGDGEGFGGGHGI''"

definition sample_target :: string where
  "sample_target = ''https://a.io/'' @ sample_mailbox"

lemma sample_encapsulates:
  assumes "case b of Some c \<Rightarrow> length c \<le> 3000 | None \<Rightarrow> True" "length verb \<le> 4"
  shows "\<exists>msg cctx. ohttp_encapsulate relay_wire (replicate padded_bhttp_req_bytes nul) 3 verb sample_target b = Ok (msg, cctx)"
proof -
  have "rmap (\<lambda>u. (length (scheme u), length (authority u), length (path u))) (parse sample_target) = Ok (5, 4, 17)"
    unfolding sample_target_def sample_mailbox_def by code_simp
  then obtain u where "parse sample_target = Ok u" "length (scheme u) = 5" "length (authority u) = 4" "length (path u) = 17"
    by (auto simp: rmap_eq_Ok)
  with assms show ?thesis
    by (auto simp: ohttp_encapsulate_def relay_wire_def sample_wire_def Let_def padded_bhttp_req_bytes_def
        encapsulated_message_bytes_def poly1305_tag_size_def split: option.splits)
qed

lemma relayed_mail_delivered_witness:
  "\<exists>msg cctx msg' cctx' r s1 r' s2 m2.
     ohttp_encapsulate relay_wire (replicate padded_bhttp_req_bytes nul) 3 ''POST'' sample_target (Some ''mail'') = Ok (msg, cctx) \<and>
     handle_ohttp_gateway sample_gateway relay_wire sample_text (mail_room_db no_faults 0 id id) None (Some msg)
       (empty_mail_room relay_wire, []) = (Ok r, s1) \<and>
     m2 = snd (prune no_faults 5 (fst s1)) \<and>
     ohttp_encapsulate relay_wire (replicate padded_bhttp_req_bytes nul) 3 ''GET'' sample_target None = Ok (msg', cctx') \<and>
     handle_ohttp_gateway sample_gateway relay_wire sample_text (mail_room_db no_faults 9 id id) None (Some msg')
       (m2, snd s1) = (Ok r', s2) \<and>
     process_get_res relay_wire (rs_body r') cctx' = Ok (Some ''mail'')"
proof -
  let ?rb = "replicate padded_bhttp_req_bytes nul" and ?m = "empty_mail_room relay_wire"
  let ?D = "mail_room_db no_faults 0 id id"
  obtain msg cctx where post: "ohttp_encapsulate relay_wire ?rb 3 ''POST'' sample_target (Some ''mail'') = Ok (msg, cctx)"
    using sample_encapsulates [of "Some ''mail''" "''POST''"] by auto
  obtain msg' cctx' where get: "ohttp_encapsulate relay_wire ?rb 3 ''GET'' sample_target None = Ok (msg', cctx')"
    using sample_encapsulates [of None "''GET''"] by auto
  have "rmap path (parse sample_target) = Ok (''/'' @ sample_mailbox)"
    unfolding sample_target_def sample_mailbox_def by code_simp
  then obtain u where u: "parse sample_target = Ok u" "path u = ''/'' @ sample_mailbox" by (auto simp: rmap_eq_Ok)
  have slash: "CHR ''/'' \<notin> set sample_mailbox" by (simp add: sample_mailbox_def)
  have i: "short_id_from_str relay_wire sample_mailbox = Ok ''abcdefgh''" unfolding sample_mailbox_def by code_simp
  have stored: "rmap (\<lambda>_. ()) (fst (db_post_v2_payload ?D ''abcdefgh'' ''mail'' (?m, []))) = Ok ()" 
    "pending_v1 (fst (snd (db_post_v2_payload ?D ''abcdefgh'' ''mail'' (?m, [])))) = []" by code_simp+
  then obtain x m1 ms1 where x: "db_post_v2_payload ?D ''abcdefgh'' ''mail'' (?m, []) = (Ok x, (m1, ms1))" and p: "pending_v1 m1 = []"
    by (cases "db_post_v2_payload ?D ''abcdefgh'' ''mail'' (?m, [])") (auto simp: rmap_eq_Ok)
  have "post_mailbox relay_wire ?D sample_mailbox ''mail'' (?m, []) = (Ok (with_status 200), (m1, ms1))"
    by (simp add: post_mailbox_def with_short_id_def i x v1_max_buffer_size_def)
  then have h: "handle_decapsulated_request relay_wire sample_text ?D None ''POST'' (path u)
      (case Some ''mail'' of Some c \<Rightarrow> c | None \<Rightarrow> []) (?m, []) = (Ok (with_status 200), (m1, ms1))"
    by (simp add: mailbox_request [OF u(2) slash])
  have fit: "response_fits sample_gateway (with_status 200)" "response_fits sample_gateway (with_body 200 ''mail'')"
    using sample_response_fits [of "[]"] sample_response_fits [of "''mail''"] by (simp_all add: with_status_def with_body_def)
  obtain r where r: "handle_ohttp_gateway sample_gateway relay_wire sample_text ?D None (Some msg) (?m, []) = (Ok r, (m1, ms1))"
    using tunnel_transparent [OF post u(1) _ sample_tunnel_laws _ h] fit(1) by (auto simp: with_status_def)
  obtain a m2 where a: "mail_step no_faults 5 OpPrune m1 = (a, m2)" by (meson surj_pair)
  then have m2: "m2 = snd (prune no_faults 5 m1)" by (auto simp: Let_def split: prod.splits)
  have run: "mail_exec {no_faults} m1 [(5, OpPrune, a)] m2"
    by (rule mail_exec_ConsI [OF exec_start _ _ a]) simp_all
  have "\<not> plaintext_waiting m2 ''abcdefgh''" by (simp add: plaintext_waiting_def m2 prune_fields(2) p)
  then have "process_post_res relay_wire (rs_body r) cctx = Ok () \<and>
    (\<exists>r' s'. handle_ohttp_gateway sample_gateway relay_wire sample_text (mail_room_db no_faults 9 id id) None (Some msg') (m2, ms1) = (Ok r', s') \<and>
       process_get_res relay_wire (rs_body r') cctx' = Ok (Some ''mail''))"
    by (intro relayed_mail_delivered [OF post get u slash i _ _ sample_tunnel_laws fit empty_tracked empty_regs(1) r run])
      (simp_all add: stored_ids_def empty_regs)
  with post get r m2 show ?thesis by fastforce
qed

end
