(* ===== verification/PJ_Relay_Facts.thy ===== *)
theory PJ_Relay_Facts
  imports PJ_Relay PJ_Prober PJ_Delivery
begin

text \<open>
  The relay and a directory together: a gateway that was never seen is probed, opts in and gets the
  message, and its answer goes back unchanged; a mail room never relays to itself. The prober in
  every interleaving of its tasks.
\<close>

section \<open>The tag\<close>

lemma hex_digit_inj: "a < 16 \<Longrightarrow> b < 16 \<Longrightarrow> digit_char a = digit_char b \<longleftrightarrow> a = b"
proof -
  assume "a < 16" "b < 16"
  then have "digit_value 16 (digit_char a) = Some a" "digit_value 16 (digit_char b) = Some b"
    by (simp_all only: digit_value_char)
  then show ?thesis by (metis option.inject)
qed

lemma high_digit: "(of_char (c :: char) div 16 :: nat) < 16"
  using of_char_less [of c] by (intro less_mult_imp_div_less) simp

lemma to_header_value_inj: "to_header_value s = to_header_value t \<longleftrightarrow> s = t"
proof (induction s arbitrary: t)
  case (Cons a s)
  show ?case
  proof (cases t)
    case (Cons b u)
    have "to_header_value (a # s) = to_header_value (b # u) \<longleftrightarrow>
        of_char a div 16 = (of_char b div 16 :: nat) \<and> of_char a mod 16 = (of_char b mod 16 :: nat) \<and> to_header_value s = to_header_value u"
      by (simp add: to_header_value_def hex_digit_inj high_digit)
    moreover have "of_char a div 16 = (of_char b div 16 :: nat) \<and> of_char a mod 16 = (of_char b mod 16 :: nat) \<longleftrightarrow> a = b"
      by (metis div_mult_mod_eq of_char_eq_iff)
    ultimately show ?thesis unfolding Cons.IH local.Cons by blast
  qed (simp add: to_header_value_def)
qed (auto simp: to_header_value_def concat_eq_Nil_conv)

lemma to_header_value_visible: "to_str (to_header_value t) = Some (to_header_value t)"
proof -
  have "32 \<le> (of_char (digit_char n) :: nat) \<and> (of_char (digit_char n) :: nat) < 127" if "n < 16" for n
    using that by (cases "n < 10") (simp_all add: digit_char_def)
  then show ?thesis by (auto simp: to_str_def to_header_value_def high_digit)
qed

section \<open>A directory at the other end\<close>

definition probe_request :: "http_uri \<Rightarrow> incoming" where
  "probe_request u =
     (let pq = (case uri_path_and_query u of Some s \<Rightarrow> s | None \<Rightarrow> ''/'') in
      \<lparr>rq_method = ''GET'', rq_path = before CHR ''?'' pq, rq_query = (if CHR ''?'' \<in> set pq then Some (after CHR ''?'' pq) else None),
       rq_sentinel = None, rq_body = Some []\<rparr>)"

text \<open>A client that is connected to the directory \<open>S\<close>. A panic there breaks the connection.\<close>

definition directory_network ::
  "directory \<Rightarrow> wire_api \<Rightarrow> text_api \<Rightarrow> 's mail_db \<Rightarrow> (string \<Rightarrow> string) \<Rightarrow> 's network" where
  "directory_network S W T D accept_key =
     \<lparr>nw_request = (\<lambda>req m. let (r, m') = serve_request S W T D (incoming_of req) m in (ok r, m')),
      nw_probe = (\<lambda>u m. let (r, m') = serve_request S W T D (probe_request u) m in
        (case r of Ok x \<Rightarrow> ProbeResponse (rs_status x) (rs_headers x) (Some (rs_body x)) | _ \<Rightarrow> ProbeFailed None, m')),
      nw_accept_key = accept_key\<rparr>"

text \<open>Every directory opts in.\<close>

lemma directory_opts_in:
  "nw_probe (directory_network S W T D key) (probe_url g) m =
     (ProbeResponse 200 (rs_headers (allow_any_origin get_ohttp_allowed_purposes)) (Some (rs_body get_ohttp_allowed_purposes)), m)"
proof -
  have p: "probe_request (probe_url g) = \<lparr>rq_method = ''GET'', rq_path = ''/.well-known/ohttp-gateway'',
      rq_query = Some ''allowed_purposes'', rq_sentinel = None, rq_body = Some []\<rparr>"
    unfolding probe_request_def probe_url_def gateway_url_def allowed_purposes_path_and_query_def by simp code_simp
  have s: "split_on CHR ''/'' ''/.well-known/ohttp-gateway'' = [[], ''.well-known'', ''ohttp-gateway'']" by code_simp
  show ?thesis
    by (simp add: directory_network_def p serve_request_def route_def s Let_def handle_ohttp_gateway_get_def
        get_ohttp_allowed_purposes_def allow_any_origin_def with_type_def)
qed

lemma opted_in: "is_explicit_opt_in 200 (rs_headers (allow_any_origin get_ohttp_allowed_purposes)) (Some (rs_body get_ohttp_allowed_purposes))"
proof -
  have "alpn_loop 1 (CHR 0x2a # bip77_purpose) = Ok ([bip77_purpose], [])"
    unfolding One_nat_def by (simp add: bip77_purpose_def)
  then have "parse_alpn_encoded ([CHR 0x00, CHR 0x01, CHR 0x2a] @ bip77_purpose) = Ok [bip77_purpose]"
    by (simp add: parse_alpn_encoded_def)
  then show ?thesis
    by (simp add: is_explicit_opt_in_def get_ohttp_allowed_purposes_def allow_any_origin_def with_type_def header_def
        allowed_purposes_content_type_def magic_bip77_purpose_def bip77_purpose_def)
qed

section \<open>Forwarding\<close>

text \<open>What a directory answers to a message that comes with the tag of a relay.\<close>

definition gateway_answer ::
  "directory \<Rightarrow> wire_api \<Rightarrow> text_api \<Rightarrow> 's mail_db \<Rightarrow> string \<Rightarrow> string \<Rightarrow> 's \<Rightarrow> (http_response, unit) res \<times> 's" where
  "gateway_answer S W T D tag b m =
     (if tag = dir_sentinel_tag S then (Ok (allow_any_origin (to_response Forbidden)), m)
      else (let (r, m') = handle_ohttp_gateway (dir_gateway S) W T D (dir_v1 S) (Some b) m in
            (case r of
               Ok x \<Rightarrow> Ok (allow_any_origin x)
             | Err e \<Rightarrow> Ok (allow_any_origin (to_response e))
             | Panic \<Rightarrow> Ok (allow_any_origin (relay_error_response BadGateway)), m')))"

lemma allow_any_origin_idem [simp]: "allow_any_origin (allow_any_origin r) = allow_any_origin r"
  by (simp add: allow_any_origin_def)

lemma forwarded_answer:
  assumes "into_forward_req (rc_sentinel_tag C) g req = Ok fwd" and "rr_body req = Inr b"
    and "nw_request (directory_network S W T D key) fwd m = (r, m')"
  shows "(relay_respond (ok_or BadGateway r), m') = gateway_answer S W T D (rc_sentinel_tag C) b m"
proof -
  have f: "incoming_of fwd = \<lparr>rq_method = ''POST'', rq_path = ''/.well-known/ohttp-gateway'', rq_query = None,
      rq_sentinel = Some (to_header_value (rc_sentinel_tag C)), rq_body = Some b\<rparr>"
    using assms(1,2)
    by (auto simp: into_forward_req_def incoming_of_def header_def sentinel_header_name_def rfc_9540_gateway_path_def
        to_header_value_visible split: if_split_asm option.splits)
  have s: "split_on CHR ''/'' ''/.well-known/ohttp-gateway'' = [[], ''.well-known'', ''ohttp-gateway'']" by code_simp
  show ?thesis
    using assms(3)
    by (auto simp: directory_network_def f serve_request_def route_def s Let_def gateway_answer_def is_self_loop_def
        to_header_value_inj relay_respond_def allow_any_origin_def split: res.splits prod.splits)
qed

text \<open>A gateway that the relay may use: it is known to opt in, or there is room to probe it.\<close>

definition may_use :: "nat \<Rightarrow> gateway_uri \<Rightarrow> prober \<Rightarrow> bool" where
  "may_use now g s =
     (case fst (lookup_gateway now g s) of
        HasPolicy p \<Rightarrow> bip77_allowed p
      | StartProbe _ \<Rightarrow> True
      | _ \<Rightarrow> False)"

lemma opted_in_policy:
  assumes "may_use now g s"
  obtains p s' where "check_opt_in ttls now now' others (nw_probe (directory_network S W T D key)) g (s, m) = (Ok (Some p), s', m)"
    "bip77_allowed p"
proof -
  obtain l s' where l: "lookup_gateway now g s = (l, s')" by (meson surj_pair)
  with assms that show thesis
    by (cases l) (simp_all add: may_use_def check_opt_in_def directory_opts_in probe_def opted_in Let_def)
qed

text \<open>C19: The relay is transparent. A message that is posted to a relay for a gateway that the relay knows, or
  can probe, and that is a directory of this program: the directory opts in when it is probed, gets the
  same message, and what it answers goes back to the client unchanged. A message that a mail room
  would relay to itself is refused and changes nothing.\<close>

theorem relay_forwards_to_gateway:
  assumes "rr_method req = ''POST''" and "header ''content-type'' (rr_headers req) = Some expected_media_type"
    and "rr_body req = Inr b" and "requested_gateway U C req = Ok g" and "may_use now g (rs_prober s)"
  shows "\<exists>s'. serve_ohttp_relay U C now now' others (directory_network S W T D key) req (s, m) =
    (fst (gateway_answer S W T D (rc_sentinel_tag C) b m), s', snd (gateway_answer S W T D (rc_sentinel_tag C) b m))"
proof -
  let ?N = "directory_network S W T D key"
  obtain p s' where "check_opt_in (rc_ttls C) now now' others (nw_probe ?N) g (rs_prober s, m) =
      ((Ok (Some p), s', m) :: (policy option, relay_error) res \<times> _)" "bip77_allowed p"
    by (rule opted_in_policy [OF assms(5)])
  then have g: "parse_gateway_uri U C now now' others (nw_probe ?N) req (rs_prober s, m) = (Ok g, s', m)"
    by (simp add: parse_gateway_uri_def assms(4))
  obtain fwd where fwd: "into_forward_req (rc_sentinel_tag C) g req = Ok fwd"
    using assms(1-3) by (simp add: into_forward_req_def)
  obtain r m' where r: "nw_request ?N fwd m = (r, m')" by (meson surj_pair)
  from forwarded_answer [OF fwd assms(3) r] show ?thesis
    by (auto simp: serve_ohttp_relay_def assms(1) g handle_ohttp_relay_def fwd forward_request_def r Let_def prod_eq_iff)
qed

section \<open>No panic on the way to the relay\<close>

text \<open>Setting the default port does not fail, as the code expects.\<close>

definition uri_laws :: "uri_api \<Rightarrow> bool" where
  "uri_laws U \<longleftrightarrow> (\<forall>a n. authority_port U a = None \<and> n \<in> {80, 443} \<longrightarrow>
     (\<exists>b. authority_from_str U (authority_host U a @ '':'' @ show_dec n) = Inr b))"

lemma gateway_uri_new_not_Panic:
  assumes "uri_laws U"
  shows "gateway_uri_new U sch auth \<noteq> Panic"
proof (cases "authority_port U auth = None")
  case True
  then obtain b b' where "authority_from_str U (authority_host U auth @ '':'' @ show_dec 80) = Inr b"
    "authority_from_str U (authority_host U auth @ '':'' @ show_dec 443) = Inr b'"
    using assms unfolding uri_laws_def by (metis insertCI)
  then show ?thesis by (simp add: gateway_uri_new_def del: append_Cons)
qed (auto simp: gateway_uri_new_def)

lemma gateway_from_str_not_Panic: "uri_laws U \<Longrightarrow> gateway_from_str U s \<noteq> Panic"
  using gateway_uri_new_not_Panic [of U]
  by (auto simp: gateway_from_str_def gateway_try_from_def rbind_eq_Panic)

text \<open>C21: No request that the mail room routes to its relay makes the relay panic over its path: the slices that
  tell the scheme are within the path of every POST and GET that gets there.\<close>

lemma routed_gateway_no_panic:
  assumes "uri_laws U" and "is_relay_request req" and "rr_method req \<in> {''POST'', ''GET''}"
  shows "requested_gateway U C req \<noteq> Panic"
proof -
  from assms(2,3) consider "rr_path req = ''/''" | t where "rr_path req = ''/http://'' @ t" | t where "rr_path req = ''/https://'' @ t"
    by (auto simp: is_relay_request_def starts_with_iff)
  then show ?thesis
    using assms(3) gateway_from_str_not_Panic [OF assms(1)]
    by cases (auto simp: requested_gateway_def parse_gateway_uri_from_path_def slice_to_def)
qed

text \<open>Called directly, the relay panics on a gateway whose name is shorter than eight characters.\<close>

lemma short_gateway_panics: "parse_gateway_uri_from_path U ''/a.io:80'' d = Panic"
  by (simp add: parse_gateway_uri_from_path_def slice_to_def)

section \<open>Tunnels\<close>

text \<open>The tunnels that are open and the permits that are left are always as many as at the start.\<close>

definition tunnels_ok :: "tunnel_limits \<Rightarrow> tunnels \<Rightarrow> bool" where
  "tunnels_ok limits t \<longleftrightarrow> tn_free t + length (tn_open t) = tl_permits limits"

lemma tunnels_kept:
  "tunnels_ok limits (new_tunnels limits)"
  "tunnels_ok limits t \<Longrightarrow> tunnels_ok limits (snd (handle_ohttp_keys key limits req g t))"
  by (auto simp: tunnels_ok_def new_tunnels_def handle_ohttp_keys_def connect_try_upgrade_def ws_try_upgrade_def open_tunnel_def
      split: option.splits)

lemma closed_tunnel_kept: "tunnels_ok limits t \<Longrightarrow> tunnels_ok limits (close_tunnel g t)"
proof (cases "g \<in> set (tn_open t)")
  case True
  then show "tunnels_ok limits t \<Longrightarrow> tunnels_ok limits (close_tunnel g t)"
    by (cases "length (tn_open t)") (auto simp: tunnels_ok_def close_tunnel_def length_remove1)
qed (simp add: close_tunnel_def)

text \<open>The labels of the metrics are a fixed set, whatever path or method a client sends.\<close>

lemma labels_bounded:
  "endpoint_label p \<in> {''/'', ''/health'', ''/ohttp-keys'', ''/.well-known/ohttp-gateway'', ''/{mailbox}'', ''/{gateway}'', ''other''}"
  "method_label m \<in> {''GET'', ''POST'', ''PUT'', ''DELETE'', ''HEAD'', ''OPTIONS'', ''CONNECT'', ''PATCH'', ''TRACE'', ''other''}"
  by (auto simp: endpoint_label_def method_label_def)

section \<open>An instance\<close>

definition sample_uri_api :: uri_api where
  "sample_uri_api =
     \<lparr>uri_from_str = (\<lambda>s. case split_once_str ''://'' s of
        None \<Rightarrow> Inl ''no scheme''
      | Some (sch, rest) \<Rightarrow> Inr \<lparr>uri_scheme = Some sch, uri_authority = Some rest, uri_path_and_query = None\<rparr>),
      authority_from_str = Inr, authority_host = before CHR '':'',
      authority_port = (\<lambda>a. Option.bind (split_once CHR '':'' a) (\<lambda>(h, p). parse_radix 10 65535 p))\<rparr>"

definition sample_relay :: relay_config where
  "sample_relay = \<lparr>rc_default_gateway = sample_gateway_uri, rc_sentinel_tag = ''one'', rc_ttls = default_ttls, rc_limits = default_tunnel_limits\<rparr>"

definition sample_dir :: directory where
  "sample_dir = \<lparr>dir_gateway = sample_gateway, dir_sentinel_tag = ''two'', dir_v1 = None, dir_home_page = []\<rparr>"

definition sample_post :: http_request where
  "sample_post = \<lparr>rr_method = ''POST'', rr_uri = \<lparr>uri_scheme = None, uri_authority = None, uri_path_and_query = None\<rparr>,
     rr_path = ''/https://b.io'', rr_query = None, rr_headers = [(''content-type'', ''message/ohttp-req'')], rr_body = Inr ''message''\<rparr>"

lemma sample_uri_laws: "uri_laws sample_uri_api"
  by (simp add: uri_laws_def sample_uri_api_def)

lemma routed_gateway_no_panic_witness: "requested_gateway sample_uri_api sample_relay sample_post \<noteq> Panic"
  by (rule routed_gateway_no_panic [OF sample_uri_laws]) code_simp+

lemma relay_forwards_to_gateway_witness:
  "rc_sentinel_tag sample_relay \<noteq> dir_sentinel_tag sample_dir \<and>
   (\<exists>s'. serve_ohttp_relay sample_uri_api sample_relay 1 2 id
      (directory_network sample_dir relay_wire sample_text (mail_room_db no_faults 3 id id) id) sample_post
      (\<lparr>rs_prober = sample_prober, rs_tunnels = new_tunnels default_tunnel_limits\<rparr>, (empty_mail_room relay_wire, [])) =
    (let A = gateway_answer sample_dir relay_wire sample_text (mail_room_db no_faults 3 id id) ''one'' ''message'' (empty_mail_room relay_wire, [])
     in (fst A, s', snd A)))"
proof
  show "rc_sentinel_tag sample_relay \<noteq> dir_sentinel_tag sample_dir" by (simp add: sample_relay_def sample_dir_def)
  have g: "requested_gateway sample_uri_api sample_relay sample_post = Ok sample_gateway_uri" by code_simp
  have u: "may_use 1 sample_gateway_uri (rs_prober \<lparr>rs_prober = sample_prober, rs_tunnels = new_tunnels default_tunnel_limits\<rparr>)"
    by code_simp
  have "header ''content-type'' (rr_headers sample_post) = Some expected_media_type" by code_simp
  from relay_forwards_to_gateway [OF _ this _ g u, of "''message''"]
  show "\<exists>s'. serve_ohttp_relay sample_uri_api sample_relay 1 2 id
      (directory_network sample_dir relay_wire sample_text (mail_room_db no_faults 3 id id) id) sample_post
      (\<lparr>rs_prober = sample_prober, rs_tunnels = new_tunnels default_tunnel_limits\<rparr>, (empty_mail_room relay_wire, [])) =
    (let A = gateway_answer sample_dir relay_wire sample_text (mail_room_db no_faults 3 id id) ''one'' ''message'' (empty_mail_room relay_wire, [])
     in (fst A, s', snd A))"
    unfolding Let_def by (simp add: sample_post_def sample_relay_def)
qed

end
