(* ===== verification/PJ_Mail_Setup.thy ===== *)
theory PJ_Mail_Setup
  imports PJ_Relay
begin

text \<open>
  What the mail room sets up before it serves, and the layers around its services:
  \<open>payjoin-mailroom/src/key_config.rs\<close>, \<open>access_control.rs\<close>, \<open>middleware.rs\<close> and the \<open>init\<close> functions
  and \<open>build_app\<close> of \<open>lib.rs\<close>.
\<close>

section \<open>The key configuration\<close>

text \<open>
  The crate \<open>ohttp\<close>: a new configuration has a key of its own (the argument is the randomness it
  draws), a derived one the key that belongs to its keying material.
\<close>

record key_api =
  key_config_new :: "nat \<Rightarrow> (nat, string) res"
  key_config_derive :: "string \<Rightarrow> (nat, string) res"
  server_new :: "nat \<Rightarrow> (nat, string) res"

record server_key_config =
  ikm :: string
  ohttp_server :: nat

text \<open>What the disk answers; a failed write leaves the first bytes.\<close>

record key_disk =
  dir_fault :: "string option"
  key_read_fault :: "string option"
  key_open_fault :: "string option"
  key_write_fault :: "(nat \<times> string) option"
  missing_text :: string
  exists_text :: string

definition gen_ohttp_server_config :: "key_api \<Rightarrow> string \<Rightarrow> nat \<Rightarrow> (server_key_config, string) res" where
  "gen_ohttp_server_config K random seed =
     rbind (key_config_new K seed) (\<lambda>config.
     rmap (\<lambda>s. \<lparr>ikm = random, ohttp_server = s\<rparr>) (server_new K config))"

text \<open>The key file, if there is one.\<close>

definition persist_new_key_config ::
  "key_disk \<Rightarrow> server_key_config \<Rightarrow> string option \<Rightarrow> (unit, string) res \<times> string option" where
  "persist_new_key_config D config f =
     (case (key_open_fault D, f) of
        (Some e, _) \<Rightarrow> (Err (''Failed to create new OHTTP key file: '' @ e), f)
      | (None, Some _) \<Rightarrow> (Err (''Failed to create new OHTTP key file: '' @ exists_text D), f)
      | (None, None) \<Rightarrow>
          (case key_write_fault D of
             None \<Rightarrow> (Ok (), Some (ikm config))
           | Some (n, e) \<Rightarrow> (Err (''Failed to write OHTTP keys to file: '' @ e), Some (take n (ikm config)))))"

definition read_server_config :: "key_api \<Rightarrow> key_disk \<Rightarrow> string option \<Rightarrow> (server_key_config, string) res" where
  "read_server_config K D f =
     (case (key_read_fault D, f) of
        (Some e, _) \<Rightarrow> Err (''Failed to read OHTTP key file: '' @ e)
      | (None, None) \<Rightarrow> Err (''Failed to read OHTTP key file: '' @ missing_text D)
      | (None, Some bytes) \<Rightarrow>
          if length bytes \<noteq> 32 then Panic
          else (case key_config_derive K bytes of
                  Ok config \<Rightarrow> rmap (\<lambda>s. \<lparr>ikm = bytes, ohttp_server = s\<rparr>) (server_new K config)
                | _ \<Rightarrow> Panic))"

definition init_ohttp_config ::
  "key_api \<Rightarrow> key_disk \<Rightarrow> string \<Rightarrow> nat \<Rightarrow> string option \<Rightarrow> (server_key_config, string) res \<times> string option" where
  "init_ohttp_config K D random seed f =
     (case dir_fault D of
        Some e \<Rightarrow> (Err e, f)
      | None \<Rightarrow>
          (case read_server_config K D f of
             Ok config \<Rightarrow> (Ok config, f)
           | Panic \<Rightarrow> (Panic, f)
           | Err _ \<Rightarrow>
               (case gen_ohttp_server_config K random seed of
                  Err e \<Rightarrow> (Err e, f)
                | Panic \<Rightarrow> (Panic, f)
                | Ok config \<Rightarrow>
                    (case persist_new_key_config D config f of
                       (Ok _, f) \<Rightarrow> (Ok config, f)
                     | (Err e, f) \<Rightarrow> (Err e, f)
                     | (Panic, f) \<Rightarrow> (Panic, f)))))"

section \<open>Files\<close>

text \<open>\<open>std::fs::write\<close>: it may not open the file, or fail after some bytes.\<close>

datatype write_fault = CannotOpen string | WrittenOnly nat string

fun write_file :: "write_fault option \<Rightarrow> string \<Rightarrow> string option \<Rightarrow> (unit, string) res \<times> string option" where
  "write_file None content f = (Ok (), Some content)"
| "write_file (Some (CannotOpen e)) content f = (Err e, f)"
| "write_file (Some (WrittenOnly n e)) content f = (Err e, Some (take n content))"

section \<open>Texts\<close>

text \<open>\<open>str::trim\<close>: the white space of Unicode, as UTF-8.\<close>

definition white_space :: "string list" where
  "white_space = map (map char_of) ([[9], [10], [11], [12], [13], [32], [194, 133], [194, 160], [225, 154, 128],
     [226, 128, 168], [226, 128, 169], [226, 128, 175], [226, 129, 159], [227, 128, 128]] @
     map (\<lambda>n. [226, 128, n]) [128..<139 :: nat])"

fun strip_any :: "string list \<Rightarrow> string \<Rightarrow> string option" where
  "strip_any [] s = None"
| "strip_any (p # ps) s = (case strip_prefix p s of Some rest \<Rightarrow> Some rest | None \<Rightarrow> strip_any ps s)"

primrec trim_by :: "nat \<Rightarrow> string list \<Rightarrow> string \<Rightarrow> string" where
  "trim_by 0 ps s = s"
| "trim_by (Suc n) ps s = (case strip_any ps s of Some rest \<Rightarrow> trim_by n ps rest | None \<Rightarrow> s)"

definition trim :: "string \<Rightarrow> string" where
  "trim s =
     (let s = trim_by (length s) white_space s
      in rev (trim_by (length s) (map rev white_space) (rev s)))"

text \<open>\<open>str::lines\<close>\<close>

definition strip_cr :: "string \<Rightarrow> string" where
  "strip_cr s = (if s \<noteq> [] \<and> last s = CHR 0x0D then butlast s else s)"

definition str_lines :: "string \<Rightarrow> string list" where
  "str_lines s =
     (let parts = split_on CHR 0x0A s
      in map strip_cr (butlast parts) @ (if last parts = [] then [] else [last parts]))"

section \<open>Blocked addresses\<close>

text \<open>Parsing an address and taking its script is the crate \<open>bitcoin\<close>.\<close>

definition parse_address_lines :: "(string \<Rightarrow> script option) \<Rightarrow> string \<Rightarrow> script set" where
  "parse_address_lines address text =
     set (List.map_filter (\<lambda>l. if trim l = [] then None else address (trim l)) (str_lines text))"

definition update_from_lines :: "(string \<Rightarrow> script option) \<Rightarrow> string \<Rightarrow> script set \<Rightarrow> nat \<times> script set" where
  "update_from_lines address text blocked = (let scripts = parse_address_lines address text in (card scripts, scripts))"

record blocklist_config =
  blocked_addresses_path :: "string option"
  blocked_addresses_url :: "string option"

text \<open>A fetch gives the body of a response with a status below 400, or nothing.\<close>

record list_io =
  read_list :: "string \<Rightarrow> (string, string) res"
  fetch_list :: "string \<Rightarrow> string option"
  list_write_fault :: "write_fault option"
  cache_read_fault :: "string option"

text \<open>\<open>load_address_cache\<close>, with the cache file, if there is one.\<close>

definition load_address_cache ::
  "(string \<Rightarrow> script option) \<Rightarrow> list_io \<Rightarrow> string option \<Rightarrow> script set \<Rightarrow> script set" where
  "load_address_cache address I cache blocked =
     (case (cache, cache_read_fault I) of
        (Some text, None) \<Rightarrow> snd (update_from_lines address text blocked)
      | _ \<Rightarrow> blocked)"

definition init_blocked_addresses ::
  "(string \<Rightarrow> script option) \<Rightarrow> list_io \<Rightarrow> blocklist_config option \<Rightarrow> string option \<Rightarrow> (script set option, string) res \<times> string option" where
  "init_blocked_addresses address I v1 cache =
     (case v1 of
        None \<Rightarrow> (Ok None, cache)
      | Some c \<Rightarrow>
          if blocked_addresses_path c = None \<and> blocked_addresses_url c = None then (Ok None, cache)
          else (case (case blocked_addresses_path c of
                        Some p \<Rightarrow> rmap (parse_address_lines address) (read_list I p)
                      | None \<Rightarrow> Ok {}) of
                  Err e \<Rightarrow> (Err e, cache)
                | Panic \<Rightarrow> (Panic, cache)
                | Ok blocked \<Rightarrow>
                    (case blocked_addresses_url c of
                       None \<Rightarrow> (Ok (Some blocked), cache)
                     | Some url \<Rightarrow>
                         (case fetch_list I url of
                            Some content \<Rightarrow> (Ok (Some (snd (update_from_lines address content blocked))), snd (write_file (list_write_fault I) content cache))
                          | None \<Rightarrow> (Ok (Some (load_address_cache address I cache blocked)), cache)))))"

text \<open>A round of the task that \<open>spawn_address_list_updater\<close> starts.\<close>

definition update_round ::
  "(string \<Rightarrow> script option) \<Rightarrow> list_io \<Rightarrow> string \<Rightarrow> script set \<times> string option \<Rightarrow> script set \<times> string option" where
  "update_round address I url = (\<lambda>(blocked, cache).
     case fetch_list I url of
       Some content \<Rightarrow> (snd (update_from_lines address content blocked), snd (write_file (list_write_fault I) content cache))
     | None \<Rightarrow> (blocked, cache))"

section \<open>The filter of peers\<close>

text \<open>The crates \<open>ipnet\<close> and \<open>maxminddb\<close>; a network, an address and a reader are numbers.\<close>

record ip_api =
  net_from_str :: "string \<Rightarrow> nat option"
  ip_from_str :: "string \<Rightarrow> (nat, string) res"
  net_of_ip :: "nat \<Rightarrow> nat"
  net_contains :: "nat \<Rightarrow> nat \<Rightarrow> bool"
  open_mmdb :: "string \<Rightarrow> (nat, string) res"
  geo_lookup :: "nat \<Rightarrow> nat \<Rightarrow> (nat, string) res"
  decode_country :: "nat \<Rightarrow> (string option, string) res"

record ip_filter =
  geo_reader :: "nat option"
  blocked_regions :: "string list"
  blocked_ips :: "nat list"

definition check_geo :: "ip_api \<Rightarrow> ip_filter \<Rightarrow> nat \<Rightarrow> bool" where
  "check_geo P F ip =
     (case geo_reader F of
        None \<Rightarrow> True
      | Some reader \<Rightarrow>
          if blocked_regions F = [] then True
          else (case geo_lookup P reader ip of
                  Ok result \<Rightarrow>
                    (case decode_country P result of
                       Ok (Some iso_code) \<Rightarrow> iso_code \<notin> set (blocked_regions F)
                     | _ \<Rightarrow> True)
                | _ \<Rightarrow> True))"

definition check_ip :: "ip_api \<Rightarrow> ip_filter \<Rightarrow> nat \<Rightarrow> bool" where
  "check_ip P F ip = (if list_ex (\<lambda>net. net_contains P net ip) (blocked_ips F) then False else check_geo P F ip)"

record access_control_config =
  geo_db_path :: "string option"
  config_regions :: "string list"
  config_ips :: "string list"

text \<open>Reading the file of a path, the request for the database, unpacking and writing it.\<close>

record geo_io =
  read_mmdb :: "string \<Rightarrow> (string, string) res"
  geo_response :: "(nat \<times> (string, string) res, string) res"
  gunzip :: "string \<Rightarrow> (string, string) res"
  geo_dir_fault :: "string option"
  geo_write_fault :: "write_fault option"

definition fetch_geoip_db :: "geo_io \<Rightarrow> string option \<Rightarrow> (unit, string) res \<times> string option" where
  "fetch_geoip_db G cached =
     (case rbind (geo_response G) (\<lambda>(status, content).
             if status < 200 \<or> 300 \<le> status then Err (''Failed to fetch GeoIP database: HTTP '' @ show_dec status)
             else rbind content (gunzip G)) of
        Err e \<Rightarrow> (Err e, cached)
      | Panic \<Rightarrow> (Panic, cached)
      | Ok decompressed \<Rightarrow>
          (case geo_dir_fault G of
             Some e \<Rightarrow> (Err e, cached)
           | None \<Rightarrow> write_file (geo_write_fault G) decompressed cached))"

definition fetch_and_open :: "ip_api \<Rightarrow> geo_io \<Rightarrow> string option \<Rightarrow> (nat option, string) res \<times> string option" where
  "fetch_and_open P G cached =
     (case fetch_geoip_db G cached of
        (Ok _, cached) \<Rightarrow> (rmap Some (case cached of Some content \<Rightarrow> open_mmdb P content | None \<Rightarrow> Panic), cached)
      | (Err e, cached) \<Rightarrow> (Err e, cached)
      | (Panic, cached) \<Rightarrow> (Panic, cached))"

definition open_geo_reader ::
  "ip_api \<Rightarrow> geo_io \<Rightarrow> access_control_config \<Rightarrow> string option \<Rightarrow> (nat option, string) res \<times> string option" where
  "open_geo_reader P G c cached =
     (case geo_db_path c of
        Some p \<Rightarrow> (rmap Some (rbind (read_mmdb G p) (open_mmdb P)), cached)
      | None \<Rightarrow>
          if config_regions c \<noteq> []
          then (case cached of
                  Some content \<Rightarrow>
                    (case open_mmdb P content of
                       Ok reader \<Rightarrow> (Ok (Some reader), cached)
                     | Err _ \<Rightarrow> fetch_and_open P G cached
                     | Panic \<Rightarrow> (Panic, cached))
                | None \<Rightarrow> fetch_and_open P G cached)
          else (Ok None, cached))"

definition parse_net :: "ip_api \<Rightarrow> string \<Rightarrow> (nat, string) res" where
  "parse_net P s =
     (case net_from_str P s of Some net \<Rightarrow> Ok net | None \<Rightarrow> rmap (net_of_ip P) (ip_from_str P s))"

definition ip_filter_from_config ::
  "ip_api \<Rightarrow> geo_io \<Rightarrow> access_control_config \<Rightarrow> string option \<Rightarrow> (ip_filter, string) res \<times> string option" where
  "ip_filter_from_config P G c cached =
     (case open_geo_reader P G c cached of
        (Err e, cached) \<Rightarrow> (Err e, cached)
      | (Panic, cached) \<Rightarrow> (Panic, cached)
      | (Ok reader, cached) \<Rightarrow>
          (rmap (\<lambda>nets. \<lparr>geo_reader = reader, blocked_regions = config_regions c, blocked_ips = nets\<rparr>)
             (try_map (parse_net P) (config_ips c)), cached))"

definition init_geoip ::
  "ip_api \<Rightarrow> geo_io \<Rightarrow> access_control_config option \<Rightarrow> string option \<Rightarrow> (ip_filter option, string) res \<times> string option" where
  "init_geoip P G config cached =
     (case config of
        Some c \<Rightarrow> (case ip_filter_from_config P G c cached of (r, cached) \<Rightarrow> (rmap Some r, cached))
      | None \<Rightarrow> (Ok None, cached))"

section \<open>The layers around the services\<close>

text \<open>The counters of \<open>metrics.rs\<close> that a request moves, and the labels of each completed request.\<close>

record request_metrics =
  requests_started :: nat
  requests_in_flight :: int
  requests_completed :: "(string \<times> string \<times> nat) list"

type_synonym 's service = "http_request \<Rightarrow> 's \<Rightarrow> (http_response, unit) res \<times> 's"

text \<open>The guard is dropped however the request ends.\<close>

definition track_connections :: "'s service \<Rightarrow> http_request \<Rightarrow> 's \<times> request_metrics \<Rightarrow> (http_response, unit) res \<times> 's \<times> request_metrics" where
  "track_connections run req = (\<lambda>(s, m).
     let m = m\<lparr>requests_started := requests_started m + 1, requests_in_flight := requests_in_flight m + 1\<rparr>;
         (r, s) = run req s
     in (r, s, m\<lparr>requests_in_flight := requests_in_flight m - 1\<rparr>))"

definition track_metrics ::
  "(http_request \<Rightarrow> 's \<times> request_metrics \<Rightarrow> (http_response, unit) res \<times> 's \<times> request_metrics) \<Rightarrow>
     http_request \<Rightarrow> 's \<times> request_metrics \<Rightarrow> (http_response, unit) res \<times> 's \<times> request_metrics" where
  "track_metrics run req = (\<lambda>x.
     case run req x of
       (Ok resp, s, m) \<Rightarrow>
         (Ok resp, s, m\<lparr>requests_completed := requests_completed m @ [(endpoint_label (rr_path req), method_label (rr_method req), rs_status resp)]\<rparr>)
     | (r, s, m) \<Rightarrow> (r, s, m))"

text \<open>The peer's address, where the connection has one.\<close>

definition check_geoip ::
  "ip_api \<Rightarrow> ip_filter option \<Rightarrow> nat option \<Rightarrow> (http_request \<Rightarrow> 's \<Rightarrow> (http_response, unit) res \<times> 's) \<Rightarrow>
     http_request \<Rightarrow> 's \<Rightarrow> (http_response, unit) res \<times> 's" where
  "check_geoip P geoip peer run req s =
     (case (geoip, peer) of
        (Some F, Some ip) \<Rightarrow> if \<not> check_ip P F ip then (Ok (with_status 403), s) else run req s
      | _ \<Rightarrow> run req s)"

definition build_app ::
  "ip_api \<Rightarrow> ip_filter option \<Rightarrow> 's service \<Rightarrow> nat option \<Rightarrow> http_request \<Rightarrow> 's \<times> request_metrics \<Rightarrow>
     (http_response, unit) res \<times> 's \<times> request_metrics" where
  "build_app P geoip services peer = check_geoip P geoip peer (track_metrics (track_connections services))"

end
