(* ===== verification/PJ_Mail_Setup_Facts.thy ===== *)
theory PJ_Mail_Setup_Facts
  imports PJ_Mail_Setup PJ_Relay_Facts
begin

text \<open>
  What holds of the mail room's set-up: which key a server that is started again serves with, what
  becomes of the lists of addresses, and that blocked peers leave no trace.
\<close>

section \<open>The key\<close>

text \<open>A start, whatever the disk does and whatever is drawn at random.\<close>

inductive started :: "key_api \<Rightarrow> string option \<Rightarrow> string option \<Rightarrow> bool" for K :: key_api where
  started: "started K f (snd (init_ohttp_config K D random seed f))"

lemma key_file_stays: "snd (init_ohttp_config K D random seed (Some b)) = Some b"
  by (auto simp: init_ohttp_config_def persist_new_key_config_def split: option.splits res.splits)

lemma key_file_never_replaced: "(started K)\<^sup>*\<^sup>* f f' \<Longrightarrow> f = Some b \<Longrightarrow> f' = Some b"
  by (induction rule: rtranclp_induct) (auto simp: key_file_stays elim!: started.cases)

lemma start_with_key_file:
  assumes "init_ohttp_config K D random seed (Some b) = (Ok c, f)"
  shows "length b = 32 \<and> ikm c = b \<and> (\<exists>k. key_config_derive K b = Ok k \<and> server_new K k = Ok (ohttp_server c))"
  using assms
  by (auto simp: init_ohttp_config_def persist_new_key_config_def read_server_config_def rmap_eq_Ok
      split: option.splits res.splits if_splits)

text \<open>The first start draws a key; what it stores is the keying material it drew beside it.\<close>

lemma first_start:
  assumes "init_ohttp_config K D random seed None = (Ok c, f)"
  shows "f = Some random \<and> ikm c = random \<and> (\<exists>k. key_config_new K seed = Ok k \<and> server_new K k = Ok (ohttp_server c))"
  using assms
  by (auto simp: init_ohttp_config_def persist_new_key_config_def read_server_config_def gen_ohttp_server_config_def
      rbind_eq_Ok rmap_eq_Ok split: option.splits res.splits if_splits)

text \<open>C22: After a first start of the mail room that succeeded, whatever later starts do, the key file holds
  what the first start stored, and every later start that succeeds serves with the key that is
  derived from it: clients that know the key of one of them reach all of them.\<close>

theorem later_starts_serve_one_key:
  assumes "init_ohttp_config K D random seed None = (Ok c, f)" and "(started K)\<^sup>*\<^sup>* f f'"
    and "init_ohttp_config K D' random' seed' f' = (Ok c', f'')"
  shows "f' = Some random \<and> f'' = Some random \<and> ikm c' = ikm c \<and>
    (\<exists>k. key_config_derive K random = Ok k \<and> server_new K k = Ok (ohttp_server c'))"
proof -
  have f: "f = Some random" "ikm c = random" using first_start [OF assms(1)] by simp_all
  then have f': "f' = Some random" using key_file_never_replaced [OF assms(2)] by simp
  then have "f'' = Some random" using key_file_stays [of K D' random' seed' random] assms(3) by simp
  with f f' start_with_key_file [of K D' random' seed' random c' f''] assms(3) show ?thesis by simp
qed

definition sample_keys :: key_api where
  "sample_keys = \<lparr>key_config_new = Ok, key_config_derive = (\<lambda>b. Ok (length b)), server_new = (\<lambda>k. Ok (k + 100))\<rparr>"

definition sample_disk :: key_disk where
  "sample_disk = \<lparr>dir_fault = None, key_read_fault = None, key_open_fault = None, key_write_fault = None,
     missing_text = ''missing'', exists_text = ''exists''\<rparr>"

definition sample_ikm :: string where "sample_ikm = replicate 32 CHR ''k''"

lemmas sample_key_defs = sample_keys_def sample_disk_def init_ohttp_config_def read_server_config_def gen_ohttp_server_config_def
  persist_new_key_config_def

text \<open>The first start does not serve with that key: it is another one, which the second start has lost.\<close>

lemma second_start_changes_key:
  "init_ohttp_config sample_keys sample_disk sample_ikm 7 None = (Ok \<lparr>ikm = sample_ikm, ohttp_server = 107\<rparr>, Some sample_ikm) \<and>
   init_ohttp_config sample_keys sample_disk r s (Some sample_ikm) = (Ok \<lparr>ikm = sample_ikm, ohttp_server = 132\<rparr>, Some sample_ikm)"
  by (simp add: sample_key_defs sample_ikm_def)

theorem later_starts_serve_one_key_witness:
  "ikm \<lparr>ikm = sample_ikm, ohttp_server = 132\<rparr> = sample_ikm \<and>
   (\<exists>k. key_config_derive sample_keys sample_ikm = Ok k \<and> server_new sample_keys k = Ok 132)"
proof -
  have first: "init_ohttp_config sample_keys sample_disk sample_ikm 7 None = (Ok \<lparr>ikm = sample_ikm, ohttp_server = 107\<rparr>, Some sample_ikm)"
    and next_start: "init_ohttp_config sample_keys sample_disk [] 8 (Some sample_ikm) =
      (Ok \<lparr>ikm = sample_ikm, ohttp_server = 132\<rparr>, Some sample_ikm)"
    using second_start_changes_key by simp_all
  from later_starts_serve_one_key [OF first _ next_start] show ?thesis by simp
qed

text \<open>A write that fails half way leaves a file that makes every later start panic.\<close>

lemma broken_key_file_panics:
  assumes "length b \<noteq> 32" and "dir_fault D = None" and "key_read_fault D = None"
  shows "init_ohttp_config K D random seed (Some b) = (Panic, Some b)"
  using assms by (simp add: init_ohttp_config_def read_server_config_def)

section \<open>Blocked addresses\<close>

lemma trim_example: "trim ('' '' @ [char_of (194 :: nat), char_of (160 :: nat)] @ ''bc1 x'' @ [CHR 0x0D]) = ''bc1 x''"
  by code_simp

text \<open>The list from the network replaces the one of the file; a failed fetch keeps what there is.\<close>

lemma url_replaces_file:
  assumes "blocked_addresses_url c = Some url" and "fetch_list I url = Some content"
    and "init_blocked_addresses address I (Some c) cache = (Ok b, cache')"
  shows "b = Some (parse_address_lines address content)"
  using assms by (auto simp: init_blocked_addresses_def update_from_lines_def Let_def split: option.splits res.splits)

lemma failed_fetch_keeps:
  "fetch_list I url = None \<Longrightarrow> update_round address I url x = x"
  by (simp add: update_round_def split: prod.split)

lemma failed_fetch_loads_cache:
  assumes "blocked_addresses_url c = Some url" and "fetch_list I url = None" and "cache_read_fault I = None"
    and "init_blocked_addresses address I (Some c) (Some text) = (Ok b, cache')"
  shows "b = Some (parse_address_lines address text) \<and> cache' = Some text"
  using assms by (auto simp: init_blocked_addresses_def load_address_cache_def update_from_lines_def Let_def split: option.splits res.splits)

section \<open>Peers and metrics\<close>

text \<open>An unknown country, like any failure of the look-up, lets the peer through.\<close>

lemma check_ip_iff:
  "check_ip P F ip \<longleftrightarrow> (\<forall>net \<in> set (blocked_ips F). \<not> net_contains P net ip) \<and>
     (\<forall>reader result iso. geo_reader F = Some reader \<and> geo_lookup P reader ip = Ok result \<and> decode_country P result = Ok (Some iso) \<longrightarrow>
        iso \<notin> set (blocked_regions F))"
  by (auto simp: check_ip_def check_geo_def list_ex_iff split: option.splits res.splits)

lemma blocked_peer_reaches_nothing:
  "\<not> check_ip P F ip \<Longrightarrow> build_app P (Some F) services (Some ip) req x = (Ok (with_status 403), x)"
  by (simp add: build_app_def check_geoip_def)

text \<open>Requests one after the other, each with its peer.\<close>

fun serve_all ::
  "ip_api \<Rightarrow> ip_filter option \<Rightarrow> 's service \<Rightarrow> (nat option \<times> http_request) list \<Rightarrow> 's \<times> request_metrics \<Rightarrow> 's \<times> request_metrics" where
  "serve_all P F services [] x = x"
| "serve_all P F services ((peer, req) # reqs) x = serve_all P F services reqs (snd (build_app P F services peer req x))"

definition metrics_ok :: "nat \<Rightarrow> request_metrics \<Rightarrow> bool" where
  "metrics_ok n m \<longleftrightarrow> requests_in_flight m = 0 \<and> length (requests_completed m) \<le> requests_started m \<and> requests_started m \<le> n \<and>
     list_all (\<lambda>x. fst x \<in> range endpoint_label \<and> fst (snd x) \<in> range method_label) (requests_completed m)"

lemma build_app_metrics:
  assumes "metrics_ok n m" and "build_app P F services peer req (s, m) = (r, s', m')"
  shows "metrics_ok (Suc n) m'"
  using assms
  by (auto simp: build_app_def check_geoip_def track_metrics_def track_connections_def metrics_ok_def Let_def
      split: option.splits res.splits prod.splits if_splits)

lemma serve_all_metrics: "metrics_ok n m \<Longrightarrow> metrics_ok (n + length reqs) (snd (serve_all P F services reqs (s, m)))"
proof (induction reqs arbitrary: n s m)
  case (Cons pr reqs)
  obtain peer req where pr: "pr = (peer, req)" by fastforce
  obtain r s' m' where b: "build_app P F services peer req (s, m) = (r, s', m')" by (metis prod_cases3)
  from Cons.IH [OF build_app_metrics [OF Cons.prems b], of s'] b pr show ?case by simp
qed simp

text \<open>Whatever clients send, the counter of completed requests has at most 70 endpoints with methods.\<close>

lemma metric_labels_bounded:
  assumes "requests_completed m = []" and "requests_in_flight m = 0"
  shows "card ((\<lambda>(e, v, c). (e, v)) ` set (requests_completed (snd (serve_all P F services reqs (s, m))))) \<le> 70"
proof -
  let ?E = "{''/'', ''/health'', ''/ohttp-keys'', ''/.well-known/ohttp-gateway'', ''/{mailbox}'', ''/{gateway}'', ''other''} :: string set"
  let ?V = "{''GET'', ''POST'', ''PUT'', ''DELETE'', ''HEAD'', ''OPTIONS'', ''CONNECT'', ''PATCH'', ''TRACE'', ''other''} :: string set"
  have "metrics_ok (requests_started m) m" using assms by (simp add: metrics_ok_def)
  then have "(\<lambda>(e, v, c). (e, v)) ` set (requests_completed (snd (serve_all P F services reqs (s, m)))) \<subseteq> range endpoint_label \<times> range method_label"
    using serve_all_metrics [of "requests_started m" m reqs P F services s] by (fastforce simp: metrics_ok_def list_all_iff)
  also have "\<dots> \<subseteq> ?E \<times> ?V" using labels_bounded by blast
  finally have "card ((\<lambda>(e, v, c). (e, v)) ` set (requests_completed (snd (serve_all P F services reqs (s, m))))) \<le> card (?E \<times> ?V)"
    by (rule card_mono [rotated]) simp
  then show ?thesis by (simp add: card_cartesian_product)
qed

end
