(* ===== verification/PJ_Cli_Db.thy ===== *)
theory PJ_Cli_Db
  imports PJ_Session
begin

text \<open>
  The database of the command line program: \<open>payjoin-cli/src/db/mod.rs\<close> and \<open>db/v2.rs\<close>.

  A table is the list of its rows in the order they were inserted, which is the order of the
  identifiers that \<open>AUTOINCREMENT\<close> gives out, since no row is ever deleted. The outside decides at
  every tick whether the pool has a connection, whether that connection enforces foreign keys,
  whether a statement fails, and what time it is; reading
  the log of a session fails as the outside says. A statement that fails changes nothing. An
  identifier of a session is the number of its UUID.
\<close>

section \<open>Tables\<close>

type_synonym session_id = nat

datatype duplicate_kind = DuplicateUri | DuplicateReceiverPubkey

datatype cli_db_error =
  Rusqlite string | R2d2 string | SerializeError string | DeserializeError string | DuplicateSendSession duplicate_kind

record send_row =
  snd_session_id :: session_id
  snd_pj_uri :: string
  snd_receiver_pubkey :: string
  snd_completed_at :: "nat option"

record receive_row =
  rcv_session_id :: session_id
  rcv_completed_at :: "nat option"

record event_row =
  ev_session_id :: session_id
  ev_data :: string
  ev_created_at :: nat

record database =
  send_sessions :: "send_row list"
  receive_sessions :: "receive_row list"
  send_session_events :: "event_row list"
  receive_session_events :: "event_row list"
  inputs_seen :: "(outpoint \<times> nat) list"
  db_ticks :: nat

definition init_schema :: database where
  "init_schema = \<lparr>send_sessions = [], receive_sessions = [], send_session_events = [],
     receive_session_events = [], inputs_seen = [], db_ticks = 0\<rparr>"

record db_outside =
  pool_fault :: "nat \<Rightarrow> string option"
  statement_fault :: "nat \<Rightarrow> string option"
  load_fault :: "cli_db_error option"
  constraint_text :: string
  enforces_keys :: "nat \<Rightarrow> bool"
  db_now :: "nat \<Rightarrow> nat"

definition reliable_outside :: "nat \<Rightarrow> db_outside" where
  "reliable_outside t = \<lparr>pool_fault = (\<lambda>_. None), statement_fault = (\<lambda>_. None), load_fault = None, constraint_text = [],
     enforces_keys = (\<lambda>_. True), db_now = (\<lambda>_. t)\<rparr>"

section \<open>Statements\<close>

definition get_connection :: "db_outside \<Rightarrow> database \<Rightarrow> (unit, cli_db_error) res \<times> database" where
  "get_connection F d =
     (case pool_fault F (db_ticks d) of Some e \<Rightarrow> Err (R2d2 e) | None \<Rightarrow> Ok (), d\<lparr>db_ticks := Suc (db_ticks d)\<rparr>)"

definition statement :: "db_outside \<Rightarrow> database \<Rightarrow> (unit, cli_db_error) res \<times> database" where
  "statement F d =
     (case statement_fault F (db_ticks d) of Some e \<Rightarrow> Err (Rusqlite e) | None \<Rightarrow> Ok (), d\<lparr>db_ticks := Suc (db_ticks d)\<rparr>)"

text \<open>A statement that takes its connection from the pool and has the effect \<open>f\<close>.\<close>

definition run_statement ::
  "db_outside \<Rightarrow> (database \<Rightarrow> ('a, cli_db_error) res \<times> database) \<Rightarrow> database \<Rightarrow> ('a, cli_db_error) res \<times> database" where
  "run_statement F f d =
     (case get_connection F d of
        (Err e, d) \<Rightarrow> (Err e, d)
      | (Panic, d) \<Rightarrow> (Panic, d)
      | (Ok _, d) \<Rightarrow>
          (case statement F d of
             (Err e, d) \<Rightarrow> (Err e, d)
           | (Panic, d) \<Rightarrow> (Panic, d)
           | (Ok _, d) \<Rightarrow> f d))"

definition insert_input_seen_before :: "db_outside \<Rightarrow> outpoint \<Rightarrow> database \<Rightarrow> (bool, cli_db_error) res \<times> database" where
  "insert_input_seen_before F input = run_statement F (\<lambda>d.
     if input \<in> fst ` set (inputs_seen d) then (Ok True, d)
     else (Ok False, d\<lparr>inputs_seen := inputs_seen d @ [(input, db_now F (db_ticks d))]\<rparr>))"

section \<open>Sessions of the sender\<close>

text \<open>
  The two checks are one statement; the insertion is the next one. The primary key is the
  identifier of the session.
\<close>

definition sender_persister_new ::
  "db_outside \<Rightarrow> session_id \<Rightarrow> string \<Rightarrow> string \<Rightarrow> database \<Rightarrow> (session_id, cli_db_error) res \<times> database" where
  "sender_persister_new F new_id pj_uri receiver_pubkey = run_statement F (\<lambda>d.
     if pj_uri \<in> snd_pj_uri ` set (send_sessions d) then (Err (DuplicateSendSession DuplicateUri), d)
     else if receiver_pubkey \<in> snd_receiver_pubkey ` set (send_sessions d)
     then (Err (DuplicateSendSession DuplicateReceiverPubkey), d)
     else (case statement F d of
             (Err e, d) \<Rightarrow> (Err e, d)
           | (Panic, d) \<Rightarrow> (Panic, d)
           | (Ok _, d) \<Rightarrow>
               if new_id \<in> snd_session_id ` set (send_sessions d) then (Err (Rusqlite (constraint_text F)), d)
               else (Ok new_id, d\<lparr>send_sessions := send_sessions d @
                      [\<lparr>snd_session_id = new_id, snd_pj_uri = pj_uri, snd_receiver_pubkey = receiver_pubkey,
                        snd_completed_at = None\<rparr>]\<rparr>)))"

text \<open>Events as text; the crate \<open>serde_json\<close>.\<close>

record 'e event_json =
  event_to_string :: "'e \<Rightarrow> string + string"
  event_from_str :: "string \<Rightarrow> 'e option"

definition event_json_ok :: "'e event_json \<Rightarrow> bool" where
  "event_json_ok J \<longleftrightarrow> (\<forall>e s. event_to_string J e = Inr s \<longrightarrow> event_from_str J s = Some e)"

text \<open>The connection is taken before the event is serialised.\<close>

definition append_event ::
  "db_outside \<Rightarrow> 'e event_json \<Rightarrow> (database \<Rightarrow> session_id set) \<Rightarrow> ((event_row list \<Rightarrow> event_row list) \<Rightarrow> database \<Rightarrow> database) \<Rightarrow>
     session_id \<Rightarrow> 'e \<Rightarrow> database \<Rightarrow> (unit, cli_db_error) res \<times> database" where
  "append_event F J sessions table sid e d =
     (case get_connection F d of
        (Err x, d) \<Rightarrow> (Err x, d)
      | (Panic, d) \<Rightarrow> (Panic, d)
      | (Ok _, d) \<Rightarrow>
          (case event_to_string J e of
             Inl x \<Rightarrow> (Err (SerializeError x), d)
           | Inr data \<Rightarrow>
               (case statement F d of
                  (Err x, d) \<Rightarrow> (Err x, d)
                | (Panic, d) \<Rightarrow> (Panic, d)
                | (Ok _, d) \<Rightarrow>
                    if enforces_keys F (db_ticks d) \<and> sid \<notin> sessions d then (Err (Rusqlite (constraint_text F)), d)
                    else (Ok (), table (\<lambda>rows. rows @ [\<lparr>ev_session_id = sid, ev_data = data,
                            ev_created_at = db_now F (db_ticks d)\<rparr>]) d))))"

text \<open>\<open>SELECT event_data ... ORDER BY id ASC\<close>; a row that is not an event is a panic.\<close>

definition event_rows :: "session_id \<Rightarrow> event_row list \<Rightarrow> string list" where
  "event_rows sid rows = map ev_data (filter (\<lambda>r. ev_session_id r = sid) rows)"

definition load_events ::
  "db_outside \<Rightarrow> 'e event_json \<Rightarrow> session_id \<Rightarrow> event_row list \<Rightarrow> ('e list, cli_db_error) res" where
  "load_events F J sid rows =
     (case load_fault F of
        Some x \<Rightarrow> Err x
      | None \<Rightarrow> try_map (\<lambda>data. expect (event_from_str J data)) (event_rows sid rows))"

definition sender_save_event :: "db_outside \<Rightarrow> 'e event_json \<Rightarrow> session_id \<Rightarrow> 'e \<Rightarrow> database \<Rightarrow> (unit, cli_db_error) res \<times> database" where
  "sender_save_event F J = append_event F J (\<lambda>d. snd_session_id ` set (send_sessions d)) send_session_events_update"

definition sender_load :: "db_outside \<Rightarrow> 'e event_json \<Rightarrow> session_id \<Rightarrow> database \<Rightarrow> ('e list, cli_db_error) res" where
  "sender_load F J sid d = load_events F J sid (send_session_events d)"

definition sender_close :: "db_outside \<Rightarrow> session_id \<Rightarrow> database \<Rightarrow> (unit, cli_db_error) res \<times> database" where
  "sender_close F sid = run_statement F (\<lambda>d. (Ok (), d\<lparr>send_sessions :=
     map (\<lambda>r. if snd_session_id r = sid then r\<lparr>snd_completed_at := Some (db_now F (db_ticks d))\<rparr> else r) (send_sessions d)\<rparr>))"

definition sender_persister ::
  "db_outside \<Rightarrow> 'e event_json \<Rightarrow> session_id \<Rightarrow> (database, 'e, cli_db_error) persister" where
  "sender_persister F J sid = \<lparr>save_event = sender_save_event F J sid, load = sender_load F J sid, close_session = sender_close F sid\<rparr>"

section \<open>Sessions of the receiver\<close>

definition receiver_persister_new :: "db_outside \<Rightarrow> session_id \<Rightarrow> database \<Rightarrow> (session_id, cli_db_error) res \<times> database" where
  "receiver_persister_new F new_id = run_statement F (\<lambda>d.
     if new_id \<in> rcv_session_id ` set (receive_sessions d) then (Err (Rusqlite (constraint_text F)), d)
     else (Ok new_id, d\<lparr>receive_sessions := receive_sessions d @ [\<lparr>rcv_session_id = new_id, rcv_completed_at = None\<rparr>]\<rparr>))"

definition receiver_save_event :: "db_outside \<Rightarrow> 'e event_json \<Rightarrow> session_id \<Rightarrow> 'e \<Rightarrow> database \<Rightarrow> (unit, cli_db_error) res \<times> database" where
  "receiver_save_event F J = append_event F J (\<lambda>d. rcv_session_id ` set (receive_sessions d)) receive_session_events_update"

definition receiver_load :: "db_outside \<Rightarrow> 'e event_json \<Rightarrow> session_id \<Rightarrow> database \<Rightarrow> ('e list, cli_db_error) res" where
  "receiver_load F J sid d = load_events F J sid (receive_session_events d)"

definition receiver_close :: "db_outside \<Rightarrow> session_id \<Rightarrow> database \<Rightarrow> (unit, cli_db_error) res \<times> database" where
  "receiver_close F sid = run_statement F (\<lambda>d. (Ok (), d\<lparr>receive_sessions :=
     map (\<lambda>r. if rcv_session_id r = sid then r\<lparr>rcv_completed_at := Some (db_now F (db_ticks d))\<rparr> else r) (receive_sessions d)\<rparr>))"

definition receiver_persister ::
  "db_outside \<Rightarrow> 'e event_json \<Rightarrow> session_id \<Rightarrow> (database, 'e, cli_db_error) persister" where
  "receiver_persister F J sid = \<lparr>save_event = receiver_save_event F J sid, load = receiver_load F J sid, close_session = receiver_close F sid\<rparr>"

section \<open>Queries\<close>

definition db_query :: "db_outside \<Rightarrow> (database \<Rightarrow> 'a) \<Rightarrow> database \<Rightarrow> ('a, cli_db_error) res \<times> database" where
  "db_query F q = run_statement F (\<lambda>d. (Ok (q d), d))"

definition get_recv_session_ids :: "db_outside \<Rightarrow> database \<Rightarrow> (session_id list, cli_db_error) res \<times> database" where
  "get_recv_session_ids F = db_query F (\<lambda>d. map rcv_session_id (filter (\<lambda>r. rcv_completed_at r = None) (receive_sessions d)))"

definition get_send_session_ids :: "db_outside \<Rightarrow> database \<Rightarrow> (session_id list, cli_db_error) res \<times> database" where
  "get_send_session_ids F = db_query F (\<lambda>d. map snd_session_id (filter (\<lambda>r. snd_completed_at r = None) (send_sessions d)))"

text \<open>The first row, if any.\<close>

definition get_send_session_id_by_receiver_pk ::
  "db_outside \<Rightarrow> string \<Rightarrow> database \<Rightarrow> (session_id option, cli_db_error) res \<times> database" where
  "get_send_session_id_by_receiver_pk F pk = db_query F (\<lambda>d. map_option snd_session_id
     (List.find (\<lambda>r. snd_receiver_pubkey r = pk \<and> snd_completed_at r = None) (send_sessions d)))"

definition get_inactive_send_session_ids :: "db_outside \<Rightarrow> database \<Rightarrow> ((session_id \<times> nat) list, cli_db_error) res \<times> database" where
  "get_inactive_send_session_ids F = db_query F (\<lambda>d.
     concat (map (\<lambda>r. case snd_completed_at r of Some t \<Rightarrow> [(snd_session_id r, t)] | None \<Rightarrow> []) (send_sessions d)))"

definition get_inactive_recv_session_ids :: "db_outside \<Rightarrow> database \<Rightarrow> ((session_id \<times> nat) list, cli_db_error) res \<times> database" where
  "get_inactive_recv_session_ids F = db_query F (\<lambda>d.
     concat (map (\<lambda>r. case rcv_completed_at r of Some t \<Rightarrow> [(rcv_session_id r, t)] | None \<Rightarrow> []) (receive_sessions d)))"

definition send_session_exists :: "db_outside \<Rightarrow> session_id \<Rightarrow> database \<Rightarrow> (bool, cli_db_error) res \<times> database" where
  "send_session_exists F sid = db_query F (\<lambda>d. sid \<in> snd_session_id ` set (send_sessions d))"

definition recv_session_exists :: "db_outside \<Rightarrow> session_id \<Rightarrow> database \<Rightarrow> (bool, cli_db_error) res \<times> database" where
  "recv_session_exists F sid = db_query F (\<lambda>d. sid \<in> rcv_session_id ` set (receive_sessions d))"

end
