(* ===== verification/PJ_Cli_App.thy ===== *)
theory PJ_Cli_App
  imports PJ_Cli_Db PJ_Cli_V1 PJ_Receive_Session PJ_Send_Session PJ_Send_Request
begin

text \<open>
  What every command of the command line program uses: the state of the \<open>App\<close> of
  \<open>payjoin-cli/src/app/v2/mod.rs\<close>, fetching OHTTP keys (\<open>payjoin/src/core/io.rs\<close>), choosing a relay
  and a directory (\<open>app/v2/ohttp.rs\<close>) and posting a request over a relay. The outside, \<open>'w\<close>, is the
  clock, the generator of random numbers, the node, the network and the disk.
\<close>

section \<open>Fetching OHTTP keys\<close>

datatype keys_error = UnexpectedStatusCode nat | KeysParseUrl into_url_error | KeysReqwest string | KeysIo string | InvalidOhttpKeysReturned nat

text \<open>The response of a GET over a proxy: an error of the client, or a status and a body that may break off.\<close>

type_synonym http_answer = "string + (nat \<times> (string + string))"

definition parse_ohttp_keys_response :: "wire_api \<Rightarrow> nat \<times> (string + string) \<Rightarrow> (nat, keys_error) res" where
  "parse_ohttp_keys_response W r =
     (if \<not> (200 \<le> fst r \<and> fst r < 300) then Err (UnexpectedStatusCode (fst r))
      else rbind (from_sum KeysReqwest (snd r)) (\<lambda>bytes. from_sum InvalidOhttpKeysReturned (config_decode W bytes)))"

definition fetch_ohttp_keys ::
  "wire_api \<Rightarrow> (string \<Rightarrow> string \<Rightarrow> 'w \<Rightarrow> http_answer \<times> 'w) \<Rightarrow> string \<Rightarrow> string \<Rightarrow> 'w \<Rightarrow> (nat, keys_error) res \<times> 'w" where
  "fetch_ohttp_keys W http_get ohttp_relay payjoin_directory w =
     (case rbind (map_err KeysParseUrl (into_url payjoin_directory)) (\<lambda>u.
           rbind (map_err (\<lambda>e. KeysParseUrl (ParseError e)) (join ''/.well-known/ohttp-gateway'' u)) (\<lambda>ohttp_keys_url.
             rmap (\<lambda>proxy. (raw ohttp_keys_url, raw proxy)) (map_err KeysParseUrl (into_url ohttp_relay)))) of
        Err e \<Rightarrow> (Err e, w)
      | Panic \<Rightarrow> (Panic, w)
      | Ok (ohttp_keys_url, proxy) \<Rightarrow>
          (case http_get ohttp_keys_url proxy w of (answer, w) \<Rightarrow>
             (rbind (from_sum KeysReqwest answer) (parse_ohttp_keys_response W), w)))"

section \<open>The application\<close>

text \<open>The node behind the wallet; \<open>checked_extract_tx\<close> is \<open>Psbt::extract_tx\<close>, which refuses an absurd fee.\<close>

record node = wallet +
  get_raw_transaction :: "txid \<Rightarrow> (transaction option, implementation_error) res"
  create_psbt :: "script \<Rightarrow> amount \<Rightarrow> fee_rate \<Rightarrow> (psbt, implementation_error) res"
  checked_extract_tx :: "psbt \<Rightarrow> (transaction, string) res"

datatype cli_error =
  NoValidRelays | NoValidDirectories | KeysUnavailable keys_error | RequestFailed create_request_error
| ResponseUnreadable | NodeError implementation_error | DatabaseError cli_db_error | SessionFailed
| NoSpendableUtxos | SelectionFailed coin_selection_error | ContributionFailed input_contribution_error
| NotDetected | BuildFailed build_sender_error | BuilderUrl into_url_error | BadUri string | MissingAmount
| SessionNotFound session_id | BothRoles session_id | ReplayFailed | HttpFailed

text \<open>What the user is told, as far as there is something to act on.\<close>

datatype notice =
  SessionEstablished session_id | ShareUri pj_uri | BroadcastManually transaction | ConsiderBroadcasting transaction
| Broadcasted txid | PayjoinSent txid | WatchMempool txid | AlreadyCompleted | NothingToBroadcast | RunCancel session_id
| PayjoinFailed transaction | SessionCompleted session_id | NoSessions

record 'w app =
  ap_db :: database
  failed_relays :: "url list"
  failed_directories :: "url list"
  printed :: "notice list"
  ap_world :: 'w

record 'w cli_setup =
  st_env :: env
  ohttp_relays :: "url list"
  pj_directories :: "url list"
  st_ohttp_keys :: "nat option"
  st_max_fee_rate :: "fee_rate option"
  st_expire_in_secs :: "nat option"
  st_rng :: "nat rng"
  receive_json :: "session_event event_json"
  send_json :: "send_event event_json"
  ask_clock :: "'w \<Rightarrow> clock \<times> 'w"
  ask_random :: "'w \<Rightarrow> nat \<times> 'w"
  ask_bytes :: "'w \<Rightarrow> string \<times> 'w"
  ask_node :: "'w \<Rightarrow> node \<times> 'w"
  ask_database :: "'w \<Rightarrow> db_outside \<times> 'w"
  send_raw_transaction :: "transaction \<Rightarrow> 'w \<Rightarrow> (txid, implementation_error) res \<times> 'w"
  http_post :: "request \<Rightarrow> 'w \<Rightarrow> (nat \<times> string option) option \<times> 'w"
  http_get :: "string \<Rightarrow> string \<Rightarrow> 'w \<Rightarrow> http_answer \<times> 'w"
  bip21_from_str :: "string \<Rightarrow> (pj_uri, string) res"

section \<open>Stateful code with errors\<close>

definition give :: "'a \<Rightarrow> 's \<Rightarrow> ('a, 'e) res \<times> 's" where "give x a = (Ok x, a)"

definition fails :: "'e \<Rightarrow> 's \<Rightarrow> ('a, 'e) res \<times> 's" where "fails e a = (Err e, a)"

definition lift :: "('a, 'e) res \<Rightarrow> 's \<Rightarrow> ('a, 'e) res \<times> 's" where "lift r a = (r, a)"

text \<open>The \<open>?\<close> operator, and a \<open>match\<close> on the result.\<close>

definition andthen :: "('s \<Rightarrow> ('a, 'e) res \<times> 's) \<Rightarrow> ('a \<Rightarrow> 's \<Rightarrow> ('b, 'e) res \<times> 's) \<Rightarrow> 's \<Rightarrow> ('b, 'e) res \<times> 's" where
  "andthen m f a =
     (case m a of
        (Ok x, a) \<Rightarrow> f x a
      | (Err e, a) \<Rightarrow> (Err e, a)
      | (Panic, a) \<Rightarrow> (Panic, a))"

definition on_result :: "('s \<Rightarrow> ('a, 'e) res \<times> 's) \<Rightarrow> (('a, 'e) res \<Rightarrow> 's \<Rightarrow> ('b, 'f) res \<times> 's) \<Rightarrow> 's \<Rightarrow> ('b, 'f) res \<times> 's" where
  "on_result m f a = (case m a of (r, a) \<Rightarrow> f r a)"

definition error_as :: "('e \<Rightarrow> 'f) \<Rightarrow> ('s \<Rightarrow> ('a, 'e) res \<times> 's) \<Rightarrow> 's \<Rightarrow> ('a, 'f) res \<times> 's" where
  "error_as g m a = (case m a of (r, a) \<Rightarrow> (map_err g r, a))"

text \<open>The outside, the database as the outside lets it work, and the terminal.\<close>

definition outside :: "('w \<Rightarrow> 'a \<times> 'w) \<Rightarrow> 'w app \<Rightarrow> ('a, 'e) res \<times> 'w app" where
  "outside f a = (case f (ap_world a) of (x, w) \<Rightarrow> (Ok x, a\<lparr>ap_world := w\<rparr>))"

definition with_db ::
  "'w cli_setup \<Rightarrow> (db_outside \<Rightarrow> database \<Rightarrow> ('a, 'e) res \<times> database) \<Rightarrow> 'w app \<Rightarrow> ('a, 'e) res \<times> 'w app" where
  "with_db S f a =
     (case ask_database S (ap_world a) of (F, w) \<Rightarrow>
        (case f F (ap_db a) of (r, d) \<Rightarrow> (r, a\<lparr>ap_db := d, ap_world := w\<rparr>)))"

definition print :: "notice \<Rightarrow> 'w app \<Rightarrow> (unit, 'e) res \<times> 'w app" where
  "print n a = (Ok (), a\<lparr>printed := printed a @ [n]\<rparr>)"

section \<open>Relays and directories\<close>

text \<open>\<open>SliceRandom::choose\<close>\<close>

definition choose_from :: "nat \<Rightarrow> 'a list \<Rightarrow> 'a option" where
  "choose_from n xs = (if xs = [] then None else Some (xs ! (n mod length xs)))"

definition remaining_relays :: "'w cli_setup \<Rightarrow> 'w app \<Rightarrow> url list" where
  "remaining_relays S a = filter (\<lambda>r. r \<notin> set (failed_relays a)) (ohttp_relays S)"

definition remaining_directories :: "'w cli_setup \<Rightarrow> 'w app \<Rightarrow> url list" where
  "remaining_directories S a = filter (\<lambda>d. d \<notin> set (failed_directories a)) (pj_directories S)"

definition add_failed_relay :: "url \<Rightarrow> 'w app \<Rightarrow> 'w app" where
  "add_failed_relay relay a = a\<lparr>failed_relays := failed_relays a @ [relay]\<rparr>"

definition clear_failed_relays :: "'w app \<Rightarrow> 'w app" where
  "clear_failed_relays a = a\<lparr>failed_relays := []\<rparr>"

definition add_failed_directory :: "url \<Rightarrow> 'w app \<Rightarrow> 'w app" where
  "add_failed_directory directory a = a\<lparr>failed_directories := failed_directories a @ [directory]\<rparr>"

definition choose_relay :: "'w cli_setup \<Rightarrow> 'w app \<Rightarrow> (url, cli_error) res \<times> 'w app" where
  "choose_relay S a =
     (if remaining_relays S a = [] then (Err NoValidRelays, a)
      else andthen (outside (ask_random S)) (\<lambda>n. lift (ok_or NoValidRelays (choose_from n (remaining_relays S a)))) a)"

definition choose_directory :: "'w cli_setup \<Rightarrow> 'w app \<Rightarrow> (url, cli_error) res \<times> 'w app" where
  "choose_directory S a =
     (if remaining_directories S a = [] then (Err NoValidDirectories, a)
      else andthen (outside (ask_random S)) (\<lambda>n. lift (ok_or NoValidDirectories (choose_from n (remaining_directories S a)))) a)"

lemma choose_mem: "choose_from n xs = Some x \<Longrightarrow> x \<in> set xs"
  by (auto simp: choose_from_def split: if_splits)

lemma choose_relay_remaining:
  assumes "choose_relay S a = (Ok r, a')"
  shows "r \<in> set (remaining_relays S a) \<and> failed_relays a' = failed_relays a \<and> failed_directories a' = failed_directories a \<and>
    ap_db a' = ap_db a"
  using assms
  by (auto simp: choose_relay_def andthen_def outside_def lift_def dest: choose_mem split: if_splits prod.splits)

lemma choose_directory_remaining:
  assumes "choose_directory S a = (Ok r, a')"
  shows "r \<in> set (remaining_directories S a) \<and> failed_directories a' = failed_directories a \<and> ap_db a' = ap_db a"
  using assms
  by (auto simp: choose_directory_def andthen_def outside_def lift_def dest: choose_mem split: if_splits prod.splits)

text \<open>A relay that fails is not chosen again, so that a loop over the relays ends.\<close>

lemma fewer_relays:
  assumes "r \<in> set (remaining_relays S a)" and "failed_relays b = failed_relays a @ [r]"
  shows "length (remaining_relays S b) < length (remaining_relays S a)"
proof -
  have "remaining_relays S b = filter (\<lambda>x. x \<noteq> r) (remaining_relays S a)"
    using assms(2) by (auto simp: remaining_relays_def intro: filter_cong)
  then show ?thesis using assms(1) length_filter_less [of r "remaining_relays S a" "\<lambda>x. x \<noteq> r"] by simp
qed

function fetch_ohttp_keys_from_directory :: "'w cli_setup \<Rightarrow> url \<Rightarrow> 'w app \<Rightarrow> (nat, cli_error) res \<times> 'w app" where
  "fetch_ohttp_keys_from_directory S directory a =
     (case choose_relay S a of
        (Err e, a) \<Rightarrow> (Err e, a)
      | (Panic, a) \<Rightarrow> (Panic, a)
      | (Ok selected_relay, a) \<Rightarrow>
          (case fetch_ohttp_keys (e_wire (st_env S)) (http_get S) (raw selected_relay) (raw directory) (ap_world a) of
             (Ok keys, w) \<Rightarrow> (Ok keys, a\<lparr>ap_world := w\<rparr>)
           | (Err (UnexpectedStatusCode e), w) \<Rightarrow>
               (Err (KeysUnavailable (UnexpectedStatusCode e)), add_failed_directory directory (a\<lparr>ap_world := w\<rparr>))
           | (Err e, w) \<Rightarrow> fetch_ohttp_keys_from_directory S directory (add_failed_relay selected_relay (a\<lparr>ap_world := w\<rparr>))
           | (Panic, w) \<Rightarrow> (Panic, a\<lparr>ap_world := w\<rparr>)))"
  by pat_completeness auto

termination
  by (relation "measure (\<lambda>(S, d, a). length (remaining_relays S a))")
    (auto simp: add_failed_relay_def dest!: sym [of "(_, _)" "choose_relay _ _"] choose_relay_remaining
      intro!: fewer_relays)

definition unwrap_ohttp_keys_or_else_fetch_from_directory ::
  "'w cli_setup \<Rightarrow> url \<Rightarrow> 'w app \<Rightarrow> (nat, cli_error) res \<times> 'w app" where
  "unwrap_ohttp_keys_or_else_fetch_from_directory S directory =
     (case st_ohttp_keys S of Some keys \<Rightarrow> give keys | None \<Rightarrow> fetch_ohttp_keys_from_directory S directory)"

section \<open>Posting over a relay\<close>

definition expired_request :: "create_request_error \<Rightarrow> bool" where
  "expired_request e = (case e of RequestExpired _ \<Rightarrow> True | _ \<Rightarrow> False)"

text \<open>The response with its body, which may be unreadable, and the context of the request.\<close>

datatype relay_post = Posted "string option" nat | PostExpired

text \<open>A status of 4xx or 5xx is an error of the request, like a failure of the client.\<close>

definition post_request :: "'w cli_setup \<Rightarrow> request \<Rightarrow> 'w \<Rightarrow> string option option \<times> 'w" where
  "post_request S req w =
     (case http_post S req w of
        (Some (code, resp), w) \<Rightarrow> (if 400 \<le> code \<and> code < 600 then None else Some resp, w)
      | (None, w) \<Rightarrow> (None, w))"

function post_via_relay ::
  "'w cli_setup \<Rightarrow> (string \<Rightarrow> 'w \<Rightarrow> (request \<times> nat, create_request_error) res \<times> 'w) \<Rightarrow> 'w app \<Rightarrow> (relay_post, cli_error) res \<times> 'w app"
where
  "post_via_relay S mk_req a =
     (case choose_relay S a of
        (Err e, a) \<Rightarrow> (Err e, a)
      | (Panic, a) \<Rightarrow> (Panic, a)
      | (Ok relay, a) \<Rightarrow>
          (case mk_req (raw relay) (ap_world a) of
             (Err e, w) \<Rightarrow> (if expired_request e then Ok PostExpired else Err (RequestFailed e), a\<lparr>ap_world := w\<rparr>)
           | (Panic, w) \<Rightarrow> (Panic, a\<lparr>ap_world := w\<rparr>)
           | (Ok (req, ctx), w) \<Rightarrow>
               (case post_request S req w of
                  (Some resp, w) \<Rightarrow> (Ok (Posted resp ctx), a\<lparr>ap_world := w\<rparr>)
                | (None, w) \<Rightarrow> post_via_relay S mk_req (add_failed_relay relay (a\<lparr>ap_world := w\<rparr>)))))"
  by pat_completeness auto

termination
  by (relation "measure (\<lambda>(S, d, a). length (remaining_relays S a))")
    (auto simp: add_failed_relay_def dest!: sym [of "(_, _)" "choose_relay _ _"] choose_relay_remaining
      intro!: fewer_relays)

declare fetch_ohttp_keys_from_directory.simps [simp del] post_via_relay.simps [simp del]

end
