(* ===== verification/PJ_Cli_Wallet.thy ===== *)
theory PJ_Cli_Wallet
  imports PJ_Cli_App
begin

text \<open>
  The wallet of the command line program, \<open>payjoin-cli/src/app/wallet.rs\<close>: what each call makes of the
  answers of the node. The node behind the RPC client is the record \<open>bitcoind\<close>.
\<close>

section \<open>The node\<close>

datatype rpc_error = TxNotFound string | RpcFailed string

fun show_rpc_error :: "rpc_error \<Rightarrow> string" where
  "show_rpc_error (TxNotFound e) = e"
| "show_rpc_error (RpcFailed e) = e"

record unspent_item =
  ut_txid :: txid
  ut_vout :: nat
  ut_amount :: int
  ut_script :: script

text \<open>The crate \<open>bitcoind_async_client\<close>; an address is given by its script.\<close>

record bitcoind =
  get_block_count :: "(nat, rpc_error) res"
  wallet_create_funded_psbt :: "(script \<times> amount) list \<Rightarrow> nat \<Rightarrow> fee_rate \<Rightarrow> bool \<Rightarrow> (psbt, rpc_error) res"
  wallet_process_psbt :: "psbt \<Rightarrow> bool option \<Rightarrow> (psbt, rpc_error) res"
  test_mempool_accept :: "transaction \<Rightarrow> (string option list, rpc_error) res"
  get_transaction :: "txid \<Rightarrow> (transaction, rpc_error) res"
  get_address_info :: "script \<Rightarrow> (bool, rpc_error) res"
  rpc_new_address :: "(script, rpc_error) res"
  rpc_list_unspent :: "(unspent_item list, rpc_error) res"
  rpc_network :: "(nat, rpc_error) res"

section \<open>The calls\<close>

definition wallet_create_psbt ::
  "bitcoind \<Rightarrow> (script \<times> amount) list \<Rightarrow> fee_rate \<Rightarrow> bool \<Rightarrow> (psbt, implementation_error) res" where
  "wallet_create_psbt B outs rate lock_unspent =
     map_err show_rpc_error (rbind (get_block_count B) (\<lambda>height.
     rbind (wallet_create_funded_psbt B outs (height mod 2 ^ 32) rate lock_unspent) (\<lambda>funded.
       wallet_process_psbt B funded None)))"

definition wallet_process :: "bitcoind \<Rightarrow> psbt \<Rightarrow> (psbt, implementation_error) res" where
  "wallet_process B p = map_err show_rpc_error (wallet_process_psbt B p (Some True))"

definition wallet_can_broadcast :: "bitcoind \<Rightarrow> transaction \<Rightarrow> (bool, implementation_error) res" where
  "wallet_can_broadcast B tx =
     rbind (map_err show_rpc_error (test_mempool_accept B tx)) (\<lambda>results.
       case results of
         reject_reason # _ \<Rightarrow> Ok (reject_reason = None)
       | [] \<Rightarrow> Err ''No mempool results returned on broadcast check'')"

definition wallet_network :: "bitcoind \<Rightarrow> (nat, implementation_error) res" where
  "wallet_network B = map_err (\<lambda>e. ''Failed to get blockchain info: '' @ show_rpc_error e) (rpc_network B)"

text \<open>The kind of an address does not depend on the network, so \<open>address_from_script\<close> has no argument for it.\<close>

definition wallet_is_mine :: "btc \<Rightarrow> bitcoind \<Rightarrow> script \<Rightarrow> (bool, implementation_error) res" where
  "wallet_is_mine L B s =
     rbind (wallet_network B) (\<lambda>network.
       case address_from_script L s of
         Inr _ \<Rightarrow> map_err (\<lambda>_. ''Failed to get address info'') (get_address_info B s)
       | Inl _ \<Rightarrow> Ok False)"

text \<open>A transaction that the wallet does not know is no error.\<close>

definition funding_transaction :: "bitcoind \<Rightarrow> txid \<Rightarrow> (transaction option, rpc_error) res" where
  "funding_transaction B t =
     (case get_transaction B t of
        Ok tx \<Rightarrow> Ok (Some tx)
      | Err (TxNotFound _) \<Rightarrow> Ok None
      | Err e \<Rightarrow> Err e
      | Panic \<Rightarrow> Panic)"

definition wallet_is_my_outpoint :: "btc \<Rightarrow> bitcoind \<Rightarrow> outpoint \<Rightarrow> (bool, implementation_error) res" where
  "wallet_is_my_outpoint L B p =
     rbind (map_err (\<lambda>_. ''Failed to look up outpoint funding transaction'') (funding_transaction B (op_txid p))) (\<lambda>funding_tx.
       case Option.bind funding_tx (\<lambda>tx. slice_get (tx_output tx) (vout p)) of
         Some out \<Rightarrow> wallet_is_mine L B (script_pubkey out)
       | None \<Rightarrow> Ok False)"

definition wallet_get_raw_transaction :: "bitcoind \<Rightarrow> txid \<Rightarrow> (transaction option, implementation_error) res" where
  "wallet_get_raw_transaction B t = map_err show_rpc_error (funding_transaction B t)"

definition wallet_get_new_address :: "bitcoind \<Rightarrow> (script, implementation_error) res" where
  "wallet_get_new_address B = map_err (\<lambda>_. ''Failed to get new address'') (rpc_new_address B)"

text \<open>A negative amount panics, and so does a pair whose weight cannot be predicted.\<close>

definition input_pair_from_corepc :: "btc \<Rightarrow> unspent_item \<Rightarrow> (input_pair, implementation_error) res" where
  "input_pair_from_corepc L u =
     (if ut_amount u < 0 then Panic
      else expect (ok (input_pair_new L (txin_for \<lparr>op_txid = ut_txid u, vout = ut_vout u\<rparr>)
             (default_psbt_input\<lparr>witness_utxo := Some \<lparr>txo_value = nat (ut_amount u), script_pubkey = ut_script u\<rparr>\<rparr>) None)))"

definition wallet_list_unspent :: "btc \<Rightarrow> bitcoind \<Rightarrow> (input_pair list, implementation_error) res" where
  "wallet_list_unspent L B =
     rbind (map_err (\<lambda>_. ''Failed to list unspent'') (rpc_list_unspent B)) (try_map (input_pair_from_corepc L))"

definition has_spendable_utxos :: "btc \<Rightarrow> bitcoind \<Rightarrow> (bool, implementation_error) res" where
  "has_spendable_utxos L B = rmap (\<lambda>unspent. unspent \<noteq> []) (wallet_list_unspent L B)"

text \<open>The node as the commands use it; \<open>checked\<close> is \<open>Psbt::extract_tx\<close>.\<close>

definition bitcoind_node :: "btc \<Rightarrow> bitcoind \<Rightarrow> (psbt \<Rightarrow> (transaction, string) res) \<Rightarrow> node" where
  "bitcoind_node L B checked = \<lparr>can_broadcast = wallet_can_broadcast B, is_my_outpoint = wallet_is_my_outpoint L B,
     is_mine = wallet_is_mine L B, get_new_address = wallet_get_new_address B, list_unspent = wallet_list_unspent L B,
     process_psbt = wallet_process B, get_raw_transaction = wallet_get_raw_transaction B,
     create_psbt = (\<lambda>address amt rate. wallet_create_psbt B [(address, amt)] rate True), checked_extract_tx = checked\<rparr>"

end
