(* ===== verification/PJ_Cli_Receive.thy ===== *)
theory PJ_Cli_Receive
  imports PJ_Cli_App
begin

text \<open>
  The receiver's session in the command line program, \<open>payjoin-cli/src/app/v2/mod.rs\<close>: a function per
  state that makes one transition and saves it, the driver that calls them, and cancelling.
\<close>

section \<open>Saving and replaying\<close>

fun show_cli_db_error :: "cli_db_error \<Rightarrow> string" where
  "show_cli_db_error (Rusqlite e) = ''Database operation failed: '' @ e"
| "show_cli_db_error (R2d2 e) = ''Connection pool error: '' @ e"
| "show_cli_db_error (SerializeError e) = ''Serialization failed: '' @ e"
| "show_cli_db_error (DeserializeError e) = ''Deserialization failed: '' @ e"
| "show_cli_db_error (DuplicateSendSession DuplicateUri) = ''A send session for this URI is already active''"
| "show_cli_db_error (DuplicateSendSession DuplicateReceiverPubkey) =
     ''A send session with this receiver pubkey is already active under a different URI''"

definition session_failure :: "('x, cli_db_error, 's, 'c) persisted_error \<Rightarrow> cli_error" where
  "session_failure e = (case e of Storage d \<Rightarrow> DatabaseError d | Api _ \<Rightarrow> SessionFailed)"

definition receiver_saves ::
  "'w cli_setup \<Rightarrow> session_id \<Rightarrow> ((database, session_event, cli_db_error) persister \<Rightarrow> 't \<Rightarrow> database \<Rightarrow> ('a, 'x) res \<times> database) \<Rightarrow> 't \<Rightarrow>
     'w app \<Rightarrow> ('a, 'x) res \<times> 'w app" where
  "receiver_saves S sid save t = with_db S (\<lambda>F. save (receiver_persister F (receive_json S) sid) t)"

definition receiver_replay ::
  "'w cli_setup \<Rightarrow> session_id \<Rightarrow> 'w app \<Rightarrow> (receive_session \<times> session_event list, receive_replay_error) res \<times> 'w app" where
  "receiver_replay S sid = andthen (outside (ask_clock S)) (\<lambda>c.
     with_db S (\<lambda>F. replay_event_log (st_env S) c (receiver_persister F (receive_json S) sid) show_cli_db_error))"

text \<open>A transient error carries the state to go on with.\<close>

definition retry_or_fail ::
  "('c \<Rightarrow> 'r) \<Rightarrow> ('x, cli_db_error, 's, 'c) persisted_error \<Rightarrow> 'w app \<Rightarrow> ('r, cli_error) res \<times> 'w app" where
  "retry_or_fail again e =
     (if is_transient e then lift (rmap again (expect (transient_state e))) else fails (session_failure e))"

section \<open>Cancelling\<close>

text \<open>\<open>close_failed_session\<close> only logs an error.\<close>

definition receiver_close_failed_session :: "'w cli_setup \<Rightarrow> session_id \<Rightarrow> 'w app \<Rightarrow> (unit, cli_error) res \<times> 'w app" where
  "receiver_close_failed_session S sid =
     on_result (with_db S (\<lambda>F. close_session (receiver_persister F (receive_json S) sid)))
       (\<lambda>r. case r of Panic \<Rightarrow> lift Panic | _ \<Rightarrow> give ())"

definition receiver_finalize_expired_session ::
  "'w cli_setup \<Rightarrow> session_id \<Rightarrow> transaction option \<Rightarrow> 'w app \<Rightarrow> (unit, cli_error) res \<times> 'w app" where
  "receiver_finalize_expired_session S sid fallback_tx =
     andthen (print (case fallback_tx of Some tx \<Rightarrow> BroadcastManually tx | None \<Rightarrow> NothingToBroadcast))
       (\<lambda>_. receiver_close_failed_session S sid)"

text \<open>The pending fallback of a session, or nothing when there is nothing left to do.\<close>

definition receiver_pending ::
  "'w cli_setup \<Rightarrow> session_id \<Rightarrow> receive_session \<Rightarrow> session_event list \<Rightarrow> 'w app \<Rightarrow> (transaction receiver option, cli_error) res \<times> 'w app"
where
  "receiver_pending S sid session history =
     (case session of
        Initialized r \<Rightarrow>
          andthen (error_as DatabaseError (receiver_saves S sid terminal_transition_save (cancel_unchecked r)))
            (\<lambda>_. andthen (print NothingToBroadcast) (\<lambda>_. give None))
      | UncheckedOriginalPayload r \<Rightarrow>
          andthen (error_as DatabaseError (receiver_saves S sid terminal_transition_save (cancel_unchecked r)))
            (\<lambda>_. andthen (print NothingToBroadcast) (\<lambda>_. give None))
      | HasReplyableError r \<Rightarrow>
          andthen (error_as DatabaseError (receiver_saves S sid terminal_save (replyable_cancel r))) (\<lambda>pending.
            case pending of Some p \<Rightarrow> give (Some p) | None \<Rightarrow> andthen (print NothingToBroadcast) (\<lambda>_. give None))
      | PendingFallback r \<Rightarrow> give (Some r)
      | ClosedSession Aborted \<Rightarrow>
          andthen (lift (history_fallback_tx (st_env S) history)) (\<lambda>tx.
          andthen (print (case tx of Some tx \<Rightarrow> BroadcastManually tx | None \<Rightarrow> NothingToBroadcast)) (\<lambda>_. give None))
      | ClosedSession _ \<Rightarrow> andthen (print AlreadyCompleted) (\<lambda>_. give None)
      | _ \<Rightarrow>
          (case with_fallback (st_env S) session of
             Some (tx, context) \<Rightarrow>
               andthen (error_as DatabaseError (receiver_saves S sid next_state_save (cancel_with_fallback tx context)))
                 (\<lambda>p. give (Some p))
           | None \<Rightarrow> lift Panic))"

definition broadcast_tx :: "'w cli_setup \<Rightarrow> transaction \<Rightarrow> 'w app \<Rightarrow> (txid, cli_error) res \<times> 'w app" where
  "broadcast_tx S tx = andthen (outside (send_raw_transaction S tx)) (\<lambda>r. lift (map_err NodeError r))"

definition settle_fallback :: "'w cli_setup \<Rightarrow> bool \<Rightarrow> transaction \<Rightarrow> 'w app \<Rightarrow> (unit, cli_error) res \<times> 'w app" where
  "settle_fallback S no_broadcast fallback_tx =
     (if no_broadcast then print (BroadcastManually fallback_tx)
      else andthen (broadcast_tx S fallback_tx) (\<lambda>_. print (Broadcasted (compute_txid (e_btc (st_env S)) fallback_tx))))"

definition cancel_receiver_session :: "'w cli_setup \<Rightarrow> session_id \<Rightarrow> bool \<Rightarrow> 'w app \<Rightarrow> (unit, cli_error) res \<times> 'w app" where
  "cancel_receiver_session S sid no_broadcast =
     on_result (receiver_replay S sid) (\<lambda>r. case r of
       Err e \<Rightarrow>
         if is_expired e then receiver_finalize_expired_session S sid (expiry_fallback_tx e)
         else fails ReplayFailed
     | Panic \<Rightarrow> lift Panic
     | Ok (session, history) \<Rightarrow>
         andthen (receiver_pending S sid session history) (\<lambda>pending. case pending of
           None \<Rightarrow> give ()
         | Some p \<Rightarrow>
             andthen (settle_fallback S no_broadcast (rc_state p)) (\<lambda>_.
               error_as DatabaseError (receiver_saves S sid terminal_transition_save (close_pending p)))))"

section \<open>The steps\<close>

datatype 's driver = Next 's | Stop

text \<open>Ask for what a request needs: the clock, a secret number and random bytes.\<close>

definition requesting ::
  "'w cli_setup \<Rightarrow> (clock \<Rightarrow> nat \<Rightarrow> string \<Rightarrow> string \<Rightarrow> (request \<times> nat, create_request_error) res) \<Rightarrow> string \<Rightarrow> 'w \<Rightarrow>
     (request \<times> nat, create_request_error) res \<times> 'w" where
  "requesting S create relay w =
     (let (c, w) = ask_clock S w; (random, w) = ask_random S w; (bytes, w) = ask_bytes S w
      in (create c random bytes relay, w))"

text \<open>
  Post a request. The session expires when it is too late for the request; otherwise \<open>k\<close> goes on with
  the body of the response and the context.
\<close>

definition receiver_posts ::
  "'w cli_setup \<Rightarrow> session_id \<Rightarrow> (clock \<Rightarrow> nat \<Rightarrow> string \<Rightarrow> string \<Rightarrow> (request \<times> nat, create_request_error) res) \<Rightarrow>
     (string \<Rightarrow> nat \<Rightarrow> 'w app \<Rightarrow> (receive_session driver, cli_error) res \<times> 'w app) \<Rightarrow>
     'w app \<Rightarrow> (receive_session driver, cli_error) res \<times> 'w app" where
  "receiver_posts S sid create k =
     andthen (post_via_relay S (requesting S create)) (\<lambda>p. case p of
       PostExpired \<Rightarrow> andthen (cancel_receiver_session S sid True) (\<lambda>_. give (Next (ClosedSession Aborted)))
     | Posted None ctx \<Rightarrow> fails ResponseUnreadable
     | Posted (Some bytes) ctx \<Rightarrow> k bytes ctx)"

definition read_from_directory :: "'w cli_setup \<Rightarrow> session_id \<Rightarrow> unit receiver \<Rightarrow> 'w app \<Rightarrow> (receive_session driver, cli_error) res \<times> 'w app" where
  "read_from_directory S sid r =
     receiver_posts S sid (\<lambda>c _ bytes relay. create_poll_request (st_env S) c bytes relay r) (\<lambda>response ctx.
       on_result (receiver_saves S sid fatal_with_no_results_save (initialized_process_response (st_env S) response ctx r))
         (\<lambda>res. case res of
            Ok (Progress next_state) \<Rightarrow> give (Next (UncheckedOriginalPayload next_state))
          | Ok (Stasis current_state) \<Rightarrow> give (Next (Initialized current_state))
          | Err e \<Rightarrow> retry_or_fail (\<lambda>r. Next (Initialized r)) e
          | Panic \<Rightarrow> lift Panic))"

definition check_proposal :: "'w cli_setup \<Rightarrow> session_id \<Rightarrow> original_payload receiver \<Rightarrow> 'w app \<Rightarrow> (receive_session driver, cli_error) res \<times> 'w app" where
  "check_proposal S sid r =
     andthen (outside (ask_node S)) (\<lambda>n.
     andthen (error_as session_failure (receiver_saves S sid fatal_save
       (unchecked_check_broadcast_suitability (st_env S) None (can_broadcast n) r))) (\<lambda>proposal.
     andthen (print (ConsiderBroadcasting (payload_fallback_tx (st_env S) (rc_state proposal)))) (\<lambda>_.
       give (Next (MaybeInputsOwned proposal)))))"

definition check_inputs_not_owned_step ::
  "'w cli_setup \<Rightarrow> session_id \<Rightarrow> original_payload receiver \<Rightarrow> 'w app \<Rightarrow> (receive_session driver, cli_error) res \<times> 'w app" where
  "check_inputs_not_owned_step S sid r =
     andthen (outside (ask_node S)) (\<lambda>n.
     andthen (error_as session_failure (receiver_saves S sid fatal_save
       (fst (owned_check_inputs_not_owned (st_env S) (stateless (is_my_outpoint n)) () r)))) (\<lambda>proposal.
       give (Next (MaybeInputsSeen proposal))))"

text \<open>The inputs enter the table while they are checked, before the transition is saved.\<close>

definition seen_callback :: "'w cli_setup \<Rightarrow> ('w app, outpoint) callback" where
  "seen_callback S a input = error_as show_cli_db_error (with_db S (\<lambda>F. insert_input_seen_before F input)) a"

definition check_no_inputs_seen_before_step ::
  "'w cli_setup \<Rightarrow> session_id \<Rightarrow> original_payload receiver \<Rightarrow> 'w app \<Rightarrow> (receive_session driver, cli_error) res \<times> 'w app" where
  "check_no_inputs_seen_before_step S sid r a =
     (case seen_check_no_inputs_seen_before (st_env S) (seen_callback S) a r of (t, a) \<Rightarrow>
        andthen (error_as session_failure (receiver_saves S sid fatal_save t))
          (\<lambda>proposal. give (Next (OutputsUnknown proposal))) a)"

definition identify_receiver_outputs_step ::
  "'w cli_setup \<Rightarrow> session_id \<Rightarrow> original_payload receiver \<Rightarrow> 'w app \<Rightarrow> (receive_session driver, cli_error) res \<times> 'w app" where
  "identify_receiver_outputs_step S sid r =
     andthen (outside (ask_node S)) (\<lambda>n.
     andthen (error_as session_failure (receiver_saves S sid fatal_save
       (fst (unknown_identify_receiver_outputs (st_env S) (stateless (is_mine n)) () r)))) (\<lambda>proposal.
       give (Next (WantsOutputs proposal))))"

definition commit_outputs_step :: "'w cli_setup \<Rightarrow> session_id \<Rightarrow> wants_outputs receiver \<Rightarrow> 'w app \<Rightarrow> (receive_session driver, cli_error) res \<times> 'w app" where
  "commit_outputs_step S sid r =
     andthen (error_as DatabaseError (receiver_saves S sid next_state_save (v2_commit_outputs r)))
       (\<lambda>proposal. give (Next (WantsInputs proposal)))"

definition contribute_inputs_step :: "'w cli_setup \<Rightarrow> session_id \<Rightarrow> wants_inputs receiver \<Rightarrow> 'w app \<Rightarrow> (receive_session driver, cli_error) res \<times> 'w app" where
  "contribute_inputs_step S sid r =
     andthen (outside (ask_node S)) (\<lambda>n.
     andthen (lift (map_err NodeError (list_unspent n))) (\<lambda>candidate_inputs.
     if candidate_inputs = [] then fails NoSpendableUtxos
     else
       andthen (lift (map_err SelectionFailed (try_preserving_privacy (e_btc (st_env S)) (rc_state r) candidate_inputs))) (\<lambda>selected_input.
       andthen (outside (ask_random S)) (\<lambda>g.
       andthen (lift (map_err ContributionFailed (v2_contribute_inputs (st_env S) (st_rng S) g [selected_input] r))) (\<lambda>contributed.
       andthen (error_as DatabaseError (receiver_saves S sid next_state_save (v2_commit_inputs contributed))) (\<lambda>proposal.
         give (Next (WantsFeeRange proposal))))))))"

definition apply_fee_range_step :: "'w cli_setup \<Rightarrow> session_id \<Rightarrow> wants_fee_range receiver \<Rightarrow> 'w app \<Rightarrow> (receive_session driver, cli_error) res \<times> 'w app" where
  "apply_fee_range_step S sid r =
     andthen (error_as session_failure (receiver_saves S sid fatal_save (apply_fee_range (st_env S) None (st_max_fee_rate S) r)))
       (\<lambda>proposal. give (Next (ProvisionalProposal proposal)))"

definition finalize_proposal_step :: "'w cli_setup \<Rightarrow> session_id \<Rightarrow> psbt_context receiver \<Rightarrow> 'w app \<Rightarrow> (receive_session driver, cli_error) res \<times> 'w app" where
  "finalize_proposal_step S sid r =
     andthen (outside (ask_node S)) (\<lambda>n.
     andthen (error_as session_failure (receiver_saves S sid transient_save (v2_finalize_proposal (st_env S) (process_psbt n) r)))
       (\<lambda>proposal. give (Next (PayjoinProposal proposal))))"

definition send_payjoin_proposal :: "'w cli_setup \<Rightarrow> session_id \<Rightarrow> psbt_context receiver \<Rightarrow> 'w app \<Rightarrow> (receive_session driver, cli_error) res \<times> 'w app" where
  "send_payjoin_proposal S sid r =
     receiver_posts S sid (\<lambda>c random bytes relay. create_post_request (st_env S) c random bytes relay r) (\<lambda>response ctx.
       on_result (receiver_saves S sid fatal_save (proposal_process_response (st_env S) response ctx r))
         (\<lambda>res. case res of
            Ok session \<Rightarrow>
              andthen (print (WatchMempool (compute_txid (e_btc (st_env S)) (extract_tx (st_env S) (pc_payjoin_psbt (rc_state r))))))
                (\<lambda>_. give (Next (Monitor session)))
          | Err e \<Rightarrow> retry_or_fail (\<lambda>r. Next (PayjoinProposal r)) e
          | Panic \<Rightarrow> lift Panic))"

definition handle_error :: "'w cli_setup \<Rightarrow> session_id \<Rightarrow> has_replyable_error receiver \<Rightarrow> 'w app \<Rightarrow> (receive_session driver, cli_error) res \<times> 'w app" where
  "handle_error S sid r =
     receiver_posts S sid (\<lambda>c random bytes relay. create_error_request (st_env S) c random bytes relay r) (\<lambda>response ctx.
       andthen (lift (process_error_response (st_env S) response ctx r)) (\<lambda>t.
       on_result (receiver_saves S sid terminal_success_save t)
         (\<lambda>res. case res of
            Ok (Some pending) \<Rightarrow> andthen (print (BroadcastManually (rc_state pending))) (\<lambda>_. give (Next (PendingFallback pending)))
          | Ok None \<Rightarrow> give (Next (ClosedSession Aborted))
          | Err e \<Rightarrow>
              if is_transient e then retry_or_fail (\<lambda>r. Next (HasReplyableError r)) e
              else (case fatal_state e of
                      Some pending \<Rightarrow> andthen (print (BroadcastManually (rc_state pending))) (\<lambda>_. give (Next (PendingFallback pending)))
                    | None \<Rightarrow> fails SessionFailed)
          | Panic \<Rightarrow> lift Panic)))"

text \<open>The polls before the timeout: one every 200 milliseconds in five seconds.\<close>

definition max_monitor_polls :: nat where "max_monitor_polls = 25"

fun monitor_loop :: "nat \<Rightarrow> 'w cli_setup \<Rightarrow> session_id \<Rightarrow> psbt_context receiver \<Rightarrow> 'w app \<Rightarrow> (unit, cli_error) res \<times> 'w app" where
  "monitor_loop 0 S sid r = fails NotDetected"
| "monitor_loop (Suc polls) S sid r =
     andthen (outside (ask_node S)) (\<lambda>n.
     andthen (lift (check_for_transaction (st_env S) (get_raw_transaction n) r)) (\<lambda>t.
     on_result (receiver_saves S sid fatal_or_success_save t)
       (\<lambda>res. case res of
          Ok (Progress ()) \<Rightarrow> give ()
        | Ok (Stasis current_state) \<Rightarrow> monitor_loop polls S sid current_state
        | Err e \<Rightarrow>
            if is_transient e
            then andthen (lift (expect (transient_state e))) (monitor_loop polls S sid)
            else fails (session_failure e)
        | Panic \<Rightarrow> lift Panic)))"

definition monitor_payjoin_proposal :: "'w cli_setup \<Rightarrow> session_id \<Rightarrow> psbt_context receiver \<Rightarrow> 'w app \<Rightarrow> (unit, cli_error) res \<times> 'w app" where
  "monitor_payjoin_proposal S sid r =
     andthen (outside (ask_random S)) (\<lambda>n. monitor_loop (min n max_monitor_polls) S sid r)"

section \<open>The driver\<close>

definition receiver_session_step ::
  "'w cli_setup \<Rightarrow> session_id \<Rightarrow> receive_session \<Rightarrow> 'w app \<Rightarrow> (receive_session driver, cli_error) res \<times> 'w app" where
  "receiver_session_step S sid session =
     (case session of
        Initialized r \<Rightarrow> read_from_directory S sid r
      | UncheckedOriginalPayload r \<Rightarrow> check_proposal S sid r
      | MaybeInputsOwned r \<Rightarrow> check_inputs_not_owned_step S sid r
      | MaybeInputsSeen r \<Rightarrow> check_no_inputs_seen_before_step S sid r
      | OutputsUnknown r \<Rightarrow> identify_receiver_outputs_step S sid r
      | WantsOutputs r \<Rightarrow> commit_outputs_step S sid r
      | WantsInputs r \<Rightarrow> contribute_inputs_step S sid r
      | WantsFeeRange r \<Rightarrow> apply_fee_range_step S sid r
      | ProvisionalProposal r \<Rightarrow> finalize_proposal_step S sid r
      | PayjoinProposal r \<Rightarrow> send_payjoin_proposal S sid r
      | HasReplyableError r \<Rightarrow> handle_error S sid r
      | Monitor r \<Rightarrow> andthen (monitor_payjoin_proposal S sid r) (\<lambda>_. give Stop)
      | PendingFallback _ \<Rightarrow> andthen (print (RunCancel sid)) (\<lambda>_. give Stop)
      | ClosedSession _ \<Rightarrow> give Stop)"

text \<open>
  The loop, interrupted after at most \<open>n\<close> steps: the state it was in, or nothing when it has
  stopped by itself.
\<close>

fun process_receiver_session ::
  "nat \<Rightarrow> 'w cli_setup \<Rightarrow> session_id \<Rightarrow> receive_session \<Rightarrow> 'w app \<Rightarrow> (receive_session option, cli_error) res \<times> 'w app" where
  "process_receiver_session 0 S sid session = give (Some session)"
| "process_receiver_session (Suc n) S sid session =
     andthen (receiver_session_step S sid session) (\<lambda>next_state. case next_state of
       Next session' \<Rightarrow> process_receiver_session n S sid session'
     | Stop \<Rightarrow> give None)"

end
