(* ===== verification/PJ_Cli_Send.thy ===== *)
theory PJ_Cli_Send
  imports PJ_Cli_Receive
begin

text \<open>
  The sender's session in the command line program, \<open>payjoin-cli/src/app/v2/mod.rs\<close>, and what it does
  with a proposal (\<open>app/mod.rs\<close>).
\<close>

section \<open>Saving and replaying\<close>

definition sender_saves ::
  "'w cli_setup \<Rightarrow> session_id \<Rightarrow> ((database, send_event, cli_db_error) persister \<Rightarrow> 't \<Rightarrow> database \<Rightarrow> ('a, 'x) res \<times> database) \<Rightarrow> 't \<Rightarrow>
     'w app \<Rightarrow> ('a, 'x) res \<times> 'w app" where
  "sender_saves S sid save t = with_db S (\<lambda>F. save (sender_persister F (send_json S) sid) t)"

definition sender_replay ::
  "'w cli_setup \<Rightarrow> session_id \<Rightarrow> 'w app \<Rightarrow> (send_session \<times> send_event list, send_replay_error) res \<times> 'w app" where
  "sender_replay S sid = andthen (outside (ask_clock S)) (\<lambda>c.
     with_db S (\<lambda>F. send_replay_event_log (st_env S) c (sender_persister F (send_json S) sid) show_cli_db_error))"

section \<open>Cancelling\<close>

definition sender_close_failed_session :: "'w cli_setup \<Rightarrow> session_id \<Rightarrow> 'w app \<Rightarrow> (unit, cli_error) res \<times> 'w app" where
  "sender_close_failed_session S sid =
     on_result (with_db S (\<lambda>F. close_session (sender_persister F (send_json S) sid)))
       (\<lambda>r. case r of Panic \<Rightarrow> lift Panic | _ \<Rightarrow> give ())"

definition sender_finalize_expired_session ::
  "'w cli_setup \<Rightarrow> session_id \<Rightarrow> transaction option \<Rightarrow> 'w app \<Rightarrow> (unit, cli_error) res \<times> 'w app" where
  "sender_finalize_expired_session S sid fallback_tx =
     andthen (print (case fallback_tx of Some tx \<Rightarrow> BroadcastManually tx | None \<Rightarrow> NothingToBroadcast))
       (\<lambda>_. sender_close_failed_session S sid)"

definition sender_pending ::
  "'w cli_setup \<Rightarrow> session_id \<Rightarrow> send_session \<Rightarrow> send_event list \<Rightarrow> 'w app \<Rightarrow> (transaction v2_sender option, cli_error) res \<times> 'w app"
where
  "sender_pending S sid session history =
     (case session of
        WithReplyKey s \<Rightarrow>
          andthen (error_as DatabaseError (sender_saves S sid next_state_save (send_cancel (st_env S) s))) (\<lambda>p. give (Some p))
      | PollingForProposal s \<Rightarrow>
          andthen (error_as DatabaseError (sender_saves S sid next_state_save (send_cancel (st_env S) s))) (\<lambda>p. give (Some p))
      | SendPendingFallback s \<Rightarrow> give (Some s)
      | SendClosed (SendSuccess proposal) \<Rightarrow> andthen (print AlreadyCompleted) (\<lambda>_. give None)
      | SendClosed SendAborted \<Rightarrow>
          andthen (lift (send_history_fallback_tx (st_env S) history)) (\<lambda>tx.
          andthen (print (BroadcastManually tx)) (\<lambda>_. give None)))"

definition cancel_sender_session :: "'w cli_setup \<Rightarrow> session_id \<Rightarrow> bool \<Rightarrow> 'w app \<Rightarrow> (unit, cli_error) res \<times> 'w app" where
  "cancel_sender_session S sid no_broadcast =
     on_result (sender_replay S sid) (\<lambda>r. case r of
       Err e \<Rightarrow>
         if is_expired e then sender_finalize_expired_session S sid (expiry_fallback_tx e)
         else fails ReplayFailed
     | Panic \<Rightarrow> lift Panic
     | Ok (session, history) \<Rightarrow>
         andthen (sender_pending S sid session history) (\<lambda>pending. case pending of
           None \<Rightarrow> give ()
         | Some p \<Rightarrow>
             andthen (settle_fallback S no_broadcast (sn_state p)) (\<lambda>_.
               error_as DatabaseError (sender_saves S sid terminal_transition_save (send_close p)))))"

section \<open>The steps\<close>

definition sender_posts ::
  "'w cli_setup \<Rightarrow> session_id \<Rightarrow> (clock \<Rightarrow> nat \<Rightarrow> string \<Rightarrow> string \<Rightarrow> (request \<times> nat, create_request_error) res) \<Rightarrow>
     (string \<Rightarrow> nat \<Rightarrow> 'w app \<Rightarrow> (send_session driver, cli_error) res \<times> 'w app) \<Rightarrow>
     'w app \<Rightarrow> (send_session driver, cli_error) res \<times> 'w app" where
  "sender_posts S sid create k =
     andthen (post_via_relay S (requesting S create)) (\<lambda>p. case p of
       PostExpired \<Rightarrow> andthen (cancel_sender_session S sid True) (\<lambda>_. give (Next (SendClosed SendAborted)))
     | Posted None ctx \<Rightarrow> fails ResponseUnreadable
     | Posted (Some bytes) ctx \<Rightarrow> k bytes ctx)"

definition post_original_proposal :: "'w cli_setup \<Rightarrow> session_id \<Rightarrow> unit v2_sender \<Rightarrow> 'w app \<Rightarrow> (send_session driver, cli_error) res \<times> 'w app" where
  "post_original_proposal S sid s =
     sender_posts S sid (\<lambda>c random bytes relay. create_v2_post_request (st_env S) c random bytes relay s) (\<lambda>response ctx.
       on_result (sender_saves S sid fatal_save (post_process_response (st_env S) response ctx s))
         (\<lambda>res. case res of
            Ok s \<Rightarrow> give (Next (PollingForProposal s))
          | Err e \<Rightarrow> retry_or_fail (\<lambda>s. Next (WithReplyKey s)) e
          | Panic \<Rightarrow> lift Panic))"

definition get_proposed_payjoin_psbt :: "'w cli_setup \<Rightarrow> session_id \<Rightarrow> unit v2_sender \<Rightarrow> 'w app \<Rightarrow> (send_session driver, cli_error) res \<times> 'w app" where
  "get_proposed_payjoin_psbt S sid s =
     sender_posts S sid (\<lambda>c random bytes relay. sender_create_poll_request (st_env S) c random bytes relay s) (\<lambda>response ctx.
       on_result (sender_saves S sid success_with_no_results_save (poll_process_response (st_env S) response ctx s))
         (\<lambda>res. case res of
            Ok (Progress proposal) \<Rightarrow> give (Next (SendClosed (SendSuccess proposal)))
          | Ok (Stasis current_state) \<Rightarrow> give (Next (PollingForProposal current_state))
          | Err e \<Rightarrow> retry_or_fail (\<lambda>s. Next (PollingForProposal s)) e
          | Panic \<Rightarrow> lift Panic))"

text \<open>Sign the proposal, extract the transaction and broadcast it.\<close>

definition process_pj_response :: "'w cli_setup \<Rightarrow> psbt \<Rightarrow> 'w app \<Rightarrow> (txid, cli_error) res \<times> 'w app" where
  "process_pj_response S proposal =
     andthen (outside (ask_node S)) (\<lambda>n.
     andthen (lift (map_err NodeError (process_psbt n proposal))) (\<lambda>signed.
     andthen (lift (map_err NodeError (checked_extract_tx n signed))) (\<lambda>tx.
       broadcast_tx S tx)))"

definition sender_session_step ::
  "'w cli_setup \<Rightarrow> session_id \<Rightarrow> send_session \<Rightarrow> 'w app \<Rightarrow> (send_session driver, cli_error) res \<times> 'w app" where
  "sender_session_step S sid session =
     (case session of
        WithReplyKey s \<Rightarrow> post_original_proposal S sid s
      | PollingForProposal s \<Rightarrow> get_proposed_payjoin_psbt S sid s
      | SendClosed (SendSuccess proposal) \<Rightarrow>
          andthen (process_pj_response S proposal) (\<lambda>i. andthen (print (PayjoinSent i)) (\<lambda>_. give Stop))
      | SendClosed SendAborted \<Rightarrow> give Stop
      | SendPendingFallback _ \<Rightarrow> andthen (print (RunCancel sid)) (\<lambda>_. give Stop))"

fun process_sender_session ::
  "nat \<Rightarrow> 'w cli_setup \<Rightarrow> session_id \<Rightarrow> send_session \<Rightarrow> 'w app \<Rightarrow> (send_session option, cli_error) res \<times> 'w app" where
  "process_sender_session 0 S sid session = give (Some session)"
| "process_sender_session (Suc n) S sid session =
     andthen (sender_session_step S sid session) (\<lambda>next_state. case next_state of
       Next session' \<Rightarrow> process_sender_session n S sid session'
     | Stop \<Rightarrow> give None)"

end
