(* ===== verification/PJ_Cli_Commands.thy ===== *)
theory PJ_Cli_Commands
  imports PJ_Cli_Send
begin

text \<open>
  The commands of the command line program, \<open>payjoin-cli/src/app/v2/mod.rs\<close>: sending, receiving,
  resuming, cancelling and the history. A session that a command starts runs for at most \<open>n\<close> steps
  before it is interrupted.
\<close>

section \<open>Sending\<close>

definition create_original_psbt :: "'w cli_setup \<Rightarrow> script \<Rightarrow> amount \<Rightarrow> fee_rate \<Rightarrow> 'w app \<Rightarrow> (psbt, cli_error) res \<times> 'w app" where
  "create_original_psbt S address amt rate =
     andthen (outside (ask_node S)) (\<lambda>n.
     andthen (lift (map_err NodeError (list_unspent n))) (\<lambda>unspent.
       if unspent = [] then fails NoSpendableUtxos
       else lift (map_err NodeError (create_psbt n address amt rate))))"

text \<open>The version 1 sender of the version 2 application; the PSBT of a request is text.\<close>

definition send_payjoin_v1 ::
  "'w cli_setup \<Rightarrow> url \<Rightarrow> script \<Rightarrow> amount \<Rightarrow> fee_rate \<Rightarrow> 'w app \<Rightarrow> (unit, cli_error) res \<times> 'w app" where
  "send_payjoin_v1 S endpoint address amt rate =
     (let L = e_btc (st_env S); T = e_text (st_env S) in
      andthen (create_original_psbt S address amt rate) (\<lambda>p.
      andthen (outside (ask_node S)) (\<lambda>n.
      andthen (lift (map_err NodeError (checked_extract_tx n p))) (\<lambda>fallback_tx.
      andthen (lift (map_err BuildFailed (v1_build_recommended L (v1_from_parts p endpoint address (Some amt)) rate))) (\<lambda>s.
      case create_v1_post_request T s of (req, ctx) \<Rightarrow>
      andthen (outside (http_post S req)) (\<lambda>response. case response of
        None \<Rightarrow> andthen (print (PayjoinFailed fallback_tx)) (\<lambda>_. fails HttpFailed)
      | Some (_, None) \<Rightarrow> fails ResponseUnreadable
      | Some (_, Some bytes) \<Rightarrow>
          (case v1_process_response L T (json_from_slice (st_env S)) ctx bytes of
             Ok proposal \<Rightarrow> andthen (process_pj_response S proposal) (\<lambda>i. print (PayjoinSent i))
           | Err e \<Rightarrow> andthen (print (PayjoinFailed fallback_tx)) (\<lambda>_. fails SessionFailed)
           | Panic \<Rightarrow> lift Panic)))))))"

text \<open>The session with the receiver's key that is not completed, if it replays.\<close>

definition find_send_session ::
  "'w cli_setup \<Rightarrow> string \<Rightarrow> 'w app \<Rightarrow> ((send_session \<times> session_id) option, cli_error) res \<times> 'w app" where
  "find_send_session S pk =
     andthen (error_as DatabaseError (with_db S (\<lambda>F. get_send_session_id_by_receiver_pk F pk))) (\<lambda>found. case found of
       None \<Rightarrow> give None
     | Some sid \<Rightarrow>
         on_result (sender_replay S sid) (\<lambda>r. case r of
           Ok (session, _) \<Rightarrow> give (Some (session, sid))
         | Err e \<Rightarrow> give None
         | Panic \<Rightarrow> lift Panic))"

text \<open>The row of the session is inserted before the sender is built and saved.\<close>

definition start_send_session ::
  "'w cli_setup \<Rightarrow> string \<Rightarrow> pj_param_v2 \<Rightarrow> string \<Rightarrow> script \<Rightarrow> amount \<Rightarrow> fee_rate \<Rightarrow>
     'w app \<Rightarrow> (send_session \<times> session_id, cli_error) res \<times> 'w app" where
  "start_send_session S bip21 param pk address amt rate =
     andthen (create_original_psbt S address amt rate) (\<lambda>p.
     andthen (outside (ask_random S)) (\<lambda>uuid.
     andthen (error_as DatabaseError (with_db S (\<lambda>F. sender_persister_new F uuid bip21 pk))) (\<lambda>sid.
     andthen (print (SessionEstablished sid)) (\<lambda>_.
     andthen (outside (ask_random S)) (\<lambda>random.
     andthen (lift (map_err BuildFailed (v2_build_recommended (st_env S) random (v2_from_parts p param address (Some amt)) rate))) (\<lambda>t.
     andthen (error_as DatabaseError (sender_saves S sid next_state_save t)) (\<lambda>sender.
       give (WithReplyKey sender, sid))))))))"

definition send_payjoin_v2 ::
  "nat \<Rightarrow> 'w cli_setup \<Rightarrow> string \<Rightarrow> pj_param_v2 \<Rightarrow> script \<Rightarrow> amount \<Rightarrow> fee_rate \<Rightarrow>
     'w app \<Rightarrow> (send_session option, cli_error) res \<times> 'w app" where
  "send_payjoin_v2 n S bip21 param address amt rate =
     andthen (lift (to_compressed_bytes (e_wire (st_env S)) (pj_receiver_pubkey param))) (\<lambda>pk.
     andthen (find_send_session S pk) (\<lambda>found.
     andthen (case found of
         Some x \<Rightarrow> give x
       | None \<Rightarrow> start_send_session S bip21 param pk address amt rate) (\<lambda>(session, sid).
     on_result (process_sender_session n S sid session) (\<lambda>r. case r of
       Err e \<Rightarrow> andthen (print (RunCancel sid)) (\<lambda>_. fails e)
     | Ok (Some session) \<Rightarrow> andthen (print (RunCancel sid)) (\<lambda>_. give (Some session))
     | Ok None \<Rightarrow> give None
     | Panic \<Rightarrow> lift Panic))))"

definition send_payjoin ::
  "nat \<Rightarrow> 'w cli_setup \<Rightarrow> string \<Rightarrow> fee_rate \<Rightarrow> 'w app \<Rightarrow> (send_session option, cli_error) res \<times> 'w app" where
  "send_payjoin n S bip21 rate =
     andthen (lift (map_err BadUri (bip21_from_str S bip21))) (\<lambda>uri.
     andthen (lift (ok_or MissingAmount (uri_amount uri))) (\<lambda>amt.
     case px_pj_param (uri_extras uri) of
       PjV1 endpoint \<Rightarrow> andthen (send_payjoin_v1 S endpoint (uri_address uri) amt rate) (\<lambda>_. give None)
     | PjV2 param \<Rightarrow> send_payjoin_v2 n S bip21 param (uri_address uri) amt rate))"

section \<open>Receiving\<close>

lemma fetch_keeps_failed_directories:
  "set (failed_directories a) \<subseteq> set (failed_directories (snd (fetch_ohttp_keys_from_directory S d a)))"
proof (induction S d a rule: fetch_ohttp_keys_from_directory.induct)
  case (1 S d a)
  obtain r a1 where c: "choose_relay S a = (r, a1)" by fastforce
  have k: "failed_directories a1 = failed_directories a"
    using c by (auto simp: choose_relay_def andthen_def outside_def lift_def split: if_splits prod.splits)
  show ?case
  proof (cases r)
    case (Ok relay)
    obtain x w where f: "fetch_ohttp_keys (e_wire (st_env S)) (http_get S) (raw relay) (raw d) (ap_world a1) = (x, w)" by fastforce
    show ?thesis
      using 1 [OF c [symmetric] Ok f [symmetric]] c Ok f k
      by (subst fetch_ohttp_keys_from_directory.simps)
        (cases x; auto simp: add_failed_directory_def add_failed_relay_def split: keys_error.splits)
  qed (subst fetch_ohttp_keys_from_directory.simps, simp add: c k)+
qed

lemma unwrap_keeps_failed_directories:
  "set (failed_directories a) \<subseteq> set (failed_directories (snd (unwrap_ohttp_keys_or_else_fetch_from_directory S d a)))"
  using fetch_keeps_failed_directories [of a S d]
  by (auto simp: unwrap_ohttp_keys_or_else_fetch_from_directory_def give_def split: option.splits)

lemma fewer_directories:
  assumes "d \<in> set (remaining_directories S a)" and "set (failed_directories a) \<subseteq> set (failed_directories b)"
    and "d \<in> set (failed_directories b)"
  shows "length (remaining_directories S b) < length (remaining_directories S a)"
proof -
  have "remaining_directories S b = filter (\<lambda>x. x \<notin> set (failed_directories b)) (remaining_directories S a)"
    using assms(2) by (auto simp: remaining_directories_def intro!: filter_cong)
  then show ?thesis
    using assms(1,3) length_filter_less [of d "remaining_directories S a" "\<lambda>x. x \<notin> set (failed_directories b)"] by simp
qed

lemma fewer_directories_after:
  assumes "choose_directory S a = (Ok d, b)" and "unwrap_ohttp_keys_or_else_fetch_from_directory S d b = (r, c)"
  shows "length (remaining_directories S (clear_failed_relays (add_failed_directory d c))) < length (remaining_directories S a)"
  using choose_directory_remaining [OF assms(1)] unwrap_keeps_failed_directories [of b S d] assms(2)
  by (intro fewer_directories [of d]) (auto simp: clear_failed_relays_def add_failed_directory_def)

function choose_keys :: "'w cli_setup \<Rightarrow> 'w app \<Rightarrow> (url \<times> nat, cli_error) res \<times> 'w app" where
  "choose_keys S a =
     (case choose_directory S a of
        (Err e, a) \<Rightarrow> (Err e, a)
      | (Panic, a) \<Rightarrow> (Panic, a)
      | (Ok directory, a) \<Rightarrow>
          (case unwrap_ohttp_keys_or_else_fetch_from_directory S directory a of
             (Ok keys, a) \<Rightarrow> (Ok (directory, keys), a)
           | (Err e, a) \<Rightarrow> choose_keys S (clear_failed_relays (add_failed_directory directory a))
           | (Panic, a) \<Rightarrow> (Panic, a)))"
  by pat_completeness auto

termination
  by (relation "measure (\<lambda>(S, a). length (remaining_directories S a))")
    (auto dest!: sym [of "(_, _)"] intro: fewer_directories_after)

declare choose_keys.simps [simp del]

definition receiver_options :: "'w cli_setup \<Rightarrow> clock \<Rightarrow> amount \<Rightarrow> session_context \<Rightarrow> (session_context, 'e) res" where
  "receiver_options S c amt b =
     (let b1 = with_amount amt b;
          b2 = (case st_max_fee_rate S of Some r \<Rightarrow> with_max_fee_rate r b1 | None \<Rightarrow> b1)
      in case st_expire_in_secs S of Some t \<Rightarrow> with_expiration (st_env S) c (t * 10 ^ 9) b2 | None \<Rightarrow> Ok b2)"

definition receive_payjoin ::
  "nat \<Rightarrow> 'w cli_setup \<Rightarrow> amount \<Rightarrow> 'w app \<Rightarrow> (receive_session option, cli_error) res \<times> 'w app" where
  "receive_payjoin n S amt =
     andthen (outside (ask_node S)) (\<lambda>node.
     andthen (lift (map_err NodeError (get_new_address node))) (\<lambda>address.
     andthen (outside (ask_random S)) (\<lambda>uuid.
     andthen (error_as DatabaseError (with_db S (\<lambda>F. receiver_persister_new F uuid))) (\<lambda>sid.
     andthen (choose_keys S) (\<lambda>(directory, ohttp_keys).
     andthen (outside (ask_clock S)) (\<lambda>c.
     andthen (outside (ask_random S)) (\<lambda>random.
     andthen (lift (map_err BuilderUrl (receiver_builder_new (st_env S) c random address (raw directory) ohttp_keys))) (\<lambda>b.
     andthen (lift (receiver_options S c amt b)) (\<lambda>b.
     andthen (error_as DatabaseError (receiver_saves S sid next_state_save (receiver_build b))) (\<lambda>session.
     andthen (print (SessionEstablished sid)) (\<lambda>_.
     andthen (lift (session_pj_uri (st_env S) (rc_context session) Disabled)) (\<lambda>uri.
     andthen (print (ShareUri uri)) (\<lambda>_.
     andthen (process_receiver_session n S sid (Initialized session)) (\<lambda>running.
     andthen (case running of Some _ \<Rightarrow> print (RunCancel sid) | None \<Rightarrow> give ()) (\<lambda>_. give running)))))))))))))))"

section \<open>Resuming\<close>

text \<open>
  A session that replays becomes a task, an expired one is closed, and so is one that does not
  replay. Errors of the two are only logged.
\<close>

definition ignoring_errors :: "('s \<Rightarrow> (unit, 'e) res \<times> 's) \<Rightarrow> 's \<Rightarrow> (unit, 'e) res \<times> 's" where
  "ignoring_errors m = on_result m (\<lambda>r. case r of Panic \<Rightarrow> lift Panic | _ \<Rightarrow> give ())"

fun resume_receivers :: "'w cli_setup \<Rightarrow> session_id list \<Rightarrow> 'w app \<Rightarrow> ((session_id \<times> receive_session) list, cli_error) res \<times> 'w app" where
  "resume_receivers S [] = give []"
| "resume_receivers S (sid # sids) =
     on_result (receiver_replay S sid) (\<lambda>r. case r of
       Ok (session, _) \<Rightarrow> andthen (resume_receivers S sids) (\<lambda>tasks. give ((sid, session) # tasks))
     | Err e \<Rightarrow>
         andthen (if is_expired e then ignoring_errors (cancel_receiver_session S sid True)
                  else receiver_close_failed_session S sid) (\<lambda>_. resume_receivers S sids)
     | Panic \<Rightarrow> lift Panic)"

fun resume_senders :: "'w cli_setup \<Rightarrow> session_id list \<Rightarrow> 'w app \<Rightarrow> ((session_id \<times> send_session) list, cli_error) res \<times> 'w app" where
  "resume_senders S [] = give []"
| "resume_senders S (sid # sids) =
     on_result (sender_replay S sid) (\<lambda>r. case r of
       Ok (session, _) \<Rightarrow> andthen (resume_senders S sids) (\<lambda>tasks. give ((sid, session) # tasks))
     | Err e \<Rightarrow>
         andthen (if is_expired e then ignoring_errors (cancel_sender_session S sid True)
                  else sender_close_failed_session S sid) (\<lambda>_. resume_senders S sids)
     | Panic \<Rightarrow> lift Panic)"

definition retain_target :: "session_id option \<Rightarrow> session_id list \<Rightarrow> session_id list" where
  "retain_target target ids = (case target of Some t \<Rightarrow> filter (\<lambda>i. i = t) ids | None \<Rightarrow> ids)"

definition resume_payjoins ::
  "'w cli_setup \<Rightarrow> session_id option \<Rightarrow> 'w app \<Rightarrow>
     ((session_id \<times> receive_session) list \<times> (session_id \<times> send_session) list, cli_error) res \<times> 'w app" where
  "resume_payjoins S target =
     andthen (error_as DatabaseError (with_db S get_recv_session_ids)) (\<lambda>recv_ids.
     andthen (error_as DatabaseError (with_db S get_send_session_ids)) (\<lambda>send_ids.
     let recv_session_ids = retain_target target recv_ids; send_session_ids = retain_target target send_ids in
     if recv_session_ids = [] \<and> send_session_ids = []
     then (case target of Some t \<Rightarrow> fails (SessionNotFound t) | None \<Rightarrow> andthen (print NoSessions) (\<lambda>_. give ([], [])))
     else andthen (resume_receivers S recv_session_ids) (\<lambda>receivers.
          andthen (resume_senders S send_session_ids) (\<lambda>senders. give (receivers, senders)))))"

text \<open>
  The tasks run concurrently. A step of a task is taken as a whole: it saves once, after its awaits,
  and between those only the lists of failed relays and the outside change. A task whose step stops
  or fails is gone.
\<close>

record 'w tasks =
  tk_receivers :: "(session_id \<times> receive_session) list"
  tk_senders :: "(session_id \<times> send_session) list"
  tk_app :: "'w app"

definition after_step :: "session_id \<Rightarrow> ('s driver, cli_error) res \<Rightarrow> (session_id \<times> 's) list" where
  "after_step sid r = (case r of Ok (Next s) \<Rightarrow> [(sid, s)] | _ \<Rightarrow> [])"

inductive task_step :: "'w cli_setup \<Rightarrow> 'w tasks \<Rightarrow> 'w tasks \<Rightarrow> bool" for S :: "'w cli_setup" where
  receiver_task:
    "receiver_session_step S sid s a = (r, a') \<Longrightarrow>
       task_step S \<lparr>tk_receivers = xs @ (sid, s) # ys, tk_senders = zs, tk_app = a\<rparr>
         \<lparr>tk_receivers = xs @ after_step sid r @ ys, tk_senders = zs, tk_app = a'\<rparr>"
| sender_task:
    "sender_session_step S sid s a = (r, a') \<Longrightarrow>
       task_step S \<lparr>tk_receivers = zs, tk_senders = xs @ (sid, s) # ys, tk_app = a\<rparr>
         \<lparr>tk_receivers = zs, tk_senders = xs @ after_step sid r @ ys, tk_app = a'\<rparr>"

section \<open>Cancelling\<close>

datatype cli_role = RoleSender | RoleReceiver

definition cancel_session :: "'w cli_setup \<Rightarrow> session_id \<Rightarrow> bool \<Rightarrow> cli_role option \<Rightarrow> 'w app \<Rightarrow> (unit, cli_error) res \<times> 'w app" where
  "cancel_session S sid no_broadcast role =
     (case role of
        Some RoleSender \<Rightarrow> cancel_sender_session S sid no_broadcast
      | Some RoleReceiver \<Rightarrow> cancel_receiver_session S sid no_broadcast
      | None \<Rightarrow>
          andthen (error_as DatabaseError (with_db S (\<lambda>F. send_session_exists F sid))) (\<lambda>is_sender.
          andthen (error_as DatabaseError (with_db S (\<lambda>F. recv_session_exists F sid))) (\<lambda>is_receiver.
            if is_sender \<and> is_receiver then fails (BothRoles sid)
            else if is_sender then cancel_sender_session S sid no_broadcast
            else if is_receiver then cancel_receiver_session S sid no_broadcast
            else fails (SessionNotFound sid))))"

section \<open>History\<close>

fun send_status_text :: "send_session \<Rightarrow> string" where
  "send_status_text (WithReplyKey _) = ''Waiting for proposal''"
| "send_status_text (PollingForProposal _) = ''Waiting for proposal''"
| "send_status_text (SendClosed SendAborted) = ''Session aborted''"
| "send_status_text (SendClosed (SendSuccess _)) = ''Session success''"
| "send_status_text (SendPendingFallback _) = ''Session awaiting fallback''"

definition receive_status_text :: "receive_session \<Rightarrow> string" where
  "receive_status_text s =
     (case s of
        Initialized _ \<Rightarrow> ''Waiting for original proposal''
      | PayjoinProposal _ \<Rightarrow> ''Payjoin proposal sent''
      | HasReplyableError _ \<Rightarrow> ''Session failure, waiting to post error response''
      | Monitor _ \<Rightarrow> ''Monitoring payjoin proposal''
      | PendingFallback _ \<Rightarrow> ''Pending fallback handling''
      | ClosedSession Aborted \<Rightarrow> ''Session aborted''
      | ClosedSession (SuccessOutcome _) \<Rightarrow> ''Session success, Payjoin proposal was broadcasted''
      | ClosedSession FallbackBroadcasted \<Rightarrow> ''Fallback broadcasted''
      | ClosedSession PayjoinProposalSent \<Rightarrow>
          ''Payjoin proposal sent, skipping monitoring as the sender is spending non-SegWit inputs''
      | ClosedSession (session_outcome.Unrecognized _) \<Rightarrow> ''Settled by an unrecognized transaction''
      | _ \<Rightarrow> ''Processing original proposal'')"

text \<open>A row is a session, its role and its status, or nothing for the text of an error of the replay.\<close>

type_synonym history_row = "session_id \<times> cli_role \<times> string option"

definition row_status :: "string \<Rightarrow> bool \<Rightarrow> string option" where
  "row_status status fallback_available =
     Some (if fallback_available then status @ '', Fallback transaction available'' else status)"

fun send_rows :: "'w cli_setup \<Rightarrow> session_id list \<Rightarrow> 'w app \<Rightarrow> (history_row list, cli_error) res \<times> 'w app" where
  "send_rows S [] = give []"
| "send_rows S (sid # sids) =
     on_result (sender_replay S sid) (\<lambda>r. case r of
       Panic \<Rightarrow> lift Panic
     | Err _ \<Rightarrow> andthen (send_rows S sids) (\<lambda>rows. give ((sid, RoleSender, None) # rows))
     | Ok (session, _) \<Rightarrow>
         andthen (send_rows S sids) (\<lambda>rows.
           give ((sid, RoleSender, row_status (send_status_text session) (session = SendClosed SendAborted)) # rows)))"

fun receive_rows :: "'w cli_setup \<Rightarrow> session_id list \<Rightarrow> 'w app \<Rightarrow> (history_row list, cli_error) res \<times> 'w app" where
  "receive_rows S [] = give []"
| "receive_rows S (sid # sids) =
     on_result (receiver_replay S sid) (\<lambda>r. case r of
       Panic \<Rightarrow> lift Panic
     | Err _ \<Rightarrow> andthen (receive_rows S sids) (\<lambda>rows. give ((sid, RoleReceiver, None) # rows))
     | Ok (session, history) \<Rightarrow>
         andthen (if session = ClosedSession Aborted then lift (history_fallback_tx (st_env S) history) else give None) (\<lambda>tx.
         andthen (receive_rows S sids) (\<lambda>rows.
           give ((sid, RoleReceiver, row_status (receive_status_text session) (tx \<noteq> None)) # rows))))"

definition history_rows :: "'w cli_setup \<Rightarrow> 'w app \<Rightarrow> (history_row list, cli_error) res \<times> 'w app" where
  "history_rows S =
     andthen (error_as DatabaseError (with_db S get_send_session_ids)) (\<lambda>send_ids.
     andthen (send_rows S send_ids) (\<lambda>r1.
     andthen (error_as DatabaseError (with_db S get_recv_session_ids)) (\<lambda>recv_ids.
     andthen (receive_rows S recv_ids) (\<lambda>r2.
     andthen (error_as DatabaseError (with_db S get_inactive_send_session_ids)) (\<lambda>inactive_send.
     andthen (send_rows S (map fst inactive_send)) (\<lambda>r3.
     andthen (error_as DatabaseError (with_db S get_inactive_recv_session_ids)) (\<lambda>inactive_recv.
     andthen (receive_rows S (map fst inactive_recv)) (\<lambda>r4.
       give (sort_key fst ((r1 @ r3) @ (r2 @ r4)))))))))))"

end
