(* ===== verification/PJ_Cli_Logged.thy ===== *)
theory PJ_Cli_Logged
  imports PJ_Cli_Commands PJ_Receive_Replay
begin

text \<open>
  What a step of the command line program leaves in the database: the log of its session replays to
  the state that the step returns, and the logs of the other sessions are as they were.
\<close>

section \<open>Logs in the database\<close>

definition rows_hold :: "'e event_json \<Rightarrow> session_id \<Rightarrow> event_row list \<Rightarrow> 'e list \<Rightarrow> bool" where
  "rows_hold J sid rows log \<longleftrightarrow> map (event_from_str J) (event_rows sid rows) = map Some log"

lemma try_map_expect: "(try_map (\<lambda>x. expect (f x)) xs = (Ok ys :: ('a list, 'e) res)) = (map f xs = map Some ys)"
proof (induction xs arbitrary: ys)
  case (Cons x xs)
  then show ?case by (cases ys; cases "f x") (auto simp: res_Ok_simps)
qed auto

lemma load_events_Ok: "load_events F J sid rows = Ok log \<longleftrightarrow> load_fault F = None \<and> rows_hold J sid rows log"
  by (auto simp: load_events_def rows_hold_def try_map_expect split: option.splits)

lemma load_events_rows:
  assumes "rows_hold J sid rows log"
  shows "load_events F J sid rows = (case load_fault F of None \<Rightarrow> Ok log | Some e \<Rightarrow> Err e)"
  using assms load_events_Ok [of F J sid rows log] by (auto simp: load_events_def split: option.splits)

text \<open>Only the log of \<open>sid\<close> may differ.\<close>

definition same_but :: "session_id \<Rightarrow> event_row list \<Rightarrow> event_row list \<Rightarrow> bool" where
  "same_but sid rows rows' \<longleftrightarrow> (\<forall>i. i \<noteq> sid \<longrightarrow> event_rows i rows' = event_rows i rows)"

lemma same_but_refl [simp]: "same_but sid rows rows"
  by (simp add: same_but_def)

lemma same_but_trans: "same_but sid a b \<Longrightarrow> same_but sid b c \<Longrightarrow> same_but sid a c"
  by (simp add: same_but_def)

lemma event_rows_append [simp]:
  "event_rows sid (rows @ [\<lparr>ev_session_id = sid', ev_data = x, ev_created_at = t\<rparr>]) =
     event_rows sid rows @ (if sid' = sid then [x] else [])"
  by (simp add: event_rows_def)

section \<open>The statements\<close>

lemma run_statement_cases:
  assumes "run_statement F f d = (r, d')"
  obtains e t where "r = Err e" "d' = d\<lparr>db_ticks := t\<rparr>" | t where "f (d\<lparr>db_ticks := t\<rparr>) = (r, d')"
  using assms
  by (auto simp: run_statement_def get_connection_def statement_def split: option.splits)

text \<open>What an append does: nothing when it fails, one row of the session when it succeeds.\<close>

lemma append_event_cases:
  assumes "append_event F J sessions table sid e d = (r, d')"
  obtains x t where "r = Err x" "d' = d\<lparr>db_ticks := t\<rparr>"
  | data t now where "r = Ok ()" "event_to_string J e = Inr data"
      "d' = table (\<lambda>rows. rows @ [\<lparr>ev_session_id = sid, ev_data = data, ev_created_at = now\<rparr>]) (d\<lparr>db_ticks := t\<rparr>)"
  using assms
  by (auto simp: append_event_def get_connection_def statement_def split: option.splits sum.splits if_split_asm)

lemma receiver_save_rows:
  assumes "receiver_save_event F J sid e d = (r, d')" and "event_json_ok J" and "rows_hold J sid (receive_session_events d) log"
  shows "send_session_events d' = send_session_events d \<and>
    same_but sid (receive_session_events d) (receive_session_events d') \<and>
    (r = Ok () \<and> rows_hold J sid (receive_session_events d') (log @ [e]) \<or>
     (\<exists>x. r = Err x) \<and> rows_hold J sid (receive_session_events d') log)"
  using assms(1) unfolding receiver_save_event_def
proof (cases rule: append_event_cases)
  case (1 x t)
  with assms(3) show ?thesis by simp
next
  case (2 data t now)
  with assms(2,3) show ?thesis by (auto simp: same_but_def rows_hold_def event_json_ok_def)
qed

lemma receiver_close_rows:
  assumes "receiver_close F sid d = (r, d')"
  shows "send_session_events d' = send_session_events d \<and> receive_session_events d' = receive_session_events d \<and> r \<noteq> Panic"
  using assms unfolding receiver_close_def by (cases rule: run_statement_cases) auto

lemma sender_save_rows:
  assumes "sender_save_event F J sid e d = (r, d')" and "event_json_ok J" and "rows_hold J sid (send_session_events d) log"
  shows "receive_session_events d' = receive_session_events d \<and>
    same_but sid (send_session_events d) (send_session_events d') \<and>
    (r = Ok () \<and> rows_hold J sid (send_session_events d') (log @ [e]) \<or>
     (\<exists>x. r = Err x) \<and> rows_hold J sid (send_session_events d') log)"
  using assms(1) unfolding sender_save_event_def
proof (cases rule: append_event_cases)
  case (1 x t)
  with assms(3) show ?thesis by simp
next
  case (2 data t now)
  with assms(2,3) show ?thesis by (auto simp: same_but_def rows_hold_def event_json_ok_def)
qed

lemma sender_close_rows:
  assumes "sender_close F sid d = (r, d')"
  shows "send_session_events d' = send_session_events d \<and> receive_session_events d' = receive_session_events d \<and> r \<noteq> Panic"
  using assms unfolding sender_close_def by (cases rule: run_statement_cases) auto

text \<open>Executing the action of a transition: all of its event or none of it is in the log.\<close>

lemma receiver_execute_rows:
  assumes "execute (receiver_persister F J sid) act d = (r, d')" and "event_json_ok J"
    and "rows_hold J sid (receive_session_events d) log"
  shows "send_session_events d' = send_session_events d \<and>
    same_but sid (receive_session_events d) (receive_session_events d') \<and> r \<noteq> Panic \<and>
    (\<exists>es. rows_hold J sid (receive_session_events d') (log @ es) \<and> (es = saved_events act \<or> es = [] \<and> r \<noteq> Ok ()))"
proof (cases act)
  case NoOp
  with assms show ?thesis by auto
next
  case (Save e)
  with assms(1) have s: "receiver_save_event F J sid e d = (r, d')" by (simp add: receiver_persister_def)
  note rows = receiver_save_rows [OF s assms(2,3)]
  show ?thesis
  proof (cases "r = Ok ()")
    case True
    with rows Save show ?thesis by (intro conjI exI [of _ "[e]"]) auto
  next
    case False
    with rows False show ?thesis by (intro conjI exI [of _ "[]"]) auto
  qed
next
  case (SaveAndClose e)
  obtain r1 d1 where s: "receiver_save_event F J sid e d = (r1, d1)" by fastforce
  note rows = receiver_save_rows [OF s assms(2,3)]
  show ?thesis
  proof (cases "r1 = Ok ()")
    case True
    with SaveAndClose s assms(1) have "receiver_close F sid d1 = (r, d')" by (simp add: receiver_persister_def)
    from receiver_close_rows [OF this] True rows SaveAndClose show ?thesis by (intro conjI exI [of _ "[e]"]) auto
  next
    case False
    with rows obtain x where "r1 = Err x" by auto
    with SaveAndClose s assms(1) have "r = Err x" "d' = d1" by (auto simp: receiver_persister_def)
    with rows False show ?thesis by (intro conjI exI [of _ "[]"]) auto
  qed
qed

lemma sender_execute_rows:
  assumes "execute (sender_persister F J sid) act d = (r, d')" and "event_json_ok J"
    and "rows_hold J sid (send_session_events d) log"
  shows "receive_session_events d' = receive_session_events d \<and>
    same_but sid (send_session_events d) (send_session_events d') \<and> r \<noteq> Panic \<and>
    (\<exists>es. rows_hold J sid (send_session_events d') (log @ es) \<and> (es = saved_events act \<or> es = [] \<and> r \<noteq> Ok ()))"
proof (cases act)
  case NoOp
  with assms show ?thesis by auto
next
  case (Save e)
  with assms(1) have s: "sender_save_event F J sid e d = (r, d')" by (simp add: sender_persister_def)
  note rows = sender_save_rows [OF s assms(2,3)]
  show ?thesis
  proof (cases "r = Ok ()")
    case True
    with rows Save show ?thesis by (intro conjI exI [of _ "[e]"]) auto
  next
    case False
    with rows False show ?thesis by (intro conjI exI [of _ "[]"]) auto
  qed
next
  case (SaveAndClose e)
  obtain r1 d1 where s: "sender_save_event F J sid e d = (r1, d1)" by fastforce
  note rows = sender_save_rows [OF s assms(2,3)]
  show ?thesis
  proof (cases "r1 = Ok ()")
    case True
    with SaveAndClose s assms(1) have "sender_close F sid d1 = (r, d')" by (simp add: sender_persister_def)
    from sender_close_rows [OF this] True rows SaveAndClose show ?thesis by (intro conjI exI [of _ "[e]"]) auto
  next
    case False
    with rows obtain x where "r1 = Err x" by auto
    with SaveAndClose s assms(1) have "r = Err x" "d' = d1" by (auto simp: sender_persister_def)
    with rows False show ?thesis by (intro conjI exI [of _ "[]"]) auto
  qed
qed

section \<open>Stateful code that keeps a condition on the database\<close>

text \<open>
  From \<open>P\<close>, the code ends in \<open>Q\<close> of its result, or in \<open>R\<close> when it fails; a panic counts as a failure.
\<close>

definition triple :: "('s \<Rightarrow> bool) \<Rightarrow> ('s \<Rightarrow> ('a, 'e) res \<times> 's) \<Rightarrow> ('a \<Rightarrow> 's \<Rightarrow> bool) \<Rightarrow> ('s \<Rightarrow> bool) \<Rightarrow> bool" where
  "triple P m Q R \<longleftrightarrow> (\<forall>a. P a \<longrightarrow> (case m a of (Ok x, a') \<Rightarrow> Q x a' | (_, a') \<Rightarrow> R a'))"

lemma tripleI:
  assumes "\<And>a x a'. P a \<Longrightarrow> m a = (Ok x, a') \<Longrightarrow> Q x a'" and "\<And>a e a'. P a \<Longrightarrow> m a = (Err e, a') \<Longrightarrow> R a'"
    and "\<And>a a'. P a \<Longrightarrow> m a = (Panic, a') \<Longrightarrow> R a'"
  shows "triple P m Q R"
  unfolding triple_def
proof (intro allI impI)
  fix a assume "P a"
  with assms show "case m a of (Ok x, a') \<Rightarrow> Q x a' | (_, a') \<Rightarrow> R a'"
    by (cases "m a"; cases "fst (m a)") auto
qed

lemma tripleD:
  assumes "triple P m Q R" and "P a" and "m a = (r, a')"
  shows "(\<forall>x. r = Ok x \<longrightarrow> Q x a') \<and> ((\<forall>x. r \<noteq> Ok x) \<longrightarrow> R a')"
  using assms by (cases r) (auto simp: triple_def dest!: spec [of _ a])

lemma triple_andthen:
  assumes "triple P m Q R" and "\<And>x. triple (Q x) (f x) Q' R"
  shows "triple P (andthen m f) Q' R"
  unfolding triple_def
proof (intro allI impI)
  fix a assume "P a"
  obtain r a' where m: "m a = (r, a')" by fastforce
  note at = tripleD [OF assms(1) \<open>P a\<close> m]
  show "case andthen m f a of (Ok x, a') \<Rightarrow> Q' x a' | (_, a') \<Rightarrow> R a'"
    using m at assms(2) by (cases r) (auto simp: andthen_def triple_def)
qed

lemma triple_give [intro]: "(\<And>a. P a \<Longrightarrow> Q x a) \<Longrightarrow> triple P (give x) Q R"
  by (simp add: triple_def give_def)

lemma triple_fails [intro]: "(\<And>a. P a \<Longrightarrow> R a) \<Longrightarrow> triple P (fails e) Q R"
  by (simp add: triple_def fails_def)

lemma triple_lift: "(\<And>a x. P a \<Longrightarrow> r = Ok x \<Longrightarrow> Q x a) \<Longrightarrow> (\<And>a. P a \<Longrightarrow> R a) \<Longrightarrow> triple P (lift r) Q R"
  by (auto simp: triple_def lift_def split: res.splits)

lemma andthen_lift: "andthen (lift (Ok x)) k = k x"
  by (simp add: andthen_def lift_def fun_eq_iff)

lemma triple_panic [intro]: "(\<And>a. P a \<Longrightarrow> R a) \<Longrightarrow> triple P (lift Panic) Q R"
  by (simp add: triple_def lift_def)

lemma triple_weaken:
  assumes "triple P m Q R" and "\<And>a. P' a \<Longrightarrow> P a" and "\<And>x a. Q x a \<Longrightarrow> Q' x a" and "\<And>a. R a \<Longrightarrow> R' a"
  shows "triple P' m Q' R'"
  by (rule tripleI) (use assms tripleD [OF assms(1)] in blast)+

lemma triple_error_as: "triple P m Q R \<Longrightarrow> triple P (error_as g m) Q R"
  by (rule tripleI) (auto simp: error_as_def map_err_eq_Ok split: prod.splits dest: tripleD)

text \<open>A condition on the database is kept by the outside, the terminal and the choice of a relay.\<close>

abbreviation of_db :: "(database \<Rightarrow> bool) \<Rightarrow> 'w app \<Rightarrow> bool" where
  "of_db p a \<equiv> p (ap_db a)"

lemma triple_outside: "triple (of_db p) (outside f) (\<lambda>_. of_db p) R"
  by (auto simp: triple_def outside_def split: prod.splits)

lemma triple_print: "triple (of_db p) (print n) (\<lambda>_. of_db p) R"
  by (simp add: triple_def print_def)

lemma triple_with_db:
  assumes "\<And>F d r d'. P d \<Longrightarrow> f F d = (r, d') \<Longrightarrow> (\<forall>x. r = Ok x \<longrightarrow> Q x d') \<and> ((\<forall>x. r \<noteq> Ok x) \<longrightarrow> R d')"
  shows "triple (of_db P) (with_db S f) (\<lambda>x. of_db (Q x)) (of_db R)"
  by (rule tripleI) (auto simp: with_db_def split: prod.splits dest: assms)

lemma choose_relay_db: "ap_db (snd (choose_relay S a)) = ap_db a"
  by (auto simp: choose_relay_def andthen_def outside_def lift_def split: prod.splits)

lemma post_via_relay_db: "ap_db (snd (post_via_relay S f a)) = ap_db a"
proof (induction S f a rule: post_via_relay.induct)
  case (1 S f a)
  then show ?case using choose_relay_db [of S a]
    by (subst post_via_relay.simps) (auto simp: add_failed_relay_def split: prod.splits res.splits option.splits)
qed

lemma triple_post_via_relay: "triple (of_db p) (post_via_relay S f) (\<lambda>_. of_db p) (of_db p)"
proof (rule tripleI)
qed (metis post_via_relay_db snd_conv)+

lemma triple_on_result:
  assumes "triple P m Q R" and "\<And>x. triple (Q x) (k (Ok x)) Q' R'" and "\<And>e. triple R (k (Err e)) Q' R'" and "triple R (k Panic) Q' R'"
  shows "triple P (on_result m k) Q' R'"
  unfolding triple_def
proof (intro allI impI)
  fix a assume "P a"
  obtain r a' where m: "m a = (r, a')" by fastforce
  note at = tripleD [OF assms(1) \<open>P a\<close> m]
  show "case on_result m k a of (Ok x, a') \<Rightarrow> Q' x a' | (_, a') \<Rightarrow> R' a'"
    using m at assms(2-4) by (cases r) (auto simp: on_result_def triple_def)
qed

text \<open>The same as rules that go on with the rest of the code.\<close>

lemma after_outside: "(\<And>x. triple (of_db p) (k x) Q R) \<Longrightarrow> triple (of_db p) (andthen (outside f) k) Q R"
  by (rule triple_andthen [OF triple_outside])

lemma after_print: "triple (of_db p) (k ()) Q R \<Longrightarrow> triple (of_db p) (andthen (print n) k) Q R"
  by (rule triple_andthen [OF triple_print]) simp

lemma after_lift:
  "(\<And>x. r = Ok x \<Longrightarrow> triple (of_db p) (k x) Q R) \<Longrightarrow> (\<And>a. of_db p a \<Longrightarrow> R a) \<Longrightarrow> triple (of_db p) (andthen (lift r) k) Q R"
  by (cases r) (auto simp: triple_def andthen_def lift_def)

lemma after_post:
  "(\<And>x. triple (of_db p) (k x) Q R) \<Longrightarrow> (\<And>a. of_db p a \<Longrightarrow> R a) \<Longrightarrow> triple (of_db p) (andthen (post_via_relay S f) k) Q R"
  by (rule triple_andthen [OF triple_weaken [OF triple_post_via_relay [of p S f], of "of_db p" "\<lambda>_. of_db p" R]])

end
