(* ===== verification/PJ_Cli_Session_Log.thy ===== *)
theory PJ_Cli_Session_Log
  imports PJ_Cli_Logged
begin

text \<open>
  What the database says of a session that is running: its log replays to a state that the session
  in memory goes on from. The contract is the locale \<open>logged_session\<close>; the receiver's and the sender's
  sessions are its two interpretations.
\<close>

section \<open>The log of a session\<close>

record ('e, 's, 'x) session_log =
  sl_json :: "'e event_json"
  sl_id :: session_id
  sl_rows :: "database \<Rightarrow> event_row list"
  sl_other :: "database \<Rightarrow> event_row list"
  sl_persister :: "db_outside \<Rightarrow> (database, 'e, cli_db_error) persister"
  sl_replay :: "'e list \<Rightarrow> ('s \<times> 'e list, 'x) res"
  sl_process :: "'s \<Rightarrow> 'e \<Rightarrow> ('s, 'x) res"
  sl_stored :: "'s \<Rightarrow> 's"
  sl_resumes :: "'s \<Rightarrow> 's \<Rightarrow> bool"

definition follows :: "('e, 's, 'x) session_log \<Rightarrow> 'e list \<Rightarrow> 's \<Rightarrow> 's \<Rightarrow> bool" where
  "follows L log c s \<longleftrightarrow> sl_replay L log = Ok (sl_stored L c, log) \<and> sl_resumes L c c \<and> sl_resumes L c s"

definition logged :: "('e, 's, 'x) session_log \<Rightarrow> database \<Rightarrow> 's \<Rightarrow> bool" where
  "logged L d s \<longleftrightarrow> (\<exists>log c. rows_hold (sl_json L) (sl_id L) (sl_rows L d) log \<and> follows L log c s)"

text \<open>Everything else in the database is as it was in \<open>d0\<close>.\<close>

definition at_state :: "('e, 's, 'x) session_log \<Rightarrow> database \<Rightarrow> 's \<Rightarrow> database \<Rightarrow> bool" where
  "at_state L d0 s d \<longleftrightarrow> logged L d s \<and> same_but (sl_id L) (sl_rows L d0) (sl_rows L d) \<and> sl_other L d = sl_other L d0"

definition at_some :: "('e, 's, 'x) session_log \<Rightarrow> database \<Rightarrow> database \<Rightarrow> bool" where
  "at_some L d0 d \<longleftrightarrow> (\<exists>s. at_state L d0 s d)"

lemma at_state_some: "at_state L d0 s d \<Longrightarrow> at_some L d0 d"
  by (auto simp: at_some_def)

text \<open>Where the action of a transition takes a session, and which state its outcome carries.\<close>

definition step_to :: "('e, 's, 'x) session_log \<Rightarrow> 's \<Rightarrow> 'e persist_actions \<Rightarrow> 's \<Rightarrow> bool" where
  "step_to L s act s' \<longleftrightarrow> (\<forall>c. sl_resumes L c s \<longrightarrow>
     (case saved_events act of
        [] \<Rightarrow> sl_resumes L c s'
      | e # _ \<Rightarrow> sl_process L (sl_stored L c) e = Ok (sl_stored L s') \<and> sl_resumes L s' s'))"

lemma step_to_same [simp]: "step_to L s NoOp s"
  by (simp add: step_to_def)

definition lands ::
  "('n \<Rightarrow> 's) \<Rightarrow> ('c \<Rightarrow> 's) \<Rightarrow> ('h \<Rightarrow> 's) \<Rightarrow> ('n, ('x, 'h, 'c) api_error) res \<Rightarrow> 's \<Rightarrow> bool" where
  "lands f g h r s' \<longleftrightarrow>
     (case r of
        Ok n \<Rightarrow> s' = f n
      | Err (ApiTransient _ c) \<Rightarrow> s' = g c
      | Err (ApiFatalWithState _ x) \<Rightarrow> s' = h x
      | _ \<Rightarrow> True)"

text \<open>
  A transition takes \<open>s\<close> to the state that its outcome carries, or somewhere when the outcome
  carries none.
\<close>

definition moves ::
  "('e, 's, 'y) session_log \<Rightarrow> 's \<Rightarrow> 'e persist_actions \<times> ('n, ('x, 'h, 'c) api_error) res \<Rightarrow>
     ('n \<Rightarrow> 's) \<Rightarrow> ('c \<Rightarrow> 's) \<Rightarrow> ('h \<Rightarrow> 's) \<Rightarrow> bool" where
  "moves L s t f g h \<longleftrightarrow> (\<exists>s'. step_to L s (fst t) s' \<and> lands f g h (snd t) s')"

lemma movesI: "step_to L s (fst t) s' \<Longrightarrow> lands f g h (snd t) s' \<Longrightarrow> moves L s t f g h"
  by (auto simp: moves_def)

section \<open>The contract\<close>

locale logged_session =
  fixes L :: "('e, 's, 'x) session_log"
  assumes execute_rows: "event_json_ok (sl_json L) \<Longrightarrow> execute (sl_persister L F) act d = (r, d') \<Longrightarrow>
      rows_hold (sl_json L) (sl_id L) (sl_rows L d) log \<Longrightarrow>
      sl_other L d' = sl_other L d \<and> same_but (sl_id L) (sl_rows L d) (sl_rows L d') \<and> r \<noteq> Panic \<and>
      (\<exists>es. rows_hold (sl_json L) (sl_id L) (sl_rows L d') (log @ es) \<and> (es = saved_events act \<or> es = [] \<and> r \<noteq> Ok ()))"
    and replay_append: "sl_replay L log = Ok (s, log) \<Longrightarrow>
      sl_replay L (log @ [e]) = rmap (\<lambda>s'. (s', log @ [e])) (sl_process L s e)"
    and close_rows: "close_session (sl_persister L F) d = (q, d') \<Longrightarrow> sl_other L d' = sl_other L d \<and> sl_rows L d' = sl_rows L d"
begin

lemma step_to_follows:
  assumes "follows L log c s" and "step_to L s act s'"
  shows "\<exists>c'. follows L (log @ saved_events act) c' s'"
proof (cases "saved_events act")
  case Nil
  with assms show ?thesis by (auto simp: follows_def step_to_def)
next
  case (Cons e es)
  then have es: "es = []" by (cases act) auto
  from assms Cons have "sl_process L (sl_stored L c) e = Ok (sl_stored L s') \<and> sl_resumes L s' s'"
    by (auto simp: follows_def step_to_def)
  with assms(1) Cons es show ?thesis by (auto simp: follows_def replay_append)
qed

lemma execute_at:
  assumes "event_json_ok (sl_json L)" and "execute (sl_persister L F) act d = (r, d')"
    and "at_state L d0 s d" and "step_to L s act s'"
  shows "at_some L d0 d' \<and> r \<noteq> Panic \<and> (r = Ok () \<longrightarrow> at_state L d0 s' d')"
proof -
  obtain log c where l: "rows_hold (sl_json L) (sl_id L) (sl_rows L d) log" "follows L log c s"
    and frame: "same_but (sl_id L) (sl_rows L d0) (sl_rows L d)" "sl_other L d = sl_other L d0"
    using assms(3) by (auto simp: at_state_def logged_def)
  from execute_rows [OF assms(1,2) l(1)] obtain es where
    e: "sl_other L d' = sl_other L d" "same_but (sl_id L) (sl_rows L d) (sl_rows L d')" "r \<noteq> Panic"
      "rows_hold (sl_json L) (sl_id L) (sl_rows L d') (log @ es)" "es = saved_events act \<or> es = [] \<and> r \<noteq> Ok ()"
    by auto
  obtain c' where c': "follows L (log @ saved_events act) c' s'"
    using step_to_follows [OF l(2) assms(4)] by auto
  have fr: "same_but (sl_id L) (sl_rows L d0) (sl_rows L d')" "sl_other L d' = sl_other L d0"
    using frame e(1,2) same_but_trans by auto
  from e(5) show ?thesis
  proof
    assume "es = saved_events act"
    with e(4) c' fr have "at_state L d0 s' d'" by (auto simp: at_state_def logged_def)
    with e(3) show ?thesis by (auto simp: at_some_def)
  next
    assume "es = [] \<and> r \<noteq> Ok ()"
    with e(4) l(2) fr have "at_state L d0 s d'" by (auto simp: at_state_def logged_def)
    with e(3) \<open>es = [] \<and> r \<noteq> Ok ()\<close> show ?thesis by (auto simp: at_some_def)
  qed
qed

lemma triple_save_outcome:
  fixes S :: "'w cli_setup"
  assumes json: "event_json_ok (sl_json L)" and step: "step_to L s (fst t) s'"
    and ok: "triple (of_db (at_state L d0 s')) (k (map_err Api (snd t))) Q R"
    and storage: "\<And>e. triple (of_db (at_some L d0)) (k (Err (Storage e))) Q R"
  shows "triple (of_db (at_state L d0 s)) (on_result (with_db S (\<lambda>F. save_outcome (sl_persister L F) t)) k) Q R"
  unfolding triple_def
proof (intro allI impI)
  fix a :: "'w app" assume a: "at_state L d0 s (ap_db a)"
  obtain F w where F: "ask_database S (ap_world a) = (F, w)" by fastforce
  obtain r d' where x: "execute (sl_persister L F) (fst t) (ap_db a) = (r, d')" by fastforce
  note at = execute_at [OF json x a step]
  let ?a = "a\<lparr>ap_db := d', ap_world := w\<rparr>"
  have m: "on_result (with_db S (\<lambda>F. save_outcome (sl_persister L F) t)) k a =
      k (rbind (map_err Storage r) (\<lambda>_. map_err Api (snd t))) ?a"
    using F x by (cases t) (simp add: on_result_def with_db_def save_outcome_def)
  show "case on_result (with_db S (\<lambda>F. save_outcome (sl_persister L F) t)) k a of (Ok x, a') \<Rightarrow> Q x a' | (_, a') \<Rightarrow> R a'"
  proof (cases r)
    case (Ok u)
    with at ok m show ?thesis by (simp add: triple_def)
  next
    case (Err e)
    with at storage [of e] m show ?thesis by (simp add: triple_def)
  qed (use at in simp)
qed

lemma triple_save_value:
  fixes S :: "'w cli_setup"
  assumes json: "event_json_ok (sl_json L)" and step: "step_to L s (fst t) s'"
  shows "triple (of_db (at_state L d0 s)) (with_db S (\<lambda>F. save_value (sl_persister L F) t))
    (\<lambda>x a. x = snd t \<and> at_state L d0 s' (ap_db a)) (of_db (at_some L d0))"
  unfolding triple_def
proof (intro allI impI)
  fix a :: "'w app" assume a: "at_state L d0 s (ap_db a)"
  obtain F w where F: "ask_database S (ap_world a) = (F, w)" by fastforce
  obtain r d' where x: "execute (sl_persister L F) (fst t) (ap_db a) = (r, d')" by fastforce
  note at = execute_at [OF json x a step]
  have "with_db S (\<lambda>F. save_value (sl_persister L F) t) a = (rmap (\<lambda>_. snd t) r, a\<lparr>ap_db := d', ap_world := w\<rparr>)"
    using F x by (cases t) (simp add: with_db_def save_value_def)
  with at show "case with_db S (\<lambda>F. save_value (sl_persister L F) t) a of
      (Ok x, a') \<Rightarrow> x = snd t \<and> at_state L d0 s' (ap_db a') | (_, a') \<Rightarrow> at_some L d0 (ap_db a')"
    by (cases r) auto
qed

text \<open>A transition whose value is the next state, saved with \<open>?\<close>.\<close>

lemma triple_next:
  fixes S :: "'w cli_setup"
  assumes "event_json_ok (sl_json L)" and "step_to L s (fst t) s'" and "triple (of_db (at_state L d0 s')) (k (snd t)) Q R"
    and "\<And>a. of_db (at_some L d0) a \<Longrightarrow> R a"
  shows "triple (of_db (at_state L d0 s)) (andthen (error_as g (with_db S (\<lambda>F. save_value (sl_persister L F) t))) k) Q R"
proof (rule triple_andthen)
  show "triple (of_db (at_state L d0 s)) (error_as g (with_db S (\<lambda>F. save_value (sl_persister L F) t)))
      (\<lambda>x a. x = snd t \<and> at_state L d0 s' (ap_db a)) R"
    by (rule triple_weaken [OF triple_error_as [OF triple_save_value [OF assms(1,2)]]]) (use assms(4) in auto)
  show "triple (\<lambda>a. x = snd t \<and> at_state L d0 s' (ap_db a)) (k x) Q R" for x
    using assms(3) by (auto simp: triple_def)
qed

lemma triple_last:
  fixes S :: "'w cli_setup"
  assumes "event_json_ok (sl_json L)" and "step_to L s (fst t) s'"
  shows "triple (of_db (at_state L d0 s)) (error_as g (with_db S (\<lambda>F. save_value (sl_persister L F) t)))
    (\<lambda>_. of_db (at_some L d0)) (of_db (at_some L d0))"
  by (rule triple_weaken [OF triple_error_as [OF triple_save_value [OF assms]]]) (auto intro: at_state_some)

text \<open>A transition that is saved with \<open>?\<close>, and one whose outcome is looked at.\<close>

lemma triple_on_saved:
  assumes json: "event_json_ok (sl_json L)" and moves: "moves L s t f g h"
    and ok: "\<And>n. snd t = Ok n \<Longrightarrow> triple (of_db (at_state L d0 (f n))) (k (Ok n)) Q R"
    and transient: "\<And>x c. snd t = Err (ApiTransient x c) \<Longrightarrow> triple (of_db (at_state L d0 (g c))) (k (Err (Api (ApiTransient x c)))) Q R"
    and with_state: "\<And>x c. snd t = Err (ApiFatalWithState x c) \<Longrightarrow>
      triple (of_db (at_state L d0 (h c))) (k (Err (Api (ApiFatalWithState x c)))) Q R"
    and fatal: "\<And>x. triple (of_db (at_some L d0)) (k (Err (Api (ApiFatal x)))) Q R"
    and storage: "\<And>e. triple (of_db (at_some L d0)) (k (Err (Storage e))) Q R"
    and panic: "triple (of_db (at_some L d0)) (k Panic) Q R"
  shows "triple (of_db (at_state L d0 s)) (on_result (with_db S (\<lambda>F. save_outcome (sl_persister L F) t)) k) Q R"
proof -
  obtain s' where s': "step_to L s (fst t) s'" "lands f g h (snd t) s'" using moves by (auto simp: moves_def)
  have some: "triple (of_db (at_some L d0)) m Q R \<Longrightarrow> triple (of_db (at_state L d0 s')) m Q R" for m
    by (auto intro: triple_weaken at_state_some)
  have "triple (of_db (at_state L d0 s')) (k (map_err Api (snd t))) Q R"
  proof (cases "snd t")
    case (Err e)
    then show ?thesis
      using s'(2) transient with_state some [OF fatal] by (cases e) (auto simp: lands_def)
  qed (use s'(2) ok some [OF panic] in \<open>auto simp: lands_def\<close>)
  from triple_save_outcome [OF json s'(1) this storage] show ?thesis .
qed

lemma triple_saved:
  assumes json: "event_json_ok (sl_json L)" and moves: "moves L s t f g h"
  shows "triple (of_db (at_state L d0 s))
    (error_as session_failure (with_db S (\<lambda>F. save_outcome (sl_persister L F) t)))
    (\<lambda>x a. at_state L d0 (f x) (ap_db a)) (of_db (at_some L d0))"
proof -
  have "error_as session_failure (with_db S (\<lambda>F. save_outcome (sl_persister L F) t)) =
      on_result (with_db S (\<lambda>F. save_outcome (sl_persister L F) t)) (\<lambda>r. lift (map_err session_failure r))"
    by (simp add: error_as_def on_result_def lift_def fun_eq_iff)
  moreover have "triple (of_db (at_state L d0 s))
      (on_result (with_db S (\<lambda>F. save_outcome (sl_persister L F) t)) (\<lambda>r. lift (map_err session_failure r)))
      (\<lambda>x a. at_state L d0 (f x) (ap_db a)) (of_db (at_some L d0))"
    by (rule triple_on_saved [OF json moves]) (auto intro!: triple_lift intro: at_state_some)
  ultimately show ?thesis by simp
qed

lemma triple_closed: "triple (of_db (at_some L d0)) (with_db S (\<lambda>F. close_session (sl_persister L F))) (\<lambda>_. of_db (at_some L d0)) (of_db (at_some L d0))"
proof -
  have "at_some L d0 d'" if "at_some L d0 d" and "close_session (sl_persister L F) d = (r, d')" for F d r d'
    using close_rows [OF that(2)] that(1) by (auto simp: at_some_def at_state_def logged_def)
  then show ?thesis unfolding triple_def with_db_def by (fastforce split: prod.splits res.splits)
qed

end

section \<open>Steps of a driver\<close>

lemma triple_from_some:
  assumes "\<And>s. triple (of_db (at_state L d0 s)) m Q R"
  shows "triple (of_db (at_some L d0)) m Q R"
  unfolding triple_def at_some_def by (intro allI impI) (use assms [unfolded triple_def] in \<open>elim exE, simp\<close>)

text \<open>
  Where a step leads: to a session whose log is in the database, or to the session \<open>dead\<close>, which was
  closed because it had expired.
\<close>

definition reaches :: "('e, 's, 'x) session_log \<Rightarrow> 's \<Rightarrow> database \<Rightarrow> 's driver \<Rightarrow> 'w app \<Rightarrow> bool" where
  "reaches L dead d0 x a =
     (case x of
        Next s \<Rightarrow> at_state L d0 s (ap_db a) \<or> s = dead \<and> at_some L d0 (ap_db a)
      | Stop \<Rightarrow> at_some L d0 (ap_db a))"

abbreviation steps_to ::
  "('e, 's, 'x) session_log \<Rightarrow> 's \<Rightarrow> database \<Rightarrow> 's \<Rightarrow> ('w app \<Rightarrow> ('s driver, cli_error) res \<times> 'w app) \<Rightarrow> bool" where
  "steps_to L dead d0 s m \<equiv> triple (of_db (at_state L d0 s)) m (reaches L dead d0) (of_db (at_some L d0))"

lemma triple_fails_here: "triple (of_db (at_state L d0 s)) (fails e) Q (of_db (at_some L d0))"
  by (rule triple_fails) (rule at_state_some)

lemma reaches_next [intro]: "triple (of_db (at_state L d0 s)) (give (Next s)) (reaches L dead d0) R"
  by (rule triple_give) (simp add: reaches_def)

lemma reaches_stop: "triple (of_db (at_some L d0)) (give Stop) (reaches L dead d0) R"
  "triple (of_db (at_state L d0 s)) (give Stop) (reaches L dead d0) R"
  by (rule triple_give, auto simp: reaches_def intro: at_state_some)+

lemma reaches_dead: "triple (of_db (at_some L d0)) (give (Next dead)) (reaches L dead d0) R"
  by (rule triple_give) (simp add: reaches_def)

lemma triple_retry:
  "triple (of_db (at_state L d0 (f c))) (retry_or_fail (\<lambda>r. Next (f r)) (Api (ApiTransient x c))) (reaches L dead d0) (of_db (at_some L d0))"
  "triple (of_db (at_some L d0)) (retry_or_fail (\<lambda>r. Next (f r)) (Api (ApiFatal x))) (reaches L dead d0) (of_db (at_some L d0))"
  "triple (of_db (at_some L d0)) (retry_or_fail (\<lambda>r. Next (f r)) (Storage e)) (reaches L dead d0) (of_db (at_some L d0))"
  "triple (of_db (at_state L d0 s)) (retry_or_fail (\<lambda>r. Next (f r)) (Api (ApiFatalWithState x h))) (reaches L dead d0) (of_db (at_some L d0))"
  by (auto simp: retry_or_fail_def is_transient_def transient_state_def triple_def lift_def fails_def reaches_def intro: at_state_some)

lemma triple_settle_fallback: "triple (of_db p) (settle_fallback S no tx) (\<lambda>_. of_db p) (of_db p)"
  by (auto simp: settle_fallback_def broadcast_tx_def triple_def andthen_def outside_def lift_def print_def map_err_eq_Ok
      split: prod.splits res.splits)

text \<open>A post that may find that the session has expired.\<close>

lemma posts_ok:
  assumes cancel: "triple (of_db (at_some L d0)) cancel (\<lambda>_. of_db (at_some L d0)) (of_db (at_some L d0))"
    and k: "\<And>bytes ctx. steps_to L dead d0 s (k bytes ctx)"
  shows "steps_to L dead d0 s (andthen (post_via_relay S create) (\<lambda>p. case p of
      PostExpired \<Rightarrow> andthen cancel (\<lambda>_. give (Next dead))
    | Posted None ctx \<Rightarrow> fails ResponseUnreadable
    | Posted (Some bytes) ctx \<Rightarrow> k bytes ctx))"
proof (rule after_post)
  have expired: "steps_to L dead d0 s (andthen cancel (\<lambda>_. give (Next dead)))"
    by (rule triple_andthen [OF triple_weaken [OF cancel, of "of_db (at_state L d0 s)" "\<lambda>_. of_db (at_some L d0)"] reaches_dead])
      (auto intro: at_state_some)
  show "steps_to L dead d0 s (case p of
      PostExpired \<Rightarrow> andthen cancel (\<lambda>_. give (Next dead))
    | Posted None ctx \<Rightarrow> fails ResponseUnreadable
    | Posted (Some bytes) ctx \<Rightarrow> k bytes ctx)" for p
    using k expired by (auto split: relay_post.splits option.splits intro: triple_fails_here)
qed (auto intro: at_state_some)

text \<open>One round of a driver whose step on \<open>dead\<close> is to stop.\<close>

lemma step_then:
  assumes step: "\<And>s. steps_to L dead d0 s (step s)" and dead: "step dead = give Stop"
    and rest: "\<And>s. triple (\<lambda>a. reaches L dead d0 (Next s) a) (process s) Q (of_db (at_some L d0))"
    and none: "\<And>a. at_some L d0 (ap_db a) \<Longrightarrow> Q None a"
  shows "triple (\<lambda>a. reaches L dead d0 (Next s) a)
    (andthen (step s) (\<lambda>next_state. case next_state of Next s' \<Rightarrow> process s' | Stop \<Rightarrow> give None)) Q (of_db (at_some L d0))"
proof (rule triple_andthen)
  have "triple (of_db (at_some L d0)) (step dead) (reaches L dead d0) (of_db (at_some L d0))"
    unfolding dead by (rule reaches_stop)
  with step [of s] show "triple (\<lambda>a. reaches L dead d0 (Next s) a) (step s) (reaches L dead d0) (of_db (at_some L d0))"
    unfolding triple_def reaches_def by auto
  show "triple (reaches L dead d0 x) (case x of Next s' \<Rightarrow> process s' | Stop \<Rightarrow> give None) Q (of_db (at_some L d0))" for x
  proof (cases x)
    case (Next s')
    with rest show ?thesis by simp
  qed (simp, rule triple_give, simp add: reaches_def none)
qed

end
