(* ===== verification/PJ_Cli_Receiver_Facts.thy ===== *)
theory PJ_Cli_Receiver_Facts
  imports PJ_Cli_Session_Log
begin

text \<open>
  The receiver's session in the command line program: after every step of the driver the log in the
  database replays to a state that the returned session goes on from.
\<close>

section \<open>The log of a receiver's session\<close>

definition receiver_log ::
  "'w cli_setup \<Rightarrow> session_id \<Rightarrow> (session_event, receive_session, (receive_session, session_event) replay_error) session_log"
where
  "receiver_log S sid = \<lparr>sl_json = receive_json S, sl_id = sid, sl_rows = receive_session_events, sl_other = send_session_events,
     sl_persister = (\<lambda>F. receiver_persister F (receive_json S) sid), sl_replay = replay_events (st_env S),
     sl_process = process_event (st_env S), sl_stored = stored, sl_resumes = resumes\<rparr>"

lemma receiver_log_simps [simp]:
  "sl_json (receiver_log S sid) = receive_json S" "sl_id (receiver_log S sid) = sid"
  "sl_rows (receiver_log S sid) = receive_session_events" "sl_other (receiver_log S sid) = send_session_events"
  "sl_persister (receiver_log S sid) = (\<lambda>F. receiver_persister F (receive_json S) sid)"
  "sl_replay (receiver_log S sid) = replay_events (st_env S)" "sl_process (receiver_log S sid) = process_event (st_env S)"
  "sl_stored (receiver_log S sid) = stored" "sl_resumes (receiver_log S sid) = resumes"
  by (simp_all add: receiver_log_def)

lemma replay_events_append:
  assumes "replay_events E log = Ok (s, log)"
  shows "replay_events E (log @ [e]) = rmap (\<lambda>s'. (s', log @ [e])) (process_event E s e)"
proof -
  obtain ctx es where l: "log = Created ctx # es"
    using assms by (auto simp: replay_events_def split: list.splits session_event.splits)
  with assms have "try_fold (process_event E) (receive_session_new ctx) es = Ok s"
    by (auto simp: replay_events_created rmap_eq_Ok)
  then show ?thesis using l replay_events_created [of E ctx "es @ [e]"]
    by (cases "process_event E s e") (simp_all add: try_fold_append)
qed

interpretation rcv: logged_session "receiver_log S sid" for S :: "'w cli_setup" and sid
proof unfold_locales
  show "close_session (sl_persister (receiver_log S sid) F) d = (q, d') \<Longrightarrow>
      sl_other (receiver_log S sid) d' = sl_other (receiver_log S sid) d \<and>
      sl_rows (receiver_log S sid) d' = sl_rows (receiver_log S sid) d" for F d q d'
    using receiver_close_rows by (simp add: receiver_persister_def)
qed (simp_all add: receiver_execute_rows replay_events_append)

lemmas receiver_saved = rcv.triple_saved [unfolded receiver_log_simps]
lemmas receiver_on_saved = rcv.triple_on_saved [unfolded receiver_log_simps]
lemmas receiver_valued = rcv.triple_save_value [unfolded receiver_log_simps]
lemmas receiver_closed = rcv.triple_closed [unfolded receiver_log_simps]

section \<open>The moves of the handlers\<close>

lemma live_step_to:
  "receive_step (st_env S) R s (Some e) s' \<Longrightarrow> step_to (receiver_log S sid) s (Save e) s'"
  "receive_step (st_env S) R s (Some e) s' \<Longrightarrow> step_to (receiver_log S sid) s (SaveAndClose e) s'"
  "receive_step (st_env S) R s None s' \<Longrightarrow> step_to (receiver_log S sid) s NoOp s'"
  using receive_step_saved [of "st_env S" R s e s'] receive_step_silent [of "st_env S" R s s'] by (auto simp: step_to_def)

lemma closing_step_to [simp]: "step_to (receiver_log S sid) s (SaveAndClose (Closed o')) (ClosedSession o')"
  by (simp add: step_to_def closed_replays)

lemma closing_somewhere [simp]:
  "\<exists>o''. step_to (receiver_log S sid) s (SaveAndClose (Closed o')) (ClosedSession o'')"
  "\<exists>s'. step_to (receiver_log S sid) s (SaveAndClose (Closed o')) s'"
  using closing_step_to by blast+

lemma plain_step_to:
  assumes "process_event (st_env S) s e = Ok s'" and "resumes s' s'" and "stored s' = s'"
    and "\<And>c. resumes c s \<Longrightarrow> stored c = s"
  shows "step_to (receiver_log S sid) s (Save e) s'"
  using assms by (auto simp: step_to_def)

text \<open>The checks save an event, an error reply, or nothing.\<close>

lemma fatal_transition_moves:
  assumes live: "\<And>event s'. fatal_moves t f h g event s' \<Longrightarrow> (event = None \<and> s' = s) \<or>
      (\<exists>e. event = Some e \<and> process_event (st_env S) s e = Ok s' \<and> resumes s' s' \<and> stored s' = s')"
    and plain: "\<And>c. resumes c s \<Longrightarrow> stored c = s"
    and shape: "\<And>e x. fatal_deconstruct t \<noteq> (SaveAndClose e, Err (ApiFatal x))"
  shows "moves (receiver_log S sid) s (fatal_deconstruct t) f g h"
proof -
  obtain u where t: "t = MaybeFatalTransition u" by (cases t)
  consider (ok) e n where "u = Ok (AcceptNextState e n)" | (transient) x c where "u = Err (Transient (RejectTransient x c))"
    | (reply) e y x where "u = Err (ReplyableError (RejectReplyableError e y x))" | (panic) "u = Panic"
  proof (cases u)
    case (Ok y)
    with ok show thesis by (cases y) auto
  next
    case (Err y)
    then show thesis
    proof (cases y)
      case (Fatal z)
      with Err shape t show thesis by (cases z) auto
    next
      case (Transient z)
      with Err transient show thesis by (cases z) auto
    next
      case (ReplyableError z)
      with Err reply show thesis by (cases z) auto
    qed
  qed (use panic in simp)
  then show ?thesis
  proof cases
    case ok
    with live [of "Some e" "f n"] t plain show ?thesis
      by (intro movesI [of _ _ _ "f n"]) (auto simp: fatal_moves_def lands_def intro: plain_step_to)
  next
    case transient
    with live [of None "g c"] t show ?thesis
      by (intro movesI [of _ _ _ s]) (auto simp: fatal_moves_def lands_def)
  next
    case reply
    with live [of "Some e" "h y"] t plain show ?thesis
      by (intro movesI [of _ _ _ "h y"]) (auto simp: fatal_moves_def lands_def intro: plain_step_to)
  next
    case panic
    with t show ?thesis by (intro movesI [of _ _ _ s]) (auto simp: lands_def)
  qed
qed

lemma resumed_plain:
  "resumes c (UncheckedOriginalPayload r) \<Longrightarrow> stored c = UncheckedOriginalPayload r"
  "resumes c (MaybeInputsOwned r) \<Longrightarrow> stored c = MaybeInputsOwned r"
  "resumes c (MaybeInputsSeen r) \<Longrightarrow> stored c = MaybeInputsSeen r"
  "resumes c (OutputsUnknown r) \<Longrightarrow> stored c = OutputsUnknown r"
  "resumes c (WantsFeeRange w) \<Longrightarrow> stored c = WantsFeeRange w"
  "resumes c (PayjoinProposal p) \<Longrightarrow> stored c = PayjoinProposal p"
  "resumes c (ProvisionalProposal p) \<Longrightarrow> stored c = ProvisionalProposal p"
  "resumes c (Initialized i) \<Longrightarrow> stored c = Initialized i"
  "resumes c (HasReplyableError e) \<Longrightarrow> stored c = HasReplyableError e"
  "resumes c (PendingFallback t) \<Longrightarrow> stored c = PendingFallback t"
  by (cases c; auto)+

lemma check_moves_of:
  "moves (receiver_log S sid) (UncheckedOriginalPayload r)
     (fatal_deconstruct (unchecked_check_broadcast_suitability (st_env S) m can r)) MaybeInputsOwned UncheckedOriginalPayload HasReplyableError"
  "moves (receiver_log S sid) (MaybeInputsOwned r)
     (fatal_deconstruct (fst (owned_check_inputs_not_owned (st_env S) cb x r))) MaybeInputsSeen MaybeInputsOwned HasReplyableError"
  "moves (receiver_log S sid) (MaybeInputsSeen r)
     (fatal_deconstruct (fst (seen_check_no_inputs_seen_before (st_env S) cb' y r))) OutputsUnknown MaybeInputsSeen HasReplyableError"
  "moves (receiver_log S sid) (OutputsUnknown r)
     (fatal_deconstruct (fst (unknown_identify_receiver_outputs (st_env S) cs z r))) WantsOutputs OutputsUnknown HasReplyableError"
  "moves (receiver_log S sid) (WantsFeeRange w) (fatal_deconstruct (apply_fee_range (st_env S) m' mx w)) ProvisionalProposal WantsFeeRange (\<lambda>_. WantsFeeRange w)"
  "moves (receiver_log S sid) (PayjoinProposal p)
     (fatal_deconstruct (proposal_process_response (st_env S) b ctx p)) Monitor PayjoinProposal PendingFallback"
  by (rule fatal_transition_moves [OF unchecked_moves] fatal_transition_moves [OF owned_moves] fatal_transition_moves [OF seen_moves]
        fatal_transition_moves [OF unknown_moves] fatal_transition_moves [OF fee_range_moves] fatal_transition_moves [OF post_moves];
      auto simp: unchecked_check_broadcast_suitability_def owned_check_inputs_not_owned_def seen_check_no_inputs_seen_before_def
        unknown_identify_receiver_outputs_def apply_fee_range_def proposal_process_response_def Let_def transition_defs replyable_def
        resumed_plain split: res.splits receive_error.splits prod.splits if_splits)+

text \<open>Polling, the two commits, signing, and the posts that may end the session.\<close>

definition polled :: "(original_payload receiver, unit receiver) optional_transition_outcome \<Rightarrow> receive_session" where
  "polled n = (case n of Progress p \<Rightarrow> UncheckedOriginalPayload p | Stasis r \<Rightarrow> Initialized r)"

lemma poll_moves:
  "moves (receiver_log S sid) (Initialized r)
     (fatal_with_no_results_deconstruct (initialized_process_response (st_env S) b ctx r)) polled Initialized h"
proof -
  let ?t = "initialized_process_response (st_env S) b ctx r"
  obtain u where t: "?t = MaybeFatalTransitionWithNoResults u" by (cases ?t)
  have "(\<exists>e n. u = Ok (Success (AcceptNextState e n)) \<and> process_event (st_env S) (Initialized r) e = Ok (UncheckedOriginalPayload n)) \<or>
      u = Ok (NoResults r) \<or> (\<exists>x. u = Err (Transient (RejectTransient x r))) \<or>
      (\<exists>x. u = Err (Fatal (RejectFatal (Closed Aborted) x))) \<or> u = Panic"
    using t
    by (auto simp: initialized_process_response_def transition_defs process_event_def apply_retrieved_original_payload_def
        split: res.splits option.splits prod.splits if_split_asm protocol_error.splits session_error.splits)
  then show ?thesis
    unfolding t moves_def
    by (elim disjE exE conjE)
      (auto simp: lands_def polled_def intro: step_to_same closing_step_to plain_step_to elim!: resumes.elims)
qed

lemma commit_moves:
  "step_to (receiver_log S sid) (WantsOutputs r) (fst (next_state_deconstruct (v2_commit_outputs r)))
     (WantsInputs (snd (next_state_deconstruct (v2_commit_outputs r))))"
  "step_to (receiver_log S sid) (WantsInputs w) (fst (next_state_deconstruct (v2_commit_inputs w)))
     (WantsFeeRange (snd (next_state_deconstruct (v2_commit_inputs w))))"
proof -
  have d: "next_state_deconstruct (v2_commit_outputs r) =
      (Save (CommittedOutputs (tx_output (unsigned_tx (wp_payjoin_psbt (wi_proposal (commit_outputs (rc_state r))))))
        (wp_change_vout (wi_proposal (commit_outputs (rc_state r))))), \<lparr>rc_state = commit_outputs (rc_state r), rc_context = rc_context r\<rparr>)"
    by (simp add: v2_commit_outputs_def Let_def transition_defs)
  show "step_to (receiver_log S sid) (WantsOutputs r) (fst (next_state_deconstruct (v2_commit_outputs r)))
     (WantsInputs (snd (next_state_deconstruct (v2_commit_outputs r))))"
    unfolding d fst_conv snd_conv by (rule live_step_to(1) [OF commit_outputs_step [OF d]])
  have c: "next_state_deconstruct (v2_commit_inputs w) =
      (Save (CommittedInputs (wp_receiver_inputs (wf_proposal (commit_inputs (rc_state w)))) (wp_payjoin_psbt (wf_proposal (commit_inputs (rc_state w))))),
       \<lparr>rc_state = commit_inputs (rc_state w), rc_context = rc_context w\<rparr>)"
    by (simp add: v2_commit_inputs_def Let_def transition_defs)
  show "step_to (receiver_log S sid) (WantsInputs w) (fst (next_state_deconstruct (v2_commit_inputs w)))
     (WantsFeeRange (snd (next_state_deconstruct (v2_commit_inputs w))))"
    unfolding c fst_conv snd_conv by (rule live_step_to(1) [OF commit_inputs_step [OF c]])
qed

lemma contribute_silent:
  assumes "v2_contribute_inputs (st_env S) R g ps r = Ok r'" and "at_state (receiver_log S sid) d0 (WantsInputs r) d"
  shows "at_state (receiver_log S sid) d0 (WantsInputs r') d"
  using assms(2) receive_step_silent [OF inputs_contributed [OF assms(1)]]
  by (auto simp: at_state_def logged_def follows_def)

lemma finalize_moves:
  "moves (receiver_log S sid) (ProvisionalProposal r) (transient_deconstruct (v2_finalize_proposal (st_env S) wallet r))
     PayjoinProposal ProvisionalProposal h"
  unfolding moves_def
  by (cases "finalize_proposal (e_btc (st_env S)) (e_text (st_env S)) (rc_state r) wallet")
    (auto simp: v2_finalize_proposal_def transition_defs lands_def process_event_def apply_payjoin_proposal_def
      intro: step_to_same plain_step_to resumed_plain)

definition replied :: "transaction receiver option \<Rightarrow> receive_session" where
  "replied n = (case n of Some p \<Rightarrow> PendingFallback p | None \<Rightarrow> ClosedSession Aborted)"

lemma replyable_step_to:
  assumes "hre_fallback_tx (rc_state r) = Some tx"
  shows "step_to (receiver_log S sid) (HasReplyableError r) (Save ProtocolFailed) (PendingFallback \<lparr>rc_state = tx, rc_context = rc_context r\<rparr>)"
    and "step_to (receiver_log S sid) (HasReplyableError r) (Save Cancelled) (PendingFallback \<lparr>rc_state = tx, rc_context = rc_context r\<rparr>)"
  using assms by (auto simp: process_event_def pending_fallback_from_replyable_error_def resumed_plain intro!: plain_step_to)

lemma error_post_moves:
  assumes "process_error_response (st_env S) b ctx r = (Ok t :: (_, 'e) res)"
  shows "moves (receiver_log S sid) (HasReplyableError r) (terminal_success_deconstruct t) replied HasReplyableError PendingFallback"
  using assms unfolding moves_def
  by (auto simp: process_error_response_def pending_fallback_after_protocol_failure_def Let_def lands_def replied_def
      split: option.splits res.splits if_split_asm intro: step_to_same replyable_step_to closing_step_to)

definition monitored :: "session_outcome \<Rightarrow> (unit, psbt_context receiver) optional_transition_outcome \<Rightarrow> receive_session" where
  "monitored o' n = (case n of Progress _ \<Rightarrow> ClosedSession o' | Stasis r \<Rightarrow> Monitor r)"

lemma monitor_moves:
  assumes "check_for_transaction (st_env S) lookup r = (Ok t :: (_, 'e) res)"
  shows "\<exists>o'. moves (receiver_log S sid) (Monitor r) (fatal_or_success_deconstruct t) (monitored o') Monitor h"
  using assms unfolding moves_def
  by (auto simp: check_for_transaction_def Let_def lands_def monitored_def split: option.splits res.splits if_split_asm
      intro: step_to_same closing_step_to)

lemma cancel_step_to:
  "step_to (receiver_log S sid) s (fst (terminal_transition_deconstruct (cancel_unchecked r))) (ClosedSession Aborted)"
  "step_to (receiver_log S sid) s (fst (terminal_transition_deconstruct (close_pending p))) (ClosedSession Aborted)"
  by (simp_all add: cancel_unchecked_def close_pending_def)

lemma fallback_step_to:
  assumes "with_fallback (st_env S) s = Some (tx, context)"
  shows "step_to (receiver_log S sid) s (fst (next_state_deconstruct (cancel_with_fallback tx context)))
    (PendingFallback (snd (next_state_deconstruct (cancel_with_fallback tx context))))"
proof -
  have d: "next_state_deconstruct (cancel_with_fallback tx context) = (Save Cancelled, \<lparr>rc_state = tx, rc_context = context\<rparr>)"
    by (simp add: cancel_with_fallback_def transition_defs)
  show ?thesis unfolding d fst_conv snd_conv by (rule live_step_to(1) [OF cancelled [OF assms d]])
qed

lemma replyable_cancel_step_to:
  "step_to (receiver_log S sid) (HasReplyableError r) (fst (terminal_deconstruct (replyable_cancel r)))
     (replied (snd (terminal_deconstruct (replyable_cancel r))))"
  by (cases "hre_fallback_tx (rc_state r)")
    (auto simp: replyable_cancel_def replied_def intro: replyable_step_to)

section \<open>Replaying and cancelling\<close>

lemma stored_resumed: "resumes c c \<Longrightarrow> stored (stored c) = stored c \<and> resumes (stored c) (stored c)"
  by (cases c) (auto simp: change_in_bounds_def with_empty_output_maps_def)

lemma triple_receiver_replay:
  "triple (of_db (at_some (receiver_log S sid) d0)) (receiver_replay S sid)
     (\<lambda>x a. at_state (receiver_log S sid) d0 (fst x) (ap_db a)) (of_db (at_some (receiver_log S sid) d0))"
proof -
  have replay: "d' = d \<and> (\<forall>x. r = Ok x \<longrightarrow> at_state (receiver_log S sid) d0 (fst x) d)"
    if some: "at_some (receiver_log S sid) d0 d"
      and m: "replay_event_log (st_env S) c (receiver_persister F (receive_json S) sid) show_cli_db_error d = (r, d')" for F c d r d'
  proof -
    obtain s where s: "at_state (receiver_log S sid) d0 s d" using some by (auto simp: at_some_def)
    then obtain log k where l: "rows_hold (receive_json S) sid (receive_session_events d) log"
      "replay_events (st_env S) log = Ok (stored k, log)" "resumes k k"
      by (auto simp: at_state_def logged_def follows_def)
    have "at_state (receiver_log S sid) d0 (stored k) d"
      using s l stored_resumed [OF l(3)] by (auto simp: at_state_def logged_def follows_def intro!: exI [of _ log] exI [of _ "stored k"])
    then show ?thesis
      using m l(1,2) load_events_rows [OF l(1), of F]
      by (auto simp: replay_event_log_def receiver_persister_def receiver_load_def rmap_eq_Ok split: option.splits)
  qed
  show ?thesis
    unfolding receiver_replay_def
  proof (rule triple_andthen [OF triple_outside])
    fix c
    show "triple (of_db (at_some (receiver_log S sid) d0))
        (with_db S (\<lambda>F. replay_event_log (st_env S) c (receiver_persister F (receive_json S) sid) show_cli_db_error))
        (\<lambda>x a. at_state (receiver_log S sid) d0 (fst x) (ap_db a)) (of_db (at_some (receiver_log S sid) d0))"
      by (rule triple_with_db) (use replay in blast)
  qed
qed

end
