(* ===== verification/PJ_Cli_Receiver_Steps.thy ===== *)
theory PJ_Cli_Receiver_Steps
  imports PJ_Cli_Receiver_Facts
begin

text \<open>
  The steps of the driver of the receiver's session and cancelling, one lemma each: from a database
  whose log the session goes on from, they end in one that the next session goes on from.
\<close>

abbreviation here :: "'w cli_setup \<Rightarrow> session_id \<Rightarrow> database \<Rightarrow> receive_session \<Rightarrow> 'w app \<Rightarrow> bool" where
  "here S sid d0 s \<equiv> of_db (at_state (receiver_log S sid) d0 s)"

abbreviation somewhere :: "'w cli_setup \<Rightarrow> session_id \<Rightarrow> database \<Rightarrow> 'w app \<Rightarrow> bool" where
  "somewhere S sid d0 \<equiv> of_db (at_some (receiver_log S sid) d0)"

section \<open>Cancelling\<close>

lemmas receiver_next = rcv.triple_next [unfolded receiver_log_simps]
lemmas receiver_last = rcv.triple_last [unfolded receiver_log_simps]

definition pending_at :: "'w cli_setup \<Rightarrow> session_id \<Rightarrow> database \<Rightarrow> transaction receiver option \<Rightarrow> 'w app \<Rightarrow> bool" where
  "pending_at S sid d0 p a = (case p of Some r \<Rightarrow> here S sid d0 (PendingFallback r) a | None \<Rightarrow> somewhere S sid d0 a)"

lemma pending_at_some: "pending_at S sid d0 p a \<Longrightarrow> somewhere S sid d0 a"
  by (auto simp: pending_at_def intro: at_state_some split: option.splits)

lemma triple_give_none: "triple (here S sid d0 s) (give None) (pending_at S sid d0) (somewhere S sid d0)"
  by (rule triple_give) (auto simp: pending_at_def intro: at_state_some)

lemma triple_receiver_pending:
  assumes json: "event_json_ok (receive_json S)"
  shows "triple (here S sid d0 s) (receiver_pending S sid s history) (pending_at S sid d0) (somewhere S sid d0)"
proof (cases "with_fallback (st_env S) s")
  case (Some y)
  obtain tx cx where y: "y = (tx, cx)" by fastforce
  have "receiver_pending S sid s history =
      andthen (error_as DatabaseError (receiver_saves S sid next_state_save (cancel_with_fallback tx cx))) (\<lambda>p. give (Some p))"
    using Some y by (cases s) (auto simp: receiver_pending_def)
  then show ?thesis
    using Some y
    by (auto simp: receiver_saves_def next_state_save_def pending_at_def intro!: receiver_next [OF json fallback_step_to] triple_give)
next
  case None
  note cancel = receiver_next [OF json cancel_step_to(1)] and saves = receiver_saves_def terminal_transition_save_def terminal_save_def
  show ?thesis
  proof (cases s)
    case (HasReplyableError r)
    then show ?thesis
      by (cases "snd (terminal_deconstruct (replyable_cancel r))")
        (auto simp: receiver_pending_def saves replied_def pending_at_def intro!: receiver_next [OF json replyable_cancel_step_to]
          triple_give after_print triple_give_none intro: at_state_some)
  next
    case (ClosedSession o')
    then show ?thesis
      by (cases o') (auto simp: receiver_pending_def intro!: after_print after_lift triple_give_none intro: at_state_some)
  qed (use None in \<open>auto simp: receiver_pending_def saves pending_at_def intro!: cancel after_print triple_give_none triple_give
      intro: at_state_some\<close>)
qed

lemma triple_close_failed: "triple (somewhere S sid d0) (receiver_close_failed_session S sid) (\<lambda>_. somewhere S sid d0) (somewhere S sid d0)"
  unfolding receiver_close_failed_session_def
  by (rule triple_on_result [OF receiver_closed]) auto

lemma triple_finalize_expired:
  "triple (somewhere S sid d0) (receiver_finalize_expired_session S sid tx) (\<lambda>_. somewhere S sid d0) (somewhere S sid d0)"
  unfolding receiver_finalize_expired_session_def by (rule after_print triple_close_failed)+

lemma triple_cancel_receiver:
  assumes json: "event_json_ok (receive_json S)"
  shows "triple (somewhere S sid d0) (cancel_receiver_session S sid no) (\<lambda>_. somewhere S sid d0) (somewhere S sid d0)"
  unfolding cancel_receiver_session_def
proof (rule triple_on_result [OF triple_receiver_replay], goal_cases)
  case (1 x)
  obtain s history where x: "x = (s, history)" by fastforce
  have settle: "triple (pending_at S sid d0 (Some p)) (andthen (settle_fallback S no (rc_state p)) (\<lambda>_.
      error_as DatabaseError (receiver_saves S sid terminal_transition_save (close_pending p)))) (\<lambda>_. somewhere S sid d0) (somewhere S sid d0)" for p
    unfolding receiver_saves_def terminal_transition_save_def pending_at_def option.case
    by (rule triple_andthen [OF triple_weaken [OF triple_settle_fallback
          [of "at_state (receiver_log S sid) d0 (PendingFallback p)"]] receiver_last [OF json cancel_step_to(2)]])
      (auto intro: at_state_some)
  show ?case
    unfolding x
    by (simp, rule triple_andthen [OF triple_receiver_pending [OF json]])
      (auto split: option.splits intro!: settle triple_give dest: pending_at_some)
next
  case (2 e)
  then show ?case by (auto intro: triple_finalize_expired)
next
  case 3
  then show ?case by auto
qed

section \<open>The steps\<close>

abbreviation arrives :: "'w cli_setup \<Rightarrow> session_id \<Rightarrow> database \<Rightarrow> receive_session driver \<Rightarrow> 'w app \<Rightarrow> bool" where
  "arrives S sid \<equiv> reaches (receiver_log S sid) (ClosedSession Aborted)"

abbreviation step_ok :: "'w cli_setup \<Rightarrow> session_id \<Rightarrow> database \<Rightarrow> receive_session \<Rightarrow> ('w app \<Rightarrow> (receive_session driver, cli_error) res \<times> 'w app) \<Rightarrow> bool" where
  "step_ok S sid \<equiv> steps_to (receiver_log S sid) (ClosedSession Aborted)"

lemma saved_step:
  assumes "event_json_ok (receive_json S)" and "moves (receiver_log S sid) s t f g h"
    and "\<And>x. triple (here S sid d0 (f x)) (k x) (arrives S sid d0) (somewhere S sid d0)"
  shows "step_ok S sid d0 s (andthen (error_as session_failure (with_db S (\<lambda>F. save_outcome (receiver_persister F (receive_json S) sid) t))) k)"
  by (rule triple_andthen [OF receiver_saved [OF assms(1,2)] assms(3)])

lemma check_steps:
  assumes json: "event_json_ok (receive_json S)"
  shows "step_ok S sid d0 (UncheckedOriginalPayload r) (check_proposal S sid r)"
    and "step_ok S sid d0 (MaybeInputsOwned r) (check_inputs_not_owned_step S sid r)"
    and "step_ok S sid d0 (OutputsUnknown r) (identify_receiver_outputs_step S sid r)"
    and "step_ok S sid d0 (WantsFeeRange w) (apply_fee_range_step S sid w)"
    and "step_ok S sid d0 (ProvisionalProposal p) (finalize_proposal_step S sid p)"
  unfolding check_proposal_def check_inputs_not_owned_step_def identify_receiver_outputs_step_def apply_fee_range_step_def
    finalize_proposal_step_def receiver_saves_def fatal_save_def transient_save_def
  by (intro after_outside saved_step [OF json check_moves_of(1)] saved_step [OF json check_moves_of(2)]
      saved_step [OF json check_moves_of(4)] saved_step [OF json check_moves_of(5)] saved_step [OF json finalize_moves]
      after_print reaches_next)+

text \<open>The inputs enter their table; the logs are as they were.\<close>

lemma seen_callback_keeps: "at_state (receiver_log S sid) d0 s (ap_db (snd (seen_callback S a i))) = at_state (receiver_log S sid) d0 s (ap_db a)"
proof -
  have rows: "receive_session_events d' = receive_session_events d \<and> send_session_events d' = send_session_events d"
    if "insert_input_seen_before F i d = (q, d')" for F d q d'
    using that unfolding insert_input_seen_before_def by (cases rule: run_statement_cases) (auto split: if_splits)
  show ?thesis
    by (auto simp: seen_callback_def error_as_def with_db_def at_state_def logged_def split: prod.splits dest!: rows)
qed

lemma seen_loop_keeps:
  "at_state (receiver_log S sid) d0 s (ap_db (snd (inputs_seen_loop (seen_callback S) a ps))) = at_state (receiver_log S sid) d0 s (ap_db a)"
proof (induction ps arbitrary: a)
  case (Cons p ps)
  obtain r a' where c: "seen_callback S a (previous_output (ip_txin p)) = (r, a')" by fastforce
  have "at_state (receiver_log S sid) d0 s (ap_db a') = at_state (receiver_log S sid) d0 s (ap_db a)"
    using seen_callback_keeps [of S sid d0 s a "previous_output (ip_txin p)"] c by simp
  with Cons [of a'] c show ?case by (simp add: Let_def split: res.split bool.split)
qed simp

lemma check_no_inputs_seen_before_ok:
  assumes json: "event_json_ok (receive_json S)"
  shows "step_ok S sid d0 (MaybeInputsSeen r) (check_no_inputs_seen_before_step S sid r)"
  unfolding triple_def
proof (intro allI impI)
  fix a assume a: "here S sid d0 (MaybeInputsSeen r) a"
  obtain t a' where t: "seen_check_no_inputs_seen_before (st_env S) (seen_callback S) a r = (t, a')" by fastforce
  have "a' = snd (inputs_seen_loop (seen_callback S) a (input_pairs (pl_psbt (rc_state r))))"
    using t by (auto simp: seen_check_no_inputs_seen_before_def check_no_inputs_seen_before_def Let_def split: prod.splits)
  with a seen_loop_keeps have a': "here S sid d0 (MaybeInputsSeen r) a'" by metis
  have t1: "t = fst (seen_check_no_inputs_seen_before (st_env S) (seen_callback S) a r)" using t by simp
  have "step_ok S sid d0 (MaybeInputsSeen r) (andthen (error_as session_failure (receiver_saves S sid fatal_save t)) (\<lambda>proposal. give (Next (OutputsUnknown proposal))))"
    unfolding receiver_saves_def fatal_save_def t1
    by (intro saved_step [OF json check_moves_of(3)] reaches_next)
  with a' t show "case check_no_inputs_seen_before_step S sid r a of (Ok x, a') \<Rightarrow> arrives S sid d0 x a' | (_, a') \<Rightarrow> somewhere S sid d0 a'"
    by (simp add: check_no_inputs_seen_before_step_def triple_def)
qed

lemma commit_outputs_ok:
  assumes json: "event_json_ok (receive_json S)"
  shows "step_ok S sid d0 (WantsOutputs r) (commit_outputs_step S sid r)"
  unfolding commit_outputs_step_def receiver_saves_def next_state_save_def
  by (rule receiver_next [OF json commit_moves(1)]) auto

lemma contribute_inputs_ok:
  assumes json: "event_json_ok (receive_json S)"
  shows "step_ok S sid d0 (WantsInputs r) (contribute_inputs_step S sid r)"
proof -
  have commit: "triple (here S sid d0 (WantsInputs r)) (andthen (error_as DatabaseError (receiver_saves S sid next_state_save (v2_commit_inputs r')))
      (\<lambda>proposal. give (Next (WantsFeeRange proposal)))) (arrives S sid d0) (somewhere S sid d0)"
    if "v2_contribute_inputs (st_env S) (st_rng S) g ps r = Ok r'" for g ps r'
    unfolding receiver_saves_def next_state_save_def
    by (rule triple_weaken [OF receiver_next [OF json commit_moves(2)]]) (auto intro: contribute_silent [OF that])
  show ?thesis
    unfolding contribute_inputs_step_def
    by (auto intro!: after_outside after_lift commit triple_fails_here simp: map_err_eq_Ok intro: at_state_some)
qed

section \<open>Steps that post a request\<close>

lemma receiver_posts_ok:
  assumes json: "event_json_ok (receive_json S)" and k: "\<And>bytes ctx. step_ok S sid d0 s (k bytes ctx)"
  shows "step_ok S sid d0 s (receiver_posts S sid create k)"
  unfolding receiver_posts_def by (rule posts_ok [OF triple_cancel_receiver [OF json] k])

lemma read_from_directory_ok:
  assumes json: "event_json_ok (receive_json S)"
  shows "step_ok S sid d0 (Initialized r) (read_from_directory S sid r)"
  unfolding read_from_directory_def receiver_saves_def fatal_with_no_results_save_def
proof (intro receiver_posts_ok json receiver_on_saved [OF json poll_moves], goal_cases)
  case (1 bytes ctx n)
  then show ?case by (cases n) (auto simp: polled_def)
qed (auto intro: triple_retry)

lemma send_payjoin_proposal_ok:
  assumes json: "event_json_ok (receive_json S)"
  shows "step_ok S sid d0 (PayjoinProposal r) (send_payjoin_proposal S sid r)"
  unfolding send_payjoin_proposal_def receiver_saves_def fatal_save_def
  by (intro receiver_posts_ok json receiver_on_saved [OF json check_moves_of(6)])
    (auto intro: after_print triple_retry)

lemma handle_error_ok:
  assumes json: "event_json_ok (receive_json S)"
  shows "step_ok S sid d0 (HasReplyableError r) (handle_error S sid r)"
  unfolding handle_error_def receiver_saves_def terminal_success_save_def
proof (intro receiver_posts_ok json after_lift, goal_cases)
  case (1 bytes ctx t)
  show ?case
  proof (rule receiver_on_saved [OF json error_post_moves [OF 1]], goal_cases)
    case (1 n)
    then show ?case by (cases n) (auto simp: replied_def intro: after_print)
  qed (auto simp: is_transient_def fatal_state_def intro: after_print triple_retry)
qed (auto intro: at_state_some)

lemma monitor_loop_ok:
  assumes json: "event_json_ok (receive_json S)"
  shows "triple (here S sid d0 (Monitor r)) (monitor_loop n S sid r) (\<lambda>_. somewhere S sid d0) (somewhere S sid d0)"
proof (induction n arbitrary: r)
  case 0
  then show ?case by (auto intro: triple_fails_here)
next
  case (Suc n)
  show ?case
    unfolding monitor_loop.simps receiver_saves_def fatal_or_success_save_def
  proof (intro after_outside after_lift, goal_cases)
    case (1 node t)
    obtain o' where m: "moves (receiver_log S sid) (Monitor r) (fatal_or_success_deconstruct t) (monitored o') Monitor (\<lambda>_. Monitor r)"
      using monitor_moves [OF 1, of sid "\<lambda>_. Monitor r"] by blast
    show ?case
    proof (rule receiver_on_saved [OF json m], goal_cases)
      case (1 n)
      with Suc show ?case by (cases n) (simp_all add: monitored_def triple_give at_state_some split: unit.split)
    next
      case (2 x c)
      with Suc show ?case by (simp add: is_transient_def transient_state_def andthen_lift)
    qed (simp_all add: is_transient_def triple_fails_here triple_fails triple_panic)
  qed (auto intro: at_state_some)
qed

section \<open>The driver\<close>

lemma receiver_step_ok:
  assumes json: "event_json_ok (receive_json S)"
  shows "step_ok S sid d0 s (receiver_session_step S sid s)"
proof (cases s)
  case (Monitor r)
  then show ?thesis
    by (simp add: receiver_session_step_def monitor_payjoin_proposal_def)
      (rule triple_andthen [OF after_outside [OF monitor_loop_ok [OF json]] reaches_stop(1)])
qed (auto simp: receiver_session_step_def
      intro: read_from_directory_ok check_steps check_no_inputs_seen_before_ok commit_outputs_ok contribute_inputs_ok
        send_payjoin_proposal_ok handle_error_ok json after_print reaches_stop)

text \<open>However often it steps before it is interrupted.\<close>

lemma process_receiver_ok:
  assumes json: "event_json_ok (receive_json S)"
  shows "triple (\<lambda>a. arrives S sid d0 (Next s) a) (process_receiver_session n S sid s)
    (\<lambda>x a. case x of Some s' \<Rightarrow> arrives S sid d0 (Next s') a | None \<Rightarrow> somewhere S sid d0 a) (somewhere S sid d0)"
proof (induction n arbitrary: s)
  case (Suc n)
  show ?case
    unfolding process_receiver_session.simps
    by (rule step_then [OF receiver_step_ok [OF json] _ Suc]) (simp_all add: receiver_session_step_def)
qed (auto intro: triple_give)

end
