(* ===== verification/PJ_Cli_Sender_Steps.thy ===== *)
theory PJ_Cli_Sender_Steps
  imports PJ_Cli_Session_Log
begin

text \<open>
  The sender's session in the command line program: the second interpretation of \<open>logged_session\<close>, and
  what each step of its driver leaves in the database.
\<close>

section \<open>The log of a sender's session\<close>

definition sender_log ::
  "'w cli_setup \<Rightarrow> session_id \<Rightarrow> (send_event, send_session, (send_session, send_event) replay_error) session_log"
where
  "sender_log S sid = \<lparr>sl_json = send_json S, sl_id = sid, sl_rows = send_session_events, sl_other = receive_session_events,
     sl_persister = (\<lambda>F. sender_persister F (send_json S) sid), sl_replay = send_replay_events (st_env S),
     sl_process = send_process_event (st_env S), sl_stored = (\<lambda>s. s), sl_resumes = (=)\<rparr>"

lemma sender_log_simps [simp]:
  "sl_json (sender_log S sid) = send_json S" "sl_id (sender_log S sid) = sid"
  "sl_rows (sender_log S sid) = send_session_events" "sl_other (sender_log S sid) = receive_session_events"
  "sl_persister (sender_log S sid) = (\<lambda>F. sender_persister F (send_json S) sid)"
  "sl_replay (sender_log S sid) = send_replay_events (st_env S)" "sl_process (sender_log S sid) = send_process_event (st_env S)"
  "sl_stored (sender_log S sid) = (\<lambda>s. s)" "sl_resumes (sender_log S sid) = (=)"
  by (simp_all add: sender_log_def)

lemma send_replay_events_append:
  assumes "send_replay_events E log = Ok (s, log)"
  shows "send_replay_events E (log @ [e]) = rmap (\<lambda>s'. (s', log @ [e])) (send_process_event E s e)"
proof -
  obtain ctx es where l: "log = SendCreated ctx # es"
    using assms by (auto simp: send_replay_events_def split: list.splits send_event.splits)
  with assms have "try_fold (send_process_event E) (send_session_new ctx) es = Ok s"
    by (auto simp: send_replay_events_def send_replay_loop_fold rmap_eq_Ok)
  then show ?thesis using l
    by (cases "send_process_event E s e") (simp_all add: send_replay_events_def send_replay_loop_fold try_fold_append)
qed

interpretation snd: logged_session "sender_log S sid" for S :: "'w cli_setup" and sid
proof unfold_locales
  show "close_session (sl_persister (sender_log S sid) F) d = (q, d') \<Longrightarrow>
      sl_other (sender_log S sid) d' = sl_other (sender_log S sid) d \<and>
      sl_rows (sender_log S sid) d' = sl_rows (sender_log S sid) d" for F d q d'
    using sender_close_rows by (simp add: sender_persister_def)
qed (simp_all add: sender_execute_rows send_replay_events_append)

lemmas sender_on_saved = snd.triple_on_saved [unfolded sender_log_simps]
lemmas sender_valued = snd.triple_save_value [unfolded sender_log_simps]
lemmas sender_closed = snd.triple_closed [unfolded sender_log_simps]

section \<open>The moves of the handlers\<close>

lemma send_step_to:
  "send_step (st_env S) s (Some e) s' \<Longrightarrow> step_to (sender_log S sid) s (Save e) s'"
  "send_step (st_env S) s (Some e) s' \<Longrightarrow> step_to (sender_log S sid) s (SaveAndClose e) s'"
  using send_step_saved [of "st_env S" s e s'] by (auto simp: step_to_def)

lemma send_closing_step_to [simp]: "step_to (sender_log S sid) s (SaveAndClose (SendClosedEvent o')) (SendClosed o')"
  by (simp add: step_to_def closed_event_replays)

lemma send_closing_somewhere [simp]: "\<exists>s'. step_to (sender_log S sid) s (SaveAndClose (SendClosedEvent o')) s'"
  using send_closing_step_to by blast

lemma post_moves_sender:
  "moves (sender_log S sid) (WithReplyKey s) (fatal_deconstruct (post_process_response (st_env S) b ctx s)) PollingForProposal WithReplyKey h"
  unfolding moves_def
  by (cases "process_post_res (e_wire (st_env S)) b ctx")
    (auto simp: post_process_response_def transition_defs lands_def step_to_def apply_polling_for_proposal_def closed_event_replays)

definition poll_result :: "(psbt, unit v2_sender) optional_transition_outcome \<Rightarrow> send_session" where
  "poll_result n = (case n of Progress p \<Rightarrow> SendClosed (SendSuccess p) | Stasis s \<Rightarrow> PollingForProposal s)"

lemma poll_moves_sender:
  "moves (sender_log S sid) (PollingForProposal s) (success_with_no_results_deconstruct (poll_process_response (st_env S) b ctx s))
     poll_result PollingForProposal h"
proof -
  let ?t = "poll_process_response (st_env S) b ctx s"
  obtain u where t: "?t = MaybeSuccessTransitionWithNoResults u" by (cases ?t)
  have "(\<exists>p. u = Ok (Success (AcceptNextState (SendClosedEvent (SendSuccess p)) p))) \<or> u = Ok (NoResults s) \<or>
      (\<exists>x. u = Err (Transient (RejectTransient x s))) \<or> (\<exists>x. u = Err (Fatal (RejectFatal (SendClosedEvent SendAborted) x))) \<or> u = Panic"
    using t
    by (auto simp: poll_process_response_def Let_def transition_defs split: res.splits option.splits sum.splits if_split_asm)
  then show ?thesis
    unfolding t moves_def by (elim disjE exE) (auto simp: lands_def poll_result_def intro: step_to_same)
qed

lemma send_cancel_step_to:
  "step_to (sender_log S sid) (WithReplyKey s) (fst (next_state_deconstruct (send_cancel (st_env S) s)))
     (SendPendingFallback (snd (next_state_deconstruct (send_cancel (st_env S) s))))"
  "step_to (sender_log S sid) (PollingForProposal s) (fst (next_state_deconstruct (send_cancel (st_env S) s)))
     (SendPendingFallback (snd (next_state_deconstruct (send_cancel (st_env S) s))))"
  "step_to (sender_log S sid) (SendPendingFallback p) (fst (terminal_transition_deconstruct (send_close p))) (SendClosed SendAborted)"
  by (auto simp: send_cancel_def send_close_def transition_defs step_to_def closed_event_replays)

section \<open>Replaying and cancelling\<close>

abbreviation sender_here :: "'w cli_setup \<Rightarrow> session_id \<Rightarrow> database \<Rightarrow> send_session \<Rightarrow> 'w app \<Rightarrow> bool" where
  "sender_here S sid d0 s \<equiv> of_db (at_state (sender_log S sid) d0 s)"

abbreviation sender_somewhere :: "'w cli_setup \<Rightarrow> session_id \<Rightarrow> database \<Rightarrow> 'w app \<Rightarrow> bool" where
  "sender_somewhere S sid d0 \<equiv> of_db (at_some (sender_log S sid) d0)"

lemma triple_sender_replay:
  "triple (sender_somewhere S sid d0) (sender_replay S sid) (\<lambda>x. sender_here S sid d0 (fst x)) (sender_somewhere S sid d0)"
proof -
  have replay: "d' = d \<and> (\<forall>x. r = Ok x \<longrightarrow> at_state (sender_log S sid) d0 (fst x) d)"
    if some: "at_some (sender_log S sid) d0 d"
      and m: "send_replay_event_log (st_env S) c (sender_persister F (send_json S) sid) show_cli_db_error d = (r, d')" for F c d r d'
  proof -
    obtain s where s: "at_state (sender_log S sid) d0 s d" using some by (auto simp: at_some_def)
    then obtain log where l: "rows_hold (send_json S) sid (send_session_events d) log" "send_replay_events (st_env S) log = Ok (s, log)"
      by (auto simp: at_state_def logged_def follows_def)
    then show ?thesis
      using m s load_events_rows [OF l(1), of F]
      by (auto simp: send_replay_event_log_def sender_persister_def sender_load_def rmap_eq_Ok split: option.splits)
  qed
  show ?thesis
    unfolding sender_replay_def
  proof (rule triple_andthen [OF triple_outside])
    fix c
    show "triple (sender_somewhere S sid d0)
        (with_db S (\<lambda>F. send_replay_event_log (st_env S) c (sender_persister F (send_json S) sid) show_cli_db_error))
        (\<lambda>x. sender_here S sid d0 (fst x)) (sender_somewhere S sid d0)"
      by (rule triple_with_db) (use replay in blast)
  qed
qed

lemmas sender_next = snd.triple_next [unfolded sender_log_simps]
lemmas sender_last = snd.triple_last [unfolded sender_log_simps]

definition sender_pending_at :: "'w cli_setup \<Rightarrow> session_id \<Rightarrow> database \<Rightarrow> transaction v2_sender option \<Rightarrow> 'w app \<Rightarrow> bool" where
  "sender_pending_at S sid d0 p a =
     (case p of Some s \<Rightarrow> sender_here S sid d0 (SendPendingFallback s) a | None \<Rightarrow> sender_somewhere S sid d0 a)"

lemma triple_sender_pending:
  assumes json: "event_json_ok (send_json S)"
  shows "triple (sender_here S sid d0 s) (sender_pending S sid s history) (sender_pending_at S sid d0) (sender_somewhere S sid d0)"
proof -
  have none: "triple (sender_here S sid d0 s) (give None) (sender_pending_at S sid d0) (sender_somewhere S sid d0)" for s
    by (rule triple_give) (auto simp: sender_pending_at_def intro: at_state_some)
  have some: "triple (sender_here S sid d0 (SendPendingFallback p)) (give (Some p)) (sender_pending_at S sid d0) (sender_somewhere S sid d0)" for p
    by (rule triple_give) (simp add: sender_pending_at_def)
  show ?thesis
  proof (cases s)
    case (SendClosed o')
    then show ?thesis
      by (cases o') (auto simp: sender_pending_def intro!: after_print after_lift none intro: at_state_some)
  qed (auto simp: sender_pending_def sender_saves_def next_state_save_def intro!: some sender_next [OF json send_cancel_step_to(1)]
      sender_next [OF json send_cancel_step_to(2)])
qed

lemma triple_cancel_sender:
  assumes json: "event_json_ok (send_json S)"
  shows "triple (sender_somewhere S sid d0) (cancel_sender_session S sid no) (\<lambda>_. sender_somewhere S sid d0) (sender_somewhere S sid d0)"
  unfolding cancel_sender_session_def
proof (rule triple_on_result [OF triple_sender_replay], goal_cases)
  case (1 x)
  obtain s history where x: "x = (s, history)" by fastforce
  have settle: "triple (sender_pending_at S sid d0 (Some p)) (andthen (settle_fallback S no (sn_state p)) (\<lambda>_.
      error_as DatabaseError (sender_saves S sid terminal_transition_save (send_close p)))) (\<lambda>_. sender_somewhere S sid d0) (sender_somewhere S sid d0)" for p
    unfolding sender_saves_def terminal_transition_save_def sender_pending_at_def option.case
    by (rule triple_andthen [OF triple_weaken [OF triple_settle_fallback
          [of "at_state (sender_log S sid) d0 (SendPendingFallback p)"]] sender_last [OF json send_cancel_step_to(3)]])
      (auto intro: at_state_some)
  show ?case
    unfolding x
    by (simp, rule triple_andthen [OF triple_sender_pending [OF json]])
      (auto split: option.splits intro!: settle triple_give simp: sender_pending_at_def)
next
  case (2 e)
  have close: "triple (sender_somewhere S sid d0) (sender_close_failed_session S sid) (\<lambda>_. sender_somewhere S sid d0) (sender_somewhere S sid d0)"
    unfolding sender_close_failed_session_def by (rule triple_on_result [OF sender_closed]) auto
  then show ?case by (auto simp: sender_finalize_expired_session_def intro!: after_print)
next
  case 3
  then show ?case by auto
qed

section \<open>The steps\<close>

abbreviation sender_step_ok :: "'w cli_setup \<Rightarrow> session_id \<Rightarrow> database \<Rightarrow> send_session \<Rightarrow> ('w app \<Rightarrow> (send_session driver, cli_error) res \<times> 'w app) \<Rightarrow> bool" where
  "sender_step_ok S sid \<equiv> steps_to (sender_log S sid) (SendClosed SendAborted)"

lemma post_original_proposal_ok:
  assumes json: "event_json_ok (send_json S)"
  shows "sender_step_ok S sid d0 (WithReplyKey s) (post_original_proposal S sid s)"
  unfolding post_original_proposal_def sender_posts_def sender_saves_def fatal_save_def
  by (intro posts_ok triple_cancel_sender json sender_on_saved [OF json post_moves_sender]) (auto intro: triple_retry)

lemma get_proposed_payjoin_psbt_ok:
  assumes json: "event_json_ok (send_json S)"
  shows "sender_step_ok S sid d0 (PollingForProposal s) (get_proposed_payjoin_psbt S sid s)"
  unfolding get_proposed_payjoin_psbt_def sender_posts_def sender_saves_def success_with_no_results_save_def
proof (intro posts_ok triple_cancel_sender json sender_on_saved [OF json poll_moves_sender], goal_cases)
  case (1 bytes ctx n)
  then show ?case by (cases n) (auto simp: poll_result_def)
qed (auto intro: triple_retry)

lemma triple_process_pj: "triple (of_db p) (process_pj_response S x) (\<lambda>_. of_db p) (of_db p)"
  unfolding process_pj_response_def broadcast_tx_def
  by (intro after_outside after_lift triple_lift) auto

lemma sender_step_all_ok:
  assumes json: "event_json_ok (send_json S)"
  shows "sender_step_ok S sid d0 s (sender_session_step S sid s)"
proof (cases s)
  case (SendClosed o')
  show ?thesis
  proof (cases o')
    case (SendSuccess x)
    have "triple (sender_here S sid d0 s) (process_pj_response S x) (\<lambda>_. sender_here S sid d0 s) (sender_somewhere S sid d0)"
      by (rule triple_weaken [OF triple_process_pj [of "at_state (sender_log S sid) d0 s"]]) (auto intro: at_state_some)
    with SendClosed SendSuccess show ?thesis
      by (auto simp: sender_session_step_def intro!: triple_andthen [of _ "process_pj_response S x"] after_print reaches_stop)
  qed (use SendClosed in \<open>auto simp: sender_session_step_def intro: reaches_stop\<close>)
qed (auto simp: sender_session_step_def intro: post_original_proposal_ok get_proposed_payjoin_psbt_ok json after_print reaches_stop)

lemma process_sender_ok:
  assumes json: "event_json_ok (send_json S)"
  shows "triple (\<lambda>a. reaches (sender_log S sid) (SendClosed SendAborted) d0 (Next s) a) (process_sender_session n S sid s)
    (\<lambda>x a. case x of Some s' \<Rightarrow> reaches (sender_log S sid) (SendClosed SendAborted) d0 (Next s') a | None \<Rightarrow> sender_somewhere S sid d0 a)
    (sender_somewhere S sid d0)"
proof (induction n arbitrary: s)
  case (Suc n)
  show ?case
    unfolding process_sender_session.simps
    by (rule step_then [OF sender_step_all_ok [OF json] _ Suc]) (simp_all add: sender_session_step_def)
qed (auto intro: triple_give)

end
