(* ===== verification/PJ_Cli_Tasks.thy ===== *)
theory PJ_Cli_Tasks
  imports PJ_Cli_Receiver_Steps PJ_Cli_Sender_Steps
begin

text \<open>
  Resuming every session of the database and running them concurrently: whatever the order of their
  steps and wherever the program is interrupted, the log of each session replays to a state that the
  session goes on from.
\<close>

section \<open>Replaying any log\<close>

text \<open>A session that a replay built is its own stored state.\<close>

definition settled :: "receive_session \<Rightarrow> bool" where
  "settled s \<longleftrightarrow> stored s = s \<and> resumes s s"

lemma settled_plain:
  "settled (Initialized r)" "settled (UncheckedOriginalPayload u)" "settled (MaybeInputsOwned u)" "settled (MaybeInputsSeen u)"
  "settled (OutputsUnknown u)" "settled (WantsFeeRange f)" "settled (ProvisionalProposal p)" "settled (PayjoinProposal p)"
  "settled (HasReplyableError h)" "settled (Monitor p)" "settled (ClosedSession o')" "settled (PendingFallback t)"
  by (simp_all add: settled_def)

lemma identified_settled:
  assumes "apply_identified_receiver_outputs vouts r = Ok s"
  shows "settled s"
  using assms
  by (auto simp: apply_identified_receiver_outputs_def Let_def wants_outputs_new_def index_def original_context_new_def
      settled_def substituted_def with_empty_output_maps_def list_ex_iff not_le split: if_split_asm)

lemma committed_settled:
  "apply_committed_outputs outs v r = Ok s \<Longrightarrow> settled s"
  "apply_committed_inputs ps p w = Ok s \<Longrightarrow> settled s"
  by (auto simp: apply_committed_outputs_def apply_committed_inputs_def Let_def settled_def change_in_bounds_def
      with_empty_output_maps_def split: if_split_asm)

lemma fallback_settled: "try_pending_fallback E s = Ok s' \<Longrightarrow> settled s'"
  by (cases s) (auto simp: pending_fallback_from_def pending_fallback_from_replyable_error_def settled_plain split: option.splits)

lemma process_event_settled:
  assumes "process_event E s e = Ok s'" and "settled s"
  shows "settled s'"
proof (cases e)
  case Cancelled
  with assms fallback_settled show ?thesis by (auto simp: process_event_def map_err_eq_Ok)
next
  case ProtocolFailed
  with assms fallback_settled show ?thesis by (auto simp: process_event_def map_err_eq_Ok)
next
  case (IdentifiedReceiverOutputs vouts)
  with assms show ?thesis by (cases s) (auto simp: process_event_def dest: identified_settled)
next
  case (CommittedOutputs outs v)
  with assms show ?thesis by (cases s) (auto simp: process_event_def dest: committed_settled)
next
  case (CommittedInputs ps p)
  with assms show ?thesis by (cases s) (auto simp: process_event_def dest: committed_settled)
next
  case (GotReplyableError r)
  with assms show ?thesis by (auto simp: process_event_def settled_plain split: option.splits)
qed (insert assms, (cases s; auto simp: process_event_def settled_plain apply_retrieved_original_payload_def
    apply_checked_broadcast_suitability_def apply_checked_inputs_not_owned_def apply_checked_no_inputs_seen_before_def
    apply_applied_fee_range_def apply_payjoin_proposal_def apply_payjoin_posted_def)+)

lemma replayed_settled:
  assumes "replay_events E log = Ok (s, log')"
  shows "log' = log \<and> settled s"
proof -
  obtain ctx es where l: "log = Created ctx # es"
    using assms by (auto simp: replay_events_def split: list.splits session_event.splits)
  with assms have f: "try_fold (process_event E) (receive_session_new ctx) es = Ok s" and log': "log' = log"
    by (auto simp: replay_events_created rmap_eq_Ok)
  have "settled s'" if "try_fold (process_event E) s0 es = Ok s'" and "settled s0" for s0 s' es
    using that
  proof (induction es arbitrary: s0)
    case (Cons e es)
    then show ?case by (auto simp: rbind_eq_Ok dest: process_event_settled)
  qed simp
  from this [OF f] log' show ?thesis by (simp add: receive_session_new_def settled_plain)
qed

lemma send_replayed:
  assumes "send_replay_events E log = Ok (s, log')"
  shows "log' = log"
  using assms by (auto simp: send_replay_events_def send_replay_loop_fold rmap_eq_Ok split: list.splits send_event.splits)

section \<open>What resuming leaves alone\<close>

text \<open>Sessions of which the log can be replayed stay so.\<close>

definition keeps_logs :: "'w cli_setup \<Rightarrow> database \<Rightarrow> database \<Rightarrow> bool" where
  "keeps_logs S d d' \<longleftrightarrow>
     (\<forall>sid s. logged (receiver_log S sid) d s \<longrightarrow> (\<exists>s'. logged (receiver_log S sid) d' s')) \<and>
     (\<forall>sid s. logged (sender_log S sid) d s \<longrightarrow> (\<exists>s'. logged (sender_log S sid) d' s'))"

lemma keeps_logs_refl [simp]: "keeps_logs S d d"
  by (auto simp: keeps_logs_def)

lemma keeps_logs_trans: "keeps_logs S d d1 \<Longrightarrow> keeps_logs S d1 d2 \<Longrightarrow> keeps_logs S d d2"
  unfolding keeps_logs_def by blast

text \<open>Only the logs of the receiver's sessions \<open>R\<close> and of the sender's sessions \<open>X\<close> may differ.\<close>

definition leaves_alone :: "session_id set \<Rightarrow> session_id set \<Rightarrow> database \<Rightarrow> database \<Rightarrow> bool" where
  "leaves_alone R X d d' \<longleftrightarrow>
     (\<forall>i. i \<notin> R \<longrightarrow> event_rows i (receive_session_events d') = event_rows i (receive_session_events d)) \<and>
     (\<forall>i. i \<notin> X \<longrightarrow> event_rows i (send_session_events d') = event_rows i (send_session_events d))"

lemma leaves_alone_refl [simp]: "leaves_alone R X d d"
  by (simp add: leaves_alone_def)

lemma leaves_alone_trans: "leaves_alone R X d d1 \<Longrightarrow> leaves_alone R' X' d1 d2 \<Longrightarrow> leaves_alone (R \<union> R') (X \<union> X') d d2"
  by (auto simp: leaves_alone_def)

lemma logged_alone:
  "leaves_alone R X d d' \<Longrightarrow> i \<notin> R \<Longrightarrow> logged (receiver_log S i) d' = logged (receiver_log S i) d"
  "leaves_alone R X d d' \<Longrightarrow> i \<notin> X \<Longrightarrow> logged (sender_log S i) d' = logged (sender_log S i) d"
  by (auto simp: leaves_alone_def logged_def rows_hold_def fun_eq_iff)

text \<open>The conditions of the two drivers in these terms.\<close>

lemma at_some_alone:
  "at_some (receiver_log S sid) d d' \<Longrightarrow> leaves_alone {sid} {} d d' \<and> keeps_logs S d d' \<and> (\<exists>s. logged (receiver_log S sid) d' s)"
  "at_some (sender_log S sid) d d' \<Longrightarrow> leaves_alone {} {sid} d d' \<and> keeps_logs S d d' \<and> (\<exists>s. logged (sender_log S sid) d' s)"
proof -
  assume "at_some (receiver_log S sid) d d'"
  then obtain s where s: "logged (receiver_log S sid) d' s" and a: "leaves_alone {sid} {} d d'"
    by (auto simp: at_some_def at_state_def same_but_def leaves_alone_def)
  have "\<exists>s'. logged (receiver_log S i) d' s'" if "logged (receiver_log S i) d u" for i u
    using s that logged_alone(1) [OF a, of i S] by (cases "i = sid") auto
  with s a show "leaves_alone {sid} {} d d' \<and> keeps_logs S d d' \<and> (\<exists>s. logged (receiver_log S sid) d' s)"
    using logged_alone(2) [OF a, of _ S] by (auto simp: keeps_logs_def)
next
  assume "at_some (sender_log S sid) d d'"
  then obtain s where s: "logged (sender_log S sid) d' s" and a: "leaves_alone {} {sid} d d'"
    by (auto simp: at_some_def at_state_def same_but_def leaves_alone_def)
  have "\<exists>s'. logged (sender_log S i) d' s'" if "logged (sender_log S i) d u" for i u
    using s that logged_alone(2) [OF a, of i S] by (cases "i = sid") auto
  with s a show "leaves_alone {} {sid} d d' \<and> keeps_logs S d d' \<and> (\<exists>s. logged (sender_log S sid) d' s)"
    using logged_alone(1) [OF a, of _ S] by (auto simp: keeps_logs_def)
qed

lemma at_state_here: "at_state L d s d \<longleftrightarrow> logged L d s"
  by (simp add: at_state_def)

lemma reaches_alone:
  "reaches (receiver_log S sid) dead d x a \<Longrightarrow> leaves_alone {sid} {} d (ap_db a) \<and> keeps_logs S d (ap_db a)"
  "reaches (sender_log S sid) dead' d y a \<Longrightarrow> leaves_alone {} {sid} d (ap_db a) \<and> keeps_logs S d (ap_db a)"
  using at_some_alone [of S sid d "ap_db a"] at_state_some [of "receiver_log S sid" d _ "ap_db a"]
    at_state_some [of "sender_log S sid" d _ "ap_db a"]
  by (auto simp: reaches_def split: driver.splits)

section \<open>Concurrent sessions\<close>

definition tasks_logged :: "'w cli_setup \<Rightarrow> 'w tasks \<Rightarrow> bool" where
  "tasks_logged S T \<longleftrightarrow>
     distinct (map fst (tk_receivers T)) \<and> distinct (map fst (tk_senders T)) \<and>
     (\<forall>(sid, s) \<in> set (tk_receivers T). s = ClosedSession Aborted \<or> logged (receiver_log S sid) (ap_db (tk_app T)) s) \<and>
     (\<forall>(sid, s) \<in> set (tk_senders T). s = SendClosed SendAborted \<or> logged (sender_log S sid) (ap_db (tk_app T)) s)"

lemma receiver_task_ok:
  assumes json: "event_json_ok (receive_json S)" and step: "receiver_session_step S sid s a = (r, a')"
    and s: "s = ClosedSession Aborted \<or> logged (receiver_log S sid) (ap_db a) s"
  shows "leaves_alone {sid} {} (ap_db a) (ap_db a') \<and> keeps_logs S (ap_db a) (ap_db a') \<and>
    (\<forall>(i, s') \<in> set (after_step sid r). i = sid \<and> (s' = ClosedSession Aborted \<or> logged (receiver_log S sid) (ap_db a') s'))"
proof (cases "s = ClosedSession Aborted")
  case True
  with step show ?thesis by (auto simp: receiver_session_step_def give_def after_step_def)
next
  case False
  with s have "at_state (receiver_log S sid) (ap_db a) s (ap_db a)" by (simp add: at_state_here)
  note at = tripleD [OF receiver_step_ok [OF json] this step]
  show ?thesis
  proof (cases "\<exists>x. r = Ok x")
    case True
    then obtain x where r: "r = Ok x" ..
    with at have "reaches (receiver_log S sid) (ClosedSession Aborted) (ap_db a) x a'" by simp
    with r reaches_alone(1) [OF this] show ?thesis
      by (auto simp: after_step_def reaches_def at_state_def split: driver.splits)
  next
    case False
    with at have "at_some (receiver_log S sid) (ap_db a) (ap_db a')" by simp
    with False at_some_alone(1) [OF this] show ?thesis by (auto simp: after_step_def split: res.splits)
  qed
qed

lemma sender_task_ok:
  assumes json: "event_json_ok (send_json S)" and step: "sender_session_step S sid s a = (r, a')"
    and s: "s = SendClosed SendAborted \<or> logged (sender_log S sid) (ap_db a) s"
  shows "leaves_alone {} {sid} (ap_db a) (ap_db a') \<and> keeps_logs S (ap_db a) (ap_db a') \<and>
    (\<forall>(i, s') \<in> set (after_step sid r). i = sid \<and> (s' = SendClosed SendAborted \<or> logged (sender_log S sid) (ap_db a') s'))"
proof (cases "s = SendClosed SendAborted")
  case True
  with step show ?thesis by (auto simp: sender_session_step_def give_def after_step_def)
next
  case False
  with s have "at_state (sender_log S sid) (ap_db a) s (ap_db a)" by (simp add: at_state_here)
  note at = tripleD [OF sender_step_all_ok [OF json] this step]
  show ?thesis
  proof (cases "\<exists>x. r = Ok x")
    case True
    then obtain x where r: "r = Ok x" ..
    with at have "reaches (sender_log S sid) (SendClosed SendAborted) (ap_db a) x a'" by simp
    with r reaches_alone(2) [OF this] show ?thesis
      by (auto simp: after_step_def reaches_def at_state_def split: driver.splits)
  next
    case False
    with at have "at_some (sender_log S sid) (ap_db a) (ap_db a')" by simp
    with False at_some_alone(2) [OF this] show ?thesis by (auto simp: after_step_def split: res.splits)
  qed
qed

lemma after_step_ids: "fst ` set (after_step sid r) \<subseteq> {sid}" "distinct (map fst (after_step sid r))"
  by (auto simp: after_step_def split: res.splits driver.splits)

lemma replaced_task:
  assumes "distinct (map fst (xs @ (sid, s) # ys))" and "\<forall>(i, u) \<in> set (xs @ (sid, s) # ys). P i u"
    and "\<forall>i u. i \<noteq> sid \<longrightarrow> P i u \<longrightarrow> P' i u" and "\<forall>(i, u) \<in> set (after_step sid r). i = sid \<and> P' sid u"
  shows "distinct (map fst (xs @ after_step sid r @ ys)) \<and> (\<forall>(i, u) \<in> set (xs @ after_step sid r @ ys). P' i u)"
proof -
  have "sid \<notin> fst ` set xs \<union> fst ` set ys" using assms(1) by auto
  then have "\<forall>(i, u) \<in> set xs \<union> set ys. P' i u" using assms(2,3) by force
  with assms(1,4) after_step_ids [of sid r] show ?thesis by auto
qed

lemma task_step_ok:
  assumes "event_json_ok (receive_json S)" and "event_json_ok (send_json S)" and "task_step S T T'" and "tasks_logged S T"
  shows "tasks_logged S T' \<and> keeps_logs S (ap_db (tk_app T)) (ap_db (tk_app T'))"
  using assms(3)
proof cases
  case (receiver_task sid s a r a' xs ys zs)
  with assms(4) have s: "s = ClosedSession Aborted \<or> logged (receiver_log S sid) (ap_db a) s" by (simp add: tasks_logged_def)
  note ok = receiver_task_ok [OF assms(1) receiver_task(3) s]
  have alone: "leaves_alone {sid} {} (ap_db a) (ap_db a')" using ok by blast
  have "distinct (map fst (xs @ after_step sid r @ ys)) \<and>
      (\<forall>(i, u) \<in> set (xs @ after_step sid r @ ys). u = ClosedSession Aborted \<or> logged (receiver_log S i) (ap_db a') u)"
    by (rule replaced_task [of xs sid s ys "\<lambda>i u. u = ClosedSession Aborted \<or> logged (receiver_log S i) (ap_db a) u"])
      (use receiver_task(1) assms(4) ok logged_alone(1) [OF alone, of _ S] in \<open>auto simp: tasks_logged_def\<close>)
  with receiver_task assms(4) ok logged_alone(2) [OF alone, of _ S] show ?thesis by (simp add: tasks_logged_def)
next
  case (sender_task sid s a r a' zs xs ys)
  with assms(4) have s: "s = SendClosed SendAborted \<or> logged (sender_log S sid) (ap_db a) s" by (simp add: tasks_logged_def)
  note ok = sender_task_ok [OF assms(2) sender_task(3) s]
  have alone: "leaves_alone {} {sid} (ap_db a) (ap_db a')" using ok by blast
  have "distinct (map fst (xs @ after_step sid r @ ys)) \<and>
      (\<forall>(i, u) \<in> set (xs @ after_step sid r @ ys). u = SendClosed SendAborted \<or> logged (sender_log S i) (ap_db a') u)"
    by (rule replaced_task [of xs sid s ys "\<lambda>i u. u = SendClosed SendAborted \<or> logged (sender_log S i) (ap_db a) u"])
      (use sender_task(1) assms(4) ok logged_alone(2) [OF alone, of _ S] in \<open>auto simp: tasks_logged_def\<close>)
  with sender_task assms(4) ok logged_alone(1) [OF alone, of _ S] show ?thesis by (simp add: tasks_logged_def)
qed

lemma task_steps_ok:
  assumes "event_json_ok (receive_json S)" and "event_json_ok (send_json S)" and "(task_step S)\<^sup>*\<^sup>* T T'" and "tasks_logged S T"
  shows "tasks_logged S T' \<and> keeps_logs S (ap_db (tk_app T)) (ap_db (tk_app T'))"
  using assms(3)
proof (induction rule: rtranclp_induct)
  case (step T1 T2)
  with task_step_ok [OF assms(1,2)] keeps_logs_trans show ?case by blast
qed (simp add: assms(4))

end
