(* ===== verification/PJ_Cli_Resume.thy ===== *)
theory PJ_Cli_Resume
  imports PJ_Cli_Tasks
begin

text \<open>
  The command \<open>resume\<close> on any database: the sessions that it starts are the ones whose logs replay, and
  they stay in step with their logs however their steps interleave.
\<close>

section \<open>Resuming\<close>

definition same_logs :: "database \<Rightarrow> database \<Rightarrow> bool" where
  "same_logs d d' \<longleftrightarrow> receive_session_events d' = receive_session_events d \<and> send_session_events d' = send_session_events d"

lemma same_logs_alone: "same_logs d d' \<Longrightarrow> leaves_alone R X d d' \<and> keeps_logs S d d'"
  by (auto simp: same_logs_def leaves_alone_def keeps_logs_def logged_def)

lemma logged_same: "same_logs d d' \<Longrightarrow> logged (receiver_log S i) d' = logged (receiver_log S i) d"
  "same_logs d d' \<Longrightarrow> logged (sender_log S i) d' = logged (sender_log S i) d"
  by (auto simp: same_logs_def logged_def fun_eq_iff)

lemma close_same_logs:
  "receiver_close F sid d = (q, d') \<Longrightarrow> same_logs d d'" "sender_close F sid d = (q, d') \<Longrightarrow> same_logs d d'"
  using receiver_close_rows sender_close_rows by (auto simp: same_logs_def)

text \<open>A replay that succeeds shows that the log in the database is one that the session goes on from.\<close>

lemma receiver_replay_any:
  assumes "receiver_replay S sid a = (r, a')"
  shows "same_logs (ap_db a) (ap_db a') \<and> (\<forall>s h. r = Ok (s, h) \<longrightarrow> logged (receiver_log S sid) (ap_db a') s)"
proof -
  obtain c w F w' d' where c: "ask_clock S (ap_world a) = (c, w)" and F: "ask_database S w = (F, w')"
    and m: "replay_event_log (st_env S) c (receiver_persister F (receive_json S) sid) show_cli_db_error (ap_db a) = (r, d')"
    and a': "a' = a\<lparr>ap_db := d', ap_world := w'\<rparr>"
    using assms by (auto simp: receiver_replay_def andthen_def outside_def with_db_def split: prod.splits)
  have same: "same_logs (ap_db a) d'"
    using m by (auto simp: replay_event_log_def receiver_persister_def same_logs_def
        split: res.splits prod.splits dest!: receiver_close_rows)
  have "logged (receiver_log S sid) (ap_db a) s" if "r = Ok (s, h)" for s h
  proof -
    from m that obtain log es where l: "load_events F (receive_json S) sid (receive_session_events (ap_db a)) = Ok log"
      "replay_events (st_env S) log = Ok (s, es)"
      by (auto simp: replay_event_log_def receiver_persister_def receiver_load_def rmap_eq_Ok map_err_eq_Ok
          split: res.splits prod.splits)
    with replayed_settled [OF l(2)] show ?thesis
      by (auto simp: load_events_Ok logged_def follows_def settled_def intro!: exI [of _ log] exI [of _ s])
  qed
  with same logged_same(1) [OF same, of S sid] a' show ?thesis by auto
qed

lemma sender_replay_any:
  assumes "sender_replay S sid a = (r, a')"
  shows "same_logs (ap_db a) (ap_db a') \<and> (\<forall>s h. r = Ok (s, h) \<longrightarrow> logged (sender_log S sid) (ap_db a') s)"
proof -
  obtain c w F w' d' where c: "ask_clock S (ap_world a) = (c, w)" and F: "ask_database S w = (F, w')"
    and m: "send_replay_event_log (st_env S) c (sender_persister F (send_json S) sid) show_cli_db_error (ap_db a) = (r, d')"
    and a': "a' = a\<lparr>ap_db := d', ap_world := w'\<rparr>"
    using assms by (auto simp: sender_replay_def andthen_def outside_def with_db_def split: prod.splits)
  have same: "same_logs (ap_db a) d'"
    using m by (auto simp: send_replay_event_log_def sender_persister_def same_logs_def
        split: res.splits prod.splits dest!: sender_close_rows)
  have "logged (sender_log S sid) (ap_db a) s" if "r = Ok (s, h)" for s h
  proof -
    from m that obtain log es where l: "load_events F (send_json S) sid (send_session_events (ap_db a)) = Ok log"
      "send_replay_events (st_env S) log = Ok (s, es)"
      by (auto simp: send_replay_event_log_def sender_persister_def sender_load_def rmap_eq_Ok map_err_eq_Ok
          split: res.splits prod.splits)
    with send_replayed [OF l(2)] show ?thesis
      by (auto simp: load_events_Ok logged_def follows_def intro!: exI [of _ log])
  qed
  with same logged_same(2) [OF same, of S sid] a' show ?thesis by auto
qed

lemma close_failed_any:
  "receiver_close_failed_session S sid a = (r, a') \<Longrightarrow> same_logs (ap_db a) (ap_db a')"
  "sender_close_failed_session S sid a = (r, a') \<Longrightarrow> same_logs (ap_db a) (ap_db a')"
  by (auto simp: receiver_close_failed_session_def sender_close_failed_session_def on_result_def with_db_def lift_def give_def
      receiver_persister_def sender_persister_def split: prod.splits res.splits dest: close_same_logs)

lemma finalize_any:
  "receiver_finalize_expired_session S sid tx a = (r, a') \<Longrightarrow> same_logs (ap_db a) (ap_db a')"
  "sender_finalize_expired_session S sid tx a = (r, a') \<Longrightarrow> same_logs (ap_db a) (ap_db a')"
  by (auto simp: receiver_finalize_expired_session_def sender_finalize_expired_session_def andthen_def print_def
      dest!: close_failed_any)

lemma cancel_receiver_any:
  assumes json: "event_json_ok (receive_json S)" and m: "cancel_receiver_session S sid no a = (r, a')"
  shows "leaves_alone {sid} {} (ap_db a) (ap_db a') \<and> keeps_logs S (ap_db a) (ap_db a')"
proof (cases "\<exists>s. logged (receiver_log S sid) (ap_db a) s")
  case True
  then have "at_some (receiver_log S sid) (ap_db a) (ap_db a)" by (auto simp: at_some_def at_state_here)
  from tripleD [OF triple_cancel_receiver [OF json] this m] have "at_some (receiver_log S sid) (ap_db a) (ap_db a')"
    by blast
  then show ?thesis using at_some_alone(1) by blast
next
  case False
  obtain q b where q: "receiver_replay S sid a = (q, b)" by fastforce
  note any = receiver_replay_any [OF q]
  with False logged_same(1) [of "ap_db a" "ap_db b" S sid] have no: "\<nexists>x. q = Ok x" by auto
  have "same_logs (ap_db b) (ap_db a')"
    using m q no
    by (cases q) (auto simp: cancel_receiver_session_def on_result_def lift_def fails_def same_logs_def
        split: if_splits dest!: finalize_any)
  with any have "same_logs (ap_db a) (ap_db a')" by (auto simp: same_logs_def)
  then show ?thesis by (rule same_logs_alone)
qed

lemma cancel_sender_any:
  assumes json: "event_json_ok (send_json S)" and m: "cancel_sender_session S sid no a = (r, a')"
  shows "leaves_alone {} {sid} (ap_db a) (ap_db a') \<and> keeps_logs S (ap_db a) (ap_db a')"
proof (cases "\<exists>s. logged (sender_log S sid) (ap_db a) s")
  case True
  then have "at_some (sender_log S sid) (ap_db a) (ap_db a)" by (auto simp: at_some_def at_state_here)
  from tripleD [OF triple_cancel_sender [OF json] this m] have "at_some (sender_log S sid) (ap_db a) (ap_db a')"
    by blast
  then show ?thesis using at_some_alone(2) by blast
next
  case False
  obtain q b where q: "sender_replay S sid a = (q, b)" by fastforce
  note any = sender_replay_any [OF q]
  with False logged_same(2) [of "ap_db a" "ap_db b" S sid] have no: "\<nexists>x. q = Ok x" by auto
  have "same_logs (ap_db b) (ap_db a')"
    using m q no
    by (cases q) (auto simp: cancel_sender_session_def on_result_def lift_def fails_def same_logs_def
        split: if_splits dest!: finalize_any)
  with any have "same_logs (ap_db a) (ap_db a')" by (auto simp: same_logs_def)
  then show ?thesis by (rule same_logs_alone)
qed

text \<open>The two loops of \<open>resume\<close> are one.\<close>

fun resume_loop ::
  "(session_id \<Rightarrow> 'w app \<Rightarrow> ('s \<times> 'h, 'x) res \<times> 'w app) \<Rightarrow> (session_id \<Rightarrow> 'x \<Rightarrow> 'w app \<Rightarrow> (unit, 'e) res \<times> 'w app) \<Rightarrow>
     session_id list \<Rightarrow> 'w app \<Rightarrow> ((session_id \<times> 's) list, 'e) res \<times> 'w app" where
  "resume_loop replay fail [] = give []"
| "resume_loop replay fail (sid # sids) =
     on_result (replay sid) (\<lambda>r. case r of
       Ok (session, _) \<Rightarrow> andthen (resume_loop replay fail sids) (\<lambda>tasks. give ((sid, session) # tasks))
     | Err e \<Rightarrow> andthen (fail sid e) (\<lambda>_. resume_loop replay fail sids)
     | Panic \<Rightarrow> lift Panic)"

definition receiver_gone :: "'w cli_setup \<Rightarrow> session_id \<Rightarrow> receive_replay_error \<Rightarrow> 'w app \<Rightarrow> (unit, cli_error) res \<times> 'w app" where
  "receiver_gone S sid e =
     (if is_expired e then ignoring_errors (cancel_receiver_session S sid True) else receiver_close_failed_session S sid)"

definition sender_gone :: "'w cli_setup \<Rightarrow> session_id \<Rightarrow> send_replay_error \<Rightarrow> 'w app \<Rightarrow> (unit, cli_error) res \<times> 'w app" where
  "sender_gone S sid e =
     (if is_expired e then ignoring_errors (cancel_sender_session S sid True) else sender_close_failed_session S sid)"

lemma resume_loops:
  "resume_receivers S sids = resume_loop (receiver_replay S) (receiver_gone S) sids"
  "resume_senders S sids = resume_loop (sender_replay S) (sender_gone S) sids"
  by (induction sids) (simp_all add: receiver_gone_def sender_gone_def)

lemma ignoring_errors_state: "snd (ignoring_errors m a) = snd (m a)"
  by (auto simp: ignoring_errors_def on_result_def lift_def give_def split: prod.splits res.splits)

lemma receiver_gone_any:
  assumes "event_json_ok (receive_json S)" and "receiver_gone S sid e a = (r, a')"
  shows "leaves_alone {sid} {} (ap_db a) (ap_db a') \<and> keeps_logs S (ap_db a) (ap_db a')"
proof (cases "is_expired e")
  case True
  obtain q b where q: "cancel_receiver_session S sid True a = (q, b)" by fastforce
  have "a' = b" using ignoring_errors_state [of "cancel_receiver_session S sid True" a] assms(2) True q by (simp add: receiver_gone_def)
  with cancel_receiver_any [OF assms(1) q] show ?thesis by simp
next
  case False
  with assms(2) have "receiver_close_failed_session S sid a = (r, a')" by (simp add: receiver_gone_def)
  from same_logs_alone [OF close_failed_any(1) [OF this]] show ?thesis .
qed

lemma sender_gone_any:
  assumes "event_json_ok (send_json S)" and "sender_gone S sid e a = (r, a')"
  shows "leaves_alone {} {sid} (ap_db a) (ap_db a') \<and> keeps_logs S (ap_db a) (ap_db a')"
proof (cases "is_expired e")
  case True
  obtain q b where q: "cancel_sender_session S sid True a = (q, b)" by fastforce
  have "a' = b" using ignoring_errors_state [of "cancel_sender_session S sid True" a] assms(2) True q by (simp add: sender_gone_def)
  with cancel_sender_any [OF assms(1) q] show ?thesis by simp
next
  case False
  with assms(2) have "sender_close_failed_session S sid a = (r, a')" by (simp add: sender_gone_def)
  from same_logs_alone [OF close_failed_any(2) [OF this]] show ?thesis .
qed

text \<open>
  \<open>alone\<close> says which logs may differ, \<open>lg\<close> that a session goes on from its log, and \<open>kept\<close> what a
  step keeps of the database.
\<close>

lemma resume_loop_ok:
  assumes replay: "\<And>sid a r a'. replay sid a = (r, a') \<Longrightarrow> alone {sid} (ap_db a) (ap_db a') \<and> kept (ap_db a) (ap_db a') \<and>
        (\<forall>s h. r = Ok (s, h) \<longrightarrow> lg sid (ap_db a') s)"
    and fail: "\<And>sid e a r a'. fail sid e a = (r, a') \<Longrightarrow> alone {sid} (ap_db a) (ap_db a') \<and> kept (ap_db a) (ap_db a')"
    and refl: "\<And>d. alone {} d d \<and> kept d d"
    and trans: "\<And>X Y d d1 d2. alone X d d1 \<Longrightarrow> alone Y d1 d2 \<Longrightarrow> alone (X \<union> Y) d d2" "\<And>d d1 d2. kept d d1 \<Longrightarrow> kept d1 d2 \<Longrightarrow> kept d d2"
    and mono: "\<And>X Y d d'. alone X d d' \<Longrightarrow> alone (X \<union> Y) d d'"
    and lg: "\<And>X d d' i s. alone X d d' \<Longrightarrow> i \<notin> X \<Longrightarrow> lg i d s \<Longrightarrow> lg i d' s"
  shows "distinct sids \<Longrightarrow> resume_loop replay fail sids a = (r, a') \<Longrightarrow>
    alone (set sids) (ap_db a) (ap_db a') \<and> kept (ap_db a) (ap_db a') \<and>
    (\<forall>ts. r = Ok ts \<longrightarrow> distinct (map fst ts) \<and> fst ` set ts \<subseteq> set sids \<and> (\<forall>(i, s) \<in> set ts. lg i (ap_db a') s))"
proof (induction sids arbitrary: a r a')
  case Nil
  with refl show ?case by (auto simp: give_def)
next
  case (Cons sid sids)
  obtain q b where q: "replay sid a = (q, b)" by fastforce
  have ab: "alone {sid} (ap_db a) (ap_db b)" "kept (ap_db a) (ap_db b)" "\<forall>s h. q = Ok (s, h) \<longrightarrow> lg sid (ap_db b) s"
    using replay [OF q] by auto
  show ?case
  proof (cases q)
    case (Ok x)
    obtain s h where x: "x = (s, h)" by fastforce
    obtain p c where p: "resume_loop replay fail sids b = (p, c)" by fastforce
    have IH: "alone (set sids) (ap_db b) (ap_db c)" "kept (ap_db b) (ap_db c)"
      "\<forall>ts. p = Ok ts \<longrightarrow> distinct (map fst ts) \<and> fst ` set ts \<subseteq> set sids \<and> (\<forall>(i, s) \<in> set ts. lg i (ap_db c) s)"
      using Cons.IH [OF _ p] Cons.prems(1) by auto
    have "lg sid (ap_db c) s" using ab Ok x lg [OF IH(1)] Cons.prems(1) by auto
    moreover have "a' = c" "\<forall>ts. r = Ok ts \<longrightarrow> (\<exists>us. p = Ok us \<and> ts = (sid, s) # us)"
      using Cons.prems(2) q Ok x p by (auto simp: on_result_def andthen_def give_def split: res.splits)
    ultimately show ?thesis
      using IH(3) Cons.prems(1) trans(1) [OF ab(1) IH(1)] trans(2) [OF ab(2) IH(2)] by fastforce
  next
    case (Err e)
    obtain u c where u: "fail sid e b = (u, c)" by fastforce
    have ac: "alone ({sid} \<union> {sid}) (ap_db a) (ap_db c)" "kept (ap_db a) (ap_db c)"
      using trans(1) [OF ab(1) conjunct1 [OF fail [OF u]]] trans(2) [OF ab(2) conjunct2 [OF fail [OF u]]] by simp_all
    show ?thesis
    proof (cases "\<exists>y. u = Ok y")
      case True
      then have rest: "resume_loop replay fail sids c = (r, a')"
        using Cons.prems(2) q Err u by (auto simp: on_result_def andthen_def)
      have IH: "alone (set sids) (ap_db c) (ap_db a')" "kept (ap_db c) (ap_db a')"
        "\<forall>ts. r = Ok ts \<longrightarrow> distinct (map fst ts) \<and> fst ` set ts \<subseteq> set sids \<and> (\<forall>(i, s) \<in> set ts. lg i (ap_db a') s)"
        using Cons.IH [OF _ rest] Cons.prems(1) by auto
      show ?thesis using IH(3) trans(1) [OF ac(1) IH(1)] trans(2) [OF ac(2) IH(2)] by fastforce
    next
      case False
      with Cons.prems(2) q Err u have "a' = c" "\<forall>ts. r \<noteq> Ok ts"
        by (cases u; auto simp: on_result_def andthen_def)+
      with ac mono [OF ac(1), of "set sids"] show ?thesis by simp
    qed
  next
    case Panic
    with Cons.prems(2) q have "a' = b" "\<forall>ts. r \<noteq> Ok ts" by (auto simp: on_result_def lift_def)
    with ab mono [of "{sid}" "ap_db a" "ap_db b" "set sids"] show ?thesis by simp
  qed
qed

lemma resume_receivers_ok:
  assumes "event_json_ok (receive_json S)" and "distinct sids" and "resume_receivers S sids a = (r, a')"
  shows "leaves_alone (set sids) {} (ap_db a) (ap_db a') \<and> keeps_logs S (ap_db a) (ap_db a') \<and>
    (\<forall>ts. r = Ok ts \<longrightarrow> distinct (map fst ts) \<and> fst ` set ts \<subseteq> set sids \<and> (\<forall>(i, s) \<in> set ts. logged (receiver_log S i) (ap_db a') s))"
  unfolding resume_loops
proof (rule resume_loop_ok [where fail = "receiver_gone S" and replay = "receiver_replay S" and r = r])
  show "receiver_replay S sid a = (r, a') \<Longrightarrow> leaves_alone {sid} {} (ap_db a) (ap_db a') \<and> keeps_logs S (ap_db a) (ap_db a') \<and>
      (\<forall>s h. r = Ok (s, h) \<longrightarrow> logged (receiver_log S sid) (ap_db a') s)" for sid a r a'
    using receiver_replay_any [of S sid a r a'] same_logs_alone by blast
  show "leaves_alone X {} d d' \<Longrightarrow> i \<notin> X \<Longrightarrow> logged (receiver_log S i) d s \<Longrightarrow> logged (receiver_log S i) d' s" for X d d' i s
    using logged_alone(1) [of X "{}" d d' i S] by simp
qed (use assms keeps_logs_trans receiver_gone_any [OF assms(1)] in \<open>auto simp: resume_loops leaves_alone_def\<close>)

lemma resume_senders_ok:
  assumes "event_json_ok (send_json S)" and "distinct sids" and "resume_senders S sids a = (r, a')"
  shows "leaves_alone {} (set sids) (ap_db a) (ap_db a') \<and> keeps_logs S (ap_db a) (ap_db a') \<and>
    (\<forall>ts. r = Ok ts \<longrightarrow> distinct (map fst ts) \<and> fst ` set ts \<subseteq> set sids \<and> (\<forall>(i, s) \<in> set ts. logged (sender_log S i) (ap_db a') s))"
  unfolding resume_loops
proof (rule resume_loop_ok [where fail = "sender_gone S" and replay = "sender_replay S" and r = r])
  show "sender_replay S sid a = (r, a') \<Longrightarrow> leaves_alone {} {sid} (ap_db a) (ap_db a') \<and> keeps_logs S (ap_db a) (ap_db a') \<and>
      (\<forall>s h. r = Ok (s, h) \<longrightarrow> logged (sender_log S sid) (ap_db a') s)" for sid a r a'
    using sender_replay_any [of S sid a r a'] same_logs_alone by blast
  show "leaves_alone {} X d d' \<Longrightarrow> i \<notin> X \<Longrightarrow> logged (sender_log S i) d s \<Longrightarrow> logged (sender_log S i) d' s" for X d d' i s
    using logged_alone(2) [of "{}" X d d' i S] by simp
qed (use assms keeps_logs_trans sender_gone_any [OF assms(1)] in \<open>auto simp: resume_loops leaves_alone_def\<close>)

section \<open>The command\<close>

lemma session_ids_any:
  "with_db S get_recv_session_ids a = (r, a') \<Longrightarrow> same_logs (ap_db a) (ap_db a') \<and> send_sessions (ap_db a') = send_sessions (ap_db a) \<and>
     (\<forall>ids. r = Ok ids \<longrightarrow> ids = map rcv_session_id (filter (\<lambda>r. rcv_completed_at r = None) (receive_sessions (ap_db a))))"
  "with_db S get_send_session_ids a = (q, a') \<Longrightarrow> same_logs (ap_db a) (ap_db a') \<and>
     (\<forall>ids. q = Ok ids \<longrightarrow> ids = map snd_session_id (filter (\<lambda>r. snd_completed_at r = None) (send_sessions (ap_db a))))"
  unfolding with_db_def get_recv_session_ids_def get_send_session_ids_def db_query_def
  by (auto simp: same_logs_def split: prod.splits elim!: run_statement_cases)

lemma distinct_map_filtered: "distinct (map f xs) \<Longrightarrow> distinct (map f (filter P xs))"
  by (induction xs) auto

lemma distinct_retained: "distinct ids \<Longrightarrow> distinct (retain_target target ids)"
  by (simp add: retain_target_def split: option.splits)

lemma error_as_Ok: "error_as g m a = (Ok x, a') \<longleftrightarrow> m a = (Ok x, a')"
  by (auto simp: error_as_def map_err_eq_Ok split: prod.splits)

lemma andthen_Ok: "andthen m k a = (Ok y, a') \<longleftrightarrow> (\<exists>x b. m a = (Ok x, b) \<and> k x b = (Ok y, a'))"
  by (auto simp: andthen_def split: prod.splits res.splits)

lemma resume_payjoins_ok:
  assumes json: "event_json_ok (receive_json S)" "event_json_ok (send_json S)"
    and ids: "distinct (map rcv_session_id (receive_sessions (ap_db a)))" "distinct (map snd_session_id (send_sessions (ap_db a)))"
    and m: "resume_payjoins S target a = (Ok (receivers, senders), a')"
  shows "tasks_logged S \<lparr>tk_receivers = receivers, tk_senders = senders, tk_app = a'\<rparr> \<and> keeps_logs S (ap_db a) (ap_db a')"
proof -
  obtain rids b sids c where r: "with_db S get_recv_session_ids a = (Ok rids, b)" and s: "with_db S get_send_session_ids b = (Ok sids, c)"
    and rest: "(if retain_target target rids = [] \<and> retain_target target sids = []
      then (case target of Some t \<Rightarrow> fails (SessionNotFound t) | None \<Rightarrow> andthen (print NoSessions) (\<lambda>_. give ([], [])))
      else andthen (resume_receivers S (retain_target target rids)) (\<lambda>receivers.
           andthen (resume_senders S (retain_target target sids)) (\<lambda>senders. give (receivers, senders)))) c = (Ok (receivers, senders), a')"
    using m unfolding resume_payjoins_def by (auto simp: andthen_Ok error_as_Ok Let_def)
  have ac: "same_logs (ap_db a) (ap_db c)"
    using session_ids_any(1) [OF r] session_ids_any(2) [OF s] by (simp add: same_logs_def)
  have d: "distinct (retain_target target rids)" "distinct (retain_target target sids)"
    using session_ids_any(1) [OF r] session_ids_any(2) [OF s] ids by (auto intro!: distinct_retained distinct_map_filtered)
  show ?thesis
  proof (cases "retain_target target rids = [] \<and> retain_target target sids = []")
    case True
    with rest have "receivers = []" "senders = []" "ap_db a' = ap_db c"
      by (auto simp: fails_def andthen_def print_def give_def split: option.splits)
    with same_logs_alone [OF ac, of "{}" "{}" S] show ?thesis by (simp add: tasks_logged_def)
  next
    case False
    with rest obtain e where R: "resume_receivers S (retain_target target rids) c = (Ok receivers, e)"
      and X: "resume_senders S (retain_target target sids) e = (Ok senders, a')"
      by (auto simp: andthen_Ok give_def split: if_splits)
    have r_ok: "keeps_logs S (ap_db c) (ap_db e)" "distinct (map fst receivers)" "\<forall>(i, s) \<in> set receivers. logged (receiver_log S i) (ap_db e) s"
      using resume_receivers_ok [OF json(1) d(1) R] by simp_all
    have x_ok: "leaves_alone {} (set (retain_target target sids)) (ap_db e) (ap_db a')" "keeps_logs S (ap_db e) (ap_db a')"
      "distinct (map fst senders)" "\<forall>(i, s) \<in> set senders. logged (sender_log S i) (ap_db a') s"
      using resume_senders_ok [OF json(2) d(2) X] by simp_all
    have "keeps_logs S (ap_db a) (ap_db a')"
      using keeps_logs_trans [OF keeps_logs_trans [OF _ r_ok(1)] x_ok(2)] same_logs_alone [OF ac, of "{}" "{}" S] by blast
    with r_ok x_ok logged_alone(1) [OF x_ok(1), of _ S] show ?thesis by (auto simp: tasks_logged_def)
  qed
qed

text \<open>C4: The sessions that \<open>resume\<close> starts stay in step with the database: after any interleaving of
  their steps, also steps that fail, the log of each running session replays to a state that the
  session goes on from (so it is safe to interrupt the program there and resume it), and every log
  that could be replayed before still can.\<close>

theorem resumed_sessions_keep_their_logs:
  assumes "event_json_ok (receive_json S)" and "event_json_ok (send_json S)"
    and "distinct (map rcv_session_id (receive_sessions (ap_db a)))" and "distinct (map snd_session_id (send_sessions (ap_db a)))"
    and "resume_payjoins S target a = (Ok (receivers, senders), a')"
    and "(task_step S)\<^sup>*\<^sup>* \<lparr>tk_receivers = receivers, tk_senders = senders, tk_app = a'\<rparr> T"
  shows "tasks_logged S T \<and> keeps_logs S (ap_db a) (ap_db (tk_app T))"
proof -
  note start = resume_payjoins_ok [OF assms(1-5)]
  from task_steps_ok [OF assms(1,2,6)] start show ?thesis using keeps_logs_trans by fastforce
qed

section \<open>A concrete database\<close>

text \<open>Three events have a text; the log of session 7 is the first two of them.\<close>

definition sample_json :: "session_event event_json" where
  "sample_json = \<lparr>event_to_string = (\<lambda>e. if e = Created sample_session_context then Inr ''created''
       else if e = RetrievedOriginalPayload sample_received None then Inr ''retrieved''
       else if e = CheckedBroadcastSuitability then Inr ''checked'' else Inl ''unknown''),
     event_from_str = (\<lambda>s. if s = ''created'' then Some (Created sample_session_context)
       else if s = ''retrieved'' then Some (RetrievedOriginalPayload sample_received None)
       else if s = ''checked'' then Some CheckedBroadcastSuitability else None)\<rparr>"

definition sample_send_json :: "send_event event_json" where
  "sample_send_json = \<lparr>event_to_string = (\<lambda>e. if e = SendClosedEvent SendAborted then Inr ''closed'' else Inl ''unknown''),
     event_from_str = (\<lambda>s. if s = ''closed'' then Some (SendClosedEvent SendAborted) else None)\<rparr>"

lemma sample_json_ok: "event_json_ok sample_json" "event_json_ok sample_send_json"
  by (auto simp: event_json_ok_def sample_json_def sample_send_json_def split: if_splits)

definition sample_node :: node where
  "sample_node = \<lparr>can_broadcast = (\<lambda>_. Ok True), is_my_outpoint = (\<lambda>_. Ok False), is_mine = (\<lambda>_. Ok True),
     get_new_address = Ok payee_spk, list_unspent = Ok [], process_psbt = Ok, get_raw_transaction = (\<lambda>_. Ok None),
     create_psbt = (\<lambda>_ _ _. Ok sample_original), checked_extract_tx = (\<lambda>p. Ok (unsigned_tx p))\<rparr>"

text \<open>The directory answers every post with the original.\<close>

definition sample_setup :: "unit cli_setup" where
  "sample_setup = \<lparr>st_env = sample_env, ohttp_relays = [sample_url], pj_directories = [sample_url], st_ohttp_keys = Some 3,
     st_max_fee_rate = None, st_expire_in_secs = None, st_rng = sample_rng, receive_json = sample_json, send_json = sample_send_json,
     ask_clock = (\<lambda>w. (\<lparr>now_ns = 1600000000 * 10 ^ 9, max_ns = 10 ^ 30\<rparr>, w)), ask_random = (\<lambda>w. (0, w)), ask_bytes = (\<lambda>w. ([], w)),
     ask_node = (\<lambda>w. (sample_node, w)), ask_database = (\<lambda>w. (reliable_outside 5, w)),
     send_raw_transaction = (\<lambda>tx w. (Ok 0, w)), http_post = (\<lambda>_ w. (Some (200, Some (replicate 8192 nul)), w)),
     http_get = (\<lambda>_ _ w. (Inl [], w)), bip21_from_str = (\<lambda>_. Err [])\<rparr>"

definition sample_app :: "unit app" where
  "sample_app = \<lparr>ap_db = init_schema\<lparr>receive_sessions := [\<lparr>rcv_session_id = 7, rcv_completed_at = None\<rparr>],
       receive_session_events := [\<lparr>ev_session_id = 7, ev_data = ''created'', ev_created_at = 0\<rparr>,
         \<lparr>ev_session_id = 7, ev_data = ''retrieved'', ev_created_at = 1\<rparr>]\<rparr>,
     failed_relays = [], failed_directories = [], printed = [], ap_world = ()\<rparr>"

abbreviation sample_proposed :: "original_payload receiver" where
  "sample_proposed \<equiv> \<lparr>rc_state = sample_received, rc_context = sample_session_context\<rparr>"

lemma sample_replays:
  "replay_event_log sample_env \<lparr>now_ns = 1600000000 * 10 ^ 9, max_ns = 10 ^ 30\<rparr> (receiver_persister F sample_json 7) sh
     ((ap_db sample_app)\<lparr>db_ticks := n\<rparr>) =
   (case load_fault F of
      None \<Rightarrow> (Ok (UncheckedOriginalPayload sample_proposed, [Created sample_session_context, RetrievedOriginalPayload sample_received None]),
        (ap_db sample_app)\<lparr>db_ticks := n\<rparr>)
    | Some e \<Rightarrow> (Err (PersistenceFailure (sh e)), (ap_db sample_app)\<lparr>db_ticks := n\<rparr>))"
proof -
  have log: "rows_hold sample_json 7 (receive_session_events ((ap_db sample_app)\<lparr>db_ticks := n\<rparr>))
      [Created sample_session_context, RetrievedOriginalPayload sample_received None]"
    by (simp add: rows_hold_def event_rows_def sample_app_def sample_json_def)
  have replay: "replay_events sample_env [Created sample_session_context, RetrievedOriginalPayload sample_received None] =
      Ok (UncheckedOriginalPayload sample_proposed, [Created sample_session_context, RetrievedOriginalPayload sample_received None])"
    by (simp add: replay_events_def receive_session_new_def process_event_def apply_retrieved_original_payload_def sample_session_context_def)
  have open_still: "elapsed (e_wire sample_env) \<lparr>now_ns = 1600000000 * 10 ^ 9, max_ns = 10 ^ 30\<rparr> (sc_expiration sample_session_context) =
      (Ok False :: (bool, receive_replay_error) res)"
    by (simp add: elapsed_def time_now_def time_from_system_time_def from_unix_seconds_def sample_env_def
        sample_wire_def sample_session_context_def)
  have "sc_expiration (sample_session_context\<lparr>sc_reply_key := None\<rparr>) = sc_expiration sample_session_context"
    by (simp add: sample_session_context_def)
  then show ?thesis
    using load_events_rows [OF log, of F] replay open_still
    by (auto simp: replay_event_log_def receiver_persister_def receiver_load_def construct_history_def history_session_context_def
        split: option.splits)
qed

lemma sample_resumed:
  "resume_payjoins sample_setup None sample_app =
     (Ok ([(7, UncheckedOriginalPayload sample_proposed)], []), sample_app\<lparr>ap_db := (ap_db sample_app)\<lparr>db_ticks := 4\<rparr>\<rparr>)"
proof -
  have ids: "with_db sample_setup get_recv_session_ids sample_app = (Ok [7], sample_app\<lparr>ap_db := (ap_db sample_app)\<lparr>db_ticks := 2\<rparr>\<rparr>)"
    "with_db sample_setup get_send_session_ids (sample_app\<lparr>ap_db := (ap_db sample_app)\<lparr>db_ticks := 2\<rparr>\<rparr>) =
      (Ok [], sample_app\<lparr>ap_db := (ap_db sample_app)\<lparr>db_ticks := 4\<rparr>\<rparr>)"
    by (simp_all add: with_db_def sample_setup_def get_recv_session_ids_def get_send_session_ids_def db_query_def run_statement_def
        get_connection_def statement_def reliable_outside_def sample_app_def init_schema_def)
  have "receiver_replay sample_setup 7 (sample_app\<lparr>ap_db := (ap_db sample_app)\<lparr>db_ticks := 4\<rparr>\<rparr>) =
      (Ok (UncheckedOriginalPayload sample_proposed, [Created sample_session_context, RetrievedOriginalPayload sample_received None]),
       sample_app\<lparr>ap_db := (ap_db sample_app)\<lparr>db_ticks := 4\<rparr>\<rparr>)"
    using sample_replays [of "reliable_outside 5" show_cli_db_error 4]
    by (simp add: receiver_replay_def andthen_def outside_def with_db_def sample_setup_def reliable_outside_def)
  with ids show ?thesis
    by (simp add: resume_payjoins_def error_as_def andthen_def on_result_def retain_target_def give_def)
qed

lemma sample_task_step:
  "task_step sample_setup
     \<lparr>tk_receivers = [(7, UncheckedOriginalPayload sample_proposed)], tk_senders = [],
      tk_app = sample_app\<lparr>ap_db := (ap_db sample_app)\<lparr>db_ticks := 4\<rparr>\<rparr>\<rparr>
     \<lparr>tk_receivers = [(7, MaybeInputsOwned sample_proposed)], tk_senders = [],
      tk_app = sample_app\<lparr>ap_db := (ap_db sample_app)\<lparr>receive_session_events := receive_session_events (ap_db sample_app) @
          [\<lparr>ev_session_id = 7, ev_data = ''checked'', ev_created_at = 5\<rparr>], db_ticks := 6\<rparr>,
        printed := [ConsiderBroadcasting (unsigned_tx sample_original)]\<rparr>\<rparr>"
proof -
  have rate: "case psbt_fee_rate (e_btc sample_env) sample_received of Ok _ \<Rightarrow> True | _ \<Rightarrow> False"
    by code_simp
  have check: "unchecked_check_broadcast_suitability sample_env None (can_broadcast sample_node) sample_proposed =
      mf_success CheckedBroadcastSuitability sample_proposed"
    using rate by (auto simp: unchecked_check_broadcast_suitability_def check_broadcast_suitability_def sample_node_def ensure_def split: res.splits)
  have step: "receiver_session_step sample_setup 7 (UncheckedOriginalPayload sample_proposed)
      (sample_app\<lparr>ap_db := (ap_db sample_app)\<lparr>db_ticks := 4\<rparr>\<rparr>) =
    (Ok (Next (MaybeInputsOwned sample_proposed)), sample_app\<lparr>ap_db := (ap_db sample_app)\<lparr>receive_session_events :=
        receive_session_events (ap_db sample_app) @ [\<lparr>ev_session_id = 7, ev_data = ''checked'', ev_created_at = 5\<rparr>], db_ticks := 6\<rparr>,
      printed := [ConsiderBroadcasting (unsigned_tx sample_original)]\<rparr>)"
    using check
    by (simp add: receiver_session_step_def check_proposal_def andthen_def outside_def error_as_def receiver_saves_def with_db_def
        sample_setup_def fatal_save_def save_outcome_def transition_defs receiver_persister_def receiver_save_event_def append_event_def
        get_connection_def statement_def reliable_outside_def sample_json_def sample_app_def init_schema_def print_def give_def
        payload_fallback_tx_def extract_tx_def sample_received_def sample_env_def sample_btc_def)
  show ?thesis
    using receiver_task [OF step, of "[]" "[]" "[]"] by (simp add: after_step_def)
qed

theorem resumed_sessions_keep_their_logs_witness:
  "tasks_logged sample_setup \<lparr>tk_receivers = [(7, MaybeInputsOwned sample_proposed)], tk_senders = [],
      tk_app = sample_app\<lparr>ap_db := (ap_db sample_app)\<lparr>receive_session_events := receive_session_events (ap_db sample_app) @
          [\<lparr>ev_session_id = 7, ev_data = ''checked'', ev_created_at = 5\<rparr>], db_ticks := 6\<rparr>,
        printed := [ConsiderBroadcasting (unsigned_tx sample_original)]\<rparr>\<rparr>"
proof -
  have json: "event_json_ok (receive_json sample_setup)" "event_json_ok (send_json sample_setup)"
    by (simp_all add: sample_setup_def sample_json_ok)
  have "distinct (map rcv_session_id (receive_sessions (ap_db sample_app)))" "distinct (map snd_session_id (send_sessions (ap_db sample_app)))"
    by (simp_all add: sample_app_def init_schema_def)
  from resumed_sessions_keep_their_logs [OF json this sample_resumed r_into_rtranclp [of "task_step sample_setup", OF sample_task_step]] show ?thesis ..
qed

end
