(* ===== verification/PJ_Cli_Wallet_Facts.thy ===== *)
theory PJ_Cli_Wallet_Facts
  imports PJ_Cli_Wallet PJ_Cli_Resume PJ_Receive_Facts
begin

text \<open>
  What the wallet of the command line program guarantees to the receiver, and which coins it can
  list: \<open>payjoin-cli/src/app/wallet.rs\<close>.
\<close>

section \<open>Coins that can be listed\<close>

text \<open>The kinds of coin whose weight is known without a redeem script or a witness.\<close>

definition predictable :: "btc \<Rightarrow> script \<Rightarrow> bool" where
  "predictable L s \<longleftrightarrow> address_from_script L s = Inr (Some P2pkh) \<or> address_from_script L s = Inr (Some P2wpkh)"

definition weights_total :: "btc \<Rightarrow> bool" where
  "weights_total L \<longleftrightarrow> (\<forall>a b. weight_add L a b \<noteq> None)"

lemma listed_weight:
  fixes p t
  defines "r \<equiv> \<lparr>ip_txin = txin_for p, ip_psbtin = default_psbt_input\<lparr>witness_utxo := Some t\<rparr>\<rparr>"
  assumes "weights_total L"
  shows "is_ok (expected_input_weight L r) \<longleftrightarrow> predictable L (script_pubkey t)"
proof -
  have fields: "previous_txout r = Ok t" "final_script_sig (ip_psbtin r) = None" "redeem_script (ip_psbtin r) = None"
    "final_script_witness (ip_psbtin r) = None" "witness (ip_txin r) = []"
    by (simp_all add: r_def previous_txout_def txin_for_def default_psbt_input_def default_txin_def)
  have total: "\<exists>w. weight_add L a b = Some w" for a b using assms(2) by (auto simp: weights_total_def)
  show ?thesis
  proof (cases "address_from_script L (script_pubkey t)")
    case (Inr at)
    show ?thesis
    proof (cases at)
      case (Some ty)
      show ?thesis
        using total [of "p2pkh_compressed_max L" "non_witness_input_weight L"] total [of "p2wpkh_max L" "non_witness_input_weight L"]
        by (cases ty; auto simp: expected_input_weight_def address_type_of_def fields Inr Some predict_p2sh_def predict_witness_def
            nonempty_witness_def predictable_def is_ok_def)
    qed (simp add: expected_input_weight_def address_type_of_def fields Inr predictable_def is_ok_def)
  qed (simp add: expected_input_weight_def address_type_of_def fields predictable_def is_ok_def)
qed

lemma unspent_pair_panics:
  assumes "weights_total L" and "0 \<le> ut_amount u"
  shows "input_pair_from_corepc L u = Panic \<longleftrightarrow> \<not> predictable L (ut_script u)"
proof -
  let ?t = "\<lparr>txo_value = nat (ut_amount u), script_pubkey = ut_script u\<rparr>" and ?p = "\<lparr>op_txid = ut_txid u, vout = ut_vout u\<rparr>"
  let ?w = "expected_input_weight L \<lparr>ip_txin = txin_for ?p, ip_psbtin = default_psbt_input\<lparr>witness_utxo := Some ?t\<rparr>\<rparr>"
  have "validate_utxo L \<lparr>ip_txin = txin_for ?p, ip_psbtin = default_psbt_input\<lparr>witness_utxo := Some ?t\<rparr>\<rparr> = Ok ()"
    by (simp add: validate_utxo_def default_psbt_input_def)
  then have "input_pair_from_corepc L u = Panic \<longleftrightarrow> \<not> is_ok ?w"
    using assms(2) by (cases ?w) (auto simp: input_pair_from_corepc_def input_pair_new_def is_ok_def Let_def split: input_weight_error.splits)
  then show ?thesis using listed_weight [OF assms(1), of ?p ?t] by simp
qed

lemma try_map_Err: "try_map f xs = Err e \<Longrightarrow> \<exists>x \<in> set xs. f x = Err e"
  by (induction xs) (auto simp: rbind_eq_Err)

lemma try_map_Panic:
  "(\<And>x e. x \<in> set xs \<Longrightarrow> f x \<noteq> Err e) \<Longrightarrow> try_map f xs = Panic \<longleftrightarrow> (\<exists>x \<in> set xs. f x = Panic)"
proof (induction xs)
  case (Cons x xs)
  have "f x \<noteq> Err e" "try_map f xs \<noteq> Err e" for e
    using Cons.prems by (auto dest!: try_map_Err)
  then show ?case using Cons by (cases "f x"; cases "try_map f xs") auto
qed simp

text \<open>One coin of another kind (nested or native script, taproot) is enough: no coin can be listed.\<close>

lemma list_unspent_panics_iff:
  assumes "weights_total L" and "rpc_list_unspent B = Ok items" and "\<forall>u \<in> set items. 0 \<le> ut_amount u"
  shows "wallet_list_unspent L B = Panic \<longleftrightarrow> (\<exists>u \<in> set items. \<not> predictable L (ut_script u))"
proof -
  have "input_pair_from_corepc L u \<noteq> Err e" for u e by (simp add: input_pair_from_corepc_def)
  from try_map_Panic [of items "input_pair_from_corepc L", OF this] show ?thesis
    using assms(2,3) unspent_pair_panics [OF assms(1)] by (simp add: wallet_list_unspent_def)
qed

lemma listed_pairs:
  assumes "wallet_list_unspent L B = Ok ps" and "rpc_list_unspent B = Ok items"
  shows "map (\<lambda>p. previous_output (pr_txin p)) ps = map (\<lambda>u. \<lparr>op_txid = ut_txid u, vout = ut_vout u\<rparr>) items"
proof -
  have pair: "input_pair_from_corepc L u = Ok p \<Longrightarrow> previous_output (pr_txin p) = \<lparr>op_txid = ut_txid u, vout = ut_vout u\<rparr>" for u p
    by (auto simp: input_pair_from_corepc_def input_pair_new_def Let_def txin_for_def rbind_eq_Ok split: if_splits)
  have "try_map (input_pair_from_corepc L) items = Ok ps" using assms by (simp add: wallet_list_unspent_def)
  then show ?thesis
    by (induction items arbitrary: ps) (auto simp: rbind_eq_Ok rmap_eq_Ok dest: pair)
qed

section \<open>Own coins\<close>

text \<open>What the node knows: the coins of the wallet, spent or not, locked or not, confirmed or not.\<close>

definition own_coin :: "btc \<Rightarrow> bitcoind \<Rightarrow> outpoint \<Rightarrow> bool" where
  "own_coin L B p \<longleftrightarrow> (\<exists>tx. get_transaction B (op_txid p) = Ok tx \<and> vout p < length (tx_output tx) \<and>
     (\<exists>at. address_from_script L (script_pubkey (tx_output tx ! vout p)) = Inr at) \<and>
     get_address_info B (script_pubkey (tx_output tx ! vout p)) = Ok True)"

lemma own_coin_is_mine:
  assumes "own_coin L B p"
  shows "wallet_is_my_outpoint L B p \<noteq> Ok False"
  using assms
  by (auto simp: own_coin_def wallet_is_my_outpoint_def wallet_is_mine_def funding_transaction_def wallet_network_def slice_get_def
      rbind_eq_Ok)

lemma stateless_loop_Ok:
  "inputs_not_owned_loop (stateless f) s ps = (Ok (), s') \<Longrightarrow> p \<in> set ps \<Longrightarrow> f (asked p) = Ok False"
  by (induction ps arbitrary: s) (auto simp: stateless_def asked_def Let_def split: res.splits bool.splits)

lemma fatal_save_Ok: "fatal_save P t p = (Ok y, p') \<Longrightarrow> snd (fatal_deconstruct t) = Ok y"
  by (auto simp: fatal_save_def save_outcome_def rbind_eq_Ok split: prod.splits)

lemma owned_transition_Ok:
  "snd (fatal_deconstruct (fst (owned_check_inputs_not_owned E f s r))) = Ok y \<Longrightarrow> fst (check_inputs_not_owned (rc_state r) f s) = Ok ()"
  by (auto simp: owned_check_inputs_not_owned_def Let_def transition_defs replyable_def split: prod.splits res.splits receive_error.splits)

text \<open>C15: In the command line program, an original that spends a coin of the receiver's own wallet, spent
  or not, locked, unconfirmed or not listed, never passes the ownership check, whatever the node
  and the database answer otherwise: the session does not reach the next state.\<close>

theorem own_coin_never_accepted:
  assumes "fst (ask_node S (ap_world a)) = bitcoind_node L B checked" and "own_coin L B p"
    and "p \<in> set (outpoints (unsigned_tx (pl_psbt (rc_state r))))" and "well_formed (pl_psbt (rc_state r))"
  shows "fst (check_inputs_not_owned_step S sid r a) \<noteq> Ok (Next (MaybeInputsSeen x))"
proof
  let ?f = "wallet_is_my_outpoint L B"
  assume "fst (check_inputs_not_owned_step S sid r a) = Ok (Next (MaybeInputsSeen x))"
  then obtain b y where "error_as session_failure (receiver_saves S sid fatal_save
      (fst (owned_check_inputs_not_owned (st_env S) (stateless ?f) () r))) b = (Ok y, snd (check_inputs_not_owned_step S sid r a))"
    using assms(1) by (auto simp: check_inputs_not_owned_step_def bitcoind_node_def andthen_def outside_def give_def split: prod.splits res.splits)
  then obtain P :: "(database, session_event, cli_db_error) persister" and d d' where "fatal_save P (fst (owned_check_inputs_not_owned (st_env S) (stateless ?f) () r)) d = (Ok y, d')"
    by (auto simp: error_as_Ok receiver_saves_def with_db_def split: prod.splits)
  then have "fst (check_inputs_not_owned (rc_state r) (stateless ?f) ()) = Ok ()"
    by (rule owned_transition_Ok [OF fatal_save_Ok])
  then have "inputs_not_owned_loop (stateless ?f) () (input_pairs (pl_psbt (rc_state r))) = (Ok (), ())"
    by (auto simp: check_inputs_not_owned_def prod_eq_iff)
  moreover obtain q where "q \<in> set (input_pairs (pl_psbt (rc_state r)))" "p = asked q"
    using assms(3) payload_outpoints [OF assms(4), symmetric] by auto
  ultimately have "?f p = Ok False"
    using stateless_loop_Ok [of ?f "()" "input_pairs (pl_psbt (rc_state r))" "()" q] by simp
  with own_coin_is_mine [OF assms(2)] show False by simp
qed

section \<open>A concrete node\<close>

text \<open>It knows one transaction, which pays to an address of its own.\<close>

definition sample_bitcoind :: bitcoind where
  "sample_bitcoind = \<lparr>get_block_count = Ok 8, wallet_create_funded_psbt = (\<lambda>_ _ _ _. Ok sample_original),
     wallet_process_psbt = (\<lambda>p _. Ok p), test_mempool_accept = (\<lambda>_. Ok [None]),
     get_transaction = (\<lambda>t. if t = 1 then Ok (unsigned_tx sample_original) else Err (TxNotFound ''unknown'')),
     get_address_info = (\<lambda>s. Ok (s = payee_spk)), rpc_new_address = Ok payee_spk,
     rpc_list_unspent = Ok [\<lparr>ut_txid = 5, ut_vout = 0, ut_amount = 80, ut_script = receiver_spk\<rparr>], rpc_network = Ok 0\<rparr>"

theorem own_coin_never_accepted_witness:
  "\<forall>x. fst (check_inputs_not_owned_step (sample_setup\<lparr>ask_node := \<lambda>w. (bitcoind_node sample_btc sample_bitcoind (\<lambda>p. Ok (unsigned_tx p)), w)\<rparr>) 7
      sample_proposed sample_app) \<noteq> Ok (Next (MaybeInputsSeen x))"
proof
  fix x
  have own: "own_coin sample_btc sample_bitcoind \<lparr>op_txid = 1, vout = 0\<rparr>"
    by (simp add: own_coin_def sample_bitcoind_def sample_defs)
  have "\<lparr>op_txid = 1, vout = 0\<rparr> \<in> set (outpoints (unsigned_tx (pl_psbt (rc_state sample_proposed))))"
    "well_formed (pl_psbt (rc_state sample_proposed))"
    by (simp_all add: sample_received_def outpoints_def well_formed_def sample_defs)
  note spends = this
  show "fst (check_inputs_not_owned_step (sample_setup\<lparr>ask_node := \<lambda>w. (bitcoind_node sample_btc sample_bitcoind (\<lambda>p. Ok (unsigned_tx p)), w)\<rparr>) 7
      sample_proposed sample_app) \<noteq> Ok (Next (MaybeInputsSeen x))"
    by (rule own_coin_never_accepted [OF _ own spends]) simp
qed

text \<open>A taproot coin beside another one.\<close>

lemma taproot_coin_panics:
  "wallet_list_unspent (sample_btc\<lparr>address_from_script := \<lambda>s. Inr (Some (if s = [9] then P2tr else P2wpkh))\<rparr>)
     (sample_bitcoind\<lparr>rpc_list_unspent := Ok [\<lparr>ut_txid = 5, ut_vout = 0, ut_amount = 80, ut_script = receiver_spk\<rparr>,
        \<lparr>ut_txid = 6, ut_vout = 0, ut_amount = 90, ut_script = [9]\<rparr>]\<rparr>) = Panic"
  by code_simp

end
