(* ===== verification/PJ_Cli_Invariant.thy ===== *)
theory PJ_Cli_Invariant
  imports PJ_Cli_Logged "HOL-Library.Sublist"
begin

text \<open>
  What every command of the command line program keeps of its database: no two sessions share an
  identifier, no two sessions of the sender share a payment URI or a key of the receiver, no input
  is recorded twice, and nothing that was recorded is ever removed.
\<close>

section \<open>The invariant\<close>

definition cli_db_ok :: "database \<Rightarrow> bool" where
  "cli_db_ok d \<longleftrightarrow> distinct (map rcv_session_id (receive_sessions d)) \<and> distinct (map snd_session_id (send_sessions d)) \<and>
     distinct (map snd_pj_uri (send_sessions d)) \<and> distinct (map snd_receiver_pubkey (send_sessions d)) \<and>
     distinct (map fst (inputs_seen d))"

definition send_key :: "send_row \<Rightarrow> session_id \<times> string \<times> string" where
  "send_key r = (snd_session_id r, snd_pj_uri r, snd_receiver_pubkey r)"

text \<open>A completed session stays completed.\<close>

definition stay_completed :: "('r \<Rightarrow> 'k) \<Rightarrow> ('r \<Rightarrow> nat option) \<Rightarrow> 'r list \<Rightarrow> 'r list \<Rightarrow> bool" where
  "stay_completed key completed xs ys \<longleftrightarrow>
     (\<forall>r \<in> set xs. completed r \<noteq> None \<longrightarrow> (\<exists>r' \<in> set ys. key r' = key r \<and> completed r' \<noteq> None))"

lemma stay_completed_refl [simp]: "stay_completed key completed xs xs"
  by (auto simp: stay_completed_def)

lemma stay_completed_append [simp]: "stay_completed key completed xs (xs @ ys)"
  by (auto simp: stay_completed_def)

lemma stay_completed_trans: "stay_completed key c xs ys \<Longrightarrow> stay_completed key c ys zs \<Longrightarrow> stay_completed key c xs zs"
  unfolding stay_completed_def by metis

lemma stay_completed_map:
  "(\<And>r. key (f r) = key r \<and> (c r \<noteq> None \<longrightarrow> c (f r) \<noteq> None)) \<Longrightarrow> stay_completed key c xs (map f xs)"
  by (auto simp: stay_completed_def)

definition grows :: "database \<Rightarrow> database \<Rightarrow> bool" where
  "grows d d' \<longleftrightarrow> prefix (map rcv_session_id (receive_sessions d)) (map rcv_session_id (receive_sessions d')) \<and>
     prefix (map send_key (send_sessions d)) (map send_key (send_sessions d')) \<and> prefix (inputs_seen d) (inputs_seen d') \<and>
     prefix (receive_session_events d) (receive_session_events d') \<and> prefix (send_session_events d) (send_session_events d') \<and>
     stay_completed send_key snd_completed_at (send_sessions d) (send_sessions d') \<and>
     stay_completed rcv_session_id rcv_completed_at (receive_sessions d) (receive_sessions d')"

lemma send_key_completed [simp]: "send_key (r\<lparr>snd_completed_at := c\<rparr>) = send_key r"
  by (simp add: send_key_def)

definition db_kept :: "database \<Rightarrow> database \<Rightarrow> bool" where
  "db_kept d d' \<longleftrightarrow> (cli_db_ok d \<longrightarrow> cli_db_ok d') \<and> grows d d'"

lemma db_kept_refl [simp]: "db_kept d d"
  by (auto simp: db_kept_def grows_def)

lemma grows_trans:
  assumes "grows d d1" and "grows d1 d2"
  shows "grows d d2"
  using assms unfolding grows_def by (blast intro: prefix_order.trans stay_completed_trans)

lemma db_kept_trans: "db_kept d d1 \<Longrightarrow> db_kept d1 d2 \<Longrightarrow> db_kept d d2"
  using grows_trans by (auto simp: db_kept_def)

lemma kept_ticks [simp]: "db_kept d (d\<lparr>db_ticks := n\<rparr>)" "db_kept (d\<lparr>db_ticks := n\<rparr>) d' = db_kept d d'"
  by (auto simp: db_kept_def grows_def cli_db_ok_def)

section \<open>Operations of the database\<close>

lemma kept_insert_input: "db_kept d (snd (insert_input_seen_before F i d))"
proof -
  obtain r d' where m: "insert_input_seen_before F i d = (r, d')" by fastforce
  have "db_kept d d'"
    using m unfolding insert_input_seen_before_def
    by (cases rule: run_statement_cases) (auto simp: db_kept_def grows_def cli_db_ok_def split: if_splits)
  with m show ?thesis by simp
qed

lemma kept_receiver_new: "db_kept d (snd (receiver_persister_new F i d))"
proof -
  obtain r d' where m: "receiver_persister_new F i d = (r, d')" by fastforce
  have "db_kept d d'"
    using m unfolding receiver_persister_new_def
    by (cases rule: run_statement_cases) (auto simp: db_kept_def grows_def cli_db_ok_def split: if_splits)
  with m show ?thesis by simp
qed

lemma kept_sender_new: "db_kept d (snd (sender_persister_new F i u k d))"
proof -
  obtain r d' where m: "sender_persister_new F i u k d = (r, d')" by fastforce
  have "db_kept d d'"
    using m unfolding sender_persister_new_def
    by (cases rule: run_statement_cases)
      (auto simp: db_kept_def grows_def cli_db_ok_def send_key_def statement_def split: if_splits option.splits)
  with m show ?thesis by simp
qed

lemma kept_append:
  "db_kept d (snd (receiver_save_event F J sid e d))" "db_kept d (snd (sender_save_event F J sid' e' d))"
proof -
  obtain r d' where m: "receiver_save_event F J sid e d = (r, d')" by fastforce
  have "db_kept d d'"
    using m unfolding receiver_save_event_def
    by (cases rule: append_event_cases) (auto simp: db_kept_def grows_def cli_db_ok_def)
  with m show "db_kept d (snd (receiver_save_event F J sid e d))" by simp
next
  obtain r d' where m: "sender_save_event F J sid' e' d = (r, d')" by fastforce
  have "db_kept d d'"
    using m unfolding sender_save_event_def
    by (cases rule: append_event_cases) (auto simp: db_kept_def grows_def cli_db_ok_def)
  with m show "db_kept d (snd (sender_save_event F J sid' e' d))" by simp
qed

lemma kept_close:
  "db_kept d (snd (receiver_close F sid d))" "db_kept d (snd (sender_close F sid d))"
proof -
  obtain r d' where m: "receiver_close F sid d = (r, d')" by fastforce
  have "db_kept d d'"
    using m unfolding receiver_close_def
    by (cases rule: run_statement_cases)
      (auto simp: db_kept_def grows_def cli_db_ok_def comp_def if_distrib cong: if_cong intro!: stay_completed_map)
  with m show "db_kept d (snd (receiver_close F sid d))" by simp
next
  obtain r d' where m: "sender_close F sid d = (r, d')" by fastforce
  have "db_kept d d'"
    using m unfolding sender_close_def
    by (cases rule: run_statement_cases)
      (auto simp: db_kept_def grows_def cli_db_ok_def comp_def if_distrib cong: if_cong intro!: stay_completed_map)
  with m show "db_kept d (snd (sender_close F sid d))" by simp
qed

lemma kept_execute:
  "db_kept d (snd (execute (receiver_persister F J sid) act d))" "db_kept d (snd (execute (sender_persister F J' sid') act' d))"
proof -
  show "db_kept d (snd (execute (receiver_persister F J sid) act d))"
    using kept_append(1) [of d F J sid] kept_close(1) [of _ F sid]
    by (cases act) (auto simp: receiver_persister_def split: prod.splits res.splits intro: db_kept_trans, (metis db_kept_trans snd_conv)+)
  show "db_kept d (snd (execute (sender_persister F J' sid') act' d))"
    using kept_append(2) [of d F J' sid'] kept_close(2) [of _ F sid']
    by (cases act') (auto simp: sender_persister_def split: prod.splits res.splits intro: db_kept_trans, (metis db_kept_trans snd_conv)+)
qed

lemma kept_query [simp]: "db_kept d (snd (db_query F q d))"
proof -
  obtain r d' where m: "db_query F q d = (r, d')" by fastforce
  have "db_kept d d'" using m unfolding db_query_def by (cases rule: run_statement_cases) auto
  with m show ?thesis by simp
qed

section \<open>Code that keeps the database\<close>

named_theorems keeps_intro

definition keeps :: "('w app \<Rightarrow> ('a, 'e) res \<times> 'w app) \<Rightarrow> bool" where
  "keeps m \<longleftrightarrow> (\<forall>a. db_kept (ap_db a) (ap_db (snd (m a))))"

lemma keeps_andthen [keeps_intro]: "keeps m \<Longrightarrow> (\<And>x. keeps (k x)) \<Longrightarrow> keeps (andthen m k)"
  unfolding keeps_def andthen_def
  by (auto split: prod.splits res.splits) (metis db_kept_trans snd_conv)+

lemma keeps_on_result [keeps_intro]: "keeps m \<Longrightarrow> (\<And>r. keeps (k r)) \<Longrightarrow> keeps (on_result m k)"
  unfolding keeps_def on_result_def
  by (auto split: prod.splits) (metis db_kept_trans snd_conv)

lemma keeps_error_as [keeps_intro]: "keeps m \<Longrightarrow> keeps (error_as g m)"
  unfolding keeps_def error_as_def by (auto split: prod.splits) (metis snd_conv)

lemma keeps_basic [keeps_intro]:
  "keeps (give x)" "keeps (fails e)" "keeps (lift r)" "keeps (outside f)" "keeps (print n)"
  by (auto simp: keeps_def give_def fails_def lift_def outside_def print_def split: prod.splits)

lemma keeps_with_db [keeps_intro]: "(\<And>F d. db_kept d (snd (f F d))) \<Longrightarrow> keeps (with_db S f)"
  unfolding keeps_def with_db_def by (auto split: prod.splits) (metis snd_conv)

lemma keeps_post_via_relay [keeps_intro]: "keeps (post_via_relay S f)"
  by (simp add: keeps_def post_via_relay_db)

lemma kept_save_outcome [keeps_intro]:
  "db_kept d (snd (save_outcome (receiver_persister F J sid) t d))" "db_kept d (snd (save_outcome (sender_persister F J' sid) u d))"
  using kept_execute(1) [of d F J sid "fst t"] kept_execute(2) [of d F J' sid "fst u"]
  by (auto simp: save_outcome_def split: prod.splits)

lemma kept_save_value [keeps_intro]:
  "db_kept d (snd (save_value (receiver_persister F J sid) t d))" "db_kept d (snd (save_value (sender_persister F J' sid) u d))"
  using kept_execute(1) [of d F J sid "fst t"] kept_execute(2) [of d F J' sid "fst u"]
  by (auto simp: save_value_def split: prod.splits)

lemmas save_defs = receiver_saves_def sender_saves_def success_with_no_results_save_def fatal_with_no_results_save_def fatal_save_def
  transient_save_def next_state_save_def terminal_save_def terminal_success_save_def terminal_transition_save_def fatal_or_success_save_def

lemma keeps_replay [keeps_intro]: "keeps (receiver_replay S sid)" "keeps (sender_replay S sid)"
proof -
  have r: "db_kept d (snd (replay_event_log E c (receiver_persister F J sid) sh d))" for E c F J sid sh and d :: database
    using kept_close(1) [of d F sid]
    by (auto simp: replay_event_log_def receiver_persister_def split: prod.splits res.splits)
  have s: "db_kept d (snd (send_replay_event_log E c (sender_persister F J sid) sh d))" for E c F J sid sh and d :: database
    using kept_close(2) [of d F sid]
    by (auto simp: send_replay_event_log_def sender_persister_def split: prod.splits res.splits)
  show "keeps (receiver_replay S sid)" "keeps (sender_replay S sid)"
    unfolding receiver_replay_def sender_replay_def by (intro keeps_intro r s)+
qed

section \<open>The commands\<close>

lemma keeps_cancel [keeps_intro]: "keeps (cancel_receiver_session S sid no)" "keeps (cancel_sender_session S sid no)"
proof -
  have close: "keeps (receiver_close_failed_session S sid)" "keeps (sender_close_failed_session S sid)"
    unfolding receiver_close_failed_session_def sender_close_failed_session_def
    using kept_close by (auto simp: receiver_persister_def sender_persister_def intro!: keeps_intro split: res.splits)
  have settle: "keeps (settle_fallback S no tx)" for tx
    by (auto simp: settle_fallback_def broadcast_tx_def intro!: keeps_intro)
  have pending: "keeps (receiver_pending S sid s h)" "keeps (sender_pending S sid u i)" for s h u i
    by (auto simp: receiver_pending_def sender_pending_def save_defs intro!: keeps_intro
        split: receive_session.splits send_session.splits send_outcome.splits session_outcome.splits option.splits)
  show "keeps (cancel_receiver_session S sid no)"
    unfolding cancel_receiver_session_def receiver_finalize_expired_session_def
    by (auto simp: save_defs intro!: keeps_intro settle pending close split: res.splits option.splits)
  show "keeps (cancel_sender_session S sid no)"
    unfolding cancel_sender_session_def sender_finalize_expired_session_def
    by (auto simp: save_defs intro!: keeps_intro settle pending close split: res.splits option.splits)
qed

lemma keeps_posts [keeps_intro]:
  "(\<And>b c. keeps (k b c)) \<Longrightarrow> keeps (receiver_posts S sid create k)"
  "(\<And>b c. keeps (l b c)) \<Longrightarrow> keeps (sender_posts S sid create l)"
  by (auto simp: receiver_posts_def sender_posts_def intro!: keeps_intro split: relay_post.splits option.splits)

lemma keeps_retry [keeps_intro]: "keeps (retry_or_fail f e)"
  by (auto simp: retry_or_fail_def intro!: keeps_intro)

lemma keeps_seen_callback: "db_kept (ap_db a) (ap_db (snd (seen_callback S a i)))"
proof -
  have "keeps (\<lambda>a. seen_callback S a i)"
    unfolding seen_callback_def by (intro keeps_intro kept_insert_input)
  then show ?thesis by (simp add: keeps_def)
qed

lemma keeps_seen_loop: "db_kept (ap_db a) (ap_db (snd (inputs_seen_loop (seen_callback S) a ps)))"
proof (induction ps arbitrary: a)
  case (Cons p ps)
  obtain r a' where c: "seen_callback S a (previous_output (ip_txin p)) = (r, a')" by fastforce
  with keeps_seen_callback [of a S "previous_output (ip_txin p)"] have "db_kept (ap_db a) (ap_db a')" by simp
  with Cons [of a'] c db_kept_trans show ?case by (auto simp: Let_def split: res.split bool.split)
qed simp

lemma keeps_seen_step [keeps_intro]: "keeps (check_no_inputs_seen_before_step S sid r)"
  unfolding keeps_def
proof
  fix a
  obtain t a' where t: "seen_check_no_inputs_seen_before (st_env S) (seen_callback S) a r = (t, a')" by fastforce
  have "a' = snd (inputs_seen_loop (seen_callback S) a (input_pairs (pl_psbt (rc_state r))))"
    using t by (auto simp: seen_check_no_inputs_seen_before_def check_no_inputs_seen_before_def Let_def split: prod.splits)
  with keeps_seen_loop have a': "db_kept (ap_db a) (ap_db a')" by simp
  have "keeps (andthen (error_as session_failure (receiver_saves S sid fatal_save t)) (\<lambda>proposal. give (Next (OutputsUnknown proposal))))"
    unfolding save_defs by (intro keeps_intro)
  with a' t db_kept_trans show "db_kept (ap_db a) (ap_db (snd (check_no_inputs_seen_before_step S sid r a)))"
    by (fastforce simp: check_no_inputs_seen_before_step_def keeps_def)
qed

lemma keeps_monitor_loop [keeps_intro]: "keeps (monitor_loop n S sid r)"
  by (induction n arbitrary: r)
    (auto simp: save_defs intro!: keeps_intro split: res.splits optional_transition_outcome.splits unit.splits)

lemma keeps_receiver_step [keeps_intro]: "keeps (receiver_session_step S sid s)"
  unfolding receiver_session_step_def
  by (auto simp: read_from_directory_def check_proposal_def check_inputs_not_owned_step_def identify_receiver_outputs_step_def
      commit_outputs_step_def contribute_inputs_step_def apply_fee_range_step_def finalize_proposal_step_def
      send_payjoin_proposal_def handle_error_def monitor_payjoin_proposal_def save_defs
      intro!: keeps_intro split: receive_session.splits res.splits option.splits optional_transition_outcome.splits)

lemma keeps_sender_step [keeps_intro]: "keeps (sender_session_step S sid s)"
  unfolding sender_session_step_def
  by (auto simp: post_original_proposal_def get_proposed_payjoin_psbt_def process_pj_response_def broadcast_tx_def save_defs
      intro!: keeps_intro split: send_session.splits send_outcome.splits res.splits option.splits optional_transition_outcome.splits)

lemma keeps_process [keeps_intro]: "keeps (process_receiver_session n S sid s)" "keeps (process_sender_session n S sid u)"
proof -
  show "keeps (process_receiver_session n S sid s)"
    by (induction n arbitrary: s) (auto intro!: keeps_intro split: driver.splits)
  show "keeps (process_sender_session n S sid u)"
    by (induction n arbitrary: u) (auto intro!: keeps_intro split: driver.splits)
qed

lemma choose_db: "ap_db (snd (choose_relay S a)) = ap_db a" "ap_db (snd (choose_directory S a)) = ap_db a"
  by (auto simp: choose_relay_def choose_directory_def andthen_def outside_def lift_def split: prod.splits)

lemma fetch_ohttp_keys_db: "ap_db (snd (fetch_ohttp_keys_from_directory S d a)) = ap_db a"
proof (induction S d a rule: fetch_ohttp_keys_from_directory.induct)
  case (1 S d a)
  then show ?case using choose_db(1) [of S a]
    by (subst fetch_ohttp_keys_from_directory.simps)
      (auto simp: add_failed_relay_def add_failed_directory_def split: prod.splits res.splits keys_error.splits)
qed

lemma unwrap_keys_db: "ap_db (snd (unwrap_ohttp_keys_or_else_fetch_from_directory S d a)) = ap_db a"
  by (simp add: unwrap_ohttp_keys_or_else_fetch_from_directory_def give_def fetch_ohttp_keys_db split: option.splits)

lemma choose_keys_db: "ap_db (snd (choose_keys S a)) = ap_db a"
proof (induction S a rule: choose_keys.induct)
  case (1 S a)
  obtain r b where c: "choose_directory S a = (r, b)" by fastforce
  show ?case
  proof (cases r)
    case (Ok d)
    obtain q e where u: "unwrap_ohttp_keys_or_else_fetch_from_directory S d b = (q, e)" by fastforce
    have "ap_db b = ap_db a" "ap_db e = ap_db b" using choose_db(2) [of S a] unwrap_keys_db [of S d b] c u by simp_all
    with 1 [OF c [symmetric] Ok u [symmetric]] c Ok u show ?thesis
      by (cases q) (simp_all add: choose_keys.simps [of S a] clear_failed_relays_def add_failed_directory_def)
  qed (use c choose_db(2) [of S a] in \<open>simp_all add: choose_keys.simps [of S a]\<close>)
qed

lemma keeps_choose_keys [keeps_intro]: "keeps (choose_keys S)"
  by (simp add: keeps_def choose_keys_db)

lemma keeps_queries [keeps_intro]:
  "keeps (with_db S get_recv_session_ids)" "keeps (with_db S get_send_session_ids)"
  "keeps (with_db S get_inactive_send_session_ids)" "keeps (with_db S get_inactive_recv_session_ids)"
  "keeps (with_db S (\<lambda>F. get_send_session_id_by_receiver_pk F pk))"
  "keeps (with_db S (\<lambda>F. send_session_exists F sid))" "keeps (with_db S (\<lambda>F. recv_session_exists F sid))"
  by (auto simp: get_recv_session_ids_def get_send_session_ids_def get_inactive_send_session_ids_def get_inactive_recv_session_ids_def
      get_send_session_id_by_receiver_pk_def send_session_exists_def recv_session_exists_def intro!: keeps_intro)

lemma keeps_new_sessions [keeps_intro]:
  "keeps (with_db S (\<lambda>F. sender_persister_new F i u k))" "keeps (with_db S (\<lambda>F. receiver_persister_new F i))"
  by (auto intro!: keeps_intro kept_sender_new kept_receiver_new)

lemma keeps_start_send [keeps_intro]: "keeps (start_send_session S bip21 p pk ad am rate)"
  by (auto simp: start_send_session_def create_original_psbt_def save_defs intro!: keeps_intro)

lemma keeps_send [keeps_intro]: "keeps (send_payjoin n S bip21 rate)"
  by (auto simp: send_payjoin_def send_payjoin_v1_def send_payjoin_v2_def find_send_session_def create_original_psbt_def
      process_pj_response_def broadcast_tx_def Let_def
      intro!: keeps_intro split: pj_param.splits option.splits prod.splits res.splits)

lemma keeps_receive [keeps_intro]: "keeps (receive_payjoin n S amt)"
  by (auto simp: receive_payjoin_def save_defs intro!: keeps_intro split: option.splits prod.splits)

lemma keeps_history [keeps_intro]: "keeps (history_rows S)"
proof -
  have "keeps (send_rows S sids)" "keeps (receive_rows S sids)" for sids
    by (induction sids) (auto intro!: keeps_intro split: res.splits prod.splits)
  then show ?thesis by (auto simp: history_rows_def intro!: keeps_intro)
qed

lemma keeps_cancel_session [keeps_intro]: "keeps (cancel_session S sid no role)"
  by (auto simp: cancel_session_def intro!: keeps_intro split: option.splits cli_role.splits)

lemma keeps_resume [keeps_intro]: "keeps (resume_payjoins S target)"
proof -
  have "keeps (receiver_close_failed_session S sid)" "keeps (sender_close_failed_session S sid)" for sid
    unfolding receiver_close_failed_session_def sender_close_failed_session_def
    using kept_close by (auto simp: receiver_persister_def sender_persister_def intro!: keeps_intro split: res.splits)
  then have "keeps (resume_receivers S sids)" "keeps (resume_senders S sids)" for sids
    by (induction sids) (auto simp: ignoring_errors_def intro!: keeps_intro split: res.splits prod.splits)
  then show ?thesis by (auto simp: resume_payjoins_def Let_def intro!: keeps_intro split: option.splits)
qed

end
