(* ===== verification/PJ_Cli_Main.thy ===== *)
theory PJ_Cli_Main
  imports PJ_Cli_Resume PJ_Cli_Invariant PJ_Pj_Uri_Facts
begin

text \<open>
  Invocations of the command line program (\<open>payjoin-cli/src/main.rs\<close>), one after the other on one
  database: what holds of the database, and what the sender never does twice.
\<close>

section \<open>Running the program\<close>

datatype cli_command =
  SendCommand string fee_rate | ReceiveCommand amount | ResumeCommand "session_id option" | HistoryCommand
| CancelCommand session_id bool "cli_role option"

text \<open>
  One invocation, up to its end or to an interrupt: of a session that a command drives after some of its
  steps, of resumed sessions after some of the steps of each.
\<close>

inductive run_command :: "'w cli_setup \<Rightarrow> cli_command \<Rightarrow> 'w app \<Rightarrow> 'w app \<Rightarrow> bool" for S :: "'w cli_setup" where
  run_send: "send_payjoin n S bip21 rate a = (r, a') \<Longrightarrow> run_command S (SendCommand bip21 rate) a a'"
| run_receive: "receive_payjoin n S amt a = (r, a') \<Longrightarrow> run_command S (ReceiveCommand amt) a a'"
| run_resume: "resume_payjoins S target a = (Ok (receivers, senders), b) \<Longrightarrow>
     (task_step S)\<^sup>*\<^sup>* \<lparr>tk_receivers = receivers, tk_senders = senders, tk_app = b\<rparr> T \<Longrightarrow>
     run_command S (ResumeCommand target) a (tk_app T)"
| run_resume_fails: "resume_payjoins S target a = (r, a') \<Longrightarrow> (\<nexists>x. r = Ok x) \<Longrightarrow> run_command S (ResumeCommand target) a a'"
| run_history: "history_rows S a = (r, a') \<Longrightarrow> run_command S HistoryCommand a a'"
| run_cancel: "cancel_session S sid no_broadcast role a = (r, a') \<Longrightarrow> run_command S (CancelCommand sid no_broadcast role) a a'"

text \<open>Every invocation starts from the database alone.\<close>

definition app_new :: "database \<Rightarrow> 'w \<Rightarrow> 'w app" where
  "app_new d w = \<lparr>ap_db = d, failed_relays = [], failed_directories = [], printed = [], ap_world = w\<rparr>"

inductive invocation :: "'w cli_setup \<Rightarrow> database \<Rightarrow> database \<Rightarrow> bool" for S :: "'w cli_setup" where
  invoked: "run_command S c (app_new d w) a \<Longrightarrow> invocation S d (ap_db a)"

section \<open>What the invocations keep\<close>

lemma keepsD: "keeps m \<Longrightarrow> m a = (r, a') \<Longrightarrow> db_kept (ap_db a) (ap_db a')"
  unfolding keeps_def by (metis snd_conv)

lemma task_steps_keep: "(task_step S)\<^sup>*\<^sup>* T T' \<Longrightarrow> db_kept (ap_db (tk_app T)) (ap_db (tk_app T'))"
proof (induction rule: rtranclp_induct)
  case (step T1 T2)
  from step(2) have "db_kept (ap_db (tk_app T1)) (ap_db (tk_app T2))"
    by cases (auto dest: keepsD [OF keeps_receiver_step] keepsD [OF keeps_sender_step])
  with step.IH show ?case by (rule db_kept_trans)
qed simp

lemma run_command_keeps:
  assumes "run_command S c a a'"
  shows "db_kept (ap_db a) (ap_db a')"
  using assms
proof cases
  case (run_resume target receivers senders b T)
  then show ?thesis
    using keepsD [OF keeps_resume run_resume(3)] task_steps_keep [OF run_resume(4)] by (auto intro: db_kept_trans)
qed (auto dest: keepsD [OF keeps_send] keepsD [OF keeps_receive] keepsD [OF keeps_history] keepsD [OF keeps_cancel_session]
    keepsD [OF keeps_resume])

lemma invocations_keep: "(invocation S)\<^sup>*\<^sup>* d d' \<Longrightarrow> db_kept d d'"
proof (induction rule: rtranclp_induct)
  case (step d1 d2)
  from step(2) have "db_kept d1 d2"
    by cases (auto dest!: run_command_keeps simp: app_new_def)
  with step.IH show ?case by (rule db_kept_trans)
qed simp

text \<open>C13: In every database that a series of invocations leaves behind, whatever they do and wherever they
  fail or are interrupted, no two sessions of a role share an identifier, no two sessions of the sender
  share a payment URI or a key of the receiver, and no input is recorded twice; later invocations
  remove nothing: sessions, events and seen inputs stay, and what is completed stays completed.\<close>

theorem invocations_keep_the_database:
  assumes "(invocation S)\<^sup>*\<^sup>* init_schema d" and "(invocation S)\<^sup>*\<^sup>* d d'"
  shows "cli_db_ok d' \<and> grows d d'"
proof -
  have "cli_db_ok init_schema" by (simp add: cli_db_ok_def init_schema_def)
  with invocations_keep [OF assms(1)] invocations_keep [OF assms(2)] show ?thesis by (auto simp: db_kept_def)
qed

text \<open>A first invocation enters the session it was asked for and then finds no directory.\<close>

lemma sample_invocation:
  "invocation (sample_setup\<lparr>pj_directories := []\<rparr>) init_schema
     (init_schema\<lparr>receive_sessions := [\<lparr>rcv_session_id = 0, rcv_completed_at = None\<rparr>], db_ticks := 2\<rparr>)"
proof -
  have "receive_payjoin 0 (sample_setup\<lparr>pj_directories := []\<rparr>) 50 (app_new init_schema ()) =
    (Err NoValidDirectories, app_new (init_schema\<lparr>receive_sessions := [\<lparr>rcv_session_id = 0, rcv_completed_at = None\<rparr>], db_ticks := 2\<rparr>) ())"
    by (simp add: receive_payjoin_def andthen_def outside_def lift_def error_as_def with_db_def receiver_persister_new_def run_statement_def
        get_connection_def statement_def choose_keys.simps choose_directory_def remaining_directories_def app_new_def init_schema_def
        sample_setup_def sample_node_def reliable_outside_def)
  from invoked [OF run_receive [OF this]] show ?thesis by (simp add: app_new_def)
qed

theorem invocations_keep_the_database_witness:
  "cli_db_ok (init_schema\<lparr>receive_sessions := [\<lparr>rcv_session_id = 0, rcv_completed_at = None\<rparr>], db_ticks := 2\<rparr>) \<and>
   grows init_schema (init_schema\<lparr>receive_sessions := [\<lparr>rcv_session_id = 0, rcv_completed_at = None\<rparr>], db_ticks := 2\<rparr>)"
proof -
  have "(invocation (sample_setup\<lparr>pj_directories := []\<rparr>))\<^sup>*\<^sup>* init_schema init_schema" by simp
  from invocations_keep_the_database [OF this] sample_invocation show ?thesis by (simp add: r_into_rtranclp)
qed

section \<open>No reuse\<close>

lemma kept_send_key:
  assumes "db_kept d d'" and "r \<in> set (send_sessions d)"
  shows "\<exists>r' \<in> set (send_sessions d'). send_key r' = send_key r"
proof -
  have "set (map send_key (send_sessions d)) \<subseteq> set (map send_key (send_sessions d'))"
    using assms(1) by (simp only: db_kept_def grows_def set_mono_prefix)
  then show ?thesis using assms(2) by force
qed

lemma run_statement_Ok: "fst (run_statement F f d) = Ok x \<Longrightarrow> \<exists>t. fst (f (d\<lparr>db_ticks := t\<rparr>)) = Ok x"
  by (auto simp: run_statement_def get_connection_def statement_def split: option.splits)

lemma used_row_refused:
  assumes "r \<in> set (send_sessions d)" and "u = snd_pj_uri r \<or> k = snd_receiver_pubkey r"
  shows "fst (sender_persister_new F i u k d) \<noteq> Ok x"
proof
  assume "fst (sender_persister_new F i u k d) = Ok x"
  from run_statement_Ok [OF this [unfolded sender_persister_new_def]] show False
    using assms by (auto split: if_splits prod.splits res.splits)
qed

lemma used_uri_refused:
  assumes "r \<in> set (send_sessions (ap_db a))" and "u = snd_pj_uri r \<or> k = snd_receiver_pubkey r"
  shows "fst (start_send_session S u p k address amt rate a) \<noteq> Ok x"
proof
  assume "fst (start_send_session S u p k address amt rate a) = Ok x"
  then obtain a' where m: "start_send_session S u p k address amt rate a = (Ok x, a')" by (metis prod.collapse)
  then obtain q b i c y e where create: "create_original_psbt S address amt rate a = (Ok q, b)"
    and uuid: "outside (ask_random S) b = (Ok i :: (nat, cli_error) res, c)" and new: "with_db S (\<lambda>F. sender_persister_new F i u k) c = (Ok y, e)"
    unfolding start_send_session_def andthen_Ok error_as_Ok by (elim exE conjE) (rule that)
  have "ap_db b = ap_db a"
    using create by (auto simp: create_original_psbt_def andthen_def outside_def lift_def fails_def split: prod.splits if_splits res.splits)
  with uuid have c: "ap_db c = ap_db a" by (auto simp: outside_def split: prod.splits)
  obtain F d' where "sender_persister_new F i u k (ap_db a) = (Ok y, d')"
    using new c by (auto simp: with_db_def split: prod.splits)
  then have "fst (sender_persister_new F i u k (ap_db a)) = Ok y" by simp
  with used_row_refused [OF assms(1), of u k F i y] assms(2) show False by simp
qed



text \<open>
  The row stands before the session is built: when building fails, the next attempt with the same
  payment URI is refused as well, with another error.
\<close>

lemma andthen_Err: "andthen m k a = (Err e, a') \<longleftrightarrow> m a = (Err e, a') \<or> (\<exists>x b. m a = (Ok x, b) \<and> k x b = (Err e, a'))"
  by (auto simp: andthen_def split: prod.splits res.splits)

lemma sender_persister_new_row:
  assumes "sender_persister_new F i u k d = (Ok y, d')"
  shows "\<exists>r \<in> set (send_sessions d'). snd_pj_uri r = u \<and> snd_receiver_pubkey r = k"
  using assms
  by (auto simp: sender_persister_new_def run_statement_def get_connection_def statement_def split: option.splits if_splits)

lemma no_build_failure:
  "create_original_psbt S address amt rate b \<noteq> (Err (BuildFailed e), c)" "outside f b \<noteq> (Err (BuildFailed e), c)"
  "error_as DatabaseError m b \<noteq> (Err (BuildFailed e), c)"
  by (auto simp: create_original_psbt_def andthen_def outside_def lift_def fails_def error_as_def give_def map_err_eq_Err
      split: prod.splits if_splits res.splits option.splits)

lemma failed_build_burns_uri:
  assumes "start_send_session S u p k address amt rate a = (Err (BuildFailed e), a')"
  shows "fst (start_send_session S u p' k' address' amt' rate' a') \<noteq> Ok x"
proof -
  define built where "built q sid = andthen (print (SessionEstablished sid)) (\<lambda>_. andthen (outside (ask_random S)) (\<lambda>random.
     andthen (lift (map_err BuildFailed (v2_build_recommended (st_env S) random (v2_from_parts q p address (Some amt)) rate))) (\<lambda>t.
     andthen (error_as DatabaseError (sender_saves S sid next_state_save t)) (\<lambda>sender. give (WithReplyKey sender, sid)))))" for q sid
  have "andthen (create_original_psbt S address amt rate) (\<lambda>q. andthen (outside (ask_random S)) (\<lambda>i.
      andthen (error_as DatabaseError (with_db S (\<lambda>F. sender_persister_new F i u k))) (built q))) a = (Err (BuildFailed e), a')"
    using assms by (simp only: start_send_session_def built_def [abs_def])
  then obtain q b c i y where new: "with_db S (\<lambda>F. sender_persister_new F i u k) b = (Ok y, c)" and f: "built q y c = (Err (BuildFailed e), a')"
    unfolding andthen_Err error_as_Ok by (auto simp: no_build_failure)
  have "keeps (built q y)" by (auto simp: built_def save_defs intro!: keeps_intro)
  note kept = keepsD [OF this f]
  obtain r where "r \<in> set (send_sessions (ap_db c))" and r: "snd_pj_uri r = u"
    using new sender_persister_new_row by (fastforce simp: with_db_def split: prod.splits)
  from kept_send_key [OF kept this(1)] obtain r' where r': "r' \<in> set (send_sessions (ap_db a'))" and "send_key r' = send_key r" ..
  with r have "u = snd_pj_uri r'" by (simp add: send_key_def)
  then show ?thesis by (intro used_uri_refused [OF r'] disjI1)
qed

end
