(* ===== verification/Spec2Isabelle.thy ===== *)
theory Spec2Isabelle
  imports PJ_Send_Facts PJ_Send_Build PJ_Url_Facts PJ_Send_Error PJ_Send_Request PJ_Receive_Facts
    PJ_Agreement PJ_Relay_Facts PJ_Mail_Setup_Facts PJ_Cli_Wallet_Facts PJ_Cli_Main
begin

text \<open>
  A verification development for the Rust workspace of \<open>payjoin\<close>, an implementation of BIP 78
  (version 1) and BIP 77 (version 2): the library (\<open>payjoin/src\<close>), the mail room that relays
  messages (\<open>payjoin-mailroom/src\<close>) and the command line program (\<open>payjoin-cli/src\<close>).

  \<^bold>\<open>The program.\<close> A sender has a signed transaction (the original, a PSBT) that pays a receiver. It
  posts the original with its preferences to the receiver, in version 1 directly, in version 2
  encrypted (HPKE) and relayed (OHTTP) through the mailboxes of a directory. The receiver checks
  the original, may replace its outputs, contributes inputs, takes fees and signs, and answers
  with a proposal, or with a JSON error. The sender checks the proposal before it signs. In
  version 2 both sides are sessions: every change of state is an event in a log that is replayed
  when a session is resumed. The mail room is a directory (mailboxes in files, with a gateway that
  decrypts OHTTP requests) and a relay that forwards such requests to gateways that have opted in,
  which it finds out by probing them. The command line program drives the sessions of the library:
  it keeps their logs in a database, chooses relays and directories, and asks a node for
  everything that concerns the wallet.

  \<^bold>\<open>The theories and the code: the library.\<close>
  \<^item> \<open>PJ_Prelude\<close>, \<open>PJ_Text\<close>: the result type (\<open>Ok\<close>, \<open>Err\<close>, and \<open>Panic\<close> for every \<open>unwrap\<close>,
    \<open>expect\<close>, index and checked subtraction that can fail), lists, strings, decimal numbers, UTF-8.
  \<^item> \<open>PJ_Bitcoin\<close>, \<open>PJ_Psbt\<close>: transactions and PSBTs as records; \<open>core/psbt/mod.rs\<close>.
  \<^item> \<open>PJ_Protocol\<close>: \<open>output_substitution.rs\<close>, \<open>version.rs\<close>, \<open>error_codes.rs\<close>.
  \<^item> \<open>PJ_Send\<close>, \<open>PJ_Send_Check\<close>: \<open>send/mod.rs\<close>, building a sender and checking a proposal.
    \<open>PJ_Send_Error\<close>: \<open>send/error.rs\<close>. \<open>PJ_Send_Request\<close>: \<open>send/v1.rs\<close> and \<open>serialize_url\<close>.
    \<open>PJ_Send_V2\<close>: \<open>send/v2/\<close>.
  \<^item> \<open>PJ_Url\<close>: \<open>url.rs\<close>. \<open>PJ_Params\<close>: \<open>receive/optional_parameters.rs\<close>. \<open>PJ_Pj_Uri\<close>: \<open>uri/\<close>.
  \<^item> \<open>PJ_Receive_Input\<close>, \<open>PJ_Receive\<close>: \<open>receive/mod.rs\<close>. \<open>PJ_Receive_Common\<close>:
    \<open>receive/common/mod.rs\<close>. \<open>PJ_Receive_V1\<close>: \<open>receive/v1/\<close>. \<open>PJ_Errors\<close>: \<open>receive/error.rs\<close>.
  \<^item> \<open>PJ_Wire\<close>: \<open>hpke.rs\<close>, \<open>ohttp.rs\<close>, \<open>time.rs\<close>, \<open>into_url.rs\<close>, \<open>request.rs\<close>, \<open>directory.rs\<close>.
  \<^item> \<open>PJ_Persist\<close>: \<open>persist.rs\<close>, the transitions and what saving them does to the storage.
  \<^item> \<open>PJ_Receive_V2\<close>: states, events and the replay's transition function of \<open>receive/v2/mod.rs\<close>;
    \<open>PJ_Receive_Live\<close>: its handlers; \<open>PJ_Receive_Session\<close>: \<open>receive/v2/session.rs\<close>.

  \<^bold>\<open>The theories and the code: the mail room.\<close>
  \<^item> \<open>PJ_Mail_Store\<close>, \<open>PJ_Mailbox\<close>: \<open>db/files.rs\<close>, the files with an outcome for every operation of
    the disk, and the mailboxes with the channels on which readers wait. \<open>PJ_Mail_Db\<close>: the trait \<open>Db\<close>
    of \<open>db/mod.rs\<close> and its decorator; the locale \<open>mail_store\<close> is what a directory needs of it.
  \<^item> \<open>PJ_Directory\<close>: \<open>directory.rs\<close>, every handler, and the routing of \<open>lib.rs\<close>.
  \<^item> \<open>PJ_Gateway\<close>, \<open>PJ_Relay\<close>: \<open>ohttp_relay/\<close>, the prober with what it knows of gateways, and
    the service; requests and probes are functions of the network.
  \<^item> \<open>PJ_Mail_Setup\<close>: \<open>key_config.rs\<close>, \<open>access_control.rs\<close>, \<open>middleware.rs\<close> and what \<open>lib.rs\<close> does before
    it serves.

  \<^bold>\<open>The theories and the code: the command line program.\<close>
  \<^item> \<open>PJ_Cli_V1\<close>: \<open>app/v1.rs\<close>, the receiver of version 1.
  \<^item> \<open>PJ_Cli_Wallet\<close>: \<open>app/wallet.rs\<close>, what the wallet makes of the answers of the node.
  \<^item> \<open>PJ_Cli_Db\<close>: \<open>db/\<close>, the tables, the persisters of the two roles and the queries.
  \<^item> \<open>PJ_Cli_App\<close>: the state of \<open>app/v2/mod.rs\<close>, \<open>app/v2/ohttp.rs\<close> and \<open>io.rs\<close>.
    \<open>PJ_Cli_Receive\<close>, \<open>PJ_Cli_Send\<close>: a function per step of a session and the drivers that choose
    it. \<open>PJ_Cli_Commands\<close>: the commands send, receive, resume, cancel and history.
    \<open>PJ_Cli_Main\<close>: one invocation after the other, \<open>main.rs\<close>.

  A Rust struct is a record, an enum a datatype, an error a value of the enum that the code
  returns. A \<open>self\<close> that is consumed is an argument and the new value the result. A wallet callback
  is a function; one that may have state takes and returns it. Randomness is a generator with a
  state. Amounts, weights and indices are naturals, with the bounds of the Rust types written where
  the code checks or exceeds them (\<open>max_money\<close>, \<open>usize_max\<close>, the 32 bits of a time). The mail room
  and the prober run as tasks under a mutex: a section between two awaits is one step, and the
  theorems hold for every interleaving of the steps of any number of tasks. The program's commands
  pass the record \<open>app\<close>, with the database, what was printed and the state of the outside;
  \<open>resume\<close> runs its sessions in any interleaving of their steps (\<open>task_step\<close>).

  \<^bold>\<open>Parameters.\<close> What the crates \<open>bitcoin\<close>, \<open>hpke\<close>, \<open>ohttp\<close>, \<open>bhttp\<close>, \<open>bech32\<close>, \<open>serde_json\<close> and
  \<open>bitcoin_uri\<close> compute is a field of the records \<open>btc\<close>, \<open>text_api\<close>, \<open>wire_api\<close> and \<open>env\<close>. For the mail
  room these are \<open>gateway_api\<close> (\<open>ohttp\<close> and \<open>bhttp\<close> on the server's side), \<open>uri_api\<close> (the crate
  \<open>http\<close>), \<open>network\<close> and \<open>faults\<close> (what the disk answers); for the command line program the outside
  functions of \<open>cli_setup\<close> (clock, generator, node, HTTP client, connections and statements of the
  database, with the state they share) and \<open>event_json\<close>. The laws that a theorem relies on are
  named predicates (\<open>amounts_ok\<close>, \<open>hpke_laws\<close>, \<open>bech32_laws\<close>, \<open>text_laws\<close>, \<open>rng_ok\<close>, \<open>tunnel_laws\<close>,
  \<open>uri_laws\<close>, \<open>event_json_ok\<close>), and each has an instance on which its witnesses are computed.

  \<^bold>\<open>What the theorems show.\<close>
  \<^item> The sender (\<open>PJ_Send_Facts\<close>, \<open>PJ_Send_Build\<close>): an accepted proposal never pays less than agreed
    to any protected output; exactly which inputs are accepted; what is restored and sanitised.
  \<^item> The receiver (\<open>PJ_Receive_Outputs\<close>, \<open>PJ_Receive_Contribute\<close>, \<open>PJ_Receive_Fees\<close>,
    \<open>PJ_Receive_Facts\<close>, \<open>PJ_Receive_Input\<close>): what each step changes and keeps, that value is
    conserved, which fee is taken from whom, that no reachable typestate makes the fee step index
    out of range, and what is signed and what is let out.
  \<^item> Errors (\<open>PJ_Send_Error\<close>, \<open>PJ_Persist\<close>): replies are recognised and do not tell which private
    check failed; the error of a saved transition tells what the storage holds.
  \<^item> URLs and messages (\<open>PJ_Url_Facts\<close>, \<open>PJ_Wire_Facts\<close>, \<open>PJ_Pj_Uri_Facts\<close>): round trips, sizes, times.
  \<^item> Sessions (\<open>PJ_Session\<close>, \<open>PJ_Receive_Replay\<close>, \<open>PJ_Send_Session\<close>): the locale \<open>event_sourced\<close>
    is the contract between a live machine and its log; it is interpreted for the receiver and for
    the sender. A run's log replays to its state, events come in protocol order, a log is bounded
    (at most twelve events), and a session can always be closed.
  \<^item> Both sides together (\<open>PJ_Exchange\<close>, \<open>PJ_Exchange_V1\<close>, \<open>PJ_Agreement\<close>): the original and its
    parameters arrive as they were sent in both versions, both sides use the same mailboxes, and
    what an honest version 1 receiver proposes passes the sender's checks.
  \<^item> The mail room (\<open>PJ_Mailbox_Run\<close>, \<open>PJ_Mailbox_Facts\<close>, \<open>PJ_Mailbox_Registers\<close>): what holds of
    the mailboxes in every run; they refine registers that are written once and may expire; a
    waiting reader is served; the plaintext of version 1 is handed out once. What a sender posts
    through a gateway is what the receiver polls (\<open>PJ_Directory_Facts\<close>, \<open>PJ_Delivery\<close>). What a relay
    knows of gateways is bounded and up to date (\<open>PJ_Prober\<close>), it forwards to gateways that opted
    in and never to its own mail room (\<open>PJ_Relay_Facts\<close>). Restarts keep the stored key, blocked peers
    reach nothing, and clients cannot add labels to the metrics (\<open>PJ_Mail_Setup_Facts\<close>).
  \<^item> The command line program: \<open>PJ_Cli_Logged\<close> has Hoare triples over the log of one session, and
    the locale \<open>logged_session\<close> of \<open>PJ_Cli_Session_Log\<close> is what a step has to keep; it is
    interpreted for both roles (\<open>PJ_Cli_Receiver_Facts\<close>, \<open>PJ_Cli_Sender_Steps\<close>). Every step, with any
    failure in it, leaves a log that replays to the state of the session
    (\<open>PJ_Cli_Receiver_Steps\<close>, \<open>PJ_Cli_Sender_Steps\<close>), and so do resumed sessions in any interleaving
    (\<open>PJ_Cli_Tasks\<close>, \<open>PJ_Cli_Resume\<close>). Over any series of invocations the database keeps its keys
    unique and loses nothing (\<open>PJ_Cli_Invariant\<close>), and a payment URI starts one session at most
    (\<open>PJ_Cli_Main\<close>). An original that spends a coin of the receiver's wallet is never accepted
    (\<open>PJ_Cli_Wallet_Facts\<close>).

  \<^bold>\<open>Termination and bounds.\<close> The loops of the library and of the mail room are structural recursions
  here, without fuel; digits are printed by a recursion on the number. The loops of the command line
  program over relays and directories are functions whose measure is the number that has not failed
  yet: every round marks one as failed. A session is driven for \<open>n\<close> steps, where \<open>n\<close> says when the
  user interrupts it; statements about sessions hold for every \<open>n\<close>. The monitor of a payment polls
  25 times, as its time limit and its interval have it.

  \<^bold>\<open>Not modelled.\<close> Of the library: the serde, \<open>Display\<close> and \<open>Debug\<close> implementations other than the
  texts that are sent to the peer, the asynchronous copies of \<open>save\<close> and of the replay (the same
  statements with \<open>await\<close>), the coding of bech32 and the parsing of payment URIs around their \<open>pj\<close>
  and \<open>pjos\<close> parameters (crates). Of the mail room: listeners, TLS, name resolution, reading the configuration,
  the export of metrics, and the copying of bytes in a tunnel. Of the command line program: the
  parsing of arguments and configuration, the HTTP server, URI and sender of version 1, and the RPC
  client. The bindings \<open>payjoin-ffi\<close> only convert
  types and forward calls. Tests and fuzz targets are left out.
\<close>

end
